(* ===== verification/Prelude.thy ===== *)
theory Prelude imports Main "HOL-Library.Sublist" begin

text \<open>
  Shared vocabulary of the development.

  A Python function that may raise is a function into \<open>exn + 'a\<close> (\<open>Inl\<close> is the exception);
  a method that also changes durable state is an operation \<open>('s, 'a) op\<close>, which returns the state
  \<^emph>\<open>also when it raises\<close>: what was written before the exception stays written, as in the source.
  The exceptions are the classes the source raises (with the message it gives them) and the
  built-in ones its expressions can raise.

  The second half is the proof support: inversion rules for the monad, and the locale \<open>effect\<close>,
  the contract of a state relation that every step of a program keeps.  It is interpreted once
  per relation (append-only logs, lifecycle, monotone counters) and then gives the whole-program
  statement by a few introduction rules.
\<close>

named_theorems op_unfold \<open>definitions of the primitive operations\<close>
named_theorems op_inv \<open>inversion of successful runs\<close>

section \<open>Exceptions and results\<close>

datatype exn =
    StateStoreError string
  | DurableIOError string
  | LockContendedError string
  | CoordinationError string
  | OperationLedgerError string
  | ReconciliationBlockedError string
  | GitError string
  | ReviewProtocolError string
  | RollbackError string
  | TaskLoadError string
  | TelegramError string
  | AttemptError string
  | ModelProviderError string
  | ProjectSpecError string
  | RoleProfileError string
  | SupervisorChatError string
  | A2AError string
  | A2APushError string
  | HeadlessServerError string
  | CriticAdapterError string
  | WorkerAdapterError string
  | UpdateError string
  | SignedCatalogError string
  | OSError string
  | ValueError string
  | KeyError string
  | TypeError
  | AttributeError
  | IndexError
  | StopIteration
  | OverflowError
  | BadZipFile

fun exn_message :: "exn \<Rightarrow> string" where
  "exn_message (StateStoreError m) = m"
| "exn_message (DurableIOError m) = m"
| "exn_message (LockContendedError m) = m"
| "exn_message (CoordinationError m) = m"
| "exn_message (OperationLedgerError m) = m"
| "exn_message (ReconciliationBlockedError m) = m"
| "exn_message (GitError m) = m"
| "exn_message (ReviewProtocolError m) = m"
| "exn_message (RollbackError m) = m"
| "exn_message (TaskLoadError m) = m"
| "exn_message (TelegramError m) = m"
| "exn_message (AttemptError m) = m"
| "exn_message (ModelProviderError m) = m"
| "exn_message (ProjectSpecError m) = m"
| "exn_message (RoleProfileError m) = m"
| "exn_message (SupervisorChatError m) = m"
| "exn_message (A2AError m) = m"
| "exn_message (A2APushError m) = m"
| "exn_message (HeadlessServerError m) = m"
| "exn_message (CriticAdapterError m) = m"
| "exn_message (WorkerAdapterError m) = m"
| "exn_message (UpdateError m) = m"
| "exn_message (SignedCatalogError m) = m"
| "exn_message (OSError m) = m"
| "exn_message (ValueError m) = m"
| "exn_message (KeyError m) = m"
| "exn_message _ = []"

type_synonym 'a res = "exn + 'a"
type_synonym ('s, 'a) op = "'s \<Rightarrow> (exn + 'a) \<times> 's"

definition rbind :: "'a res \<Rightarrow> ('a \<Rightarrow> 'b res) \<Rightarrow> 'b res" where
  "rbind r k = (case r of Inl e \<Rightarrow> Inl e | Inr x \<Rightarrow> k x)"

definition check :: "bool \<Rightarrow> exn \<Rightarrow> unit res" where
  "check b e = (if b then Inr () else Inl e)"

text \<open>A comprehension \<open>[f(x) for x in xs]\<close> whose body may raise: the first exception wins.\<close>

fun mapE :: "('a \<Rightarrow> 'b res) \<Rightarrow> 'a list \<Rightarrow> 'b list res" where
  "mapE f [] = Inr []"
| "mapE f (x # xs) =
     (case f x of
        Inl e \<Rightarrow> Inl e
      | Inr y \<Rightarrow> (case mapE f xs of Inl e \<Rightarrow> Inl e | Inr ys \<Rightarrow> Inr (y # ys)))"

lemma rbind_simps [simp]:
  "rbind (Inl e) k = Inl e" "rbind (Inr x) k = k x"
  by (simp_all add: rbind_def)

lemma rbind_Inr_iff: "rbind r k = Inr y \<longleftrightarrow> (\<exists>x. r = Inr x \<and> k x = Inr y)"
  by (cases r) auto

lemma check_Inr_iff [simp]: "check b e = Inr u \<longleftrightarrow> b"
  by (simp add: check_def)

lemma check_simps [simp]: "check True e = Inr ()" "check False e = Inl e"
  by (simp_all add: check_def)

lemma mapE_Cons_Inr_iff:
  "mapE f (x # xs) = Inr ys \<longleftrightarrow> (\<exists>z zs. f x = Inr z \<and> mapE f xs = Inr zs \<and> ys = z # zs)"
  by (auto split: sum.splits)

lemma mapE_Inr_iff: "mapE f xs = Inr ys \<longleftrightarrow> list_all2 (\<lambda>x y. f x = Inr y) xs ys"
proof (induction xs arbitrary: ys)
  case Nil
  show ?case by auto
next
  case (Cons x xs)
  show ?case unfolding mapE_Cons_Inr_iff Cons.IH list_all2_Cons1 by blast
qed

lemma mapE_map_Inr: "(\<And>x. x \<in> set xs \<Longrightarrow> f (g x) = Inr (h x)) \<Longrightarrow> mapE f (map g xs) = Inr (map h xs)"
  by (induction xs) auto

lemma mapE_append:
  "mapE f (xs @ ys) = rbind (mapE f xs) (\<lambda>a. rbind (mapE f ys) (\<lambda>b. Inr (a @ b)))"
  by (induction xs) (auto simp: rbind_def split: sum.splits)

section \<open>Operations on a state\<close>

definition ret :: "'a \<Rightarrow> ('s, 'a) op" where
  "ret x = (\<lambda>s. (Inr x, s))"

definition raise :: "exn \<Rightarrow> ('s, 'a) op" where
  "raise e = (\<lambda>s. (Inl e, s))"

definition mbind :: "('s, 'a) op \<Rightarrow> ('a \<Rightarrow> ('s, 'b) op) \<Rightarrow> ('s, 'b) op" where
  "mbind m k = (\<lambda>s. case m s of (Inl e, s') \<Rightarrow> (Inl e, s') | (Inr x, s') \<Rightarrow> k x s')"

definition mseq :: "('s, 'a) op \<Rightarrow> ('s, 'b) op \<Rightarrow> ('s, 'b) op" where
  "mseq m k = mbind m (\<lambda>_. k)"

definition gets :: "('s \<Rightarrow> 'a res) \<Rightarrow> ('s, 'a) op" where
  "gets f = (\<lambda>s. (f s, s))"

definition lift_res :: "'a res \<Rightarrow> ('s, 'a) op" where
  "lift_res r = (\<lambda>s. (r, s))"

definition require :: "bool \<Rightarrow> exn \<Rightarrow> ('s, unit) op" where
  "require b e = (if b then ret () else raise e)"

text \<open>\<open>except E as exc: raise F(str(exc))\<close>: every exception is sent through \<open>h\<close>.\<close>

definition map_exn :: "(exn \<Rightarrow> exn) \<Rightarrow> ('s, 'a) op \<Rightarrow> ('s, 'a) op" where
  "map_exn h m = (\<lambda>s. case m s of (Inl e, s') \<Rightarrow> (Inl (h e), s') | (Inr x, s') \<Rightarrow> (Inr x, s'))"

text \<open>\<open>except E as exc: return ...\<close>: the handler is an operation of its own.\<close>

definition catch :: "('s, 'a) op \<Rightarrow> (exn \<Rightarrow> ('s, 'a) op) \<Rightarrow> ('s, 'a) op" where
  "catch m h = (\<lambda>s. case m s of (Inl e, s') \<Rightarrow> h e s' | (Inr x, s') \<Rightarrow> (Inr x, s'))"

fun mmap :: "('a \<Rightarrow> ('s, 'b) op) \<Rightarrow> 'a list \<Rightarrow> ('s, 'b list) op" where
  "mmap f [] = ret []"
| "mmap f (x # xs) = mbind (f x) (\<lambda>y. mbind (mmap f xs) (\<lambda>ys. ret (y # ys)))"

lemma run_simps [simp]:
  "ret x s = (Inr x, s)"
  "raise e s = (Inl e, s)"
  "gets f s = (f s, s)"
  "lift_res r s = (r, s)"
  "require True e = ret ()"
  "require False e = raise e"
  by (simp_all add: ret_def raise_def gets_def lift_res_def require_def)

lemma mbind_ret [simp]: "mbind (ret x) k = k x"
  by (simp add: mbind_def ret_def)

lemma mbind_raise [simp]: "mbind (raise e) k = raise e"
  by (simp add: mbind_def raise_def)

lemma mseq_simps [simp]: "mseq (ret x) k = k" "mseq (raise e) k = raise e"
  by (simp_all add: mseq_def)

lemma mbind_run:
  "m s = (Inr x, s') \<Longrightarrow> mbind m k s = k x s'"
  "m s = (Inl e, s') \<Longrightarrow> mbind m k s = (Inl e, s')"
  by (simp_all add: mbind_def)

lemma mseq_run:
  "m s = (Inr x, s') \<Longrightarrow> mseq m k s = k s'"
  "m s = (Inl e, s') \<Longrightarrow> mseq m k s = (Inl e, s')"
  by (simp_all add: mseq_def mbind_def)

lemma mbind_gets [simp]:
  "mbind (gets f) k s = (case f s of Inl e \<Rightarrow> (Inl e, s) | Inr x \<Rightarrow> k x s)"
  by (simp add: mbind_def gets_def split: sum.splits)

lemma mbind_lift_res [simp]:
  "mbind (lift_res r) k s = (case r of Inl e \<Rightarrow> (Inl e, s) | Inr x \<Rightarrow> k x s)"
  by (simp add: mbind_def lift_res_def split: sum.splits)

lemma mbind_require [simp]:
  "mbind (require b e) k = (if b then k () else raise e)"
  by simp

lemma mseq_require [simp]:
  "mseq (require b e) k = (if b then k else raise e)"
  by (simp add: mseq_def)

lemma mbind_Inr_iff:
  "mbind m k s = (Inr y, s') \<longleftrightarrow> (\<exists>x s1. m s = (Inr x, s1) \<and> k x s1 = (Inr y, s'))"
  by (auto simp: mbind_def split: prod.splits sum.splits)

lemma mseq_Inr_iff:
  "mseq m k s = (Inr y, s') \<longleftrightarrow> (\<exists>x s1. m s = (Inr x, s1) \<and> k s1 = (Inr y, s'))"
  by (simp add: mseq_def mbind_Inr_iff)

lemma map_exn_Inr_iff [simp]: "map_exn h m s = (Inr x, s') \<longleftrightarrow> m s = (Inr x, s')"
  by (auto simp: map_exn_def split: prod.splits sum.splits)

lemma require_Inr_iff: "require b e s = (Inr u, s') \<longleftrightarrow> b \<and> s' = s"
  by (cases b) auto

lemma snd_map_exn [simp]: "snd (map_exn h m s) = snd (m s)"
  by (auto simp: map_exn_def split: prod.splits sum.splits)

lemmas op_inv_rules = mbind_Inr_iff mseq_Inr_iff require_Inr_iff

section \<open>Relations every step keeps\<close>

text \<open>
  \<open>within R m\<close>: whatever the operation \<open>m\<close> does, also when it raises, the state before and the
  state after are related by \<open>R\<close>.
\<close>

definition within :: "('s \<Rightarrow> 's \<Rightarrow> bool) \<Rightarrow> ('s, 'a) op \<Rightarrow> bool" where
  "within R m \<longleftrightarrow> (\<forall>s. R s (snd (m s)))"

lemma withinD: "within R m \<Longrightarrow> m s = (r, s') \<Longrightarrow> R s s'"
  by (metis within_def snd_conv)

text \<open>The same under a condition on the state before, and operations that only read.\<close>

definition within_given :: "('s \<Rightarrow> bool) \<Rightarrow> ('s \<Rightarrow> 's \<Rightarrow> bool) \<Rightarrow> ('s, 'a) op \<Rightarrow> bool" where
  "within_given P R m \<longleftrightarrow> (\<forall>s. P s \<longrightarrow> R s (snd (m s)))"

definition reading :: "('s, 'a) op \<Rightarrow> bool" where
  "reading m \<longleftrightarrow> (\<forall>s. snd (m s) = s)"

lemma reading_state: "m s = (r, s') \<Longrightarrow> reading m \<Longrightarrow> s' = s"
  by (metis reading_def snd_conv)

lemma within_givenI: "(\<And>s. P s \<Longrightarrow> R s (snd (m s))) \<Longrightarrow> within_given P R m"
  by (simp add: within_given_def)

lemma within_given_mono: "within_given Q R m \<Longrightarrow> (\<And>s. P s \<Longrightarrow> Q s) \<Longrightarrow> within_given P R m"
  by (simp add: within_given_def)

lemma within_given_if:
  "(b \<Longrightarrow> within_given P R m) \<Longrightarrow> (\<not> b \<Longrightarrow> within_given P R k) \<Longrightarrow> within_given P R (if b then m else k)"
  by simp

lemma reading_intros:
  "reading (ret x)" "reading (raise e)" "reading (gets f)" "reading (lift_res r)" "reading (require b e)"
  by (simp_all add: reading_def require_def)

lemma reading_option: "reading m \<Longrightarrow> (\<And>x. reading (k x)) \<Longrightarrow> reading (case o' of None \<Rightarrow> m | Some x \<Rightarrow> k x)"
  by (cases o') simp_all

locale effect =
  fixes R :: "'s \<Rightarrow> 's \<Rightarrow> bool"
  assumes R_refl: "R s s"
    and R_trans: "R s t \<Longrightarrow> R t u \<Longrightarrow> R s u"
begin

lemma within_ret: "within R (ret x)"
  by (simp add: within_def R_refl)

lemma within_raise: "within R (raise e)"
  by (simp add: within_def R_refl)

lemma within_gets: "within R (gets f)"
  by (simp add: within_def R_refl)

lemma within_lift: "within R (lift_res r)"
  by (simp add: within_def R_refl)

lemma within_require: "within R (require b e)"
  by (cases b) (simp_all add: within_ret within_raise)

lemma within_bind: "within R m \<Longrightarrow> (\<And>x. within R (k x)) \<Longrightarrow> within R (mbind m k)"
  by (auto simp: within_def mbind_def split: prod.splits sum.splits)
     (metis snd_conv R_trans)+

lemma within_seq: "within R m \<Longrightarrow> within R k \<Longrightarrow> within R (mseq m k)"
  by (simp add: mseq_def within_bind)

lemma within_map_exn: "within R m \<Longrightarrow> within R (map_exn h m)"
  by (simp add: within_def)

lemma within_catch: "within R m \<Longrightarrow> (\<And>e. within R (h e)) \<Longrightarrow> within R (catch m h)"
  by (auto simp: within_def catch_def split: prod.splits sum.splits)
     (metis snd_conv R_trans)+

lemma within_if:
  "(b \<Longrightarrow> within R m) \<Longrightarrow> (\<not> b \<Longrightarrow> within R k) \<Longrightarrow> within R (if b then m else k)"
  by simp

lemma within_option:
  "within R m \<Longrightarrow> (\<And>x. within R (k x)) \<Longrightarrow> within R (case o' of None \<Rightarrow> m | Some x \<Rightarrow> k x)"
  by (cases o') simp_all

lemma within_list:
  "within R m \<Longrightarrow> (\<And>x xs. within R (k x xs)) \<Longrightarrow> within R (case l of [] \<Rightarrow> m | x # xs \<Rightarrow> k x xs)"
  by (cases l) simp_all

lemma within_prod:
  "(\<And>a b. within R (k a b)) \<Longrightarrow> within R (case p of (a, b) \<Rightarrow> k a b)"
  by (cases p) simp

lemma within_let: "(\<And>x. within R (k x)) \<Longrightarrow> within R (Let v k)"
  by (simp add: Let_def)

lemma within_mmap: "(\<And>x. within R (f x)) \<Longrightarrow> within R (mmap f xs)"
  by (induction xs) (auto intro: within_ret within_bind)

lemma within_lift_bind: "(\<And>x. r = Inr x \<Longrightarrow> within R (k x)) \<Longrightarrow> within R (mbind (lift_res r) k)"
  by (cases r) (auto simp: within_def R_refl)

lemma given_within: "within R m \<Longrightarrow> within_given P R m"
  by (simp add: within_given_def within_def)

lemma within_gets_given:
  "(\<And>x. within_given (\<lambda>s. f s = Inr x) R (k x)) \<Longrightarrow> within R (mbind (gets f) k)"
  by (auto simp: within_given_def within_def R_refl split: sum.splits)

lemma given_gets:
  "(\<And>x. within_given (\<lambda>s. P s \<and> f s = Inr x) R (k x)) \<Longrightarrow> within_given P R (mbind (gets f) k)"
  by (auto simp: within_given_def R_refl split: sum.splits)

lemma given_require: "(b \<Longrightarrow> within_given P R k) \<Longrightarrow> within_given P R (mseq (require b e) k)"
  by (auto simp: within_given_def R_refl)

lemma given_reading: "reading m \<Longrightarrow> within_given P R k \<Longrightarrow> within_given P R (mseq m k)"
  unfolding within_given_def mseq_def mbind_def
  by (auto simp: R_refl dest: reading_state split: prod.splits sum.splits)

lemma given_bind: "within_given P R m \<Longrightarrow> (\<And>x. within R (k x)) \<Longrightarrow> within_given P R (mbind m k)"
  unfolding within_given_def within_def mbind_def
  by (auto split: prod.splits sum.splits) (metis snd_conv R_trans)+

lemmas within_intros =
  within_ret within_raise within_gets within_lift within_require within_bind within_seq
  within_map_exn within_catch within_if within_option within_list within_prod within_let
  within_mmap

end

text \<open>An invariant is the relation \<open>I s \<longrightarrow> I t\<close>.\<close>

definition keeping :: "('s \<Rightarrow> bool) \<Rightarrow> 's \<Rightarrow> 's \<Rightarrow> bool" where
  "keeping I s t \<longleftrightarrow> (I s \<longrightarrow> I t)"

interpretation keep: effect "keeping I" for I
  by unfold_locales (auto simp: keeping_def)

lemma within_keepingD: "within (keeping I) m \<Longrightarrow> I s \<Longrightarrow> m s = (r, s') \<Longrightarrow> I s'"
  using withinD unfolding keeping_def by metis

section \<open>Lists\<close>

text \<open>Python's \<open>next((x for x in xs if p(x)), None)\<close> is \<open>List.find\<close>.\<close>

lemma find_append:
  "List.find p (xs @ ys) = (case List.find p xs of None \<Rightarrow> List.find p ys | Some x \<Rightarrow> Some x)"
  by (induction xs) auto

lemma find_SomeD: "List.find p xs = Some x \<Longrightarrow> x \<in> set xs \<and> p x"
  by (induction xs) (auto split: if_splits)

lemma find_NoneD: "List.find p xs = None \<Longrightarrow> x \<in> set xs \<Longrightarrow> \<not> p x"
  by (induction xs) (auto split: if_splits)

text \<open>\<open>dict.fromkeys(xs)\<close>: the distinct elements in order of first occurrence.\<close>

fun dedup :: "'a list \<Rightarrow> 'a list" where
  "dedup [] = []"
| "dedup (x # xs) = x # filter (\<lambda>y. y \<noteq> x) (dedup xs)"

lemma set_dedup [simp]: "set (dedup xs) = set xs"
  by (induction xs) auto

lemma distinct_dedup [simp]: "distinct (dedup xs)"
  by (induction xs) auto

lemma dedup_eq_Nil [simp]: "dedup xs = [] \<longleftrightarrow> xs = []"
  by (cases xs) auto

lemma prefix_trans_append: "prefix xs (xs @ ys)"
  by simp

end
