(* ===== verification/Py_Str.thy ===== *)
theory Py_Str imports Prelude "HOL-Library.Char_ord" begin

text \<open>
  The methods of Python's \<open>str\<close> that the program uses.

  A Python string is a \<^typ>\<open>string\<close>: a list of code points below 256 (Latin-1).  On that range the
  functions below agree with CPython, character class by character class (\<open>isspace\<close>, \<open>splitlines\<close>,
  \<open>isalnum\<close>, \<open>isdigit\<close>, \<open>casefold\<close>); the one exception is the micro sign, whose \<open>casefold\<close> lies outside
  the range and is left unchanged.  Code points from 256 on are not modelled.
\<close>

section \<open>Character classes\<close>

definition code :: "char \<Rightarrow> nat" where
  "code c = of_char c"

definition is_space :: "char \<Rightarrow> bool" where
  "is_space c \<longleftrightarrow> (let n = code c in
     (9 \<le> n \<and> n \<le> 13) \<or> (28 \<le> n \<and> n \<le> 32) \<or> n = 133 \<or> n = 160)"

definition is_linebreak :: "char \<Rightarrow> bool" where
  "is_linebreak c \<longleftrightarrow> (let n = code c in
     (10 \<le> n \<and> n \<le> 13) \<or> (28 \<le> n \<and> n \<le> 30) \<or> n = 133)"

definition is_ascii_digit :: "char \<Rightarrow> bool" where
  "is_ascii_digit c \<longleftrightarrow> (let n = code c in 48 \<le> n \<and> n \<le> 57)"

definition is_ascii_upper :: "char \<Rightarrow> bool" where
  "is_ascii_upper c \<longleftrightarrow> (let n = code c in 65 \<le> n \<and> n \<le> 90)"

definition is_ascii_lower :: "char \<Rightarrow> bool" where
  "is_ascii_lower c \<longleftrightarrow> (let n = code c in 97 \<le> n \<and> n \<le> 122)"

definition is_digit :: "char \<Rightarrow> bool" where
  "is_digit c \<longleftrightarrow> is_ascii_digit c \<or> code c \<in> {178, 179, 185}"

definition is_alnum :: "char \<Rightarrow> bool" where
  "is_alnum c \<longleftrightarrow> is_ascii_digit c \<or> is_ascii_upper c \<or> is_ascii_lower c \<or>
     (let n = code c in n \<in> {170, 178, 179, 181, 185, 186, 188, 189, 190} \<or>
        (192 \<le> n \<and> n \<noteq> 215 \<and> n \<noteq> 247))"

definition is_printable :: "char \<Rightarrow> bool" where
  "is_printable c \<longleftrightarrow> (let n = code c in 32 \<le> n \<and> \<not> (127 \<le> n \<and> n \<le> 160) \<and> n \<noteq> 173)"

definition fold_char :: "char \<Rightarrow> string" where
  "fold_char c = (let n = code c in
     if n = 223 then ''ss''
     else if (65 \<le> n \<and> n \<le> 90) \<or> (192 \<le> n \<and> n \<le> 222 \<and> n \<noteq> 215) then [char_of (n + 32)]
     else [c])"

definition lower_char :: "char \<Rightarrow> char" where
  "lower_char c = (let n = code c in
     if (65 \<le> n \<and> n \<le> 90) \<or> (192 \<le> n \<and> n \<le> 222 \<and> n \<noteq> 215) then char_of (n + 32) else c)"

section \<open>Methods of \<open>str\<close>\<close>

definition casefold :: "string \<Rightarrow> string" where
  "casefold s = concat (map fold_char s)"

definition lower :: "string \<Rightarrow> string" where
  "lower s = map lower_char s"

definition lstrip :: "string \<Rightarrow> string" where
  "lstrip s = dropWhile is_space s"

definition rstrip :: "string \<Rightarrow> string" where
  "rstrip s = rev (dropWhile is_space (rev s))"

definition strip :: "string \<Rightarrow> string" where
  "strip s = rstrip (lstrip s)"

definition strip_char :: "char \<Rightarrow> string \<Rightarrow> string" where
  "strip_char c s = rev (dropWhile (\<lambda>x. x = c) (rev (dropWhile (\<lambda>x. x = c) s)))"

definition rstrip_char :: "char \<Rightarrow> string \<Rightarrow> string" where
  "rstrip_char c s = rev (dropWhile (\<lambda>x. x = c) (rev s))"

definition startswith :: "string \<Rightarrow> string \<Rightarrow> bool" where
  "startswith s p \<longleftrightarrow> take (length p) s = p"

definition endswith :: "string \<Rightarrow> string \<Rightarrow> bool" where
  "endswith s p \<longleftrightarrow> startswith (rev s) (rev p)"

definition replace_char :: "char \<Rightarrow> char \<Rightarrow> string \<Rightarrow> string" where
  "replace_char a b s = map (\<lambda>c. if c = a then b else c) s"

text \<open>\<open>s.split(c)\<close> on a single-character separator, and \<open>s.split()\<close> on runs of whitespace.\<close>

fun split_char :: "char \<Rightarrow> string \<Rightarrow> string list" where
  "split_char c [] = [[]]"
| "split_char c (x # xs) =
     (if x = c then [] # split_char c xs
      else (case split_char c xs of [] \<Rightarrow> [[x]] | p # ps \<Rightarrow> (x # p) # ps))"

function split_ws :: "string \<Rightarrow> string list" where
  "split_ws [] = []"
| "split_ws (x # xs) =
     (if is_space x then split_ws xs
      else (x # takeWhile (\<lambda>c. \<not> is_space c) xs) # split_ws (dropWhile (\<lambda>c. \<not> is_space c) xs))"
  by pat_completeness auto
termination
  by (relation "measure length") (auto simp: le_imp_less_Suc length_dropWhile_le)

text \<open>\<open>s.split(c, 1)\<close>: the part before the first separator and what follows it.\<close>

definition split_once :: "char \<Rightarrow> string \<Rightarrow> string \<times> string option" where
  "split_once c s = (takeWhile (\<lambda>x. x \<noteq> c) s,
     (case dropWhile (\<lambda>x. x \<noteq> c) s of [] \<Rightarrow> None | _ # r \<Rightarrow> Some r))"

fun join :: "string \<Rightarrow> string list \<Rightarrow> string" where
  "join sep [] = []"
| "join sep [x] = x"
| "join sep (x # y # zs) = x @ sep @ join sep (y # zs)"

text \<open>\<open>s.splitlines()\<close>: CR LF is one line break; no empty last line after a final break.\<close>

function splitlines :: "string \<Rightarrow> string list" where
  "splitlines [] = []"
| "splitlines (c # s) =
     (if is_linebreak c then
        [] # splitlines (if c = CHR 0x0D \<and> s \<noteq> [] \<and> hd s = CHR 0x0A then tl s else s)
      else (case splitlines s of [] \<Rightarrow> [[c]] | l # ls \<Rightarrow> (c # l) # ls))"
  by pat_completeness auto
termination
  by (relation "measure length") auto

section \<open>Numbers\<close>

definition digit_char :: "nat \<Rightarrow> char" where
  "digit_char d = char_of (48 + d)"

definition digit_val :: "char \<Rightarrow> nat" where
  "digit_val c = code c - 48"

fun str_nat :: "nat \<Rightarrow> string" where
  "str_nat n = (if n < 10 then [digit_char n] else str_nat (n div 10) @ [digit_char (n mod 10)])"

declare str_nat.simps [simp del]

definition str_int :: "int \<Rightarrow> string" where
  "str_int i = (if i < 0 then ''-'' @ str_nat (nat (- i)) else str_nat (nat i))"

definition nat_of_digits :: "string \<Rightarrow> nat" where
  "nat_of_digits = foldl (\<lambda>n c. 10 * n + digit_val c) 0"

text \<open>\<open>int(s)\<close>: surrounding blanks, one sign, digits with single underscores between them.\<close>

definition int_space :: "char \<Rightarrow> bool" where
  "int_space c \<longleftrightarrow> (let n = code c in (9 \<le> n \<and> n \<le> 13) \<or> n = 32 \<or> n = 133 \<or> n = 160)"

fun int_digits :: "string \<Rightarrow> string option" where
  "int_digits [] = None"
| "int_digits [c] = (if is_ascii_digit c then Some [c] else None)"
| "int_digits (c # d # s) =
     (if \<not> is_ascii_digit c then None
      else if d = CHR ''_'' then map_option ((#) c) (int_digits s)
      else map_option ((#) c) (int_digits (d # s)))"

definition parse_int :: "string \<Rightarrow> int option" where
  "parse_int s =
     (let t = rev (dropWhile int_space (rev (dropWhile int_space s))) in
      (case t of
         [] \<Rightarrow> None
       | c # r \<Rightarrow>
           (if c = CHR ''-'' then map_option (\<lambda>ds. - int (nat_of_digits ds)) (int_digits r)
            else if c = CHR ''+'' then map_option (\<lambda>ds. int (nat_of_digits ds)) (int_digits r)
            else map_option (\<lambda>ds. int (nat_of_digits ds)) (int_digits t))))"

section \<open>Names of files and references\<close>

definition ref_char :: "char \<Rightarrow> bool" where
  "ref_char c \<longleftrightarrow> is_ascii_digit c \<or> is_ascii_upper c \<or> is_ascii_lower c \<or> c \<in> set ''._-''"

text \<open>\<open>re.sub(r"[^A-Za-z0-9._-]+", "-", value)\<close>; the flag says that a dash already stands for this run.\<close>

fun dash_runs :: "bool \<Rightarrow> string \<Rightarrow> string" where
  "dash_runs inside [] = []"
| "dash_runs inside (c # cs) =
     (if ref_char c then c # dash_runs False cs
      else if inside then dash_runs True cs else CHR ''-'' # dash_runs True cs)"

definition strip_set :: "string \<Rightarrow> string \<Rightarrow> string" where
  "strip_set cs s = rev (dropWhile (\<lambda>c. c \<in> set cs) (rev (dropWhile (\<lambda>c. c \<in> set cs) s)))"

text \<open>\<open>f"{n:03d}"\<close>\<close>

definition pad3 :: "nat \<Rightarrow> string" where
  "pad3 n = (if n < 10 then ''00'' else if n < 100 then ''0'' else []) @ str_nat n"

section \<open>Facts\<close>

lemma strip_Nil [simp]: "strip [] = []"
  by (simp add: strip_def lstrip_def rstrip_def)

lemma startswith_iff_prefix: "startswith s p \<longleftrightarrow> prefix p s"
  by (metis append_take_drop_id append_eq_conv_conj prefix_def startswith_def)

lemma startswith_append [simp]: "startswith (p @ s) p"
  by (simp add: startswith_def)

lemma startswith_Nil [simp]: "startswith s []"
  by (simp add: startswith_def)

lemma startswithE:
  assumes "startswith s p"
  obtains t where "s = p @ t"
  using assms by (auto simp: startswith_iff_prefix prefix_def)

lemma rstrip_append_nonspace: "\<not> is_space c \<Longrightarrow> rstrip (s @ [c]) = s @ [c]"
  by (simp add: rstrip_def)

lemma rstrip_space: "is_space c \<Longrightarrow> rstrip (s @ [c]) = rstrip s"
  by (simp add: rstrip_def)

lemma digit_char_digit [simp]: "d < 10 \<Longrightarrow> is_ascii_digit (digit_char d)"
  by (simp add: is_ascii_digit_def digit_char_def code_def)

lemma digit_val_char [simp]: "d < 10 \<Longrightarrow> digit_val (digit_char d) = d"
  by (simp add: digit_val_def digit_char_def code_def)

lemma nat_of_digits_snoc: "nat_of_digits (s @ [c]) = 10 * nat_of_digits s + digit_val c"
  by (simp add: nat_of_digits_def)

lemma nat_of_digits_str_nat [simp]: "nat_of_digits (str_nat n) = n"
proof (induction n rule: str_nat.induct)
  case (1 n)
  show ?case
  proof (cases "n < 10")
    case True
    then show ?thesis
      by (simp add: str_nat.simps [of n] nat_of_digits_def)
  next
    case False
    with 1 have "nat_of_digits (str_nat n) = 10 * (n div 10) + n mod 10"
      by (simp add: str_nat.simps [of n] nat_of_digits_snoc)
    then show ?thesis by simp
  qed
qed

lemma str_nat_digits: "list_all is_ascii_digit (str_nat n)"
proof (induction n rule: str_nat.induct)
  case (1 n)
  then show ?case by (cases "n < 10") (simp_all add: str_nat.simps [of n])
qed

lemma str_nat_nonempty [simp]: "str_nat n \<noteq> []"
  by (simp add: str_nat.simps [of n])

lemma str_nat_inject [simp]: "str_nat m = str_nat n \<longleftrightarrow> m = n"
  by (metis nat_of_digits_str_nat)

lemma digits_no_minus: "list_all is_ascii_digit s \<Longrightarrow> CHR ''-'' \<notin> set s"
  by (auto simp: list_all_iff is_ascii_digit_def code_def)

lemma str_int_inject [simp]: "str_int i = str_int j \<longleftrightarrow> i = j"
proof -
  have neg: "''-'' @ str_nat m \<noteq> str_nat n" for m n
    using digits_no_minus [OF str_nat_digits, of n] by (metis append_Cons list.set_intros(1))
  show ?thesis
    using neg neg [symmetric] by (auto simp: str_int_def)
qed

lemma int_digits_all: "s \<noteq> [] \<Longrightarrow> list_all is_ascii_digit s \<Longrightarrow> int_digits s = Some s"
proof (induction s rule: int_digits.induct)
  case (3 c d s)
  have "d \<noteq> CHR ''_''" using "3.prems" by (auto simp: is_ascii_digit_def code_def)
  with 3 show ?case by simp
qed auto

lemma digit_not_int_space: "is_ascii_digit c \<Longrightarrow> \<not> int_space c"
  by (auto simp: is_ascii_digit_def int_space_def code_def Let_def)

lemma dropWhile_digits: "list_all is_ascii_digit s \<Longrightarrow> dropWhile int_space s = s"
  by (cases s) (auto simp: digit_not_int_space)

lemma parse_int_digits:
  assumes "s \<noteq> []" and d: "list_all is_ascii_digit s"
  shows "parse_int s = Some (int (nat_of_digits s))"
proof -
  obtain c r where s: "s = c # r" using assms by (cases s) auto
  have c: "c \<noteq> CHR ''-''" "c \<noteq> CHR ''+''"
    using d by (auto simp: s is_ascii_digit_def code_def)
  have "list_all is_ascii_digit (rev s)" using d by simp
  then have t: "rev (dropWhile int_space (rev (dropWhile int_space s))) = s"
    using d by (simp add: dropWhile_digits)
  have "int_digits s = Some s" using assms by (rule int_digits_all)
  then show ?thesis
    unfolding parse_int_def t Let_def using c by (simp add: s)
qed

lemma parse_int_neg_digits:
  assumes "s \<noteq> []" and d: "list_all is_ascii_digit s"
  shows "parse_int (CHR ''-'' # s) = Some (- int (nat_of_digits s))"
proof -
  obtain x xs where x: "rev s = x # xs" using assms(1) by (cases "rev s") auto
  have "x \<in> set s" using x by (metis list.set_intros(1) set_rev)
  then have "\<not> int_space x" using d by (auto simp: list_all_iff digit_not_int_space)
  moreover have m: "\<not> int_space CHR ''-''" by (simp add: int_space_def code_def)
  ultimately have t:
    "rev (dropWhile int_space (rev (dropWhile int_space (CHR ''-'' # s)))) = CHR ''-'' # s"
    using x by (metis append_Cons dropWhile.simps(2) rev.simps(2) rev_rev_ident)
  have "int_digits s = Some s" using assms by (rule int_digits_all)
  then show ?thesis
    unfolding parse_int_def t Let_def by simp
qed

text \<open>\<open>int(str(i)) = i\<close>.\<close>

lemma parse_int_str_int [simp]: "parse_int (str_int i) = Some i"
  using str_nat_digits
  by (simp add: str_int_def parse_int_digits parse_int_neg_digits)

lemma join_cons: "join sep (x # xs) = x @ (if xs = [] then [] else sep @ join sep xs)"
  by (cases xs) auto

end
