(* ===== verification/Py_Json.thy ===== *)
theory Py_Json imports Py_Str begin

text \<open>
  The values \<open>json.loads\<close> produces and what the program does with them: \<open>dict.get\<close>, subscripting,
  truthiness, \<open>str(x)\<close>, \<open>int(x)\<close>, iteration.  An object is an association list in insertion order
  (an earlier binding wins in the look-up, so a list with distinct keys is a \<open>dict\<close>).  Numbers are
  integers; a JSON number with a fraction or an exponent has no counterpart here.
\<close>

datatype json =
    JNull
  | JBool bool
  | JInt int
  | JStr string
  | JList "json list"
  | JObj "(string \<times> json) list"

type_synonym jobj = "(string \<times> json) list"

section \<open>Access\<close>

definition jget_or :: "jobj \<Rightarrow> string \<Rightarrow> json \<Rightarrow> json" where
  "jget_or kvs k d = (case map_of kvs k of None \<Rightarrow> d | Some v \<Rightarrow> v)"

definition jget :: "jobj \<Rightarrow> string \<Rightarrow> json" where
  "jget kvs k = jget_or kvs k JNull"

definition jitem :: "jobj \<Rightarrow> string \<Rightarrow> json res" where
  "jitem kvs k = (case map_of kvs k of None \<Rightarrow> Inl (KeyError k) | Some v \<Rightarrow> Inr v)"

fun truthy :: "json \<Rightarrow> bool" where
  "truthy JNull = False"
| "truthy (JBool b) = b"
| "truthy (JInt i) = (i \<noteq> 0)"
| "truthy (JStr s) = (s \<noteq> [])"
| "truthy (JList xs) = (xs \<noteq> [])"
| "truthy (JObj kvs) = (kvs \<noteq> [])"

text \<open>\<open>x or y\<close>\<close>

definition jor :: "json \<Rightarrow> json \<Rightarrow> json" where
  "jor x y = (if truthy x then x else y)"

section \<open>Conversions\<close>

definition hex_digit :: "nat \<Rightarrow> char" where
  "hex_digit d = (if d < 10 then char_of (48 + d) else char_of (87 + d))"

definition repr_char :: "char \<Rightarrow> char \<Rightarrow> string" where
  "repr_char q c =
     (if c = q \<or> c = CHR 0x5C then [CHR 0x5C, c]
      else if c = CHR 0x09 then [CHR 0x5C, CHR ''t'']
      else if c = CHR 0x0A then [CHR 0x5C, CHR ''n'']
      else if c = CHR 0x0D then [CHR 0x5C, CHR ''r'']
      else if is_printable c then [c]
      else [CHR 0x5C, CHR ''x'', hex_digit (code c div 16), hex_digit (code c mod 16)])"

definition repr_str :: "string \<Rightarrow> string" where
  "repr_str s =
     (let q = (if CHR 0x27 \<in> set s \<and> CHR 0x22 \<notin> set s then CHR 0x22 else CHR 0x27)
      in q # concat (map (repr_char q) s) @ [q])"

fun py_repr :: "json \<Rightarrow> string" where
  "py_repr JNull = ''None''"
| "py_repr (JBool b) = (if b then ''True'' else ''False'')"
| "py_repr (JInt i) = str_int i"
| "py_repr (JStr s) = repr_str s"
| "py_repr (JList xs) = ''['' @ join '', '' (map py_repr xs) @ '']''"
| "py_repr (JObj kvs) = ''{'' @ join '', '' (map (\<lambda>(k, v). repr_str k @ '': '' @ py_repr v) kvs) @ ''}''"

definition py_str :: "json \<Rightarrow> string" where
  "py_str j = (case j of JStr s \<Rightarrow> s | _ \<Rightarrow> py_repr j)"

definition py_int :: "json \<Rightarrow> int res" where
  "py_int j = (case j of
     JInt i \<Rightarrow> Inr i
   | JBool b \<Rightarrow> Inr (if b then 1 else 0)
   | JStr s \<Rightarrow> (case parse_int s of Some i \<Rightarrow> Inr i | None \<Rightarrow> Inl (ValueError ''int''))
   | _ \<Rightarrow> Inl TypeError)"

text \<open>The items a \<open>for\<close> loop sees.\<close>

definition py_iter :: "json \<Rightarrow> json list res" where
  "py_iter j = (case j of
     JList xs \<Rightarrow> Inr xs
   | JStr s \<Rightarrow> Inr (map (\<lambda>c. JStr [c]) s)
   | JObj kvs \<Rightarrow> Inr (map (\<lambda>(k, _). JStr k) kvs)
   | _ \<Rightarrow> Inl TypeError)"

definition is_hashable :: "json \<Rightarrow> bool" where
  "is_hashable j = (case j of JList _ \<Rightarrow> False | JObj _ \<Rightarrow> False | _ \<Rightarrow> True)"

definition j_opt_str :: "string option \<Rightarrow> json" where
  "j_opt_str x = (case x of None \<Rightarrow> JNull | Some s \<Rightarrow> JStr s)"

definition j_opt_int :: "int option \<Rightarrow> json" where
  "j_opt_int x = (case x of None \<Rightarrow> JNull | Some i \<Rightarrow> JInt i)"

definition j_strs :: "string list \<Rightarrow> json" where
  "j_strs xs = JList (map JStr xs)"

text \<open>\<open>tuple(str(item) for item in x)\<close>\<close>

definition str_tuple :: "json \<Rightarrow> string list res" where
  "str_tuple j = rbind (py_iter j) (\<lambda>xs. Inr (map py_str xs))"

section \<open>Facts\<close>

lemma jget_simps [simp]:
  "jget_or [] k d = d"
  "jget_or ((k', v) # kvs) k d = (if k' = k then v else jget_or kvs k d)"
  "jget [] k = JNull"
  "jget ((k', v) # kvs) k = (if k' = k then v else jget kvs k)"
  "jitem [] k = Inl (KeyError k)"
  "jitem ((k', v) # kvs) k = (if k' = k then Inr v else jitem kvs k)"
  by (simp_all add: jget_def jget_or_def jitem_def)

lemma py_str_JStr [simp]: "py_str (JStr s) = s"
  by (simp add: py_str_def)

lemma py_int_JInt [simp]: "py_int (JInt i) = Inr i"
  by (simp add: py_int_def)

lemma py_iter_JList [simp]: "py_iter (JList xs) = Inr xs"
  by (simp add: py_iter_def)

lemma str_tuple_strs [simp]: "str_tuple (j_strs xs) = Inr xs"
  by (simp add: str_tuple_def j_strs_def comp_def)

lemma str_tuple_Nil [simp]: "str_tuple (JList []) = Inr []"
  by (simp add: str_tuple_def)

lemma jor_simps [simp]:
  "jor (JStr s) (JStr []) = JStr s"
  "jor (JInt i) (JInt 0) = JInt i"
  "jor JNull j = j"
  by (auto simp: jor_def)

end
