(* ===== verification/Domain.thy ===== *)
theory Domain imports Py_Json begin

text \<open>
  The value types of \<open>src/llm_harness/domain.py\<close>: work items, worker patches, verification reports,
  command results and the result of one harness run.  A record field is the source's field with the
  prefix of its class (\<open>wi\<close> for \<open>WorkItem\<close>, \<open>hr\<close> for \<open>HarnessRunResult\<close>, ...).
  Tuples are lists, paths are strings.
\<close>

record work_item =
  wi_id :: string
  wi_title :: string
  wi_objective :: string
  wi_acceptance_criteria :: "string list"
  wi_verification_commands :: "string list"
  wi_allowed_paths :: "string list"
  wi_non_goals :: "string list"
  wi_depends_on :: "string list"
  wi_priority :: int
  wi_correction_instructions :: "string list"
  wi_correction_decision_id :: "string option"

record worker_patch =
  wp_worker_name :: string
  wp_work_item_id :: string
  wp_patch :: string
  wp_notes :: string

record verification_report =
  vr_ok :: bool
  vr_findings :: "string list"
  vr_metrics :: "(string \<times> json) list"

record model_invocation_evidence =
  me_provider :: string
  me_model :: string
  me_endpoint :: string
  me_request_id :: "string option"
  me_attempts :: int
  me_latency_ms :: int
  me_input_tokens :: "int option"
  me_output_tokens :: "int option"
  me_total_tokens :: "int option"
  me_request_sha256 :: string
  me_response_sha256 :: string

record semantic_report =
  sv_decision :: string
  sv_summary :: string
  sv_findings :: "string list"
  sv_evidence :: "model_invocation_evidence option"

text \<open>\<open>SemanticVerificationReport.__post_init__\<close>: the constructor refuses other decisions.\<close>

definition semantic_decision_ok :: "string \<Rightarrow> bool" where
  "semantic_decision_ok d \<longleftrightarrow> d \<in> {''pass'', ''fail'', ''escalate''}"

definition make_semantic_report ::
  "string \<Rightarrow> string \<Rightarrow> string list \<Rightarrow> model_invocation_evidence option \<Rightarrow> semantic_report res" where
  "make_semantic_report d summary findings evidence =
     (if semantic_decision_ok d
      then Inr \<lparr>sv_decision = d, sv_summary = summary, sv_findings = findings, sv_evidence = evidence\<rparr>
      else Inl (ValueError ''Semantic verifier decision must be pass, fail, or escalate.''))"

definition semantic_ok :: "semantic_report \<Rightarrow> bool" where
  "semantic_ok r \<longleftrightarrow> sv_decision r = ''pass''"

record command_result =
  cr_command :: string
  cr_return_code :: int
  cr_stdout :: string
  cr_stderr :: string

definition command_ok :: "command_result \<Rightarrow> bool" where
  "command_ok r \<longleftrightarrow> cr_return_code r = 0"

record harness_run_result =
  hr_repository :: string
  hr_work_item_id :: string
  hr_commit :: "string option"
  hr_pre_apply :: verification_report
  hr_post_apply :: verification_report
  hr_command_results :: "command_result list"
  hr_semantic_verification :: "semantic_report option"

definition run_ok :: "harness_run_result \<Rightarrow> bool" where
  "run_ok r \<longleftrightarrow>
     hr_commit r \<noteq> None \<and> vr_ok (hr_pre_apply r) \<and> vr_ok (hr_post_apply r)
     \<and> list_all command_ok (hr_command_results r)
     \<and> (case hr_semantic_verification r of None \<Rightarrow> True | Some s \<Rightarrow> semantic_ok s)"

lemma make_semantic_report_Inr_iff:
  "make_semantic_report d s f e = Inr r \<longleftrightarrow>
     semantic_decision_ok d \<and> r = \<lparr>sv_decision = d, sv_summary = s, sv_findings = f, sv_evidence = e\<rparr>"
  by (auto simp: make_semantic_report_def)

lemma run_ok_commit: "run_ok r \<Longrightarrow> \<exists>c. hr_commit r = Some c"
  by (auto simp: run_ok_def)

end
