(* ===== verification/Py_Path.thy ===== *)
theory Py_Path imports Py_Str begin

text \<open>
  The pure part of \<open>pathlib\<close> on POSIX: a path is its root (empty, \<open>/\<close> or the special \<open>//\<close>) and its
  parts; parsing drops empty and \<open>.\<close> components and keeps \<open>..\<close>, as \<open>PurePosixPath\<close> does.
\<close>

datatype path = Path (p_root: string) (p_parts: "string list")

definition path_root :: "string \<Rightarrow> string" where
  "path_root s = (if startswith s ''//'' \<and> \<not> startswith s ''///'' then ''//''
                  else if startswith s ''/'' then ''/'' else [])"

definition path_of :: "string \<Rightarrow> path" where
  "path_of s = Path (path_root s) (filter (\<lambda>p. p \<noteq> [] \<and> p \<noteq> ''.'') (split_char CHR ''/'' s))"

definition path_str :: "path \<Rightarrow> string" where
  "path_str p = (if p_root p = [] \<and> p_parts p = [] then ''.'' else p_root p @ join ''/'' (p_parts p))"

definition is_absolute :: "path \<Rightarrow> bool" where
  "is_absolute p \<longleftrightarrow> p_root p \<noteq> []"

definition path_join :: "path \<Rightarrow> path \<Rightarrow> path" where
  "path_join p q = (if is_absolute q then q else Path (p_root p) (p_parts p @ p_parts q))"

text \<open>\<open>path.relative_to(root)\<close>; \<open>None\<close> is the \<open>ValueError\<close>.\<close>

definition relative_to :: "path \<Rightarrow> path \<Rightarrow> path option" where
  "relative_to p r =
     (if p_root p = p_root r \<and> take (length (p_parts r)) (p_parts p) = p_parts r
      then Some (Path [] (drop (length (p_parts r)) (p_parts p))) else None)"

definition path_name :: "path \<Rightarrow> string" where
  "path_name p = (case rev (p_parts p) of [] \<Rightarrow> [] | n # _ \<Rightarrow> n)"

text \<open>The text from the last dot on, when that dot is neither the first nor the last character.\<close>

definition path_suffix :: "path \<Rightarrow> string" where
  "path_suffix p =
     (let n = path_name p; ext = rev (takeWhile (\<lambda>c. c \<noteq> CHR ''.'') (rev n));
          i = length n - length ext
      in if 1 < i \<and> ext \<noteq> [] then CHR ''.'' # ext else [])"

definition path_stem :: "path \<Rightarrow> string" where
  "path_stem p = (let n = path_name p in take (length n - length (path_suffix p)) n)"

definition part_ok :: "string \<Rightarrow> bool" where
  "part_ok s \<longleftrightarrow> s \<noteq> [] \<and> s \<noteq> ''.'' \<and> CHR ''/'' \<notin> set s"

definition path_wf :: "path \<Rightarrow> bool" where
  "path_wf p \<longleftrightarrow> p_root p \<in> {[], ''/'', ''//''} \<and> list_all part_ok (p_parts p)"

section \<open>Parsing and printing\<close>

lemma split_char_notin: "c \<notin> set s \<Longrightarrow> split_char c s = [s]"
  by (induction s) auto

lemma split_char_nonempty [simp]: "split_char c s \<noteq> []"
  by (cases s) (auto split: list.splits)

lemma split_char_append_sep:
  "c \<notin> set s \<Longrightarrow> split_char c (s @ c # t) = s # split_char c t"
  by (induction s) auto

lemma split_char_parts: "p \<in> set (split_char c s) \<Longrightarrow> c \<notin> set p"
  by (induction s arbitrary: p) (auto split: list.splits if_splits)

lemma split_char_join:
  "list_all part_ok ps \<Longrightarrow> ps \<noteq> [] \<Longrightarrow> split_char CHR ''/'' (join ''/'' ps) = ps"
proof (induction ps)
  case (Cons p ps)
  then show ?case
    by (cases ps) (auto simp: part_ok_def split_char_notin split_char_append_sep)
qed simp

lemma path_wf_path_of: "path_wf (path_of s)"
  by (auto simp: path_wf_def path_of_def path_root_def list_all_iff part_ok_def dest: split_char_parts)

lemma join_start:
  assumes "list_all part_ok ps" "ps \<noteq> []"
  obtains x y where "join ''/'' ps = x # y" "x \<noteq> CHR ''/''"
proof -
  obtain p qs where ps: "ps = p # qs" using assms(2) by (cases ps) auto
  moreover obtain x y where "p = x # y" using assms(1) ps by (cases p) (auto simp: part_ok_def)
  moreover have "x \<noteq> CHR ''/''" using assms(1) calculation by (auto simp: part_ok_def)
  ultimately show ?thesis using that by (auto simp: join_cons)
qed

lemma path_of_path_str:
  assumes "path_wf p"
  shows "path_of (path_str p) = p"
proof -
  obtain r ps where p: "p = Path r ps" by (cases p)
  have r: "r = [] \<or> r = ''/'' \<or> r = ''//''" and ok: "list_all part_ok ps"
    using assms by (auto simp: p path_wf_def)
  have fil: "filter (\<lambda>q. q \<noteq> [] \<and> q \<noteq> ''.'') ps = ps"
    using ok by (auto simp: list_all_iff part_ok_def intro!: filter_True)
  show ?thesis
  proof (cases "ps = []")
    case True
    with r show ?thesis
      by (auto simp: p path_str_def path_of_def path_root_def startswith_def)
  next
    case False
    then obtain x y where j: "join ''/'' ps = x # y" and x: "x \<noteq> CHR ''/''"
      using join_start [OF ok] by blast
    have sp: "split_char CHR ''/'' (x # y) = ps" using split_char_join [OF ok False] j by simp
    have "path_root (r @ x # y) = r"
      using r x by (auto simp: path_root_def startswith_def)
    moreover have "filter (\<lambda>q. q \<noteq> [] \<and> q \<noteq> ''.'') (split_char CHR ''/'' (r @ x # y)) = ps"
      using r sp fil by auto
    ultimately show ?thesis
      using False j by (simp add: p path_str_def path_of_def)
  qed
qed

lemma path_join_relative_to: "relative_to p r = Some q \<Longrightarrow> path_join r q = p"
  by (cases p)
     (auto simp: relative_to_def path_join_def is_absolute_def split: if_splits, metis append_take_drop_id)

lemma relative_to_wf: "path_wf p \<Longrightarrow> relative_to p r = Some q \<Longrightarrow> path_wf q \<and> \<not> is_absolute q"
  by (fastforce simp: relative_to_def path_wf_def is_absolute_def list_all_iff split: if_splits
        dest: in_set_dropD)

end
