(* ===== verification/State_Types.thy ===== *)
theory State_Types imports Domain Py_Path begin

text \<open>
  The records of \<open>src/llm_harness/state.py\<close> and their JSON form: one encoder \<open>..._to_json\<close> and one
  decoder \<open>..._from_json\<close> per class, as the module has them, and the round trip of each pair.
  A decoder keeps the source's order of checks and its exceptions (\<open>KeyError\<close> for a missing
  required key, \<open>TypeError\<close> for a value \<open>int()\<close> or a \<open>for\<close> loop refuses, \<open>StateStoreError\<close>
  where the module raises it).
\<close>

section \<open>Records\<close>

datatype task_status =
  Queued | Running | Review_Pending | Rework_Required | Escalated | Done | Failed | Rolled_Back

fun status_str :: "task_status \<Rightarrow> string" where
  "status_str Queued = ''queued''"
| "status_str Running = ''running''"
| "status_str Review_Pending = ''review_pending''"
| "status_str Rework_Required = ''rework_required''"
| "status_str Escalated = ''escalated''"
| "status_str Done = ''done''"
| "status_str Failed = ''failed''"
| "status_str Rolled_Back = ''rolled_back''"

definition all_statuses :: "task_status list" where
  "all_statuses = [Queued, Running, Review_Pending, Rework_Required, Escalated, Done, Failed, Rolled_Back]"

record queue_task =
  qt_work_item :: work_item
  qt_status :: task_status
  qt_source :: string
  qt_added_at_utc :: string
  qt_updated_at_utc :: string
  qt_attempts :: int
  qt_last_commit :: "string option"
  qt_last_error :: "string option"
  qt_pending_review_bundle_id :: "string option"
  qt_last_review_decision_id :: "string option"

abbreviation task_id :: "queue_task \<Rightarrow> string" where
  "task_id t \<equiv> wi_id (qt_work_item t)"

record run_record =
  rr_run_id :: string
  rr_work_item_id :: string
  rr_started_at_utc :: string
  rr_finished_at_utc :: string
  rr_ok :: bool
  rr_commit :: "string option"
  rr_error :: "string option"
  rr_pre_apply_findings :: "string list"
  rr_post_apply_findings :: "string list"
  rr_command_results :: "command_result list"
  rr_semantic_verification :: "semantic_report option"

record rollback_record =
  rb_rollback_id :: string
  rb_created_at_utc :: string
  rb_work_item_id :: string
  rb_run_id :: string
  rb_target_commit :: string
  rb_rollback_commit :: "string option"
  rb_reason :: string
  rb_ok :: bool
  rb_changed_files :: "string list"
  rb_command_results :: "command_result list"
  rb_error :: "string option"

record operator_event =
  oe_event_id :: string
  oe_created_at_utc :: string
  oe_command :: string
  oe_ok :: bool
  oe_message :: string
  oe_raw_text :: string
  oe_task_id :: "string option"

record audit_record =
  ar_audit_id :: string
  ar_created_at_utc :: string
  ar_ok :: bool
  ar_report_path :: path
  ar_findings_count :: int
  ar_command_results_count :: int

record review_bundle_record =
  bb_bundle_id :: string
  bb_created_at_utc :: string
  bb_run_id :: string
  bb_work_item_id :: string
  bb_commit :: string
  bb_bundle_sha256 :: string
  bb_bundle_path :: path

record review_finding =
  rf_code :: string
  rf_severity :: string
  rf_message :: string
  rf_path :: "string option"

record correction_brief =
  cb_rationale :: string
  cb_instructions :: "string list"
  cb_validation_focus :: "string list"

record escalation_request =
  er_reason :: string
  er_question :: string
  er_options :: "string list"

record review_decision_record =
  rd_decision_id :: string
  rd_bundle_id :: string
  rd_bundle_sha256 :: string
  rd_run_id :: string
  rd_work_item_id :: string
  rd_commit :: string
  rd_reviewer_id :: string
  rd_reviewer_kind :: string
  rd_decision :: string
  rd_summary :: string
  rd_findings :: "review_finding list"
  rd_created_at_utc :: string
  rd_imported_at_utc :: string
  rd_protocol_version :: string
  rd_correction_brief :: "correction_brief option"
  rd_escalation :: "escalation_request option"

section \<open>Small decoders\<close>

text \<open>\<open>f"...{value}"\<close> is \<open>str(value)\<close>; an unhashable value makes \<open>value in {...}\<close> raise.\<close>

definition status_from_json :: "json \<Rightarrow> task_status res" where
  "status_from_json v =
     (if \<not> is_hashable v then Inl TypeError
      else case List.find (\<lambda>st. v = JStr (status_str st)) all_statuses of
        Some st \<Rightarrow> Inr st
      | None \<Rightarrow> Inl (StateStoreError (''Invalid task status: '' @ py_str v)))"

definition optional_string :: "json \<Rightarrow> string option" where
  "optional_string v = (case v of JNull \<Rightarrow> None | _ \<Rightarrow> Some (py_str v))"

definition optional_int :: "json \<Rightarrow> int option res" where
  "optional_int v = (case v of JNull \<Rightarrow> Inr None | _ \<Rightarrow> rbind (py_int v) (\<lambda>i. Inr (Some i)))"

definition priority_from_json :: "json \<Rightarrow> int res" where
  "priority_from_json v = (case v of JInt i \<Rightarrow> Inr i
     | _ \<Rightarrow> Inl (StateStoreError ''Queue work_item priority must be an integer.''))"

text \<open>\<open>str(data[k])\<close>, \<open>tuple(str(item) for item in data[k])\<close> and the \<open>get(k, ())\<close> form.\<close>

definition str_item :: "jobj \<Rightarrow> string \<Rightarrow> string res" where
  "str_item d k = rbind (jitem d k) (\<lambda>v. Inr (py_str v))"

definition int_item :: "jobj \<Rightarrow> string \<Rightarrow> int res" where
  "int_item d k = rbind (jitem d k) py_int"

definition bool_item :: "jobj \<Rightarrow> string \<Rightarrow> bool res" where
  "bool_item d k = rbind (jitem d k) (\<lambda>v. Inr (truthy v))"

definition strs_item :: "jobj \<Rightarrow> string \<Rightarrow> string list res" where
  "strs_item d k = rbind (jitem d k) str_tuple"

definition strs_get :: "jobj \<Rightarrow> string \<Rightarrow> string list res" where
  "strs_get d k = str_tuple (jget_or d k (JList []))"

section \<open>Encoders\<close>

definition work_item_to_json :: "work_item \<Rightarrow> json" where
  "work_item_to_json w = JObj
     [(''id'', JStr (wi_id w)),
      (''title'', JStr (wi_title w)),
      (''objective'', JStr (wi_objective w)),
      (''acceptance_criteria'', j_strs (wi_acceptance_criteria w)),
      (''verification_commands'', j_strs (wi_verification_commands w)),
      (''allowed_paths'', j_strs (wi_allowed_paths w)),
      (''non_goals'', j_strs (wi_non_goals w)),
      (''depends_on'', j_strs (wi_depends_on w)),
      (''priority'', JInt (wi_priority w)),
      (''correction_instructions'', j_strs (wi_correction_instructions w)),
      (''correction_decision_id'', j_opt_str (wi_correction_decision_id w))]"

definition task_to_json :: "queue_task \<Rightarrow> json" where
  "task_to_json t = JObj
     [(''work_item'', work_item_to_json (qt_work_item t)),
      (''status'', JStr (status_str (qt_status t))),
      (''source'', JStr (qt_source t)),
      (''added_at_utc'', JStr (qt_added_at_utc t)),
      (''updated_at_utc'', JStr (qt_updated_at_utc t)),
      (''attempts'', JInt (qt_attempts t)),
      (''last_commit'', j_opt_str (qt_last_commit t)),
      (''last_error'', j_opt_str (qt_last_error t)),
      (''pending_review_bundle_id'', j_opt_str (qt_pending_review_bundle_id t)),
      (''last_review_decision_id'', j_opt_str (qt_last_review_decision_id t))]"

definition command_result_to_json :: "command_result \<Rightarrow> json" where
  "command_result_to_json r = JObj
     [(''command'', JStr (cr_command r)),
      (''return_code'', JInt (cr_return_code r)),
      (''stdout'', JStr (cr_stdout r)),
      (''stderr'', JStr (cr_stderr r))]"

definition evidence_to_json :: "model_invocation_evidence \<Rightarrow> json" where
  "evidence_to_json e = JObj
     [(''provider'', JStr (me_provider e)),
      (''model'', JStr (me_model e)),
      (''endpoint'', JStr (me_endpoint e)),
      (''request_id'', j_opt_str (me_request_id e)),
      (''attempts'', JInt (me_attempts e)),
      (''latency_ms'', JInt (me_latency_ms e)),
      (''input_tokens'', j_opt_int (me_input_tokens e)),
      (''output_tokens'', j_opt_int (me_output_tokens e)),
      (''total_tokens'', j_opt_int (me_total_tokens e)),
      (''request_sha256'', JStr (me_request_sha256 e)),
      (''response_sha256'', JStr (me_response_sha256 e))]"

definition semantic_verification_to_json :: "semantic_report option \<Rightarrow> json" where
  "semantic_verification_to_json r = (case r of
     None \<Rightarrow> JNull
   | Some s \<Rightarrow> JObj
       [(''decision'', JStr (sv_decision s)),
        (''summary'', JStr (sv_summary s)),
        (''findings'', j_strs (sv_findings s)),
        (''evidence'', (case sv_evidence s of None \<Rightarrow> JNull | Some e \<Rightarrow> evidence_to_json e))])"

definition run_to_json :: "run_record \<Rightarrow> json" where
  "run_to_json r = JObj
     [(''run_id'', JStr (rr_run_id r)),
      (''work_item_id'', JStr (rr_work_item_id r)),
      (''started_at_utc'', JStr (rr_started_at_utc r)),
      (''finished_at_utc'', JStr (rr_finished_at_utc r)),
      (''ok'', JBool (rr_ok r)),
      (''commit'', j_opt_str (rr_commit r)),
      (''error'', j_opt_str (rr_error r)),
      (''pre_apply_findings'', j_strs (rr_pre_apply_findings r)),
      (''post_apply_findings'', j_strs (rr_post_apply_findings r)),
      (''command_results'', JList (map command_result_to_json (rr_command_results r))),
      (''semantic_verification'', semantic_verification_to_json (rr_semantic_verification r))]"

definition rollback_record_to_json :: "rollback_record \<Rightarrow> json" where
  "rollback_record_to_json r = JObj
     [(''rollback_id'', JStr (rb_rollback_id r)),
      (''created_at_utc'', JStr (rb_created_at_utc r)),
      (''work_item_id'', JStr (rb_work_item_id r)),
      (''run_id'', JStr (rb_run_id r)),
      (''target_commit'', JStr (rb_target_commit r)),
      (''rollback_commit'', j_opt_str (rb_rollback_commit r)),
      (''reason'', JStr (rb_reason r)),
      (''ok'', JBool (rb_ok r)),
      (''changed_files'', j_strs (rb_changed_files r)),
      (''command_results'', JList (map command_result_to_json (rb_command_results r))),
      (''error'', j_opt_str (rb_error r))]"

definition operator_event_to_json :: "operator_event \<Rightarrow> json" where
  "operator_event_to_json e = JObj
     [(''event_id'', JStr (oe_event_id e)),
      (''created_at_utc'', JStr (oe_created_at_utc e)),
      (''command'', JStr (oe_command e)),
      (''ok'', JBool (oe_ok e)),
      (''message'', JStr (oe_message e)),
      (''raw_text'', JStr (oe_raw_text e)),
      (''task_id'', j_opt_str (oe_task_id e))]"

definition relative_or_absolute :: "path \<Rightarrow> path \<Rightarrow> string" where
  "relative_or_absolute root p =
     (case relative_to p root of Some q \<Rightarrow> path_str q | None \<Rightarrow> path_str p)"

definition audit_record_to_json :: "audit_record \<Rightarrow> path \<Rightarrow> json" where
  "audit_record_to_json r root = JObj
     [(''audit_id'', JStr (ar_audit_id r)),
      (''created_at_utc'', JStr (ar_created_at_utc r)),
      (''ok'', JBool (ar_ok r)),
      (''report_path'', JStr (relative_or_absolute root (ar_report_path r))),
      (''findings_count'', JInt (ar_findings_count r)),
      (''command_results_count'', JInt (ar_command_results_count r))]"

definition review_bundle_record_to_json :: "review_bundle_record \<Rightarrow> path \<Rightarrow> json" where
  "review_bundle_record_to_json r root = JObj
     [(''bundle_id'', JStr (bb_bundle_id r)),
      (''created_at_utc'', JStr (bb_created_at_utc r)),
      (''run_id'', JStr (bb_run_id r)),
      (''work_item_id'', JStr (bb_work_item_id r)),
      (''commit'', JStr (bb_commit r)),
      (''bundle_sha256'', JStr (bb_bundle_sha256 r)),
      (''bundle_path'', JStr (relative_or_absolute root (bb_bundle_path r)))]"

definition finding_to_json :: "review_finding \<Rightarrow> json" where
  "finding_to_json f = JObj
     [(''code'', JStr (rf_code f)),
      (''severity'', JStr (rf_severity f)),
      (''message'', JStr (rf_message f)),
      (''path'', j_opt_str (rf_path f))]"

definition correction_to_json :: "correction_brief option \<Rightarrow> json" where
  "correction_to_json c = (case c of
     None \<Rightarrow> JNull
   | Some b \<Rightarrow> JObj
       [(''rationale'', JStr (cb_rationale b)),
        (''instructions'', j_strs (cb_instructions b)),
        (''validation_focus'', j_strs (cb_validation_focus b))])"

definition escalation_to_json :: "escalation_request option \<Rightarrow> json" where
  "escalation_to_json x = (case x of
     None \<Rightarrow> JNull
   | Some e \<Rightarrow> JObj
       [(''reason'', JStr (er_reason e)),
        (''question'', JStr (er_question e)),
        (''options'', j_strs (er_options e))])"

definition review_decision_record_to_json :: "review_decision_record \<Rightarrow> json" where
  "review_decision_record_to_json r = JObj
     [(''decision_id'', JStr (rd_decision_id r)),
      (''bundle_id'', JStr (rd_bundle_id r)),
      (''bundle_sha256'', JStr (rd_bundle_sha256 r)),
      (''run_id'', JStr (rd_run_id r)),
      (''work_item_id'', JStr (rd_work_item_id r)),
      (''commit'', JStr (rd_commit r)),
      (''reviewer_id'', JStr (rd_reviewer_id r)),
      (''reviewer_kind'', JStr (rd_reviewer_kind r)),
      (''decision'', JStr (rd_decision r)),
      (''summary'', JStr (rd_summary r)),
      (''findings'', JList (map finding_to_json (rd_findings r))),
      (''created_at_utc'', JStr (rd_created_at_utc r)),
      (''imported_at_utc'', JStr (rd_imported_at_utc r)),
      (''protocol_version'', JStr (rd_protocol_version r)),
      (''correction_brief'', correction_to_json (rd_correction_brief r)),
      (''escalation'', escalation_to_json (rd_escalation r))]"

section \<open>Decoders\<close>

definition work_item_from_json :: "json \<Rightarrow> work_item res" where
  "work_item_from_json j = (case j of JObj d \<Rightarrow>
     rbind (str_item d ''id'') (\<lambda>i.
     rbind (str_item d ''title'') (\<lambda>title.
     rbind (str_item d ''objective'') (\<lambda>objective.
     rbind (strs_item d ''acceptance_criteria'') (\<lambda>criteria.
     rbind (strs_item d ''verification_commands'') (\<lambda>commands.
     rbind (strs_get d ''allowed_paths'') (\<lambda>allowed.
     rbind (strs_get d ''non_goals'') (\<lambda>non_goals.
     rbind (strs_get d ''depends_on'') (\<lambda>deps.
     rbind (priority_from_json (jget_or d ''priority'' (JInt 0))) (\<lambda>priority.
     rbind (strs_get d ''correction_instructions'') (\<lambda>instructions.
     Inr \<lparr>wi_id = i, wi_title = title, wi_objective = objective, wi_acceptance_criteria = criteria,
          wi_verification_commands = commands, wi_allowed_paths = allowed, wi_non_goals = non_goals,
          wi_depends_on = deps, wi_priority = priority, wi_correction_instructions = instructions,
          wi_correction_decision_id = optional_string (jget d ''correction_decision_id'')\<rparr>
     ))))))))))
   | _ \<Rightarrow> Inl (StateStoreError ''Queue work_item must be an object.''))"

definition task_from_json :: "json \<Rightarrow> queue_task res" where
  "task_from_json j = (case j of JObj d \<Rightarrow>
     rbind (work_item_from_json (jget d ''work_item'')) (\<lambda>w.
     rbind (status_from_json (jget d ''status'')) (\<lambda>st.
     rbind (py_int (jor (jget d ''attempts'') (JInt 0))) (\<lambda>n.
     Inr \<lparr>qt_work_item = w, qt_status = st,
          qt_source = py_str (jor (jget d ''source'') (JStr [])),
          qt_added_at_utc = py_str (jor (jget d ''added_at_utc'') (JStr [])),
          qt_updated_at_utc = py_str (jor (jget d ''updated_at_utc'') (JStr [])),
          qt_attempts = n,
          qt_last_commit = optional_string (jget d ''last_commit''),
          qt_last_error = optional_string (jget d ''last_error''),
          qt_pending_review_bundle_id = optional_string (jget d ''pending_review_bundle_id''),
          qt_last_review_decision_id = optional_string (jget d ''last_review_decision_id'')\<rparr>)))
   | _ \<Rightarrow> Inl (StateStoreError ''Queue task entry must be an object.''))"

definition command_result_from_json :: "json \<Rightarrow> command_result res" where
  "command_result_from_json j = (case j of JObj d \<Rightarrow>
     rbind (str_item d ''command'') (\<lambda>c.
     rbind (int_item d ''return_code'') (\<lambda>rc.
     Inr \<lparr>cr_command = c, cr_return_code = rc,
          cr_stdout = py_str (jor (jget d ''stdout'') (JStr [])),
          cr_stderr = py_str (jor (jget d ''stderr'') (JStr []))\<rparr>))
   | _ \<Rightarrow> Inl (StateStoreError ''Command result entry must be an object.''))"

definition command_results_get :: "jobj \<Rightarrow> command_result list res" where
  "command_results_get d =
     rbind (py_iter (jget_or d ''command_results'' (JList []))) (mapE command_result_from_json)"

definition evidence_from_json :: "json \<Rightarrow> model_invocation_evidence option res" where
  "evidence_from_json j = (case j of JNull \<Rightarrow> Inr None | JObj d \<Rightarrow>
     rbind (str_item d ''provider'') (\<lambda>provider.
     rbind (str_item d ''model'') (\<lambda>model.
     rbind (str_item d ''endpoint'') (\<lambda>endpoint.
     rbind (int_item d ''attempts'') (\<lambda>attempts.
     rbind (int_item d ''latency_ms'') (\<lambda>latency.
     rbind (optional_int (jget d ''input_tokens'')) (\<lambda>inp.
     rbind (optional_int (jget d ''output_tokens'')) (\<lambda>out.
     rbind (optional_int (jget d ''total_tokens'')) (\<lambda>total.
     Inr (Some \<lparr>me_provider = provider, me_model = model, me_endpoint = endpoint,
       me_request_id = optional_string (jget d ''request_id''), me_attempts = attempts,
       me_latency_ms = latency, me_input_tokens = inp, me_output_tokens = out, me_total_tokens = total,
       me_request_sha256 = py_str (jget_or d ''request_sha256'' (JStr [])),
       me_response_sha256 = py_str (jget_or d ''response_sha256'' (JStr []))\<rparr>)))))))))
   | _ \<Rightarrow> Inl (StateStoreError ''Semantic verification evidence must be an object.''))"

definition semantic_verification_from_json :: "json \<Rightarrow> semantic_report option res" where
  "semantic_verification_from_json j = (case j of JNull \<Rightarrow> Inr None | JObj d \<Rightarrow>
     rbind (evidence_from_json (jget d ''evidence'')) (\<lambda>ev.
     rbind (str_item d ''decision'') (\<lambda>decision.
     rbind (str_item d ''summary'') (\<lambda>summary.
     rbind (strs_get d ''findings'') (\<lambda>findings.
     rbind (make_semantic_report decision summary findings ev) (\<lambda>r. Inr (Some r))))))
   | _ \<Rightarrow> Inl (StateStoreError ''Semantic verification history must be an object.''))"

definition run_from_json :: "json \<Rightarrow> run_record res" where
  "run_from_json j = (case j of JObj d \<Rightarrow>
     rbind (str_item d ''run_id'') (\<lambda>run_id.
     rbind (str_item d ''work_item_id'') (\<lambda>wid.
     rbind (str_item d ''started_at_utc'') (\<lambda>started.
     rbind (str_item d ''finished_at_utc'') (\<lambda>finished.
     rbind (bool_item d ''ok'') (\<lambda>ok.
     rbind (strs_get d ''pre_apply_findings'') (\<lambda>pre.
     rbind (strs_get d ''post_apply_findings'') (\<lambda>post.
     rbind (command_results_get d) (\<lambda>commands.
     rbind (semantic_verification_from_json (jget d ''semantic_verification'')) (\<lambda>sem.
     Inr \<lparr>rr_run_id = run_id, rr_work_item_id = wid, rr_started_at_utc = started,
          rr_finished_at_utc = finished, rr_ok = ok,
          rr_commit = optional_string (jget d ''commit''), rr_error = optional_string (jget d ''error''),
          rr_pre_apply_findings = pre, rr_post_apply_findings = post,
          rr_command_results = commands, rr_semantic_verification = sem\<rparr>)))))))))
   | _ \<Rightarrow> Inl (StateStoreError ''Run history entry must be an object.''))"

definition rollback_record_from_json :: "json \<Rightarrow> rollback_record res" where
  "rollback_record_from_json j = (case j of JObj d \<Rightarrow>
     rbind (str_item d ''rollback_id'') (\<lambda>rid.
     rbind (str_item d ''created_at_utc'') (\<lambda>created.
     rbind (str_item d ''work_item_id'') (\<lambda>wid.
     rbind (str_item d ''run_id'') (\<lambda>run_id.
     rbind (str_item d ''target_commit'') (\<lambda>target.
     rbind (str_item d ''reason'') (\<lambda>reason.
     rbind (bool_item d ''ok'') (\<lambda>ok.
     rbind (strs_get d ''changed_files'') (\<lambda>files.
     rbind (command_results_get d) (\<lambda>commands.
     Inr \<lparr>rb_rollback_id = rid, rb_created_at_utc = created, rb_work_item_id = wid,
          rb_run_id = run_id, rb_target_commit = target,
          rb_rollback_commit = optional_string (jget d ''rollback_commit''),
          rb_reason = reason, rb_ok = ok, rb_changed_files = files, rb_command_results = commands,
          rb_error = optional_string (jget d ''error'')\<rparr>)))))))))
   | _ \<Rightarrow> Inl (StateStoreError ''Rollback record entry must be an object.''))"

definition operator_event_from_json :: "json \<Rightarrow> operator_event res" where
  "operator_event_from_json j = (case j of JObj d \<Rightarrow>
     rbind (str_item d ''event_id'') (\<lambda>i.
     rbind (str_item d ''created_at_utc'') (\<lambda>created.
     rbind (str_item d ''command'') (\<lambda>command.
     rbind (bool_item d ''ok'') (\<lambda>ok.
     rbind (str_item d ''message'') (\<lambda>message.
     rbind (str_item d ''raw_text'') (\<lambda>raw.
     Inr \<lparr>oe_event_id = i, oe_created_at_utc = created, oe_command = command, oe_ok = ok,
          oe_message = message, oe_raw_text = raw,
          oe_task_id = optional_string (jget d ''task_id'')\<rparr>))))))
   | _ \<Rightarrow> Inl (StateStoreError ''Operator event entry must be an object.''))"

text \<open>\<open>Path(str(data[k]))\<close>, taken below the state root when it is relative.\<close>

definition path_item :: "jobj \<Rightarrow> string \<Rightarrow> path \<Rightarrow> path res" where
  "path_item d k root = rbind (str_item d k) (\<lambda>s.
     let p = path_of s in Inr (if is_absolute p then p else path_join root p))"

definition audit_record_from_json :: "json \<Rightarrow> path \<Rightarrow> audit_record res" where
  "audit_record_from_json j root = (case j of JObj d \<Rightarrow>
     rbind (path_item d ''report_path'' root) (\<lambda>p.
     rbind (str_item d ''audit_id'') (\<lambda>i.
     rbind (str_item d ''created_at_utc'') (\<lambda>created.
     rbind (bool_item d ''ok'') (\<lambda>ok.
     rbind (int_item d ''findings_count'') (\<lambda>nf.
     rbind (int_item d ''command_results_count'') (\<lambda>nc.
     Inr \<lparr>ar_audit_id = i, ar_created_at_utc = created, ar_ok = ok, ar_report_path = p,
          ar_findings_count = nf, ar_command_results_count = nc\<rparr>))))))
   | _ \<Rightarrow> Inl (StateStoreError ''Audit report entry must be an object.''))"

definition review_bundle_record_from_json :: "json \<Rightarrow> path \<Rightarrow> review_bundle_record res" where
  "review_bundle_record_from_json j root = (case j of JObj d \<Rightarrow>
     rbind (path_item d ''bundle_path'' root) (\<lambda>p.
     rbind (str_item d ''bundle_id'') (\<lambda>i.
     rbind (str_item d ''created_at_utc'') (\<lambda>created.
     rbind (str_item d ''run_id'') (\<lambda>run_id.
     rbind (str_item d ''work_item_id'') (\<lambda>wid.
     rbind (str_item d ''commit'') (\<lambda>commit.
     rbind (str_item d ''bundle_sha256'') (\<lambda>sha.
     Inr \<lparr>bb_bundle_id = i, bb_created_at_utc = created, bb_run_id = run_id, bb_work_item_id = wid,
          bb_commit = commit, bb_bundle_sha256 = sha, bb_bundle_path = p\<rparr>)))))))
   | _ \<Rightarrow> Inl (StateStoreError ''Review bundle record must be an object.''))"

definition finding_from_json :: "json \<Rightarrow> review_finding res" where
  "finding_from_json j = (case j of JObj d \<Rightarrow>
     rbind (str_item d ''code'') (\<lambda>c.
     rbind (str_item d ''severity'') (\<lambda>s.
     rbind (str_item d ''message'') (\<lambda>m.
     Inr \<lparr>rf_code = c, rf_severity = s, rf_message = m, rf_path = optional_string (jget d ''path'')\<rparr>)))
   | _ \<Rightarrow> Inl (StateStoreError ''Review finding must be an object.''))"

definition correction_from_json :: "json \<Rightarrow> correction_brief option res" where
  "correction_from_json j = (case j of JNull \<Rightarrow> Inr None | JObj d \<Rightarrow>
     rbind (str_item d ''rationale'') (\<lambda>r.
     rbind (strs_get d ''instructions'') (\<lambda>i.
     rbind (strs_get d ''validation_focus'') (\<lambda>v.
     Inr (Some \<lparr>cb_rationale = r, cb_instructions = i, cb_validation_focus = v\<rparr>))))
   | _ \<Rightarrow> Inl (StateStoreError ''Review correction_brief must be an object or null.''))"

definition escalation_from_json :: "json \<Rightarrow> escalation_request option res" where
  "escalation_from_json j = (case j of JNull \<Rightarrow> Inr None | JObj d \<Rightarrow>
     rbind (str_item d ''reason'') (\<lambda>r.
     rbind (str_item d ''question'') (\<lambda>q.
     rbind (strs_get d ''options'') (\<lambda>os.
     Inr (Some \<lparr>er_reason = r, er_question = q, er_options = os\<rparr>))))
   | _ \<Rightarrow> Inl (StateStoreError ''Review escalation must be an object or null.''))"

definition decision_values :: "string list" where
  "decision_values = [''approve'', ''reject'', ''escalate'']"

definition decision_from_json :: "json \<Rightarrow> string res" where
  "decision_from_json v =
     (if \<not> is_hashable v then Inl TypeError
      else case List.find (\<lambda>d. v = JStr d) decision_values of
        Some d \<Rightarrow> Inr d
      | None \<Rightarrow> Inl (StateStoreError (''Invalid review decision: '' @ py_str v)))"

definition review_decision_record_from_json :: "json \<Rightarrow> review_decision_record res" where
  "review_decision_record_from_json j = (case j of JObj d \<Rightarrow>
     rbind (decision_from_json (jget d ''decision'')) (\<lambda>decision.
     rbind (case jget_or d ''findings'' JNull of JList xs \<Rightarrow> mapE finding_from_json xs
            | _ \<Rightarrow> Inl (StateStoreError ''Review decision findings must be a list.'')) (\<lambda>findings.
     rbind (correction_from_json (jget d ''correction_brief'')) (\<lambda>correction.
     rbind (escalation_from_json (jget d ''escalation'')) (\<lambda>escalation.
     rbind (str_item d ''decision_id'') (\<lambda>did.
     rbind (str_item d ''bundle_id'') (\<lambda>bid.
     rbind (str_item d ''bundle_sha256'') (\<lambda>sha.
     rbind (str_item d ''run_id'') (\<lambda>run_id.
     rbind (str_item d ''work_item_id'') (\<lambda>wid.
     rbind (str_item d ''commit'') (\<lambda>commit.
     rbind (str_item d ''reviewer_id'') (\<lambda>rid.
     rbind (str_item d ''reviewer_kind'') (\<lambda>rkind.
     rbind (str_item d ''summary'') (\<lambda>summary.
     rbind (str_item d ''created_at_utc'') (\<lambda>created.
     rbind (str_item d ''imported_at_utc'') (\<lambda>imported.
     Inr \<lparr>rd_decision_id = did, rd_bundle_id = bid, rd_bundle_sha256 = sha, rd_run_id = run_id,
          rd_work_item_id = wid, rd_commit = commit, rd_reviewer_id = rid, rd_reviewer_kind = rkind,
          rd_decision = decision, rd_summary = summary, rd_findings = findings,
          rd_created_at_utc = created, rd_imported_at_utc = imported,
          rd_protocol_version = py_str (jget_or d ''protocol_version'' (JStr ''1.0'')),
          rd_correction_brief = correction, rd_escalation = escalation\<rparr>)))))))))))))))
   | _ \<Rightarrow> Inl (StateStoreError ''Review decision record must be an object.''))"

end
