(* ===== verification/State_Codec.thy ===== *)
theory State_Codec imports State_Types begin

text \<open>
  Round trips of the JSON forms: what the store writes for a record is read back as that record.
  The decoders of optional parts are total on what the encoders produce; a decision or a semantic
  report must be one the module's own constructors accept.
\<close>

named_theorems codec \<open>round trips and the unfoldings they need\<close>

lemmas item_defs [codec] = str_item_def int_item_def bool_item_def strs_item_def strs_get_def

lemma jget_or_cons [codec]: "jget_or ((k, v) # d) k w = v"
  by simp

lemma status_round_trip [simp, codec]: "status_from_json (JStr (status_str st)) = Inr st"
  by (cases st) (simp_all add: status_from_json_def is_hashable_def all_statuses_def)

lemma status_from_json_Inr: "status_from_json v = Inr st \<Longrightarrow> v = JStr (status_str st)"
  by (auto simp: status_from_json_def split: if_splits option.splits dest: find_SomeD)

lemma optional_string_round_trip [simp, codec]: "optional_string (j_opt_str x) = x"
  by (cases x) (simp_all add: optional_string_def j_opt_str_def)

lemma optional_int_round_trip [simp, codec]: "optional_int (j_opt_int x) = Inr x"
  by (cases x) (simp_all add: optional_int_def j_opt_int_def)

lemma priority_round_trip [simp, codec]: "priority_from_json (JInt i) = Inr i"
  by (simp add: priority_from_json_def)

lemma work_item_round_trip [simp, codec]: "work_item_from_json (work_item_to_json w) = Inr w"
  by (simp add: work_item_from_json_def work_item_to_json_def item_defs)

lemma task_round_trip [simp, codec]: "task_from_json (task_to_json t) = Inr t"
  by (simp add: task_from_json_def task_to_json_def)

lemma command_result_round_trip [simp, codec]:
  "command_result_from_json (command_result_to_json r) = Inr r"
  by (simp add: command_result_from_json_def command_result_to_json_def item_defs)

lemma command_results_round_trip [codec]:
  "mapE command_result_from_json (map command_result_to_json rs) = Inr rs"
  using mapE_map_Inr [of rs command_result_from_json command_result_to_json "\<lambda>x. x"] by simp

lemma evidence_round_trip [simp, codec]: "evidence_from_json (evidence_to_json e) = Inr (Some e)"
  by (simp add: evidence_from_json_def evidence_to_json_def item_defs)

lemma evidence_null [simp, codec]: "evidence_from_json JNull = Inr None"
  by (simp add: evidence_from_json_def)

definition semantic_wf :: "semantic_report option \<Rightarrow> bool" where
  "semantic_wf r \<longleftrightarrow> (case r of None \<Rightarrow> True | Some s \<Rightarrow> semantic_decision_ok (sv_decision s))"

lemma semantic_round_trip [codec]:
  "semantic_wf r \<Longrightarrow> semantic_verification_from_json (semantic_verification_to_json r) = Inr r"
  by (cases r)
     (auto simp: semantic_wf_def semantic_verification_from_json_def semantic_verification_to_json_def
        make_semantic_report_def item_defs split: option.splits)

lemma run_round_trip [codec]:
  "semantic_wf (rr_semantic_verification r) \<Longrightarrow> run_from_json (run_to_json r) = Inr r"
  by (simp add: run_from_json_def run_to_json_def item_defs command_results_get_def
        command_results_round_trip semantic_round_trip)

lemma rollback_round_trip [simp, codec]: "rollback_record_from_json (rollback_record_to_json r) = Inr r"
  by (simp add: rollback_record_from_json_def rollback_record_to_json_def item_defs
        command_results_get_def command_results_round_trip)

lemma operator_event_round_trip [simp, codec]:
  "operator_event_from_json (operator_event_to_json e) = Inr e"
  by (simp add: operator_event_from_json_def operator_event_to_json_def item_defs)

text \<open>A path below the state root is stored relative to it and read back below it.\<close>

lemma path_round_trip:
  assumes "path_wf p" and "is_absolute p"
  shows "(let q = path_of (relative_or_absolute root p)
          in if is_absolute q then q else path_join root q) = p"
proof (cases "relative_to p root")
  case None
  then show ?thesis
    using assms by (simp add: relative_or_absolute_def path_of_path_str)
next
  case (Some q)
  with assms have "path_wf q" "\<not> is_absolute q" by (auto dest: relative_to_wf)
  with Some show ?thesis
    by (simp add: relative_or_absolute_def path_of_path_str path_join_relative_to)
qed

lemma audit_record_round_trip:
  assumes "path_wf (ar_report_path r)" and "is_absolute (ar_report_path r)"
  shows "audit_record_from_json (audit_record_to_json r root) root = Inr r"
  using path_round_trip [OF assms, of root]
  by (simp add: audit_record_from_json_def audit_record_to_json_def item_defs path_item_def Let_def)

lemma review_bundle_round_trip:
  assumes "path_wf (bb_bundle_path r)" and "is_absolute (bb_bundle_path r)"
  shows "review_bundle_record_from_json (review_bundle_record_to_json r root) root = Inr r"
  using path_round_trip [OF assms, of root]
  by (simp add: review_bundle_record_from_json_def review_bundle_record_to_json_def item_defs
        path_item_def Let_def)

lemma finding_round_trip [simp, codec]: "finding_from_json (finding_to_json f) = Inr f"
  by (simp add: finding_from_json_def finding_to_json_def item_defs)

lemma findings_round_trip [codec]: "mapE finding_from_json (map finding_to_json fs) = Inr fs"
  using mapE_map_Inr [of fs finding_from_json finding_to_json "\<lambda>x. x"] by simp

lemma correction_round_trip [simp, codec]: "correction_from_json (correction_to_json c) = Inr c"
  by (cases c) (simp_all add: correction_from_json_def correction_to_json_def item_defs)

lemma escalation_round_trip [simp, codec]: "escalation_from_json (escalation_to_json e) = Inr e"
  by (cases e) (simp_all add: escalation_from_json_def escalation_to_json_def item_defs)

lemma decision_round_trip [codec]: "d \<in> set decision_values \<Longrightarrow> decision_from_json (JStr d) = Inr d"
  by (auto simp: decision_from_json_def is_hashable_def decision_values_def)

lemma review_decision_round_trip [codec]:
  "rd_decision r \<in> set decision_values \<Longrightarrow>
     review_decision_record_from_json (review_decision_record_to_json r) = Inr r"
  by (simp add: review_decision_record_from_json_def review_decision_record_to_json_def item_defs
        decision_round_trip findings_round_trip)

end
