(* ===== verification/Journal.thy ===== *)
theory Journal imports State_Codec "HOL-Library.Char_ord" "HOL-Library.List_Lexorder" begin

text \<open>
  The events of the interaction journal (\<open>src/llm_harness/journal.py\<close>): their form on disk and the
  check of an event that arrives from outside (\<open>validate_journal_ingress\<close>).  Recording an event is
  an operation of the state store (theory \<open>State_Store\<close>); \<open>redact\<close> is a parameter there, because
  its rules are regular expressions.
\<close>

record journal_event =
  je_event_id :: string
  je_created_at_utc :: string
  je_event_type :: string
  je_actor :: string
  je_recipient :: "string option"
  je_action :: string
  je_content :: json
  je_metadata :: jobj
  je_task_id :: "string option"
  je_run_id :: "string option"
  je_correlation_id :: "string option"
  je_journal_version :: string

definition journal_version :: string where
  "journal_version = ''1.0''"

definition journal_ingress_version :: string where
  "journal_ingress_version = ''1.0''"

definition journal_event_types :: "string list" where
  "journal_event_types =
     [''interaction'', ''tool_call'', ''tool_result'', ''state_transition'', ''artifact'', ''decision'']"

definition journal_event_payload :: "journal_event \<Rightarrow> json" where
  "journal_event_payload e = JObj
     [(''journal_version'', JStr (je_journal_version e)),
      (''event_id'', JStr (je_event_id e)),
      (''created_at_utc'', JStr (je_created_at_utc e)),
      (''event_type'', JStr (je_event_type e)),
      (''actor'', JStr (je_actor e)),
      (''recipient'', j_opt_str (je_recipient e)),
      (''action'', JStr (je_action e)),
      (''content'', je_content e),
      (''metadata'', JObj (je_metadata e)),
      (''task_id'', j_opt_str (je_task_id e)),
      (''run_id'', j_opt_str (je_run_id e)),
      (''correlation_id'', j_opt_str (je_correlation_id e))]"

text \<open>
  \<open>dict(data.get("metadata") or {})\<close>.  \<open>dict\<close> would also accept a list of pairs, which no writer of
  the journal produces; here every value but an object is refused.
\<close>

definition metadata_dict :: "json \<Rightarrow> jobj res" where
  "metadata_dict v = (case jor v (JObj []) of JObj kvs \<Rightarrow> Inr kvs | _ \<Rightarrow> Inl TypeError)"

definition journal_event_from_payload :: "jobj \<Rightarrow> journal_event res" where
  "journal_event_from_payload d =
     rbind (str_item d ''event_id'') (\<lambda>eid.
     rbind (str_item d ''created_at_utc'') (\<lambda>created.
     rbind (str_item d ''event_type'') (\<lambda>ty.
     rbind (str_item d ''actor'') (\<lambda>actor.
     rbind (str_item d ''action'') (\<lambda>action.
     rbind (metadata_dict (jget d ''metadata'')) (\<lambda>md.
     Inr \<lparr>je_event_id = eid, je_created_at_utc = created, je_event_type = ty, je_actor = actor,
          je_recipient = optional_string (jget d ''recipient''), je_action = action,
          je_content = jget d ''content'', je_metadata = md,
          je_task_id = optional_string (jget d ''task_id''),
          je_run_id = optional_string (jget d ''run_id''),
          je_correlation_id = optional_string (jget d ''correlation_id''),
          je_journal_version = py_str (jget_or d ''journal_version'' (JStr journal_version))\<rparr>))))))"

lemma metadata_dict_JObj [simp]: "metadata_dict (JObj kvs) = Inr kvs"
  by (cases kvs) (simp_all add: metadata_dict_def jor_def)

lemma journal_round_trip:
  "journal_event_payload e = JObj d \<Longrightarrow> journal_event_from_payload d = Inr e"
  by (auto simp: journal_event_payload_def journal_event_from_payload_def item_defs)

section \<open>Events from outside\<close>

record ingress =
  ji_event_type :: string
  ji_actor :: string
  ji_action :: string
  ji_recipient :: "string option"
  ji_content :: json
  ji_metadata :: jobj
  ji_task_id :: "string option"
  ji_run_id :: "string option"
  ji_correlation_id :: "string option"

definition ingress_required :: "string list" where
  "ingress_required = [''event_version'', ''event_type'', ''actor'', ''recipient'', ''action'', ''content'',
     ''metadata'', ''task_id'', ''run_id'', ''correlation_id'']"

text \<open>\<open>','.join(sorted(names)) or 'none'\<close>\<close>

definition names_or_none :: "string list \<Rightarrow> string" where
  "names_or_none xs = (let t = join '','' (sort xs) in if t = [] then ''none'' else t)"

definition optional_text :: "json \<Rightarrow> string \<Rightarrow> string option res" where
  "optional_text v label = (case v of
     JNull \<Rightarrow> Inr None
   | JStr s \<Rightarrow> if strip s = []
       then Inl (ValueError (''Journal '' @ label @ '' must be a non-empty string or null.''))
       else Inr (Some (strip s))
   | _ \<Rightarrow> Inl (ValueError (''Journal '' @ label @ '' must be a non-empty string or null.'')))"

definition stripped_text :: "json \<Rightarrow> string option" where
  "stripped_text v = (case v of JStr s \<Rightarrow> if strip s = [] then None else Some (strip s) | _ \<Rightarrow> None)"

definition validate_journal_ingress :: "jobj \<Rightarrow> ingress res" where
  "validate_journal_ingress d =
     (let unknown = filter (\<lambda>k. k \<notin> set ingress_required) (map fst d);
          missing = filter (\<lambda>k. k \<notin> set (map fst d)) ingress_required
      in
     rbind (check (missing = [] \<and> unknown = [])
       (ValueError (''Journal ingress must use the closed v1 fields; ''
         @ ''missing='' @ names_or_none missing @ '' unknown='' @ names_or_none unknown))) (\<lambda>_.
     rbind (check (jget d ''event_version'' = JStr journal_ingress_version)
       (ValueError ''Unsupported journal ingress version.'')) (\<lambda>_.
     rbind (check (is_hashable (jget d ''event_type'')) TypeError) (\<lambda>_.
     rbind (case List.find (\<lambda>ty. jget d ''event_type'' = JStr ty) journal_event_types of
         Some ty \<Rightarrow> Inr ty | None \<Rightarrow> Inl (ValueError ''Unsupported journal event_type.'')) (\<lambda>ty.
     rbind (case (stripped_text (jget d ''actor''), stripped_text (jget d ''action'')) of
         (Some actor, Some action) \<Rightarrow> Inr (actor, action)
       | _ \<Rightarrow> Inl (ValueError ''Journal actor and action must be non-empty strings.'')) (\<lambda>(actor, action).
     rbind (case jget d ''recipient'' of JNull \<Rightarrow> Inr None | JStr r \<Rightarrow> Inr (Some r)
       | _ \<Rightarrow> Inl (ValueError ''Journal recipient must be a string or null.'')) (\<lambda>recipient.
     rbind (case jget d ''metadata'' of JObj kvs \<Rightarrow> Inr kvs
       | _ \<Rightarrow> Inl (ValueError ''Journal metadata must be an object.'')) (\<lambda>md.
     rbind (optional_text (jget d ''task_id'') ''task_id'') (\<lambda>task_id.
     rbind (optional_text (jget d ''run_id'') ''run_id'') (\<lambda>run_id.
     rbind (optional_text (jget d ''correlation_id'') ''correlation_id'') (\<lambda>correlation_id.
     Inr \<lparr>ji_event_type = ty, ji_actor = actor, ji_action = action, ji_recipient = recipient,
          ji_content = jget d ''content'', ji_metadata = md, ji_task_id = task_id, ji_run_id = run_id,
          ji_correlation_id = correlation_id\<rparr>)))))))))))"

lemma validate_journal_ingress_Inr:
  assumes "validate_journal_ingress d = Inr e"
  shows "set (map fst d) = set ingress_required \<and> ji_event_type e \<in> set journal_event_types
    \<and> jget d ''event_type'' = JStr (ji_event_type e) \<and> ji_content e = jget d ''content''
    \<and> ji_actor e \<noteq> [] \<and> ji_action e \<noteq> [] \<and> JObj (ji_metadata e) = jget d ''metadata''"
proof -
  have "\<exists>r m. ji_content e = jget d ''content'' \<and>
      filter (\<lambda>k. k \<notin> set (map fst d)) ingress_required = [] \<and>
      filter (\<lambda>k. k \<notin> set ingress_required) (map fst d) = [] \<and>
      List.find (\<lambda>ty. jget d ''event_type'' = JStr ty) journal_event_types = Some (ji_event_type e) \<and>
      stripped_text (jget d ''actor'') = Some (ji_actor e) \<and>
      stripped_text (jget d ''action'') = Some (ji_action e) \<and>
      JObj (ji_metadata e) = jget d ''metadata''"
    using assms unfolding validate_journal_ingress_def Let_def
    by (auto simp: rbind_Inr_iff split: option.splits json.splits prod.splits)
  moreover have "stripped_text v = Some t \<Longrightarrow> t \<noteq> []" for v t
    by (auto simp: stripped_text_def split: json.splits if_splits)
  ultimately show ?thesis
    by (fastforce simp: filter_empty_conv dest!: find_SomeD)
qed

end
