(* ===== verification/Scheduler.thy ===== *)
theory Scheduler imports State_Types "HOL-Library.AList" "HOL-Library.Product_Lexorder" begin

text \<open>
  The scheduling core of \<open>state.py\<close> on a queue given as the list of its tasks: the latest task per
  id, readiness, the order of the ready tasks, conflict-free batches, the dependency check of
  \<open>enqueue\<close> (a depth-first search) and the downstream closure (a breadth-first search).

  A \<open>dict\<close> is an association list in insertion order; \<open>AList.update\<close> keeps the position of a
  key that is already present, as Python does.
\<close>

section \<open>Latest tasks and readiness\<close>

datatype dependency_blocker = DependencyBlocker (blk_task_id: string) (blk_status: string)

record task_readiness =
  tr_task :: queue_task
  tr_ready :: bool
  tr_blockers :: "dependency_blocker list"

record queue_schedule =
  qs_selected :: "queue_task option"
  qs_ready :: "task_readiness list"
  qs_waiting :: "task_readiness list"

type_synonym latest = "(string \<times> queue_task) list"

definition latest_tasks_by_id :: "queue_task list \<Rightarrow> latest" where
  "latest_tasks_by_id tasks = fold (\<lambda>t m. AList.update (task_id t) t m) tasks []"

definition dependency_blockers :: "queue_task \<Rightarrow> latest \<Rightarrow> dependency_blocker list" where
  "dependency_blockers t m =
     concat (map (\<lambda>d. let st = (case map_of m d of Some u \<Rightarrow> status_str (qt_status u) | None \<Rightarrow> ''missing'')
                      in if st \<noteq> ''done'' then [DependencyBlocker d st] else [])
       (wi_depends_on (qt_work_item t)))"

definition readiness_of :: "latest \<Rightarrow> queue_task \<Rightarrow> task_readiness" where
  "readiness_of m t = (let bs = dependency_blockers t m in
     \<lparr>tr_task = t, tr_ready = (bs = []), tr_blockers = bs\<rparr>)"

abbreviation prio :: "queue_task \<Rightarrow> int" where
  "prio t \<equiv> wi_priority (qt_work_item t)"

definition schedule_key :: "nat \<times> queue_task \<Rightarrow> int \<times> nat" where
  "schedule_key p = (- prio (snd p), fst p)"

definition queued_indexed :: "queue_task list \<Rightarrow> (nat \<times> queue_task) list" where
  "queued_indexed tasks = filter (\<lambda>(_, t). qt_status t = Queued) (enumerate 0 tasks)"

definition schedule :: "queue_task list \<Rightarrow> queue_schedule" where
  "schedule tasks =
     (let latest = latest_tasks_by_id tasks;
          indexed = queued_indexed tasks;
          readiness = map (\<lambda>(_, t). readiness_of latest t) indexed;
          ready_by_id = fold (\<lambda>r m. AList.update (task_id (tr_task r)) r m) (filter tr_ready readiness) [];
          ready = map (\<lambda>(_, t). the (map_of ready_by_id (task_id t)))
            (sort_key schedule_key
              (filter (\<lambda>(_, t). map_of ready_by_id (task_id t) \<noteq> None) indexed));
          waiting = filter (\<lambda>r. \<not> tr_ready r) readiness
      in \<lparr>qs_selected = (case ready of [] \<Rightarrow> None | r # _ \<Rightarrow> Some (tr_task r)),
          qs_ready = ready, qs_waiting = waiting\<rparr>)"

section \<open>Resource scopes and batches\<close>

definition normalize_resource_path :: "string \<Rightarrow> string" where
  "normalize_resource_path v =
     (let n = casefold (strip_char CHR ''/'' (replace_char CHR 0x5C CHR ''/'' (strip v)))
      in if n = [] then ''*'' else n)"

definition paths_overlap :: "string \<Rightarrow> string \<Rightarrow> bool" where
  "paths_overlap a b \<longleftrightarrow> a = ''*'' \<or> b = ''*'' \<or> a = b
     \<or> startswith a (b @ ''/'') \<or> startswith b (a @ ''/'')"

definition resource_scopes_conflict :: "string list \<Rightarrow> string list \<Rightarrow> bool" where
  "resource_scopes_conflict left right \<longleftrightarrow>
     left = [] \<or> right = [] \<or>
     (\<exists>a \<in> set (map normalize_resource_path left).
        \<exists>b \<in> set (map normalize_resource_path right). paths_overlap a b)"

abbreviation scope :: "queue_task \<Rightarrow> string list" where
  "scope t \<equiv> wi_allowed_paths (qt_work_item t)"

text \<open>The loop of \<open>schedule_batch\<close>; \<open>acc\<close> is \<open>selected\<close>.\<close>

fun batch_loop :: "nat \<Rightarrow> queue_task list \<Rightarrow> queue_task list \<Rightarrow> queue_task list" where
  "batch_loop limit acc [] = acc"
| "batch_loop limit acc (c # cs) =
     (if list_ex (\<lambda>cur. resource_scopes_conflict (scope c) (scope cur)) acc
      then batch_loop limit acc cs
      else (let acc' = acc @ [c] in
            if length acc' = limit then acc' else batch_loop limit acc' cs))"

definition schedule_batch :: "int \<Rightarrow> queue_task list \<Rightarrow> queue_task list res" where
  "schedule_batch limit tasks =
     (if limit < 1 then Inl (StateStoreError ''Scheduler batch limit must be at least 1.'')
      else Inr (batch_loop (nat limit) [] (map tr_task (qs_ready (schedule tasks)))))"

section \<open>Stale tasks\<close>

text \<open>
  \<open>parse_utc\<close> stands for \<open>datetime.fromisoformat\<close> with a missing zone read as UTC, in microseconds
  since the epoch (\<open>None\<close>: not a timestamp); the age is in microseconds too.
\<close>

fun stale_running_tasks ::
  "(string \<Rightarrow> int option) \<Rightarrow> int \<Rightarrow> int \<Rightarrow> queue_task list \<Rightarrow> queue_task list res" where
  "stale_running_tasks parse_utc now max_age tasks =
     (if max_age \<le> 0 then Inr []
      else rbind
        (mapE (\<lambda>t. case parse_utc (qt_updated_at_utc t) of
            None \<Rightarrow> Inl (StateStoreError (''Invalid UTC timestamp in queue state: '' @ qt_updated_at_utc t))
          | Some at \<Rightarrow> Inr (t, at \<le> now - max_age))
          (filter (\<lambda>t. qt_status t = Running) tasks))
        (\<lambda>ps. Inr (map fst (filter snd ps))))"

section \<open>The dependency check of \<open>enqueue_many\<close>\<close>

type_synonym graph = "(string \<times> string list) list"

definition graph_get :: "graph \<Rightarrow> string \<Rightarrow> string list" where
  "graph_get g k = (case map_of g k of None \<Rightarrow> [] | Some ds \<Rightarrow> ds)"

text \<open>
  \<open>visit\<close> and the loop over its dependencies; \<open>vis\<close> is \<open>visited\<close>, \<open>vg\<close> is \<open>visiting\<close>.  The call
  tree is bounded by the graph: \<open>visiting\<close> holds different keys of the graph.
\<close>

function visit :: "graph \<Rightarrow> string list \<Rightarrow> string list \<Rightarrow> string \<Rightarrow> string list res"
  and visit_all :: "graph \<Rightarrow> string list \<Rightarrow> string list \<Rightarrow> string list \<Rightarrow> string list res" where
  "visit g vis vg x =
     (if x \<in> set vis then Inr vis
      else if x \<in> set vg then
        Inl (StateStoreError (''Queue task dependency cycle: ''
          @ join '' -> '' (dropWhile (\<lambda>y. y \<noteq> x) vg @ [x]) @ ''.''))
      else rbind (visit_all g vis (vg @ [x]) (graph_get g x)) (\<lambda>vis'. Inr (x # vis')))"
| "visit_all g vis vg [] = Inr vis"
| "visit_all g vis vg (d # ds) = rbind (visit g vis vg d) (\<lambda>vis'. visit_all g vis' vg ds)"
  by pat_completeness auto
termination
proof (relation "measures
    [\<lambda>p. case p of Inl (g, vis, vg, x) \<Rightarrow> card (fst ` set g - set vg)
                 | Inr (g, vis, vg, ds) \<Rightarrow> card (fst ` set g - set vg),
     \<lambda>p. case p of Inl (g, vis, vg, x) \<Rightarrow> 1 | Inr (g, vis, vg, ds) \<Rightarrow> 2 * length ds]",
    goal_cases)
  case (2 g vis vg x)
  show ?case
  proof (cases "x \<in> fst ` set g")
    case True
    have "fst ` set g - set (vg @ [x]) \<subset> fst ` set g - set vg"
      using True 2 by auto
    then have "card (fst ` set g - set (vg @ [x])) < card (fst ` set g - set vg)"
      by (intro psubset_card_mono) auto
    then show ?thesis by simp
  next
    case False
    then have "fst ` set g - set (vg @ [x]) = fst ` set g - set vg" and "graph_get g x = []"
      by (auto simp: graph_get_def map_of_eq_None_iff split: option.splits)
        (metis image_eqI map_of_SomeD fst_conv)
    then show ?thesis by simp
  qed
qed auto

definition check_item :: "string list \<Rightarrow> work_item \<Rightarrow> unit res" where
  "check_item known w =
     (if \<not> distinct (wi_depends_on w)
      then Inl (StateStoreError (''Task '' @ wi_id w @ '' contains duplicate dependencies.''))
      else let unknown = filter (\<lambda>d. d \<notin> set known) (wi_depends_on w) in
        if unknown \<noteq> []
        then Inl (StateStoreError (''Task '' @ wi_id w @ '' has unknown dependencies: ''
          @ join '', '' unknown @ ''.''))
        else Inr ())"

definition placeholder_task :: "work_item \<Rightarrow> queue_task" where
  "placeholder_task w = \<lparr>qt_work_item = w, qt_status = Queued, qt_source = [], qt_added_at_utc = [],
     qt_updated_at_utc = [], qt_attempts = 0, qt_last_commit = None, qt_last_error = None,
     qt_pending_review_bundle_id = None, qt_last_review_decision_id = None\<rparr>"

definition unresolved_graph :: "latest \<Rightarrow> graph" where
  "unresolved_graph m =
     (let unresolved = filter (\<lambda>(_, t). qt_status t \<noteq> Done) m in
      map (\<lambda>(k, t). (k, filter (\<lambda>d. d \<in> fst ` set unresolved) (wi_depends_on (qt_work_item t)))) unresolved)"

definition validate_enqueue_graph :: "queue_task list \<Rightarrow> work_item list \<Rightarrow> unit res" where
  "validate_enqueue_graph existing incoming =
     rbind (mapE (check_item (map task_id existing @ map wi_id incoming)) incoming) (\<lambda>_.
     let latest = fold (\<lambda>w m. AList.update (wi_id w) (placeholder_task w) m) incoming
                    (latest_tasks_by_id existing);
         graph = unresolved_graph latest
     in rbind (visit_all graph [] [] (map fst graph)) (\<lambda>_. Inr ()))"

section \<open>Downstream tasks\<close>

function downstream_loop :: "latest \<Rightarrow> string list \<Rightarrow> string list \<Rightarrow> queue_task list \<Rightarrow> queue_task list" where
  "downstream_loop m [] seen result = result"
| "downstream_loop m (d # pending) seen result =
     (let new = filter (\<lambda>(k, t). k \<notin> set seen \<and> d \<in> set (wi_depends_on (qt_work_item t))) m
      in downstream_loop m (pending @ map fst new) (seen @ map fst new) (result @ map snd new))"
  by pat_completeness auto
termination
proof (relation "measures [\<lambda>(m, p, s, r). card (fst ` set m - set s), \<lambda>(m, p, s, r). length p]",
    goal_cases)
  case (2 m d pending seen result new)
  show ?case
  proof (cases "new = []")
    case False
    then obtain k t where kt: "(k, t) \<in> set new" by (cases new) auto
    then have "k \<in> fst ` set m - set seen" "k \<in> fst ` set new"
      using 2 by force+
    then have "fst ` set m - set (seen @ map fst new) \<subset> fst ` set m - set seen" by auto
    then have "card (fst ` set m - set (seen @ map fst new)) < card (fst ` set m - set seen)"
      by (intro psubset_card_mono) auto
    then show ?thesis by simp
  qed simp
qed simp

definition downstream_tasks :: "string \<Rightarrow> queue_task list \<Rightarrow> queue_task list" where
  "downstream_tasks wid tasks = downstream_loop (latest_tasks_by_id tasks) [wid] [wid] []"

declare visit.simps [simp del] visit_all.simps [simp del] downstream_loop.simps [simp del]

end
