(* ===== verification/State_Store.thy ===== *)
theory State_Store imports Journal Scheduler begin

text \<open>
  \<open>HohStateStore\<close> (\<open>src/llm_harness/state.py\<close>) as operations on an explicit store: the queue file, the
  seven append-only JSONL logs, the Telegram offset, the audit report files, and the environment
  the store reads (clock, identifiers, redaction, lease, disk).

  Files hold JSON values (the text is the matter of \<open>durable_io\<close>).  A file is absent, unreadable
  with the message its reader raises, or a value.  Writing is atomic; \<open>st_budget\<close> is fault
  injection: \<open>None\<close> is a disk that never fails, \<open>Some n\<close> lets \<open>n\<close> more writes succeed and fails
  every later one, so that running an operation under each budget covers every point at which it
  can be interrupted.  \<open>st_lock\<close> is the outcome of acquiring the state lease: \<open>Some m\<close> makes
  every acquisition raise \<open>LockContendedError m\<close>; while the lease is held, nested holds succeed
  (it is reentrant).
\<close>

section \<open>The store\<close>

datatype 'a durable = Missing | Unreadable string | Content 'a

datatype log = History | Rollbacks | Operators | Audits | Bundles | Decisions | Events

fun log_name :: "log \<Rightarrow> string" where
  "log_name History = ''history.jsonl''"
| "log_name Rollbacks = ''rollback-records.jsonl''"
| "log_name Operators = ''operator-events.jsonl''"
| "log_name Audits = ''audit-reports.jsonl''"
| "log_name Bundles = ''review-bundles.jsonl''"
| "log_name Decisions = ''review-decisions.jsonl''"
| "log_name Events = ''interaction-journal.jsonl''"

record store =
  st_root :: path
  st_queue :: "json durable"
  st_logs :: "log \<Rightarrow> json list durable"
  st_offset :: "json durable"
  st_reports :: "(path \<times> string) list"
  st_clock :: "nat \<Rightarrow> string"
  st_ticks :: nat
  st_uuids :: "nat \<Rightarrow> string"
  st_drawn :: nat
  st_redact :: "json \<Rightarrow> json"
  st_lock :: "string option"
  st_budget :: "nat option"
  st_fault :: string

type_synonym 'a store_op = "(store, 'a) op"

section \<open>Environment\<close>

definition utc_now :: "string store_op" where
  "utc_now = (\<lambda>s. (Inr (st_clock s (st_ticks s)), s\<lparr>st_ticks := Suc (st_ticks s)\<rparr>))"

definition uuid4 :: "string store_op" where
  "uuid4 = (\<lambda>s. (Inr (st_uuids s (st_drawn s)), s\<lparr>st_drawn := Suc (st_drawn s)\<rparr>))"

section \<open>Durable files\<close>

definition read_json :: "json durable \<Rightarrow> json \<Rightarrow> json res" where
  "read_json f dflt = (case f of
     Missing \<Rightarrow> Inr dflt | Unreadable m \<Rightarrow> Inl (DurableIOError m) | Content j \<Rightarrow> Inr j)"

definition read_jsonl :: "json list durable \<Rightarrow> json list res" where
  "read_jsonl f = (case f of
     Missing \<Rightarrow> Inr [] | Unreadable m \<Rightarrow> Inl (DurableIOError m) | Content js \<Rightarrow> Inr js)"

text \<open>\<open>atomic_write_text\<close> on the file \<open>name\<close> below the root: \<open>f\<close> is the change it makes.\<close>

definition durable_write :: "path \<Rightarrow> (store \<Rightarrow> store) \<Rightarrow> unit store_op" where
  "durable_write p f = (\<lambda>s. case st_budget s of
     None \<Rightarrow> (Inr (), f s)
   | Some 0 \<Rightarrow> (Inl (DurableIOError (''Could not durably write '' @ path_str p @ '': '' @ st_fault s)), s)
   | Some (Suc n) \<Rightarrow> (Inr (), f (s\<lparr>st_budget := Some n\<rparr>)))"

definition below_root :: "string \<Rightarrow> store \<Rightarrow> path" where
  "below_root name s = path_join (st_root s) (path_of name)"

definition atomic_append_jsonl :: "log \<Rightarrow> json \<Rightarrow> unit store_op" where
  "atomic_append_jsonl l payload =
     mbind (gets (\<lambda>s. read_jsonl (st_logs s l))) (\<lambda>records.
     mbind (gets (\<lambda>s. Inr (below_root (log_name l) s))) (\<lambda>p.
     durable_write p (\<lambda>s. s\<lparr>st_logs := (st_logs s)(l := Content (records @ [payload]))\<rparr>)))"

section \<open>The lease and the error boundary\<close>

fun to_store_error :: "exn \<Rightarrow> exn" where
  "to_store_error (DurableIOError m) = StateStoreError m"
| "to_store_error (LockContendedError m) = StateStoreError m"
| "to_store_error (CoordinationError m) = StateStoreError m"
| "to_store_error e = e"

definition hold :: "'a store_op \<Rightarrow> 'a store_op" where
  "hold m = mbind (gets (\<lambda>s. case st_lock s of None \<Rightarrow> Inr () | Some t \<Rightarrow> Inl (LockContendedError t))) (\<lambda>_. m)"

definition state_mutation :: "'a store_op \<Rightarrow> 'a store_op" where
  "state_mutation m = map_exn to_store_error (hold m)"

text \<open>\<open>except DurableIOError as exc: raise StateStoreError(str(exc))\<close> of the readers.\<close>

definition read_guard :: "'a res \<Rightarrow> 'a res" where
  "read_guard r = (case r of Inl (DurableIOError m) \<Rightarrow> Inl (StateStoreError m) | _ \<Rightarrow> r)"

section \<open>The journal\<close>

record journal_args =
  ja_event_type :: string
  ja_actor :: string
  ja_action :: string
  ja_recipient :: "string option"
  ja_content :: json
  ja_metadata :: jobj
  ja_task_id :: "string option"
  ja_run_id :: "string option"
  ja_correlation_id :: "string option"

definition journal_args :: "string \<Rightarrow> string \<Rightarrow> string \<Rightarrow> json \<Rightarrow> journal_args" where
  "journal_args ty actor action content = \<lparr>ja_event_type = ty, ja_actor = actor, ja_action = action,
     ja_recipient = None, ja_content = content, ja_metadata = [], ja_task_id = None,
     ja_run_id = None, ja_correlation_id = None\<rparr>"

text \<open>\<open>InteractionJournal.record\<close>; \<open>redact\<close> maps an object to an object.\<close>

definition journal_record :: "journal_args \<Rightarrow> journal_event store_op" where
  "journal_record a =
     mbind uuid4 (\<lambda>eid.
     mbind utc_now (\<lambda>now.
     mbind (gets (\<lambda>s. Inr (st_redact s))) (\<lambda>redact.
     let event = \<lparr>je_event_id = eid, je_created_at_utc = now, je_event_type = ja_event_type a,
           je_actor = ja_actor a, je_recipient = ja_recipient a, je_action = ja_action a,
           je_content = redact (ja_content a),
           je_metadata = (case redact (JObj (ja_metadata a)) of JObj kvs \<Rightarrow> kvs | _ \<Rightarrow> []),
           je_task_id = ja_task_id a, je_run_id = ja_run_id a,
           je_correlation_id = ja_correlation_id a, je_journal_version = journal_version\<rparr>
     in mseq (hold (atomic_append_jsonl Events (journal_event_payload event))) (ret event))))"

text \<open>\<open>InteractionJournal.record_payload\<close>\<close>

definition journal_record_payload :: "jobj \<Rightarrow> journal_event store_op" where
  "journal_record_payload d =
     mbind (lift_res (validate_journal_ingress d)) (\<lambda>i.
     journal_record \<lparr>ja_event_type = ji_event_type i, ja_actor = ji_actor i, ja_action = ji_action i,
       ja_recipient = ji_recipient i, ja_content = ji_content i, ja_metadata = ji_metadata i,
       ja_task_id = ji_task_id i, ja_run_id = ji_run_id i, ja_correlation_id = ji_correlation_id i\<rparr>)"

definition transition_event ::
  "queue_task \<Rightarrow> task_status \<Rightarrow> task_status \<Rightarrow> string \<Rightarrow> json \<Rightarrow> string option \<Rightarrow> unit store_op" where
  "transition_event task previous current action details run_id =
     mseq (journal_record ((journal_args ''state_transition'' ''supervisor'' action
         (JObj [(''from'', JStr (status_str previous)), (''to'', JStr (status_str current)),
                (''details'', details)]))
       \<lparr>ja_task_id := Some (task_id task), ja_run_id := run_id\<rparr>))
     (ret ())"

section \<open>The queue file\<close>

definition list_tasks :: "store \<Rightarrow> queue_task list res" where
  "list_tasks s =
     rbind (read_guard (read_json (st_queue s) (JList []))) (\<lambda>data.
     case data of JList xs \<Rightarrow> mapE task_from_json xs
     | _ \<Rightarrow> Inl (StateStoreError ''Queue file must contain a JSON list.''))"

definition write_tasks :: "queue_task list \<Rightarrow> unit store_op" where
  "write_tasks tasks =
     mbind (gets (\<lambda>s. Inr (below_root ''queue.json'' s))) (\<lambda>p.
     durable_write p (\<lambda>s. s\<lparr>st_queue := Content (JList (map task_to_json tasks))\<rparr>))"

definition unknown_task :: "string \<Rightarrow> exn" where
  "unknown_task wid = StateStoreError (''Unknown queued task: '' @ wid)"

definition get_task :: "string \<Rightarrow> store \<Rightarrow> queue_task res" where
  "get_task wid s =
     rbind (list_tasks s) (\<lambda>tasks.
     case List.find (\<lambda>t. task_id t = wid) (rev tasks) of
       None \<Rightarrow> Inl (unknown_task wid) | Some t \<Rightarrow> Inr t)"

text \<open>The index of the last entry satisfying \<open>p\<close> (\<open>_update_task\<close> walks backwards).\<close>

definition last_index :: "('a \<Rightarrow> bool) \<Rightarrow> 'a list \<Rightarrow> nat option" where
  "last_index p xs = List.find (\<lambda>i. p (xs ! i)) (rev [0..<length xs])"

definition first_index :: "('a \<Rightarrow> bool) \<Rightarrow> 'a list \<Rightarrow> nat option" where
  "first_index p xs = List.find (\<lambda>i. p (xs ! i)) [0..<length xs]"

definition update_task ::
  "string \<Rightarrow> task_status \<Rightarrow> int \<Rightarrow> string option \<Rightarrow> string option \<Rightarrow> queue_task store_op" where
  "update_task wid status attempts_delta last_commit last_error =
     mbind (gets list_tasks) (\<lambda>tasks.
     case last_index (\<lambda>t. task_id t = wid) tasks of
       None \<Rightarrow> raise (unknown_task wid)
     | Some i \<Rightarrow>
         mbind utc_now (\<lambda>now.
         let task = tasks ! i;
             updated = \<lparr>qt_work_item = qt_work_item task, qt_status = status, qt_source = qt_source task,
               qt_added_at_utc = qt_added_at_utc task, qt_updated_at_utc = now,
               qt_attempts = qt_attempts task + attempts_delta, qt_last_commit = last_commit,
               qt_last_error = last_error,
               qt_pending_review_bundle_id = qt_pending_review_bundle_id task,
               qt_last_review_decision_id = qt_last_review_decision_id task\<rparr>
         in mseq (write_tasks (tasks[i := updated])) (ret updated)))"

text \<open>\<open>replace(task, updated_at_utc=..., **changes)\<close>: \<open>changes\<close> is the update of the other fields.\<close>

definition replace_task :: "queue_task \<Rightarrow> (queue_task \<Rightarrow> queue_task) \<Rightarrow> queue_task store_op" where
  "replace_task current changes =
     mbind (gets list_tasks) (\<lambda>tasks.
     case first_index (\<lambda>t. t = current) tasks of
       None \<Rightarrow> raise (StateStoreError (''Queued task changed before transition: '' @ task_id current))
     | Some i \<Rightarrow>
         mbind utc_now (\<lambda>now.
         let updated = changes ((tasks ! i)\<lparr>qt_updated_at_utc := now\<rparr>)
         in mseq (write_tasks (tasks[i := updated])) (ret updated)))"

section \<open>Enqueue\<close>

definition active_statuses :: "task_status list" where
  "active_statuses = [Queued, Running, Review_Pending, Rework_Required, Escalated]"

definition new_task :: "string \<Rightarrow> work_item \<times> string \<Rightarrow> queue_task" where
  "new_task now p = (placeholder_task (fst p))
     \<lparr>qt_source := snd p, qt_added_at_utc := now, qt_updated_at_utc := now\<rparr>"

definition check_inactive :: "queue_task list \<Rightarrow> work_item \<Rightarrow> unit res" where
  "check_inactive tasks w = check
     (\<not> list_ex (\<lambda>t. task_id t = wi_id w \<and> qt_status t \<in> set active_statuses) tasks)
     (StateStoreError (''Task already has an active or unresolved lifecycle: '' @ wi_id w))"

definition enqueue_event :: "queue_task \<Rightarrow> unit store_op" where
  "enqueue_event t =
     mseq (journal_record ((journal_args ''state_transition'' ''supervisor'' ''task.enqueued''
         (JObj [(''from'', JNull), (''to'', JStr ''queued''), (''source'', JStr (qt_source t)),
                (''priority'', JInt (prio t)), (''depends_on'', j_strs (wi_depends_on (qt_work_item t)))]))
       \<lparr>ja_recipient := Some ''worker'', ja_task_id := Some (task_id t)\<rparr>))
     (ret ())"

definition enqueue_many :: "(work_item \<times> string) list \<Rightarrow> queue_task list store_op" where
  "enqueue_many items = state_mutation
     (if items = [] then ret []
      else
        mbind (gets list_tasks) (\<lambda>tasks.
        let work_items = map fst items in
        mseq (require (distinct (map wi_id work_items))
          (StateStoreError ''Enqueue batch must contain unique task ids.''))
        (mseq (lift_res (mapE (check_inactive tasks) work_items))
        (mseq (lift_res (validate_enqueue_graph tasks work_items))
        (mbind utc_now (\<lambda>now.
         let added = map (new_task now) items in
         mseq (write_tasks (tasks @ added))
         (mseq (mmap enqueue_event added)
         (ret added))))))))"

definition enqueue :: "work_item \<Rightarrow> string \<Rightarrow> queue_task store_op" where
  "enqueue w source = state_mutation
     (mbind (enqueue_many [(w, source)]) (\<lambda>ts. ret (hd ts)))"

section \<open>Scheduling methods\<close>

definition store_schedule :: "store \<Rightarrow> queue_schedule res" where
  "store_schedule s = rbind (list_tasks s) (\<lambda>tasks. Inr (schedule tasks))"

definition next_queued :: "store \<Rightarrow> queue_task option res" where
  "next_queued s = rbind (store_schedule s) (\<lambda>q. Inr (qs_selected q))"

definition store_schedule_batch :: "int \<Rightarrow> store \<Rightarrow> queue_task list res" where
  "store_schedule_batch limit s =
     (if limit < 1 then Inl (StateStoreError ''Scheduler batch limit must be at least 1.'')
      else rbind (list_tasks s) (schedule_batch limit))"

definition store_downstream_tasks :: "string \<Rightarrow> store \<Rightarrow> queue_task list res" where
  "store_downstream_tasks wid s = rbind (list_tasks s) (\<lambda>tasks. Inr (downstream_tasks wid tasks))"

definition blocker_details :: "task_readiness \<Rightarrow> string" where
  "blocker_details r =
     join '', '' (map (\<lambda>b. blk_task_id b @ ''='' @ blk_status b) (tr_blockers r))"

definition mark_running :: "string \<Rightarrow> queue_task store_op" where
  "mark_running wid = state_mutation
     (mbind (gets (get_task wid)) (\<lambda>task.
      mseq (require (qt_status task = Queued)
        (StateStoreError (''Only queued tasks can start running: '' @ wid)))
      (mbind (gets store_schedule) (\<lambda>q.
      mseq (case List.find (\<lambda>r. task_id (tr_task r) = wid) (qs_ready q) of
          Some _ \<Rightarrow> ret ()
        | None \<Rightarrow> (case List.find (\<lambda>r. task_id (tr_task r) = wid) (qs_waiting q) of
            None \<Rightarrow> raise StopIteration
          | Some waiting \<Rightarrow> raise (StateStoreError (''Task dependencies are not ready: '' @ wid
              @ '' ('' @ blocker_details waiting @ '').''))))
      (mbind (update_task wid Running 1 None None) (\<lambda>updated.
      mseq (transition_event updated (qt_status task) Running ''task.started'' JNull None)
      (ret updated)))))))"

definition attempts_text :: "queue_task \<Rightarrow> int \<Rightarrow> string" where
  "attempts_text t n = ''('' @ str_int (qt_attempts t) @ ''/'' @ str_int n @ '').''"

definition escalate_attempt_limit :: "string \<Rightarrow> int \<Rightarrow> queue_task store_op" where
  "escalate_attempt_limit wid max_attempts = state_mutation
     (mbind (gets (get_task wid)) (\<lambda>task.
      if qt_status task \<noteq> Queued \<or> qt_attempts task < max_attempts then ret task
      else
        mbind (replace_task task (\<lambda>t. t\<lparr>qt_status := Escalated,
            qt_last_error := Some (''Worker attempt limit reached '' @ attempts_text task max_attempts)\<rparr>)) (\<lambda>updated.
        mseq (transition_event updated (qt_status task) Escalated ''worker.attempt_limit'' JNull None)
        (ret updated))))"

text \<open>\<open>escalated.last_error or "..."\<close>\<close>

definition or_text :: "string option \<Rightarrow> string \<Rightarrow> string" where
  "or_text x d = (case x of None \<Rightarrow> d | Some t \<Rightarrow> if t = [] then d else t)"

definition claim_next :: "int option \<Rightarrow> queue_task option store_op" where
  "claim_next max_attempts = state_mutation
     (mbind (gets store_schedule) (\<lambda>q.
      case qs_selected q of
        None \<Rightarrow> ret None
      | Some selected \<Rightarrow>
          (case max_attempts of
             Some m \<Rightarrow>
               if m \<le> qt_attempts selected
               then mbind (escalate_attempt_limit (task_id selected) m) (\<lambda>escalated.
                    raise (StateStoreError (or_text (qt_last_error escalated) ''Worker attempt limit reached.'')))
               else mbind (mark_running (task_id selected)) (\<lambda>t. ret (Some t))
           | None \<Rightarrow> mbind (mark_running (task_id selected)) (\<lambda>t. ret (Some t)))))"

definition claim_batch :: "int \<Rightarrow> queue_task list store_op" where
  "claim_batch limit = state_mutation
     (mbind (gets (store_schedule_batch limit)) (mmap (\<lambda>t. mark_running (task_id t))))"

definition requeue_failed :: "string \<Rightarrow> queue_task store_op" where
  "requeue_failed wid = state_mutation
     (mbind (gets (get_task wid)) (\<lambda>task.
      mseq (require (qt_status task = Failed)
        (StateStoreError (''Only failed tasks can be retried: '' @ wid)))
      (mbind (update_task wid Queued 0 (qt_last_commit task) None) (\<lambda>updated.
      mseq (transition_event updated (qt_status task) Queued ''task.retry_confirmed'' JNull None)
      (ret updated)))))"

definition recover_running :: "string \<Rightarrow> string \<Rightarrow> queue_task store_op" where
  "recover_running wid reason = state_mutation
     (mbind (gets (get_task wid)) (\<lambda>task.
      mseq (require (qt_status task = Running)
        (StateStoreError (''Only running tasks can be recovered: '' @ wid)))
      (mbind (update_task wid Queued 0 (qt_last_commit task) (Some reason)) (\<lambda>updated.
      mseq (transition_event updated (qt_status task) Queued ''task.recovered''
        (JObj [(''reason'', JStr reason)]) None)
      (ret updated)))))"

section \<open>Run results\<close>

definition history :: "store \<Rightarrow> run_record list res" where
  "history s = read_guard (rbind (read_jsonl (st_logs s History)) (mapE run_from_json))"

definition result_error :: "harness_run_result \<Rightarrow> string option" where
  "result_error r =
     (let findings = vr_findings (hr_pre_apply r) @ vr_findings (hr_post_apply r);
          failed = filter (\<lambda>c. \<not> command_ok c) (hr_command_results r)
      in if findings \<noteq> [] then Some (join ''; '' findings)
         else if failed \<noteq> []
         then Some (join ''; '' (map (\<lambda>c. cr_command c @ '' exited '' @ str_int (cr_return_code c)) failed))
         else if hr_commit r = None then Some ''No commit was created.''
         else None)"

text \<open>\<open>error or _result_error(result)\<close>\<close>

definition or_option :: "string option \<Rightarrow> string option \<Rightarrow> string option" where
  "or_option x y = (case x of None \<Rightarrow> y | Some t \<Rightarrow> if t = [] then y else x)"

definition result_status :: "harness_run_result \<Rightarrow> bool \<Rightarrow> task_status" where
  "result_status r review_required =
     (if run_ok r \<and> review_required then Review_Pending else if run_ok r then Done else Failed)"

definition append_history :: "run_record \<Rightarrow> unit store_op" where
  "append_history r = atomic_append_jsonl History (run_to_json r)"

text \<open>
  The three parts of \<open>record_result\<close> after the look-up of the run id: bring the task to its outcome
  unless it already shows it (a replay), append the run, journal the transition.
\<close>

definition shows_result :: "harness_run_result \<Rightarrow> string option \<Rightarrow> bool \<Rightarrow> queue_task \<Rightarrow> bool" where
  "shows_result r error review_required t \<longleftrightarrow> qt_status t = result_status r review_required
     \<and> qt_last_commit t = hr_commit r \<and> qt_last_error t = or_option error (result_error r)"

definition result_task ::
  "string \<Rightarrow> harness_run_result \<Rightarrow> string option \<Rightarrow> bool \<Rightarrow> queue_task \<Rightarrow> queue_task store_op" where
  "result_task wid r error review_required current =
     (if shows_result r error review_required current then ret current
      else mseq (require (qt_status current = Running)
          (StateStoreError (''Only a running task can record a new result: '' @ wid @ ''=''
            @ status_str (qt_status current))))
        (update_task wid (result_status r review_required) 0 (hr_commit r)
          (or_option error (result_error r))))"

definition result_record ::
  "string \<Rightarrow> string \<Rightarrow> string \<Rightarrow> harness_run_result \<Rightarrow> queue_task \<Rightarrow> run_record" where
  "result_record rid started finished r task =
     \<lparr>rr_run_id = rid, rr_work_item_id = task_id task, rr_started_at_utc = started,
      rr_finished_at_utc = finished, rr_ok = run_ok r, rr_commit = hr_commit r,
      rr_error = qt_last_error task, rr_pre_apply_findings = vr_findings (hr_pre_apply r),
      rr_post_apply_findings = vr_findings (hr_post_apply r),
      rr_command_results = hr_command_results r, rr_semantic_verification = hr_semantic_verification r\<rparr>"

definition finish_result ::
  "string \<Rightarrow> string \<Rightarrow> string \<Rightarrow> harness_run_result \<Rightarrow> bool \<Rightarrow> queue_task \<Rightarrow> queue_task \<Rightarrow> run_record store_op" where
  "finish_result rid started finished r review_required current task =
     mseq (append_history (result_record rid started finished r task))
     (mseq (if qt_status current = Running
            then transition_event task Running (result_status r review_required) ''task.run_recorded''
              (JObj [(''ok'', JBool (run_ok r))]) (Some rid)
            else ret ())
     (ret (result_record rid started finished r task)))"

definition record_result ::
  "string \<Rightarrow> string \<Rightarrow> harness_run_result \<Rightarrow> string option \<Rightarrow> bool \<Rightarrow> string option \<Rightarrow> run_record store_op"
where
  "record_result wid started result error review_required run_id = state_mutation
     (mbind utc_now (\<lambda>finished_at.
      mbind (case or_option run_id None of Some r \<Rightarrow> ret r | None \<Rightarrow> uuid4) (\<lambda>selected_run_id.
      mbind (gets history) (\<lambda>past.
      case List.find (\<lambda>r. rr_run_id r = selected_run_id) past of
        Some existing \<Rightarrow>
          if rr_work_item_id existing = wid \<and> rr_commit existing = hr_commit result
             \<and> rr_ok existing = run_ok result
          then ret existing
          else raise (StateStoreError (''Run id already exists with different evidence: '' @ selected_run_id))
      | None \<Rightarrow>
          mbind (gets (get_task wid)) (\<lambda>current.
          mbind (result_task wid result error review_required current) (\<lambda>task.
          finish_result selected_run_id started finished_at result review_required current task))))))"

definition record_failure :: "string \<Rightarrow> string \<Rightarrow> string \<Rightarrow> run_record store_op" where
  "record_failure wid started error = state_mutation
     (mbind (update_task wid Failed 0 None (Some error)) (\<lambda>task.
      mbind utc_now (\<lambda>now.
      mbind uuid4 (\<lambda>rid.
      let record = \<lparr>rr_run_id = rid, rr_work_item_id = task_id task, rr_started_at_utc = started,
            rr_finished_at_utc = now, rr_ok = False, rr_commit = None, rr_error = Some error,
            rr_pre_apply_findings = [], rr_post_apply_findings = [], rr_command_results = [],
            rr_semantic_verification = None\<rparr>
      in mseq (append_history record)
         (mseq (transition_event task Running Failed ''task.failed'' (JObj [(''error'', JStr error)]) (Some rid))
         (ret record))))))"

section \<open>Review\<close>

definition attach_review_bundle :: "string \<Rightarrow> string \<Rightarrow> queue_task store_op" where
  "attach_review_bundle wid bundle_id = state_mutation
     (mbind (gets (get_task wid)) (\<lambda>task.
      mseq (require (qt_status task = Review_Pending)
        (StateStoreError (''Only review-pending tasks can receive a review bundle: '' @ wid)))
      (mbind (replace_task task (\<lambda>t. t\<lparr>qt_pending_review_bundle_id := Some bundle_id, qt_last_error := None\<rparr>))
        (\<lambda>updated.
      mseq (journal_record ((journal_args ''artifact'' ''supervisor'' ''review.bundle_attached''
          (JObj [(''bundle_id'', JStr bundle_id)]))
        \<lparr>ja_recipient := Some ''critic'', ja_task_id := Some wid\<rparr>))
      (ret updated)))))"

definition fail_review_setup :: "string \<Rightarrow> string \<Rightarrow> queue_task store_op" where
  "fail_review_setup wid error = state_mutation
     (mbind (gets (get_task wid)) (\<lambda>task.
      mseq (require (qt_status task = Review_Pending)
        (StateStoreError (''Task is not waiting for review setup: '' @ wid)))
      (mbind (replace_task task (\<lambda>t. t\<lparr>qt_status := Failed, qt_last_error := Some error\<rparr>)) (\<lambda>updated.
      mseq (transition_event updated (qt_status task) Failed ''review.setup_failed''
        (JObj [(''error'', JStr error)]) None)
      (ret updated)))))"

definition record_review_failure :: "string \<Rightarrow> string \<Rightarrow> queue_task store_op" where
  "record_review_failure wid error = state_mutation
     (mbind (gets (get_task wid)) (\<lambda>task.
      mseq (require (qt_status task = Review_Pending \<and> or_option (qt_pending_review_bundle_id task) None \<noteq> None)
        (StateStoreError (''Task is not waiting for critic review: '' @ wid)))
      (mbind (replace_task task (\<lambda>t. t\<lparr>qt_last_error := Some error\<rparr>)) (\<lambda>updated.
      mseq (journal_record ((journal_args ''tool_result'' ''critic'' ''critic.review_failed''
          (JObj [(''error'', JStr error), (''bundle_id'', j_opt_str (qt_pending_review_bundle_id task))]))
        \<lparr>ja_recipient := Some ''supervisor'', ja_task_id := Some wid,
         ja_correlation_id := qt_pending_review_bundle_id task\<rparr>))
      (ret updated)))))"

definition decision_outcome :: "string \<Rightarrow> string \<Rightarrow> (task_status \<times> string option) res" where
  "decision_outcome decision summary =
     (if decision = ''approve'' then Inr (Done, None)
      else if decision = ''reject'' then Inr (Rework_Required, Some summary)
      else if decision = ''escalate'' then Inr (Escalated, Some summary)
      else Inl (StateStoreError (''Unsupported critic decision: '' @ decision)))"

definition resolve_review :: "string \<Rightarrow> string \<Rightarrow> string \<Rightarrow> string \<Rightarrow> string \<Rightarrow> queue_task store_op" where
  "resolve_review wid bundle_id decision_id decision summary = state_mutation
     (mbind (gets (get_task wid)) (\<lambda>task.
      mseq (require (qt_status task = Review_Pending)
        (StateStoreError (''Task is not waiting for critic review: '' @ wid)))
      (mseq (require (qt_pending_review_bundle_id task = Some bundle_id)
        (StateStoreError (''Critic decision does not match the pending bundle for task: '' @ wid)))
      (mbind (lift_res (decision_outcome decision summary)) (\<lambda>(status, error).
      mbind (replace_task task (\<lambda>t. t\<lparr>qt_status := status, qt_pending_review_bundle_id := None,
          qt_last_review_decision_id := Some decision_id, qt_last_error := error\<rparr>)) (\<lambda>updated.
      mseq (transition_event updated (qt_status task) status ''critic.decision_applied''
        (JObj [(''decision'', JStr decision), (''decision_id'', JStr decision_id), (''summary'', JStr summary)])
        None)
      (ret updated)))))))"

definition confirm_rework :: "string \<Rightarrow> string \<Rightarrow> string list \<Rightarrow> int \<Rightarrow> queue_task store_op" where
  "confirm_rework wid decision_id instructions max_attempts = state_mutation
     (mbind (gets (get_task wid)) (\<lambda>task.
      mseq (require (qt_status task = Rework_Required)
        (StateStoreError (''Task is not awaiting supervisor-confirmed rework: '' @ wid)))
      (mseq (require (qt_last_review_decision_id task = Some decision_id)
        (StateStoreError (''Correction brief does not match the latest critic decision: '' @ decision_id)))
      (mseq (require (instructions \<noteq> [] \<and> \<not> list_ex (\<lambda>i. strip i = []) instructions)
        (StateStoreError ''Supervisor-confirmed correction instructions must be non-empty.''))
      (mseq (require (1 \<le> max_attempts)
        (StateStoreError ''Three-head max_attempts must be at least 1.''))
      (if max_attempts \<le> qt_attempts task
       then mbind (replace_task task (\<lambda>t. t\<lparr>qt_status := Escalated,
              qt_last_error := Some (''Rework attempt limit reached '' @ attempts_text task max_attempts)\<rparr>))
              (\<lambda>updated.
            mseq (transition_event updated (qt_status task) Escalated ''rework.attempt_limit'' JNull None)
            (ret updated))
       else
         let work_item = (qt_work_item task)\<lparr>wi_correction_instructions := instructions,
               wi_correction_decision_id := Some decision_id\<rparr>
         in mbind (replace_task task (\<lambda>t. t\<lparr>qt_status := Queued, qt_work_item := work_item,
              qt_pending_review_bundle_id := None, qt_last_error := None\<rparr>)) (\<lambda>updated.
            mseq (transition_event updated (qt_status task) Queued ''rework.supervisor_confirmed''
              (JObj [(''decision_id'', JStr decision_id), (''instructions'', j_strs instructions)]) None)
            (ret updated))))))))"

definition escalation_outcome ::
  "string \<Rightarrow> string \<Rightarrow> queue_task \<Rightarrow> (task_status \<times> string option \<times> int) res" where
  "escalation_outcome resolution reason task =
     (if resolution = ''requeue'' then Inr (Queued, None, 0)
      else if resolution = ''fail'' then Inr (Failed, Some reason, qt_attempts task)
      else Inl (StateStoreError (''Unsupported escalation resolution: '' @ resolution)))"

definition resolve_escalation :: "string \<Rightarrow> string \<Rightarrow> string \<Rightarrow> queue_task store_op" where
  "resolve_escalation wid resolution reason = state_mutation
     (mbind (gets (get_task wid)) (\<lambda>task.
      mseq (require (qt_status task = Escalated)
        (StateStoreError (''Only escalated tasks can be resolved: '' @ wid)))
      (mseq (require (strip reason \<noteq> [])
        (StateStoreError ''Escalation resolution requires an operator reason.''))
      (mbind (lift_res (escalation_outcome resolution reason task)) (\<lambda>(status, error, attempts).
      mbind (replace_task task (\<lambda>t. t\<lparr>qt_status := status, qt_attempts := attempts,
          qt_pending_review_bundle_id := None, qt_last_error := error\<rparr>)) (\<lambda>updated.
      mseq (transition_event updated (qt_status task) status ''escalation.resolved''
        (JObj [(''resolution'', JStr resolution), (''reason'', JStr reason)]) None)
      (ret updated)))))))"

section \<open>Rollback\<close>

definition rollback_records :: "store \<Rightarrow> rollback_record list res" where
  "rollback_records s =
     read_guard (rbind (read_jsonl (st_logs s Rollbacks)) (mapE rollback_record_from_json))"

definition rollback_text :: "string \<Rightarrow> string \<Rightarrow> string" where
  "rollback_text target_commit rollback_commit =
     ''Rolled back by '' @ rollback_commit @ ''; target commit was '' @ target_commit @ ''.''"

definition mark_rolled_back :: "string \<Rightarrow> string \<Rightarrow> string \<Rightarrow> queue_task store_op" where
  "mark_rolled_back wid target_commit rollback_commit = state_mutation
     (mbind (gets (get_task wid)) (\<lambda>task.
      if qt_status task = Rolled_Back \<and> qt_last_error task = Some (rollback_text target_commit rollback_commit)
      then ret task
      else
        mseq (require (qt_status task = Done)
          (StateStoreError (''Only done tasks can be marked rolled back: '' @ wid)))
        (mbind (replace_task task (\<lambda>t. t\<lparr>qt_status := Rolled_Back,
            qt_last_error := Some (rollback_text target_commit rollback_commit)\<rparr>)) (\<lambda>updated.
        mseq (transition_event updated (qt_status task) Rolled_Back ''rollback.applied''
          (JObj [(''target_commit'', JStr target_commit), (''rollback_commit'', JStr rollback_commit)]) None)
        (ret updated)))))"

definition record_rollback :: "rollback_record \<Rightarrow> rollback_record store_op" where
  "record_rollback record = state_mutation
     (mbind (gets rollback_records) (\<lambda>past.
      case List.find (\<lambda>r. rb_rollback_id r = rb_rollback_id record) past of
        Some existing \<Rightarrow>
          if existing = record then ret existing
          else raise (StateStoreError (''Rollback id already exists with different evidence: ''
            @ rb_rollback_id record))
      | None \<Rightarrow>
          mseq (atomic_append_jsonl Rollbacks (rollback_record_to_json record))
          (mseq (journal_record ((journal_args ''decision'' ''supervisor'' ''rollback.recorded''
              (rollback_record_to_json record))
            \<lparr>ja_task_id := Some (rb_work_item_id record), ja_run_id := Some (rb_run_id record),
             ja_correlation_id := Some (rb_rollback_id record)\<rparr>))
          (ret record))))"

definition complete_rollback :: "rollback_record \<Rightarrow> rollback_record store_op" where
  "complete_rollback record = state_mutation
     (case rb_rollback_commit record of
        None \<Rightarrow> raise (StateStoreError ''Only a successful rollback with a commit can complete state.'')
      | Some rollback_commit \<Rightarrow>
          mseq (require (rb_ok record)
            (StateStoreError ''Only a successful rollback with a commit can complete state.''))
          (mseq (mark_rolled_back (rb_work_item_id record) (rb_target_commit record) rollback_commit)
          (record_rollback record)))"

section \<open>Operator events and audits\<close>

definition operator_events :: "store \<Rightarrow> operator_event list res" where
  "operator_events s =
     read_guard (rbind (read_jsonl (st_logs s Operators)) (mapE operator_event_from_json))"

definition record_operator_event ::
  "string \<Rightarrow> bool \<Rightarrow> string \<Rightarrow> string \<Rightarrow> string option \<Rightarrow> operator_event store_op" where
  "record_operator_event command ok message raw_text tid = state_mutation
     (mbind uuid4 (\<lambda>eid.
      mbind utc_now (\<lambda>now.
      let event = \<lparr>oe_event_id = eid, oe_created_at_utc = now, oe_command = command, oe_ok = ok,
            oe_message = message, oe_raw_text = raw_text, oe_task_id = tid\<rparr>
      in mseq (atomic_append_jsonl Operators (operator_event_to_json event))
         (mseq (journal_record ((journal_args ''interaction'' ''customer'' ''operator.command''
             (JObj [(''raw_text'', JStr raw_text), (''message'', JStr message), (''ok'', JBool ok)]))
           \<lparr>ja_recipient := Some ''supervisor'', ja_task_id := tid\<rparr>))
         (ret event)))))"

text \<open>\<open>created_at.replace(":", "").replace("+", "Z")\<close>\<close>

definition safe_timestamp :: "string \<Rightarrow> string" where
  "safe_timestamp t = replace_char CHR ''+'' CHR ''Z'' (filter (\<lambda>c. c \<noteq> CHR '':'') t)"

definition audit_reports :: "store \<Rightarrow> audit_record list res" where
  "audit_reports s =
     read_guard (rbind (read_jsonl (st_logs s Audits)) (mapE (\<lambda>j. audit_record_from_json j (st_root s))))"

definition record_audit_report :: "string \<Rightarrow> bool \<Rightarrow> int \<Rightarrow> int \<Rightarrow> audit_record store_op" where
  "record_audit_report markdown ok findings_count command_results_count = state_mutation
     (mbind uuid4 (\<lambda>aid.
      mbind utc_now (\<lambda>created_at.
      mbind (gets (\<lambda>s. Inr (path_join (below_root ''audit-reports'' s)
        (path_of (safe_timestamp created_at @ ''-'' @ aid @ ''.md''))))) (\<lambda>report_path.
      mseq (durable_write report_path (\<lambda>s. s\<lparr>st_reports := AList.update report_path markdown (st_reports s)\<rparr>))
      (mbind (gets (\<lambda>s. Inr (st_root s))) (\<lambda>root.
      let record = \<lparr>ar_audit_id = aid, ar_created_at_utc = created_at, ar_ok = ok,
            ar_report_path = report_path, ar_findings_count = findings_count,
            ar_command_results_count = command_results_count\<rparr>
      in mseq (atomic_append_jsonl Audits (audit_record_to_json record root))
         (mseq (journal_record (journal_args ''artifact'' ''supervisor'' ''audit.recorded''
             (JObj [(''audit_id'', JStr aid), (''ok'', JBool ok), (''report_path'', JStr (path_str report_path))])))
         (ret record))))))))"

section \<open>Review bundles and decisions\<close>

definition review_bundles :: "store \<Rightarrow> review_bundle_record list res" where
  "review_bundles s =
     read_guard (rbind (read_jsonl (st_logs s Bundles))
       (mapE (\<lambda>j. review_bundle_record_from_json j (st_root s))))"

definition record_review_bundle :: "review_bundle_record \<Rightarrow> review_bundle_record store_op" where
  "record_review_bundle record = state_mutation
     (mbind (gets review_bundles) (\<lambda>past.
      case List.find (\<lambda>r. bb_bundle_id r = bb_bundle_id record) past of
        Some existing \<Rightarrow>
          if existing = record then ret existing
          else raise (StateStoreError (''Review bundle id already exists with different evidence: ''
            @ bb_bundle_id record))
      | None \<Rightarrow>
          mbind (gets (\<lambda>s. Inr (st_root s))) (\<lambda>root.
          mseq (atomic_append_jsonl Bundles (review_bundle_record_to_json record root))
          (mseq (journal_record ((journal_args ''interaction'' ''supervisor'' ''critic.review_bundle''
              (JObj [(''bundle_id'', JStr (bb_bundle_id record)), (''commit'', JStr (bb_commit record)),
                     (''sha256'', JStr (bb_bundle_sha256 record))]))
            \<lparr>ja_recipient := Some ''critic'', ja_task_id := Some (bb_work_item_id record),
             ja_run_id := Some (bb_run_id record)\<rparr>))
          (ret record)))))"

definition review_decisions :: "store \<Rightarrow> review_decision_record list res" where
  "review_decisions s =
     read_guard (rbind (read_jsonl (st_logs s Decisions)) (mapE review_decision_record_from_json))"

text \<open>The loop over the recorded decisions: the first of the same id or the same bundle decides.\<close>

fun decision_clash ::
  "review_decision_record \<Rightarrow> review_decision_record list \<Rightarrow> review_decision_record option res" where
  "decision_clash record [] = Inr None"
| "decision_clash record (existing # rest) =
     (if rd_decision_id existing = rd_decision_id record
      then if existing = record then Inr (Some existing)
           else Inl (StateStoreError (''Review decision id already exists with different evidence: ''
             @ rd_decision_id record))
      else if rd_bundle_id existing = rd_bundle_id record
      then Inl (StateStoreError (''Review bundle already has an immutable decision: ''
             @ rd_bundle_id record))
      else decision_clash record rest)"

definition record_review_decision :: "review_decision_record \<Rightarrow> review_decision_record store_op" where
  "record_review_decision record = state_mutation
     (mbind (gets (\<lambda>s. rbind (review_decisions s) (decision_clash record))) (\<lambda>clash.
      case clash of
        Some existing \<Rightarrow> ret existing
      | None \<Rightarrow>
          mseq (atomic_append_jsonl Decisions (review_decision_record_to_json record))
          (mseq (journal_record ((journal_args ''decision'' ''critic'' ''critic.decision''
              (review_decision_record_to_json record))
            \<lparr>ja_recipient := Some ''supervisor'', ja_task_id := Some (rd_work_item_id record),
             ja_run_id := Some (rd_run_id record)\<rparr>))
          (ret record))))"

section \<open>Telegram offset\<close>

definition telegram_update_offset :: "store \<Rightarrow> int option res" where
  "telegram_update_offset s =
     rbind (read_guard (read_json (st_offset s) JNull)) (\<lambda>data.
     case (case data of JObj d \<Rightarrow> jget d ''offset'' | _ \<Rightarrow> JNull) of
       JNull \<Rightarrow> Inr None | v \<Rightarrow> rbind (py_int v) (\<lambda>i. Inr (Some i)))"

definition set_telegram_update_offset :: "int \<Rightarrow> unit store_op" where
  "set_telegram_update_offset offset = state_mutation
     (mbind (gets telegram_update_offset) (\<lambda>current.
      if (case current of None \<Rightarrow> False | Some c \<Rightarrow> offset < c) then ret ()
      else
        mbind (gets (\<lambda>s. Inr (below_root ''telegram-offset.json'' s))) (\<lambda>p.
        durable_write p (\<lambda>s. s\<lparr>st_offset := Content (JObj [(''offset'', JInt offset)])\<rparr>))))"

end
