(* ===== verification/Scheduler_Facts.thy ===== *)
theory Scheduler_Facts imports Scheduler "HOL-Library.Multiset" begin

text \<open>
  What the scheduling core promises: the look-up table holds the last task of every id, the
  selected task is the first of the highest priority among the tasks whose dependencies are done,
  batches are conflict free and greedy.
\<close>

section \<open>The table of latest tasks\<close>

lemma map_of_fold_update:
  "map_of (fold (\<lambda>x m. AList.update (f x) (g x) m) xs m) i =
     (case List.find (\<lambda>x. f x = i) (rev xs) of Some x \<Rightarrow> Some (g x) | None \<Rightarrow> map_of m i)"
proof (induction xs arbitrary: m)
  case (Cons x xs)
  then show ?case
    by (auto simp: find_append update_conv' split: option.splits)
qed simp

lemma distinct_fold_update:
  "distinct (map fst m) \<Longrightarrow> distinct (map fst (fold (\<lambda>x m. AList.update (f x) (g x) m) xs m))"
  by (induction xs arbitrary: m) (simp_all add: distinct_update)

lemma map_of_latest:
  "map_of (latest_tasks_by_id ts) i = List.find (\<lambda>t. task_id t = i) (rev ts)"
  by (simp add: latest_tasks_by_id_def map_of_fold_update split: option.splits)

lemma distinct_latest: "distinct (map fst (latest_tasks_by_id ts))"
  by (simp add: latest_tasks_by_id_def distinct_fold_update)

lemma map_of_latest_SomeD: "map_of (latest_tasks_by_id ts) i = Some t \<Longrightarrow> t \<in> set ts \<and> task_id t = i"
  by (auto simp: map_of_latest dest!: find_SomeD)

lemma map_of_latest_None_iff: "map_of (latest_tasks_by_id ts) i = None \<longleftrightarrow> i \<notin> task_id ` set ts"
  by (auto simp: map_of_latest find_None_iff)

lemma fst_set_latest: "fst ` set (latest_tasks_by_id ts) = task_id ` set ts"
  using map_of_latest_None_iff [of ts] by (auto simp: map_of_eq_None_iff)

section \<open>Readiness\<close>

definition deps_done :: "queue_task list \<Rightarrow> queue_task \<Rightarrow> bool" where
  "deps_done ts t \<longleftrightarrow> (\<forall>d \<in> set (wi_depends_on (qt_work_item t)).
     \<exists>u. map_of (latest_tasks_by_id ts) d = Some u \<and> qt_status u = Done)"

lemma status_str_done [simp]: "status_str st = ''done'' \<longleftrightarrow> st = Done"
  by (cases st) auto

lemma concat_map_Nil: "concat (map f xs) = [] \<longleftrightarrow> (\<forall>x \<in> set xs. f x = [])"
  by (induction xs) auto

lemma no_blockers_iff: "dependency_blockers t (latest_tasks_by_id ts) = [] \<longleftrightarrow> deps_done ts t"
  unfolding dependency_blockers_def deps_done_def concat_map_Nil
  by (auto simp: Let_def split: option.splits)

lemma readiness_of_simps [simp]:
  "tr_task (readiness_of m t) = t"
  "tr_ready (readiness_of (latest_tasks_by_id ts) t) \<longleftrightarrow> deps_done ts t"
  by (simp_all add: readiness_of_def Let_def no_blockers_iff)

section \<open>The schedule\<close>

text \<open>No two queued tasks share an id; the store keeps this (see \<open>single_live\<close>).\<close>

definition queued_unique :: "queue_task list \<Rightarrow> bool" where
  "queued_unique ts \<longleftrightarrow> distinct (map task_id (filter (\<lambda>t. qt_status t = Queued) ts))"

lemma snd_queued_indexed: "map snd (queued_indexed ts) = filter (\<lambda>t. qt_status t = Queued) ts"
proof -
  have "map snd (filter (\<lambda>(_, t). qt_status t = Queued) (enumerate n ts))
      = filter (\<lambda>t. qt_status t = Queued) ts" for n
    by (induction ts arbitrary: n) auto
  then show ?thesis by (simp add: queued_indexed_def)
qed

lemma queued_indexed_iff: "(i, t) \<in> set (queued_indexed ts) \<longleftrightarrow> i < length ts \<and> ts ! i = t \<and> qt_status t = Queued"
  by (auto simp: queued_indexed_def in_set_enumerate_eq)

lemma find_unique:
  "distinct (map f xs) \<Longrightarrow> x \<in> set xs \<Longrightarrow> List.find (\<lambda>y. f y = f x) (rev xs) = Some x"
proof (induction xs)
  case (Cons y ys)
  show ?case
  proof (cases "x \<in> set ys")
    case True
    with Cons show ?thesis by (simp add: find_append)
  next
    case False
    then have "x = y" using Cons.prems(2) by simp
    have "f y \<notin> f ` set ys" using Cons.prems(1) by simp
    then have "\<not> (\<exists>z. z \<in> set (rev ys) \<and> f z = f y)" by (metis image_eqI set_rev)
    then have "List.find (\<lambda>z. f z = f y) (rev ys) = None" by (simp add: find_None_iff)
    with \<open>x = y\<close> show ?thesis by (simp add: find_append)
  qed
qed simp

definition ready_indexed :: "queue_task list \<Rightarrow> (nat \<times> queue_task) list" where
  "ready_indexed ts = filter (\<lambda>(_, t). deps_done ts t) (queued_indexed ts)"

lemma map_filter_snd: "map snd (filter (\<lambda>(_, t). P t) xs) = filter P (map snd xs)"
  by (induction xs) auto

lemma ready_table:
  assumes u: "queued_unique ts" and m: "(i, t) \<in> set (queued_indexed ts)"
  shows "map_of (fold (\<lambda>r m. AList.update (task_id (tr_task r)) r m)
      (filter tr_ready (map (\<lambda>(_, t). readiness_of (latest_tasks_by_id ts) t) (queued_indexed ts))) [])
      (task_id t)
    = (if deps_done ts t then Some (readiness_of (latest_tasks_by_id ts) t) else None)"
proof -
  let ?r = "readiness_of (latest_tasks_by_id ts)"
  let ?q = "filter (\<lambda>t. qt_status t = Queued) ts"
  let ?f = "task_id \<circ> tr_task"
  have *: "filter tr_ready (map (\<lambda>(_, t). ?r t) (queued_indexed ts)) = map ?r (filter (deps_done ts) ?q)"
    unfolding snd_queued_indexed [symmetric]
    by (simp add: filter_map comp_def case_prod_beta)
  have mem: "t \<in> set ?q" using m by (metis snd_queued_indexed image_eqI list.set_map snd_conv)
  have dq: "distinct (map task_id ?q)" using u by (simp add: queued_unique_def)
  have "distinct (map task_id (filter (deps_done ts) ?q))"
    using distinct_map_filter [OF dq] .
  then have d: "distinct (map ?f (map ?r (filter (deps_done ts) ?q)))"
    by (simp add: comp_def del: filter_filter)
  show ?thesis
  proof (cases "deps_done ts t")
    case True
    then have "?r t \<in> set (map ?r (filter (deps_done ts) ?q))" using mem by auto
    from find_unique [OF d this] True show ?thesis
      by (simp add: * map_of_fold_update comp_def)
  next
    case False
    have "List.find (\<lambda>x. task_id (tr_task x) = task_id t) (rev (map ?r (filter (deps_done ts) ?q))) = None"
      using dq mem False by (auto simp: find_None_iff distinct_map inj_on_def)
    with False show ?thesis by (simp add: * map_of_fold_update)
  qed
qed

lemma schedule_ready:
  assumes u: "queued_unique ts"
  shows "qs_ready (schedule ts) =
    map (readiness_of (latest_tasks_by_id ts) \<circ> snd) (sort_key schedule_key (ready_indexed ts))"
proof -
  let ?tab = "fold (\<lambda>r m. AList.update (task_id (tr_task r)) r m)
      (filter tr_ready (map (\<lambda>(_, t). readiness_of (latest_tasks_by_id ts) t) (queued_indexed ts))) []"
  have f: "filter (\<lambda>(_, t). map_of ?tab (task_id t) \<noteq> None) (queued_indexed ts) = ready_indexed ts"
    unfolding ready_indexed_def
    by (intro filter_cong) (auto simp: ready_table [OF u] split: if_splits)
  have g: "the (map_of ?tab (task_id t)) = readiness_of (latest_tasks_by_id ts) t"
    if "(i, t) \<in> set (ready_indexed ts)" for i t
    using that ready_table [OF u, of i t] by (auto simp: ready_indexed_def)
  have "qs_ready (schedule ts) = map (\<lambda>(_, t). the (map_of ?tab (task_id t)))
      (sort_key schedule_key (filter (\<lambda>(_, t). map_of ?tab (task_id t) \<noteq> None) (queued_indexed ts)))"
    by (simp only: schedule_def Let_def queue_schedule.simps)
  also have "\<dots> = map (readiness_of (latest_tasks_by_id ts) \<circ> snd) (sort_key schedule_key (ready_indexed ts))"
    unfolding f by (intro map_cong) (auto simp: g)
  finally show ?thesis .
qed

lemma schedule_ready_tasks:
  "queued_unique ts \<Longrightarrow> map tr_task (qs_ready (schedule ts)) = map snd (sort_key schedule_key (ready_indexed ts))"
  by (simp add: schedule_ready comp_def)

lemma schedule_waiting:
  "qs_waiting (schedule ts) = map (readiness_of (latest_tasks_by_id ts))
     (filter (\<lambda>t. \<not> deps_done ts t) (filter (\<lambda>t. qt_status t = Queued) ts))"
  unfolding snd_queued_indexed [symmetric]
  by (simp add: schedule_def Let_def filter_map comp_def case_prod_beta)

lemma schedule_selected:
  "qs_selected (schedule ts) = (case qs_ready (schedule ts) of [] \<Rightarrow> None | r # _ \<Rightarrow> Some (tr_task r))"
  by (simp add: schedule_def Let_def)

lemma ready_indexed_iff:
  "(i, t) \<in> set (ready_indexed ts) \<longleftrightarrow>
     i < length ts \<and> ts ! i = t \<and> qt_status t = Queued \<and> deps_done ts t"
  by (auto simp: ready_indexed_def queued_indexed_iff)

lemma hd_sort_key_min:
  assumes "sort_key k xs = y # ys" "x \<in> set xs"
  shows "k y \<le> k x"
proof -
  have "sorted (map k (y # ys))" using sorted_sort_key [of k xs] assms(1) by simp
  moreover have "x \<in> set (y # ys)" using assms by (metis set_sort)
  ultimately show ?thesis by auto
qed

lemma selected_best:
  assumes u: "queued_unique ts" and sel: "qs_selected (schedule ts) = Some t"
  shows "\<exists>j. j < length ts \<and> ts ! j = t \<and> qt_status t = Queued \<and> deps_done ts t \<and>
    (\<forall>i. i < length ts \<longrightarrow> qt_status (ts ! i) = Queued \<longrightarrow> deps_done ts (ts ! i) \<longrightarrow>
       prio (ts ! i) < prio t \<or> (prio (ts ! i) = prio t \<and> j \<le> i))"
proof -
  obtain p ps where s: "sort_key schedule_key (ready_indexed ts) = p # ps" and t: "snd p = t"
    using sel by (auto simp: schedule_selected schedule_ready [OF u] split: list.splits)
  obtain j where p: "p = (j, t)" using t by (cases p) auto
  have "(j, t) \<in> set (ready_indexed ts)" using s p by (metis list.set_intros(1) set_sort)
  then have j: "j < length ts" "ts ! j = t" "qt_status t = Queued" "deps_done ts t"
    by (simp_all add: ready_indexed_iff)
  have "prio (ts ! i) < prio t \<or> (prio (ts ! i) = prio t \<and> j \<le> i)"
    if "i < length ts" "qt_status (ts ! i) = Queued" "deps_done ts (ts ! i)" for i
  proof -
    have "(i, ts ! i) \<in> set (ready_indexed ts)" using that by (simp add: ready_indexed_iff)
    then have "schedule_key (j, t) \<le> schedule_key (i, ts ! i)"
      using hd_sort_key_min [OF s] p by blast
    then show ?thesis by (auto simp: schedule_key_def less_eq_prod_def)
  qed
  with j show ?thesis by blast
qed

lemma ready_indexed_task_iff:
  "(\<exists>i. (i, t) \<in> set (ready_indexed ts)) \<longleftrightarrow> t \<in> set ts \<and> qt_status t = Queued \<and> deps_done ts t"
  by (auto simp: ready_indexed_iff in_set_conv_nth [of t])

lemma selected_None_iff:
  assumes "queued_unique ts"
  shows "qs_selected (schedule ts) = None \<longleftrightarrow> (\<forall>t \<in> set ts. qt_status t = Queued \<longrightarrow> \<not> deps_done ts t)"
proof -
  have "qs_selected (schedule ts) = None \<longleftrightarrow> sort_key schedule_key (ready_indexed ts) = []"
    by (cases "sort_key schedule_key (ready_indexed ts)")
       (simp_all add: schedule_selected schedule_ready [OF assms])
  also have "\<dots> \<longleftrightarrow> ready_indexed ts = []"
    by (metis length_0_conv length_sort)
  also have "\<dots> \<longleftrightarrow> (\<forall>t. \<not> (\<exists>i. (i, t) \<in> set (ready_indexed ts)))"
    by (metis ex_in_conv set_empty surj_pair)
  also have "\<dots> \<longleftrightarrow> (\<forall>t \<in> set ts. qt_status t = Queued \<longrightarrow> \<not> deps_done ts t)"
    unfolding ready_indexed_task_iff by blast
  finally show ?thesis .
qed

lemma ready_or_waiting:
  assumes "queued_unique ts"
  shows "mset (map tr_task (qs_ready (schedule ts))) + mset (map tr_task (qs_waiting (schedule ts)))
    = mset (filter (\<lambda>t. qt_status t = Queued) ts)"
proof -
  let ?q = "filter (\<lambda>t. qt_status t = Queued) ts"
  have "mset (map tr_task (qs_ready (schedule ts))) = mset (map snd (ready_indexed ts))"
    by (simp add: schedule_ready_tasks [OF assms])
  also have "\<dots> = filter_mset (deps_done ts) (mset ?q)"
    by (simp add: ready_indexed_def map_filter_snd snd_queued_indexed flip: mset_filter)
  finally have r: "mset (map tr_task (qs_ready (schedule ts))) = filter_mset (deps_done ts) (mset ?q)" .
  have w: "mset (map tr_task (qs_waiting (schedule ts))) = filter_mset (\<lambda>t. \<not> deps_done ts t) (mset ?q)"
    by (simp add: schedule_waiting comp_def flip: mset_filter)
  show ?thesis unfolding r w by (rule multiset_partition [symmetric])
qed

lemma ready_set:
  assumes "queued_unique ts"
  shows "t \<in> set (map tr_task (qs_ready (schedule ts))) \<longleftrightarrow> t \<in> set ts \<and> qt_status t = Queued \<and> deps_done ts t"
proof -
  have "t \<in> set (map tr_task (qs_ready (schedule ts))) \<longleftrightarrow> (\<exists>i. (i, t) \<in> set (ready_indexed ts))"
    unfolding schedule_ready_tasks [OF assms] by force
  then show ?thesis unfolding ready_indexed_task_iff .
qed

section \<open>Batches\<close>

lemma paths_overlap_sym: "paths_overlap a b \<longleftrightarrow> paths_overlap b a"
  by (auto simp: paths_overlap_def)

lemma conflict_sym: "resource_scopes_conflict a b \<longleftrightarrow> resource_scopes_conflict b a"
  unfolding resource_scopes_conflict_def by (metis paths_overlap_sym)

abbreviation scopes_disjoint :: "queue_task \<Rightarrow> queue_task \<Rightarrow> bool" where
  "scopes_disjoint a b \<equiv> \<not> resource_scopes_conflict (scope b) (scope a)"

lemma batch_loop_prefix: "\<exists>ys. batch_loop n acc cs = acc @ ys \<and> subseq ys cs"
proof (induction cs arbitrary: acc)
  case (Cons c cs)
  then show ?case
    by (auto simp: Let_def intro: subseq_Cons')
       (metis append.assoc append_Cons append_Nil subseq_Cons2)
qed simp

lemma batch_loop_disjoint:
  "sorted_wrt scopes_disjoint acc \<Longrightarrow> sorted_wrt scopes_disjoint (batch_loop n acc cs)"
  by (induction cs arbitrary: acc) (auto simp: Let_def sorted_wrt_append list_ex_iff)

lemma batch_loop_length: "length acc < n \<Longrightarrow> length (batch_loop n acc cs) \<le> n"
  by (induction cs arbitrary: acc) (auto simp: Let_def)

lemma batch_loop_greedy:
  assumes "length (batch_loop n acc cs) < n" "c \<in> set cs" "c \<notin> set (batch_loop n acc cs)"
  shows "\<exists>b \<in> set (batch_loop n acc cs). resource_scopes_conflict (scope c) (scope b)"
  using assms
proof (induction cs arbitrary: acc)
  case (Cons c' cs)
  show ?case
  proof (cases "list_ex (\<lambda>cur. resource_scopes_conflict (scope c') (scope cur)) acc")
    case True
    have "set acc \<subseteq> set (batch_loop n acc cs)" using batch_loop_prefix [of n acc cs] by auto
    then show ?thesis using Cons True by (auto simp: list_ex_iff)
  next
    case False
    let ?a = "acc @ [c']"
    have len: "length ?a \<noteq> n" using Cons.prems(1) False by (auto simp: Let_def)
    have "set ?a \<subseteq> set (batch_loop n ?a cs)" using batch_loop_prefix [of n ?a cs] by fastforce
    then have "c \<noteq> c'" using Cons.prems(3) False len by (auto simp: Let_def)
    then show ?thesis using Cons False len by (auto simp: Let_def)
  qed
qed simp

lemma schedule_batch_cases:
  "schedule_batch n ts = Inr b \<Longrightarrow>
     1 \<le> n \<and> b = batch_loop (nat n) [] (map tr_task (qs_ready (schedule ts)))"
  by (auto simp: schedule_batch_def split: if_splits)

end
