(* ===== verification/State_Lifecycle.thy ===== *)
theory State_Lifecycle imports State_Store Scheduler_Facts begin

text \<open>
  The abstract lifecycle of a task and the refinement of the store's queue operations to it.

  \<open>lifecycle\<close> is the state machine of one queue entry, \<open>queue_step\<close> the steps of the whole queue
  (a batch is appended, one entry moves), \<open>live_last\<close> the queue invariant: an entry that is still
  active is the last one of its id, so the id names it.  \<open>queue_refines\<close> is the relation between
  the store before and after an operation that says its effect on the queue is a sequence of such
  steps; as an instance of the contract \<open>effect\<close> it is proved operation by operation.
\<close>

section \<open>The state machine of an entry\<close>

inductive lifecycle :: "queue_task \<Rightarrow> queue_task \<Rightarrow> bool" where
  started: "qt_status t = Queued \<Longrightarrow> lifecycle t (t\<lparr>qt_status := Running, qt_updated_at_utc := now,
     qt_attempts := qt_attempts t + 1, qt_last_commit := None, qt_last_error := None\<rparr>)"
| worker_limit: "qt_status t = Queued \<Longrightarrow> n \<le> qt_attempts t \<Longrightarrow>
     lifecycle t (t\<lparr>qt_updated_at_utc := now, qt_status := Escalated, qt_last_error := Some e\<rparr>)"
| recovered: "qt_status t = Running \<Longrightarrow>
     lifecycle t (t\<lparr>qt_status := Queued, qt_updated_at_utc := now, qt_last_error := Some e\<rparr>)"
| finished: "qt_status t = Running \<Longrightarrow> st \<in> {Review_Pending, Done, Failed} \<Longrightarrow>
     lifecycle t (t\<lparr>qt_status := st, qt_updated_at_utc := now, qt_last_commit := c, qt_last_error := err\<rparr>)"
| bundle_attached: "qt_status t = Review_Pending \<Longrightarrow>
     lifecycle t (t\<lparr>qt_updated_at_utc := now, qt_pending_review_bundle_id := Some b, qt_last_error := None\<rparr>)"
| review_failed: "qt_status t = Review_Pending \<Longrightarrow>
     lifecycle t (t\<lparr>qt_updated_at_utc := now, qt_last_error := Some e\<rparr>)"
| setup_failed: "qt_status t = Review_Pending \<Longrightarrow>
     lifecycle t (t\<lparr>qt_updated_at_utc := now, qt_status := Failed, qt_last_error := Some e\<rparr>)"
| resolved: "qt_status t = Review_Pending \<Longrightarrow> qt_pending_review_bundle_id t = Some b \<Longrightarrow>
     st \<in> {Done, Rework_Required, Escalated} \<Longrightarrow>
     lifecycle t (t\<lparr>qt_updated_at_utc := now, qt_status := st, qt_pending_review_bundle_id := None,
       qt_last_review_decision_id := Some d, qt_last_error := err\<rparr>)"
| rework_limit: "qt_status t = Rework_Required \<Longrightarrow> n \<le> qt_attempts t \<Longrightarrow>
     lifecycle t (t\<lparr>qt_updated_at_utc := now, qt_status := Escalated, qt_last_error := Some e\<rparr>)"
| rework_confirmed: "qt_status t = Rework_Required \<Longrightarrow> qt_last_review_decision_id t = Some d \<Longrightarrow>
     is \<noteq> [] \<Longrightarrow> qt_attempts t < n \<Longrightarrow>
     lifecycle t (t\<lparr>qt_updated_at_utc := now, qt_status := Queued,
       qt_work_item := (qt_work_item t)\<lparr>wi_correction_instructions := is, wi_correction_decision_id := Some d\<rparr>,
       qt_pending_review_bundle_id := None, qt_last_error := None\<rparr>)"
| requeued: "qt_status t = Escalated \<Longrightarrow>
     lifecycle t (t\<lparr>qt_updated_at_utc := now, qt_status := Queued, qt_attempts := 0,
       qt_pending_review_bundle_id := None, qt_last_error := None\<rparr>)"
| closed: "qt_status t = Escalated \<Longrightarrow>
     lifecycle t (t\<lparr>qt_updated_at_utc := now, qt_status := Failed,
       qt_pending_review_bundle_id := None, qt_last_error := Some e\<rparr>)"
| retried: "qt_status t = Failed \<Longrightarrow>
     lifecycle t (t\<lparr>qt_status := Queued, qt_updated_at_utc := now, qt_last_error := None\<rparr>)"
| rolled_back: "qt_status t = Done \<Longrightarrow>
     lifecycle t (t\<lparr>qt_updated_at_utc := now, qt_status := Rolled_Back, qt_last_error := Some e\<rparr>)"
| failure_recorded:
    "lifecycle t (t\<lparr>qt_status := Failed, qt_updated_at_utc := now, qt_last_commit := None, qt_last_error := Some e\<rparr>)"

lemma lifecycle_id: "lifecycle t u \<Longrightarrow> task_id u = task_id t"
  by (induction rule: lifecycle.induct) auto

section \<open>The queue\<close>

abbreviation active :: "queue_task \<Rightarrow> bool" where
  "active t \<equiv> qt_status t \<in> set active_statuses"

definition last_of_id :: "queue_task list \<Rightarrow> nat \<Rightarrow> bool" where
  "last_of_id ts i \<longleftrightarrow> (\<forall>j < length ts. i < j \<longrightarrow> task_id (ts ! j) \<noteq> task_id (ts ! i))"

definition live_last :: "queue_task list \<Rightarrow> bool" where
  "live_last = sorted_wrt (\<lambda>a b. task_id a = task_id b \<longrightarrow> \<not> active a)"

lemma live_last_nth:
  "live_last ts \<longleftrightarrow> (\<forall>i < length ts. active (ts ! i) \<longrightarrow> last_of_id ts i)"
proof
  assume "live_last ts"
  then show "\<forall>i < length ts. active (ts ! i) \<longrightarrow> last_of_id ts i"
    unfolding live_last_def last_of_id_def sorted_wrt_iff_nth_less by fastforce
next
  assume "\<forall>i < length ts. active (ts ! i) \<longrightarrow> last_of_id ts i"
  then show "live_last ts"
    unfolding live_last_def last_of_id_def sorted_wrt_iff_nth_less by (metis order.strict_trans)
qed

definition enqueue_allowed :: "queue_task list \<Rightarrow> work_item list \<Rightarrow> bool" where
  "enqueue_allowed ts ws \<longleftrightarrow> distinct (map wi_id ws)
     \<and> (\<forall>w \<in> set ws. \<forall>t \<in> set ts. task_id t = wi_id w \<longrightarrow> \<not> active t)
     \<and> validate_enqueue_graph ts ws = Inr ()"

inductive queue_step :: "queue_task list \<Rightarrow> queue_task list \<Rightarrow> bool" where
  appended: "enqueue_allowed ts (map fst items) \<Longrightarrow> queue_step ts (ts @ map (new_task now) items)"
| moved: "i < length ts \<Longrightarrow> lifecycle (ts ! i) u \<Longrightarrow> last_of_id ts i \<or> \<not> active u \<Longrightarrow>
     queue_step ts (ts[i := u])"

lemma new_task_simps [simp]:
  "task_id (new_task now p) = wi_id (fst p)" "qt_status (new_task now p) = Queued"
  by (simp_all add: new_task_def placeholder_task_def)

lemma live_last_append:
  assumes "live_last ts" "distinct (map task_id new)"
    and "\<forall>n \<in> set new. \<forall>t \<in> set ts. task_id t = task_id n \<longrightarrow> \<not> active t"
  shows "live_last (ts @ new)"
proof -
  have "sorted_wrt (\<lambda>a b. task_id a \<noteq> task_id b) new"
    using assms(2) by (induction new) auto
  then have "live_last new"
    unfolding live_last_def by (rule sorted_wrt_mono_rel [rotated]) simp
  with assms(1,3) show ?thesis by (auto simp: live_last_def sorted_wrt_append)
qed

lemma live_last_update:
  assumes "live_last ts" "i < length ts" "task_id u = task_id (ts ! i)" "last_of_id ts i \<or> \<not> active u"
  shows "live_last (ts[i := u])"
proof -
  have ids: "task_id (ts[i := u] ! k) = task_id (ts ! k)" if "k < length ts" for k
    using that assms(2,3) by (cases "k = i") auto
  have last: "last_of_id (ts[i := u]) k \<longleftrightarrow> last_of_id ts k" if "k < length ts" for k
    using that ids by (auto simp: last_of_id_def)
  show ?thesis
    unfolding live_last_nth
  proof (intro allI impI)
    fix k assume k: "k < length (ts[i := u])" and a: "active (ts[i := u] ! k)"
    show "last_of_id (ts[i := u]) k"
    proof (cases "k = i")
      case True
      with a assms show ?thesis by (simp add: last)
    next
      case False
      with a k assms(1) show ?thesis by (auto simp: last live_last_nth)
    qed
  qed
qed

lemma queue_step_live_last: "queue_step ts ts' \<Longrightarrow> live_last ts \<Longrightarrow> live_last ts'"
proof (induction rule: queue_step.induct)
  case (appended ts items now)
  have "map task_id (map (new_task now) items) = map wi_id (map fst items)" by simp
  then show ?case
    using appended by (intro live_last_append) (auto simp: enqueue_allowed_def simp del: map_map)
next
  case (moved i ts u)
  then show ?case by (intro live_last_update) (auto dest: lifecycle_id)
qed

lemma queue_steps_live_last: "queue_step\<^sup>*\<^sup>* ts ts' \<Longrightarrow> live_last ts \<Longrightarrow> live_last ts'"
  by (induction rule: rtranclp_induct) (auto dest: queue_step_live_last)

lemma live_last_queued_unique: "live_last ts \<Longrightarrow> queued_unique ts"
  by (induction ts) (auto simp: live_last_def queued_unique_def active_statuses_def)

end
