(* ===== verification/Scheduler_Graph.thy ===== *)
theory Scheduler_Graph imports Scheduler_Facts begin

text \<open>
  The two graph searches of the scheduler.  The depth-first search of \<open>_validate_enqueue_graph\<close>
  accepts exactly the acyclic graphs: the nodes it finishes form a topological order, and the path
  it reports on failure is a cycle.  The breadth-first search of \<open>downstream_tasks\<close> returns exactly
  the tasks that depend, directly or not, on the given one, each once.
\<close>

section \<open>Depth-first search: cycle detection\<close>

definition graph_rel :: "graph \<Rightarrow> (string \<times> string) set" where
  "graph_rel g = {(k, d). d \<in> set (graph_get g k)}"

text \<open>A finished stack: every node's dependencies were finished before it.\<close>

fun topo :: "graph \<Rightarrow> string list \<Rightarrow> bool" where
  "topo g [] = True"
| "topo g (x # xs) = (set (graph_get g x) \<subseteq> set xs \<and> topo g xs)"

lemma visit_topo:
  "visit g vis vg x = Inr vis' \<Longrightarrow> topo g vis \<Longrightarrow> topo g vis' \<and> set vis \<subseteq> set vis' \<and> x \<in> set vis'"
  "visit_all g vis vg ds = Inr vis' \<Longrightarrow> topo g vis \<Longrightarrow> topo g vis' \<and> set vis \<subseteq> set vis' \<and> set ds \<subseteq> set vis'"
proof (induction g vis vg x and g vis vg ds arbitrary: vis' and vis' rule: visit_visit_all.induct)
  case (1 g vis vg x)
  show ?case
  proof (cases "x \<in> set vis \<or> x \<in> set vg")
    case True
    with "1.prems" show ?thesis by (auto simp: visit.simps [of g vis vg x] split: if_splits)
  next
    case False
    with "1.prems" obtain v where v: "visit_all g vis (vg @ [x]) (graph_get g x) = Inr v" "vis' = x # v"
      by (auto simp: visit.simps [of g vis vg x] rbind_Inr_iff)
    with "1.IH" False "1.prems"(2) have "topo g v" "set vis \<subseteq> set v" "set (graph_get g x) \<subseteq> set v"
      by blast+
    with v show ?thesis by auto
  qed
next
  case (2 g vis vg)
  then show ?case by (simp add: visit_all.simps)
next
  case (3 g vis vg d ds)
  from "3.prems" obtain v where v: "visit g vis vg d = Inr v" "visit_all g v vg ds = Inr vis'"
    by (auto simp: visit_all.simps rbind_Inr_iff)
  from "3.IH"(1) [OF v(1) "3.prems"(2)] have a: "topo g v" "set vis \<subseteq> set v" "d \<in> set v" by auto
  from "3.IH"(2) [OF v(2) a(1)] a show ?case by auto
qed

lemma topo_closed:
  assumes "topo g vis" "x \<in> set vis" "(x, y) \<in> (graph_rel g)\<^sup>+"
  shows "y \<in> set vis"
proof -
  have step: "b \<in> set vis" if "a \<in> set vis" "(a, b) \<in> graph_rel g" for a b
    using assms(1) that by (induction vis) (auto simp: graph_rel_def)
  from assms(3) show ?thesis
    by (induction rule: trancl_induct) (use assms(2) step in blast)+
qed

lemma topo_no_cycle: "topo g vis \<Longrightarrow> x \<in> set vis \<Longrightarrow> (x, x) \<notin> (graph_rel g)\<^sup>+"
proof (induction vis)
  case (Cons y ys)
  show ?case
  proof (cases "x \<in> set ys")
    case True
    with Cons show ?thesis by simp
  next
    case False
    then have "x = y" using Cons.prems by simp
    show ?thesis
    proof
      assume "(x, x) \<in> (graph_rel g)\<^sup>+"
      then obtain d where d: "(x, d) \<in> graph_rel g" "(d, x) \<in> (graph_rel g)\<^sup>*"
        by (meson tranclD)
      then have "d \<in> set ys" using Cons.prems(1) \<open>x = y\<close> by (auto simp: graph_rel_def)
      moreover have "topo g ys" using Cons.prems(1) by simp
      ultimately have "x \<in> set ys"
        using d(2) topo_closed by (metis rtranclD)
      with False show False by simp
    qed
  qed
qed simp

definition chain :: "graph \<Rightarrow> string list \<Rightarrow> bool" where
  "chain g xs \<longleftrightarrow> successively (\<lambda>a b. (a, b) \<in> graph_rel g) xs"

lemma chain_trancl: "chain g (x # vs @ [y]) \<Longrightarrow> (x, y) \<in> (graph_rel g)\<^sup>+"
proof (induction vs arbitrary: x)
  case Nil
  then show ?case by (auto simp: chain_def)
next
  case (Cons v vs)
  then have "(x, v) \<in> graph_rel g" "(v, y) \<in> (graph_rel g)\<^sup>+" by (auto simp: chain_def)
  then show ?case by (rule trancl_into_trancl2)
qed

lemma chain_cycle:
  assumes "chain g (vg @ [x])" "x \<in> set vg"
  shows "(x, x) \<in> (graph_rel g)\<^sup>+"
proof -
  obtain us vs where "vg = us @ x # vs" using assms(2) by (meson split_list)
  with assms(1) have "chain g (x # vs @ [x])" by (auto simp: chain_def successively_append_iff)
  then show ?thesis by (rule chain_trancl)
qed

lemma visit_error:
  "visit g vis vg x = Inl e \<Longrightarrow> chain g (vg @ [x]) \<Longrightarrow> \<exists>y. (y, y) \<in> (graph_rel g)\<^sup>+"
  "visit_all g vis vg ds = Inl e \<Longrightarrow> \<forall>d \<in> set ds. chain g (vg @ [d]) \<Longrightarrow> \<exists>y. (y, y) \<in> (graph_rel g)\<^sup>+"
proof (induction g vis vg x and g vis vg ds rule: visit_visit_all.induct)
  case (1 g vis vg x)
  show ?case
  proof (cases "x \<in> set vg")
    case True
    with "1.prems" chain_cycle show ?thesis by blast
  next
    case False
    moreover have "x \<notin> set vis" using "1.prems"(1) by (auto simp: visit.simps [of g vis vg x])
    moreover have "visit_all g vis (vg @ [x]) (graph_get g x) = Inl e"
      using "1.prems"(1) calculation
      by (auto simp: visit.simps [of g vis vg x] rbind_def split: sum.splits)
    moreover have "\<forall>d \<in> set (graph_get g x). chain g ((vg @ [x]) @ [d])"
      using "1.prems"(2) by (auto simp: chain_def successively_append_iff graph_rel_def)
    ultimately show ?thesis using "1.IH" by blast
  qed
next
  case (2 g vis vg)
  then show ?case by (simp add: visit_all.simps)
next
  case (3 g vis vg d ds)
  show ?case
  proof (cases "visit g vis vg d")
    case (Inl e')
    then have "e' = e" using "3.prems"(1) by (simp add: visit_all.simps)
    with 3 Inl show ?thesis by auto
  next
    case (Inr v)
    with "3.prems" have "visit_all g v vg ds = Inl e" by (simp add: visit_all.simps)
    with 3 Inr show ?thesis by auto
  qed
qed

lemma graph_rel_keys: "(k, d) \<in> graph_rel g \<Longrightarrow> k \<in> fst ` set g"
  by (cases "map_of g k")
     (auto simp: graph_rel_def graph_get_def intro: rev_image_eqI dest: map_of_SomeD)

text \<open>The search accepts exactly the acyclic graphs.\<close>

lemma visit_all_acyclic_iff:
  "(\<exists>vis. visit_all g [] [] (map fst g) = Inr vis) \<longleftrightarrow> acyclic (graph_rel g)"
proof
  assume "\<exists>vis. visit_all g [] [] (map fst g) = Inr vis"
  then obtain vis where v: "visit_all g [] [] (map fst g) = Inr vis" by blast
  then have t: "topo g vis" "set (map fst g) \<subseteq> set vis" using visit_topo(2) by force+
  show "acyclic (graph_rel g)"
    unfolding acyclic_def
  proof (intro allI notI)
    fix x assume c: "(x, x) \<in> (graph_rel g)\<^sup>+"
    then obtain d where "(x, d) \<in> graph_rel g" by (meson tranclD)
    then have "x \<in> set vis" using t(2) graph_rel_keys by fastforce
    with t(1) c topo_no_cycle show False by blast
  qed
next
  assume ac: "acyclic (graph_rel g)"
  show "\<exists>vis. visit_all g [] [] (map fst g) = Inr vis"
  proof (cases "visit_all g [] [] (map fst g)")
    case (Inl e)
    then have "\<exists>y. (y, y) \<in> (graph_rel g)\<^sup>+" by (rule visit_error(2)) (simp add: chain_def)
    with ac show ?thesis by (auto simp: acyclic_def)
  qed blast
qed

section \<open>The dependencies between unresolved tasks\<close>

text \<open>\<open>(a, b)\<close>: the unresolved task \<open>a\<close> waits for the unresolved task \<open>b\<close>.\<close>

definition waits_for :: "latest \<Rightarrow> (string \<times> string) set" where
  "waits_for m = {(a, b). \<exists>t u. map_of m a = Some t \<and> map_of m b = Some u \<and> qt_status t \<noteq> Done
     \<and> qt_status u \<noteq> Done \<and> b \<in> set (wi_depends_on (qt_work_item t))}"

lemma map_of_filter_snd:
  "distinct (map fst m) \<Longrightarrow> map_of (filter (\<lambda>(_, t). P t) m) k =
     (case map_of m k of Some t \<Rightarrow> if P t then Some t else None | None \<Rightarrow> None)"
  by (induction m) (auto simp: map_of_eq_None_iff image_iff split: option.splits)

lemma map_of_map_pair: "map_of (map (\<lambda>(k, t). (k, f t)) m) k = map_option f (map_of m k)"
  by (induction m) auto

lemma graph_rel_unresolved:
  assumes "distinct (map fst m)"
  shows "graph_rel (unresolved_graph m) = waits_for m"
proof -
  define u where "u = filter (\<lambda>(_, t). qt_status t \<noteq> Done) m"
  define S where "S = fst ` set u"
  have look: "map_of u k = (case map_of m k of
      Some t \<Rightarrow> if qt_status t \<noteq> Done then Some t else None | None \<Rightarrow> None)" for k
    unfolding u_def by (rule map_of_filter_snd [OF assms])
  have mem: "d \<in> S \<longleftrightarrow> (\<exists>v. map_of m d = Some v \<and> qt_status v \<noteq> Done)" for d
  proof -
    have "d \<in> S \<longleftrightarrow> map_of u d \<noteq> None" by (simp add: S_def map_of_eq_None_iff)
    then show ?thesis unfolding look by (auto split: option.splits)
  qed
  have get: "graph_get (unresolved_graph m) k = (case map_of m k of
      Some t \<Rightarrow> if qt_status t \<noteq> Done then filter (\<lambda>d. d \<in> S) (wi_depends_on (qt_work_item t)) else []
    | None \<Rightarrow> [])" for k
    unfolding unresolved_graph_def graph_get_def Let_def u_def [symmetric] S_def [symmetric]
      map_of_map_pair look
    by (auto split: option.splits)
  have "b \<in> set (graph_get (unresolved_graph m) a) \<longleftrightarrow> (a, b) \<in> waits_for m" for a b
    by (cases "map_of m a") (auto simp: get mem waits_for_def)
  then show ?thesis by (auto simp: graph_rel_def)
qed

definition enqueue_latest :: "queue_task list \<Rightarrow> work_item list \<Rightarrow> latest" where
  "enqueue_latest existing incoming =
     fold (\<lambda>w m. AList.update (wi_id w) (placeholder_task w) m) incoming (latest_tasks_by_id existing)"

lemma distinct_enqueue_latest: "distinct (map fst (enqueue_latest ex inc))"
  by (simp add: enqueue_latest_def distinct_fold_update distinct_latest)

lemma check_item_Inr_iff:
  "check_item known w = Inr u \<longleftrightarrow> distinct (wi_depends_on w) \<and> set (wi_depends_on w) \<subseteq> set known"
  by (auto simp: check_item_def Let_def filter_empty_conv)

lemma mapE_check_iff: "(\<exists>us. mapE f xs = Inr us) \<longleftrightarrow> (\<forall>x \<in> set xs. \<exists>u. f x = Inr u)"
  by (induction xs) (auto split: sum.splits)

lemma validate_enqueue_graph_iff:
  "validate_enqueue_graph existing incoming = Inr () \<longleftrightarrow>
     (\<forall>w \<in> set incoming. distinct (wi_depends_on w)
        \<and> set (wi_depends_on w) \<subseteq> task_id ` set existing \<union> wi_id ` set incoming)
     \<and> acyclic (waits_for (enqueue_latest existing incoming))"
proof -
  let ?g = "unresolved_graph (enqueue_latest existing incoming)"
  let ?c = "check_item (map task_id existing @ map wi_id incoming)"
  have "validate_enqueue_graph existing incoming = Inr () \<longleftrightarrow>
      (\<exists>us. mapE ?c incoming = Inr us) \<and> (\<exists>vis. visit_all ?g [] [] (map fst ?g) = Inr vis)"
    by (auto simp: validate_enqueue_graph_def rbind_Inr_iff Let_def enqueue_latest_def)
  then show ?thesis
    unfolding visit_all_acyclic_iff graph_rel_unresolved [OF distinct_enqueue_latest] mapE_check_iff
      check_item_Inr_iff by auto
qed

section \<open>Breadth-first search: downstream tasks\<close>

definition depends_rel :: "latest \<Rightarrow> (string \<times> string) set" where
  "depends_rel m = {(a, b). \<exists>t. (b, t) \<in> set m \<and> a \<in> set (wi_depends_on (qt_work_item t))}"

lemma closed_rtrancl:
  assumes "\<And>a b. a \<in> S \<Longrightarrow> (a, b) \<in> R \<Longrightarrow> b \<in> S" "w \<in> S"
  shows "R\<^sup>* `` {w} \<subseteq> S"
proof
  fix b assume "b \<in> R\<^sup>* `` {w}"
  then have "(w, b) \<in> R\<^sup>*" by simp
  then show "b \<in> S" by (induction rule: rtrancl_induct) (use assms in auto)
qed

lemma downstream_loop_correct:
  assumes "\<forall>(k, t) \<in> set m. task_id t = k" "distinct (map fst m)"
    and "seen = w # map task_id result" "distinct seen" "set pending \<subseteq> set seen"
    and "set seen \<subseteq> (depends_rel m)\<^sup>* `` {w}"
    and "\<forall>a \<in> set seen - set pending. \<forall>b. (a, b) \<in> depends_rel m \<longrightarrow> b \<in> set seen"
  shows "distinct (w # map task_id (downstream_loop m pending seen result))
    \<and> set (w # map task_id (downstream_loop m pending seen result)) = (depends_rel m)\<^sup>* `` {w}
    \<and> set (downstream_loop m pending seen result) \<subseteq> set result \<union> snd ` set m"
  using assms
proof (induction m pending seen result rule: downstream_loop.induct)
  case (1 m seen result)
  have "(depends_rel m)\<^sup>* `` {w} \<subseteq> set seen"
    using "1.prems" by (intro closed_rtrancl) auto
  with 1 show ?case by (auto simp: downstream_loop.simps)
next
  case (2 m d pending seen result)
  define new where "new = filter (\<lambda>(k, t). k \<notin> set seen \<and> d \<in> set (wi_depends_on (qt_work_item t))) m"
  have ids: "map task_id (map snd new) = map fst new"
    using "2.prems"(1) by (auto simp: new_def)
  have dist: "distinct (seen @ map fst new)"
    using "2.prems"(2,4) by (auto simp: new_def distinct_map_filter)
  have succ: "(d, b) \<in> depends_rel m \<Longrightarrow> b \<in> set seen \<union> set (map fst new)" for b
    by (force simp: depends_rel_def new_def)
  have newreach: "set (map fst new) \<subseteq> (depends_rel m)\<^sup>* `` {w}"
  proof
    fix b assume "b \<in> set (map fst new)"
    then have "(d, b) \<in> depends_rel m" by (auto simp: new_def depends_rel_def)
    moreover have "(w, d) \<in> (depends_rel m)\<^sup>*" using "2.prems"(5,6) by auto
    ultimately show "b \<in> (depends_rel m)\<^sup>* `` {w}" by (auto intro: rtrancl_into_rtrancl)
  qed
  have clo: "\<forall>a \<in> set (seen @ map fst new) - set (pending @ map fst new).
      \<forall>b. (a, b) \<in> depends_rel m \<longrightarrow> b \<in> set (seen @ map fst new)"
  proof (intro ballI allI impI)
    fix a b
    assume a: "a \<in> set (seen @ map fst new) - set (pending @ map fst new)" and ab: "(a, b) \<in> depends_rel m"
    show "b \<in> set (seen @ map fst new)"
    proof (cases "a = d")
      case True
      with succ [of b] ab show ?thesis by simp
    next
      case False
      with a have "a \<in> set seen - set (d # pending)" by auto
      with "2.prems"(7) ab have "b \<in> set seen" by blast
      then show ?thesis by simp
    qed
  qed
  have seen': "seen @ map fst new = w # map task_id (result @ map snd new)"
    using "2.prems"(3) ids by simp
  have pend': "set (pending @ map fst new) \<subseteq> set (seen @ map fst new)"
    using "2.prems"(5) by auto
  have sub': "set (seen @ map fst new) \<subseteq> (depends_rel m)\<^sup>* `` {w}"
    using "2.prems"(6) newreach by simp
  note IH = "2.IH" [OF new_def "2.prems"(1,2) seen' dist pend' sub' clo]
  have "downstream_loop m (d # pending) seen result =
      downstream_loop m (pending @ map fst new) (seen @ map fst new) (result @ map snd new)"
    by (simp add: downstream_loop.simps(2) Let_def new_def)
  moreover have "set (map snd new) \<subseteq> snd ` set m" by (auto simp: new_def)
  ultimately show ?case using IH by (simp only: set_append) blast
qed

lemma latest_keys: "\<forall>(k, t) \<in> set (latest_tasks_by_id ts). task_id t = k"
proof clarify
  fix k t assume "(k, t) \<in> set (latest_tasks_by_id ts)"
  then have "map_of (latest_tasks_by_id ts) k = Some t" by (simp add: distinct_latest)
  then show "task_id t = k" by (simp add: map_of_latest_SomeD)
qed

lemma downstream_tasks_correct:
  "distinct (map task_id (downstream_tasks w ts))
   \<and> set (map task_id (downstream_tasks w ts)) = (depends_rel (latest_tasks_by_id ts))\<^sup>* `` {w} - {w}
   \<and> set (downstream_tasks w ts) \<subseteq> snd ` set (latest_tasks_by_id ts)"
proof -
  have "distinct (w # map task_id (downstream_tasks w ts))
    \<and> set (w # map task_id (downstream_tasks w ts)) = (depends_rel (latest_tasks_by_id ts))\<^sup>* `` {w}
    \<and> set (downstream_tasks w ts) \<subseteq> set [] \<union> snd ` set (latest_tasks_by_id ts)"
    unfolding downstream_tasks_def
    by (intro downstream_loop_correct) (auto simp: distinct_latest latest_keys)
  then show ?thesis by auto
qed

end
