(* ===== verification/State_Refine.thy ===== *)
theory State_Refine imports State_Lifecycle Scheduler_Graph begin

text \<open>
  The queue operations of \<open>State_Store\<close> refine the lifecycle of \<open>State_Lifecycle\<close>: each one, also
  when it raises and at whatever write it is interrupted, changes the queue by a sequence of
  lifecycle steps.
\<close>

section \<open>Reading and writing the queue file\<close>

lemma mbind_utc_now [simp]:
  "mbind utc_now k s = k (st_clock s (st_ticks s)) (s\<lparr>st_ticks := Suc (st_ticks s)\<rparr>)"
  by (simp add: mbind_def utc_now_def)

lemma mbind_uuid4 [simp]:
  "mbind uuid4 k s = k (st_uuids s (st_drawn s)) (s\<lparr>st_drawn := Suc (st_drawn s)\<rparr>)"
  by (simp add: mbind_def uuid4_def)

lemma list_tasks_cong: "st_queue s = st_queue t \<Longrightarrow> list_tasks s = list_tasks t"
  by (simp add: list_tasks_def)

lemma tasks_round_trip: "mapE task_from_json (map task_to_json ts) = Inr ts"
  using mapE_map_Inr [of ts task_from_json task_to_json "\<lambda>t. t"] by simp

lemma list_tasks_written [simp]:
  "list_tasks (s\<lparr>st_queue := Content (JList (map task_to_json ts))\<rparr>) = Inr ts"
  by (simp add: list_tasks_def read_json_def read_guard_def tasks_round_trip)

lemma durable_write_cases:
  "durable_write p f s = (r, s') \<Longrightarrow>
     (r = Inr () \<and> (\<exists>b. s' = f (s\<lparr>st_budget := b\<rparr>)) \<and> (st_budget s = None \<longrightarrow> s' = f s)) \<or>
     ((\<exists>m. r = Inl (DurableIOError m)) \<and> s' = s \<and> st_budget s = Some 0)"
proof (cases "st_budget s")
  case None
  assume "durable_write p f s = (r, s')"
  moreover have "f s = f (s\<lparr>st_budget := st_budget s\<rparr>)" by simp
  ultimately show ?thesis using None unfolding durable_write_def by (auto intro: exI [of _ None])
next
  case (Some n)
  assume "durable_write p f s = (r, s')"
  with Some show ?thesis by (cases n) (auto simp: durable_write_def)
qed

lemma write_tasks_cases:
  assumes "write_tasks ts s = (r, s')"
  shows "(r = Inr () \<and> list_tasks s' = Inr ts) \<or> ((\<exists>e. r = Inl e) \<and> s' = s)"
proof -
  have "durable_write (below_root ''queue.json'' s)
      (\<lambda>s. s\<lparr>st_queue := Content (JList (map task_to_json ts))\<rparr>) s = (r, s')"
    using assms by (simp add: write_tasks_def)
  then show ?thesis by (auto dest!: durable_write_cases)
qed

lemma last_index_Nil [simp]: "last_index p [] = None"
  by (simp add: last_index_def)

lemma last_index_snoc [simp]:
  "last_index p (xs @ [x]) = (if p x then Some (length xs) else last_index p xs)"
proof -
  have "List.find (\<lambda>i. p ((xs @ [x]) ! i)) (rev [0..<length xs]) = List.find (\<lambda>i. p (xs ! i)) (rev [0..<length xs])"
    by (rule find_cong) (auto simp: nth_append)
  then show ?thesis by (simp add: last_index_def)
qed

lemma last_index_Some_iff:
  "last_index p xs = Some i \<longleftrightarrow> i < length xs \<and> p (xs ! i) \<and> (\<forall>j < length xs. i < j \<longrightarrow> \<not> p (xs ! j))"
  by (induction xs rule: rev_induct) (auto simp: nth_append less_Suc_eq)

lemma find_last_index: "List.find p (rev xs) = map_option (\<lambda>i. xs ! i) (last_index p xs)"
proof (induction xs rule: rev_induct)
  case (snoc x xs)
  show ?case
  proof (cases "last_index p xs")
    case (Some i)
    then have "i < length xs" by (simp add: last_index_Some_iff)
    with snoc Some show ?thesis by (simp add: nth_append)
  qed (use snoc in simp)
qed simp

lemma first_index_SomeD: "first_index p xs = Some i \<Longrightarrow> i < length xs \<and> p (xs ! i)"
  by (auto simp: first_index_def dest!: find_SomeD)

lemma first_index_NoneD: "first_index p xs = None \<Longrightarrow> x \<in> set xs \<Longrightarrow> \<not> p x"
  by (auto simp: first_index_def find_None_iff in_set_conv_nth)

lemma get_task_Inr:
  "get_task wid s = Inr t \<longleftrightarrow>
     (\<exists>ts i. list_tasks s = Inr ts \<and> last_index (\<lambda>t. task_id t = wid) ts = Some i \<and> t = ts ! i)"
  by (auto simp: get_task_def rbind_Inr_iff find_last_index split: option.splits)

section \<open>The refinement relation\<close>

definition queue_refines :: "store \<Rightarrow> store \<Rightarrow> bool" where
  "queue_refines s t \<longleftrightarrow> (\<forall>ts. list_tasks s = Inr ts \<longrightarrow> live_last ts \<longrightarrow>
     (\<exists>ts'. list_tasks t = Inr ts' \<and> queue_step\<^sup>*\<^sup>* ts ts'))"

interpretation refine: effect queue_refines
proof
  show "queue_refines s s" for s by (auto simp: queue_refines_def)
  show "queue_refines s t \<Longrightarrow> queue_refines t u \<Longrightarrow> queue_refines s u" for s t u
    unfolding queue_refines_def by (metis queue_steps_live_last rtranclp_trans)
qed

definition same_queue :: "store \<Rightarrow> store \<Rightarrow> bool" where
  "same_queue s t \<longleftrightarrow> st_queue t = st_queue s"

interpretation same_queue: effect same_queue
  by unfold_locales (auto simp: same_queue_def)

lemma same_queue_refines: "within same_queue m \<Longrightarrow> within queue_refines m"
  unfolding within_def same_queue_def queue_refines_def by (metis list_tasks_cong rtranclp.rtrancl_refl)

lemma utc_now_same_queue: "within same_queue utc_now"
  by (simp add: within_def same_queue_def utc_now_def)

lemma uuid4_same_queue: "within same_queue uuid4"
  by (simp add: within_def same_queue_def uuid4_def)

lemma durable_write_same_queue:
  "(\<And>s. st_queue (f s) = st_queue s) \<Longrightarrow> within same_queue (durable_write p f)"
  unfolding within_def same_queue_def durable_write_def by (auto split: option.splits nat.splits)

lemma append_same_queue: "within same_queue (atomic_append_jsonl l j)"
  unfolding atomic_append_jsonl_def by (intro same_queue.within_intros durable_write_same_queue) simp

lemma journal_same_queue: "within same_queue (journal_record a)"
  unfolding journal_record_def hold_def
  by (intro same_queue.within_intros append_same_queue utc_now_same_queue uuid4_same_queue)

lemma transition_same_queue: "within same_queue (transition_event t p c a d r)"
  unfolding transition_event_def by (intro same_queue.within_intros journal_same_queue)

lemma enqueue_event_same_queue: "within same_queue (enqueue_event t)"
  unfolding enqueue_event_def by (intro same_queue.within_intros journal_same_queue)

lemmas same_queue_steps = utc_now_same_queue uuid4_same_queue append_same_queue journal_same_queue
  transition_same_queue enqueue_event_same_queue durable_write_same_queue

lemmas refine_steps = same_queue_steps [THEN same_queue_refines]

section \<open>The three ways the queue is written\<close>

lemma write_step:
  assumes "list_tasks s = Inr ts" and "queue_step ts ts'"
  shows "queue_refines s (snd (write_tasks ts' s))"
proof -
  obtain r s' where w: "write_tasks ts' s = (r, s')" by fastforce
  from write_tasks_cases [OF w] show ?thesis
    using assms by (auto simp: queue_refines_def w)
qed

lemma write_tasks_ret: "snd (mseq (write_tasks ts) (ret x) s) = snd (write_tasks ts s)"
  by (auto simp: mseq_def mbind_def split: prod.splits sum.splits)

lemma list_tasks_ticks [simp]: "list_tasks (s\<lparr>st_ticks := n\<rparr>) = list_tasks s"
  by (rule list_tasks_cong) simp

lemma updated_record:
  "\<lparr>qt_work_item = qt_work_item t, qt_status = st, qt_source = qt_source t,
    qt_added_at_utc = qt_added_at_utc t, qt_updated_at_utc = now, qt_attempts = n, qt_last_commit = c,
    qt_last_error = e, qt_pending_review_bundle_id = qt_pending_review_bundle_id t,
    qt_last_review_decision_id = qt_last_review_decision_id t\<rparr>
   = t\<lparr>qt_status := st, qt_updated_at_utc := now, qt_attempts := n, qt_last_commit := c, qt_last_error := e\<rparr>"
  by simp

lemma update_task_refines:
  assumes g: "get_task wid s = Inr t"
    and life: "\<And>now. lifecycle t (t\<lparr>qt_status := st, qt_updated_at_utc := now,
        qt_attempts := qt_attempts t + d, qt_last_commit := c, qt_last_error := e\<rparr>)"
  shows "queue_refines s (snd (update_task wid st d c e s))"
proof -
  obtain ts i where ts: "list_tasks s = Inr ts" and i: "last_index (\<lambda>t. task_id t = wid) ts = Some i"
    and t: "t = ts ! i" using g by (auto simp: get_task_Inr)
  let ?now = "st_clock s (st_ticks s)"
  let ?s1 = "s\<lparr>st_ticks := Suc (st_ticks s)\<rparr>"
  let ?u = "t\<lparr>qt_status := st, qt_updated_at_utc := ?now, qt_attempts := qt_attempts t + d,
      qt_last_commit := c, qt_last_error := e\<rparr>"
  have run: "snd (update_task wid st d c e s) = snd (write_tasks (ts[i := ?u]) ?s1)"
    by (simp add: update_task_def ts i t Let_def write_tasks_ret updated_record)
  have "last_of_id ts i" using i by (auto simp: last_index_Some_iff last_of_id_def)
  then have "queue_step ts (ts[i := ?u])"
    using i life t by (intro queue_step.moved) (auto simp: last_index_Some_iff)
  then have "queue_refines ?s1 (snd (write_tasks (ts[i := ?u]) ?s1))"
    using ts by (intro write_step) simp_all
  then show ?thesis by (simp add: run queue_refines_def)
qed

lemma replace_task_refines:
  assumes life: "\<And>now. lifecycle t (ch (t\<lparr>qt_updated_at_utc := now\<rparr>))"
    and act: "active t \<or> (\<forall>now. \<not> active (ch (t\<lparr>qt_updated_at_utc := now\<rparr>)))"
  shows "within queue_refines (replace_task t ch)"
  unfolding within_def
proof
  fix s
  show "queue_refines s (snd (replace_task t ch s))"
  proof (cases "list_tasks s")
    case (Inl e)
    then show ?thesis by (simp add: replace_task_def queue_refines_def)
  next
    case ts: (Inr ts)
    show ?thesis
    proof (cases "first_index (\<lambda>x. x = t) ts")
      case None
      with ts show ?thesis by (simp add: replace_task_def refine.R_refl)
    next
      case (Some i)
      then have i: "i < length ts" "ts ! i = t" by (auto dest!: first_index_SomeD)
      let ?s1 = "s\<lparr>st_ticks := Suc (st_ticks s)\<rparr>"
      let ?u = "ch (t\<lparr>qt_updated_at_utc := st_clock s (st_ticks s)\<rparr>)"
      have run: "snd (replace_task t ch s) = snd (write_tasks (ts[i := ?u]) ?s1)"
        by (simp add: replace_task_def ts Some i Let_def write_tasks_ret)
      show ?thesis
        unfolding queue_refines_def
      proof (intro allI impI)
        fix ts0 assume ts0: "list_tasks s = Inr ts0" and live: "live_last ts0"
        then have [simp]: "ts0 = ts" using ts by simp
        have "last_of_id ts i \<or> \<not> active ?u"
          using act live i by (auto simp: live_last_nth)
        then have "queue_step ts (ts[i := ?u])"
          using i life by (intro queue_step.moved) auto
        then have "queue_refines ?s1 (snd (write_tasks (ts[i := ?u]) ?s1))"
          using ts by (intro write_step) simp_all
        then show "\<exists>ts'. list_tasks (snd (replace_task t ch s)) = Inr ts' \<and> queue_step\<^sup>*\<^sup>* ts0 ts'"
          using ts live by (simp add: run queue_refines_def)
      qed
    qed
  qed
qed

section \<open>The operations\<close>

lemma lifecycle_eqI: "lifecycle t u \<Longrightarrow> u = u' \<Longrightarrow> lifecycle t u'"
  by simp

lemma within_hold: "within queue_refines m \<Longrightarrow> within queue_refines (hold m)"
  unfolding hold_def by (intro refine.within_intros)

lemma within_mutation: "within queue_refines m \<Longrightarrow> within queue_refines (state_mutation m)"
  unfolding state_mutation_def by (intro refine.within_intros within_hold)

lemmas refine_intros = within_mutation refine.within_intros refine_steps

lemma active_simps [simp]:
  "st \<in> set active_statuses \<longleftrightarrow> st \<in> {Queued, Running, Review_Pending, Rework_Required, Escalated}"
  by (auto simp: active_statuses_def)

lemma enqueue_many_refines: "within queue_refines (enqueue_many items)"
proof -
  have w: "within_given (\<lambda>s. list_tasks s = Inr ts \<and> enqueue_allowed ts (map fst items)) queue_refines
      (write_tasks (ts @ map (new_task now) items))" for ts now
    by (rule within_givenI) (auto intro: write_step queue_step.appended)
  have chk: "mapE (check_inactive ts) ws = Inr us \<Longrightarrow>
      \<forall>w \<in> set ws. \<forall>t \<in> set ts. task_id t = wi_id w \<longrightarrow> \<not> active t" for ts ws us
    using mapE_check_iff [of "check_inactive ts" ws]
    by (auto simp: check_inactive_def list_ex_iff simp del: active_simps)
  have body: "within_given (\<lambda>s. list_tasks s = Inr ts) queue_refines
      (mseq (lift_res (mapE (check_inactive ts) (map fst items)))
      (mseq (lift_res (validate_enqueue_graph ts (map fst items)))
      (mbind utc_now (\<lambda>now. mseq (write_tasks (ts @ map (new_task now) items))
         (mseq (mmap enqueue_event (map (new_task now) items)) (ret (map (new_task now) items)))))))"
    if d: "distinct (map wi_id (map fst items))" for ts
  proof (cases "mapE (check_inactive ts) (map fst items)")
    case (Inl e)
    then show ?thesis by (auto simp: within_given_def mseq_def refine.R_refl)
  next
    case a: (Inr us)
    show ?thesis
    proof (cases "validate_enqueue_graph ts (map fst items)")
      case (Inl e)
      with a show ?thesis by (auto simp: within_given_def mseq_def refine.R_refl)
    next
      case (Inr u)
      with a d have ok: "enqueue_allowed ts (map fst items)"
        using chk [OF a] by (simp add: enqueue_allowed_def)
      have "within_given (\<lambda>s. list_tasks s = Inr ts \<and> enqueue_allowed ts (map fst items)) queue_refines
          (mseq (write_tasks (ts @ map (new_task now) items))
            (mseq (mmap enqueue_event (map (new_task now) items)) (ret (map (new_task now) items))))" for now
        unfolding mseq_def [of "write_tasks _"]
        by (rule refine.given_bind [OF w]) (intro refine_intros)
      then show ?thesis
        using a Inr ok by (auto simp: within_given_def mseq_def queue_refines_def)
    qed
  qed
  show ?thesis
    unfolding enqueue_many_def Let_def
    by (intro within_mutation refine.within_if refine.within_ret refine.within_gets_given
        refine.given_require body)
qed

lemma enqueue_refines: "within queue_refines (enqueue w source)"
  unfolding enqueue_def by (intro refine_intros enqueue_many_refines)

lemma mark_running_refines: "within queue_refines (mark_running wid)"
  unfolding mark_running_def
proof (intro within_mutation refine.within_gets_given refine.given_require refine.given_gets
    refine.given_reading refine.given_bind reading_intros reading_option)
  fix task :: queue_task and q
  assume "qt_status task = Queued"
  then show "within_given (\<lambda>s. get_task wid s = Inr task \<and> store_schedule s = Inr q) queue_refines
      (update_task wid Running 1 None None)"
    by (intro within_givenI update_task_refines) (auto intro: lifecycle_eqI [OF lifecycle.started [of task]])
qed (intro refine_intros)

lemma escalate_attempt_limit_refines: "within queue_refines (escalate_attempt_limit wid n)"
  unfolding escalate_attempt_limit_def
proof (intro refine_intros)
  fix t :: queue_task assume "\<not> (qt_status t \<noteq> Queued \<or> qt_attempts t < n)"
  then show "within queue_refines (replace_task t (\<lambda>t'. t'\<lparr>qt_status := Escalated,
      qt_last_error := Some (''Worker attempt limit reached '' @ attempts_text t n)\<rparr>))"
    by (intro replace_task_refines lifecycle.worker_limit) auto
qed

lemma claim_next_refines: "within queue_refines (claim_next n)"
  unfolding claim_next_def
  by (intro refine_intros escalate_attempt_limit_refines mark_running_refines)

lemma claim_batch_refines: "within queue_refines (claim_batch n)"
  unfolding claim_batch_def by (intro refine_intros mark_running_refines)

lemma requeue_failed_refines: "within queue_refines (requeue_failed wid)"
  unfolding requeue_failed_def
proof (intro within_mutation refine.within_gets_given refine.given_require refine.given_bind)
  fix task :: queue_task assume "qt_status task = Failed"
  then show "within_given (\<lambda>s. get_task wid s = Inr task) queue_refines
      (update_task wid Queued 0 (qt_last_commit task) None)"
    by (intro within_givenI update_task_refines) (auto intro: lifecycle_eqI [OF lifecycle.retried [of task]])
qed (intro refine_intros)

lemma recover_running_refines: "within queue_refines (recover_running wid reason)"
  unfolding recover_running_def
proof (intro within_mutation refine.within_gets_given refine.given_require refine.given_bind)
  fix task :: queue_task assume "qt_status task = Running"
  then show "within_given (\<lambda>s. get_task wid s = Inr task) queue_refines
      (update_task wid Queued 0 (qt_last_commit task) (Some reason))"
    by (intro within_givenI update_task_refines) (auto intro: lifecycle_eqI [OF lifecycle.recovered [of task]])
qed (intro refine_intros)

lemma finish_result_same_queue: "within same_queue (finish_result rid st fin r rq cur t)"
  unfolding finish_result_def append_history_def
  by (intro same_queue.within_intros same_queue_steps)

lemma record_result_refines: "within queue_refines (record_result wid st r e rq rid)"
proof -
  have step: "within_given (\<lambda>s. get_task wid s = Inr cur) queue_refines (result_task wid r e rq cur)"
    for cur :: queue_task
    unfolding result_task_def
    by (intro within_given_if refine.given_within [OF refine.within_ret] refine.given_require
          within_givenI update_task_refines)
       (auto simp: result_status_def intro: lifecycle_eqI [OF lifecycle.finished [of cur]])
  show ?thesis
    unfolding record_result_def
    by (intro refine_intros refine.within_gets_given refine.given_bind step
          same_queue_refines [OF finish_result_same_queue])
qed

lemma record_failure_refines: "within queue_refines (record_failure wid st e)"
proof -
  have "within queue_refines (update_task wid Failed 0 None (Some e))"
    unfolding within_def
  proof
    fix s
    show "queue_refines s (snd (update_task wid Failed 0 None (Some e) s))"
    proof (cases "get_task wid s")
      case (Inl x)
      then have "snd (update_task wid Failed 0 None (Some e) s) = s"
        by (auto simp: update_task_def get_task_def rbind_def find_last_index
              split: sum.splits option.splits)
      then show ?thesis by (simp add: refine.R_refl)
    next
      case (Inr t)
      then show ?thesis
        by (rule update_task_refines) (auto intro: lifecycle_eqI [OF lifecycle.failure_recorded [of t]])
    qed
  qed
  then show ?thesis
    unfolding record_failure_def append_history_def by (intro refine_intros)
qed

text \<open>In the next proofs the guards of the source become conditions of the step.\<close>

lemma attach_review_bundle_refines: "within queue_refines (attach_review_bundle wid b)"
  unfolding attach_review_bundle_def mseq_require
  by (intro refine_intros replace_task_refines lifecycle.bundle_attached) auto

lemma fail_review_setup_refines: "within queue_refines (fail_review_setup wid e)"
  unfolding fail_review_setup_def mseq_require
  by (intro refine_intros replace_task_refines lifecycle.setup_failed) auto

lemma record_review_failure_refines: "within queue_refines (record_review_failure wid e)"
  unfolding record_review_failure_def mseq_require
  by (intro refine_intros replace_task_refines lifecycle.review_failed) auto

lemma resolve_review_refines: "within queue_refines (resolve_review wid b d decision summary)"
proof -
  have out: "fst p \<in> {Done, Rework_Required, Escalated}" if "decision_outcome decision summary = Inr p" for p
    using that by (auto simp: decision_outcome_def split: if_splits)
  have step: "within queue_refines (replace_task t (\<lambda>t. t\<lparr>qt_status := st,
      qt_pending_review_bundle_id := None, qt_last_review_decision_id := Some d, qt_last_error := err\<rparr>))"
    if "qt_status t = Review_Pending" "qt_pending_review_bundle_id t = Some b"
      "st \<in> {Done, Rework_Required, Escalated}" for t st err
    using that by (intro replace_task_refines lifecycle.resolved) auto
  show ?thesis
    unfolding resolve_review_def mseq_require case_prod_beta
    by (intro within_mutation refine.within_bind [OF refine.within_gets] refine.within_if refine.within_raise
          refine.within_lift_bind refine.within_bind [OF step] refine.within_seq refine.within_ret refine_steps)
       (auto dest: out)
qed

lemma confirm_rework_refines: "within queue_refines (confirm_rework wid d is n)"
proof -
  have limit: "within queue_refines (replace_task t (\<lambda>t. t\<lparr>qt_status := Escalated, qt_last_error := Some e\<rparr>))"
    if "qt_status t = Rework_Required" "n \<le> qt_attempts t" for t e
    using that by (intro replace_task_refines lifecycle.rework_limit) auto
  have confirm: "within queue_refines (replace_task t (\<lambda>u. u\<lparr>qt_status := Queued,
      qt_work_item := (qt_work_item t)\<lparr>wi_correction_instructions := is, wi_correction_decision_id := Some d\<rparr>,
      qt_pending_review_bundle_id := None, qt_last_error := None\<rparr>))"
    if "qt_status t = Rework_Required" "qt_last_review_decision_id t = Some d" "is \<noteq> []" "qt_attempts t < n" for t
    using that by (intro replace_task_refines lifecycle.rework_confirmed) auto
  show ?thesis
    unfolding confirm_rework_def mseq_require Let_def
    by (intro within_mutation refine.within_bind [OF refine.within_gets] refine.within_if refine.within_raise
          refine.within_bind [OF limit] refine.within_bind [OF confirm] refine.within_seq refine.within_ret
          refine_steps) auto
qed

lemma resolve_escalation_refines: "within queue_refines (resolve_escalation wid resolution reason)"
proof -
  have step: "within queue_refines (replace_task t (\<lambda>u. u\<lparr>qt_status := fst p, qt_attempts := snd (snd p),
      qt_pending_review_bundle_id := None, qt_last_error := fst (snd p)\<rparr>))"
    if "qt_status t = Escalated" "escalation_outcome resolution reason t = Inr p" for t p
  proof (cases "resolution = ''requeue''")
    case True
    with that have "p = (Queued, None, 0)" by (simp add: escalation_outcome_def)
    with that show ?thesis by (auto intro!: replace_task_refines lifecycle.requeued)
  next
    case False
    with that have p: "p = (Failed, Some reason, qt_attempts t)"
      by (auto simp: escalation_outcome_def split: if_splits)
    show ?thesis
    proof (rule replace_task_refines)
      fix now
      have "lifecycle t (t\<lparr>qt_updated_at_utc := now, qt_status := Failed,
          qt_pending_review_bundle_id := None, qt_last_error := Some reason\<rparr>)"
        using that(1) by (rule lifecycle.closed)
      then show "lifecycle t (t\<lparr>qt_updated_at_utc := now, qt_status := fst p, qt_attempts := snd (snd p),
          qt_pending_review_bundle_id := None, qt_last_error := fst (snd p)\<rparr>)"
        by (rule lifecycle_eqI) (simp add: p)
    qed (use that in auto)
  qed
  show ?thesis
    unfolding resolve_escalation_def mseq_require case_prod_beta
    by (intro within_mutation refine.within_bind [OF refine.within_gets] refine.within_if refine.within_raise
          refine.within_lift_bind refine.within_bind [OF step] refine.within_seq refine.within_ret refine_steps)
       auto
qed

lemma mark_rolled_back_refines: "within queue_refines (mark_rolled_back wid c rc)"
  unfolding mark_rolled_back_def mseq_require
  by (intro refine_intros replace_task_refines lifecycle.rolled_back) auto

lemma record_rollback_same_queue: "within same_queue (record_rollback r)"
  unfolding record_rollback_def state_mutation_def hold_def
  by (intro same_queue.within_intros same_queue_steps)

lemma complete_rollback_refines: "within queue_refines (complete_rollback r)"
  unfolding complete_rollback_def
  by (intro refine_intros mark_rolled_back_refines same_queue_refines [OF record_rollback_same_queue])

lemma evidence_same_queue:
  "within same_queue (record_operator_event c ok m raw tid)"
  "within same_queue (record_audit_report md ok fc cc)"
  "within same_queue (record_review_bundle b)"
  "within same_queue (record_review_decision d)"
  "within same_queue (set_telegram_update_offset n)"
  "within same_queue (journal_record_payload p)"
  unfolding record_operator_event_def record_audit_report_def record_review_bundle_def
    record_review_decision_def set_telegram_update_offset_def journal_record_payload_def
    state_mutation_def hold_def
  by (intro same_queue.within_intros same_queue_steps; simp)+

end
