(* ===== verification/State_Evidence.thy ===== *)
theory State_Evidence imports State_Refine begin

text \<open>
  The evidence logs of the store.  \<open>evidence\<close> is the contract of a log of records with a key: a
  record is appended once, and only when its key is new.  \<open>keyed_evidence\<close> adds what the writer
  does with a key it already has: the same record is a no-op, another one is refused.  The laws
  are discharged on \<open>record_rollback\<close>, \<open>record_review_bundle\<close> and \<open>record_review_decision\<close>
  (the last one under both of its keys, the decision id and the bundle id).
\<close>

section \<open>The contract\<close>

locale evidence =
  fixes records :: "store \<Rightarrow> 'r list res"
    and put :: "'r \<Rightarrow> 'r store_op"
    and key :: "'r \<Rightarrow> string"
    and storable :: "'r \<Rightarrow> bool"
  assumes put_ok: "put r s = (Inr x, s') \<Longrightarrow> storable r \<Longrightarrow> records s = Inr rs \<Longrightarrow>
      x = r \<and> ((r \<in> set rs \<and> s' = s) \<or> (key r \<notin> key ` set rs \<and> records s' = Inr (rs @ [r])))"
    and put_raise: "put r s = (Inl e, s') \<Longrightarrow> storable r \<Longrightarrow> records s = Inr rs \<Longrightarrow>
      records s' = Inr rs \<or> (key r \<notin> key ` set rs \<and> records s' = Inr (rs @ [r]))"
begin

lemma put_result:
  assumes "put r s = (res, s')" "storable r" "records s = Inr rs"
  shows "records s' = Inr rs \<or> (key r \<notin> key ` set rs \<and> records s' = Inr (rs @ [r]))"
  using put_raise put_ok assms by (cases res) blast+

lemma keys_stay_unique:
  assumes "put r s = (res, s')" "storable r" "records s = Inr rs" "distinct (map key rs)"
  shows "\<exists>rs'. records s' = Inr rs' \<and> prefix rs rs' \<and> distinct (map key rs')"
  using put_result [OF assms(1-3)] assms(4) by auto

lemma put_recorded:
  assumes "put r s = (Inr x, s')" "storable r" "records s = Inr rs"
  shows "\<exists>rs'. records s' = Inr rs' \<and> r \<in> set rs' \<and> prefix rs rs'"
  using put_ok [OF assms] assms(3) by auto

end

locale keyed_evidence = evidence records put key storable
  for records :: "store \<Rightarrow> 'r list res" and put and key and storable +
  assumes put_same: "records s = Inr rs \<Longrightarrow> distinct (map key rs) \<Longrightarrow> r \<in> set rs \<Longrightarrow> st_lock s = None \<Longrightarrow>
      put r s = (Inr r, s)"
    and put_clash: "records s = Inr rs \<Longrightarrow> distinct (map key rs) \<Longrightarrow> q \<in> set rs \<Longrightarrow> key q = key r \<Longrightarrow>
      q \<noteq> r \<Longrightarrow> st_lock s = None \<Longrightarrow> \<exists>m. put r s = (Inl (StateStoreError m), s)"
begin

lemma put_again:
  assumes "put r s = (Inr x, s')" "storable r" "records s = Inr rs" "distinct (map key rs)" "st_lock s' = None"
  shows "put r s' = (Inr r, s')"
proof -
  obtain rs' where "records s' = Inr rs'" "distinct (map key rs')"
    using keys_stay_unique [OF assms(1-4)] by blast
  moreover from this have "r \<in> set rs'" using put_recorded [OF assms(1-3)] by auto
  ultimately show ?thesis using assms(5) by (rule put_same)
qed

lemma immutable:
  assumes "records s = Inr rs" "distinct (map key rs)" "q \<in> set rs" "key q = key r" "st_lock s = None"
  shows "(q = r \<and> put r s = (Inr r, s)) \<or> (\<exists>m. put r s = (Inl (StateStoreError m), s))"
  using put_same put_clash assms by metis

end

section \<open>Append, then journal\<close>

text \<open>The journal writes no log but its own.\<close>

definition only_events :: "store \<Rightarrow> store \<Rightarrow> bool" where
  "only_events s t \<longleftrightarrow> (\<forall>l. l \<noteq> Events \<longrightarrow> st_logs t l = st_logs s l)
     \<and> st_root t = st_root s \<and> st_lock t = st_lock s \<and> st_queue t = st_queue s"

interpretation only_events: effect only_events
  by unfold_locales (auto simp: only_events_def)

lemma env_only_events: "within only_events utc_now" "within only_events uuid4"
  by (simp_all add: within_def only_events_def utc_now_def uuid4_def)

lemma append_only_events: "within only_events (atomic_append_jsonl Events j)"
proof -
  have "within only_events (durable_write p (\<lambda>s. s\<lparr>st_logs := (st_logs s)(Events := c)\<rparr>))" for p c
    unfolding within_def only_events_def durable_write_def by (auto split: option.splits nat.splits)
  then show ?thesis
    unfolding atomic_append_jsonl_def by (intro only_events.within_intros)
qed

lemma journal_only_events: "within only_events (journal_record a)"
  unfolding journal_record_def hold_def
  by (intro only_events.within_intros env_only_events append_only_events)

lemma transition_only_events: "within only_events (transition_event t p c a d r)"
  unfolding transition_event_def by (intro only_events.within_intros journal_only_events)

lemma append_cases:
  assumes "atomic_append_jsonl l j s = (res, s')" "read_jsonl (st_logs s l) = Inr js"
  shows "(res = Inr () \<and> st_logs s' l = Content (js @ [j]) \<and> (\<forall>k. k \<noteq> l \<longrightarrow> st_logs s' k = st_logs s k)
      \<and> st_root s' = st_root s \<and> st_lock s' = st_lock s \<and> st_queue s' = st_queue s)
    \<or> (\<exists>e. res = Inl e) \<and> s' = s"
proof -
  have "durable_write (below_root (log_name l) s)
      (\<lambda>s. s\<lparr>st_logs := (st_logs s)(l := Content (js @ [j]))\<rparr>) s = (res, s')"
    using assms by (simp add: atomic_append_jsonl_def)
  from durable_write_cases [OF this] show ?thesis
    by (elim disjE conjE exE) simp_all
qed

lemma append_then_journal:
  assumes run: "mseq (atomic_append_jsonl l j) (mseq (journal_record a) (ret r)) s = (res, s')"
    and l: "l \<noteq> Events" and js: "read_jsonl (st_logs s l) = Inr js"
  shows "st_root s' = st_root s \<and> st_lock s' = st_lock s
    \<and> ((res = Inr r \<and> st_logs s' l = Content (js @ [j]))
       \<or> ((\<exists>e. res = Inl e) \<and> (s' = s \<or> st_logs s' l = Content (js @ [j]))))"
proof -
  obtain res1 s1 where a: "atomic_append_jsonl l j s = (res1, s1)" by fastforce
  show ?thesis
  proof (cases res1)
    case (Inl e)
    with append_cases [OF a js] have "s1 = s" by auto
    moreover have "(res, s') = (Inl e, s1)" using run a Inl by (simp add: mseq_run)
    ultimately show ?thesis by simp
  next
    case (Inr u)
    obtain res2 s2 where b: "journal_record a s1 = (res2, s2)" by fastforce
    then have o: "only_events s1 s2" using journal_only_events by (rule withinD [rotated])
    have s': "s' = s2 \<and> (res = Inr r \<or> (\<exists>e. res = Inl e))"
      using run a b Inr by (cases res2) (auto simp: mseq_run)
    show ?thesis
      using append_cases [OF a js] o s' l Inr by (auto simp: only_events_def)
  qed
qed

section \<open>Opening the error boundary\<close>

lemma state_mutation_Inr:
  "state_mutation m s = (Inr x, s') \<longleftrightarrow> st_lock s = None \<and> m s = (Inr x, s')"
  by (auto simp: state_mutation_def hold_def split: option.splits)

lemma state_mutation_Inl:
  "state_mutation m s = (Inl e, s') \<longleftrightarrow>
     (\<exists>t. st_lock s = Some t \<and> e = StateStoreError t \<and> s' = s)
     \<or> (st_lock s = None \<and> (\<exists>e0. m s = (Inl e0, s') \<and> e = to_store_error e0))"
  by (auto simp: state_mutation_def hold_def map_exn_def split: option.splits prod.splits sum.splits)

lemma state_mutation_unlocked: "st_lock s = None \<Longrightarrow> state_mutation m s = map_exn to_store_error m s"
  by (simp add: state_mutation_def hold_def map_exn_def)

lemma read_guard_Inr [simp]: "read_guard r = Inr x \<longleftrightarrow> r = Inr x"
  by (auto simp: read_guard_def split: sum.splits exn.splits)

section \<open>The three logs\<close>

definition decoded :: "log \<Rightarrow> (json \<Rightarrow> 'r res) \<Rightarrow> store \<Rightarrow> 'r list res" where
  "decoded l dec s = read_guard (rbind (read_jsonl (st_logs s l)) (mapE dec))"

lemma append_decoded:
  assumes run: "mseq (atomic_append_jsonl l j) (mseq (journal_record a) (ret r)) s = (res, s')"
    and l: "l \<noteq> Events" and rs: "decoded l dec s = Inr rs" and j: "dec j = Inr r"
  shows "st_root s' = st_root s
    \<and> ((res = Inr r \<and> decoded l dec s' = Inr (rs @ [r]))
       \<or> ((\<exists>e. res = Inl e) \<and> (s' = s \<or> decoded l dec s' = Inr (rs @ [r]))))"
proof -
  obtain js where js: "read_jsonl (st_logs s l) = Inr js" "mapE dec js = Inr rs"
    using rs by (auto simp: decoded_def rbind_Inr_iff)
  have "decoded l dec s' = Inr (rs @ [r])" if "st_logs s' l = Content (js @ [j])"
    using that js(2) j by (simp add: decoded_def read_jsonl_def mapE_append)
  with append_then_journal [OF run l js(1)] show ?thesis by blast
qed

lemma rollback_records_decoded: "rollback_records = decoded Rollbacks rollback_record_from_json"
  by (simp add: fun_eq_iff rollback_records_def decoded_def)

lemma review_bundles_decoded:
  "review_bundles s = decoded Bundles (\<lambda>j. review_bundle_record_from_json j (st_root s)) s"
  by (simp add: review_bundles_def decoded_def)

lemma review_decisions_decoded: "review_decisions = decoded Decisions review_decision_record_from_json"
  by (simp add: fun_eq_iff review_decisions_def decoded_def)

lemma find_key_Some_iff:
  "distinct (map f xs) \<Longrightarrow> q \<in> set xs \<Longrightarrow> f q = k \<Longrightarrow> List.find (\<lambda>x. f x = k) xs = Some q"
  by (induction xs) auto

lemma find_key_None: "List.find (\<lambda>x. f x = k) xs = None \<Longrightarrow> k \<notin> f ` set xs"
  by (auto simp: find_None_iff)

text \<open>What a call does when the log is readable and the lease is free: the look-up decides.\<close>

definition put_outcome ::
  "(store \<Rightarrow> 'r list res) \<Rightarrow> ('r \<Rightarrow> string) \<Rightarrow> 'r \<Rightarrow> 'r list \<Rightarrow> store \<Rightarrow> 'r res \<Rightarrow> store \<Rightarrow> bool" where
  "put_outcome records key r rs s res s' \<longleftrightarrow>
     (r \<in> set rs \<and> res = Inr r \<and> s' = s) \<or> ((\<exists>e. res = Inl e) \<and> s' = s)
     \<or> (key r \<notin> key ` set rs \<and> (res = Inr r \<or> (\<exists>e. res = Inl e)) \<and> records s' = Inr (rs @ [r]))"

lemma evidence_from_outcome:
  assumes put: "\<And>r. put r = state_mutation (body r)"
    and out: "\<And>r s rs res s'. storable r \<Longrightarrow> records s = Inr rs \<Longrightarrow> st_lock s = None \<Longrightarrow>
      put r s = (res, s') \<Longrightarrow> put_outcome records key r rs s res s'"
  shows "evidence records put key storable"
proof
  fix r s x s' rs
  assume "put r s = (Inr x, s')" "storable r" "records s = Inr rs"
  moreover from this have "st_lock s = None" by (simp add: put state_mutation_Inr)
  ultimately have "put_outcome records key r rs s (Inr x) s'" by (intro out)
  then show "x = r \<and> ((r \<in> set rs \<and> s' = s) \<or> (key r \<notin> key ` set rs \<and> records s' = Inr (rs @ [r])))"
    by (auto simp: put_outcome_def)
next
  fix r s e s' rs
  assume run: "put r s = (Inl e, s')" and st: "storable r" and rs: "records s = Inr rs"
  show "records s' = Inr rs \<or> (key r \<notin> key ` set rs \<and> records s' = Inr (rs @ [r]))"
  proof (cases "st_lock s")
    case None
    then have "put_outcome records key r rs s (Inl e) s'" using run st rs by (intro out)
    with rs show ?thesis by (auto simp: put_outcome_def)
  next
    case (Some t)
    with run rs show ?thesis by (auto simp: put state_mutation_Inl)
  qed
qed

lemma record_rollback_outcome:
  assumes "rollback_records s = Inr rs" "st_lock s = None" "record_rollback r s = (res, s')"
  shows "put_outcome rollback_records rb_rollback_id r rs s res s'"
proof (cases "List.find (\<lambda>q. rb_rollback_id q = rb_rollback_id r) rs")
  case (Some q)
  then show ?thesis
    using assms by (auto simp: record_rollback_def state_mutation_unlocked map_exn_def put_outcome_def
        dest!: find_SomeD split: if_splits)
next
  case None
  let ?body = "mseq (atomic_append_jsonl Rollbacks (rollback_record_to_json r))
      (mseq (journal_record ((journal_args ''decision'' ''supervisor'' ''rollback.recorded''
          (rollback_record_to_json r))
        \<lparr>ja_task_id := Some (rb_work_item_id r), ja_run_id := Some (rb_run_id r),
         ja_correlation_id := Some (rb_rollback_id r)\<rparr>)) (ret r))"
  obtain res0 where body: "?body s = (res0, s')" and res: "res = map_sum to_store_error id res0"
    using assms None by (auto simp: record_rollback_def state_mutation_unlocked map_exn_def
        split: prod.splits sum.splits)
  show ?thesis
    using append_decoded [OF body, of rollback_record_from_json rs] assms(1) find_key_None [OF None]
    by (auto simp: rollback_records_decoded res put_outcome_def)
qed

interpretation rollback_log: keyed_evidence rollback_records record_rollback rb_rollback_id "\<lambda>_. True"
proof (rule keyed_evidence.intro)
  show "evidence rollback_records record_rollback rb_rollback_id (\<lambda>_. True)"
    by (rule evidence_from_outcome [OF record_rollback_def record_rollback_outcome])
next
  show "keyed_evidence_axioms rollback_records record_rollback rb_rollback_id"
    by unfold_locales
       (simp_all add: record_rollback_def state_mutation_unlocked map_exn_def find_key_Some_iff)
qed

definition bundle_storable :: "review_bundle_record \<Rightarrow> bool" where
  "bundle_storable r \<longleftrightarrow> path_wf (bb_bundle_path r) \<and> is_absolute (bb_bundle_path r)"

lemma record_review_bundle_outcome:
  assumes "bundle_storable r" "review_bundles s = Inr rs" "st_lock s = None" "record_review_bundle r s = (res, s')"
  shows "put_outcome review_bundles bb_bundle_id r rs s res s'"
proof (cases "List.find (\<lambda>q. bb_bundle_id q = bb_bundle_id r) rs")
  case (Some q)
  then show ?thesis
    using assms by (auto simp: record_review_bundle_def state_mutation_unlocked map_exn_def put_outcome_def
        dest!: find_SomeD split: if_splits)
next
  case None
  let ?body = "mseq (atomic_append_jsonl Bundles (review_bundle_record_to_json r (st_root s)))
      (mseq (journal_record ((journal_args ''interaction'' ''supervisor'' ''critic.review_bundle''
          (JObj [(''bundle_id'', JStr (bb_bundle_id r)), (''commit'', JStr (bb_commit r)),
                 (''sha256'', JStr (bb_bundle_sha256 r))]))
        \<lparr>ja_recipient := Some ''critic'', ja_task_id := Some (bb_work_item_id r),
         ja_run_id := Some (bb_run_id r)\<rparr>)) (ret r))"
  obtain res0 where body: "?body s = (res0, s')" and res: "res = map_sum to_store_error id res0"
    using assms None by (auto simp: record_review_bundle_def state_mutation_unlocked map_exn_def
        split: prod.splits sum.splits)
  have "review_bundle_record_from_json (review_bundle_record_to_json r (st_root s)) (st_root s) = Inr r"
    using assms(1) by (intro review_bundle_round_trip) (auto simp: bundle_storable_def)
  then show ?thesis
    using append_decoded [OF body, of "\<lambda>j. review_bundle_record_from_json j (st_root s)" rs]
      assms(2) find_key_None [OF None]
    by (auto simp: review_bundles_decoded res put_outcome_def)
qed

interpretation bundle_log: keyed_evidence review_bundles record_review_bundle bb_bundle_id bundle_storable
proof (rule keyed_evidence.intro)
  show "evidence review_bundles record_review_bundle bb_bundle_id bundle_storable"
    by (rule evidence_from_outcome [OF record_review_bundle_def record_review_bundle_outcome])
next
  show "keyed_evidence_axioms review_bundles record_review_bundle bb_bundle_id"
    by unfold_locales
       (simp_all add: record_review_bundle_def state_mutation_unlocked map_exn_def find_key_Some_iff)
qed

definition decision_storable :: "review_decision_record \<Rightarrow> bool" where
  "decision_storable r \<longleftrightarrow> rd_decision r \<in> set decision_values"

lemma decision_clash_Inr:
  "decision_clash r rs = Inr x \<Longrightarrow>
     (x = Some r \<and> r \<in> set rs) \<or>
     (x = None \<and> rd_decision_id r \<notin> rd_decision_id ` set rs \<and> rd_bundle_id r \<notin> rd_bundle_id ` set rs)"
  by (induction rs) (auto split: if_splits)

lemma decision_clash_found:
  "distinct (map rd_decision_id rs) \<Longrightarrow> distinct (map rd_bundle_id rs) \<Longrightarrow> r \<in> set rs \<Longrightarrow>
     decision_clash r rs = Inr (Some r)"
  by (induction rs) (auto simp: image_iff)

lemma record_review_decision_outcome:
  assumes "decision_storable r" "review_decisions s = Inr rs" "st_lock s = None"
    and "record_review_decision r s = (res, s')" and key: "key \<in> {rd_decision_id, rd_bundle_id}"
  shows "put_outcome review_decisions key r rs s res s'"
proof (cases "decision_clash r rs")
  case (Inl e)
  with assms show ?thesis
    by (auto simp: record_review_decision_def state_mutation_unlocked map_exn_def put_outcome_def)
next
  case (Inr x)
  show ?thesis
  proof (cases x)
    case (Some q)
    with Inr assms show ?thesis
      by (auto simp: record_review_decision_def state_mutation_unlocked map_exn_def put_outcome_def
          dest: decision_clash_Inr)
  next
    case None
    let ?body = "mseq (atomic_append_jsonl Decisions (review_decision_record_to_json r))
        (mseq (journal_record ((journal_args ''decision'' ''critic'' ''critic.decision''
            (review_decision_record_to_json r))
          \<lparr>ja_recipient := Some ''supervisor'', ja_task_id := Some (rd_work_item_id r),
           ja_run_id := Some (rd_run_id r)\<rparr>)) (ret r))"
    obtain res0 where body: "?body s = (res0, s')" and res: "res = map_sum to_store_error id res0"
      using assms None Inr by (auto simp: record_review_decision_def state_mutation_unlocked map_exn_def
          split: prod.splits sum.splits)
    have "review_decision_record_from_json (review_decision_record_to_json r) = Inr r"
      using assms(1) by (simp add: decision_storable_def review_decision_round_trip)
    then show ?thesis
      using append_decoded [OF body, of review_decision_record_from_json rs]
        assms(2) decision_clash_Inr [OF Inr] None key
      by (auto simp: review_decisions_decoded res put_outcome_def)
  qed
qed

interpretation decision_log: evidence review_decisions record_review_decision rd_decision_id decision_storable
  by (rule evidence_from_outcome [OF record_review_decision_def record_review_decision_outcome]) auto

interpretation verdict_log: evidence review_decisions record_review_decision rd_bundle_id decision_storable
  by (rule evidence_from_outcome [OF record_review_decision_def record_review_decision_outcome]) auto

end
