(* ===== verification/State_System.thy ===== *)
theory State_System imports State_Refine begin

text \<open>
  The store as a whole: its operations as a type of commands, what every command keeps of the
  durable state (\<open>evolves\<close>: logs only grow, the Telegram offset never goes back, the environment is
  not touched), and runs, sequences of commands each of which may raise or be interrupted.
  The state lease makes operations of different processes a sequence (theory \<open>Coordination\<close>).
\<close>

section \<open>Commands\<close>

datatype command =
    Enqueue work_item string
  | Enqueue_Many "(work_item \<times> string) list"
  | Claim_Next "int option"
  | Claim_Batch int
  | Mark_Running string
  | Requeue_Failed string
  | Recover_Running string string
  | Record_Result string string harness_run_result "string option" bool "string option"
  | Record_Failure string string string
  | Attach_Review_Bundle string string
  | Fail_Review_Setup string string
  | Record_Review_Failure string string
  | Resolve_Review string string string string string
  | Confirm_Rework string string "string list" int
  | Escalate_Attempt_Limit string int
  | Resolve_Escalation string string string
  | Mark_Rolled_Back string string string
  | Record_Rollback rollback_record
  | Complete_Rollback rollback_record
  | Record_Operator_Event string bool string string "string option"
  | Record_Audit_Report string bool int int
  | Record_Review_Bundle review_bundle_record
  | Record_Review_Decision review_decision_record
  | Set_Telegram_Update_Offset int
  | Journal_Payload jobj

text \<open>The result of a command is dropped, its exception is kept.\<close>

definition void :: "'a store_op \<Rightarrow> unit store_op" where
  "void m = mbind m (\<lambda>_. ret ())"

fun run_command :: "command \<Rightarrow> unit store_op" where
  "run_command (Enqueue w s) = void (enqueue w s)"
| "run_command (Enqueue_Many items) = void (enqueue_many items)"
| "run_command (Claim_Next n) = void (claim_next n)"
| "run_command (Claim_Batch n) = void (claim_batch n)"
| "run_command (Mark_Running w) = void (mark_running w)"
| "run_command (Requeue_Failed w) = void (requeue_failed w)"
| "run_command (Recover_Running w r) = void (recover_running w r)"
| "run_command (Record_Result w t r e v i) = void (record_result w t r e v i)"
| "run_command (Record_Failure w t e) = void (record_failure w t e)"
| "run_command (Attach_Review_Bundle w b) = void (attach_review_bundle w b)"
| "run_command (Fail_Review_Setup w e) = void (fail_review_setup w e)"
| "run_command (Record_Review_Failure w e) = void (record_review_failure w e)"
| "run_command (Resolve_Review w b d x y) = void (resolve_review w b d x y)"
| "run_command (Confirm_Rework w d xs n) = void (confirm_rework w d xs n)"
| "run_command (Escalate_Attempt_Limit w n) = void (escalate_attempt_limit w n)"
| "run_command (Resolve_Escalation w r x) = void (resolve_escalation w r x)"
| "run_command (Mark_Rolled_Back w c r) = void (mark_rolled_back w c r)"
| "run_command (Record_Rollback r) = void (record_rollback r)"
| "run_command (Complete_Rollback r) = void (complete_rollback r)"
| "run_command (Record_Operator_Event c k m r t) = void (record_operator_event c k m r t)"
| "run_command (Record_Audit_Report m k f n) = void (record_audit_report m k f n)"
| "run_command (Record_Review_Bundle b) = void (record_review_bundle b)"
| "run_command (Record_Review_Decision d) = void (record_review_decision d)"
| "run_command (Set_Telegram_Update_Offset n) = void (set_telegram_update_offset n)"
| "run_command (Journal_Payload p) = void (journal_record_payload p)"

text \<open>
  One step of the system: a command runs to its end or to its exception, under whatever disk
  budget, lease state and fault the environment chooses for it.
\<close>

definition with_faults :: "string option \<Rightarrow> nat option \<Rightarrow> store \<Rightarrow> store" where
  "with_faults lock budget s = s\<lparr>st_lock := lock, st_budget := budget\<rparr>"

inductive store_step :: "store \<Rightarrow> store \<Rightarrow> bool" where
  command: "run_command c (with_faults lock budget s) = (r, t) \<Longrightarrow> store_step s t"

section \<open>Refinement of the lifecycle\<close>

lemma void_refines: "within queue_refines m \<Longrightarrow> within queue_refines (void m)"
  unfolding void_def by (intro refine.within_intros)

lemmas operation_refines = enqueue_refines enqueue_many_refines claim_next_refines claim_batch_refines
  mark_running_refines requeue_failed_refines recover_running_refines record_result_refines
  record_failure_refines attach_review_bundle_refines fail_review_setup_refines
  record_review_failure_refines resolve_review_refines confirm_rework_refines
  escalate_attempt_limit_refines resolve_escalation_refines mark_rolled_back_refines
  complete_rollback_refines record_rollback_same_queue [THEN same_queue_refines]
  evidence_same_queue [THEN same_queue_refines]

lemma command_refines: "within queue_refines (run_command c)"
  by (cases c) (simp_all add: void_refines operation_refines)

lemma list_tasks_with_faults [simp]: "list_tasks (with_faults l b s) = list_tasks s"
  by (rule list_tasks_cong) (simp add: with_faults_def)

lemma store_step_refines: "store_step s t \<Longrightarrow> queue_refines s t"
  by (auto elim!: store_step.cases dest!: withinD [OF command_refines] simp: queue_refines_def)

lemma store_steps_refine: "store_step\<^sup>*\<^sup>* s t \<Longrightarrow> queue_refines s t"
  by (induction rule: rtranclp_induct) (auto intro: refine.R_refl refine.R_trans store_step_refines)

section \<open>What every command keeps\<close>

definition log_entries :: "json list durable \<Rightarrow> json list" where
  "log_entries f = (case f of Content xs \<Rightarrow> xs | _ \<Rightarrow> [])"

definition log_grows :: "json list durable \<Rightarrow> json list durable \<Rightarrow> bool" where
  "log_grows f g \<longleftrightarrow> g = f \<or>
     ((\<forall>m. f \<noteq> Unreadable m) \<and> (\<exists>ys. g = Content (log_entries f @ ys)))"

definition offset_le :: "store \<Rightarrow> store \<Rightarrow> bool" where
  "offset_le s t \<longleftrightarrow> (\<forall>n. telegram_update_offset s = Inr (Some n) \<longrightarrow>
     (\<exists>m. n \<le> m \<and> telegram_update_offset t = Inr (Some m)))"

definition environment :: "store \<Rightarrow> path \<times> (nat \<Rightarrow> string) \<times> (nat \<Rightarrow> string) \<times> (json \<Rightarrow> json)" where
  "environment s = (st_root s, st_clock s, st_uuids s, st_redact s)"

definition evolves :: "store \<Rightarrow> store \<Rightarrow> bool" where
  "evolves s t \<longleftrightarrow> (\<forall>l. log_grows (st_logs s l) (st_logs t l)) \<and> offset_le s t
     \<and> environment t = environment s \<and> st_ticks s \<le> st_ticks t \<and> st_drawn s \<le> st_drawn t"

lemma log_grows_refl [simp]: "log_grows f f"
  by (simp add: log_grows_def)

lemma log_grows_trans: "log_grows f g \<Longrightarrow> log_grows g h \<Longrightarrow> log_grows f h"
  by (auto simp: log_grows_def log_entries_def)

lemma log_grows_append: "read_jsonl f = Inr xs \<Longrightarrow> log_grows f (Content (xs @ ys))"
  by (auto simp: log_grows_def log_entries_def read_jsonl_def split: durable.splits)

lemma offset_cong: "st_offset s = st_offset t \<Longrightarrow> telegram_update_offset s = telegram_update_offset t"
  by (simp add: telegram_update_offset_def)

lemma offset_le_refl [simp]: "offset_le s s"
  by (auto simp: offset_le_def)

lemma offset_le_trans: "offset_le s t \<Longrightarrow> offset_le t u \<Longrightarrow> offset_le s u"
  unfolding offset_le_def by (meson order_trans)

lemma offset_le_same: "st_offset t = st_offset s \<Longrightarrow> offset_le s t"
  by (auto simp: offset_le_def telegram_update_offset_def)

interpretation evolves: effect evolves
  by unfold_locales (auto simp: evolves_def intro: log_grows_trans offset_le_trans)

lemma evolves_same:
  "st_logs t = st_logs s \<Longrightarrow> st_offset t = st_offset s \<Longrightarrow> environment t = environment s \<Longrightarrow>
     st_ticks s \<le> st_ticks t \<Longrightarrow> st_drawn s \<le> st_drawn t \<Longrightarrow> evolves s t"
  by (simp add: evolves_def offset_le_same)

lemma utc_now_evolves: "within evolves utc_now"
  by (auto simp: within_def utc_now_def environment_def intro!: evolves_same)

lemma uuid4_evolves: "within evolves uuid4"
  by (auto simp: within_def uuid4_def environment_def intro!: evolves_same)

lemma durable_write_evolves:
  assumes "\<And>b. P s \<Longrightarrow> evolves s (f (s\<lparr>st_budget := b\<rparr>))"
  shows "P s \<Longrightarrow> evolves s (snd (durable_write p f s))"
  using assms by (cases "durable_write p f s") (auto dest!: durable_write_cases simp: evolves.R_refl)

lemma append_evolves: "within evolves (atomic_append_jsonl l j)"
  unfolding atomic_append_jsonl_def
proof (intro evolves.within_gets_given evolves.given_gets within_givenI)
  fix xs p s
  assume "read_jsonl (st_logs s l) = Inr xs \<and> Inr (below_root (log_name l) s) = Inr p"
  then show "evolves s (snd (durable_write p
      (\<lambda>s. s\<lparr>st_logs := (st_logs s)(l := Content (xs @ [j]))\<rparr>) s))"
    by (intro durable_write_evolves [where P = "\<lambda>s. read_jsonl (st_logs s l) = Inr xs"])
       (auto simp: evolves_def log_grows_append environment_def intro!: offset_le_same)
qed

lemma write_tasks_evolves: "within evolves (write_tasks ts)"
  unfolding write_tasks_def
  by (intro evolves.within_gets_given within_givenI durable_write_evolves [where P = "\<lambda>_. True"])
     (auto intro!: evolves_same simp: environment_def)

lemma hold_evolves: "within evolves m \<Longrightarrow> within evolves (hold m)"
  unfolding hold_def by (intro evolves.within_intros)

lemma mutation_evolves: "within evolves m \<Longrightarrow> within evolves (state_mutation m)"
  unfolding state_mutation_def by (intro evolves.within_intros hold_evolves)

lemma void_evolves: "within evolves m \<Longrightarrow> within evolves (void m)"
  unfolding void_def by (intro evolves.within_intros)

lemma journal_evolves: "within evolves (journal_record a)"
  unfolding journal_record_def
  by (intro evolves.within_intros hold_evolves append_evolves utc_now_evolves uuid4_evolves)

lemma transition_evolves: "within evolves (transition_event t p c a d r)"
  unfolding transition_event_def by (intro evolves.within_intros journal_evolves)

lemma enqueue_event_evolves: "within evolves (enqueue_event t)"
  unfolding enqueue_event_def by (intro evolves.within_intros journal_evolves)

lemma update_task_evolves: "within evolves (update_task w st d c e)"
  unfolding update_task_def by (intro evolves.within_intros utc_now_evolves write_tasks_evolves)

lemma replace_task_evolves: "within evolves (replace_task t ch)"
  unfolding replace_task_def by (intro evolves.within_intros utc_now_evolves write_tasks_evolves)

lemmas evolves_intros = mutation_evolves evolves.within_intros hold_evolves utc_now_evolves uuid4_evolves
  append_evolves write_tasks_evolves journal_evolves transition_evolves enqueue_event_evolves
  update_task_evolves replace_task_evolves

lemma enqueue_many_evolves: "within evolves (enqueue_many items)"
  unfolding enqueue_many_def by (intro evolves_intros)

lemma mark_running_evolves: "within evolves (mark_running w)"
  unfolding mark_running_def by (intro evolves_intros)

lemma escalate_attempt_limit_evolves: "within evolves (escalate_attempt_limit w n)"
  unfolding escalate_attempt_limit_def by (intro evolves_intros)

lemma claim_evolves: "within evolves (claim_next n)" "within evolves (claim_batch k)"
  unfolding claim_next_def claim_batch_def
  by (intro evolves_intros mark_running_evolves escalate_attempt_limit_evolves)+

lemma queue_ops_evolve:
  "within evolves (enqueue w src)"
  "within evolves (requeue_failed i)"
  "within evolves (recover_running i reason)"
  "within evolves (record_result i t r e v ri)"
  "within evolves (record_failure i t err)"
  unfolding enqueue_def requeue_failed_def recover_running_def record_result_def record_failure_def
    append_history_def result_task_def finish_result_def
  by (intro evolves_intros enqueue_many_evolves)+

lemma review_ops_evolve:
  "within evolves (attach_review_bundle i b)"
  "within evolves (fail_review_setup i e)"
  "within evolves (record_review_failure i e)"
  "within evolves (resolve_review i b d x y)"
  "within evolves (confirm_rework i d xs n)"
  "within evolves (resolve_escalation i x e)"
  "within evolves (mark_rolled_back i c rc)"
  unfolding attach_review_bundle_def fail_review_setup_def record_review_failure_def resolve_review_def
    confirm_rework_def resolve_escalation_def mark_rolled_back_def
  by (intro evolves_intros)+

lemma audit_report_write_evolves:
  "within evolves (durable_write p (\<lambda>s. s\<lparr>st_reports := AList.update p md (st_reports s)\<rparr>))"
  unfolding within_def
  by (intro allI durable_write_evolves [where P = "\<lambda>_. True"]) (auto intro!: evolves_same simp: environment_def)

lemma record_ops_evolve:
  "within evolves (record_rollback r)"
  "within evolves (record_operator_event c ok m raw tid)"
  "within evolves (record_audit_report md k fc cc)"
  "within evolves (record_review_bundle b)"
  "within evolves (record_review_decision d)"
  "within evolves (journal_record_payload p)"
  unfolding record_rollback_def record_operator_event_def record_audit_report_def record_review_bundle_def
    record_review_decision_def journal_record_payload_def
  by (intro evolves_intros audit_report_write_evolves)+

lemma complete_rollback_evolves: "within evolves (complete_rollback r)"
  unfolding complete_rollback_def by (intro evolves_intros review_ops_evolve record_ops_evolve)

lemma set_offset_evolves: "within evolves (set_telegram_update_offset n)"
  unfolding set_telegram_update_offset_def
proof (intro mutation_evolves evolves.within_gets_given within_given_if evolves.given_gets within_givenI)
  fix cur p s
  assume "\<not> (case cur of None \<Rightarrow> False | Some c \<Rightarrow> n < c)"
    and "telegram_update_offset s = Inr cur \<and> Inr (below_root ''telegram-offset.json'' s) = Inr p"
  then show "evolves s (snd (durable_write p
      (\<lambda>s. s\<lparr>st_offset := Content (JObj [(''offset'', JInt n)])\<rparr>) s))"
    by (intro durable_write_evolves [where P = "\<lambda>s. telegram_update_offset s = Inr cur"])
       (auto simp: evolves_def offset_le_def environment_def telegram_update_offset_def [of "_\<lparr>st_offset := _\<rparr>"]
          read_json_def read_guard_def split: option.splits)
qed (simp add: evolves.R_refl)

lemma command_evolves: "within evolves (run_command c)"
  by (cases c) (simp_all add: void_evolves enqueue_many_evolves mark_running_evolves
      escalate_attempt_limit_evolves claim_evolves queue_ops_evolve review_ops_evolve record_ops_evolve
      complete_rollback_evolves set_offset_evolves)

lemma with_faults_evolves: "evolves (with_faults l b s) t \<Longrightarrow> evolves s t"
  by (simp add: evolves_def with_faults_def environment_def offset_le_def telegram_update_offset_def)

lemma store_step_evolves: "store_step s t \<Longrightarrow> evolves s t"
  by (auto elim!: store_step.cases dest!: withinD [OF command_evolves] intro: with_faults_evolves)

lemma store_steps_evolve: "store_step\<^sup>*\<^sup>* s t \<Longrightarrow> evolves s t"
  by (induction rule: rtranclp_induct) (auto intro: evolves.R_refl evolves.R_trans store_step_evolves)

end
