(* ===== verification/State_Crash.thy ===== *)
theory State_Crash imports State_Evidence State_System begin

text \<open>
  Interruption and replay of \<open>record_result\<close>.  The operation writes the queue, then the run
  history, then the journal; it can stop after any of these writes.  A replay with the same run id
  and the same outcome finishes the work exactly once.
\<close>

section \<open>A healthy disk\<close>

definition healthy :: "store \<Rightarrow> bool" where
  "healthy s \<longleftrightarrow> st_budget s = None \<and> st_lock s = None \<and> (\<exists>js. read_jsonl (st_logs s Events) = Inr js)"

lemma durable_write_healthy: "st_budget s = None \<Longrightarrow> durable_write p f s = (Inr (), f s)"
  by (simp add: durable_write_def)

lemma append_run:
  "st_budget s = None \<Longrightarrow> read_jsonl (st_logs s l) = Inr js \<Longrightarrow>
     atomic_append_jsonl l j s = (Inr (), s\<lparr>st_logs := (st_logs s)(l := Content (js @ [j]))\<rparr>)"
  by (simp add: atomic_append_jsonl_def durable_write_healthy)

lemma read_jsonl_Content [simp]: "read_jsonl (Content js) = Inr js"
  by (simp add: read_jsonl_def)

lemma journal_healthy:
  assumes "healthy s"
  shows "\<exists>e s'. journal_record a s = (Inr e, s') \<and> only_events s s' \<and> healthy s'"
proof -
  obtain js where js: "read_jsonl (st_logs s Events) = Inr js" and b: "st_budget s = None" "st_lock s = None"
    using assms by (auto simp: healthy_def)
  obtain r s' where run: "journal_record a s = (r, s')" by fastforce
  have "(\<exists>e. r = Inr e) \<and> healthy s'"
    using run js b by (auto simp: journal_record_def hold_def Let_def mseq_def
        append_run mbind_run healthy_def)
  moreover have "only_events s s'" using journal_only_events run by (rule withinD)
  ultimately show ?thesis using run by auto
qed

lemma transition_healthy:
  assumes "healthy s"
  shows "\<exists>s'. transition_event t p c a d r s = (Inr (), s') \<and> only_events s s' \<and> healthy s'"
proof -
  let ?a = "(journal_args ''state_transition'' ''supervisor'' a
      (JObj [(''from'', JStr (status_str p)), (''to'', JStr (status_str c)), (''details'', d)]))
    \<lparr>ja_task_id := Some (task_id t), ja_run_id := r\<rparr>"
  obtain e s' where "journal_record ?a s = (Inr e, s')" "only_events s s'" "healthy s'"
    using journal_healthy [OF assms] by blast
  then show ?thesis by (simp add: transition_event_def mseq_run)
qed

section \<open>The steps of record_result\<close>

lemma update_task_run:
  assumes "list_tasks s = Inr ts" "last_index (\<lambda>t. task_id t = wid) ts = Some i"
    and "update_task wid st d c e s = (res, s')"
  shows "st_logs s' = st_logs s \<and> st_lock s' = st_lock s \<and> (st_budget s = None \<longrightarrow> st_budget s' = None)
    \<and> (\<exists>now. (res = Inr ((ts ! i)\<lparr>qt_status := st, qt_updated_at_utc := now,
          qt_attempts := qt_attempts (ts ! i) + d, qt_last_commit := c, qt_last_error := e\<rparr>)
        \<and> list_tasks s' = Inr (ts[i := (ts ! i)\<lparr>qt_status := st, qt_updated_at_utc := now,
          qt_attempts := qt_attempts (ts ! i) + d, qt_last_commit := c, qt_last_error := e\<rparr>]))
      \<or> ((\<exists>x. res = Inl x) \<and> list_tasks s' = Inr ts \<and> st_budget s \<noteq> None))"
proof -
  let ?u = "(ts ! i)\<lparr>qt_status := st, qt_updated_at_utc := st_clock s (st_ticks s),
      qt_attempts := qt_attempts (ts ! i) + d, qt_last_commit := c, qt_last_error := e\<rparr>"
  let ?s = "s\<lparr>st_ticks := Suc (st_ticks s)\<rparr>"
  let ?f = "\<lambda>s. s\<lparr>st_queue := Content (JList (map task_to_json (ts[i := ?u])))\<rparr>"
  have run: "mseq (durable_write (below_root ''queue.json'' ?s) ?f) (ret ?u) ?s = (res, s')"
    using assms by (simp add: update_task_def Let_def updated_record write_tasks_def mseq_def
        mbind_def [of "mbind _ _"] mbind_def [of "durable_write _ _"])
  obtain r0 s0 where w: "durable_write (below_root ''queue.json'' ?s) ?f ?s = (r0, s0)" by fastforce
  from durable_write_cases [OF w] show ?thesis
  proof (elim disjE conjE exE)
    fix b assume "r0 = Inr ()" and s0: "s0 = ?f (?s\<lparr>st_budget := b\<rparr>)"
      and n: "st_budget ?s = None \<longrightarrow> s0 = ?f ?s"
    then have "res = Inr ?u" "s' = s0" using run w by (simp_all add: mseq_run)
    moreover have "st_budget s = None \<Longrightarrow> st_budget s0 = None" using n by simp
    ultimately show ?thesis by (auto simp: s0)
  next
    fix m assume "r0 = Inl (DurableIOError m)" "s0 = ?s" "st_budget ?s = Some 0"
    then show ?thesis using run w assms(1) by (auto simp: mseq_run)
  qed
qed

definition records_result :: "string \<Rightarrow> string \<Rightarrow> harness_run_result \<Rightarrow> run_record \<Rightarrow> bool" where
  "records_result wid rid r rec \<longleftrightarrow> rr_run_id rec = rid \<and> rr_work_item_id rec = wid
     \<and> rr_commit rec = hr_commit r \<and> rr_ok rec = run_ok r
     \<and> rr_semantic_verification rec = hr_semantic_verification r
     \<and> rr_command_results rec = hr_command_results r"

lemma result_status_not_running: "result_status r rq \<noteq> Running"
  by (simp add: result_status_def)

lemma history_decoded: "history = decoded History run_from_json"
  by (simp add: fun_eq_iff history_def decoded_def)

lemma history_cong: "st_logs t History = st_logs s History \<Longrightarrow> history t = history s"
  by (simp add: history_def)

text \<open>The part after the task has been updated: the history, then the journal.\<close>

lemma append_history_run:
  assumes "append_history rec s = (res, s')" "history s = Inr hs" "semantic_wf (rr_semantic_verification rec)"
  shows "list_tasks s' = list_tasks s \<and> st_lock s' = st_lock s \<and>
    ((res = Inr () \<and> history s' = Inr (hs @ [rec])) \<or> ((\<exists>e. res = Inl e) \<and> s' = s \<and> st_budget s \<noteq> None))"
proof -
  obtain js where js: "read_jsonl (st_logs s History) = Inr js" "mapE run_from_json js = Inr hs"
    using assms(2) by (auto simp: history_def rbind_Inr_iff)
  have dec: "run_from_json (run_to_json rec) = Inr rec" using assms(3) by (rule run_round_trip)
  have a: "atomic_append_jsonl History (run_to_json rec) s = (res, s')"
    using assms(1) by (simp add: append_history_def)
  have q: "list_tasks s' = list_tasks s"
    using withinD [OF append_same_queue a] by (intro list_tasks_cong) (simp add: same_queue_def)
  have ok: "st_budget s = None \<Longrightarrow> res = Inr ()" using a js by (simp add: append_run)
  from append_cases [OF a js(1)] show ?thesis
    using q js(2) dec ok by (auto simp: history_def mapE_append)
qed

lemma healthy_frame:
  "healthy s \<Longrightarrow> st_logs s' Events = st_logs s Events \<Longrightarrow> st_lock s' = st_lock s \<Longrightarrow> st_budget s' = None \<Longrightarrow>
     healthy s'"
  by (simp add: healthy_def)

lemma result_task_run:
  assumes ts: "list_tasks s = Inr ts" "last_index (\<lambda>t. task_id t = wid) ts = Some i"
    and cur: "qt_status (ts ! i) = Running \<or> shows_result r e rq (ts ! i)"
    and run: "result_task wid r e rq (ts ! i) s = (res, s')"
  shows "st_logs s' = st_logs s \<and> st_lock s' = st_lock s \<and> (st_budget s = None \<longrightarrow> st_budget s' = None)
    \<and> (((\<exists>x. res = Inl x) \<and> list_tasks s' = Inr ts \<and> st_budget s \<noteq> None)
       \<or> (\<exists>u. res = Inr u \<and> shows_result r e rq u \<and> task_id u = wid \<and> list_tasks s' = Inr (ts[i := u])))"
proof (cases "shows_result r e rq (ts ! i)")
  case True
  moreover have "task_id (ts ! i) = wid" "ts[i := ts ! i] = ts" using ts(2) by (auto simp: last_index_Some_iff)
  ultimately show ?thesis using run ts by (auto simp: result_task_def)
next
  case False
  then have run': "update_task wid (result_status r rq) 0 (hr_commit r) (or_option e (result_error r)) s = (res, s')"
    using run cur by (simp add: result_task_def)
  have "task_id (ts ! i) = wid" using ts(2) by (auto simp: last_index_Some_iff)
  then show ?thesis
    using update_task_run [OF ts run'] by (auto simp: shows_result_def)
qed

section \<open>The outcome of one call\<close>

lemma record_result_fresh:
  assumes "st_lock s = None" "history s = Inr hs" "rid \<noteq> []" "rid \<notin> rr_run_id ` set hs" "get_task wid s = Inr cur"
  shows "record_result wid started r e rq (Some rid) s =
    map_exn to_store_error (mbind (result_task wid r e rq cur)
      (\<lambda>task. finish_result rid started (st_clock s (st_ticks s)) r rq cur task))
      (s\<lparr>st_ticks := Suc (st_ticks s)\<rparr>)"
proof -
  have "List.find (\<lambda>x. rr_run_id x = rid) hs = None" using assms(4) by (auto simp: find_None_iff)
  moreover have "history (s\<lparr>st_ticks := n\<rparr>) = history s" "get_task wid (s\<lparr>st_ticks := n\<rparr>) = get_task wid s" for n
    by (simp_all add: history_def get_task_def)
  ultimately show ?thesis
    using assms(1-3,5)
    by (simp add: record_result_def state_mutation_unlocked map_exn_def or_option_def)
qed

lemma finish_result_run:
  assumes h: "history s = Inr hs" and wf: "semantic_wf (hr_semantic_verification r)"
    and id: "task_id task = wid"
    and run: "finish_result rid started finished r rq cur task s = (res, s')"
  shows "list_tasks s' = list_tasks s \<and> st_lock s' = st_lock s \<and>
    (((\<exists>x. res = Inl x) \<and> history s' = Inr hs \<and> st_budget s \<noteq> None)
     \<or> (\<exists>rec. records_result wid rid r rec \<and> history s' = Inr (hs @ [rec])
        \<and> (res = Inr rec \<or> ((\<exists>x. res = Inl x) \<and> \<not> healthy s))))"
proof -
  let ?rec = "result_record rid started finished r task"
  have rec: "records_result wid rid r ?rec" "semantic_wf (rr_semantic_verification ?rec)"
    using id wf by (simp_all add: records_result_def result_record_def)
  obtain r1 s1 where a: "append_history ?rec s = (r1, s1)" by fastforce
  show ?thesis
  proof (cases r1)
    case (Inl x)
    then show ?thesis
      using run a append_history_run [OF a h rec(2)] h by (auto simp: finish_result_def mseq_run)
  next
    case (Inr u)
    let ?m = "if qt_status cur = Running
        then transition_event task Running (result_status r rq) ''task.run_recorded''
          (JObj [(''ok'', JBool (run_ok r))]) (Some rid) else ret ()"
    obtain r2 s2 where b: "?m s1 = (r2, s2)" by fastforce
    have "within only_events ?m" by (intro only_events.within_intros transition_only_events)
    then have o: "only_events s1 s2" using b by (rule withinD)
    have "list_tasks s2 = list_tasks s1" using o by (intro list_tasks_cong) (simp add: only_events_def)
    then have q: "list_tasks s2 = list_tasks s" "st_lock s2 = st_lock s" "history s2 = Inr (hs @ [?rec])"
      using o append_history_run [OF a h rec(2)] Inr by (auto simp: only_events_def history_def)
    have "s' = s2" "res = Inr ?rec \<or> (\<exists>x. res = Inl x)" "r2 = Inr () \<Longrightarrow> res = Inr ?rec"
      using run a b Inr by (cases r2; auto simp: finish_result_def mseq_run)+
    moreover have "r2 = Inr ()" if "healthy s"
    proof -
      obtain js where "read_jsonl (st_logs s History) = Inr js"
        using h by (auto simp: history_def rbind_Inr_iff)
      then have "healthy s1"
        using a that by (auto simp: append_history_def append_run healthy_def)
      then show ?thesis
        using b transition_healthy [of s1] by (auto split: if_splits) (metis Pair_inject)
    qed
    ultimately show ?thesis using q rec(1) by blast
  qed
qed

lemma record_result_outcome:
  assumes lock: "st_lock s = None" and h: "history s = Inr hs"
    and rid: "rid \<noteq> []" "rid \<notin> rr_run_id ` set hs"
    and ts: "list_tasks s = Inr ts" "last_index (\<lambda>t. task_id t = wid) ts = Some i"
    and cur: "qt_status (ts ! i) = Running \<or> shows_result r e rq (ts ! i)"
    and wf: "semantic_wf (hr_semantic_verification r)"
    and run: "record_result wid started r e rq (Some rid) s = (res, s')"
  shows "st_lock s' = None \<and>
    ((\<exists>x. res = Inl x) \<and> \<not> healthy s \<and> history s' = Inr hs
        \<and> (list_tasks s' = Inr ts \<or> (\<exists>u. shows_result r e rq u \<and> task_id u = wid \<and> list_tasks s' = Inr (ts[i := u])))
     \<or> (\<exists>u rec. shows_result r e rq u \<and> task_id u = wid \<and> records_result wid rid r rec
        \<and> list_tasks s' = Inr (ts[i := u]) \<and> history s' = Inr (hs @ [rec])
        \<and> (res = Inr rec \<or> ((\<exists>x. res = Inl x) \<and> \<not> healthy s))))"
proof -
  let ?s = "s\<lparr>st_ticks := Suc (st_ticks s)\<rparr>"
  have g: "get_task wid s = Inr (ts ! i)" using ts by (auto simp: get_task_Inr)
  have hs: "healthy ?s = healthy s" "history ?s = Inr hs" using h by (simp_all add: healthy_def history_def)
  obtain r1 s1 where a: "result_task wid r e rq (ts ! i) ?s = (r1, s1)" by fastforce
  have A: "st_logs s1 = st_logs s" "st_lock s1 = None" "st_budget s = None \<Longrightarrow> st_budget s1 = None"
    "((\<exists>x. r1 = Inl x) \<and> list_tasks s1 = Inr ts \<and> st_budget s \<noteq> None)
     \<or> (\<exists>u. r1 = Inr u \<and> shows_result r e rq u \<and> task_id u = wid \<and> list_tasks s1 = Inr (ts[i := u]))"
    using result_task_run [OF _ ts(2) cur a] ts(1) lock by auto
  have h1: "history s1 = Inr hs" using A(1) h by (simp add: history_def)
  have b1: "st_budget s \<noteq> None \<Longrightarrow> \<not> healthy s" by (simp add: healthy_def)
  have run': "map_exn to_store_error (mbind (result_task wid r e rq (ts ! i))
      (\<lambda>task. finish_result rid started (st_clock s (st_ticks s)) r rq (ts ! i) task)) ?s = (res, s')"
    using run record_result_fresh [OF lock h rid g] by simp
  show ?thesis
  proof (cases r1)
    case (Inl x)
    then have "res = Inl (to_store_error x)" "s' = s1"
      using run' a by (simp_all add: map_exn_def mbind_run)
    then show ?thesis using A h1 b1 Inl by auto
  next
    case (Inr u)
    then have u: "shows_result r e rq u" "task_id u = wid" "list_tasks s1 = Inr (ts[i := u])" using A(4) by auto
    obtain r2 s2 where b: "finish_result rid started (st_clock s (st_ticks s)) r rq (ts ! i) u s1 = (r2, s2)"
      by fastforce
    then have res: "s' = s2" "res = map_sum to_store_error id r2"
      using run' a Inr by (auto simp: map_exn_def mbind_run split: sum.splits prod.splits)
    have hl: "healthy s \<Longrightarrow> healthy s1"
      using A(1,2,3) by (auto simp: healthy_def)
    then show ?thesis
      using finish_result_run [OF h1 wf u(2) b] u A(2,3) res by (auto simp: healthy_def)
  qed
qed

section \<open>Crash and replay\<close>

definition repair :: "store \<Rightarrow> store" where
  "repair s = s\<lparr>st_budget := None\<rparr>"

lemma repair_simps [simp]:
  "list_tasks (repair s) = list_tasks s" "history (repair s) = history s" "st_lock (repair s) = st_lock s"
  "st_logs (repair s) = st_logs s" "st_budget (repair s) = None"
  by (simp_all add: repair_def list_tasks_def history_def)

lemma readable_log_grows:
  "log_grows f g \<Longrightarrow> read_jsonl f = Inr js \<Longrightarrow> \<exists>js'. read_jsonl g = Inr js'"
  by (auto simp: log_grows_def)

lemma record_result_evolves: "within evolves (record_result w t r e v ri)"
  by (rule queue_ops_evolve)

lemma last_index_updated:
  "last_index (\<lambda>t. task_id t = wid) ts = Some i \<Longrightarrow> task_id u = wid \<Longrightarrow>
     last_index (\<lambda>t. task_id t = wid) (ts[i := u]) = Some i"
  by (auto simp: last_index_Some_iff nth_list_update)

lemma record_result_known:
  assumes "st_lock s = None" "history s = Inr (hs @ [rec])" "rid \<notin> rr_run_id ` set hs"
    and "records_result wid rid r rec" "rid \<noteq> []"
  shows "record_result wid started r e rq (Some rid) s = (Inr rec, s\<lparr>st_ticks := Suc (st_ticks s)\<rparr>)"
proof -
  have "List.find (\<lambda>x. rr_run_id x = rid) (hs @ [rec]) = Some rec"
  proof -
    have "List.find (\<lambda>x. rr_run_id x = rid) hs = None" using assms(3) by (auto simp: find_None_iff)
    with assms(4) show ?thesis by (simp add: find_append records_result_def)
  qed
  moreover have "history (s\<lparr>st_ticks := n\<rparr>) = history s" for n by (simp add: history_def)
  ultimately show ?thesis
    using assms by (simp add: record_result_def state_mutation_unlocked map_exn_def or_option_def
        records_result_def)
qed

lemma replay_finishes:
  assumes lock: "st_lock s = None" and ev: "read_jsonl (st_logs s Events) = Inr es" and h: "history s = Inr hs"
    and rid: "rid \<noteq> []" "rid \<notin> rr_run_id ` set hs"
    and ts: "list_tasks s = Inr ts" "last_index (\<lambda>t. task_id t = wid) ts = Some i"
    and cur: "qt_status (ts ! i) = Running"
    and wf: "semantic_wf (hr_semantic_verification r)"
    and first: "record_result wid started r e rq (Some rid) s = (res1, s1)"
    and second: "record_result wid started r e rq (Some rid) (repair s1) = (res2, s2)"
  shows "\<exists>u rec. res2 = Inr rec \<and> records_result wid rid r rec \<and> history s2 = Inr (hs @ [rec])
    \<and> shows_result r e rq u \<and> task_id u = wid \<and> list_tasks s2 = Inr (ts[i := u])"
proof -
  note A = record_result_outcome [OF lock h rid ts disjI1 [OF cur] wf first]
  then have lock1: "st_lock (repair s1) = None" by simp
  have "evolves s s1" using record_result_evolves first by (rule withinD)
  then have "log_grows (st_logs s Events) (st_logs s1 Events)" by (simp add: evolves_def)
  then have well: "healthy (repair s1)"
    using readable_log_grows [OF _ ev] lock1 by (auto simp: healthy_def)
  have redo: ?thesis
    if h1: "history (repair s1) = Inr hs" and ts1: "list_tasks (repair s1) = Inr ts1"
      "last_index (\<lambda>t. task_id t = wid) ts1 = Some i"
      "qt_status (ts1 ! i) = Running \<or> shows_result r e rq (ts1 ! i)"
      "\<And>u. ts1[i := u] = ts[i := u]" for ts1
    using record_result_outcome [OF lock1 h1 rid ts1(1-3) wf second] well ts1(4) by auto
  from A consider
      (none) "history s1 = Inr hs" "list_tasks s1 = Inr ts"
    | (queue) u where "history s1 = Inr hs" "shows_result r e rq u" "task_id u = wid" "list_tasks s1 = Inr (ts[i := u])"
    | (all) u rec where "shows_result r e rq u" "task_id u = wid" "records_result wid rid r rec"
        "list_tasks s1 = Inr (ts[i := u])" "history s1 = Inr (hs @ [rec])" by blast
  then show ?thesis
  proof cases
    case none
    then show ?thesis using ts cur by (intro redo [of ts]) auto
  next
    case (queue u)
    then show ?thesis
      using ts last_index_updated [OF ts(2)] by (intro redo [of "ts[i := u]"]) (auto simp: last_index_Some_iff)
  next
    case (all u rec)
    then have "res2 = Inr rec \<and> s2 = (repair s1)\<lparr>st_ticks := Suc (st_ticks (repair s1))\<rparr>"
      using record_result_known [OF lock1 _ rid(2) all(3) rid(1)] second by auto
    then have "res2 = Inr rec" "history s2 = history s1" "list_tasks s2 = list_tasks s1"
      by (simp_all add: history_def)
    with all show ?thesis by auto
  qed
qed

text \<open>A replay that reports another commit is refused once the task shows the first one.\<close>

lemma replay_other_commit:
  assumes lock: "st_lock s = None" and h: "history s = Inr hs" and rid: "rid \<noteq> []" "rid \<notin> rr_run_id ` set hs"
    and ts: "list_tasks s = Inr ts" "last_index (\<lambda>t. task_id t = wid) ts = Some i"
    and cur: "shows_result r e rq (ts ! i)" "hr_commit r' \<noteq> hr_commit r"
    and run: "record_result wid started r' e' rq' (Some rid) s = (res, s')"
  shows "(\<exists>m. res = Inl (StateStoreError m)) \<and> list_tasks s' = Inr ts \<and> history s' = Inr hs"
proof -
  have g: "get_task wid s = Inr (ts ! i)" using ts by (auto simp: get_task_Inr)
  have "qt_status (ts ! i) \<noteq> Running" "\<not> shows_result r' e' rq' (ts ! i)"
    using cur result_status_not_running by (auto simp: shows_result_def)
  then have "record_result wid started r' e' rq' (Some rid) s =
      (Inl (StateStoreError (''Only a running task can record a new result: '' @ wid @ ''=''
        @ status_str (qt_status (ts ! i)))), s\<lparr>st_ticks := Suc (st_ticks s)\<rparr>)"
    unfolding record_result_fresh [OF lock h rid g]
    by (simp add: result_task_def map_exn_def mseq_def)
  then show ?thesis using run ts h by (auto simp: history_def)
qed

end
