(* ===== verification/State_Ops.thy ===== *)
theory State_Ops imports State_Crash begin

text \<open>
  The functional behaviour of the queue operations on a healthy store: when a task can be claimed
  and what it looks like afterwards, the attempt limits, the outcome of a review and of a
  confirmed rework.
\<close>

section \<open>One entry moves and the journal is written\<close>

lemma update_then_event:
  assumes h: "healthy s" and ts: "list_tasks s = Inr ts" "last_index (\<lambda>t. task_id t = wid) ts = Some i"
  shows "\<exists>u s'. mbind (update_task wid st d c e) (\<lambda>updated.
      mseq (transition_event updated p q a x r) (ret updated)) s = (Inr u, s')
    \<and> (\<exists>now. u = (ts ! i)\<lparr>qt_status := st, qt_updated_at_utc := now,
          qt_attempts := qt_attempts (ts ! i) + d, qt_last_commit := c, qt_last_error := e\<rparr>)
    \<and> list_tasks s' = Inr (ts[i := u]) \<and> healthy s'"
proof -
  obtain res s1 where a: "update_task wid st d c e s = (res, s1)" by fastforce
  have b: "st_budget s = None" using h by (simp add: healthy_def)
  obtain now where u: "res = Inr ((ts ! i)\<lparr>qt_status := st, qt_updated_at_utc := now,
        qt_attempts := qt_attempts (ts ! i) + d, qt_last_commit := c, qt_last_error := e\<rparr>)"
      "list_tasks s1 = Inr (ts[i := (ts ! i)\<lparr>qt_status := st, qt_updated_at_utc := now,
        qt_attempts := qt_attempts (ts ! i) + d, qt_last_commit := c, qt_last_error := e\<rparr>])"
    and f: "st_logs s1 = st_logs s" "st_lock s1 = st_lock s" "st_budget s1 = None"
    using update_task_run [OF ts a] b by auto
  let ?u = "(ts ! i)\<lparr>qt_status := st, qt_updated_at_utc := now,
      qt_attempts := qt_attempts (ts ! i) + d, qt_last_commit := c, qt_last_error := e\<rparr>"
  have "healthy s1" using h f by (auto simp: healthy_def)
  then obtain s2 where t: "transition_event ?u p q a x r s1 = (Inr (), s2)" "only_events s1 s2" "healthy s2"
    using transition_healthy by blast
  then have "list_tasks s2 = list_tasks s1" by (intro list_tasks_cong) (simp add: only_events_def)
  moreover have "mbind (update_task wid st d c e) (\<lambda>updated.
      mseq (transition_event updated p q a x r) (ret updated)) s = (Inr ?u, s2)"
    using a u(1) t(1) by (simp add: mbind_run mseq_run)
  ultimately show ?thesis using u(2) t(3) by (intro exI [of _ ?u] exI [of _ s2] conjI exI [of _ now]) simp_all
qed

lemma replace_task_run:
  assumes h: "healthy s" and ts: "list_tasks s = Inr ts" and i: "i < length ts" "last_of_id ts i"
    and act: "live_last ts" "active (ts ! i)"
  shows "\<exists>now s'. replace_task (ts ! i) ch s = (Inr (ch ((ts ! i)\<lparr>qt_updated_at_utc := now\<rparr>)), s')
    \<and> list_tasks s' = Inr (ts[i := ch ((ts ! i)\<lparr>qt_updated_at_utc := now\<rparr>)]) \<and> healthy s'"
proof -
  have first: "first_index (\<lambda>t. t = ts ! i) ts = Some i"
  proof (cases "first_index (\<lambda>t. t = ts ! i) ts")
    case None
    then show ?thesis using first_index_NoneD [OF None, of "ts ! i"] i by simp
  next
    case (Some j)
    then have j: "j < length ts" "ts ! j = ts ! i" by (auto dest!: first_index_SomeD)
    then have "last_of_id ts j" using act by (auto simp: live_last_nth)
    then have "j = i" using i j unfolding last_of_id_def by (metis linorder_neqE_nat)
    with Some show ?thesis by simp
  qed
  let ?u = "ch ((ts ! i)\<lparr>qt_updated_at_utc := st_clock s (st_ticks s)\<rparr>)"
  let ?s = "s\<lparr>st_ticks := Suc (st_ticks s)\<rparr>"
  let ?s' = "?s\<lparr>st_queue := Content (JList (map task_to_json (ts[i := ?u])))\<rparr>"
  have "write_tasks (ts[i := ?u]) ?s = (Inr (), ?s')"
    using h by (simp add: write_tasks_def durable_write_healthy healthy_def)
  then have "replace_task (ts ! i) ch s = (Inr ?u, ?s')"
    using ts first i by (simp add: replace_task_def Let_def mseq_run)
  moreover have "healthy ?s'" using h by (simp add: healthy_def)
  ultimately show ?thesis by (auto intro: exI [of _ "st_clock s (st_ticks s)"])
qed

lemma replace_then_event:
  assumes "healthy s" "list_tasks s = Inr ts" "i < length ts" "last_of_id ts i" "live_last ts" "active (ts ! i)"
  shows "\<exists>now s'. mbind (replace_task (ts ! i) ch) (\<lambda>updated.
      mseq (transition_event updated p q a x r) (ret updated)) s
      = (Inr (ch ((ts ! i)\<lparr>qt_updated_at_utc := now\<rparr>)), s')
    \<and> list_tasks s' = Inr (ts[i := ch ((ts ! i)\<lparr>qt_updated_at_utc := now\<rparr>)]) \<and> healthy s'"
proof -
  obtain now s1 where a: "replace_task (ts ! i) ch s = (Inr (ch ((ts ! i)\<lparr>qt_updated_at_utc := now\<rparr>)), s1)"
    and q: "list_tasks s1 = Inr (ts[i := ch ((ts ! i)\<lparr>qt_updated_at_utc := now\<rparr>)])" and h: "healthy s1"
    using replace_task_run [OF assms] by blast
  obtain s2 where t: "transition_event (ch ((ts ! i)\<lparr>qt_updated_at_utc := now\<rparr>)) p q a x r s1 = (Inr (), s2)"
    "only_events s1 s2" "healthy s2" using transition_healthy [OF h] by blast
  then have "list_tasks s2 = list_tasks s1" by (intro list_tasks_cong) (simp add: only_events_def)
  moreover have "mbind (replace_task (ts ! i) ch) (\<lambda>updated.
      mseq (transition_event updated p q a x r) (ret updated)) s
      = (Inr (ch ((ts ! i)\<lparr>qt_updated_at_utc := now\<rparr>)), s2)"
    using a t(1) by (simp add: mbind_run mseq_run)
  ultimately show ?thesis using q t(3) by metis
qed

section \<open>Claiming\<close>

definition started_task :: "queue_task \<Rightarrow> queue_task \<Rightarrow> bool" where
  "started_task t u \<longleftrightarrow> (\<exists>now. u = t\<lparr>qt_status := Running, qt_updated_at_utc := now,
     qt_attempts := qt_attempts t + 1, qt_last_commit := None, qt_last_error := None\<rparr>)"

lemma find_ready:
  assumes "live_last ts" "last_index (\<lambda>t. task_id t = wid) ts = Some i" "qt_status (ts ! i) = Queued"
  shows "(\<exists>r. List.find (\<lambda>r. task_id (tr_task r) = wid) (qs_ready (schedule ts)) = Some r) \<longleftrightarrow> deps_done ts (ts ! i)"
    and "\<not> deps_done ts (ts ! i) \<Longrightarrow>
      \<exists>r. List.find (\<lambda>r. task_id (tr_task r) = wid) (qs_waiting (schedule ts)) = Some r"
proof -
  have u: "queued_unique ts" using assms(1) by (rule live_last_queued_unique)
  have i: "i < length ts" "task_id (ts ! i) = wid" "\<forall>j < length ts. i < j \<longrightarrow> task_id (ts ! j) \<noteq> wid"
    using assms(2) by (auto simp: last_index_Some_iff)
  have only: "t = ts ! i" if "t \<in> set ts" "qt_status t = Queued" "task_id t = wid" for t
  proof -
    obtain j where j: "j < length ts" "ts ! j = t" using \<open>t \<in> set ts\<close> by (auto simp: in_set_conv_nth)
    then have "last_of_id ts j" using assms(1) that by (auto simp: live_last_nth)
    then have "j = i" using i j that unfolding last_of_id_def by (metis linorder_neqE_nat)
    with j show ?thesis by simp
  qed
  have "(\<exists>r. List.find (\<lambda>r. task_id (tr_task r) = wid) (qs_ready (schedule ts)) = Some r)
      \<longleftrightarrow> (\<exists>t \<in> set (map tr_task (qs_ready (schedule ts))). task_id t = wid)"
    by (auto simp: find_None_iff simp flip: not_None_eq)
  also have "\<dots> \<longleftrightarrow> deps_done ts (ts ! i)"
    unfolding ready_set [OF u] Bex_def using only i assms(3) by (metis nth_mem)
  finally show "(\<exists>r. List.find (\<lambda>r. task_id (tr_task r) = wid) (qs_ready (schedule ts)) = Some r)
      \<longleftrightarrow> deps_done ts (ts ! i)" .
  show "\<exists>r. List.find (\<lambda>r. task_id (tr_task r) = wid) (qs_waiting (schedule ts)) = Some r"
    if "\<not> deps_done ts (ts ! i)"
  proof -
    have "readiness_of (latest_tasks_by_id ts) (ts ! i) \<in> set (qs_waiting (schedule ts))"
      using that i(1) assms(3) by (auto simp: schedule_waiting)
    moreover have "task_id (tr_task (readiness_of (latest_tasks_by_id ts) (ts ! i))) = wid"
      using i(2) by simp
    ultimately show ?thesis
      by (cases "List.find (\<lambda>r. task_id (tr_task r) = wid) (qs_waiting (schedule ts))") (auto dest: find_NoneD)
  qed
qed

lemma mark_running_healthy:
  assumes h: "healthy s" and ts: "list_tasks s = Inr ts" "last_index (\<lambda>t. task_id t = wid) ts = Some i"
    and live: "live_last ts"
  shows "if qt_status (ts ! i) = Queued \<and> deps_done ts (ts ! i)
    then \<exists>u s'. mark_running wid s = (Inr u, s') \<and> started_task (ts ! i) u
      \<and> list_tasks s' = Inr (ts[i := u]) \<and> healthy s'
    else \<exists>m. mark_running wid s = (Inl (StateStoreError m), s)"
proof -
  have lock: "st_lock s = None" using h by (simp add: healthy_def)
  have g: "get_task wid s = Inr (ts ! i)" using ts by (auto simp: get_task_Inr)
  have sch: "store_schedule s = Inr (schedule ts)" by (simp add: store_schedule_def ts)
  consider (not_queued) "qt_status (ts ! i) \<noteq> Queued"
    | (blocked) "qt_status (ts ! i) = Queued" "\<not> deps_done ts (ts ! i)"
    | (ready) "qt_status (ts ! i) = Queued" "deps_done ts (ts ! i)" by blast
  then show ?thesis
  proof cases
    case not_queued
    then show ?thesis
      using lock g by (simp add: mark_running_def state_mutation_unlocked map_exn_def)
  next
    case blocked
    obtain r where "List.find (\<lambda>r. task_id (tr_task r) = wid) (qs_waiting (schedule ts)) = Some r"
      using find_ready(2) [OF live ts(2) blocked] by blast
    moreover have "List.find (\<lambda>r. task_id (tr_task r) = wid) (qs_ready (schedule ts)) = None"
      using find_ready(1) [OF live ts(2) blocked(1)] blocked(2)
      by (cases "List.find (\<lambda>r. task_id (tr_task r) = wid) (qs_ready (schedule ts))") auto
    ultimately show ?thesis
      using lock g sch blocked by (simp add: mark_running_def state_mutation_unlocked map_exn_def mseq_def)
  next
    case ready
    obtain r where "List.find (\<lambda>r. task_id (tr_task r) = wid) (qs_ready (schedule ts)) = Some r"
      using find_ready(1) [OF live ts(2) ready(1)] ready(2) by blast
    then have "mark_running wid s = map_exn to_store_error (mbind (update_task wid Running 1 None None) (\<lambda>updated.
        mseq (transition_event updated (qt_status (ts ! i)) Running ''task.started'' JNull None) (ret updated))) s"
      using lock g sch ready by (simp add: mark_running_def state_mutation_unlocked map_exn_def mseq_def)
    then show ?thesis
      using update_then_event [OF h ts, of Running 1 None None "qt_status (ts ! i)" Running "''task.started''" JNull None]
        ready by (auto simp: map_exn_def started_task_def)
  qed
qed

lemma active_last: "live_last ts \<Longrightarrow> i < length ts \<Longrightarrow> active (ts ! i) \<Longrightarrow>
    last_of_id ts i \<and> last_index (\<lambda>t. task_id t = task_id (ts ! i)) ts = Some i"
  by (auto simp: live_last_nth last_of_id_def last_index_Some_iff)

lemma escalate_healthy:
  assumes h: "healthy s" and ts: "list_tasks s = Inr ts" and live: "live_last ts" and i: "i < length ts"
    and q: "qt_status (ts ! i) = Queued" "n \<le> qt_attempts (ts ! i)"
  shows "\<exists>u s'. escalate_attempt_limit (task_id (ts ! i)) n s = (Inr u, s')
    \<and> qt_status u = Escalated \<and> qt_attempts u = qt_attempts (ts ! i) \<and> task_id u = task_id (ts ! i)
    \<and> list_tasks s' = Inr (ts[i := u]) \<and> healthy s'"
proof -
  have lock: "st_lock s = None" using h by (simp add: healthy_def)
  have act: "active (ts ! i)" using q by simp
  have last: "last_of_id ts i" "last_index (\<lambda>t. task_id t = task_id (ts ! i)) ts = Some i"
    using active_last [OF live i act] by auto
  have g: "get_task (task_id (ts ! i)) s = Inr (ts ! i)" using ts last by (auto simp: get_task_Inr)
  let ?ch = "\<lambda>t. t\<lparr>qt_status := Escalated,
      qt_last_error := Some (''Worker attempt limit reached '' @ attempts_text (ts ! i) n)\<rparr>"
  have "escalate_attempt_limit (task_id (ts ! i)) n s = map_exn to_store_error
      (mbind (replace_task (ts ! i) ?ch) (\<lambda>updated.
        mseq (transition_event updated (qt_status (ts ! i)) Escalated ''worker.attempt_limit'' JNull None)
        (ret updated))) s"
    using lock g q by (simp add: escalate_attempt_limit_def state_mutation_unlocked map_exn_def)
  moreover obtain now s' where "mbind (replace_task (ts ! i) ?ch) (\<lambda>updated.
        mseq (transition_event updated (qt_status (ts ! i)) Escalated ''worker.attempt_limit'' JNull None)
        (ret updated)) s = (Inr (?ch ((ts ! i)\<lparr>qt_updated_at_utc := now\<rparr>)), s')"
      "list_tasks s' = Inr (ts[i := ?ch ((ts ! i)\<lparr>qt_updated_at_utc := now\<rparr>)])" "healthy s'"
    using replace_then_event [OF h ts i last(1) live act] by blast
  ultimately show ?thesis
    by (intro exI [of _ "?ch ((ts ! i)\<lparr>qt_updated_at_utc := now\<rparr>)"] exI [of _ s']) simp
qed

text \<open>
  A claim on a healthy store: nothing to do, or the selected task starts, or it has used up its
  attempts and is escalated instead.
\<close>

lemma claim_next_healthy:
  assumes h: "healthy s" and ts: "list_tasks s = Inr ts" and live: "live_last ts"
  shows "case qs_selected (schedule ts) of
      None \<Rightarrow> claim_next m s = (Inr None, s)
    | Some t \<Rightarrow> \<exists>i < length ts. ts ! i = t \<and> qt_status t = Queued \<and> deps_done ts t \<and>
        (if (\<exists>n. m = Some n \<and> n \<le> qt_attempts t)
         then \<exists>x u s'. claim_next m s = (Inl (StateStoreError x), s') \<and> qt_status u = Escalated
           \<and> task_id u = task_id t \<and> list_tasks s' = Inr (ts[i := u])
         else \<exists>u s'. claim_next m s = (Inr (Some u), s') \<and> started_task t u \<and> list_tasks s' = Inr (ts[i := u]))"
proof (cases "qs_selected (schedule ts)")
  case None
  then show ?thesis
    using h ts by (simp add: claim_next_def state_mutation_unlocked healthy_def map_exn_def store_schedule_def)
next
  case (Some t)
  obtain i where i: "i < length ts" "ts ! i = t" "qt_status t = Queued" "deps_done ts t"
    using selected_best [OF live_last_queued_unique [OF live] Some] by blast
  have lock: "st_lock s = None" and sch: "store_schedule s = Inr (schedule ts)"
    using h ts by (simp_all add: healthy_def store_schedule_def)
  have act: "active (ts ! i)" using i by simp
  have last: "last_index (\<lambda>u. task_id u = task_id t) ts = Some i" using active_last [OF live i(1) act] i by simp
  show ?thesis
  proof (cases "\<exists>n. m = Some n \<and> n \<le> qt_attempts t")
    case True
    then obtain n where n: "m = Some n" "n \<le> qt_attempts t" by blast
    obtain u s' where "escalate_attempt_limit (task_id t) n s = (Inr u, s')"
        "qt_status u = Escalated" "task_id u = task_id t" "list_tasks s' = Inr (ts[i := u])"
      using escalate_healthy [OF h ts live i(1), of n] i n by auto
    moreover from this have "claim_next m s =
        (Inl (StateStoreError (or_text (qt_last_error u) ''Worker attempt limit reached.'')), s')"
      using lock sch Some n by (simp add: claim_next_def state_mutation_unlocked map_exn_def mbind_run)
    ultimately show ?thesis using Some i True by auto
  next
    case False
    obtain u s' where r: "mark_running (task_id t) s = (Inr u, s')" "started_task t u" "list_tasks s' = Inr (ts[i := u])"
      using mark_running_healthy [OF h ts last live] i by auto
    then have "claim_next m s = (Inr (Some u), s')"
      using lock sch Some False
      by (cases m) (simp_all add: claim_next_def state_mutation_unlocked map_exn_def mbind_run)
    with r show ?thesis using Some i False by auto
  qed
qed

section \<open>Reviews\<close>

lemma resolve_review_healthy:
  assumes h: "healthy s" and ts: "list_tasks s = Inr ts" and live: "live_last ts"
    and i: "last_index (\<lambda>t. task_id t = wid) ts = Some i"
  shows "if qt_status (ts ! i) = Review_Pending \<and> qt_pending_review_bundle_id (ts ! i) = Some b
      \<and> decision \<in> {''approve'', ''reject'', ''escalate''}
    then \<exists>u s'. resolve_review wid b d decision summary s = (Inr u, s') \<and> task_id u = wid
      \<and> qt_status u = (if decision = ''approve'' then Done else if decision = ''reject'' then Rework_Required else Escalated)
      \<and> qt_last_error u = (if decision = ''approve'' then None else Some summary)
      \<and> qt_last_review_decision_id u = Some d \<and> qt_pending_review_bundle_id u = None
      \<and> list_tasks s' = Inr (ts[i := u])
    else \<exists>m. resolve_review wid b d decision summary s = (Inl (StateStoreError m), s)"
proof -
  have lock: "st_lock s = None" using h by (simp add: healthy_def)
  have g: "get_task wid s = Inr (ts ! i)" using ts i by (auto simp: get_task_Inr)
  let ?ok = "qt_status (ts ! i) = Review_Pending \<and> qt_pending_review_bundle_id (ts ! i) = Some b"
  show ?thesis
  proof (cases "?ok \<and> decision \<in> {''approve'', ''reject'', ''escalate''}")
    case False
    then show ?thesis
      using lock g by (auto simp: resolve_review_def state_mutation_unlocked map_exn_def decision_outcome_def)
  next
    case True
    then obtain st err where o: "decision_outcome decision summary = Inr (st, err)"
        "st = (if decision = ''approve'' then Done else if decision = ''reject'' then Rework_Required else Escalated)"
        "err = (if decision = ''approve'' then None else Some summary)"
      by (auto simp: decision_outcome_def)
    let ?ch = "\<lambda>t. t\<lparr>qt_status := st, qt_pending_review_bundle_id := None,
        qt_last_review_decision_id := Some d, qt_last_error := err\<rparr>"
    let ?m = "mbind (replace_task (ts ! i) ?ch) (\<lambda>updated. mseq (transition_event updated (qt_status (ts ! i)) st
        ''critic.decision_applied'' (JObj [(''decision'', JStr decision), (''decision_id'', JStr d),
          (''summary'', JStr summary)]) None) (ret updated))"
    have i': "i < length ts" "task_id (ts ! i) = wid" using i by (auto simp: last_index_Some_iff)
    have act: "active (ts ! i)" using True by simp
    obtain now s' where "?m s = (Inr (?ch ((ts ! i)\<lparr>qt_updated_at_utc := now\<rparr>)), s')"
        "list_tasks s' = Inr (ts[i := ?ch ((ts ! i)\<lparr>qt_updated_at_utc := now\<rparr>)])"
      using replace_then_event [OF h ts i'(1) _ live act] active_last [OF live i'(1) act] by blast
    moreover have "resolve_review wid b d decision summary s = map_exn to_store_error ?m s"
      using lock g True o(1) by (simp add: resolve_review_def state_mutation_unlocked map_exn_def)
    ultimately show ?thesis
      using True i' o(2,3) by (auto simp: map_exn_def)
  qed
qed

lemma confirm_rework_healthy:
  assumes h: "healthy s" and ts: "list_tasks s = Inr ts" and live: "live_last ts"
    and i: "last_index (\<lambda>t. task_id t = wid) ts = Some i"
    and ok: "qt_status (ts ! i) = Rework_Required" "qt_last_review_decision_id (ts ! i) = Some d"
      "is \<noteq> []" "\<forall>x \<in> set is. strip x \<noteq> []" "1 \<le> n"
  shows "\<exists>u s'. confirm_rework wid d is n s = (Inr u, s') \<and> list_tasks s' = Inr (ts[i := u]) \<and> task_id u = wid
    \<and> qt_attempts u = qt_attempts (ts ! i)
    \<and> (if qt_attempts (ts ! i) < n
       then qt_status u = Queued \<and> wi_correction_instructions (qt_work_item u) = is
         \<and> wi_correction_decision_id (qt_work_item u) = Some d \<and> qt_pending_review_bundle_id u = None
       else qt_status u = Escalated \<and> qt_work_item u = qt_work_item (ts ! i))"
proof -
  have lock: "st_lock s = None" using h by (simp add: healthy_def)
  have g: "get_task wid s = Inr (ts ! i)" using ts i by (auto simp: get_task_Inr)
  have i': "i < length ts" "task_id (ts ! i) = wid" using i by (auto simp: last_index_Some_iff)
  have act: "active (ts ! i)" using ok(1) by simp
  have last: "last_of_id ts i" using active_last [OF live i'(1) act] by simp
  note step = replace_then_event [OF h ts i'(1) last live act]
  have blank: "\<not> list_ex (\<lambda>x. strip x = []) is" using ok(4) by (auto simp: list_ex_iff)
  show ?thesis
  proof (cases "qt_attempts (ts ! i) < n")
    case True
    let ?w = "(qt_work_item (ts ! i))\<lparr>wi_correction_instructions := is, wi_correction_decision_id := Some d\<rparr>"
    let ?ch = "\<lambda>t. t\<lparr>qt_status := Queued, qt_work_item := ?w, qt_pending_review_bundle_id := None, qt_last_error := None\<rparr>"
    let ?m = "mbind (replace_task (ts ! i) ?ch) (\<lambda>updated. mseq (transition_event updated (qt_status (ts ! i)) Queued
        ''rework.supervisor_confirmed'' (JObj [(''decision_id'', JStr d), (''instructions'', j_strs is)]) None)
        (ret updated))"
    obtain now s' where "?m s = (Inr (?ch ((ts ! i)\<lparr>qt_updated_at_utc := now\<rparr>)), s')"
        "list_tasks s' = Inr (ts[i := ?ch ((ts ! i)\<lparr>qt_updated_at_utc := now\<rparr>)])"
      using step by blast
    moreover have "confirm_rework wid d is n s = map_exn to_store_error ?m s"
      using lock g ok blank True by (simp add: confirm_rework_def state_mutation_unlocked map_exn_def Let_def)
    ultimately show ?thesis using True i' by (auto simp: map_exn_def)
  next
    case False
    let ?ch = "\<lambda>t. t\<lparr>qt_status := Escalated,
        qt_last_error := Some (''Rework attempt limit reached '' @ attempts_text (ts ! i) n)\<rparr>"
    let ?m = "mbind (replace_task (ts ! i) ?ch) (\<lambda>updated. mseq (transition_event updated (qt_status (ts ! i)) Escalated
        ''rework.attempt_limit'' JNull None) (ret updated))"
    obtain now s' where "?m s = (Inr (?ch ((ts ! i)\<lparr>qt_updated_at_utc := now\<rparr>)), s')"
        "list_tasks s' = Inr (ts[i := ?ch ((ts ! i)\<lparr>qt_updated_at_utc := now\<rparr>)])"
      using step by blast
    moreover have "confirm_rework wid d is n s = map_exn to_store_error ?m s"
      using lock g ok blank False by (simp add: confirm_rework_def state_mutation_unlocked map_exn_def)
    ultimately show ?thesis using False i' by (auto simp: map_exn_def)
  qed
qed

end
