(* ===== verification/Scheduler_Props.thy ===== *)
theory Scheduler_Props imports Scheduler_Graph begin

text \<open>
  The properties of the scheduling core (\<open>HohStateStore.schedule\<close>, \<open>schedule_batch\<close>,
  \<open>_validate_enqueue_graph\<close>, \<open>downstream_tasks\<close> of \<open>state.py\<close>), each with a concrete instance.
\<close>

section \<open>Sample tasks for the instances\<close>

definition sample_item :: "string \<Rightarrow> int \<Rightarrow> string list \<Rightarrow> string list \<Rightarrow> work_item" where
  "sample_item i p deps paths = \<lparr>wi_id = i, wi_title = ''t'', wi_objective = ''o'',
     wi_acceptance_criteria = [''c''], wi_verification_commands = [''true''], wi_allowed_paths = paths,
     wi_non_goals = [], wi_depends_on = deps, wi_priority = p, wi_correction_instructions = [],
     wi_correction_decision_id = None\<rparr>"

definition sample_task :: "string \<Rightarrow> int \<Rightarrow> string list \<Rightarrow> string list \<Rightarrow> task_status \<Rightarrow> queue_task" where
  "sample_task i p deps paths st = (placeholder_task (sample_item i p deps paths))\<lparr>qt_status := st\<rparr>"

definition sample_queue :: "queue_task list" where
  "sample_queue =
     [sample_task ''base'' 0 [] [''src''] Done,
      sample_task ''low'' 1 [''base''] [''docs''] Queued,
      sample_task ''high'' 5 [''base''] [''src/a''] Queued,
      sample_task ''peer'' 5 [] [''src/a/b''] Queued,
      sample_task ''late'' 9 [''low''] [''tests''] Queued]"

section \<open>Enqueue\<close>

text \<open>C5: \<open>_validate_enqueue_graph\<close> accepts a batch exactly when no task names a dependency twice,
  every dependency is a task of the queue or of the batch, and the unresolved tasks of the queue
  with the batch added have no circular wait.\<close>

theorem enqueue_accepts_iff_acyclic:
  "validate_enqueue_graph existing incoming = Inr () \<longleftrightarrow>
     (\<forall>w \<in> set incoming. distinct (wi_depends_on w)
        \<and> set (wi_depends_on w) \<subseteq> task_id ` set existing \<union> wi_id ` set incoming)
     \<and> acyclic (waits_for (enqueue_latest existing incoming))"
  by (rule validate_enqueue_graph_iff)

theorem enqueue_accepts_iff_acyclic_witness:
  "acyclic (waits_for (enqueue_latest sample_queue [sample_item ''x'' 0 [''y''] [], sample_item ''y'' 0 [''late''] []]))
   \<and> \<not> acyclic (waits_for (enqueue_latest sample_queue [sample_item ''x'' 0 [''y''] [], sample_item ''y'' 0 [''x''] []]))"
proof
  have "validate_enqueue_graph sample_queue
      [sample_item ''x'' 0 [''y''] [], sample_item ''y'' 0 [''late''] []] = Inr ()" by code_simp
  then show "acyclic (waits_for (enqueue_latest sample_queue
      [sample_item ''x'' 0 [''y''] [], sample_item ''y'' 0 [''late''] []]))"
    unfolding enqueue_accepts_iff_acyclic by (rule conjunct2)
  have "validate_enqueue_graph sample_queue
      [sample_item ''x'' 0 [''y''] [], sample_item ''y'' 0 [''x''] []] \<noteq> Inr ()" by code_simp
  moreover have "\<forall>w \<in> set [sample_item ''x'' 0 [''y''] [], sample_item ''y'' 0 [''x''] []].
      distinct (wi_depends_on w) \<and> set (wi_depends_on w) \<subseteq> task_id ` set sample_queue
        \<union> wi_id ` set [sample_item ''x'' 0 [''y''] [], sample_item ''y'' 0 [''x''] []]" by code_simp
  ultimately show "\<not> acyclic (waits_for (enqueue_latest sample_queue
      [sample_item ''x'' 0 [''y''] [], sample_item ''y'' 0 [''x''] []]))"
    unfolding enqueue_accepts_iff_acyclic by blast
qed

section \<open>The schedule\<close>

text \<open>C3: The task the scheduler selects is a queued task whose dependencies are all done; no ready
  task has a higher priority, and among those of the same priority it is the one enqueued first.
  Nothing is selected only when no queued task is ready.\<close>

theorem schedule_selects_best:
  assumes "queued_unique ts"
  shows "case qs_selected (schedule ts) of
      None \<Rightarrow> \<forall>t \<in> set ts. qt_status t = Queued \<longrightarrow> \<not> deps_done ts t
    | Some t \<Rightarrow> \<exists>j. j < length ts \<and> ts ! j = t \<and> qt_status t = Queued \<and> deps_done ts t \<and>
        (\<forall>i. i < length ts \<longrightarrow> qt_status (ts ! i) = Queued \<longrightarrow> deps_done ts (ts ! i) \<longrightarrow>
           prio (ts ! i) < prio t \<or> (prio (ts ! i) = prio t \<and> j \<le> i))"
  using selected_best [OF assms] selected_None_iff [OF assms] by (auto split: option.split)

lemma sample_queue_unique: "queued_unique sample_queue"
  by (simp add: queued_unique_def sample_queue_def sample_task_def sample_item_def placeholder_task_def)

lemma sample_selected: "qs_selected (schedule sample_queue) = Some (sample_queue ! 2)"
  by code_simp

theorem schedule_selects_best_witness:
  "qs_selected (schedule sample_queue) = Some (sample_queue ! 2) \<and> deps_done sample_queue (sample_queue ! 2)"
  using schedule_selects_best [OF sample_queue_unique] by (simp add: sample_selected) blast

text \<open>Every queued task is reported exactly once, as ready or as waiting, and the ready ones are
  those whose dependencies are done.\<close>

theorem schedule_partitions_queued:
  assumes "queued_unique ts"
  shows "mset (map tr_task (qs_ready (schedule ts))) + mset (map tr_task (qs_waiting (schedule ts)))
      = mset (filter (\<lambda>t. qt_status t = Queued) ts)
    \<and> (\<forall>t. t \<in> set (map tr_task (qs_ready (schedule ts)))
         \<longleftrightarrow> t \<in> set ts \<and> qt_status t = Queued \<and> deps_done ts t)"
  using ready_or_waiting [OF assms] ready_set [OF assms] by blast

theorem schedule_partitions_queued_witness:
  "mset (map tr_task (qs_ready (schedule sample_queue))) + mset (map tr_task (qs_waiting (schedule sample_queue)))
     = mset (tl sample_queue)"
proof -
  have "filter (\<lambda>t. qt_status t = Queued) sample_queue = tl sample_queue"
    by (simp add: sample_queue_def sample_task_def)
  with schedule_partitions_queued [OF sample_queue_unique] show ?thesis by simp
qed

section \<open>Batches\<close>

lemma subseq_set: "subseq ys xs \<Longrightarrow> set ys \<subseteq> set xs"
  by (induction rule: list_emb.induct) auto

text \<open>C6: A batch holds at most \<open>limit\<close> tasks, all ready, whose resource scopes are pairwise disjoint;
  and a ready task that a batch below the limit leaves out conflicts with a task of the batch.\<close>

theorem schedule_batch_disjoint_greedy:
  assumes "queued_unique ts" "schedule_batch limit ts = Inr b"
  shows "length b \<le> nat limit \<and> sorted_wrt scopes_disjoint b
    \<and> (\<forall>t \<in> set b. t \<in> set ts \<and> qt_status t = Queued \<and> deps_done ts t)
    \<and> (length b < nat limit \<longrightarrow> (\<forall>t \<in> set ts. qt_status t = Queued \<and> deps_done ts t \<and> t \<notin> set b
         \<longrightarrow> (\<exists>u \<in> set b. resource_scopes_conflict (scope t) (scope u))))"
proof -
  let ?r = "map tr_task (qs_ready (schedule ts))"
  have b: "1 \<le> limit" "b = batch_loop (nat limit) [] ?r" using schedule_batch_cases [OF assms(2)] by auto
  have "length b \<le> nat limit" using b batch_loop_length [of "[]" "nat limit" ?r] by simp
  moreover have "sorted_wrt scopes_disjoint b" using b batch_loop_disjoint [of "[]"] by simp
  moreover have "set b \<subseteq> set ?r"
    using batch_loop_prefix [of "nat limit" "[]" ?r] b subseq_set by fastforce
  ultimately show ?thesis
    using batch_loop_greedy [of "nat limit" "[]" ?r] b ready_set [OF assms(1)] by blast
qed

theorem schedule_batch_disjoint_greedy_witness:
  "schedule_batch 3 sample_queue = Inr [sample_queue ! 2, sample_queue ! 1]
   \<and> (\<exists>u \<in> set [sample_queue ! 2, sample_queue ! 1]. resource_scopes_conflict (scope (sample_queue ! 3)) (scope u))"
proof
  show b: "schedule_batch 3 sample_queue = Inr [sample_queue ! 2, sample_queue ! 1]" by code_simp
  have q: "sample_queue ! 3 \<in> set sample_queue" "qt_status (sample_queue ! 3) = Queued"
    "deps_done sample_queue (sample_queue ! 3)"
    "sample_queue ! 3 \<notin> set [sample_queue ! 2, sample_queue ! 1]"
    by (simp_all add: sample_queue_def sample_task_def sample_item_def placeholder_task_def deps_done_def)
  show "\<exists>u \<in> set [sample_queue ! 2, sample_queue ! 1]. resource_scopes_conflict (scope (sample_queue ! 3)) (scope u)"
    using schedule_batch_disjoint_greedy [OF sample_queue_unique b] q by simp
qed

section \<open>Downstream tasks\<close>

text \<open>\<open>downstream_tasks\<close> returns every task that depends on the given one, directly or through
  others, exactly once and without the task itself.\<close>

theorem downstream_is_transitive_closure:
  "distinct (map task_id (downstream_tasks w ts))
   \<and> set (map task_id (downstream_tasks w ts)) = (depends_rel (latest_tasks_by_id ts))\<^sup>* `` {w} - {w}
   \<and> set (downstream_tasks w ts) \<subseteq> snd ` set (latest_tasks_by_id ts)"
  by (rule downstream_tasks_correct)

end
