(* ===== verification/State_Props.thy ===== *)
theory State_Props imports State_Ops Scheduler_Props begin

text \<open>
  The properties of the durable store, each with a concrete instance.
\<close>

section \<open>A sample store\<close>

definition sample_store :: store where
  "sample_store = \<lparr>st_root = path_of ''/state'', st_queue = Content (JList (map task_to_json sample_queue)),
     st_logs = (\<lambda>_. Missing), st_offset = Missing, st_reports = [], st_clock = (\<lambda>n. ''2026-01-0'' @ str_nat n),
     st_ticks = 0, st_uuids = (\<lambda>n. ''id-'' @ str_nat n), st_drawn = 0, st_redact = (\<lambda>j. j),
     st_lock = None, st_budget = None, st_fault = ''disk full''\<rparr>"

definition sample_result :: "string option \<Rightarrow> harness_run_result" where
  "sample_result c = \<lparr>hr_repository = ''/repo'', hr_work_item_id = ''high'', hr_commit = c,
     hr_pre_apply = \<lparr>vr_ok = True, vr_findings = [], vr_metrics = []\<rparr>,
     hr_post_apply = \<lparr>vr_ok = True, vr_findings = [], vr_metrics = []\<rparr>,
     hr_command_results = [], hr_semantic_verification = None\<rparr>"

lemma sample_tasks: "list_tasks sample_store = Inr sample_queue"
  by (simp add: sample_store_def list_tasks_def read_json_def read_guard_def tasks_round_trip)

lemma sample_healthy: "healthy sample_store"
  by (simp add: healthy_def sample_store_def read_jsonl_def)

lemma sample_live: "live_last sample_queue"
  by (simp add: live_last_def sample_queue_def sample_task_def sample_item_def placeholder_task_def)

section \<open>The lifecycle\<close>

text \<open>C1: Whatever sequence of store commands runs, each with any fault, lease state or disk budget and
  each possibly raising half way, the queue changes only by steps of the task lifecycle, stays
  readable, and keeps at most one active entry per task id, which is the last entry of that id.\<close>

theorem store_refines_lifecycle:
  assumes "list_tasks s = Inr ts" "live_last ts" "store_step\<^sup>*\<^sup>* s t"
  shows "\<exists>ts'. list_tasks t = Inr ts' \<and> queue_step\<^sup>*\<^sup>* ts ts' \<and> live_last ts'"
  using store_steps_refine [OF assms(3)] assms(1,2) queue_steps_live_last
  unfolding queue_refines_def by blast

theorem store_refines_lifecycle_witness:
  "\<exists>t ts'. store_step sample_store t \<and> list_tasks t = Inr ts' \<and> live_last ts'
     \<and> map qt_status ts' = [Done, Queued, Running, Queued, Queued]"
proof -
  obtain r t where run: "run_command (Claim_Next None) (with_faults None (Some 1) sample_store) = (r, t)"
    by fastforce
  then have step: "store_step sample_store t" by (rule store_step.command)
  then obtain ts' where ts': "list_tasks t = Inr ts'" "live_last ts'"
    using store_refines_lifecycle [OF sample_tasks sample_live] by blast
  have "(case run_command (Claim_Next None) (with_faults None (Some 1) sample_store) of
      (r, t) \<Rightarrow> rbind (list_tasks t) (\<lambda>ts. Inr (map qt_status ts)))
      = Inr [Done, Queued, Running, Queued, Queued]" by code_simp
  then have "map qt_status ts' = [Done, Queued, Running, Queued, Queued]" using run ts'(1) by simp
  with step ts' show ?thesis by (intro exI [of _ t] exI [of _ ts'] conjI)
qed

text \<open>No store command ever rewrites or drops an entry of the run history, of the evidence logs or
  of the journal, moves the Telegram offset backwards, or makes an unreadable log readable.\<close>

theorem store_logs_append_only:
  assumes "store_step\<^sup>*\<^sup>* s t"
  shows "log_grows (st_logs s l) (st_logs t l)
    \<and> (telegram_update_offset s = Inr (Some n) \<longrightarrow> (\<exists>m. n \<le> m \<and> telegram_update_offset t = Inr (Some m)))"
  using store_steps_evolve [OF assms] by (simp add: evolves_def offset_le_def)

theorem store_logs_append_only_witness:
  "\<exists>t. store_step sample_store t \<and> log_grows (st_logs sample_store History) (st_logs t History)
     \<and> log_entries (st_logs t History) \<noteq> []"
proof -
  obtain r t where run: "run_command (Record_Failure ''high'' ''t0'' ''boom'') (with_faults None None sample_store) = (r, t)"
    by fastforce
  then have step: "store_step sample_store t" by (rule store_step.command)
  have "(case run_command (Record_Failure ''high'' ''t0'' ''boom'') (with_faults None None sample_store) of
      (r, t) \<Rightarrow> log_entries (st_logs t History) \<noteq> [])" by code_simp
  with run have "log_entries (st_logs t History) \<noteq> []" by simp
  moreover have "store_step\<^sup>*\<^sup>* sample_store t" using step by (rule r_into_rtranclp)
  then have "log_grows (st_logs sample_store History) (st_logs t History)"
    using store_logs_append_only by blast
  ultimately show ?thesis using step by (intro exI [of _ t] conjI)
qed

section \<open>Claiming work\<close>

text \<open>A task starts exactly when it is queued and all its dependencies are done; then its attempt
  counter grows by one and nothing else in the queue changes.  In every other case
  \<open>mark_running\<close> raises \<open>StateStoreError\<close> and the store is untouched.\<close>

theorem mark_running_exact:
  assumes "healthy s" "list_tasks s = Inr ts" "last_index (\<lambda>t. task_id t = wid) ts = Some i" "live_last ts"
  shows "if qt_status (ts ! i) = Queued \<and> deps_done ts (ts ! i)
    then \<exists>u s'. mark_running wid s = (Inr u, s') \<and> started_task (ts ! i) u
      \<and> list_tasks s' = Inr (ts[i := u]) \<and> healthy s'
    else \<exists>m. mark_running wid s = (Inl (StateStoreError m), s)"
  using assms by (rule mark_running_healthy)

theorem mark_running_exact_witness:
  "(\<exists>u s'. mark_running ''high'' sample_store = (Inr u, s') \<and> qt_attempts u = 1)
   \<and> (\<exists>m. mark_running ''late'' sample_store = (Inl (StateStoreError m), sample_store))"
proof
  have "last_index (\<lambda>t. task_id t = ''high'') sample_queue = Some 2" by code_simp
  moreover have "deps_done sample_queue (sample_queue ! 2)" "qt_status (sample_queue ! 2) = Queued"
    "qt_attempts (sample_queue ! 2) = 0"
    by (simp_all add: sample_queue_def sample_task_def sample_item_def placeholder_task_def deps_done_def
        latest_tasks_by_id_def)
  ultimately show "\<exists>u s'. mark_running ''high'' sample_store = (Inr u, s') \<and> qt_attempts u = 1"
    using mark_running_exact [OF sample_healthy sample_tasks _ sample_live, of "''high''" 2]
    by (auto simp: started_task_def)
  have "last_index (\<lambda>t. task_id t = ''late'') sample_queue = Some 4" by code_simp
  moreover have "\<not> deps_done sample_queue (sample_queue ! 4)"
    by (simp add: sample_queue_def sample_task_def sample_item_def placeholder_task_def deps_done_def
        latest_tasks_by_id_def)
  ultimately show "\<exists>m. mark_running ''late'' sample_store = (Inl (StateStoreError m), sample_store)"
    using mark_running_exact [OF sample_healthy sample_tasks _ sample_live, of "''late''" 4] by simp
qed

text \<open>C7: \<open>claim_next\<close> starts the task the scheduler selects unless it has used up the attempt limit;
  such a task is escalated and the claim raises, so under a limit \<open>n\<close> no task ever starts for the
  \<open>n + 1\<close>st time.\<close>

theorem claim_next_respects_limit:
  assumes "healthy s" "list_tasks s = Inr ts" "live_last ts"
  shows "case qs_selected (schedule ts) of
      None \<Rightarrow> claim_next m s = (Inr None, s)
    | Some t \<Rightarrow> \<exists>i < length ts. ts ! i = t \<and> qt_status t = Queued \<and> deps_done ts t \<and>
        (if (\<exists>n. m = Some n \<and> n \<le> qt_attempts t)
         then \<exists>x u s'. claim_next m s = (Inl (StateStoreError x), s') \<and> qt_status u = Escalated
           \<and> task_id u = task_id t \<and> list_tasks s' = Inr (ts[i := u])
         else \<exists>u s'. claim_next m s = (Inr (Some u), s') \<and> started_task t u \<and> list_tasks s' = Inr (ts[i := u]))"
  using assms by (rule claim_next_healthy)

theorem claim_next_respects_limit_witness:
  "\<exists>x s' ts'. claim_next (Some 0) sample_store = (Inl (StateStoreError x), s') \<and> list_tasks s' = Inr ts'"
proof -
  have "qt_attempts (sample_queue ! 2) = 0"
    by (simp add: sample_queue_def sample_task_def placeholder_task_def)
  then show ?thesis
    using claim_next_respects_limit [OF sample_healthy sample_tasks sample_live, of "Some 0"]
    unfolding sample_selected by (auto split: if_splits)
qed

section \<open>Reviews\<close>

text \<open>A critic decision is applied exactly when the task is waiting for a review of that very bundle
  and the decision is one of the three known ones; it moves the task to done, rework or escalated,
  records the decision id and releases the bundle.  Otherwise the store is untouched.\<close>

theorem resolve_review_exact:
  assumes "healthy s" "list_tasks s = Inr ts" "live_last ts" "last_index (\<lambda>t. task_id t = wid) ts = Some i"
  shows "if qt_status (ts ! i) = Review_Pending \<and> qt_pending_review_bundle_id (ts ! i) = Some b
      \<and> decision \<in> {''approve'', ''reject'', ''escalate''}
    then \<exists>u s'. resolve_review wid b d decision summary s = (Inr u, s') \<and> task_id u = wid
      \<and> qt_status u = (if decision = ''approve'' then Done else if decision = ''reject'' then Rework_Required else Escalated)
      \<and> qt_last_error u = (if decision = ''approve'' then None else Some summary)
      \<and> qt_last_review_decision_id u = Some d \<and> qt_pending_review_bundle_id u = None
      \<and> list_tasks s' = Inr (ts[i := u])
    else \<exists>m. resolve_review wid b d decision summary s = (Inl (StateStoreError m), s)"
  using assms by (rule resolve_review_healthy)

definition reviewed_queue :: "queue_task list" where
  "reviewed_queue = [(sample_task ''a'' 0 [] [''src''] Review_Pending)\<lparr>qt_pending_review_bundle_id := Some ''B''\<rparr>]"

definition queue_store :: "queue_task list \<Rightarrow> store" where
  "queue_store ts = sample_store\<lparr>st_queue := Content (JList (map task_to_json ts))\<rparr>"

lemma queue_store_tasks: "list_tasks (queue_store ts) = Inr ts"
  by (simp add: queue_store_def)

lemma queue_store_healthy: "healthy (queue_store ts)"
  using sample_healthy by (simp add: queue_store_def healthy_def)

theorem resolve_review_exact_witness:
  "\<exists>u s'. resolve_review ''a'' ''B'' ''D1'' ''reject'' ''tests missing'' (queue_store reviewed_queue) = (Inr u, s')
     \<and> qt_status u = Rework_Required"
proof -
  have "live_last reviewed_queue" by (simp add: reviewed_queue_def live_last_def)
  moreover have "last_index (\<lambda>t. task_id t = ''a'') reviewed_queue = Some 0" by code_simp
  ultimately show ?thesis
    using resolve_review_exact [OF queue_store_healthy queue_store_tasks, of reviewed_queue "''a''" 0 "''B''" "''reject''" "''D1''"
        "''tests missing''"]
    by (auto simp: reviewed_queue_def sample_task_def)
qed

text \<open>Confirmed rework of the task the named decision sent back returns it to the queue with exactly
  the confirmed instructions, unless its attempts are used up: then it is escalated and its work
  item is left alone.\<close>

theorem confirm_rework_outcome:
  assumes "healthy s" "list_tasks s = Inr ts" "live_last ts" "last_index (\<lambda>t. task_id t = wid) ts = Some i"
    and "qt_status (ts ! i) = Rework_Required" "qt_last_review_decision_id (ts ! i) = Some d"
    and "is \<noteq> []" "\<forall>x \<in> set is. strip x \<noteq> []" "1 \<le> n"
  shows "\<exists>u s'. confirm_rework wid d is n s = (Inr u, s') \<and> list_tasks s' = Inr (ts[i := u]) \<and> task_id u = wid
    \<and> qt_attempts u = qt_attempts (ts ! i)
    \<and> (if qt_attempts (ts ! i) < n
       then qt_status u = Queued \<and> wi_correction_instructions (qt_work_item u) = is
         \<and> wi_correction_decision_id (qt_work_item u) = Some d \<and> qt_pending_review_bundle_id u = None
       else qt_status u = Escalated \<and> qt_work_item u = qt_work_item (ts ! i))"
  using assms by (rule confirm_rework_healthy)

theorem confirm_rework_outcome_witness:
  "\<exists>u s'. confirm_rework ''a'' ''D1'' [''add a test''] 3
       (queue_store [(sample_task ''a'' 0 [] [''src''] Rework_Required)\<lparr>qt_last_review_decision_id := Some ''D1''\<rparr>]) = (Inr u, s')
     \<and> wi_correction_instructions (qt_work_item u) = [''add a test'']"
proof -
  let ?q = "[(sample_task ''a'' 0 [] [''src''] Rework_Required)\<lparr>qt_last_review_decision_id := Some ''D1''\<rparr>]"
  have "live_last ?q" by (simp add: live_last_def)
  moreover have "last_index (\<lambda>t. task_id t = ''a'') ?q = Some 0" by code_simp
  moreover have "strip ''add a test'' \<noteq> []" by code_simp
  ultimately show ?thesis
    using confirm_rework_outcome [OF queue_store_healthy queue_store_tasks, of ?q "''a''" 0 "''D1''" "[''add a test'']" 3]
    by (auto simp: sample_task_def placeholder_task_def)
qed

end
