(* ===== verification/Jobs.thy ===== *)
theory Jobs imports Domain "HOL-Library.AList" begin

text \<open>
  Worker trust (\<open>trust.py\<close>), execution targets (\<open>targets.py\<close>) and the in-memory job store
  (\<open>jobs.py\<close>).  The store's two dictionaries are association lists in insertion order; what
  \<open>uuid4()\<close> and the clock return is an argument of \<open>create\<close>.
\<close>

section \<open>Trust\<close>

datatype worker_trust_level = PATCH_ONLY | BRANCH_ONLY | BRANCH_AND_COMMIT

fun trust_value :: "worker_trust_level \<Rightarrow> string" where
  "trust_value PATCH_ONLY = ''patch_only''"
| "trust_value BRANCH_ONLY = ''branch_only''"
| "trust_value BRANCH_AND_COMMIT = ''branch_and_commit''"

definition implemented_worker_trust_levels :: "worker_trust_level list" where
  "implemented_worker_trust_levels = [PATCH_ONLY]"

definition requires_patch_output :: "worker_trust_level \<Rightarrow> bool" where
  "requires_patch_output l \<longleftrightarrow> l \<in> {PATCH_ONLY, BRANCH_ONLY}"

definition can_create_branch :: "worker_trust_level \<Rightarrow> bool" where
  "can_create_branch l \<longleftrightarrow> l \<in> {BRANCH_ONLY, BRANCH_AND_COMMIT}"

definition can_commit :: "worker_trust_level \<Rightarrow> bool" where
  "can_commit l \<longleftrightarrow> l = BRANCH_AND_COMMIT"

definition supervisor_must_commit :: "worker_trust_level \<Rightarrow> bool" where
  "supervisor_must_commit l \<longleftrightarrow> \<not> can_commit l"

definition parse_worker_trust_level :: "string \<Rightarrow> worker_trust_level res" where
  "parse_worker_trust_level value =
     (case List.find (\<lambda>l. trust_value l = value) [PATCH_ONLY, BRANCH_ONLY, BRANCH_AND_COMMIT] of
        None \<Rightarrow> Inl (ValueError (''Unknown worker trust level '' @ [CHR 0x27] @ value @ [CHR 0x27]
          @ ''. Allowed values: '' @ join '', '' (map trust_value [PATCH_ONLY, BRANCH_ONLY, BRANCH_AND_COMMIT])))
      | Some level \<Rightarrow>
          if level \<notin> set implemented_worker_trust_levels
          then Inl (ValueError (''Worker trust level '' @ [CHR 0x27] @ trust_value level @ [CHR 0x27]
            @ '' is not supported in this release. ''
            @ ''HoH grants the Worker no Git authority at all: it works in a disposable worktree ''
            @ ''and returns a patch. Use '' @ [CHR 0x27] @ trust_value PATCH_ONLY @ [CHR 0x27] @ ''.''))
          else Inr level)"

section \<open>Targets\<close>

datatype execution_target =
    LocalAgentTarget (target_name: string) (target_command: string) (target_args: "string list")
      (target_environment: "(string \<times> string) list")
  | LocalModelEndpointTarget (target_name: string) (target_base_url: string) (target_model: string)
      (target_protocol: string)

definition target_type :: "execution_target \<Rightarrow> string" where
  "target_type t = (case t of
     LocalAgentTarget _ _ _ _ \<Rightarrow> ''local_agent''
   | LocalModelEndpointTarget _ _ _ _ \<Rightarrow> ''local_model_endpoint'')"

section \<open>The job store\<close>

datatype job_status = CREATED | DISPATCHED | COMPLETED | FAILED

record worker_job =
  wj_id :: string
  wj_work_item :: work_item
  wj_target :: execution_target
  wj_callback_token :: string
  wj_status :: job_status
  wj_created_at_utc :: string

record worker_completion =
  wc_job_id :: string
  wc_callback_token :: string
  wc_patch :: "worker_patch option"
  wc_error :: "string option"
  wc_error_kind :: "string option"
  wc_retryable :: bool

record job_store =
  js_jobs :: "(string \<times> worker_job) list"
  js_completions :: "(string \<times> worker_completion) list"

definition empty_job_store :: job_store where
  "empty_job_store = \<lparr>js_jobs = [], js_completions = []\<rparr>"

definition job_create ::
  "string \<Rightarrow> string \<Rightarrow> string \<Rightarrow> work_item \<Rightarrow> execution_target \<Rightarrow> (job_store, worker_job) op" where
  "job_create uuid token now wi target = (\<lambda>s.
     let job = \<lparr>wj_id = uuid, wj_work_item = wi, wj_target = target, wj_callback_token = token,
                wj_status = CREATED, wj_created_at_utc = now\<rparr>
     in (Inr job, s\<lparr>js_jobs := AList.update (wj_id job) job (js_jobs s)\<rparr>))"

definition job_get :: "string \<Rightarrow> (job_store, worker_job) op" where
  "job_get jid = gets (\<lambda>s. case map_of (js_jobs s) jid of
     None \<Rightarrow> Inl (KeyError (''Unknown worker job: '' @ jid)) | Some j \<Rightarrow> Inr j)"

definition mark_dispatched :: "string \<Rightarrow> (job_store, worker_job) op" where
  "mark_dispatched jid = mbind (job_get jid) (\<lambda>job s.
     let dispatched = job\<lparr>wj_status := DISPATCHED\<rparr>
     in (Inr dispatched, s\<lparr>js_jobs := AList.update jid dispatched (js_jobs s)\<rparr>))"

text \<open>\<open>if completion.error\<close>: an empty error text counts as no error.\<close>

definition has_error :: "worker_completion \<Rightarrow> bool" where
  "has_error c \<longleftrightarrow> (case wc_error c of None \<Rightarrow> False | Some e \<Rightarrow> e \<noteq> [])"

definition job_complete :: "worker_completion \<Rightarrow> (job_store, worker_job) op" where
  "job_complete c = mbind (job_get (wc_job_id c)) (\<lambda>job.
     mseq (require (wc_callback_token c = wj_callback_token job) (ValueError ''Invalid callback token.''))
     (\<lambda>s. let status = (if has_error c then FAILED else COMPLETED);
              completed = job\<lparr>wj_status := status\<rparr>
          in (Inr completed,
              s\<lparr>js_jobs := AList.update (wj_id job) completed (js_jobs s),
                js_completions := AList.update (wj_id job) c (js_completions s)\<rparr>)))"

definition completion_for :: "string \<Rightarrow> job_store \<Rightarrow> worker_completion option" where
  "completion_for jid s = map_of (js_completions s) jid"

definition completions :: "job_store \<Rightarrow> worker_completion list" where
  "completions s = map snd (js_completions s)"

section \<open>Invariant and frame\<close>

text \<open>The key a job is stored under is its id; a completion belongs to a job whose token it carries.\<close>

definition jobs_wf :: "job_store \<Rightarrow> bool" where
  "jobs_wf s \<longleftrightarrow>
     (\<forall>k j. map_of (js_jobs s) k = Some j \<longrightarrow> wj_id j = k) \<and>
     (\<forall>k c. map_of (js_completions s) k = Some c \<longrightarrow>
        (\<exists>j. map_of (js_jobs s) k = Some j \<and> wc_callback_token c = wj_callback_token j
           \<and> wc_job_id c = k))"

text \<open>What a job was created with never changes, and no job disappears.\<close>

definition job_identity :: "worker_job \<Rightarrow> string \<times> work_item \<times> execution_target \<times> string \<times> string" where
  "job_identity j = (wj_id j, wj_work_item j, wj_target j, wj_callback_token j, wj_created_at_utc j)"

definition jobs_stable :: "job_store \<Rightarrow> job_store \<Rightarrow> bool" where
  "jobs_stable s t \<longleftrightarrow>
     (\<forall>k j. map_of (js_jobs s) k = Some j \<longrightarrow>
        (\<exists>j'. map_of (js_jobs t) k = Some j' \<and> job_identity j' = job_identity j))"

interpretation stable: effect jobs_stable
proof
  show "jobs_stable s s" for s by (simp add: jobs_stable_def)
  show "jobs_stable s t \<Longrightarrow> jobs_stable t u \<Longrightarrow> jobs_stable s u" for s t u
    unfolding jobs_stable_def by metis
qed

lemma mark_dispatched_stable: "within jobs_stable (mark_dispatched jid)"
  by (auto simp: within_def mark_dispatched_def job_get_def jobs_stable_def job_identity_def
        update_conv' Let_def split: option.splits)

lemma job_complete_stable:
  "jobs_wf s \<Longrightarrow> job_complete c s = (r, s') \<Longrightarrow> jobs_stable s s'"
  by (auto simp: job_complete_def job_get_def jobs_stable_def job_identity_def jobs_wf_def
        update_conv' Let_def split: option.splits if_splits)

lemma jobs_wf_update_job:
  assumes "jobs_wf s" "wj_id j = k"
    and "\<And>j0. map_of (js_jobs s) k = Some j0 \<Longrightarrow> wj_callback_token j = wj_callback_token j0"
  shows "jobs_wf (s\<lparr>js_jobs := AList.update k j (js_jobs s)\<rparr>)"
  using assms by (fastforce simp: jobs_wf_def update_conv')

lemma jobs_wf_update_completion:
  assumes "jobs_wf s" "map_of (js_jobs s) k = Some j"
    and "wc_callback_token c = wj_callback_token j" "wc_job_id c = k"
  shows "jobs_wf (s\<lparr>js_completions := AList.update k c (js_completions s)\<rparr>)"
  using assms by (fastforce simp: jobs_wf_def update_conv')

lemma jobs_wf_keyed: "jobs_wf s \<Longrightarrow> map_of (js_jobs s) k = Some j \<Longrightarrow> wj_id j = k"
  by (simp add: jobs_wf_def)

lemma job_create_wf:
  "jobs_wf s \<Longrightarrow> map_of (js_jobs s) uuid = None \<Longrightarrow> jobs_wf (snd (job_create uuid tok now wi t s))"
  by (auto simp: job_create_def Let_def intro!: jobs_wf_update_job)

lemma mark_dispatched_wf: "jobs_wf s \<Longrightarrow> mark_dispatched jid s = (r, s') \<Longrightarrow> jobs_wf s'"
  by (auto simp: mark_dispatched_def job_get_def Let_def jobs_wf_keyed
        intro!: jobs_wf_update_job split: option.splits)

lemma job_complete_wf:
  assumes wf: "jobs_wf s" and run: "job_complete c s = (r, s')"
  shows "jobs_wf s'"
proof (cases "\<exists>j. map_of (js_jobs s) (wc_job_id c) = Some j \<and> wc_callback_token c = wj_callback_token j")
  case False
  with run have "s' = s" by (auto simp: job_complete_def job_get_def split: option.splits if_splits)
  with wf show ?thesis by simp
next
  case True
  then obtain j where j: "map_of (js_jobs s) (wc_job_id c) = Some j"
    and tok: "wc_callback_token c = wj_callback_token j" by blast
  let ?j' = "j\<lparr>wj_status := if has_error c then FAILED else COMPLETED\<rparr>"
  let ?s1 = "s\<lparr>js_jobs := AList.update (wc_job_id c) ?j' (js_jobs s)\<rparr>"
  have id: "wj_id j = wc_job_id c" using wf j by (rule jobs_wf_keyed)
  have "jobs_wf ?s1" using wf j id by (auto intro: jobs_wf_update_job)
  then have "jobs_wf (?s1\<lparr>js_completions := AList.update (wc_job_id c) c (js_completions ?s1)\<rparr>)"
    using tok by (intro jobs_wf_update_completion [where j = ?j']) (auto simp: update_conv')
  with run j tok id show ?thesis
    by (auto simp: job_complete_def job_get_def Let_def)
qed

lemma job_complete_token:
  "job_complete c s = (Inr j, s') \<Longrightarrow>
     \<exists>j0. map_of (js_jobs s) (wc_job_id c) = Some j0 \<and> wc_callback_token c = wj_callback_token j0
        \<and> j = j0\<lparr>wj_status := if has_error c then FAILED else COMPLETED\<rparr>"
  by (auto simp: job_complete_def job_get_def Let_def split: option.splits if_splits)

lemma job_complete_raise_unchanged: "job_complete c s = (Inl e, s') \<Longrightarrow> s' = s"
  by (auto simp: job_complete_def job_get_def Let_def split: option.splits if_splits)

end
