(* ===== verification/Recovery_Props.thy ===== *)
theory Recovery_Props imports State_Props Jobs begin

text \<open>
  The properties of interruption and replay, of the evidence logs, of the stored forms and of the
  worker jobs, each with a concrete instance.
\<close>

section \<open>Interrupted runs\<close>


definition running_queue :: "queue_task list" where
  "running_queue = [sample_task ''a'' 0 [] [''src''] Running]"

lemma running_queue_facts:
  "last_index (\<lambda>t. task_id t = ''a'') running_queue = Some 0" "qt_status (running_queue ! 0) = Running"
  by (simp_all add: running_queue_def sample_task_def last_index_def sample_item_def placeholder_task_def)

lemma queue_store_facts:
  "st_lock (queue_store ts) = None" "read_jsonl (st_logs (queue_store ts) l) = Inr []"
  "history (queue_store ts) = Inr []"
  by (simp_all add: queue_store_def sample_store_def history_def read_jsonl_def read_guard_def)

text \<open>An instance with the disk full after the queue was written: the first call fails, the second one
  finds the task done and completes the history.\<close>

definition tight_store :: "nat \<Rightarrow> store" where
  "tight_store n = (queue_store running_queue)\<lparr>st_budget := Some n\<rparr>"

lemma tight_store_facts:
  "st_lock (tight_store n) = None" "read_jsonl (st_logs (tight_store n) l) = Inr []"
  "history (tight_store n) = Inr []" "list_tasks (tight_store n) = Inr running_queue"
  using queue_store_facts [of running_queue] queue_store_tasks [of running_queue]
  by (simp_all add: tight_store_def history_def list_tasks_def)


text \<open>A replay after an interruption between the queue and the history is refused when it reports
  the commit under another name than the first call did (an abbreviated and a full object id are
  different strings): the run then never reaches the history.\<close>

theorem replay_with_other_commit_fails:
  assumes "st_lock s = None" "history s = Inr hs" "rid \<noteq> []" "rid \<notin> rr_run_id ` set hs"
    and "list_tasks s = Inr ts" "last_index (\<lambda>t. task_id t = wid) ts = Some i"
    and "shows_result r e rq (ts ! i)" "hr_commit r' \<noteq> hr_commit r"
    and "record_result wid started r' e' rq' (Some rid) s = (res, s')"
  shows "(\<exists>m. res = Inl (StateStoreError m)) \<and> list_tasks s' = Inr ts \<and> history s' = Inr hs"
  using assms by (rule replay_other_commit)

definition half_recorded :: "queue_task list" where
  "half_recorded = [(sample_task ''a'' 0 [] [''src''] Done)\<lparr>qt_last_commit := Some ''abc1234''\<rparr>]"

theorem replay_with_other_commit_fails_witness:
  "\<exists>m s'. record_result ''a'' ''t0'' (sample_result (Some ''abc1234def'')) None False (Some ''run-1'')
     (queue_store half_recorded) = (Inl (StateStoreError m), s') \<and> history s' = Inr []"
proof -
  have i: "last_index (\<lambda>t. task_id t = ''a'') half_recorded = Some 0"
    by (simp add: half_recorded_def sample_task_def last_index_def sample_item_def placeholder_task_def)
  have sh: "shows_result (sample_result (Some ''abc1234'')) None False (half_recorded ! 0)"
    by (simp add: shows_result_def half_recorded_def sample_result_def sample_task_def placeholder_task_def
        result_status_def run_ok_def result_error_def or_option_def)
  obtain res s' where run: "record_result ''a'' ''t0'' (sample_result (Some ''abc1234def'')) None False (Some ''run-1'')
      (queue_store half_recorded) = (res, s')" by fastforce
  have "(\<exists>m. res = Inl (StateStoreError m)) \<and> history s' = Inr []"
    using replay_with_other_commit_fails [OF queue_store_facts(1) queue_store_facts(3) _ _ queue_store_tasks i sh _ run]
    by (auto simp: sample_result_def)
  with run show ?thesis by auto
qed

section \<open>Evidence logs\<close>


definition sample_decision :: "string \<Rightarrow> string \<Rightarrow> string \<Rightarrow> review_decision_record" where
  "sample_decision i b d = \<lparr>rd_decision_id = i, rd_bundle_id = b, rd_bundle_sha256 = ''00'', rd_run_id = ''r'',
     rd_work_item_id = ''a'', rd_commit = ''c'', rd_reviewer_id = ''critic'', rd_reviewer_kind = ''model'',
     rd_decision = d, rd_summary = ''s'', rd_findings = [], rd_created_at_utc = ''t'', rd_imported_at_utc = ''t'',
     rd_protocol_version = ''1.0'', rd_correction_brief = None, rd_escalation = None\<rparr>"

definition decided_store :: store where
  "decided_store = sample_store\<lparr>st_logs := (\<lambda>_. Missing)(Decisions :=
     Content [review_decision_record_to_json (sample_decision ''D1'' ''B'' ''approve'')])\<rparr>"

lemma decided_store_decisions: "review_decisions decided_store = Inr [sample_decision ''D1'' ''B'' ''approve'']"
  by (simp add: review_decisions_def decided_store_def read_jsonl_def review_decision_round_trip
      sample_decision_def decision_values_def)


text \<open>A rollback record is written once: repeating the call returns the recorded one and leaves the
  store as it is, and another record under the same id is refused without any effect.\<close>

theorem rollback_record_immutable:
  assumes "rollback_records s = Inr rs" "distinct (map rb_rollback_id rs)" "q \<in> set rs"
    and "rb_rollback_id q = rb_rollback_id r" "st_lock s = None"
  shows "(q = r \<and> record_rollback r s = (Inr r, s)) \<or> (q \<noteq> r \<and> (\<exists>m. record_rollback r s = (Inl (StateStoreError m), s)))"
  using rollback_log.put_same [OF assms(1,2)] rollback_log.put_clash [OF assms(1-4)] assms(3,5) by blast

definition sample_rollback :: "string \<Rightarrow> rollback_record" where
  "sample_rollback reason = \<lparr>rb_rollback_id = ''R1'', rb_created_at_utc = ''t'', rb_work_item_id = ''a'',
     rb_run_id = ''run-1'', rb_target_commit = ''c0'', rb_rollback_commit = Some ''c1'', rb_reason = reason,
     rb_ok = True, rb_changed_files = [''src/a''], rb_command_results = [], rb_error = None\<rparr>"

definition rolled_store :: store where
  "rolled_store = sample_store\<lparr>st_logs := (\<lambda>_. Missing)(Rollbacks :=
     Content [rollback_record_to_json (sample_rollback ''broken'')])\<rparr>"

theorem rollback_record_immutable_witness:
  "record_rollback (sample_rollback ''broken'') rolled_store = (Inr (sample_rollback ''broken''), rolled_store)
   \<and> (\<exists>m. record_rollback (sample_rollback ''other'') rolled_store = (Inl (StateStoreError m), rolled_store))"
proof -
  have rs: "rollback_records rolled_store = Inr [sample_rollback ''broken'']"
    by (simp add: rollback_records_def rolled_store_def read_jsonl_def)
  have l: "st_lock rolled_store = None" by (simp add: rolled_store_def sample_store_def)
  have d: "distinct (map rb_rollback_id [sample_rollback ''broken''])" by simp
  have neq: "sample_rollback ''broken'' \<noteq> sample_rollback ''other''" by (simp add: sample_rollback_def)
  show ?thesis
    using rollback_record_immutable [OF rs d _ _ l, of "sample_rollback ''broken''" "sample_rollback ''broken''"]
      rollback_record_immutable [OF rs d _ _ l, of "sample_rollback ''broken''" "sample_rollback ''other''"] neq
    by (simp add: sample_rollback_def)
qed

text \<open>A review bundle is recorded once and never changes; every successful call leaves it in the log,
  and bundle ids stay unique, also when the call fails half way.\<close>

theorem review_bundles_unique:
  assumes "bundle_storable r" "review_bundles s = Inr rs" "distinct (map bb_bundle_id rs)"
    and "record_review_bundle r s = (res, s')" "st_lock s' = None"
  shows "(\<exists>rs'. review_bundles s' = Inr rs' \<and> prefix rs rs' \<and> distinct (map bb_bundle_id rs'))
    \<and> (\<forall>x. res = Inr x \<longrightarrow> x = r \<and> record_review_bundle r s' = (Inr r, s'))"
  using bundle_log.keys_stay_unique [OF assms(4,1,2,3)] bundle_log.put_again [of r s _ s' rs]
    bundle_log.put_ok [of r s _ s' rs] assms by blast

definition sample_bundle :: review_bundle_record where
  "sample_bundle = \<lparr>bb_bundle_id = ''B'', bb_created_at_utc = ''t'', bb_run_id = ''run-1'', bb_work_item_id = ''a'',
     bb_commit = ''c1'', bb_bundle_sha256 = ''00'', bb_bundle_path = path_of ''/state/review-bundles/B.json''\<rparr>"

theorem review_bundles_unique_witness:
  "\<exists>s'. record_review_bundle sample_bundle sample_store = (Inr sample_bundle, s')
     \<and> record_review_bundle sample_bundle s' = (Inr sample_bundle, s')"
proof -
  obtain res s' where run: "record_review_bundle sample_bundle sample_store = (res, s')" by fastforce
  have "case record_review_bundle sample_bundle sample_store of (Inr x, s) \<Rightarrow> st_lock s = None | _ \<Rightarrow> False"
    by code_simp
  then obtain x where x: "res = Inr x" "st_lock s' = None" using run by (auto split: sum.splits)
  have st: "bundle_storable sample_bundle" by code_simp
  have rs: "review_bundles sample_store = Inr []"
    by (simp add: review_bundles_def sample_store_def read_jsonl_def)
  have "x = sample_bundle \<and> record_review_bundle sample_bundle s' = (Inr sample_bundle, s')"
    using review_bundles_unique [OF st rs _ run x(2)] x(1) by simp
  with run x show ?thesis by auto
qed

section \<open>Stored forms\<close>

text \<open>Whatever tasks are written to the queue file are read back unchanged, and so are run records
  (with a valid semantic verdict), rollback records, operator events and review decisions.\<close>

theorem state_round_trips:
  "mapE task_from_json (map task_to_json ts) = Inr ts
   \<and> (semantic_wf (rr_semantic_verification run) \<longrightarrow> run_from_json (run_to_json run) = Inr run)
   \<and> rollback_record_from_json (rollback_record_to_json rb) = Inr rb
   \<and> operator_event_from_json (operator_event_to_json ev) = Inr ev
   \<and> (rd_decision d \<in> set decision_values \<longrightarrow>
        review_decision_record_from_json (review_decision_record_to_json d) = Inr d)"
  by (simp add: tasks_round_trip run_round_trip review_decision_round_trip)

theorem state_round_trips_witness:
  "review_decision_record_from_json (review_decision_record_to_json (sample_decision ''D1'' ''B'' ''approve''))
     = Inr (sample_decision ''D1'' ''B'' ''approve'')"
  using state_round_trips by (auto simp: sample_decision_def decision_values_def)

text \<open>A report or bundle path below the state root (or any other absolute path) survives being stored
  relative to the root.\<close>

theorem stored_paths_round_trip:
  assumes "path_wf (bb_bundle_path b)" "is_absolute (bb_bundle_path b)"
    and "path_wf (ar_report_path a)" "is_absolute (ar_report_path a)"
  shows "review_bundle_record_from_json (review_bundle_record_to_json b root) root = Inr b
    \<and> audit_record_from_json (audit_record_to_json a root) root = Inr a"
  using review_bundle_round_trip [OF assms(1,2)] audit_record_round_trip [OF assms(3,4)] by blast

theorem stored_paths_round_trip_witness:
  "review_bundle_record_from_json (review_bundle_record_to_json sample_bundle (path_of ''/state'')) (path_of ''/state'')
     = Inr sample_bundle"
proof -
  have "path_wf (bb_bundle_path sample_bundle) \<and> is_absolute (bb_bundle_path sample_bundle)" by code_simp
  then show ?thesis
    using stored_paths_round_trip [of sample_bundle "\<lparr>ar_audit_id = [], ar_created_at_utc = [], ar_ok = True,
        ar_report_path = bb_bundle_path sample_bundle, ar_findings_count = 0, ar_command_results_count = 0\<rparr>"]
    by simp
qed

section \<open>Worker jobs\<close>

text \<open>A completion is accepted only with the callback token of the job it names, it changes nothing of
  a job but its status, and a refused completion leaves the job store as it was.\<close>

theorem job_completion_guarded:
  assumes "jobs_wf s" "job_complete c s = (r, s')"
  shows "jobs_wf s' \<and> jobs_stable s s' \<and>
    (case r of
       Inl e \<Rightarrow> s' = s
     | Inr j \<Rightarrow> \<exists>j0. map_of (js_jobs s) (wc_job_id c) = Some j0 \<and> wc_callback_token c = wj_callback_token j0
         \<and> j = j0\<lparr>wj_status := if has_error c then FAILED else COMPLETED\<rparr>)"
  using job_complete_wf [OF assms] job_complete_stable [OF assms] assms(2)
    job_complete_raise_unchanged [of c s] job_complete_token [of c s]
  by (cases r) auto

definition sample_jobs :: job_store where
  "sample_jobs = snd (job_create ''J1'' ''tok'' ''t0'' (sample_item ''a'' 0 [] []) (LocalAgentTarget ''n'' ''cmd'' [] []) empty_job_store)"

definition sample_completion :: "string \<Rightarrow> worker_completion" where
  "sample_completion tok = \<lparr>wc_job_id = ''J1'', wc_callback_token = tok, wc_patch = None, wc_error = None,
     wc_error_kind = None, wc_retryable = False\<rparr>"

theorem job_completion_guarded_witness:
  "\<exists>e. job_complete (sample_completion ''forged'') sample_jobs = (Inl e, sample_jobs)"
proof -
  obtain r s' where run: "job_complete (sample_completion ''forged'') sample_jobs = (r, s')" by fastforce
  have wf: "jobs_wf sample_jobs"
    unfolding sample_jobs_def by (rule job_create_wf) (simp_all add: jobs_wf_def empty_job_store_def)
  have "map_of (js_jobs sample_jobs) ''J1'' \<noteq> None" by code_simp
  moreover have "\<forall>j. map_of (js_jobs sample_jobs) ''J1'' = Some j \<longrightarrow> wj_callback_token j = ''tok''"
    by (simp add: sample_jobs_def job_create_def empty_job_store_def Let_def)
  ultimately show ?thesis
    using job_completion_guarded [OF wf run] run by (cases r) (auto simp: sample_completion_def)
qed

end
