(* ===== verification/Verifier.thy ===== *)
theory Verifier imports Jobs Py_Path begin

text \<open>
  The patch gate of \<open>src/llm_harness/verifier.py\<close>: reading a patch (\<open>scan_patch\<close>), path policy and
  \<open>PolicyVerifier\<close>.  A patch is a Latin-1 text; a quoted name whose UTF-8 bytes encode a character
  beyond Latin-1 has no counterpart here and counts as unreadable.  A byte above 255 in an octal
  escape makes \<open>bytearray.append\<close> raise, so reading is a computation that may raise.
\<close>

section \<open>Quoted names\<close>

definition utf8_char :: "char \<Rightarrow> nat list" where
  "utf8_char c = (if code c < 128 then [code c] else [192 + code c div 64, 128 + code c mod 64])"

fun utf8_decode :: "nat list \<Rightarrow> string option" where
  "utf8_decode [] = Some []"
| "utf8_decode (b # bs) =
     (if b < 128 then map_option (\<lambda>s. char_of b # s) (utf8_decode bs)
      else case bs of
        [] \<Rightarrow> None
      | b2 # bs' \<Rightarrow>
          if 194 \<le> b \<and> b \<le> 195 \<and> 128 \<le> b2 \<and> b2 < 192
          then map_option (\<lambda>s. char_of ((b - 192) * 64 + (b2 - 128)) # s) (utf8_decode bs')
          else None)"

definition c_escape :: "char \<Rightarrow> nat option" where
  "c_escape c = map_of
     [(CHR 0x22, 0x22), (CHR 0x5C, 0x5C), (CHR ''a'', 0x07), (CHR ''b'', 0x08), (CHR ''f'', 0x0C),
      (CHR ''n'', 0x0A), (CHR ''r'', 0x0D), (CHR ''t'', 0x09), (CHR ''v'', 0x0B)] c"

definition is_octal :: "char \<Rightarrow> bool" where
  "is_octal c \<longleftrightarrow> c \<in> set ''01234567''"

definition octal_val :: "string \<Rightarrow> nat" where
  "octal_val s = foldl (\<lambda>n c. 8 * n + digit_val c) 0 s"

text \<open>The loop of \<open>_read_quoted_token\<close> after the opening quote; \<open>raw\<close> are the bytes read.\<close>

function read_quoted :: "string \<Rightarrow> nat list \<Rightarrow> (string option \<times> string) res" where
  "read_quoted [] raw = Inr (None, [])"
| "read_quoted (c # cs) raw =
     (if c = CHR 0x22 then
        (case utf8_decode raw of Some s \<Rightarrow> Inr (Some s, cs) | None \<Rightarrow> Inr (None, []))
      else if c \<noteq> CHR 0x5C then read_quoted cs (raw @ utf8_char c)
      else case cs of
        [] \<Rightarrow> Inr (None, [])
      | e # es \<Rightarrow>
          (case c_escape e of
             Some b \<Rightarrow> read_quoted es (raw @ [b])
           | None \<Rightarrow>
               let oct = take 3 cs in
               if length oct = 3 \<and> list_all is_octal oct
               then if 255 < octal_val oct then Inl (ValueError ''byte must be in range(0, 256)'')
                    else read_quoted (drop 3 cs) (raw @ [octal_val oct])
               else Inr (None, [])))"
  by pat_completeness auto
termination by (relation "measure (\<lambda>(s, _). length s)") auto

definition read_quoted_token :: "string \<Rightarrow> (string option \<times> string) res" where
  "read_quoted_token text = read_quoted (drop 1 text) []"

section \<open>Headers\<close>

definition strip_diff_prefix :: "string \<Rightarrow> string option" where
  "strip_diff_prefix name =
     (let candidate = strip name in
      if candidate = [] \<or> candidate = ''/dev/null'' then None
      else let c = (if startswith candidate ''a/'' \<or> startswith candidate ''b/'' then drop 2 candidate else candidate)
           in if c = [] then None else Some c)"

definition decode_path_token :: "string \<Rightarrow> string option res" where
  "decode_path_token token =
     (let candidate = rstrip (fst (split_once (CHR 0x09) token)) in
      if startswith candidate [CHR 0x22] then
        rbind (read_quoted_token candidate) (\<lambda>(decoded, tail).
          case decoded of
            None \<Rightarrow> Inr None
          | Some d \<Rightarrow> if strip tail \<noteq> [] then Inr None else Inr (strip_diff_prefix d))
      else Inr (strip_diff_prefix candidate))"

text \<open>\<open>tuple(dict.fromkeys(names)) or None\<close> of the names that are not empty.\<close>

definition names_of :: "string option list \<Rightarrow> string list option" where
  "names_of xs = (let ns = dedup (concat (map (\<lambda>x. case x of Some n \<Rightarrow> if n = [] then [] else [n] | None \<Rightarrow> []) xs))
     in if ns = [] then None else Some ns)"

text \<open>Every way to split \<open>a/LEFT b/RIGHT\<close> at a blank.\<close>

definition header_candidates :: "string \<Rightarrow> (string \<times> string) list" where
  "header_candidates rest =
     concat (map (\<lambda>i. let left = take i rest; right = drop (i + 1) rest in
        if rest ! i = CHR '' '' \<and> startswith left ''a/'' \<and> startswith right ''b/''
        then [(drop 2 left, drop 2 right)] else []) [0..<length rest])"

definition git_header_paths :: "string \<Rightarrow> string list option res" where
  "git_header_paths text =
     (let rest = rstrip text in
      if rest = [] then Inr None
      else if startswith rest [CHR 0x22] then
        rbind (read_quoted_token rest) (\<lambda>(first, remainder0).
        case first of None \<Rightarrow> Inr None | Some f \<Rightarrow>
          let remainder = strip remainder0 in
          if remainder = [] then Inr None
          else if startswith remainder [CHR 0x22] then
            rbind (read_quoted_token remainder) (\<lambda>(second, tail).
            case second of None \<Rightarrow> Inr None | Some sn \<Rightarrow>
              if strip tail \<noteq> [] then Inr None
              else Inr (names_of [strip_diff_prefix f, strip_diff_prefix sn]))
          else Inr (names_of [strip_diff_prefix f, strip_diff_prefix remainder]))
      else
        let candidates = header_candidates rest in
        case List.find (\<lambda>(l, r). l = r \<and> l \<noteq> []) candidates of
          Some (l, _) \<Rightarrow> Inr (Some [l])
        | None \<Rightarrow> (case candidates of
            [(l, r)] \<Rightarrow> Inr (names_of [Some l, Some r])
          | _ \<Rightarrow> Inr None))"

section \<open>Hunks\<close>

definition span_digits :: "string \<Rightarrow> string \<times> string" where
  "span_digits s = (takeWhile is_ascii_digit s, dropWhile is_ascii_digit s)"

text \<open>\<open>(\d+)(?:,(\d+))?\<close>: the count behind the comma, 1 when there is none.\<close>

definition range_count :: "string \<Rightarrow> (nat \<times> string) option" where
  "range_count s =
     (let (ds, t) = span_digits s in
      if ds = [] then None
      else case t of
        c # t' \<Rightarrow>
          if c = CHR '','' \<and> fst (span_digits t') \<noteq> []
          then Some (nat_of_digits (fst (span_digits t')), snd (span_digits t'))
          else Some (1, t)
      | [] \<Rightarrow> Some (1, t))"

text \<open>\<open>^@@+ -(\d+)(?:,(\d+))? \+(\d+)(?:,(\d+))? @@\<close>\<close>

definition hunk_counts :: "string \<Rightarrow> (nat \<times> nat) option" where
  "hunk_counts line =
     (let ats = takeWhile (\<lambda>c. c = CHR ''@'') line; t = drop (length ats) line in
      if length ats < 2 \<or> \<not> startswith t '' -'' then None
      else case range_count (drop 2 t) of
        None \<Rightarrow> None
      | Some (old, t1) \<Rightarrow>
          if \<not> startswith t1 '' +'' then None
          else case range_count (drop 2 t1) of
            None \<Rightarrow> None
          | Some (new, t2) \<Rightarrow> if startswith t2 '' @@'' then Some (old, new) else None)"

definition hunk_body_step :: "string \<Rightarrow> (nat \<times> nat) option" where
  "hunk_body_step line = (case line of
     [] \<Rightarrow> Some (1, 1)
   | m # _ \<Rightarrow> if m = CHR '' '' then Some (1, 1)
       else if m = CHR ''-'' then Some (1, 0)
       else if m = CHR ''+'' then Some (0, 1)
       else if m = CHR 0x5C then Some (0, 0)
       else None)"

section \<open>The scanner\<close>

record patch_scan =
  ps_files :: "string list"
  ps_problems :: "string list"

definition scan_ok :: "patch_scan \<Rightarrow> bool" where
  "scan_ok s \<longleftrightarrow> ps_problems s = []"

definition git_header_prefix :: string where
  "git_header_prefix = ''diff --git ''"

definition combined_header_prefixes :: "string list" where
  "combined_header_prefixes = [''diff --cc '', ''diff --combined '']"

definition pending_problem :: "string option \<Rightarrow> string list" where
  "pending_problem p = (case p of None \<Rightarrow> [] | Some h \<Rightarrow> [''unreadable diff header '' @ repr_str h])"

definition present :: "string option \<Rightarrow> string list" where
  "present x = (case x of None \<Rightarrow> [] | Some n \<Rightarrow> [n])"

text \<open>\<open>line.split(" ", 2)[2]\<close>\<close>

definition after_second_blank :: "string \<Rightarrow> string" where
  "after_second_blank s = (case split_once CHR '' '' s of
     (_, Some t) \<Rightarrow> (case split_once CHR '' '' t of (_, Some u) \<Rightarrow> u | _ \<Rightarrow> []) | _ \<Rightarrow> [])"

text \<open>
  The loop of \<open>scan_patch\<close>: the lines left, the old and new lines the current hunk still announces,
  the pending header, the paths and the problems so far.
\<close>

fun scan_loop ::
  "string list \<Rightarrow> nat \<Rightarrow> nat \<Rightarrow> string option \<Rightarrow> string list \<Rightarrow> string list
     \<Rightarrow> (string option \<times> string list \<times> string list) res" where
  "scan_loop [] old new pending files problems = Inr (pending, files, problems)"
| "scan_loop (line # rest) old new pending files problems =
     (case (if 0 < old \<or> 0 < new then hunk_body_step line else None) of
        Some (a, b) \<Rightarrow> scan_loop rest (old - a) (new - b) pending files problems
      | None \<Rightarrow>
          if startswith line ''@@'' then
            (case hunk_counts line of
               None \<Rightarrow> scan_loop rest 0 0 pending files
                 (problems @ [''unreadable hunk header '' @ repr_str (strip line)])
             | Some (o', n') \<Rightarrow> scan_loop rest o' n' pending files problems)
          else if startswith line git_header_prefix then
            rbind (git_header_paths (drop (length git_header_prefix) line)) (\<lambda>names.
            case names of
              None \<Rightarrow> scan_loop rest 0 0 (Some (strip line)) files (problems @ pending_problem pending)
            | Some ns \<Rightarrow> scan_loop rest 0 0 None (files @ ns) (problems @ pending_problem pending))
          else if list_ex (startswith line) combined_header_prefixes then
            rbind (decode_path_token (after_second_blank line)) (\<lambda>name.
            case name of
              None \<Rightarrow> scan_loop rest 0 0 None files
                (problems @ pending_problem pending @ [''unreadable diff header '' @ repr_str (strip line)])
            | Some n \<Rightarrow> scan_loop rest 0 0 None (files @ [n]) (problems @ pending_problem pending))
          else case rest of
            [] \<Rightarrow> scan_loop rest 0 0 pending files problems
          | next_line # rest' \<Rightarrow>
              if startswith line ''--- '' \<and> startswith next_line ''+++ '' then
                rbind (decode_path_token (drop 4 line)) (\<lambda>old_name.
                rbind (decode_path_token (drop 4 next_line)) (\<lambda>new_name.
                let resolved = present old_name @ present new_name in
                if resolved = []
                then scan_loop rest' 0 0 None files
                  (problems @ [''unreadable unified diff header '' @ repr_str (strip line)])
                else scan_loop rest' 0 0 None (files @ resolved) problems))
              else scan_loop rest 0 0 pending files problems)"

definition scan_patch :: "string \<Rightarrow> patch_scan res" where
  "scan_patch patch =
     rbind (scan_loop (splitlines patch) 0 0 None [] []) (\<lambda>(pending, files, problems0).
     let problems = problems0 @ pending_problem pending;
         problems' = (if strip patch \<noteq> [] \<and> files = [] \<and> problems = []
                      then problems @ [''patch declares no file paths''] else problems)
     in Inr \<lparr>ps_files = dedup files, ps_problems = problems'\<rparr>)"

definition changed_files_from_patch :: "string \<Rightarrow> string list res" where
  "changed_files_from_patch patch = rbind (scan_patch patch) (\<lambda>s. Inr (ps_files s))"

section \<open>Path policy\<close>

definition normalize_repo_path :: "string \<Rightarrow> string" where
  "normalize_repo_path p = strip_char CHR ''/'' (path_str (path_of (replace_char CHR 0x5C CHR ''/'' p)))"

definition path_matches_prefix :: "string \<Rightarrow> string \<Rightarrow> bool" where
  "path_matches_prefix path pfx \<longleftrightarrow>
     (let p = normalize_repo_path path; q = normalize_repo_path pfx in p = q \<or> startswith p (q @ ''/''))"

definition matches_any_allowed_path :: "string \<Rightarrow> string list \<Rightarrow> bool" where
  "matches_any_allowed_path path allowed \<longleftrightarrow> ''*'' \<in> set allowed \<or> list_ex (path_matches_prefix path) allowed"

definition forbidden_hits :: "string list \<Rightarrow> string list \<Rightarrow> string list" where
  "forbidden_hits paths forbidden = filter (\<lambda>p. list_ex (path_matches_prefix p) forbidden) paths"

definition is_unsafe_repo_path :: "string \<Rightarrow> bool" where
  "is_unsafe_repo_path path =
     (let parsed = path_of (replace_char CHR 0x5C CHR ''/'' path)
      in is_absolute parsed \<or> ''..'' \<in> set (p_parts parsed))"

definition documentation_suffixes :: "string list" where
  "documentation_suffixes = [''.md'', ''.markdown'', ''.rst'', ''.adoc'']"

definition documentation_directories :: "string list" where
  "documentation_directories = [''docs'', ''doc'', ''documentation'']"

definition documentation_stems :: "string list" where
  "documentation_stems = [''readme'', ''changelog'', ''release_notes'', ''release-notes'']"

definition is_documentation_path :: "string \<Rightarrow> bool" where
  "is_documentation_path path =
     (let parsed = path_of (normalize_repo_path path) in
      if path_name parsed = [] then False
      else if p_parts parsed \<noteq> [] \<and> casefold (hd (p_parts parsed)) \<in> set documentation_directories then True
      else if casefold (path_stem parsed) \<in> set documentation_stems then True
      else casefold (path_suffix parsed) \<in> set documentation_suffixes)"

definition documentation_paths :: "string list \<Rightarrow> string list" where
  "documentation_paths files = filter is_documentation_path files"

section \<open>The gate\<close>

record policy_verifier =
  pv_forbidden_paths :: "string list"
  pv_require_tests :: bool
  pv_trust_level :: worker_trust_level
  pv_require_explicit_scope :: bool

definition default_verifier :: policy_verifier where
  "default_verifier = \<lparr>pv_forbidden_paths = [''.git/''], pv_require_tests = True,
     pv_trust_level = PATCH_ONLY, pv_require_explicit_scope = True\<rparr>"

definition patch_findings :: "policy_verifier \<Rightarrow> work_item \<Rightarrow> worker_patch \<Rightarrow> patch_scan \<Rightarrow> string list" where
  "patch_findings v w p scan =
     (let files = ps_files scan;
          unsafe = filter is_unsafe_repo_path files;
          hits = forbidden_hits files (pv_forbidden_paths v);
          outside = filter (\<lambda>f. \<not> matches_any_allowed_path f (wi_allowed_paths w)) files
      in (if requires_patch_output (pv_trust_level v) \<and> strip (wp_patch p) = []
          then [''Patch is empty.''] else [])
       @ (if wp_work_item_id p \<noteq> wi_id w then [''Patch work item id does not match task.''] else [])
       @ (if pv_require_tests v \<and> wi_verification_commands w = []
          then [''Work item has no verification commands.''] else [])
       @ (if ps_problems scan \<noteq> []
          then [''Patch could not be parsed for scope verification: '' @ join ''; '' (ps_problems scan)] else [])
       @ (if unsafe \<noteq> [] then [''Patch contains unsafe repository paths: '' @ join '', '' unsafe] else [])
       @ (if hits \<noteq> [] then [''Patch touches forbidden paths: '' @ join '', '' hits] else [])
       @ (if wi_allowed_paths w \<noteq> []
          then (if outside \<noteq> [] then [''Patch changes files outside allowed paths: '' @ join '', '' outside] else [])
          else if pv_require_explicit_scope v \<and> files \<noteq> []
          then [''Work item declares no allowed paths, so patch scope cannot be verified. ''
             @ ''Declare the paths the task may touch, or '' @ [CHR 0x27, CHR ''*'', CHR 0x27]
             @ '' for the whole repository.''] else []))"

definition verify_patch_before_apply ::
  "policy_verifier \<Rightarrow> work_item \<Rightarrow> worker_patch \<Rightarrow> verification_report res" where
  "verify_patch_before_apply v w p =
     rbind (scan_patch (wp_patch p)) (\<lambda>scan.
     let findings = patch_findings v w p scan in
     Inr \<lparr>vr_ok = (findings = []), vr_findings = findings,
       vr_metrics =
         [(''changed_files_count'', JInt (int (length (ps_files scan)))),
          (''forbidden_paths_touched_count'',
             JInt (int (length (forbidden_hits (ps_files scan) (pv_forbidden_paths v))))),
          (''acceptance_criteria_count'', JInt (int (length (wi_acceptance_criteria w)))),
          (''verification_commands_count'', JInt (int (length (wi_verification_commands w)))),
          (''worker_trust_level'', JStr (trust_value (pv_trust_level v))),
          (''worker_can_create_branch'', JBool (can_create_branch (pv_trust_level v))),
          (''worker_can_commit'', JBool (can_commit (pv_trust_level v))),
          (''patch_parse_problems_count'', JInt (int (length (ps_problems scan))))]\<rparr>)"

definition verify_after_apply :: "work_item \<Rightarrow> bool \<Rightarrow> bool \<Rightarrow> verification_report" where
  "verify_after_apply w command_results_ok documentation_updated =
     (let findings = (if command_results_ok then [] else [''One or more verification commands failed.''])
            @ (if wi_acceptance_criteria w = [] then [''Work item has no acceptance criteria.''] else [])
      in \<lparr>vr_ok = (findings = []), vr_findings = findings,
          vr_metrics = [(''acceptance_criteria_count'', JInt (int (length (wi_acceptance_criteria w)))),
            (''verification_commands_count'', JInt (int (length (wi_verification_commands w)))),
            (''documentation_updated'', JBool documentation_updated)]\<rparr>)"

end
