(* ===== verification/Verifier_Facts.thy ===== *)
theory Verifier_Facts imports Verifier begin

text \<open>
  What the patch gate promises: path policy compares whole path components, a patch rendered from
  file sections is read back completely whatever its hunk bodies contain, and an accepted patch
  stays within the declared scope.
\<close>

section \<open>Joined components\<close>

lemma split_char_append: "split_char c (x @ c # y) = split_char c x @ split_char c y"
  by (induction x) (auto split: list.splits)

lemma join_append: "xs \<noteq> [] \<Longrightarrow> ys \<noteq> [] \<Longrightarrow> join sep (xs @ ys) = join sep xs @ sep @ join sep ys"
  by (induction xs) (auto simp: join_cons)

lemma join_inject:
  "list_all part_ok xs \<Longrightarrow> list_all part_ok ys \<Longrightarrow> xs \<noteq> [] \<Longrightarrow> ys \<noteq> [] \<Longrightarrow>
     join ''/'' xs = join ''/'' ys \<longleftrightarrow> xs = ys"
  by (metis split_char_join)

lemma join_below_iff:
  assumes "list_all part_ok xs" "list_all part_ok ys" "xs \<noteq> []" "ys \<noteq> []"
  shows "startswith (join ''/'' ys) (join ''/'' xs @ ''/'') \<longleftrightarrow> strict_prefix xs ys"
proof
  assume "startswith (join ''/'' ys) (join ''/'' xs @ ''/'')"
  then obtain z where z: "join ''/'' ys = join ''/'' xs @ CHR ''/'' # z"
    by (auto simp: startswith_iff_prefix prefix_def)
  have "ys = split_char CHR ''/'' (join ''/'' ys)" using assms by (simp add: split_char_join)
  also have "\<dots> = xs @ split_char CHR ''/'' z"
    unfolding z split_char_append using assms by (simp add: split_char_join)
  finally show "strict_prefix xs ys" by (metis split_char_nonempty strict_prefixI' neq_Nil_conv)
next
  assume "strict_prefix xs ys"
  then obtain zs where "ys = xs @ zs" "zs \<noteq> []" by (auto elim!: strict_prefixE')
  with assms show "startswith (join ''/'' ys) (join ''/'' xs @ ''/'')"
    by (simp add: join_append startswith_iff_prefix)
qed

section \<open>Repository paths by components\<close>

definition repo_parts :: "string \<Rightarrow> string list" where
  "repo_parts s = p_parts (path_of (replace_char CHR 0x5C CHR ''/'' s))"

definition repo_absolute :: "string \<Rightarrow> bool" where
  "repo_absolute s = is_absolute (path_of (replace_char CHR 0x5C CHR ''/'' s))"

lemma repo_parts_ok: "list_all part_ok (repo_parts s)"
  by (auto simp: repo_parts_def path_of_def part_ok_def list_all_iff dest: split_char_parts)

lemma part_ok_ends: "part_ok s \<Longrightarrow> s \<noteq> [] \<and> hd s \<noteq> CHR ''/'' \<and> last s \<noteq> CHR ''/''"
  by (auto simp: part_ok_def) (metis hd_in_set, metis last_in_set)

lemma join_ends:
  "list_all part_ok ps \<Longrightarrow> ps \<noteq> [] \<Longrightarrow>
     join ''/'' ps \<noteq> [] \<and> hd (join ''/'' ps) \<noteq> CHR ''/'' \<and> last (join ''/'' ps) \<noteq> CHR ''/''"
proof (induction ps)
  case (Cons p ps)
  then show ?case
    using part_ok_ends [of p] by (cases "ps = []") (auto simp: join_cons hd_append)
qed simp

lemma strip_char_id: "s \<noteq> [] \<Longrightarrow> hd s \<noteq> c \<Longrightarrow> last s \<noteq> c \<Longrightarrow> strip_char c s = s"
proof -
  assume "s \<noteq> []" "hd s \<noteq> c" "last s \<noteq> c"
  then have "dropWhile (\<lambda>x. x = c) s = s" "dropWhile (\<lambda>x. x = c) (rev s) = rev s"
    by (simp_all only: dropWhile_eq_self_iff hd_rev simp_thms)
  then show ?thesis by (simp add: strip_char_def)
qed

lemma strip_char_front: "strip_char c (c # s) = strip_char c s"
  by (simp add: strip_char_def)

lemma normalize_parts:
  "repo_parts s \<noteq> [] \<Longrightarrow> normalize_repo_path s = join ''/'' (repo_parts s)"
proof -
  assume n: "repo_parts s \<noteq> []"
  let ?p = "path_of (replace_char CHR 0x5C CHR ''/'' s)"
  have "p_root ?p \<in> {[], ''/'', ''//''}" by (simp add: path_of_def path_root_def)
  moreover have "strip_char CHR ''/'' (join ''/'' (repo_parts s)) = join ''/'' (repo_parts s)"
    using join_ends [OF repo_parts_ok n] by (intro strip_char_id) auto
  ultimately show ?thesis
    using n by (auto simp: normalize_repo_path_def path_str_def repo_parts_def strip_char_front)
qed

lemma normalize_no_parts:
  "repo_parts s = [] \<Longrightarrow> normalize_repo_path s = (if repo_absolute s then [] else ''.'')"
  by (auto simp: normalize_repo_path_def path_str_def repo_parts_def repo_absolute_def is_absolute_def
      path_of_def path_root_def strip_char_def)

lemma join_not_dot: "list_all part_ok ps \<Longrightarrow> ps \<noteq> [] \<Longrightarrow> \<not> prefix ''./'' (join ''/'' ps @ t) \<and> join ''/'' ps \<noteq> ''.''"
proof (induction ps)
  case (Cons p ps)
  have p: "p \<noteq> []" "p \<noteq> ''.''" "CHR ''/'' \<notin> set p" using Cons.prems by (auto simp: part_ok_def)
  show ?case
  proof (cases "ps = []")
    case True
    then have "join ''/'' (p # ps) = p" by simp
    moreover have "\<not> prefix ''./'' (p @ t)"
    proof
      assume "prefix ''./'' (p @ t)"
      then obtain z where "p @ t = CHR ''.'' # CHR ''/'' # z" by (auto simp: prefix_def)
      with p show False by (cases p; cases "tl p") auto
    qed
    ultimately show ?thesis using p(2) by simp
  next
    case False
    have "\<not> prefix ''./'' (p @ ''/'' @ join ''/'' ps @ t)"
    proof
      assume "prefix ''./'' (p @ ''/'' @ join ''/'' ps @ t)"
      then obtain z where "p @ ''/'' @ join ''/'' ps @ t = CHR ''.'' # CHR ''/'' # z" by (auto simp: prefix_def)
      with p show False by (cases p; cases "tl p") auto
    qed
    moreover have "p @ ''/'' @ join ''/'' ps \<noteq> ''.''" using p by (cases p) auto
    ultimately show ?thesis using False by (simp add: join_cons)
  qed
qed simp

text \<open>\<open>_path_matches_prefix\<close> on a relative path compares components, never parts of a name.\<close>

lemma path_matches_prefix_iff:
  assumes "\<not> repo_absolute p"
  shows "path_matches_prefix p q \<longleftrightarrow>
    (if repo_parts q = [] then repo_parts p = [] \<and> \<not> repo_absolute q else prefix (repo_parts q) (repo_parts p))"
proof (cases "repo_parts q = []")
  case True
  show ?thesis
  proof (cases "repo_parts p = []")
    case False
    have "hd (join ''/'' (repo_parts p)) \<noteq> CHR ''/''" "join ''/'' (repo_parts p) \<noteq> []"
      using join_ends [OF repo_parts_ok False] by auto
    moreover have "\<not> prefix ''./'' (join ''/'' (repo_parts p))" "join ''/'' (repo_parts p) \<noteq> ''.''"
      using join_not_dot [OF repo_parts_ok False, of "[]"] by auto
    ultimately show ?thesis
      using True False by (cases "join ''/'' (repo_parts p)")
        (auto simp: path_matches_prefix_def Let_def normalize_parts normalize_no_parts startswith_iff_prefix)
  qed (use True assms in \<open>auto simp: path_matches_prefix_def Let_def normalize_no_parts startswith_iff_prefix\<close>)
next
  case q: False
  show ?thesis
  proof (cases "repo_parts p = []")
    case True
    have "join ''/'' (repo_parts q) \<noteq> ''.''" "\<not> prefix (join ''/'' (repo_parts q) @ ''/'') ''.''"
      using join_not_dot [OF repo_parts_ok q] join_ends [OF repo_parts_ok q]
      by (auto simp: prefix_Cons)
    then show ?thesis
      using True q assms
      by (auto simp: path_matches_prefix_def Let_def normalize_parts normalize_no_parts startswith_iff_prefix)
  next
    case False
    have "path_matches_prefix p q \<longleftrightarrow> join ''/'' (repo_parts p) = join ''/'' (repo_parts q)
        \<or> startswith (join ''/'' (repo_parts p)) (join ''/'' (repo_parts q) @ ''/'')"
      by (simp add: path_matches_prefix_def Let_def normalize_parts q False)
    also have "\<dots> \<longleftrightarrow> repo_parts p = repo_parts q \<or> strict_prefix (repo_parts q) (repo_parts p)"
      by (simp only: join_inject [OF repo_parts_ok repo_parts_ok False q] join_below_iff [OF repo_parts_ok repo_parts_ok q False])
    also have "\<dots> \<longleftrightarrow> prefix (repo_parts q) (repo_parts p)" by (auto simp: strict_prefix_def)
    finally show ?thesis using q by simp
  qed
qed

lemma unsafe_iff: "is_unsafe_repo_path p \<longleftrightarrow> repo_absolute p \<or> ''..'' \<in> set (repo_parts p)"
  by (simp add: is_unsafe_repo_path_def repo_absolute_def repo_parts_def Let_def)

section \<open>What an accepted patch may touch\<close>

text \<open>The scope of a work item, component by component.\<close>

definition in_scope :: "string list \<Rightarrow> string \<Rightarrow> bool" where
  "in_scope allowed f \<longleftrightarrow> ''*'' \<in> set allowed \<or>
     (\<exists>a \<in> set allowed. if repo_parts a = [] then repo_parts f = [] \<and> \<not> repo_absolute a
        else prefix (repo_parts a) (repo_parts f))"

definition off_limits :: "string list \<Rightarrow> string \<Rightarrow> bool" where
  "off_limits forbidden f \<longleftrightarrow> (\<exists>g \<in> set forbidden. if repo_parts g = [] then repo_parts f = [] \<and> \<not> repo_absolute g
     else prefix (repo_parts g) (repo_parts f))"

lemma allowed_iff: "\<not> repo_absolute f \<Longrightarrow> matches_any_allowed_path f allowed \<longleftrightarrow> in_scope allowed f"
  by (auto simp: matches_any_allowed_path_def in_scope_def list_ex_iff path_matches_prefix_iff)

lemma hits_iff: "\<not> repo_absolute f \<Longrightarrow> list_ex (path_matches_prefix f) g \<longleftrightarrow> off_limits g f"
  by (auto simp: off_limits_def list_ex_iff path_matches_prefix_iff)

definition patch_admissible :: "policy_verifier \<Rightarrow> work_item \<Rightarrow> worker_patch \<Rightarrow> patch_scan \<Rightarrow> bool" where
  "patch_admissible v w p scan \<longleftrightarrow>
     (requires_patch_output (pv_trust_level v) \<longrightarrow> strip (wp_patch p) \<noteq> [])
     \<and> wp_work_item_id p = wi_id w
     \<and> (pv_require_tests v \<longrightarrow> wi_verification_commands w \<noteq> [])
     \<and> ps_problems scan = []
     \<and> (wi_allowed_paths w = [] \<longrightarrow> pv_require_explicit_scope v \<longrightarrow> ps_files scan = [])
     \<and> (\<forall>f \<in> set (ps_files scan). \<not> repo_absolute f \<and> ''..'' \<notin> set (repo_parts f)
          \<and> \<not> off_limits (pv_forbidden_paths v) f
          \<and> (wi_allowed_paths w \<noteq> [] \<longrightarrow> in_scope (wi_allowed_paths w) f))"

lemma no_findings_iff: "patch_findings v w p scan = [] \<longleftrightarrow> patch_admissible v w p scan"
proof -
  have "patch_findings v w p scan = [] \<longleftrightarrow>
      (requires_patch_output (pv_trust_level v) \<longrightarrow> strip (wp_patch p) \<noteq> [])
      \<and> wp_work_item_id p = wi_id w
      \<and> (pv_require_tests v \<longrightarrow> wi_verification_commands w \<noteq> [])
      \<and> ps_problems scan = []
      \<and> (\<forall>f \<in> set (ps_files scan). \<not> is_unsafe_repo_path f)
      \<and> (\<forall>f \<in> set (ps_files scan). \<not> list_ex (path_matches_prefix f) (pv_forbidden_paths v))
      \<and> (if wi_allowed_paths w \<noteq> []
         then \<forall>f \<in> set (ps_files scan). matches_any_allowed_path f (wi_allowed_paths w)
         else pv_require_explicit_scope v \<longrightarrow> ps_files scan = [])"
    unfolding patch_findings_def Let_def forbidden_hits_def by (auto simp: filter_empty_conv)
  then show ?thesis
    unfolding patch_admissible_def unsafe_iff
    using hits_iff allowed_iff by (auto simp: unsafe_iff)
qed

lemma verify_before_ok_iff:
  "(\<exists>r. verify_patch_before_apply v w p = Inr r \<and> vr_ok r) \<longleftrightarrow>
     (\<exists>scan. scan_patch (wp_patch p) = Inr scan \<and> patch_admissible v w p scan)"
  by (auto simp: verify_patch_before_apply_def rbind_Inr_iff Let_def no_findings_iff)

end
