(* ===== verification/Patch_Text.thy ===== *)
theory Patch_Text imports Verifier_Facts Scheduler_Facts begin

text \<open>
  Completeness of \<open>scan_patch\<close>: a patch in git's format, built from file sections with the hunk counts
  its bodies have, is read back with exactly the names of its sections and without problems,
  whatever its hunk bodies contain (a removed line \<open>-- x\<close> followed by an added line \<open>++ y\<close> looks like
  a file header in the text).
\<close>

section \<open>Patches built from file sections\<close>

text \<open>
  The text of a patch in git's format: one section per file with its old and new name, its hunks
  and the counts their headers announce.  A body line is any line that starts with a blank, a
  plus, a minus or a backslash, or is empty; it may look like a header.
\<close>

record file_section =
  sec_old :: string
  sec_new :: string
  sec_hunks :: "(nat \<times> nat \<times> string list) list"

definition old_count :: "string list \<Rightarrow> nat" where
  "old_count body = sum_list (map (\<lambda>l. case hunk_body_step l of Some (a, _) \<Rightarrow> a | None \<Rightarrow> 0) body)"

definition new_count :: "string list \<Rightarrow> nat" where
  "new_count body = sum_list (map (\<lambda>l. case hunk_body_step l of Some (_, b) \<Rightarrow> b | None \<Rightarrow> 0) body)"

definition hunk_header :: "nat \<Rightarrow> nat \<Rightarrow> nat \<Rightarrow> nat \<Rightarrow> string" where
  "hunk_header s o' t n = ''@@ -'' @ str_nat s @ '','' @ str_nat o' @ '' +'' @ str_nat t @ '','' @ str_nat n @ '' @@''"

definition hunk_lines :: "nat \<times> nat \<times> string list \<Rightarrow> string list" where
  "hunk_lines h = (case h of (s, t, body) \<Rightarrow> hunk_header s (old_count body) t (new_count body) # body)"

definition section_lines :: "file_section \<Rightarrow> string list" where
  "section_lines f =
     [git_header_prefix @ ''a/'' @ sec_old f @ '' b/'' @ sec_new f,
      ''--- a/'' @ sec_old f, ''+++ b/'' @ sec_new f] @ concat (map hunk_lines (sec_hunks f))"

definition unlines :: "string list \<Rightarrow> string" where
  "unlines ls = concat (map (\<lambda>l. l @ [CHR 0x0A]) ls)"

definition render_patch :: "file_section list \<Rightarrow> string" where
  "render_patch fs = unlines (concat (map section_lines fs))"

text \<open>Names without blanks, quotes and control characters, body lines without line breaks.\<close>

definition plain_name :: "string \<Rightarrow> bool" where
  "plain_name n \<longleftrightarrow> n \<noteq> [] \<and> list_all (\<lambda>c. \<not> is_space c \<and> \<not> is_linebreak c \<and> c \<noteq> CHR 0x22) n"

definition body_line :: "string \<Rightarrow> bool" where
  "body_line l \<longleftrightarrow> hunk_body_step l \<noteq> None \<and> list_all (\<lambda>c. \<not> is_linebreak c) l"

definition plain_section :: "file_section \<Rightarrow> bool" where
  "plain_section f \<longleftrightarrow> plain_name (sec_old f) \<and> plain_name (sec_new f)
     \<and> (\<forall>(s, t, body) \<in> set (sec_hunks f). list_all body_line body)"

section \<open>Lines\<close>

lemma splitlines_line:
  "list_all (\<lambda>c. \<not> is_linebreak c) l \<Longrightarrow> splitlines (l @ CHR 0x0A # s) = l # splitlines s"
proof (induction l)
  case Nil
  have "is_linebreak CHR 0x0A" by (simp add: is_linebreak_def code_def)
  then show ?case by simp
qed auto

lemma splitlines_unlines:
  "list_all (list_all (\<lambda>c. \<not> is_linebreak c)) ls \<Longrightarrow> splitlines (unlines ls) = ls"
  by (induction ls) (auto simp: unlines_def splitlines_line)

section \<open>Hunk headers\<close>

lemma span_digits_append:
  "list_all is_ascii_digit ds \<Longrightarrow> t = [] \<or> \<not> is_ascii_digit (hd t) \<Longrightarrow> span_digits (ds @ t) = (ds, t)"
  by (induction ds) (cases t, auto simp: span_digits_def)

lemma range_count_rendered:
  "t = [] \<or> \<not> is_ascii_digit (hd t) \<Longrightarrow> range_count (str_nat s @ '','' @ str_nat n @ t) = Some (n, t)"
proof -
  assume t: "t = [] \<or> \<not> is_ascii_digit (hd t)"
  have c: "\<not> is_ascii_digit CHR '',''" by (simp add: is_ascii_digit_def code_def)
  have "span_digits (str_nat s @ '','' @ str_nat n @ t) = (str_nat s, '','' @ str_nat n @ t)"
    using c by (intro span_digits_append) (simp_all add: str_nat_digits)
  moreover have "span_digits (str_nat n @ t) = (str_nat n, t)"
    using t by (intro span_digits_append) (simp_all add: str_nat_digits)
  ultimately show ?thesis by (simp add: range_count_def)
qed

lemma hunk_counts_header: "hunk_counts (hunk_header s o' t n) = Some (o', n)"
proof -
  have d: "\<not> is_ascii_digit CHR '' ''" by (simp add: is_ascii_digit_def code_def)
  have 1: "range_count (str_nat s @ '','' @ str_nat o' @ '' +'' @ str_nat t @ '','' @ str_nat n @ '' @@'')
      = Some (o', '' +'' @ str_nat t @ '','' @ str_nat n @ '' @@'')"
    using d by (intro range_count_rendered) simp
  have 2: "range_count (str_nat t @ '','' @ str_nat n @ '' @@'') = Some (n, '' @@'')"
    using d by (intro range_count_rendered) simp
  show ?thesis
    using 1 2 by (simp add: hunk_counts_def hunk_header_def startswith_iff_prefix Let_def)
qed

section \<open>Reading the rendered lines\<close>

lemma body_not_header:
  "hunk_body_step l = Some (0, 0) \<Longrightarrow> \<not> startswith l ''@@'' \<and> \<not> startswith l git_header_prefix
     \<and> \<not> list_ex (startswith l) combined_header_prefixes \<and> \<not> startswith l ''--- ''"
  by (auto simp: hunk_body_step_def startswith_iff_prefix prefix_Cons git_header_prefix_def
      combined_header_prefixes_def split: list.splits if_splits)

lemma scan_body:
  assumes "list_all body_line bs"
  shows "scan_loop (bs @ rest) (old_count bs) (new_count bs) pend files probs = scan_loop rest 0 0 pend files probs"
  using assms
proof (induction bs)
  case Nil
  then show ?case by (simp add: old_count_def new_count_def)
next
  case (Cons l bs)
  then obtain a b where ab: "hunk_body_step l = Some (a, b)" by (auto simp: body_line_def)
  have cnt: "old_count (l # bs) = a + old_count bs" "new_count (l # bs) = b + new_count bs"
    by (simp_all add: old_count_def new_count_def ab)
  show ?case
  proof (cases "0 < old_count (l # bs) \<or> 0 < new_count (l # bs)")
    case True
    then show ?thesis using Cons ab cnt by simp
  next
    case False
    with cnt have z: "a = 0" "b = 0" "old_count bs = 0" "new_count bs = 0" by auto
    note nh = body_not_header [OF ab [unfolded z(1,2)]]
    have "scan_loop (l # bs @ rest) 0 0 pend files probs = scan_loop (bs @ rest) 0 0 pend files probs"
      using nh by (cases "bs @ rest") simp_all
    then show ?thesis using Cons cnt z by simp
  qed
qed

lemma scan_hunk:
  assumes "list_all body_line body"
  shows "scan_loop (hunk_lines (s, t, body) @ rest) 0 0 pend files probs = scan_loop rest 0 0 pend files probs"
proof -
  have at: "startswith (hunk_header s o' t n) ''@@''" for o' n
    by (simp add: hunk_header_def startswith_iff_prefix)
  show ?thesis
    using scan_body [OF assms, of rest] by (simp add: hunk_lines_def at hunk_counts_header)
qed

lemma scan_hunks:
  "\<forall>(s, t, body) \<in> set hs. list_all body_line body \<Longrightarrow>
     scan_loop (concat (map hunk_lines hs) @ rest) 0 0 pend files probs = scan_loop rest 0 0 pend files probs"
proof (induction hs)
  case (Cons h hs)
  then show ?case by (cases h) (simp add: scan_hunk)
qed simp

section \<open>Reading the names\<close>

lemma plain_nameD:
  assumes "plain_name n"
  shows "n \<noteq> []" "CHR '' '' \<notin> set n" "CHR 0x09 \<notin> set n" "CHR 0x22 \<notin> set n" "strip n = n" "rstrip (x @ n) = x @ n"
proof -
  show n: "n \<noteq> []" using assms by (simp add: plain_name_def)
  show "CHR '' '' \<notin> set n" "CHR 0x09 \<notin> set n" "CHR 0x22 \<notin> set n"
  proof -
    have "is_space CHR '' ''" "is_space CHR 0x09" by (simp_all add: is_space_def code_def)
    then show "CHR '' '' \<notin> set n" "CHR 0x09 \<notin> set n" "CHR 0x22 \<notin> set n"
      using assms unfolding plain_name_def list_all_iff by blast+
  qed
  have nsp: "\<forall>c \<in> set n. \<not> is_space c" using assms unfolding plain_name_def list_all_iff by blast
  have r: "rstrip (x @ n) = x @ n" for x
    using n nsp by (cases n rule: rev_cases) (simp_all add: rstrip_append_nonspace flip: append_assoc)
  show "rstrip (x @ n) = x @ n" by (rule r)
  have "dropWhile is_space n = n" using n nsp by (cases n) auto
  then show "strip n = n" using r [of "[]"] by (simp add: strip_def lstrip_def)
qed

lemma takeWhile_notin: "c \<notin> set s \<Longrightarrow> takeWhile (\<lambda>x. x \<noteq> c) s = s"
  by (induction s) auto

lemma strip_prefixed:
  "plain_name n \<Longrightarrow> p \<in> {''a/'', ''b/''} \<Longrightarrow> strip (p @ n) = p @ n"
  using plain_nameD(6) [of n p] by (auto simp: strip_def lstrip_def is_space_def code_def)

lemma decode_plain:
  assumes "plain_name n" "p \<in> {''a/'', ''b/''}"
  shows "decode_path_token (p @ n) = Inr (Some n)"
proof -
  have "CHR 0x09 \<notin> set (p @ n)" using plain_nameD(3) [OF assms(1)] assms(2) by auto
  then have "fst (split_once (CHR 0x09) (p @ n)) = p @ n" by (simp add: split_once_def takeWhile_notin)
  moreover have "\<not> startswith (p @ n) [CHR 0x22]" using assms(2) by (auto simp: startswith_iff_prefix)
  moreover have "strip_diff_prefix (p @ n) = Some n"
    using strip_prefixed [OF assms] assms plain_nameD(1) [OF assms(1)]
    by (auto simp: strip_diff_prefix_def startswith_iff_prefix Let_def)
  ultimately show ?thesis
    using plain_nameD(6) [OF assms(1), of p] by (simp add: decode_path_token_def)
qed

lemma concat_single_index:
  "k < n \<Longrightarrow> concat (map (\<lambda>i. if i = k then [z] else []) [0..<n]) = [z]"
proof (induction n)
  case (Suc n)
  then show ?case by (cases "k = n") (auto simp: concat_map_Nil)
qed simp

lemma header_candidates_plain:
  assumes "plain_name x" "plain_name y"
  shows "header_candidates (''a/'' @ x @ '' b/'' @ y) = [(x, y)]"
proof -
  let ?r = "''a/'' @ x @ '' b/'' @ y"
  let ?k = "length x + 2"
  have sp: "i < length ?r \<Longrightarrow> ?r ! i = CHR '' '' \<longleftrightarrow> i = ?k" for i
  proof -
    assume i: "i < length ?r"
    have nx: "j < length x \<Longrightarrow> x ! j \<noteq> CHR '' ''" "j < length y \<Longrightarrow> y ! j \<noteq> CHR '' ''" for j
      using plain_nameD(2) [OF assms(1)] plain_nameD(2) [OF assms(2)] by (metis nth_mem)+
    have r: "?r = (''a/'' @ x) @ CHR '' '' # (''b/'' @ y)" by simp
    consider "i < ?k" | "i = ?k" | "?k < i" by linarith
    then show ?thesis
    proof cases
      case 1
      then have "?r ! i = (''a/'' @ x) ! i" unfolding r by (subst nth_append) simp
      also have "\<dots> \<noteq> CHR '' ''" using 1 nx(1) by (auto simp: nth_Cons split: nat.splits)
      finally show ?thesis using 1 by simp
    next
      case 2
      then show ?thesis unfolding r by (subst nth_append) simp
    next
      case 3
      define j where "j = i - Suc ?k"
      have j: "i = Suc ?k + j" "j < length (''b/'' @ y)" using 3 i by (auto simp: j_def)
      then have "?r ! i = (''b/'' @ y) ! j" unfolding r by (subst nth_append) simp
      also have "\<dots> \<noteq> CHR '' ''" using j nx(2) by (auto simp: nth_Cons split: nat.splits)
      finally show ?thesis using 3 by simp
    qed
  qed
  have "header_candidates ?r = concat (map (\<lambda>i. if i = ?k then [(x, y)] else []) [0..<length ?r])"
    unfolding header_candidates_def
  proof (intro arg_cong [where f = concat] map_cong refl)
    fix i assume "i \<in> set [0..<length ?r]"
    then have i: "i < length ?r" by (simp only: set_upt atLeastLessThan_iff)
    show "(let left = take i ?r; right = drop (i + 1) ?r in
        if ?r ! i = CHR '' '' \<and> startswith left ''a/'' \<and> startswith right ''b/''
        then [(drop 2 left, drop 2 right)] else []) = (if i = ?k then [(x, y)] else [])"
    proof (cases "i = ?k")
      case True
      have "take i ?r = ''a/'' @ x" "drop (i + 1) ?r = ''b/'' @ y" using True by simp_all
      with True sp [OF i] show ?thesis by (simp add: Let_def startswith_iff_prefix)
    next
      case False
      with sp [OF i] show ?thesis by (simp add: Let_def)
    qed
  qed
  also have "\<dots> = [(x, y)]" by (rule concat_single_index) simp
  finally show ?thesis .
qed

lemma git_header_plain:
  assumes "plain_name x" "plain_name y"
  shows "\<exists>ns. git_header_paths (''a/'' @ x @ '' b/'' @ y) = Inr (Some ns) \<and> set ns = {x, y}"
proof -
  have "rstrip (''a/'' @ x @ '' b/'' @ y) = ''a/'' @ x @ '' b/'' @ y"
    using plain_nameD(6) [OF assms(2), of "''a/'' @ x @ '' b/''"] by simp
  moreover have "names_of [Some x, Some y] = Some (dedup [x, y])"
    using plain_nameD(1) [OF assms(1)] plain_nameD(1) [OF assms(2)] by (simp add: names_of_def)
  moreover have "set (dedup [x, y]) = {x, y}" by simp
  ultimately show ?thesis
    using header_candidates_plain [OF assms] plain_nameD(1) [OF assms(1)]
    by (cases "x = y") (auto simp: git_header_paths_def Let_def startswith_iff_prefix)
qed

lemma scan_section:
  assumes "plain_section f"
  shows "\<exists>ns. set ns = {sec_old f, sec_new f} \<and>
    (\<forall>rest files probs. scan_loop (section_lines f @ rest) 0 0 None files probs = scan_loop rest 0 0 None (files @ ns) probs)"
proof -
  let ?x = "sec_old f" and ?y = "sec_new f"
  have p: "plain_name ?x" "plain_name ?y" "\<forall>(s, t, body) \<in> set (sec_hunks f). list_all body_line body"
    using assms by (simp_all add: plain_section_def)
  obtain ns where ns: "git_header_paths (''a/'' @ ?x @ '' b/'' @ ?y) = Inr (Some ns)" "set ns = {?x, ?y}"
    using git_header_plain [OF p(1,2)] by blast
  have o: "decode_path_token (CHR ''a'' # CHR ''/'' # ?x) = Inr (Some ?x)"
    using decode_plain [OF p(1), of "''a/''"] by simp
  have n: "decode_path_token (CHR ''b'' # CHR ''/'' # ?y) = Inr (Some ?y)"
    using decode_plain [OF p(2), of "''b/''"] by simp
  have "scan_loop (section_lines f @ rest) 0 0 None files probs
      = scan_loop (concat (map hunk_lines (sec_hunks f)) @ rest) 0 0 None (files @ ns @ [?x, ?y]) probs"
    for rest files probs
    using ns(1) o n
    by (simp add: section_lines_def git_header_prefix_def combined_header_prefixes_def startswith_iff_prefix
        pending_problem_def present_def)
  then have "scan_loop (section_lines f @ rest) 0 0 None files probs
      = scan_loop rest 0 0 None (files @ (ns @ [?x, ?y])) probs" for rest files probs
    by (simp add: scan_hunks [OF p(3)])
  then show ?thesis using ns(2) by (intro exI [of _ "ns @ [?x, ?y]"]) auto
qed

lemma scan_sections:
  "\<forall>f \<in> set fs. plain_section f \<Longrightarrow>
     \<exists>ns. set ns = sec_old ` set fs \<union> sec_new ` set fs \<and>
       scan_loop (concat (map section_lines fs)) 0 0 None files probs = Inr (None, files @ ns, probs)"
proof (induction fs arbitrary: files)
  case (Cons f fs)
  obtain ns where ns: "set ns = {sec_old f, sec_new f}"
    "\<And>rest files probs. scan_loop (section_lines f @ rest) 0 0 None files probs = scan_loop rest 0 0 None (files @ ns) probs"
    using scan_section [of f] Cons.prems by auto
  obtain ms where "set ms = sec_old ` set fs \<union> sec_new ` set fs"
    "scan_loop (concat (map section_lines fs)) 0 0 None (files @ ns) probs = Inr (None, (files @ ns) @ ms, probs)"
    using Cons.IH [of "files @ ns"] Cons.prems by auto
  then show ?case using ns by (intro exI [of _ "ns @ ms"]) auto
qed simp

lemma not_linebreak [simp]:
  "\<not> is_linebreak CHR ''@''"
  "\<not> is_linebreak CHR '' ''"
  "\<not> is_linebreak CHR ''-''"
  "\<not> is_linebreak CHR '',''"
  "\<not> is_linebreak CHR ''+''"
  "\<not> is_linebreak CHR ''/''"
  "\<not> is_linebreak CHR ''a''"
  "\<not> is_linebreak CHR ''b''"
  "\<not> is_linebreak CHR ''d''"
  "\<not> is_linebreak CHR ''f''"
  "\<not> is_linebreak CHR ''i''"
  "\<not> is_linebreak CHR ''g''"
  "\<not> is_linebreak CHR ''t''"
  by (simp_all add: is_linebreak_def code_def)

lemma plain_lines:
  assumes "plain_section f"
  shows "list_all (list_all (\<lambda>c. \<not> is_linebreak c)) (section_lines f)"
proof -
  have d: "list_all (\<lambda>c. \<not> is_linebreak c) (str_nat n)" for n
  proof -
    have "is_ascii_digit c \<Longrightarrow> \<not> is_linebreak c" for c
      by (auto simp: is_ascii_digit_def is_linebreak_def Let_def)
    then show ?thesis using str_nat_digits [of n] by (auto simp: list_all_iff)
  qed
  have h: "list_all (\<lambda>c. \<not> is_linebreak c) (hunk_header s o' t n)" for s o' t n
    by (simp add: hunk_header_def d)
  have "list_all (list_all (\<lambda>c. \<not> is_linebreak c)) (concat (map hunk_lines (sec_hunks f)))"
  proof -
    have "list_all (list_all (\<lambda>c. \<not> is_linebreak c)) (hunk_lines k)" if "k \<in> set (sec_hunks f)" for k
    proof -
      obtain s t body where k: "k = (s, t, body)" by (cases k)
      with that assms have "list_all body_line body" by (auto simp: plain_section_def)
      then show ?thesis by (auto simp: k hunk_lines_def h body_line_def elim: list.pred_mono_strong)
    qed
    then show ?thesis by (auto simp: list_all_iff [of "list_all _"])
  qed
  moreover have "list_all (\<lambda>c. \<not> is_linebreak c) n" if "plain_name n" for n
    using that by (auto simp: plain_name_def list_all_iff)
  ultimately show ?thesis
    using assms by (simp add: section_lines_def plain_section_def git_header_prefix_def)
qed

lemma scan_rendered:
  assumes "\<forall>f \<in> set fs. plain_section f"
  shows "\<exists>scan. scan_patch (render_patch fs) = Inr scan \<and> ps_problems scan = []
    \<and> set (ps_files scan) = sec_old ` set fs \<union> sec_new ` set fs \<and> distinct (ps_files scan)"
proof -
  have lines: "splitlines (render_patch fs) = concat (map section_lines fs)"
    unfolding render_patch_def using assms plain_lines
    by (intro splitlines_unlines) (auto simp: list_all_iff [of "list_all _"])
  obtain ns where ns: "set ns = sec_old ` set fs \<union> sec_new ` set fs"
    "scan_loop (concat (map section_lines fs)) 0 0 None [] [] = Inr (None, ns, [])"
    using scan_sections [OF assms, of "[]" "[]"] by auto
  have "strip (render_patch fs) = []" if "ns = []"
    using that ns(1) by (simp add: render_patch_def unlines_def strip_def lstrip_def rstrip_def)
  then show ?thesis
    using ns by (auto simp: scan_patch_def lines pending_problem_def Let_def)
qed

end
