(* ===== verification/Verifier_Props.thy ===== *)
theory Verifier_Props imports Patch_Text Scheduler_Props begin

text \<open>
  The properties of the patch gate, and of the gate together with the scheduler.
\<close>

section \<open>Acceptance\<close>

text \<open>C8: The gate accepts a patch exactly when it can be read without problems, belongs to the task, the
  task has verification commands and (if required) a scope, and every path the patch names is
  relative, has no \<open>..\<close> component, is below no forbidden path and below an allowed one, where
  \<open>below\<close> compares whole path components.\<close>

theorem patch_gate_exact:
  "(\<exists>r. verify_patch_before_apply v w p = Inr r \<and> vr_ok r) \<longleftrightarrow>
     (\<exists>scan. scan_patch (wp_patch p) = Inr scan \<and> patch_admissible v w p scan)"
  by (rule verify_before_ok_iff)

section \<open>Reading a patch\<close>

text \<open>A patch in git's format is read completely: whatever its hunk bodies contain (also lines that
  look like file headers), the names found are exactly the old and new names of its sections, each
  once, and nothing is reported as unreadable.\<close>

theorem patch_reading_complete:
  assumes "\<forall>f \<in> set fs. plain_section f"
  shows "\<exists>scan. scan_patch (render_patch fs) = Inr scan \<and> ps_problems scan = []
    \<and> set (ps_files scan) = sec_old ` set fs \<union> sec_new ` set fs \<and> distinct (ps_files scan)"
  using assms by (rule scan_rendered)

definition tricky_section :: file_section where
  "tricky_section = \<lparr>sec_old = ''src/a'', sec_new = ''src/a'',
     sec_hunks = [(1, 1, [''--- a/etc'', ''+++ b/etc'', '' diff --git a/x b/x''])]\<rparr>"

theorem patch_reading_complete_witness:
  "\<exists>scan. scan_patch (render_patch [tricky_section]) = Inr scan \<and> set (ps_files scan) = {''src/a''}"
proof -
  have "\<forall>f \<in> set [tricky_section]. plain_section f" by code_simp
  then show ?thesis using patch_reading_complete [of "[tricky_section]"] by (auto simp: tricky_section_def)
qed

section \<open>What the scanner does not see\<close>

text \<open>
  git separates lines at line feeds only, Python's \<open>splitlines\<close> also at a form feed (and at seven
  other characters).  The patch below adds one line with a form feed in it.
\<close>

definition lf_lines :: "string \<Rightarrow> string list" where
  "lf_lines s = butlast (split_char CHR 0x0A s)"

definition hidden_tail :: "string \<Rightarrow> string list" where
  "hidden_tail e = [''--- a/'' @ e, ''+++ b/'' @ e, hunk_header 1 1 1 1, ''-x'', ''+y'']"

definition form_feed_patch :: "string \<Rightarrow> string \<Rightarrow> string" where
  "form_feed_patch n e = unlines
     (section_lines \<lparr>sec_old = n, sec_new = n, sec_hunks = []\<rparr>
      @ [hunk_header 1 1 1 1, ''-x'', ''+y'' @ [CHR 0x0C] @ hunk_header 1 9 1 9] @ hidden_tail e)"

lemma header_line:
  "startswith (hunk_header s o' t n) ''@@''" "hunk_body_step (hunk_header s o' t n) = None"
  "list_all (\<lambda>c. \<not> is_linebreak c) (hunk_header s o' t n)" "CHR 0x0A \<notin> set (hunk_header s o' t n)"
proof -
  have d: "is_ascii_digit c \<Longrightarrow> \<not> is_linebreak c" for c
    by (auto simp: is_ascii_digit_def is_linebreak_def Let_def)
  have l: "is_linebreak CHR 0x0A" by (simp add: is_linebreak_def code_def)
  show "startswith (hunk_header s o' t n) ''@@''" "hunk_body_step (hunk_header s o' t n) = None"
    by (simp_all add: hunk_header_def startswith_iff_prefix hunk_body_step_def)
  show "list_all (\<lambda>c. \<not> is_linebreak c) (hunk_header s o' t n)"
    using str_nat_digits d by (auto simp: hunk_header_def list_all_iff)
  with l show "CHR 0x0A \<notin> set (hunk_header s o' t n)" by (auto simp: list_all_iff)
qed

text \<open>One turn of the loop for the lines that occur here.\<close>

lemma scan_step_body:
  "0 < old \<or> 0 < new \<Longrightarrow> hunk_body_step line = Some (a, b) \<Longrightarrow>
     scan_loop (line # rest) old new pend files probs = scan_loop rest (old - a) (new - b) pend files probs"
  by simp

lemma scan_step_hunk:
  "(0 < old \<or> 0 < new \<longrightarrow> hunk_body_step line = None) \<Longrightarrow> startswith line ''@@'' \<Longrightarrow> hunk_counts line = Some (o', n') \<Longrightarrow>
     scan_loop (line # rest) old new pend files probs = scan_loop rest o' n' pend files probs"
  by auto

lemma scan_step_names:
  "plain_name e \<Longrightarrow> scan_loop ((''--- a/'' @ e) # (''+++ b/'' @ e) # rest) 0 0 pend files probs
     = scan_loop rest 0 0 None (files @ [e, e]) probs"
  using decode_plain [of e "''a/''"] decode_plain [of e "''b/''"]
  by (simp add: startswith_iff_prefix git_header_prefix_def combined_header_prefixes_def present_def)

lemma scan_step_open:
  "0 < old \<or> 0 < new \<or> old = 0 \<and> new = 0 \<Longrightarrow>
     scan_loop (hunk_header s o' t n # rest) old new pend files probs = scan_loop rest o' n pend files probs"
  by (rule scan_step_hunk) (simp_all add: header_line hunk_counts_header)

lemma scan_one_line_hunk:
  assumes "hunk_body_step x = Some (1, 0)" "hunk_body_step y = Some (0, 1)"
  shows "scan_loop (hunk_header s 1 t 1 # x # y # rest) old new pend files probs = scan_loop rest 0 0 pend files probs"
proof -
  have "scan_loop (hunk_header s 1 t 1 # x # y # rest) old new pend files probs
      = scan_loop (x # y # rest) 1 1 pend files probs"
    by (rule scan_step_open) auto
  also have "\<dots> = scan_loop (y # rest) (1 - 1) (1 - 0) pend files probs"
    using assms by (intro scan_step_body) simp_all
  also have "\<dots> = scan_loop rest (1 - 1 - 0) (1 - 0 - 1) pend files probs"
    using assms by (intro scan_step_body) simp_all
  finally show ?thesis by (simp only: diff_self_eq_0 diff_zero)
qed

lemma form_feed_breaks:
  assumes "list_all (\<lambda>c. \<not> is_linebreak c) x"
  shows "splitlines (x @ CHR 0x0C # s) = x # splitlines s"
  using assms
proof (induction x)
  case Nil
  have "is_linebreak CHR 0x0C" by (simp add: is_linebreak_def code_def)
  then show ?case by simp
qed auto

lemma split_lf_unlines:
  "list_all (\<lambda>l. CHR 0x0A \<notin> set l) ls \<Longrightarrow> split_char CHR 0x0A (unlines ls) = ls @ [[]]"
  by (induction ls) (simp_all add: unlines_def split_char_append split_char_notin)

lemma plain_no_lf: "plain_name n \<Longrightarrow> CHR 0x0A \<notin> set n"
proof -
  have "is_linebreak CHR 0x0A" by (simp add: is_linebreak_def code_def)
  then show "plain_name n \<Longrightarrow> CHR 0x0A \<notin> set n" by (auto simp: plain_name_def list_all_iff)
qed

lemma form_feed_lines:
  assumes "plain_name n" "plain_name e"
  shows "splitlines (form_feed_patch n e) = section_lines \<lparr>sec_old = n, sec_new = n, sec_hunks = []\<rparr>
      @ [hunk_header 1 1 1 1, ''-x'', ''+y'', hunk_header 1 9 1 9] @ hidden_tail e"
proof -
  let ?ok = "list_all (list_all (\<lambda>c. \<not> is_linebreak c))"
  let ?s = "section_lines \<lparr>sec_old = n, sec_new = n, sec_hunks = []\<rparr>"
  let ?h = "hunk_header 1 1 1 1" and ?k = "hunk_header 1 9 1 9"
  have nb: "list_all (\<lambda>c. \<not> is_linebreak c) m" if "plain_name m" for m
    using that by (auto simp: plain_name_def list_all_iff)
  have [simp]: "\<not> is_linebreak CHR ''x''" "\<not> is_linebreak CHR ''y''"
    by (simp_all add: is_linebreak_def code_def)
  have ok: "?ok (?s @ [?h, ''-x''])" "?ok (hidden_tail e)"
    using assms nb [OF assms(2)] plain_lines [of "\<lparr>sec_old = n, sec_new = n, sec_hunks = []\<rparr>"]
    by (simp_all add: hidden_tail_def header_line plain_section_def)
  have sp: "splitlines (unlines xs @ s) = xs @ splitlines s" if "?ok xs" for xs s
    using that by (induction xs) (simp_all add: unlines_def splitlines_line)
  have ff: "splitlines (''+y'' @ CHR 0x0C # ?k @ CHR 0x0A # s) = ''+y'' # ?k # splitlines s" for s
    using form_feed_breaks [of "''+y''" "?k @ CHR 0x0A # s"] splitlines_line [of ?k s] by (simp add: header_line)
  have "form_feed_patch n e = unlines (?s @ [?h, ''-x'']) @ ''+y'' @ CHR 0x0C # ?k @ CHR 0x0A # unlines (hidden_tail e)"
    by (simp add: form_feed_patch_def unlines_def)
  then show ?thesis by (simp only: sp [OF ok(1)] ff splitlines_unlines [OF ok(2)]) simp
qed

lemma form_feed_lf_lines:
  assumes "plain_name n" "plain_name e"
  shows "lf_lines (form_feed_patch n e) = section_lines \<lparr>sec_old = n, sec_new = n, sec_hunks = []\<rparr>
      @ [hunk_header 1 1 1 1, ''-x'', ''+y'' @ [CHR 0x0C] @ hunk_header 1 9 1 9] @ hidden_tail e"
proof -
  have "split_char CHR 0x0A (form_feed_patch n e) = (section_lines \<lparr>sec_old = n, sec_new = n, sec_hunks = []\<rparr>
      @ [hunk_header 1 1 1 1, ''-x'', ''+y'' @ [CHR 0x0C] @ hunk_header 1 9 1 9] @ hidden_tail e) @ [[]]"
    unfolding form_feed_patch_def using plain_no_lf [OF assms(1)] plain_no_lf [OF assms(2)]
    by (intro split_lf_unlines) (simp add: section_lines_def hidden_tail_def git_header_prefix_def header_line)
  then show ?thesis by (simp only: lf_lines_def butlast_snoc)
qed

text \<open>A form feed in an added line hides a section from the gate: for any two file names the patch is
  read without problems as touching only the first, although the same reader applied to the lines git
  sees finds both.\<close>

theorem form_feed_hides_section:
  assumes "plain_name n" "plain_name e"
  shows "(\<exists>scan. scan_patch (form_feed_patch n e) = Inr scan \<and> set (ps_files scan) = {n} \<and> ps_problems scan = [])
    \<and> (\<exists>names. scan_loop (lf_lines (form_feed_patch n e)) 0 0 None [] [] = Inr (None, names, [])
          \<and> set names = {n, e})"
proof -
  let ?f = "\<lparr>sec_old = n, sec_new = n, sec_hunks = []\<rparr>"
  obtain ns where ns: "set ns = {n}"
    "\<And>rest files probs. scan_loop (section_lines ?f @ rest) 0 0 None files probs = scan_loop rest 0 0 None (files @ ns) probs"
    using scan_section [of ?f] assms(1) by (auto simp: plain_section_def)
  have body: "hunk_body_step (CHR ''-'' # l) = Some (1, 0)" "hunk_body_step (CHR ''+'' # l) = Some (0, 1)" for l
    by (simp_all add: hunk_body_step_def)
  note one = scan_one_line_hunk [OF body]
  have tail: "scan_loop (hidden_tail e) 9 9 None ns [] = Inr (None, ns, [])"
  proof -
    have "scan_loop (hidden_tail e) 9 9 None ns []
        = scan_loop ((''+++ b/'' @ e) # [hunk_header 1 1 1 1, ''-x'', ''+y'']) (9 - 1) (9 - 0) None ns []"
      unfolding hidden_tail_def by (rule scan_step_body) (simp_all add: body)
    also have "\<dots> = scan_loop [hunk_header 1 1 1 1, ''-x'', ''+y''] (9 - 1 - 0) (9 - 0 - 1) None ns []"
      by (rule scan_step_body) (simp_all add: body)
    finally show ?thesis by (simp only: one scan_loop.simps(1))
  qed
  have seen: "scan_loop ([hunk_header 1 1 1 1, ''-x'', ''+y'', hunk_header 1 9 1 9] @ hidden_tail e) 0 0 None ns []
      = Inr (None, ns, [])"
    by (simp only: append_Cons append_Nil one scan_step_open [of 0 0] simp_thms tail)
  have lf: "scan_loop ([hunk_header 1 1 1 1, ''-x'', ''+y'' @ [CHR 0x0C] @ hunk_header 1 9 1 9] @ hidden_tail e) 0 0 None ns []
      = Inr (None, ns @ [e, e], [])"
    unfolding hidden_tail_def append_Cons append_Nil one scan_step_names [OF assms(2), unfolded append_Cons append_Nil]
    by (simp only: one scan_loop.simps(1))
  have ne: "ns \<noteq> []" using ns(1) by (metis empty_set insert_not_empty)
  have scan: "scan_loop (splitlines (form_feed_patch n e)) 0 0 None [] [] = Inr (None, ns, [])"
    by (simp only: form_feed_lines [OF assms] ns(2) append_Nil seen)
  show ?thesis
  proof (intro conjI exI)
    show "scan_patch (form_feed_patch n e) = Inr \<lparr>ps_files = dedup ns, ps_problems = []\<rparr>"
      using ne by (simp only: scan_patch_def scan rbind_simps prod.case pending_problem_def option.case Let_def
          append_Nil2 simp_thms if_False)
    show "scan_loop (lf_lines (form_feed_patch n e)) 0 0 None [] [] = Inr (None, ns @ [e, e], [])"
      by (simp only: form_feed_lf_lines [OF assms] ns(2) append_Nil lf)
  qed (use ns(1) in auto)
qed

theorem form_feed_hides_section_witness:
  "\<exists>scan. scan_patch (form_feed_patch ''src/a'' ''.git/config'') = Inr scan \<and> set (ps_files scan) = {''src/a''}"
proof -
  have "plain_name ''src/a''" "plain_name ''.git/config''" by code_simp+
  from conjunct1 [OF form_feed_hides_section [OF this]] show ?thesis by (elim exE conjE) (intro exI conjI)
qed

text \<open>A rename as git writes it: the names of the header, and the names of the extended header lines.\<close>

definition rename_patch :: "string \<Rightarrow> string \<Rightarrow> string" where
  "rename_patch n e = unlines
     [git_header_prefix @ ''a/'' @ n @ '' b/'' @ n, ''similarity index 100%'', ''rename from '' @ n, ''rename to '' @ e]"

text \<open>The extended header lines are not read: a patch whose \<open>rename to\<close> line names another file than its
  \<open>diff --git\<close> line is read without problems, and the target of the rename is not among the files.\<close>

theorem rename_target_not_read:
  assumes "plain_name n" "plain_name e" "e \<noteq> n"
  shows "\<exists>scan. scan_patch (rename_patch n e) = Inr scan \<and> ps_problems scan = [] \<and> ps_files scan = [n]"
proof -
  have nb: "list_all (\<lambda>c. \<not> is_linebreak c) n" "list_all (\<lambda>c. \<not> is_linebreak c) e"
    using assms by (auto simp: plain_name_def list_all_iff)
  have lb: "\<not> is_linebreak CHR ''s''" "\<not> is_linebreak CHR ''m''" "\<not> is_linebreak CHR ''l''" "\<not> is_linebreak CHR ''r''"
    "\<not> is_linebreak CHR ''y''" "\<not> is_linebreak CHR ''n''" "\<not> is_linebreak CHR ''e''" "\<not> is_linebreak CHR ''x''"
    "\<not> is_linebreak CHR ''1''" "\<not> is_linebreak CHR ''0''" "\<not> is_linebreak CHR ''%''" "\<not> is_linebreak CHR ''o''"
    by (simp_all add: is_linebreak_def code_def)
  have lines: "splitlines (rename_patch n e)
      = [git_header_prefix @ ''a/'' @ n @ '' b/'' @ n, ''similarity index 100%'', ''rename from '' @ n, ''rename to '' @ e]"
    unfolding rename_patch_def using nb lb by (intro splitlines_unlines) (simp add: git_header_prefix_def)
  have "rstrip (''a/'' @ n @ '' b/'' @ n) = ''a/'' @ n @ '' b/'' @ n"
    using plain_nameD(6) [OF assms(1), of "''a/'' @ n @ '' b/''"] by simp
  then have hp: "git_header_paths (''a/'' @ n @ '' b/'' @ n) = Inr (Some [n])"
    using header_candidates_plain [OF assms(1) assms(1)] plain_nameD(1) [OF assms(1)]
    by (simp add: git_header_paths_def Let_def startswith_iff_prefix)
  have "scan_loop (splitlines (rename_patch n e)) 0 0 None [] [] = Inr (None, [n], [])"
    unfolding lines using hp
    by (simp add: git_header_prefix_def combined_header_prefixes_def startswith_iff_prefix pending_problem_def)
  then show ?thesis by (simp add: scan_patch_def pending_problem_def)
qed

theorem rename_target_not_read_witness:
  "\<exists>scan. scan_patch (rename_patch ''src/a'' ''.git/hooks/x'') = Inr scan \<and> ps_files scan = [''src/a'']"
proof -
  have "plain_name ''src/a''" "plain_name ''.git/hooks/x''" "''.git/hooks/x'' \<noteq> ''src/a''" by code_simp+
  from rename_target_not_read [OF this] show ?thesis by (elim exE conjE) (intro exI conjI)
qed

text \<open>A header whose first name is quoted and contains an octal escape.\<close>

definition octal_header :: "string \<Rightarrow> string \<Rightarrow> string" where
  "octal_header n digits = git_header_prefix @ [CHR 0x22] @ ''a/'' @ n @ [CHR 0x5C] @ digits @ [CHR 0x22] @ '' b/x''"

lemma read_quoted_octal:
  assumes "list_all (\<lambda>c. c \<noteq> CHR 0x22 \<and> c \<noteq> CHR 0x5C) n"
    "length ds = 3" "list_all is_octal ds" "255 < octal_val ds"
  shows "read_quoted (n @ CHR 0x5C # ds @ rest) raw = Inl (ValueError ''byte must be in range(0, 256)'')"
  using assms(1)
proof (induction n arbitrary: raw)
  case Nil
  obtain a b c where d: "ds = [a, b, c]"
    using assms(2) by (auto simp: numeral_3_eq_3 length_Suc_conv)
  have "is_octal a" using assms(3) d by simp
  then have "c_escape a = None" by (auto simp: is_octal_def c_escape_def)
  then show ?case using assms(3,4) d by simp
qed simp

text \<open>An octal escape above \<open>377\<close> in a quoted name is not reported as a problem of the patch: reading
  the patch raises \<open>ValueError\<close> and the gate returns no report at all.\<close>

theorem octal_escape_raises:
  assumes "plain_name n" "CHR 0x5C \<notin> set n" "length ds = 3" "list_all is_octal ds" "255 < octal_val ds"
    "wp_patch p = unlines [octal_header n ds]"
  shows "verify_patch_before_apply v w p = Inl (ValueError ''byte must be in range(0, 256)'')"
proof -
  have oct: "is_octal c \<Longrightarrow> \<not> is_linebreak c" for c
    by (auto simp: is_octal_def is_linebreak_def code_def)
  have lb: "\<not> is_linebreak CHR 0x22" "\<not> is_linebreak CHR 0x5C" "\<not> is_linebreak CHR ''x''"
    by (simp_all add: is_linebreak_def code_def)
  have nb: "list_all (\<lambda>c. \<not> is_linebreak c) n" "list_all (\<lambda>c. \<not> is_linebreak c) ds"
    using assms oct by (auto simp: plain_name_def list_all_iff)
  have lines: "splitlines (wp_patch p) = [octal_header n ds]"
    unfolding assms(6) using nb lb by (intro splitlines_unlines) (simp add: octal_header_def git_header_prefix_def)
  let ?q = "[CHR 0x22] @ ''a/'' @ n @ [CHR 0x5C] @ ds @ [CHR 0x22] @ '' b/x''"
  have "rstrip ?q = ?q"
    using rstrip_append_nonspace [of "CHR ''x''" "[CHR 0x22] @ ''a/'' @ n @ [CHR 0x5C] @ ds @ [CHR 0x22] @ '' b/''"]
    by (simp add: is_space_def code_def)
  moreover have "read_quoted ((''a/'' @ n) @ CHR 0x5C # ds @ [CHR 0x22] @ '' b/x'') []
      = Inl (ValueError ''byte must be in range(0, 256)'')"
    using assms plain_nameD(4) [OF assms(1)] by (intro read_quoted_octal) (auto simp: list_all_iff)
  ultimately have "git_header_paths ?q = Inl (ValueError ''byte must be in range(0, 256)'')"
    by (simp add: git_header_paths_def read_quoted_token_def startswith_iff_prefix)
  then have "scan_loop [octal_header n ds] 0 0 None [] [] = Inl (ValueError ''byte must be in range(0, 256)'')"
    by (simp add: octal_header_def git_header_prefix_def startswith_iff_prefix)
  then show ?thesis by (simp only: verify_patch_before_apply_def scan_patch_def lines rbind_simps)
qed

theorem octal_escape_raises_witness:
  "verify_patch_before_apply default_verifier (sample_item ''1'' 0 [] [''src''])
     \<lparr>wp_worker_name = ''w'', wp_work_item_id = ''1'', wp_patch = unlines [octal_header ''src/a'' ''400''],
      wp_notes = ''n''\<rparr> = Inl (ValueError ''byte must be in range(0, 256)'')"
  by (rule octal_escape_raises [of "''src/a''" "''400''"]) code_simp+

section \<open>The gate and the scheduler\<close>

text \<open>
  A scope entry is canonical when the scheduler's text form of it is the join of its components: it
  has no \<open>.\<close> and no empty component and names something below the repository root.
\<close>

definition canonical_scope :: "string list \<Rightarrow> bool" where
  "canonical_scope paths \<longleftrightarrow> list_all (\<lambda>a. repo_parts a \<noteq> []
     \<and> strip_char CHR ''/'' (replace_char CHR 0x5C CHR ''/'' (strip a)) = join ''/'' (repo_parts a)) paths"

lemma casefold_append: "casefold (x @ y) = casefold x @ casefold y"
  by (simp add: casefold_def)

lemma prefix_overlap:
  assumes "repo_parts a \<noteq> []" "prefix (repo_parts a) (repo_parts b)" "canonical_scope [a, b]"
  shows "paths_overlap (normalize_resource_path a) (normalize_resource_path b)"
proof -
  let ?n = "\<lambda>x. join ''/'' (repo_parts x)"
  have eq: "normalize_resource_path x = (if casefold (?n x) = [] then ''*'' else casefold (?n x))"
    if "x \<in> {a, b}" for x
    using that assms(3) by (auto simp: normalize_resource_path_def canonical_scope_def Let_def)
  consider "repo_parts a = repo_parts b" | "strict_prefix (repo_parts a) (repo_parts b)"
    using assms(2) by (auto simp: strict_prefix_def)
  then show ?thesis
  proof cases
    case 2
    then have "repo_parts b \<noteq> []" by auto
    then have "startswith (?n b) (?n a @ ''/'')"
      using 2 join_below_iff [OF repo_parts_ok repo_parts_ok assms(1)] by blast
    then obtain z where "?n b = ?n a @ ''/'' @ z" by (auto simp: startswith_iff_prefix prefix_def)
    then have "casefold (?n b) = casefold (?n a) @ casefold ''/'' @ casefold z"
      using casefold_append [of "''/''" z] by (simp add: casefold_append)
    moreover have "casefold ''/'' = ''/''" by code_simp
    ultimately show ?thesis by (simp add: eq paths_overlap_def startswith_iff_prefix)
  qed (simp add: eq paths_overlap_def)
qed

lemma disjoint_scopes:
  assumes "canonical_scope A" "canonical_scope B" "\<not> resource_scopes_conflict A B"
    "in_scope A f" "in_scope B g"
  shows "\<not> prefix (repo_parts f) (repo_parts g)"
proof
  assume fg: "prefix (repo_parts f) (repo_parts g)"
  have star: "normalize_resource_path ''*'' = ''*''" by code_simp
  have ne: "A \<noteq> []" "B \<noteq> []" and no: "\<And>a b. a \<in> set A \<Longrightarrow> b \<in> set B
      \<Longrightarrow> \<not> paths_overlap (normalize_resource_path a) (normalize_resource_path b)"
    using assms(3) by (auto simp: resource_scopes_conflict_def)
  have nostar: "''*'' \<notin> set A" "''*'' \<notin> set B"
    using ne no star by (force simp: paths_overlap_def neq_Nil_conv)+
  from assms(1,2,4,5) nostar obtain a b where ab: "a \<in> set A" "b \<in> set B"
    "repo_parts a \<noteq> []" "repo_parts b \<noteq> []" "prefix (repo_parts a) (repo_parts f)" "prefix (repo_parts b) (repo_parts g)"
    by (auto simp: in_scope_def canonical_scope_def list_all_iff split: if_splits)
  have "prefix (repo_parts a) (repo_parts g)" using ab(5) fg by (rule prefix_order.trans)
  with ab(6) have "prefix (repo_parts a) (repo_parts b) \<or> prefix (repo_parts b) (repo_parts a)"
    by (metis prefix_same_cases)
  moreover have "canonical_scope [a, b]" "canonical_scope [b, a]"
    using assms(1,2) ab(1,2) by (auto simp: canonical_scope_def list_all_iff)
  ultimately show False
    using prefix_overlap [of a b] prefix_overlap [of b a] ab no [OF ab(1,2)]
    by (auto simp: paths_overlap_def)
qed

lemma accepted_in_scope:
  assumes "verify_patch_before_apply v w p = Inr r" "vr_ok r" "scan_patch (wp_patch p) = Inr scan"
    "wi_allowed_paths w \<noteq> []" "f \<in> set (ps_files scan)"
  shows "in_scope (wi_allowed_paths w) f"
  using verify_before_ok_iff [of v w p] assms by (auto simp: patch_admissible_def)


definition touching :: "string \<Rightarrow> string \<Rightarrow> worker_patch" where
  "touching w n = \<lparr>wp_worker_name = ''w'', wp_work_item_id = w,
     wp_patch = render_patch [\<lparr>sec_old = n, sec_new = n, sec_hunks = [(1, 1, [''-x'', ''+y''])]\<rparr>], wp_notes = ''n''\<rparr>"

definition two_tasks :: "string \<Rightarrow> string \<Rightarrow> queue_task list" where
  "two_tasks a b = [sample_task ''1'' 0 [] [a] Queued, sample_task ''2'' 0 [] [b] Queued]"


text \<open>Without canonical scopes the two parts disagree: with the scopes \<open>./src\<close> and \<open>src\<close> both tasks are
  put in one batch, and for both the gate accepts a patch of the same file.\<close>

theorem batch_shares_file:
  "schedule_batch 2 (two_tasks ''./src'' ''src'') = Inr (two_tasks ''./src'' ''src'')
   \<and> map_sum id vr_ok (verify_patch_before_apply default_verifier (qt_work_item (two_tasks ''./src'' ''src'' ! 0)) (touching ''1'' ''src/a'')) = Inr True
   \<and> map_sum id vr_ok (verify_patch_before_apply default_verifier (qt_work_item (two_tasks ''./src'' ''src'' ! 1)) (touching ''2'' ''src/a'')) = Inr True"
  by (intro conjI; code_simp)

end
