(* ===== verification/Command_Policy.thy ===== *)
theory Command_Policy imports Domain Py_Path "HOL-Library.List_Lexorder" "HOL-Library.Char_ord" begin

text \<open>
  \<open>src/llm_harness/command_policy.py\<close>: what a verification command may run.  A command is split into
  words with \<open>shlex\<close>, refused when it uses a shell operator or starts a shell, and checked against
  the list of allowed programs.  POSIX only.  Whether a program is the running interpreter is a
  parameter (\<open>_is_running_interpreter\<close> resolves links in the file system).
\<close>

section \<open>\<open>shlex\<close>\<close>

text \<open>
  The lexer of the standard library in POSIX mode with \<open>whitespace_split\<close>: \<open>comments\<close> tells whether
  \<open>#\<close> starts a comment, \<open>pc\<close> are the \<open>punctuation_chars\<close>.  \<open>tok\<close> and \<open>q\<close> are the token read so far and
  whether a part of it was quoted; the state of an escape remembers where to return.
\<close>

datatype lex_state = Blank | Word | Punct | Quoted char | Escaped "char option"

definition shlex_space :: "char \<Rightarrow> bool" where
  "shlex_space c \<longleftrightarrow> c \<in> {CHR '' '', CHR 0x09, CHR 0x0D, CHR 0x0A}"

definition shlex_quote :: "char \<Rightarrow> bool" where
  "shlex_quote c \<longleftrightarrow> c = CHR 0x27 \<or> c = CHR 0x22"

definition skip_line :: "string \<Rightarrow> string" where
  "skip_line s = tl (dropWhile (\<lambda>c. c \<noteq> CHR 0x0A) s)"

definition emit :: "string \<Rightarrow> bool \<Rightarrow> string list res \<Rightarrow> string list res" where
  "emit tok q r = (if tok \<noteq> [] \<or> q then rbind r (\<lambda>ts. Inr (tok # ts)) else r)"

definition after_escape :: "char option \<Rightarrow> lex_state" where
  "after_escape k = (case k of None \<Rightarrow> Word | Some c \<Rightarrow> Quoted c)"

lemma skip_line_length [termination_simp]: "length (skip_line s) \<le> length s"
  using length_dropWhile_le [of "\<lambda>c. c \<noteq> CHR 0x0A" s] unfolding skip_line_def length_tl by linarith

function lex :: "bool \<Rightarrow> string \<Rightarrow> string \<Rightarrow> lex_state \<Rightarrow> string \<Rightarrow> bool \<Rightarrow> string list res" where
  "lex comments pc [] st tok q = (case st of
     Blank \<Rightarrow> Inr []
   | Quoted _ \<Rightarrow> Inl (ValueError ''No closing quotation'')
   | Escaped _ \<Rightarrow> Inl (ValueError ''No escaped character'')
   | _ \<Rightarrow> emit tok q (Inr []))"
| "lex comments pc (c # cs) st tok q = (case st of
     Blank \<Rightarrow>
       if shlex_space c then lex comments pc cs Blank [] False
       else if comments \<and> c = CHR ''#'' then lex comments pc (skip_line cs) Blank [] False
       else if c = CHR 0x5C then lex comments pc cs (Escaped None) [] False
       else if c \<in> set pc then lex comments pc cs Punct [c] False
       else if shlex_quote c then lex comments pc cs (Quoted c) [] True
       else lex comments pc cs Word [c] False
   | Quoted d \<Rightarrow>
       if c = d then lex comments pc cs Word tok q
       else if c = CHR 0x5C \<and> d = CHR 0x22 then lex comments pc cs (Escaped (Some d)) tok q
       else lex comments pc cs (Quoted d) (tok @ [c]) q
   | Escaped k \<Rightarrow>
       lex comments pc cs (after_escape k)
         (tok @ (if k \<noteq> None \<and> c \<noteq> CHR 0x5C \<and> Some c \<noteq> k then [CHR 0x5C] else []) @ [c]) q
   | Word \<Rightarrow>
       if shlex_space c then emit tok q (lex comments pc cs Blank [] False)
       else if comments \<and> c = CHR ''#'' then emit tok q (lex comments pc (skip_line cs) Blank [] False)
       else if shlex_quote c then lex comments pc cs (Quoted c) tok True
       else if c = CHR 0x5C then lex comments pc cs (Escaped None) tok q
       else if c \<notin> set pc then lex comments pc cs Word (tok @ [c]) q
       else emit tok q (lex comments pc cs Punct [c] False)
   | Punct \<Rightarrow>
       if shlex_space c then emit tok q (lex comments pc cs Blank [] False)
       else if comments \<and> c = CHR ''#'' then emit tok q (lex comments pc (skip_line cs) Blank [] False)
       else if c \<in> set pc then lex comments pc cs Punct (tok @ [c]) q
       else emit tok q
         (if c = CHR 0x5C then lex comments pc cs (Escaped None) [] False
          else if shlex_quote c then lex comments pc cs (Quoted c) [] True
          else lex comments pc cs Word [c] False))"
  by pat_completeness auto
termination
  by (relation "measure (\<lambda>(_, _, s, _). length s)") (auto simp: less_Suc_eq_le skip_line_length)

definition shlex_split :: "string \<Rightarrow> string list res" where
  "shlex_split s = lex False [] s Blank [] False"

section \<open>The policy\<close>

record command_policy =
  cp_allowed_commands :: "string list"
  cp_allow_unlisted_commands :: bool
  cp_inherit_secret_environment :: bool

definition default_allowed_commands :: "string list" where
  "default_allowed_commands =
     [''cargo'', ''composer'', ''ctest'', ''dotnet'', ''flake8'', ''go'', ''gradle'', ''gradlew'', ''java'',
      ''make'', ''mvn'', ''mypy'', ''node'', ''npm'', ''npx'', ''phpunit'', ''pnpm'', ''poetry'', ''py'', ''pytest'',
      ''python'', ''python3'', ''rake'', ''ruff'', ''ruby'', ''tox'', ''yarn'']"

definition default_policy :: command_policy where
  "default_policy = \<lparr>cp_allowed_commands = default_allowed_commands, cp_allow_unlisted_commands = False,
     cp_inherit_secret_environment = False\<rparr>"

definition operator_policy :: command_policy where
  "operator_policy = \<lparr>cp_allowed_commands = [], cp_allow_unlisted_commands = True,
     cp_inherit_secret_environment = True\<rparr>"

definition blocked_executables :: "string list" where
  "blocked_executables =
     [''ash'', ''bash'', ''busybox'', ''cmd'', ''cmd.exe'', ''csh'', ''dash'', ''env'', ''fish'', ''ksh'', ''powershell'',
      ''powershell.exe'', ''pwsh'', ''sh'', ''start'', ''tcsh'', ''zsh'']"

definition control_punctuation :: string where
  "control_punctuation = ''&|;<>()''"

definition shell_operators :: "string \<Rightarrow> string list" where
  "shell_operators cmd = (case lex True ''();<>|&'' cmd Blank [] False of
     Inl _ \<Rightarrow> []
   | Inr tokens \<Rightarrow> filter (\<lambda>t. t \<noteq> [] \<and> set t \<subseteq> set control_punctuation) tokens)"

definition executable_suffixes :: "string list" where
  "executable_suffixes = [''.exe'', ''.cmd'', ''.bat'', ''.com'']"

definition executable_name :: "string \<Rightarrow> string" where
  "executable_name v =
     (let name = casefold (path_name (path_of (replace_char CHR 0x5C CHR ''/'' v))) in
      case List.find (endswith name) executable_suffixes of
        None \<Rightarrow> name
      | Some sfx \<Rightarrow> take (length name - length sfx) name)"

text \<open>\<open>CommandPolicy.resolve\<close>; \<open>running\<close> is \<open>_is_running_interpreter\<close>.\<close>

definition resolve_command :: "(string \<Rightarrow> bool) \<Rightarrow> command_policy \<Rightarrow> string \<Rightarrow> string list res" where
  "resolve_command running p cmd =
     (if strip cmd = [] then Inl (ValueError ''Verification command is empty.'')
      else case shlex_split cmd of
        Inl e \<Rightarrow> Inl (ValueError (''Verification command cannot be parsed: '' @ exn_message e))
      | Inr [] \<Rightarrow> Inl (ValueError ''Verification command is empty.'')
      | Inr (program # args) \<Rightarrow>
          let operators = shell_operators cmd; executable = executable_name program in
          if operators \<noteq> [] then
            Inl (ValueError (''Verification command uses shell operators ('' @ join '', '' (sort (dedup operators))
              @ ''), but HoH runs verification commands without a shell. Split it into separate verification commands.''))
          else if executable \<in> set blocked_executables then
            Inl (ValueError (''Verification command '' @ [CHR 0x27] @ executable @ [CHR 0x27]
              @ '' would start a shell, which HoH never runs on behalf of a planning model. Name the test runner directly instead.''))
          else if cp_allow_unlisted_commands p \<or> running program then Inr (program # args)
          else if executable \<notin> set (map casefold (cp_allowed_commands p)) then
            Inl (ValueError (''Verification command '' @ [CHR 0x27] @ executable @ [CHR 0x27]
              @ '' is not in the allowed command list. Add it to [verification] allowed_commands, or set allow_unlisted_commands if you accept running arbitrary planner-provided programs.''))
          else Inr (program # args))"

section \<open>The environment of a command\<close>

definition secret_words :: "string list" where
  "secret_words = [''token'', ''secret'', ''password'', ''passwd'', ''apikey'', ''api_key'', ''api-key'', ''credential'',
     ''privatekey'', ''private_key'', ''private-key'', ''session'', ''cookie'']"

text \<open>\<open>SECRET_ENV_RE.search(name)\<close>: a word occurs in the name, in any case.\<close>

definition secret_name :: "string \<Rightarrow> bool" where
  "secret_name n \<longleftrightarrow> list_ex (\<lambda>w. list_ex (\<lambda>i. startswith (drop i (lower n)) w) [0..<Suc (length n)]) secret_words"

definition child_environment :: "command_policy \<Rightarrow> (string \<times> string) list \<Rightarrow> (string \<times> string) list" where
  "child_environment p env =
     (if cp_inherit_secret_environment p then env else filter (\<lambda>(n, _). \<not> secret_name n) env)"

end
