(* ===== verification/Command_Props.thy ===== *)
theory Command_Props imports Command_Policy begin

text \<open>
  What the command policy detects: on commands without quoting, escapes and comment signs the
  operator check is exact; a comment sign switches it off.
\<close>

section \<open>Commands without quoting\<close>

definition unquoted :: "string \<Rightarrow> bool" where
  "unquoted s \<longleftrightarrow> list_all (\<lambda>c. \<not> shlex_quote c \<and> c \<noteq> CHR 0x5C \<and> c \<noteq> CHR ''#'') s"

abbreviation operator_chars :: string where
  "operator_chars \<equiv> ''();<>|&''"

lemma operator_chars_control: "set operator_chars = set control_punctuation"
  by (auto simp: control_punctuation_def)

definition is_operator :: "string \<Rightarrow> bool" where
  "is_operator t \<longleftrightarrow> t \<noteq> [] \<and> set t \<subseteq> set operator_chars"

lemma lex_unquoted:
  assumes "unquoted cs" "case st of Blank \<Rightarrow> tok = [] | Word \<Rightarrow> tok \<noteq> [] \<and> set tok \<inter> set operator_chars = {}
      | Punct \<Rightarrow> is_operator tok | _ \<Rightarrow> False"
  shows "\<exists>ts. lex True operator_chars cs st tok False = Inr ts
    \<and> (list_ex is_operator ts \<longleftrightarrow> st = Punct \<or> set cs \<inter> set operator_chars \<noteq> {})"
  using assms
proof (induction cs arbitrary: st tok)
  case Nil
  then show ?case
    by (cases st; cases tok) (auto simp: emit_def is_operator_def)
next
  case (Cons c cs)
  let ?o = "set operator_chars"
  have c: "\<not> shlex_quote c" "c \<noteq> CHR 0x5C" "c \<noteq> CHR ''#''" and cs: "unquoted cs"
    using Cons.prems(1) by (auto simp: unquoted_def)
  have sp: "shlex_space c \<Longrightarrow> c \<notin> ?o" by (auto simp: shlex_space_def)
  note IH = Cons.IH [OF cs]
  from IH [of "[]" Blank] obtain b where b: "lex True operator_chars cs Blank [] False = Inr b"
    "list_ex is_operator b \<longleftrightarrow> set cs \<inter> ?o \<noteq> {}" by auto
  consider (space) "shlex_space c" "c \<notin> ?o" | (operator) "c \<in> ?o" "\<not> shlex_space c" | (char) "\<not> shlex_space c" "c \<notin> ?o"
    using sp by blast
  then show ?case
  proof cases
    case space
    have "lex True operator_chars (c # cs) st tok False = (if st = Blank then Inr b else Inr (tok # b))"
      using Cons.prems(2) space b c by (cases st) (auto simp: emit_def is_operator_def)
    moreover have "st = Word \<Longrightarrow> \<not> is_operator tok" "st = Punct \<Longrightarrow> is_operator tok"
      using Cons.prems(2) by (cases tok; auto simp: is_operator_def)+
    ultimately show ?thesis using b(2) Cons.prems(2) space by (cases st) (simp_all del: lex.simps)
  next
    case operator
    have o: "is_operator (x @ [c])" if "x = [] \<or> is_operator x" for x
      using that operator(1) by (auto simp: is_operator_def)
    obtain ts us where "lex True operator_chars cs Punct [c] False = Inr ts" "list_ex is_operator ts"
      "st = Punct \<Longrightarrow> lex True operator_chars cs Punct (tok @ [c]) False = Inr us \<and> list_ex is_operator us"
      using IH [of "[c]" Punct] IH [of "tok @ [c]" Punct] o [of "[]"] o [of tok] Cons.prems(2) by (cases st) auto
    then have "\<exists>ts. lex True operator_chars (c # cs) st tok False = Inr ts \<and> list_ex is_operator ts"
      using Cons.prems(2) operator c by (cases st) (simp_all add: emit_def)
    then show ?thesis using operator by (auto simp del: lex.simps)
  next
    case char
    then obtain ts where ts: "lex True operator_chars cs Word [c] False = Inr ts"
      "list_ex is_operator ts \<longleftrightarrow> set cs \<inter> ?o \<noteq> {}" using IH [of "[c]" Word] by auto
    have w: "lex True operator_chars (c # cs) st tok False
        = (if st = Blank then Inr ts else if st = Word then lex True operator_chars cs Word (tok @ [c]) False else Inr (tok # ts))"
      using Cons.prems(2) char ts(1) c by (cases st) (auto simp: emit_def is_operator_def)
    have "set (c # cs) \<inter> ?o = set cs \<inter> ?o" using char(2) by simp
    moreover have "st = Word \<Longrightarrow> ?thesis"
      using IH [of "tok @ [c]" Word] Cons.prems(2) char(2) w calculation by (auto simp del: lex.simps)
    ultimately show ?thesis using w ts Cons.prems(2) by (cases st) (simp_all del: lex.simps)
  qed
qed

lemma filter_operators: "filter (\<lambda>t. t \<noteq> [] \<and> set t \<subseteq> set control_punctuation) ts = [] \<longleftrightarrow> \<not> list_ex is_operator ts"
  unfolding operator_chars_control [symmetric]
  by (auto simp: is_operator_def list_ex_iff filter_empty_conv)

text \<open>C10: On a command without quotes, escapes and comment signs the operator check is exact: it reports an
  operator if and only if one of the characters \<open>& | ; < > ( )\<close> occurs, wherever it stands.\<close>

theorem operators_found_iff:
  assumes "unquoted cmd"
  shows "shell_operators cmd = [] \<longleftrightarrow> set cmd \<inter> set control_punctuation = {}"
proof -
  obtain ts where ts: "lex True operator_chars cmd Blank [] False = Inr ts"
    "list_ex is_operator ts \<longleftrightarrow> set cmd \<inter> set operator_chars \<noteq> {}"
    using lex_unquoted [OF assms, of "[]" Blank] by auto
  have "shell_operators cmd = filter (\<lambda>t. t \<noteq> [] \<and> set t \<subseteq> set control_punctuation) ts"
    by (simp only: shell_operators_def ts(1) sum.case)
  then show ?thesis using ts(2) by (simp only: filter_operators operator_chars_control not_not)
qed

theorem operators_found_iff_witness:
  "shell_operators ''set PYTHONPATH=src&& python -m unittest'' \<noteq> []"
proof -
  have "unquoted ''set PYTHONPATH=src&& python -m unittest''" by code_simp
  moreover have "set ''set PYTHONPATH=src&& python -m unittest'' \<inter> set control_punctuation \<noteq> {}" by code_simp
  ultimately show ?thesis using operators_found_iff by blast
qed

section \<open>What is accepted\<close>

text \<open>A command is accepted exactly when it has words, uses no operator, does not start a shell and
  names an allowed program (any program under the operator's policy, or the running interpreter); what
  is returned are its words.\<close>

lemma resolve_command_iff:
  "resolve_command running p cmd = Inr argv \<longleftrightarrow>
     strip cmd \<noteq> [] \<and> shlex_split cmd = Inr argv \<and> argv \<noteq> [] \<and> shell_operators cmd = []
     \<and> executable_name (hd argv) \<notin> set blocked_executables
     \<and> (cp_allow_unlisted_commands p \<or> running (hd argv)
        \<or> executable_name (hd argv) \<in> casefold ` set (cp_allowed_commands p))"
  by (cases "shlex_split cmd"; cases argv) (auto simp: resolve_command_def Let_def split: list.splits if_splits)

section \<open>Comment signs and quotes\<close>

text \<open>The words before and after a comment sign: \<open>x#y\<close> is one word for the command, a comment for the check.\<close>

definition plain_word :: "string \<Rightarrow> bool" where
  "plain_word w \<longleftrightarrow> w \<noteq> [] \<and> unquoted w \<and> set w \<inter> set operator_chars = {} \<and> list_all (\<lambda>c. \<not> shlex_space c) w"

lemma lex_word:
  assumes "unquoted w" "set w \<inter> set pc = {}" "list_all (\<lambda>c. \<not> shlex_space c) w"
  shows "lex b pc (w @ s) Word tok q = lex b pc s Word (tok @ w) q"
  using assms by (induction w arbitrary: tok) (auto simp: unquoted_def)

lemma lex_blank_word:
  assumes "plain_word w" "set pc \<subseteq> set operator_chars"
  shows "lex b pc (w @ s) Blank [] False = lex b pc s Word w False"
proof -
  obtain c v where w: "w = c # v" using assms by (cases w) (auto simp: plain_word_def)
  have "lex b pc (v @ s) Word [c] False = lex b pc s Word ([c] @ v) False"
    using assms w by (intro lex_word) (auto simp: plain_word_def unquoted_def)
  then show ?thesis using assms w by (auto simp: plain_word_def unquoted_def)
qed

text \<open>Whatever follows a comment sign escapes the operator check, although the command is run with those
  words: behind a word that ends in \<open>#\<close> every further word, an operator too, reaches the program.\<close>

theorem comment_hides_operators:
  assumes "plain_word p" "plain_word w" "list_all (\<lambda>c. c \<noteq> CHR 0x0A) rest" "shlex_split rest = Inr args"
  shows "shell_operators (p @ '' '' @ w @ ''# '' @ rest) = []
    \<and> shlex_split (p @ '' '' @ w @ ''# '' @ rest) = Inr (p # (w @ ''#'') # args)"
proof
  have skip: "skip_line ('' '' @ rest) = []"
    using assms(3) by (induction rest) (auto simp: skip_line_def)
  have ne: "p \<noteq> []" "w \<noteq> []" using assms(1,2) by (auto simp: plain_word_def)
  have "lex True operator_chars (p @ '' '' @ w @ ''# '' @ rest) Blank [] False = Inr [p, w]"
    using lex_blank_word [OF assms(1), of operator_chars True] lex_blank_word [OF assms(2), of operator_chars True] ne skip
    by (simp add: shlex_space_def emit_def)
  moreover have "\<not> list_ex is_operator [p, w]"
    using assms(1,2) by (cases p; cases w) (auto simp: plain_word_def is_operator_def)
  ultimately show "shell_operators (p @ '' '' @ w @ ''# '' @ rest) = []"
    using filter_operators [of "[p, w]"] by (simp add: shell_operators_def)
  have "lex False [] (p @ '' '' @ w @ ''# '' @ rest) Blank [] False
      = emit p False (emit (w @ ''#'') False (lex False [] rest Blank [] False))"
    using lex_blank_word [OF assms(1), of "[]" False] lex_blank_word [OF assms(2), of "[]" False]
    by (simp add: shlex_space_def shlex_quote_def)
  then show "shlex_split (p @ '' '' @ w @ ''# '' @ rest) = Inr (p # (w @ ''#'') # args)"
    using assms(4) ne by (simp add: shlex_split_def emit_def)
qed

theorem comment_hides_operators_witness:
  "resolve_command (\<lambda>_. False) default_policy ''pytest tests# && curl x''
     = Inr [''pytest'', ''tests#'', ''&&'', ''curl'', ''x'']"
proof -
  have h: "plain_word ''pytest''" "plain_word ''tests''" "list_all (\<lambda>c. c \<noteq> CHR 0x0A) ''&& curl x''"
    "shlex_split ''&& curl x'' = Inr [''&&'', ''curl'', ''x'']" by code_simp+
  have "strip ''pytest tests# && curl x'' \<noteq> []" "executable_name ''pytest'' \<notin> set blocked_executables"
    "executable_name ''pytest'' \<in> set (map casefold (cp_allowed_commands default_policy))" by code_simp+
  then show ?thesis using comment_hides_operators [OF h] by (simp add: resolve_command_def Let_def)
qed

text \<open>A quoted word of operator characters is refused like an operator: the check sees words, not quotes.\<close>

theorem quoted_operator_refused:
  assumes "plain_word w" "is_operator t"
  shows "shlex_split (w @ '' '' @ [CHR 0x22] @ t @ [CHR 0x22]) = Inr [w, t]
    \<and> shell_operators (w @ '' '' @ [CHR 0x22] @ t @ [CHR 0x22]) = [t]"
proof
  have q: "lex b pc (u @ [CHR 0x22]) (Quoted CHR 0x22) tok True = Inr [tok @ u]"
    if "set u \<subseteq> set operator_chars" for b pc u tok
    using that by (induction u arbitrary: tok) (auto simp: emit_def)
  have ne: "w \<noteq> []" and t: "set t \<subseteq> set operator_chars" using assms by (auto simp: plain_word_def is_operator_def)
  have two: "lex b pc (w @ '' '' @ [CHR 0x22] @ t @ [CHR 0x22]) Blank [] False = Inr [w, t]"
    if "set pc \<subseteq> set operator_chars" for b pc
  proof -
    have "CHR 0x22 \<notin> set pc" using that by auto
    then show ?thesis
      using lex_blank_word [OF assms(1) that, of b] q [OF t] ne by (simp add: shlex_space_def shlex_quote_def emit_def)
  qed
  show "shlex_split (w @ '' '' @ [CHR 0x22] @ t @ [CHR 0x22]) = Inr [w, t]"
    unfolding shlex_split_def by (rule two) simp
  have "\<not> is_operator w" using assms(1) by (cases w) (auto simp: plain_word_def is_operator_def)
  then show "shell_operators (w @ '' '' @ [CHR 0x22] @ t @ [CHR 0x22]) = [t]"
    unfolding shell_operators_def two [OF order_refl] using assms(2)
    unfolding operator_chars_control [symmetric] by (auto simp: is_operator_def)
qed

theorem quoted_operator_refused_witness:
  "shell_operators (''pytest '' @ [CHR 0x22] @ ''|'' @ [CHR 0x22]) = [''|'']"
proof -
  have "plain_word ''pytest''" "is_operator ''|''" by code_simp+
  from quoted_operator_refused [OF this] show ?thesis by simp
qed

end
