(* ===== verification/Git_Ops.thy ===== *)
theory Git_Ops imports Domain Py_Path begin

text \<open>
  \<open>src/llm_harness/git_ops.py\<close>: every use the program makes of git, and the verification commands.

  The programs themselves are parameters, gathered in a record \<open>machine\<close> over the type \<open>'r\<close> of
  everything they can see and change (repositories, work trees, processes).  \<open>mc_git\<close> is one run
  of \<open>git\<close> with its arguments, working directory and input; \<open>mc_exec\<close> one run of a
  verification command.  What is modelled is the code around them: the arguments, the reading of
  the exit status and the output, the errors.  Output is text (\<open>decode_process_output\<close> decodes it).
\<close>

section \<open>Programs\<close>

record completed =
  co_code :: int
  co_out :: string
  co_err :: string

datatype exec_outcome = Completed completed | Timed_Out string | Not_Started string

record 'r machine =
  mc_git :: "string list \<Rightarrow> path \<Rightarrow> string option \<Rightarrow> 'r \<Rightarrow> completed \<times> 'r"
  mc_exec :: "string list \<Rightarrow> path \<Rightarrow> string \<Rightarrow> 'r \<Rightarrow> exec_outcome \<times> 'r"

definition run_git :: "('r, 'x) machine_scheme \<Rightarrow> string list \<Rightarrow> path \<Rightarrow> string option \<Rightarrow> ('r, completed) op" where
  "run_git mc args repo inp = (\<lambda>r. let (c, r') = mc_git mc args repo inp r in (Inr c, r'))"

text \<open>\<open>raise GitError(result.stderr.strip() or fallback)\<close>\<close>

definition git_error :: "completed \<Rightarrow> string \<Rightarrow> exn" where
  "git_error c fallback = GitError (if strip (co_err c) = [] then fallback else strip (co_err c))"

text \<open>A command whose exit status must be zero.\<close>

definition git_checked ::
  "('r, 'x) machine_scheme \<Rightarrow> string list \<Rightarrow> path \<Rightarrow> string option \<Rightarrow> string \<Rightarrow> ('r, string) op" where
  "git_checked mc args repo inp fallback =
     mbind (run_git mc args repo inp) (\<lambda>c.
     if co_code c \<noteq> 0 then raise (git_error c fallback) else ret (co_out c))"

section \<open>Queries\<close>

definition ensure_git_repository :: "('r, 'x) machine_scheme \<Rightarrow> path \<Rightarrow> ('r, unit) op" where
  "ensure_git_repository mc repo =
     mbind (run_git mc [''git'', ''rev-parse'', ''--is-inside-work-tree''] repo None) (\<lambda>c.
     require (co_code c = 0 \<and> strip (co_out c) = ''true'') (GitError (''Not a git repository: '' @ path_str repo)))"

definition repository_is_clean :: "('r, 'x) machine_scheme \<Rightarrow> path \<Rightarrow> ('r, bool) op" where
  "repository_is_clean mc repo =
     mbind (git_checked mc [''git'', ''status'', ''--porcelain''] repo None ''git status failed'') (\<lambda>out.
     ret (strip out = []))"

definition resolve_commit :: "('r, 'x) machine_scheme \<Rightarrow> path \<Rightarrow> string \<Rightarrow> ('r, string) op" where
  "resolve_commit mc repo revision =
     mbind (git_checked mc [''git'', ''rev-parse'', ''--verify'', revision @ ''^{commit}''] repo None
       (''Unknown git commit: '' @ revision)) (\<lambda>out. ret (strip out))"

definition current_head :: "('r, 'x) machine_scheme \<Rightarrow> path \<Rightarrow> ('r, string) op" where
  "current_head mc repo = resolve_commit mc repo ''HEAD''"

text \<open>The hashes in the output of \<open>git log --format=%H%x00%B%x00\<close>: every second part that is not blank.\<close>

fun every_second :: "'a list \<Rightarrow> 'a list" where
  "every_second [] = []"
| "every_second [x] = [x]"
| "every_second (x # _ # xs) = x # every_second xs"

definition trailer_matches :: "string \<Rightarrow> string list" where
  "trailer_matches out = map strip (every_second (filter (\<lambda>p. strip p \<noteq> []) (split_char CHR 0x00 out)))"

definition find_commit_by_trailer ::
  "('r, 'x) machine_scheme \<Rightarrow> path \<Rightarrow> string \<Rightarrow> string \<Rightarrow> ('r, string option) op" where
  "find_commit_by_trailer mc repo trailer v =
     mbind (git_checked mc
       [''git'', ''log'', ''--all'', ''--format=%H%x00%B%x00'', ''--grep=^'' @ trailer @ '': '' @ v @ ''$'']
       repo None ''git log trailer lookup failed'') (\<lambda>out.
     case trailer_matches out of
       [] \<Rightarrow> ret None
     | [m] \<Rightarrow> ret (Some m)
     | _ \<Rightarrow> raise (GitError (''Multiple commits reference '' @ trailer @ '': '' @ v)))"

definition commit_is_ancestor :: "('r, 'x) machine_scheme \<Rightarrow> path \<Rightarrow> string \<Rightarrow> string \<Rightarrow> ('r, bool) op" where
  "commit_is_ancestor mc repo ancestor descendant =
     mbind (run_git mc [''git'', ''merge-base'', ''--is-ancestor'', ancestor, descendant] repo None) (\<lambda>c.
     if co_code c = 0 then ret True
     else if co_code c = 1 then ret False
     else raise (git_error c ''git merge-base --is-ancestor failed''))"

definition commit_parents :: "('r, 'x) machine_scheme \<Rightarrow> path \<Rightarrow> string \<Rightarrow> ('r, string list) op" where
  "commit_parents mc repo c =
     mbind (git_checked mc [''git'', ''show'', ''-s'', ''--format=%P'', c] repo None ''git show parents failed'')
       (\<lambda>out. ret (split_ws (strip out)))"

definition nonblank_lines :: "string \<Rightarrow> string list" where
  "nonblank_lines out = map strip (filter (\<lambda>l. strip l \<noteq> []) (splitlines out))"

definition commit_changed_files :: "('r, 'x) machine_scheme \<Rightarrow> path \<Rightarrow> string \<Rightarrow> ('r, string list) op" where
  "commit_changed_files mc repo c =
     mbind (git_checked mc
       [''git'', ''diff-tree'', ''--root'', ''--no-commit-id'', ''--name-only'', ''-r'', c] repo None
       ''git diff-tree failed'') (\<lambda>out. ret (nonblank_lines out))"

section \<open>Changes\<close>

definition revert_commit_no_commit :: "('r, 'x) machine_scheme \<Rightarrow> path \<Rightarrow> string \<Rightarrow> ('r, unit) op" where
  "revert_commit_no_commit mc repo c =
     mseq (git_checked mc [''git'', ''revert'', ''--no-commit'', c] repo None
       (''git revert --no-commit failed for '' @ c)) (ret ())"

definition apply_patch :: "('r, 'x) machine_scheme \<Rightarrow> path \<Rightarrow> string \<Rightarrow> ('r, unit) op" where
  "apply_patch mc repo patch =
     mseq (git_checked mc [''git'', ''apply'', ''--check''] repo (Some patch) ''git apply --check failed'')
    (mseq (git_checked mc [''git'', ''apply''] repo (Some patch) ''git apply failed'') (ret ()))"

definition stage_paths :: "('r, 'x) machine_scheme \<Rightarrow> path \<Rightarrow> string list \<Rightarrow> ('r, unit) op" where
  "stage_paths mc repo paths =
     (if paths = [] then ret ()
      else mseq (git_checked mc ([''git'', ''add'', ''--''] @ paths) repo None ''git add paths failed'') (ret ()))"

definition restore_paths_to_head :: "('r, 'x) machine_scheme \<Rightarrow> path \<Rightarrow> string list \<Rightarrow> ('r, unit) op" where
  "restore_paths_to_head mc repo paths =
     (if paths = [] then ret ()
      else mseq (git_checked mc ([''git'', ''restore'', ''--staged'', ''--worktree'', ''--''] @ paths) repo None
        ''git restore paths failed'') (ret ()))"

definition commit_staged :: "('r, 'x) machine_scheme \<Rightarrow> path \<Rightarrow> string \<Rightarrow> ('r, string option) op" where
  "commit_staged mc repo message =
     mbind (run_git mc [''git'', ''diff'', ''--cached'', ''--quiet''] repo None) (\<lambda>d.
     if co_code d = 0 then ret None
     else
       mseq (git_checked mc [''git'', ''commit'', ''-m'', message] repo None ''git commit failed'')
      (mbind (git_checked mc [''git'', ''rev-parse'', ''--short'', ''HEAD''] repo None ''git rev-parse failed'') (\<lambda>out.
       ret (Some (strip out)))))"

definition revert_patch :: "('r, 'x) machine_scheme \<Rightarrow> path \<Rightarrow> string \<Rightarrow> ('r, unit) op" where
  "revert_patch mc repo patch =
     mseq (git_checked mc [''git'', ''apply'', ''-R''] repo (Some patch) ''git apply -R failed'') (ret ())"

section \<open>Verification commands\<close>

text \<open>
  \<open>resolve\<close> is the command policy's method; a refused command is not run and counts as a failure.
  \<open>timeout\<close> is the text of the timeout, which the message repeats.
\<close>

definition run_verification_command ::
  "('r, 'x) machine_scheme \<Rightarrow> (string \<Rightarrow> string list res) \<Rightarrow> path \<Rightarrow> string \<Rightarrow> string \<Rightarrow> ('r, command_result) op" where
  "run_verification_command mc resolve repo timeout cmd =
     (case resolve cmd of
        Inl e \<Rightarrow> ret \<lparr>cr_command = cmd, cr_return_code = 126, cr_stdout = [], cr_stderr = exn_message e\<rparr>
      | Inr argv \<Rightarrow> (\<lambda>r. let (outcome, r') = mc_exec mc argv repo timeout r in
          (Inr (case outcome of
             Completed c \<Rightarrow> \<lparr>cr_command = cmd, cr_return_code = co_code c, cr_stdout = co_out c, cr_stderr = co_err c\<rparr>
           | Timed_Out out \<Rightarrow> \<lparr>cr_command = cmd, cr_return_code = 124, cr_stdout = out,
               cr_stderr = ''Verification command timed out after '' @ timeout @ '' seconds.''\<rparr>
           | Not_Started m \<Rightarrow> \<lparr>cr_command = cmd, cr_return_code = 127, cr_stdout = [],
               cr_stderr = ''Verification command could not be started: '' @ m\<rparr>), r')))"

definition run_verification_commands ::
  "('r, 'x) machine_scheme \<Rightarrow> (string \<Rightarrow> string list res) \<Rightarrow> path \<Rightarrow> string \<Rightarrow> string list \<Rightarrow> ('r, command_result list) op" where
  "run_verification_commands mc resolve repo timeout cmds =
     mmap (run_verification_command mc resolve repo timeout) cmds"

end
