(* ===== verification/World.thy ===== *)
theory World imports Git_Ops State_Store Verifier Jobs begin

text \<open>
  The state the control plane works on: the repository (whatever git and the commands see), the
  files of the operation ledger, the state stores by their root, the clock, the identifiers, one
  fault budget for all durable writes, and the notices sent to the operator.  The lifting of git
  operations and store operations to this state, and what a lifted operation leaves alone.
\<close>

section \<open>State and environment\<close>

record 'r world =
  w_repo :: 'r
  w_ledger :: "(string \<times> json durable) list"
  w_stores :: "path \<Rightarrow> store"
  w_clock :: "nat \<Rightarrow> string"
  w_ticks :: nat
  w_uuids :: "nat \<Rightarrow> string"
  w_drawn :: nat
  w_budget :: "nat option"
  w_fault :: string
  w_notices :: "string list"
  w_jobs :: job_store
  w_lock :: "string option"
  w_files :: "path \<Rightarrow> json durable"

type_synonym ('r, 'a) world_op = "('r world, 'a) op"

text \<open>
  What lies at a path of the file system, and the rest of the host: the SHA-256 of bytes (a string of
  characters below 256) in hexadecimal, \<open>Path.resolve\<close>, the redaction of secrets, git applied to
  copies of files in an empty directory (the files after the patch, or git's message), and whether a
  program is the running interpreter (\<open>_is_running_interpreter\<close>), whether \<open>datetime.fromisoformat\<close>
  accepts a text and finds a time zone in it, and the two option texts every escalation must offer
  (they are Cyrillic; text is Latin-1 here).
\<close>

datatype node = Absent | Symlink string | Regular string | Other_Kind

record 'r host = "'r machine" +
  mc_node :: "path \<Rightarrow> 'r \<Rightarrow> node"
  mc_unlink :: "path \<Rightarrow> 'r \<Rightarrow> 'r"
  mc_rmtree :: "path \<Rightarrow> 'r \<Rightarrow> 'r"
  mc_post_image :: "string \<Rightarrow> (string \<times> string) list \<Rightarrow> string + (string \<Rightarrow> node)"
  mc_sha256 :: "string \<Rightarrow> string"
  mc_resolve :: "path \<Rightarrow> path"
  mc_redact :: "json \<Rightarrow> json"
  mc_running :: "string \<Rightarrow> bool"
  mc_iso :: "string \<Rightarrow> bool option"
  mc_own_options :: "string list"

definition encode_utf8 :: "string \<Rightarrow> string" where
  "encode_utf8 s = concat (map (\<lambda>c. map char_of (utf8_char c)) s)"

section \<open>Lifting\<close>

definition in_repo :: "('r, 'a) op \<Rightarrow> ('r, 'a) world_op" where
  "in_repo m = (\<lambda>w. let (x, r) = m (w_repo w) in (x, w\<lparr>w_repo := r\<rparr>))"

definition on_store :: "path \<Rightarrow> 'a store_op \<Rightarrow> ('r, 'a) world_op" where
  "on_store root m = (\<lambda>w. let (x, s) = m ((w_stores w root)\<lparr>st_budget := w_budget w\<rparr>)
     in (x, w\<lparr>w_stores := (w_stores w)(root := s), w_budget := st_budget s\<rparr>))"

definition world_now :: "('r, string) world_op" where
  "world_now = (\<lambda>w. (Inr (w_clock w (w_ticks w)), w\<lparr>w_ticks := Suc (w_ticks w)\<rparr>))"

definition world_uuid :: "('r, string) world_op" where
  "world_uuid = (\<lambda>w. (Inr (w_uuids w (w_drawn w)), w\<lparr>w_drawn := Suc (w_drawn w)\<rparr>))"

definition notify_user_action_required :: "string \<Rightarrow> ('r, unit) world_op" where
  "notify_user_action_required m = (\<lambda>w. (Inr (), w\<lparr>w_notices := w_notices w @ [m]\<rparr>))"

definition on_jobs :: "(job_store, 'a) op \<Rightarrow> ('r, 'a) world_op" where
  "on_jobs m = (\<lambda>w. let (x, s) = m (w_jobs w) in (x, w\<lparr>w_jobs := s\<rparr>))"

text \<open>The repository's execution lease: either free for the whole call or held by somebody else.\<close>

definition with_lease :: "('r, 'a) world_op \<Rightarrow> ('r, 'a) world_op" where
  "with_lease m = mbind (gets (\<lambda>w. case w_lock w of None \<Rightarrow> Inr () | Some t \<Rightarrow> Inl (LockContendedError t))) (\<lambda>_. m)"

text \<open>\<open>try: m finally: f\<close>; an exception of \<open>f\<close> replaces the outcome of \<open>m\<close>.\<close>

definition finally_do :: "('s, 'a) op \<Rightarrow> ('s, 'b) op \<Rightarrow> ('s, 'a) op" where
  "finally_do m f = (\<lambda>s. let (x, s1) = m s; (y, s2) = f s1 in (case y of Inl e \<Rightarrow> Inl e | Inr _ \<Rightarrow> x, s2))"

text \<open>\<open>atomic_write_json\<close> of a ledger file.\<close>

definition world_write :: "path \<Rightarrow> ('r world \<Rightarrow> 'r world) \<Rightarrow> ('r, unit) world_op" where
  "world_write p f = (\<lambda>w. case w_budget w of
     None \<Rightarrow> (Inr (), f w)
   | Some 0 \<Rightarrow> (Inl (DurableIOError (''Could not durably write '' @ path_str p @ '': '' @ w_fault w)), w)
   | Some (Suc n) \<Rightarrow> (Inr (), f (w\<lparr>w_budget := Some n\<rparr>)))"

text \<open>\<open>except (E, ...) as exc\<close> around an expression: the exceptions \<open>h\<close> accepts become values.\<close>

definition attempt :: "(exn \<Rightarrow> bool) \<Rightarrow> ('s, 'a) op \<Rightarrow> ('s, exn + 'a) op" where
  "attempt h m = (\<lambda>s. case m s of (Inl e, s') \<Rightarrow> if h e then (Inr (Inl e), s') else (Inl e, s') | (Inr x, s') \<Rightarrow> (Inr (Inr x), s'))"

fun is_git_error :: "exn \<Rightarrow> bool" where
  "is_git_error (GitError _) = True"
| "is_git_error _ = False"

fun is_store_error :: "exn \<Rightarrow> bool" where
  "is_store_error (StateStoreError _) = True"
| "is_store_error _ = False"

text \<open>\<open>ReconciliationBlockedError\<close> is a subclass of \<open>OperationLedgerError\<close>.\<close>

fun is_ledger_error :: "exn \<Rightarrow> bool" where
  "is_ledger_error (OperationLedgerError _) = True"
| "is_ledger_error (ReconciliationBlockedError _) = True"
| "is_ledger_error _ = False"

fun is_attempt_error :: "exn \<Rightarrow> bool" where
  "is_attempt_error (AttemptError _) = True"
| "is_attempt_error _ = False"

fun is_contention :: "exn \<Rightarrow> bool" where
  "is_contention (LockContendedError _) = True"
| "is_contention _ = False"

text \<open>\<open>ValueError\<close> and its subclasses.\<close>

fun is_value_error :: "exn \<Rightarrow> bool" where
  "is_value_error (ValueError _) = True"
| "is_value_error (TaskLoadError _) = True"
| "is_value_error (ProjectSpecError _) = True"
| "is_value_error (RoleProfileError _) = True"
| "is_value_error _ = False"

text \<open>\<open>DurableIOError\<close> is an \<open>OSError\<close>.\<close>

fun is_os_error :: "exn \<Rightarrow> bool" where
  "is_os_error (OSError _) = True"
| "is_os_error (DurableIOError _) = True"
| "is_os_error _ = False"

fun is_review_error :: "exn \<Rightarrow> bool" where
  "is_review_error (ReviewProtocolError _) = True"
| "is_review_error _ = False"

fun is_critic_error :: "exn \<Rightarrow> bool" where
  "is_critic_error (CriticAdapterError _) = True"
| "is_critic_error _ = False"

fun is_provider_error :: "exn \<Rightarrow> bool" where
  "is_provider_error (ModelProviderError _) = True"
| "is_provider_error _ = False"

fun is_durable_error :: "exn \<Rightarrow> bool" where
  "is_durable_error (DurableIOError _) = True"
| "is_durable_error _ = False"

section \<open>What an operation returns\<close>

text \<open>\<open>returns Q m\<close>: whenever \<open>m\<close> returns a value, the value satisfies \<open>Q\<close>.\<close>

definition returns :: "('a \<Rightarrow> bool) \<Rightarrow> ('s, 'a) op \<Rightarrow> bool" where
  "returns Q m \<longleftrightarrow> (\<forall>s x s'. m s = (Inr x, s') \<longrightarrow> Q x)"

lemma returns_mono: "returns P m \<Longrightarrow> (\<And>x. P x \<Longrightarrow> Q x) \<Longrightarrow> returns Q m"
  by (auto simp: returns_def)

lemma returns_ret: "Q x \<Longrightarrow> returns Q (ret x)"
  by (simp add: returns_def)

lemma returns_raise: "returns Q (raise e)"
  by (simp add: returns_def)

lemma returns_bind: "(\<And>x. returns Q (k x)) \<Longrightarrow> returns Q (mbind m k)"
  by (auto simp: returns_def mbind_Inr_iff)

lemma returns_bind_given: "returns P m \<Longrightarrow> (\<And>x. P x \<Longrightarrow> returns Q (k x)) \<Longrightarrow> returns Q (mbind m k)"
  unfolding returns_def mbind_Inr_iff by blast

lemma returns_seq: "returns Q k \<Longrightarrow> returns Q (mseq m k)"
  by (simp add: mseq_def returns_bind)

lemma returns_if: "(b \<Longrightarrow> returns Q m) \<Longrightarrow> (\<not> b \<Longrightarrow> returns Q k) \<Longrightarrow> returns Q (if b then m else k)"
  by simp

lemma returns_option: "returns Q m \<Longrightarrow> (\<And>x. returns Q (k x)) \<Longrightarrow> returns Q (case v of None \<Rightarrow> m | Some x \<Rightarrow> k x)"
  by (cases v) simp_all

lemma returns_sum: "(\<And>e. returns Q (f e)) \<Longrightarrow> (\<And>x. returns Q (g x)) \<Longrightarrow> returns Q (case v of Inl e \<Rightarrow> f e | Inr x \<Rightarrow> g x)"
  by (cases v) simp_all

lemma returns_prod: "(\<And>a b. returns Q (k a b)) \<Longrightarrow> returns Q (case p of (a, b) \<Rightarrow> k a b)"
  by (cases p) simp

lemmas returns_intros = returns_if returns_option returns_sum returns_prod returns_ret returns_raise returns_bind returns_seq

section \<open>Frames\<close>

lemma in_repo_frame:
  "in_repo m w = (x, w') \<Longrightarrow> w_ledger w' = w_ledger w \<and> w_stores w' = w_stores w \<and> w_budget w' = w_budget w"
  by (auto simp: in_repo_def split: prod.splits)

lemma on_store_frame:
  "on_store root m w = (x, w') \<Longrightarrow> w_ledger w' = w_ledger w \<and> w_repo w' = w_repo w"
  by (auto simp: on_store_def split: prod.splits)

lemma in_repo_run: "m (w_repo w) = (x, r) \<Longrightarrow> in_repo m w = (x, w\<lparr>w_repo := r\<rparr>)"
  by (simp add: in_repo_def)

lemma on_store_run:
  "m ((w_stores w root)\<lparr>st_budget := w_budget w\<rparr>) = (x, s) \<Longrightarrow>
     on_store root m w = (x, w\<lparr>w_stores := (w_stores w)(root := s), w_budget := st_budget s\<rparr>)"
  by (simp add: on_store_def)

lemma attempt_Inr_iff:
  "attempt h m s = (Inr y, s') \<longleftrightarrow>
     (\<exists>x. m s = (Inr x, s') \<and> y = Inr x) \<or> (\<exists>e. m s = (Inl e, s') \<and> h e \<and> y = Inl e)"
  by (auto simp: attempt_def split: prod.splits sum.splits if_splits)

lemma attempt_snd [simp]: "snd (attempt h m s) = snd (m s)"
  by (auto simp: attempt_def split: prod.splits sum.splits)

lemma world_now_run [simp]: "world_now w = (Inr (w_clock w (w_ticks w)), w\<lparr>w_ticks := Suc (w_ticks w)\<rparr>)"
  by (simp add: world_now_def)

end
