(* ===== verification/Json_Text.thy ===== *)
theory Json_Text imports Py_Json "HOL-Library.List_Lexorder" "HOL-Library.Char_ord" begin

text \<open>
  \<open>json.dumps\<close> with \<open>ensure_ascii=False\<close> and \<open>sort_keys=True\<close>, updating a \<open>dict\<close>, and equality of JSON
  values as Python's \<open>==\<close> sees it (the order of keys does not matter, \<open>True == 1\<close>).
\<close>

section \<open>Canonical values\<close>

fun canon :: "json \<Rightarrow> json" where
  "canon JNull = JNull"
| "canon (JBool b) = JInt (if b then 1 else 0)"
| "canon (JInt i) = JInt i"
| "canon (JStr s) = JStr s"
| "canon (JList xs) = JList (map canon xs)"
| "canon (JObj kvs) = JObj (sort_key fst (map (\<lambda>(k, v). (k, canon v)) kvs))"

definition json_eq :: "json \<Rightarrow> json \<Rightarrow> bool" where
  "json_eq a b \<longleftrightarrow> canon a = canon b"

lemma json_eq_refl [simp]: "json_eq a a"
  by (simp add: json_eq_def)

fun sort_keys :: "json \<Rightarrow> json" where
  "sort_keys (JList xs) = JList (map sort_keys xs)"
| "sort_keys (JObj kvs) = JObj (sort_key fst (map (\<lambda>(k, v). (k, sort_keys v)) kvs))"
| "sort_keys j = j"

section \<open>Text\<close>

definition escape_char :: "char \<Rightarrow> string" where
  "escape_char c =
     (if c = CHR 0x22 \<or> c = CHR 0x5C then [CHR 0x5C, c]
      else if c = CHR 0x0A then [CHR 0x5C, CHR ''n'']
      else if c = CHR 0x0D then [CHR 0x5C, CHR ''r'']
      else if c = CHR 0x09 then [CHR 0x5C, CHR ''t'']
      else if c = CHR 0x0C then [CHR 0x5C, CHR ''f'']
      else if c = CHR 0x08 then [CHR 0x5C, CHR ''b'']
      else if code c < 32 then [CHR 0x5C] @ ''u00'' @ [hex_digit (code c div 16), hex_digit (code c mod 16)]
      else [c])"

definition dumps_str :: "string \<Rightarrow> string" where
  "dumps_str s = [CHR 0x22] @ concat (map escape_char s) @ [CHR 0x22]"

text \<open>\<open>item_sep\<close> and \<open>key_sep\<close> are the \<open>separators\<close>.\<close>

fun dumps :: "string \<Rightarrow> string \<Rightarrow> json \<Rightarrow> string" where
  "dumps item_sep key_sep JNull = ''null''"
| "dumps item_sep key_sep (JBool b) = (if b then ''true'' else ''false'')"
| "dumps item_sep key_sep (JInt i) = str_int i"
| "dumps item_sep key_sep (JStr s) = dumps_str s"
| "dumps item_sep key_sep (JList xs) = ''['' @ join item_sep (map (dumps item_sep key_sep) xs) @ '']''"
| "dumps item_sep key_sep (JObj kvs) =
     ''{'' @ join item_sep (map (\<lambda>(k, v). dumps_str k @ key_sep @ dumps item_sep key_sep v) kvs) @ ''}''"

section \<open>Dictionaries\<close>

fun jset :: "jobj \<Rightarrow> string \<Rightarrow> json \<Rightarrow> jobj" where
  "jset [] k v = [(k, v)]"
| "jset ((k', w) # d) k v = (if k' = k then (k', v) # d else (k', w) # jset d k v)"

definition jdel :: "jobj \<Rightarrow> string \<Rightarrow> jobj" where
  "jdel d k = filter (\<lambda>(k', _). k' \<noteq> k) d"

definition jupdate :: "jobj \<Rightarrow> jobj \<Rightarrow> jobj" where
  "jupdate d changes = foldl (\<lambda>d (k, v). jset d k v) d changes"

lemma map_of_jset [simp]: "map_of (jset d k v) = (map_of d)(k \<mapsto> v)"
  by (induction d k v rule: jset.induct) (auto simp: fun_upd_twist)

lemma map_of_jdel [simp]: "map_of (jdel d k) = (map_of d)(k := None)"
  unfolding jdel_def by (induction d) (auto simp: fun_upd_twist)

lemma jget_jset [simp]: "jget (jset d k v) k' = (if k' = k then v else jget d k')"
  by (simp add: jget_def jget_or_def)

lemma keys_jset [simp]: "fst ` set (jset d k v) = insert k (fst ` set d)"
  by (induction d k v rule: jset.induct) auto

lemma jdel_jset_other: "k \<noteq> k' \<Longrightarrow> jdel (jset d k v) k' = jset (jdel d k') k v"
  by (induction d k v rule: jset.induct) (auto simp: jdel_def)

lemma jdel_absent: "k \<notin> fst ` set d \<Longrightarrow> jdel d k = d"
  by (induction d) (auto simp: jdel_def)

lemma jdel_jset [simp]: "distinct (map fst d) \<Longrightarrow> jdel (jset d k v) k = jdel d k"
  by (induction d k v rule: jset.induct) (auto simp: jdel_def filter_id_conv dest: jdel_absent [unfolded jdel_def])

lemma distinct_jset [simp]: "distinct (map fst d) \<Longrightarrow> distinct (map fst (jset d k v))"
proof (induction d k v rule: jset.induct)
  case (2 k' w d k v)
  then show ?case using keys_jset [of d k v] by auto
qed simp

lemma distinct_jdel [simp]: "distinct (map fst d) \<Longrightarrow> distinct (map fst (jdel d k))"
  by (induction d) (auto simp: jdel_def)

end
