(* ===== verification/Ledger_Record.thy ===== *)
theory Ledger_Record imports World Json_Text begin

text \<open>
  The records of the operation ledger (\<open>src/llm_harness/operations.py\<close>): where they are kept, their
  integrity digest and validation, the file evidence they carry, and the durable form of a task result
  and of a rollback record.  A record is a \<open>dict\<close>, so an association list here.

  \<open>CommandResult(**item)\<close> and \<open>ModelInvocationEvidence(**item)\<close> store whatever values the object
  has; typed records can hold strings and numbers only, so other values raise \<open>TypeError\<close> here.
\<close>

section \<open>Places\<close>

definition repository_coordination_root :: "('r, 'x) host_scheme \<Rightarrow> path \<Rightarrow> path" where
  "repository_coordination_root h repo =
     (let resolved = mc_resolve h repo;
          digest = take 12 (mc_sha256 h (encode_utf8 (casefold (path_str resolved))));
          parent = Path (p_root resolved) (butlast (p_parts resolved))
      in path_join (path_join parent (path_of ''.hoh-leases'')) (path_of (path_name resolved @ ''-'' @ digest)))"

definition ledger_root :: "('r, 'x) host_scheme \<Rightarrow> path \<Rightarrow> path" where
  "ledger_root h repo = path_join (repository_coordination_root h repo) (path_of ''operations'')"

definition ledger_path :: "('r, 'x) host_scheme \<Rightarrow> path \<Rightarrow> string \<Rightarrow> path" where
  "ledger_path h repo i = path_join (ledger_root h repo) (path_of (i @ ''.json''))"

definition safe_id :: "string \<Rightarrow> bool" where
  "safe_id v \<longleftrightarrow> v \<noteq> [] \<and> list_all (\<lambda>c. is_alnum c \<or> c \<in> set ''-_'') v"

section \<open>Integrity\<close>

definition text_sha256 :: "('r, 'x) host_scheme \<Rightarrow> string \<Rightarrow> string" where
  "text_sha256 h v = mc_sha256 h (encode_utf8 v)"

definition record_digest :: "('r, 'x) host_scheme \<Rightarrow> jobj \<Rightarrow> string" where
  "record_digest h d = text_sha256 h (dumps '','' '':'' (sort_keys (JObj (jdel d ''record_sha256''))))"

definition is_hex_digest :: "json \<Rightarrow> bool" where
  "is_hex_digest v = (case v of JStr s \<Rightarrow> length s = 64 \<and> list_all (\<lambda>c. c \<in> set ''0123456789abcdef'') s | _ \<Rightarrow> False)"

section \<open>File evidence\<close>

definition bytes_evidence :: "('r, 'x) host_scheme \<Rightarrow> string \<Rightarrow> string \<Rightarrow> json" where
  "bytes_evidence h kind content = JObj
     [(''kind'', JStr kind), (''sha256'', JStr (mc_sha256 h content)), (''size'', JInt (int (length content)))]"

text \<open>\<open>_path_evidence\<close>: the target of a link is text, encoded as UTF-8.\<close>

definition node_evidence :: "('r, 'x) host_scheme \<Rightarrow> node \<Rightarrow> json" where
  "node_evidence h n = (case n of
     Absent \<Rightarrow> JNull
   | Symlink target \<Rightarrow> bytes_evidence h ''symlink'' (encode_utf8 target)
   | Regular content \<Rightarrow> bytes_evidence h ''file'' content
   | Other_Kind \<Rightarrow> JObj [(''kind'', JStr ''other''), (''sha256'', JStr []), (''size'', JInt 0)])"

definition path_evidence :: "('r, 'x) host_scheme \<Rightarrow> path \<Rightarrow> 'r \<Rightarrow> json" where
  "path_evidence h p r = node_evidence h (mc_node h p r)"

definition validate_file_evidence :: "json \<Rightarrow> string \<Rightarrow> unit res" where
  "validate_file_evidence evidence operation_id = (case evidence of
     JNull \<Rightarrow> Inr ()
   | JObj d \<Rightarrow>
       if fst ` set d \<noteq> {''kind'', ''sha256'', ''size''}
       then Inl (OperationLedgerError (''Invalid operation file evidence: '' @ operation_id))
       else if \<not> is_hashable (jget d ''kind'') then Inl TypeError
       else if jget d ''kind'' \<notin> {JStr ''file'', JStr ''symlink''}
       then Inl (OperationLedgerError (''Unsupported operation file kind: '' @ operation_id))
       else if is_hex_digest (jget d ''sha256'')
         \<and> (case jget d ''size'' of JInt i \<Rightarrow> 0 \<le> i | JBool _ \<Rightarrow> True | _ \<Rightarrow> False)
       then Inr ()
       else Inl (OperationLedgerError (''Invalid operation file digest/size: '' @ operation_id))
   | _ \<Rightarrow> Inl (OperationLedgerError (''Invalid operation file evidence: '' @ operation_id)))"

section \<open>Validation\<close>

text \<open>The required fields, in the order in which a message lists the missing ones.\<close>

definition ledger_required :: "string list" where
  "ledger_required = [''action'', ''baseline_files'', ''baseline_head'', ''expected_changed_files'', ''expected_post_files'',
     ''operation_id'', ''patch_sha256'', ''phases'', ''record_sha256'', ''repository'', ''run_id'', ''state_root'', ''task_id'',
     ''terminal_outcome'', ''version'']"

definition unsafe_scope :: "string \<Rightarrow> bool" where
  "unsafe_scope p \<longleftrightarrow> is_absolute (path_of p) \<or> ''..'' \<in> set (p_parts (path_of p))"

fun validate_all_evidence :: "json list \<Rightarrow> string \<Rightarrow> unit res" where
  "validate_all_evidence [] i = Inr ()"
| "validate_all_evidence (e # es) i = rbind (validate_file_evidence e i) (\<lambda>_. validate_all_evidence es i)"

text \<open>The checks behind the digest, on the four containers.\<close>

definition validate_scope :: "jobj \<Rightarrow> string \<Rightarrow> unit res" where
  "validate_scope d i =
     (case (jget d ''phases'', jget d ''expected_changed_files'', jget d ''baseline_files'', jget d ''expected_post_files'') of
        (JObj _, JList paths, JObj base, JObj post) \<Rightarrow>
          let keys = set (map py_str paths) in
          rbind (check (fst ` set base = keys \<and> fst ` set post = keys)
            (OperationLedgerError (''Operation file evidence does not match scope: '' @ i))) (\<lambda>_.
          rbind (validate_all_evidence (map snd base @ map snd post) i) (\<lambda>_.
          check (list_all (\<lambda>p. \<not> unsafe_scope (py_str p)) paths)
            (OperationLedgerError (''Operation scope contains unsafe path: '' @ i))))
      | _ \<Rightarrow> Inl (OperationLedgerError (''Operation phase/scope shape is invalid: '' @ i)))"

definition validate_record :: "('r, 'x) host_scheme \<Rightarrow> path \<Rightarrow> json \<Rightarrow> string \<Rightarrow> jobj res" where
  "validate_record h repo payload i = (case payload of
     JObj d \<Rightarrow>
       let missing = filter (\<lambda>k. k \<notin> fst ` set d) ledger_required in
       rbind (check (missing = [])
         (OperationLedgerError (''Operation record '' @ i @ '' misses fields: '' @ join '','' missing))) (\<lambda>_.
       rbind (check (jget d ''operation_id'' = JStr i \<and> json_eq (jget d ''version'') (JInt 1))
         (OperationLedgerError (''Operation identity/version mismatch: '' @ i))) (\<lambda>_.
       rbind (check (is_hashable (jget d ''action'')) TypeError) (\<lambda>_.
       rbind (check (jget d ''action'' \<in> {JStr ''task_commit'', JStr ''rollback''})
         (OperationLedgerError (''Unsupported operation action: '' @ py_str (jget d ''action'')))) (\<lambda>_.
       rbind (check (mc_resolve h (path_of (py_str (jget d ''repository''))) = repo)
         (OperationLedgerError (''Operation repository mismatch: '' @ i))) (\<lambda>_.
       rbind (check (is_hex_digest (jget d ''patch_sha256''))
         (OperationLedgerError (''Operation patch digest is invalid: '' @ i))) (\<lambda>_.
       rbind (check (py_str (jget d ''record_sha256'') = record_digest h d)
         (OperationLedgerError (''Operation record digest mismatch: '' @ i))) (\<lambda>_.
       rbind (validate_scope d i) (\<lambda>_. Inr d))))))))
   | _ \<Rightarrow> Inl (OperationLedgerError (''Operation record must be an object: '' @ i)))"

section \<open>The durable form of results\<close>

definition redact_text :: "('r, 'x) host_scheme \<Rightarrow> string \<Rightarrow> json" where
  "redact_text h s = mc_redact h (JStr s)"

definition redact_option :: "('r, 'x) host_scheme \<Rightarrow> string option \<Rightarrow> json" where
  "redact_option h s = mc_redact h (j_opt_str s)"

definition report_to_json :: "('r, 'x) host_scheme \<Rightarrow> verification_report \<Rightarrow> json" where
  "report_to_json h r = JObj
     [(''ok'', JBool (vr_ok r)), (''findings'', mc_redact h (j_strs (vr_findings r))), (''metrics'', JObj (vr_metrics r))]"

definition redacted_command :: "('r, 'x) host_scheme \<Rightarrow> command_result \<Rightarrow> json" where
  "redacted_command h c = JObj
     [(''command'', JStr (cr_command c)), (''return_code'', JInt (cr_return_code c)),
      (''stdout'', redact_text h (cr_stdout c)), (''stderr'', redact_text h (cr_stderr c))]"

definition result_to_json :: "('r, 'x) host_scheme \<Rightarrow> harness_run_result \<Rightarrow> json" where
  "result_to_json h r = JObj
     [(''pre_apply'', report_to_json h (hr_pre_apply r)),
      (''post_apply'', report_to_json h (hr_post_apply r)),
      (''command_results'', JList (map (redacted_command h) (hr_command_results r))),
      (''semantic_verification'', (case hr_semantic_verification r of
         None \<Rightarrow> JNull
       | Some s \<Rightarrow> JObj
           [(''decision'', JStr (sv_decision s)), (''summary'', redact_text h (sv_summary s)),
            (''findings'', mc_redact h (j_strs (sv_findings s))),
            (''evidence'', (case sv_evidence s of None \<Rightarrow> JNull | Some e \<Rightarrow> evidence_to_json e))]))]"

definition rollback_to_json :: "('r, 'x) host_scheme \<Rightarrow> rollback_record \<Rightarrow> json" where
  "rollback_to_json h r = JObj
     [(''rollback_id'', JStr (rb_rollback_id r)),
      (''created_at_utc'', JStr (rb_created_at_utc r)),
      (''work_item_id'', JStr (rb_work_item_id r)),
      (''run_id'', JStr (rb_run_id r)),
      (''target_commit'', JStr (rb_target_commit r)),
      (''rollback_commit'', j_opt_str (rb_rollback_commit r)),
      (''reason'', redact_text h (rb_reason r)),
      (''ok'', JBool (rb_ok r)),
      (''changed_files'', j_strs (rb_changed_files r)),
      (''command_results'', JList (map (redacted_command h) (rb_command_results r))),
      (''error'', redact_option h (rb_error r))]"

text \<open>Fields of a keyword call: all of the named keys and no other, of the type the record has.\<close>

definition as_str :: "json \<Rightarrow> string res" where
  "as_str j = (case j of JStr s \<Rightarrow> Inr s | _ \<Rightarrow> Inl TypeError)"

definition as_int :: "json \<Rightarrow> int res" where
  "as_int j = (case j of JInt i \<Rightarrow> Inr i | _ \<Rightarrow> Inl TypeError)"

definition as_opt :: "(json \<Rightarrow> 'a res) \<Rightarrow> json \<Rightarrow> 'a option res" where
  "as_opt f j = (case j of JNull \<Rightarrow> Inr None | _ \<Rightarrow> rbind (f j) (\<lambda>x. Inr (Some x)))"

definition command_kwargs :: "json \<Rightarrow> command_result res" where
  "command_kwargs j = (case j of
     JObj d \<Rightarrow>
       rbind (check (fst ` set d = {''command'', ''return_code'', ''stdout'', ''stderr''}) TypeError) (\<lambda>_.
       rbind (as_str (jget d ''command'')) (\<lambda>c.
       rbind (as_int (jget d ''return_code'')) (\<lambda>rc.
       rbind (as_str (jget d ''stdout'')) (\<lambda>out.
       rbind (as_str (jget d ''stderr'')) (\<lambda>err.
       Inr \<lparr>cr_command = c, cr_return_code = rc, cr_stdout = out, cr_stderr = err\<rparr>)))))
   | _ \<Rightarrow> Inl TypeError)"

definition evidence_kwargs :: "json \<Rightarrow> model_invocation_evidence res" where
  "evidence_kwargs j = (case j of
     JObj d \<Rightarrow>
       rbind (check (fst ` set d = {''provider'', ''model'', ''endpoint'', ''request_id'', ''attempts'', ''latency_ms'',
         ''input_tokens'', ''output_tokens'', ''total_tokens'', ''request_sha256'', ''response_sha256''}) TypeError) (\<lambda>_.
       rbind (as_str (jget d ''provider'')) (\<lambda>provider.
       rbind (as_str (jget d ''model'')) (\<lambda>model.
       rbind (as_str (jget d ''endpoint'')) (\<lambda>endpoint.
       rbind (as_opt as_str (jget d ''request_id'')) (\<lambda>request.
       rbind (as_int (jget d ''attempts'')) (\<lambda>attempts.
       rbind (as_int (jget d ''latency_ms'')) (\<lambda>latency.
       rbind (as_opt as_int (jget d ''input_tokens'')) (\<lambda>inp.
       rbind (as_opt as_int (jget d ''output_tokens'')) (\<lambda>out.
       rbind (as_opt as_int (jget d ''total_tokens'')) (\<lambda>total.
       rbind (as_str (jget d ''request_sha256'')) (\<lambda>qs.
       rbind (as_str (jget d ''response_sha256'')) (\<lambda>ps.
       Inr \<lparr>me_provider = provider, me_model = model, me_endpoint = endpoint, me_request_id = request,
            me_attempts = attempts, me_latency_ms = latency, me_input_tokens = inp, me_output_tokens = out,
            me_total_tokens = total, me_request_sha256 = qs, me_response_sha256 = ps\<rparr>))))))))))))
   | _ \<Rightarrow> Inl TypeError)"

definition str_list :: "json \<Rightarrow> string list res" where
  "str_list j = rbind (py_iter j) (mapE as_str)"

definition jobj_of :: "json \<Rightarrow> jobj res" where
  "jobj_of j = (case j of JObj d \<Rightarrow> Inr d | _ \<Rightarrow> Inl TypeError)"

definition report_from_json :: "json \<Rightarrow> verification_report res" where
  "report_from_json j =
     rbind (jobj_of j) (\<lambda>d.
     rbind (jitem d ''ok'') (\<lambda>ok.
     rbind (str_list (jget_or d ''findings'' (JList []))) (\<lambda>findings.
     rbind (jobj_of (jget_or d ''metrics'' (JObj []))) (\<lambda>metrics.
     Inr \<lparr>vr_ok = truthy ok, vr_findings = findings, vr_metrics = metrics\<rparr>))))"

definition semantic_from_result :: "json \<Rightarrow> semantic_report option res" where
  "semantic_from_result j = (case j of
     JNull \<Rightarrow> Inr None
   | JObj d \<Rightarrow>
       rbind (if truthy (jget d ''evidence'') then rbind (evidence_kwargs (jget d ''evidence'')) (\<lambda>e. Inr (Some e)) else Inr None) (\<lambda>ev.
       rbind (str_item d ''decision'') (\<lambda>decision.
       rbind (str_item d ''summary'') (\<lambda>summary.
       rbind (str_list (jget_or d ''findings'' (JList []))) (\<lambda>findings.
       rbind (make_semantic_report decision summary findings ev) (\<lambda>s. Inr (Some s))))))
   | _ \<Rightarrow> Inl AttributeError)"

definition result_from_json :: "json \<Rightarrow> string \<Rightarrow> string \<Rightarrow> harness_run_result res" where
  "result_from_json payload repository commit = (case payload of
     JObj d \<Rightarrow>
       rbind (semantic_from_result (jget d ''semantic_verification'')) (\<lambda>sem.
       rbind (rbind (jitem d ''pre_apply'') report_from_json) (\<lambda>pre.
       rbind (rbind (jitem d ''post_apply'') report_from_json) (\<lambda>post.
       rbind (rbind (py_iter (jget_or d ''command_results'' (JList []))) (mapE command_kwargs)) (\<lambda>commands.
       Inr \<lparr>hr_repository = repository, hr_work_item_id = [], hr_commit = Some commit, hr_pre_apply = pre,
            hr_post_apply = post, hr_command_results = commands, hr_semantic_verification = sem\<rparr>))))
   | _ \<Rightarrow> Inl (OperationLedgerError ''Missing durable task result payload.''))"

definition truthy_string :: "json \<Rightarrow> string option" where
  "truthy_string j = (if truthy j then Some (py_str j) else None)"

definition rollback_from_json :: "json \<Rightarrow> rollback_record res" where
  "rollback_from_json payload = (case payload of
     JObj d \<Rightarrow>
       rbind (str_item d ''rollback_id'') (\<lambda>rid.
       rbind (str_item d ''created_at_utc'') (\<lambda>created.
       rbind (str_item d ''work_item_id'') (\<lambda>wid.
       rbind (str_item d ''run_id'') (\<lambda>run_id.
       rbind (str_item d ''target_commit'') (\<lambda>target.
       rbind (str_item d ''reason'') (\<lambda>reason.
       rbind (bool_item d ''ok'') (\<lambda>ok.
       rbind (rbind (jitem d ''changed_files'') str_list) (\<lambda>files.
       rbind (rbind (rbind (jitem d ''command_results'') py_iter) (mapE command_kwargs)) (\<lambda>commands.
       Inr \<lparr>rb_rollback_id = rid, rb_created_at_utc = created, rb_work_item_id = wid, rb_run_id = run_id,
            rb_target_commit = target, rb_rollback_commit = truthy_string (jget d ''rollback_commit''),
            rb_reason = reason, rb_ok = ok, rb_changed_files = files, rb_command_results = commands,
            rb_error = truthy_string (jget d ''error'')\<rparr>)))))))))
   | _ \<Rightarrow> Inl (OperationLedgerError ''Missing durable rollback record payload.''))"

end
