(* ===== verification/Ledger.thy ===== *)
theory Ledger imports Ledger_Record begin

text \<open>
  \<open>OperationLedger\<close> (\<open>src/llm_harness/operations.py\<close>): the durable intent log that lets an interrupted
  change of the canonical repository be classified and finished or undone.  \<open>repo\<close> is
  \<open>self.repository\<close>.  A record that the source mutates in place is returned updated.
\<close>

section \<open>Reading and writing records\<close>

definition ledger_file :: "string \<Rightarrow> 'r world \<Rightarrow> json durable" where
  "ledger_file i w = (case map_of (w_ledger w) i of None \<Rightarrow> Missing | Some f \<Rightarrow> f)"

definition put_file :: "string \<Rightarrow> json durable \<Rightarrow> (string \<times> json durable) list \<Rightarrow> (string \<times> json durable) list" where
  "put_file i f fs = (i, f) # filter (\<lambda>(k, _). k \<noteq> i) fs"

text \<open>\<open>_write\<close>: the digest is recomputed and the file replaced.\<close>

definition sealed :: "('r, 'x) host_scheme \<Rightarrow> jobj \<Rightarrow> jobj" where
  "sealed h d = jset d ''record_sha256'' (JStr (record_digest h d))"

definition write_record :: "('r, 'x) host_scheme \<Rightarrow> path \<Rightarrow> jobj \<Rightarrow> ('r, jobj) world_op" where
  "write_record h repo d =
     (let i = py_str (jget d ''operation_id'') in
      mseq (world_write (ledger_path h repo i)
        (\<lambda>w. w\<lparr>w_ledger := put_file i (Content (JObj (sealed h d))) (w_ledger w)\<rparr>)) (ret (sealed h d)))"

fun ledger_error :: "exn \<Rightarrow> exn" where
  "ledger_error (DurableIOError m) = OperationLedgerError m"
| "ledger_error e = e"

definition load_record :: "('r, 'x) host_scheme \<Rightarrow> path \<Rightarrow> string \<Rightarrow> 'r world \<Rightarrow> jobj res" where
  "load_record h repo i w =
     (if \<not> safe_id i then Inl (OperationLedgerError ''Operation id contains unsupported characters.'')
      else case read_json (ledger_file i w) JNull of
        Inl e \<Rightarrow> Inl (ledger_error e)
      | Inr payload \<Rightarrow> validate_record h repo payload i)"

definition ledger_exists :: "string \<Rightarrow> 'r world \<Rightarrow> bool" where
  "ledger_exists i w \<longleftrightarrow> safe_id i \<and> ledger_file i w \<noteq> Missing"

definition corruption_record :: "string \<Rightarrow> string \<Rightarrow> jobj" where
  "corruption_record i m = [(''operation_id'', JStr i), (''action'', JStr ''unknown''), (''_corruption'', JStr m),
     (''terminal_outcome'', JNull)]"

text \<open>One file of \<open>records\<close>: \<open>DurableIOError\<close> and \<open>OperationLedgerError\<close> become a corruption record.\<close>

definition read_record :: "('r, 'x) host_scheme \<Rightarrow> path \<Rightarrow> string \<times> json durable \<Rightarrow> jobj res" where
  "read_record h repo = (\<lambda>(i, f).
     case rbind (read_json f JNull) (\<lambda>payload. validate_record h repo payload i) of
       Inl e \<Rightarrow> if is_durable_error e \<or> is_ledger_error e then Inr (corruption_record i (exn_message e)) else Inl e
     | Inr d \<Rightarrow> Inr d)"

definition ledger_records :: "('r, 'x) host_scheme \<Rightarrow> path \<Rightarrow> 'r world \<Rightarrow> jobj list res" where
  "ledger_records h repo w =
     mapE (read_record h repo) (sort_key (\<lambda>(i, _). i @ ''.json'') (filter (\<lambda>(_, f). f \<noteq> Missing) (w_ledger w)))"

section \<open>Phases and outcomes\<close>

definition terminal_outcomes :: "string list" where
  "terminal_outcomes = [''complete'', ''cancelled'', ''reverted'', ''failed'']"

definition setdefault :: "jobj \<Rightarrow> string \<Rightarrow> json \<Rightarrow> jobj" where
  "setdefault d k v = (if k \<in> fst ` set d then d else jset d k v)"

definition ledger_phase :: "('r, 'x) host_scheme \<Rightarrow> path \<Rightarrow> string \<Rightarrow> string \<Rightarrow> jobj \<Rightarrow> ('r, jobj) world_op" where
  "ledger_phase h repo i name changes =
     mbind (gets (load_record h repo i)) (\<lambda>record.
     mseq (require (jget record ''terminal_outcome'' = JNull) (OperationLedgerError (''Operation is already terminal: '' @ i)))
     (mbind (lift_res (jobj_of (jget record ''phases''))) (\<lambda>phases.
      mbind world_now (\<lambda>now.
      write_record h repo (jupdate (jset record ''phases'' (JObj (setdefault phases name (JStr now)))) changes)))))"

definition ledger_terminal ::
  "('r, 'x) host_scheme \<Rightarrow> path \<Rightarrow> string \<Rightarrow> string \<Rightarrow> string option \<Rightarrow> ('r, jobj) world_op" where
  "ledger_terminal h repo i outcome detail =
     mseq (require (outcome \<in> set terminal_outcomes) (OperationLedgerError (''Unsupported terminal outcome: '' @ outcome)))
     (mbind (gets (load_record h repo i)) (\<lambda>record.
      let existing = jget record ''terminal_outcome'' in
      if existing \<noteq> JNull then
        (if existing = JStr outcome then ret record
         else raise (OperationLedgerError (''Operation already ended as '' @ py_str existing @ '': '' @ i)))
      else
        mbind world_now (\<lambda>now.
        write_record h repo
          (jset (jset (jset record ''terminal_outcome'' (JStr outcome)) ''terminal_detail'' (redact_option h detail))
             ''finished_at_utc'' (JStr now)))))"

section \<open>Beginning an operation\<close>

definition create_record :: "('r, 'x) host_scheme \<Rightarrow> path \<Rightarrow> jobj \<Rightarrow> ('r, jobj) world_op" where
  "create_record h repo record =
     (let i = py_str (jget record ''operation_id'') in
      mbind (gets (\<lambda>w. Inr (ledger_file i w))) (\<lambda>f.
      if f = Missing then write_record h repo record
      else
        mbind (gets (load_record h repo i)) (\<lambda>existing.
        if json_eq (JObj (jdel existing ''record_sha256'')) (JObj record) then ret existing
        else raise (OperationLedgerError (''Operation id already exists: '' @ i)))))"

text \<open>
  \<open>_patch_file_evidence\<close>: the evidence of every expected path before the patch, and after git has
  applied the patch to copies of them.
\<close>

definition baseline_evidence :: "('r, 'x) host_scheme \<Rightarrow> path \<Rightarrow> 'r \<Rightarrow> string \<Rightarrow> (string \<times> json) res" where
  "baseline_evidence h repo r p = (case mc_node h (path_join repo (path_of p)) r of
     Absent \<Rightarrow> Inr (p, JNull)
   | Regular content \<Rightarrow> Inr (p, bytes_evidence h ''file'' content)
   | _ \<Rightarrow> Inl (OperationLedgerError (''Patch evidence supports regular files only: '' @ p)))"

definition baseline_copies :: "('r, 'x) host_scheme \<Rightarrow> path \<Rightarrow> 'r \<Rightarrow> string list \<Rightarrow> (string \<times> string) list" where
  "baseline_copies h repo r paths = concat (map (\<lambda>p. case mc_node h (path_join repo (path_of p)) r of
     Regular content \<Rightarrow> [(p, content)] | _ \<Rightarrow> []) paths)"

text \<open>A \<open>dict\<close> filled in a loop: a repeated path keeps its first place.\<close>

definition dict_of :: "(string \<times> json) list \<Rightarrow> jobj" where
  "dict_of kvs = jupdate [] kvs"

definition patch_file_evidence ::
  "('r, 'x) host_scheme \<Rightarrow> path \<Rightarrow> string \<Rightarrow> string list \<Rightarrow> 'r \<Rightarrow> (json \<times> json) res" where
  "patch_file_evidence h repo patch paths r =
     rbind (mapE (baseline_evidence h repo r) paths) (\<lambda>base.
     case mc_post_image h patch (baseline_copies h repo r paths) of
       Inl err \<Rightarrow> Inl (OperationLedgerError (''Could not derive expected post-image from worker patch: ''
         @ (if strip err = [] then ''git apply failed'' else strip err)))
     | Inr post \<Rightarrow> Inr (JObj (dict_of base), JObj (dict_of (map (\<lambda>p. (p, node_evidence h (post p))) paths))))"

record operation_context =
  oc_operation_id :: string
  oc_run_id :: string
  oc_state_root :: path
  oc_started_at_utc :: string
  oc_review_required :: bool

definition create_context :: "('r, 'x) host_scheme \<Rightarrow> path \<Rightarrow> string \<Rightarrow> bool \<Rightarrow> ('r, operation_context) world_op" where
  "create_context h state_root started_at_utc review_required =
     mbind world_uuid (\<lambda>oid. mbind world_uuid (\<lambda>rid.
     ret \<lparr>oc_operation_id = oid, oc_run_id = rid, oc_state_root = mc_resolve h state_root,
          oc_started_at_utc = started_at_utc, oc_review_required = review_required\<rparr>))"

definition begin_task ::
  "('r, 'x) host_scheme \<Rightarrow> path \<Rightarrow> operation_context \<Rightarrow> string \<Rightarrow> string \<Rightarrow> string list \<Rightarrow> ('r, jobj) world_op" where
  "begin_task h repo ctx task patch changed =
     mbind (in_repo (current_head h repo)) (\<lambda>baseline_head.
     mbind (gets (\<lambda>w. patch_file_evidence h repo patch changed (w_repo w))) (\<lambda>(base, post).
     mbind world_now (\<lambda>created.
     mbind world_now (\<lambda>intent.
     create_record h repo
       [(''version'', JInt 1), (''operation_id'', JStr (oc_operation_id ctx)), (''action'', JStr ''task_commit''),
        (''repository'', JStr (path_str repo)), (''state_root'', JStr (path_str (oc_state_root ctx))),
        (''task_id'', JStr task), (''run_id'', JStr (oc_run_id ctx)), (''started_at_utc'', JStr (oc_started_at_utc ctx)),
        (''review_required'', JBool (oc_review_required ctx)), (''baseline_head'', JStr baseline_head),
        (''patch_sha256'', JStr (text_sha256 h patch)), (''expected_changed_files'', j_strs changed),
        (''baseline_files'', base), (''expected_post_files'', post), (''created_at_utc'', JStr created),
        (''phases'', JObj [(''intent_written'', JStr intent)]), (''result'', JNull), (''commit'', JNull),
        (''terminal_outcome'', JNull), (''terminal_detail'', JNull)]))))"

definition begin_rollback ::
  "('r, 'x) host_scheme \<Rightarrow> path \<Rightarrow> string \<Rightarrow> path \<Rightarrow> string \<Rightarrow> string \<Rightarrow> string \<Rightarrow> string \<Rightarrow> string list \<Rightarrow> string
     \<Rightarrow> ('r, jobj) world_op" where
  "begin_rollback h repo oid state_root task run target patch changed reason =
     mbind (in_repo (current_head h repo)) (\<lambda>baseline_head.
     mbind (gets (\<lambda>w. patch_file_evidence h repo patch changed (w_repo w))) (\<lambda>(base, post).
     mbind world_now (\<lambda>created.
     mbind world_now (\<lambda>intent.
     create_record h repo
       [(''version'', JInt 1), (''operation_id'', JStr oid), (''action'', JStr ''rollback''),
        (''repository'', JStr (path_str repo)), (''state_root'', JStr (path_str (mc_resolve h state_root))),
        (''task_id'', JStr task), (''run_id'', JStr run), (''target_commit'', JStr target), (''reason'', redact_text h reason),
        (''baseline_head'', JStr baseline_head), (''patch_sha256'', JStr (text_sha256 h patch)),
        (''expected_changed_files'', j_strs changed), (''baseline_files'', base), (''expected_post_files'', post),
        (''created_at_utc'', JStr created), (''phases'', JObj [(''intent_written'', JStr intent)]),
        (''rollback_record'', JNull), (''commit'', JNull), (''terminal_outcome'', JNull), (''terminal_detail'', JNull)]))))"

section \<open>Classification\<close>

record reconciliation_item =
  ri_operation_id :: string
  ri_action :: string
  ri_classification :: string
  ri_safe_action :: "string option"
  ri_detail :: string
  ri_terminal :: bool

definition item :: "jobj \<Rightarrow> string \<Rightarrow> string option \<Rightarrow> string \<Rightarrow> bool \<Rightarrow> reconciliation_item" where
  "item record class safe detail terminal =
     \<lparr>ri_operation_id = py_str (jget_or record ''operation_id'' (JStr ''unknown'')),
      ri_action = py_str (jget_or record ''action'' (JStr ''unknown'')),
      ri_classification = class, ri_safe_action = safe, ri_detail = detail, ri_terminal = terminal\<rparr>"

definition path_field :: "jobj \<Rightarrow> string \<Rightarrow> path res" where
  "path_field d k = rbind (jitem d k) (\<lambda>v. case v of JStr s \<Rightarrow> Inr (path_of s) | _ \<Rightarrow> Inl TypeError)"

definition state_complete :: "('r, 'x) host_scheme \<Rightarrow> path \<Rightarrow> jobj \<Rightarrow> ('r, bool) world_op" where
  "state_complete h repo record =
     mbind (lift_res (path_field record ''state_root'')) (\<lambda>root.
     if jget record ''action'' = JStr ''task_commit'' then
       mbind (on_store root (gets history)) (\<lambda>runs.
       case filter (\<lambda>run. JStr (rr_run_id run) = jget record ''run_id'') runs of
         [] \<Rightarrow> ret False
       | m # ms \<Rightarrow>
           mseq (require (ms = [] \<and> JStr (rr_work_item_id m) = jget record ''task_id'')
             (OperationLedgerError ''Run id exists with contradictory task evidence.''))
           (if jget record ''commit'' = JNull then ret True
            else mbind (in_repo (resolve_commit h repo (case rr_commit m of None \<Rightarrow> [] | Some c \<Rightarrow> c))) (\<lambda>a.
                 mbind (in_repo (resolve_commit h repo (py_str (jget record ''commit'')))) (\<lambda>b. ret (a = b)))))
     else
       mbind (on_store root (gets rollback_records)) (\<lambda>rollbacks.
       case filter (\<lambda>r. JStr (rb_rollback_id r) = jget record ''operation_id'') rollbacks of
         [] \<Rightarrow> ret False
       | m # ms \<Rightarrow>
           mseq (require (ms = [] \<and> JStr (rb_work_item_id m) = jget record ''task_id'')
             (OperationLedgerError ''Rollback id exists with contradictory evidence.''))
           (ret True)))"

definition expected_files :: "jobj \<Rightarrow> string list res" where
  "expected_files record = rbind (jitem record ''expected_changed_files'') str_tuple"

definition working_changed_files :: "('r, 'x) host_scheme \<Rightarrow> path \<Rightarrow> ('r, string list) op" where
  "working_changed_files h repo =
     mbind (git_checked h [''git'', ''status'', ''--porcelain''] repo None ''git status failed'') (\<lambda>out.
     ret (map (\<lambda>l. strip (replace_char CHR 0x5C CHR ''/'' (drop 3 l))) (filter (\<lambda>l. strip l \<noteq> []) (splitlines out))))"

text \<open>\<open>all(...)\<close> over the paths stops at the first difference.\<close>

fun all_match :: "('r, 'x) host_scheme \<Rightarrow> path \<Rightarrow> json \<Rightarrow> 'r \<Rightarrow> json list \<Rightarrow> bool res" where
  "all_match h repo post r [] = Inr True"
| "all_match h repo post r (p # ps) =
     rbind (as_str p) (\<lambda>p.
     rbind (rbind (jobj_of post) (\<lambda>d. jitem d p)) (\<lambda>v.
     if json_eq (path_evidence h (path_join repo (path_of p)) r) v then all_match h repo post r ps else Inr False))"

definition working_tree_matches_patch :: "('r, 'x) host_scheme \<Rightarrow> path \<Rightarrow> jobj \<Rightarrow> 'r \<Rightarrow> bool res" where
  "working_tree_matches_patch h repo record r =
     rbind (rbind (jitem record ''expected_changed_files'') py_iter) (all_match h repo (jget record ''expected_post_files'') r)"

text \<open>The evidence gathered in the \<open>try\<close> block: whether the state is complete, the commit, HEAD, cleanness.\<close>

definition gather_evidence :: "('r, 'x) host_scheme \<Rightarrow> path \<Rightarrow> jobj \<Rightarrow> ('r, bool \<times> json \<times> string \<times> bool) world_op" where
  "gather_evidence h repo record =
     mbind (state_complete h repo record) (\<lambda>done.
     mbind (if truthy (jget record ''commit'') then ret (jget record ''commit'')
            else mbind (in_repo (find_commit_by_trailer h repo ''HoH-Operation''
                   (py_str (jget_or record ''operation_id'' (JStr ''unknown''))))) (\<lambda>c. ret (j_opt_str c))) (\<lambda>commit.
     mbind (in_repo (current_head h repo)) (\<lambda>head.
     mbind (in_repo (repository_is_clean h repo)) (\<lambda>clean. ret (done, commit, head, clean)))))"

definition gather_commit :: "('r, 'x) host_scheme \<Rightarrow> path \<Rightarrow> string \<Rightarrow> ('r, string \<times> string list \<times> string list) world_op" where
  "gather_commit h repo commit =
     mbind (in_repo (resolve_commit h repo commit)) (\<lambda>full.
     mbind (in_repo (commit_parents h repo full)) (\<lambda>parents.
     mbind (in_repo (commit_changed_files h repo full)) (\<lambda>changed. ret (full, parents, changed))))"

definition payload_key :: "jobj \<Rightarrow> string" where
  "payload_key record = (if jget record ''action'' = JStr ''task_commit'' then ''result'' else ''rollback_record'')"

text \<open>The record with the full commit id filled in, also in the rollback payload it carries.\<close>

definition with_commit :: "jobj \<Rightarrow> string \<Rightarrow> jobj" where
  "with_commit record full =
     (let r = jset record ''commit'' (JStr full) in
      case jget r ''rollback_record'' of
        JObj d \<Rightarrow> if jget record ''action'' = JStr ''rollback''
                  then jset r ''rollback_record'' (JObj (jset d ''rollback_commit'' (JStr full))) else r
      | _ \<Rightarrow> r)"

definition contradictory :: "jobj \<Rightarrow> string \<Rightarrow> reconciliation_item" where
  "contradictory record detail = item record ''contradictory'' None detail False"

definition classify_commit ::
  "('r, 'x) host_scheme \<Rightarrow> path \<Rightarrow> jobj \<Rightarrow> json \<Rightarrow> bool \<Rightarrow> ('r, reconciliation_item \<times> jobj) world_op" where
  "classify_commit h repo record commit clean =
     mbind (attempt is_git_error (gather_commit h repo (py_str commit))) (\<lambda>evidence.
     case evidence of
       Inl e \<Rightarrow> ret (contradictory record (exn_message e), record)
     | Inr (full, parents, changed) \<Rightarrow>
         mbind (lift_res (expected_files record)) (\<lambda>expected.
         if length parents = 1 \<and> JStr (hd parents) = jget record ''baseline_head''
            \<and> set changed = set expected \<and> jget record (payload_key record) \<noteq> JNull \<and> clean
         then
           mbind (if jget record ''commit'' \<noteq> JStr full then write_record h repo (with_commit record full) else ret record)
             (\<lambda>record'. ret (item record ''commit_exists_state_missing'' (Some ''complete_state'')
               ''Exact trailer, parent, scope, clean worktree, and durable state payload match.'' False, record'))
         else ret (contradictory record
           ''Commit evidence does not match baseline, scope, payload, or clean-worktree guards.'', record)))"

definition classify_worktree ::
  "('r, 'x) host_scheme \<Rightarrow> path \<Rightarrow> jobj \<Rightarrow> string \<Rightarrow> bool \<Rightarrow> ('r, reconciliation_item) world_op" where
  "classify_worktree h repo record head clean =
     (let no_match = contradictory record ''Git HEAD/worktree does not match any safe reconciliation state.'' in
      if JStr head = jget record ''baseline_head'' \<and> clean then
        ret (item record ''not_started'' (Some ''cancel_intent'') ''HEAD and worktree still match the recorded baseline.'' False)
      else if JStr head = jget record ''baseline_head''
        \<and> (case jget record ''phases'' of JObj d \<Rightarrow> ''patch_applied'' \<in> fst ` set d | _ \<Rightarrow> False) then
        mbind (in_repo (working_changed_files h repo)) (\<lambda>actual.
        mbind (lift_res (expected_files record)) (\<lambda>expected.
        if set actual \<noteq> set expected then ret no_match
        else mbind (gets (\<lambda>w. working_tree_matches_patch h repo record (w_repo w))) (\<lambda>same.
          ret (if same then item record ''patch_applied'' (Some ''restore_patch'')
                 ''HEAD, dirty paths, and exact patch digest match recorded evidence.'' False
               else no_match))))
      else ret no_match)"

definition classify :: "('r, 'x) host_scheme \<Rightarrow> path \<Rightarrow> jobj \<Rightarrow> ('r, reconciliation_item \<times> jobj) world_op" where
  "classify h repo record =
     (if truthy (jget record ''_corruption'') then
        ret (item record ''corrupted'' None (py_str (jget record ''_corruption'')) False, record)
      else if jget record ''terminal_outcome'' \<noteq> JNull then
        ret (item record (py_str (jget record ''terminal_outcome'')) None
          (py_str (jor (jget record ''terminal_detail'') (JStr []))) True, record)
      else
        mbind (attempt (\<lambda>e. is_git_error e \<or> is_store_error e \<or> is_ledger_error e) (gather_evidence h repo record)) (\<lambda>evidence.
        case evidence of
          Inl e \<Rightarrow> ret (contradictory record (exn_message e), record)
        | Inr (done, commit, head, clean) \<Rightarrow>
            if done then
              ret (item record ''state_complete'' (Some ''finish_ledger'') ''Expected StateStore evidence already exists.'' False, record)
            else if commit \<noteq> JNull then classify_commit h repo record commit clean
            else mbind (classify_worktree h repo record head clean) (\<lambda>it. ret (it, record))))"

section \<open>Completing and undoing\<close>

definition complete_state :: "('r, 'x) host_scheme \<Rightarrow> path \<Rightarrow> jobj \<Rightarrow> ('r, unit) world_op" where
  "complete_state h repo record =
     mbind (lift_res (path_field record ''state_root'')) (\<lambda>root.
     mseq (if jget record ''action'' = JStr ''task_commit'' then
        mbind (lift_res (rbind (jitem record ''result'') (\<lambda>p. rbind (str_item record ''commit'') (result_from_json p (path_str repo))))) (\<lambda>result.
        mbind (lift_res (str_item record ''task_id'')) (\<lambda>task.
        mbind (lift_res (str_item record ''started_at_utc'')) (\<lambda>started.
        mbind (lift_res (str_item record ''run_id'')) (\<lambda>run.
        mseq (on_store root (record_result task started result None (truthy (jget record ''review_required'')) (Some run))) (ret ())))))
      else if jget record ''action'' = JStr ''rollback'' then
        mbind (lift_res (rbind (jitem record ''rollback_record'') rollback_from_json)) (\<lambda>rollback.
        mseq (on_store root (complete_rollback rollback)) (ret ()))
      else raise (OperationLedgerError (''Cannot complete unknown operation action: '' @ py_str (jget record ''action''))))
     (mbind (lift_res (str_item record ''operation_id'')) (\<lambda>i.
      mseq (ledger_phase h repo i ''state_recorded'' [])
      (mseq (ledger_terminal h repo i ''complete'' (Some ''StateStore completed from durable evidence.'')) (ret ())))))"

definition reload_item :: "('r, 'x) host_scheme \<Rightarrow> path \<Rightarrow> string \<Rightarrow> ('r, reconciliation_item) world_op" where
  "reload_item h repo i =
     mbind (gets (load_record h repo i)) (\<lambda>record. mbind (classify h repo record) (\<lambda>(it, _). ret it))"

definition reconcile_one :: "('r, 'x) host_scheme \<Rightarrow> path \<Rightarrow> bool \<Rightarrow> jobj \<Rightarrow> ('r, reconciliation_item) world_op" where
  "reconcile_one h repo auto_complete record =
     mbind (classify h repo record) (\<lambda>(it, record').
     if auto_complete \<and> ri_safe_action it = Some ''complete_state'' then
       mseq (complete_state h repo record') (reload_item h repo (ri_operation_id it))
     else if auto_complete \<and> ri_safe_action it = Some ''finish_ledger'' then
       mseq (ledger_terminal h repo (ri_operation_id it) ''complete'' (Some ''State evidence already complete.''))
         (reload_item h repo (ri_operation_id it))
     else ret it)"

definition reconcile :: "('r, 'x) host_scheme \<Rightarrow> path \<Rightarrow> bool \<Rightarrow> ('r, reconciliation_item list) world_op" where
  "reconcile h repo auto_complete =
     mbind (gets (ledger_records h repo)) (mmap (reconcile_one h repo auto_complete))"

definition blocking :: "reconciliation_item list \<Rightarrow> reconciliation_item list" where
  "blocking items = filter (\<lambda>it. \<not> ri_terminal it) items"

definition assert_no_blocking :: "('r, 'x) host_scheme \<Rightarrow> path \<Rightarrow> ('r, unit) world_op" where
  "assert_no_blocking h repo =
     mbind (reconcile h repo True) (\<lambda>items.
     if blocking items \<noteq> [] then
       raise (ReconciliationBlockedError (''Canonical mutation is blocked by unresolved operation evidence: ''
         @ join ''; '' (map (\<lambda>it. ri_operation_id it @ ''='' @ ri_classification it) (blocking items))))
     else ret ())"

text \<open>\<open>_restore_recorded_baseline\<close>: tracked files by git, files that did not exist are removed.\<close>

fun remove_created :: "('r, 'x) host_scheme \<Rightarrow> path \<Rightarrow> jobj \<Rightarrow> ('r, unit) op" where
  "remove_created h repo [] = ret ()"
| "remove_created h repo ((p, v) # kvs) =
     (if v \<noteq> JNull then remove_created h repo kvs
      else mbind (gets (\<lambda>r. Inr (mc_node h (path_join repo (path_of p)) r))) (\<lambda>n.
        case n of
          Absent \<Rightarrow> remove_created h repo kvs
        | Other_Kind \<Rightarrow> raise (GitError (''Expected a file path while restoring baseline: '' @ p))
        | _ \<Rightarrow> mseq (\<lambda>r. (Inr (), mc_unlink h (path_join repo (path_of p)) r)) (remove_created h repo kvs)))"

definition restore_recorded_baseline :: "('r, 'x) host_scheme \<Rightarrow> path \<Rightarrow> jobj \<Rightarrow> ('r, unit) op" where
  "restore_recorded_baseline h repo record =
     mbind (lift_res (rbind (jitem record ''baseline_files'') jobj_of)) (\<lambda>base.
     let tracked = map fst (filter (\<lambda>(_, v). v \<noteq> JNull) base) in
     mseq (if tracked = [] then ret () else
        mseq (git_checked h ([''git'', ''restore'', ''--source'', py_str (jget record ''baseline_head''), ''--staged'', ''--worktree'', ''--'']
          @ tracked) repo None ''git restore baseline paths failed'') (ret ()))
     (remove_created h repo base))"

definition resolve_action :: "('r, 'x) host_scheme \<Rightarrow> path \<Rightarrow> string \<Rightarrow> string \<Rightarrow> reconciliation_item \<Rightarrow> jobj \<Rightarrow> ('r, unit) world_op" where
  "resolve_action h repo i action it record =
     (if action = ''complete-state'' \<and> ri_safe_action it = Some ''complete_state'' then complete_state h repo record
      else if action = ''finish-ledger'' \<and> ri_safe_action it = Some ''finish_ledger'' then
        mseq (ledger_terminal h repo i ''complete'' (Some ''State evidence already complete.'')) (ret ())
      else if action = ''cancel-intent'' \<and> ri_classification it = ''not_started'' then
        mseq (ledger_terminal h repo i ''cancelled'' (Some ''Operator cancelled clean, unapplied intent.'')) (ret ())
      else if action = ''restore-patch'' \<and> ri_classification it = ''patch_applied'' then
        mseq (in_repo (restore_recorded_baseline h repo record))
       (mbind (in_repo (repository_is_clean h repo)) (\<lambda>clean.
        mbind (if clean then mbind (in_repo (current_head h repo)) (\<lambda>head. ret (JStr head = jget record ''baseline_head''))
               else ret False) (\<lambda>same.
        mseq (require same (ReconciliationBlockedError ''Guarded patch restore did not return to the exact baseline.''))
       (mseq (ledger_terminal h repo i ''reverted'' (Some ''Operator restored exact expected paths to baseline.'')) (ret ())))))
      else raise (ReconciliationBlockedError
        (''Action '' @ action @ '' is unsafe for '' @ i @ '' in state '' @ ri_classification it @ ''.'')))"

definition guarded_resolve :: "('r, 'x) host_scheme \<Rightarrow> path \<Rightarrow> string \<Rightarrow> string \<Rightarrow> ('r, reconciliation_item) world_op" where
  "guarded_resolve h repo i action =
     mbind (gets (load_record h repo i)) (\<lambda>record.
     mbind (classify h repo record) (\<lambda>(it, record').
     mseq (resolve_action h repo i action it record') (reload_item h repo i)))"

end
