(* ===== verification/Ledger_Facts.thy ===== *)
theory Ledger_Facts imports Ledger begin

text \<open>
  What every ledger operation keeps: a readable record stays readable, its identity and evidence
  fields never change, a phase once reached keeps its time, and a terminal record is never touched.
\<close>

section \<open>Valid records\<close>

definition valid_file :: "('r, 'x) host_scheme \<Rightarrow> path \<Rightarrow> string \<Rightarrow> json durable \<Rightarrow> jobj \<Rightarrow> bool" where
  "valid_file h repo i f d \<longleftrightarrow> f = Content (JObj d) \<and> distinct (map fst d) \<and> validate_record h repo (JObj d) i = Inr d"

definition identity_keys :: "string list" where
  "identity_keys = [''version'', ''operation_id'', ''action'', ''repository'', ''state_root'', ''task_id'', ''run_id'',
     ''baseline_head'', ''patch_sha256'', ''expected_changed_files'', ''baseline_files'', ''expected_post_files'']"

definition phase_map :: "jobj \<Rightarrow> string \<Rightarrow> json option" where
  "phase_map d = (case jget d ''phases'' of JObj p \<Rightarrow> map_of p | _ \<Rightarrow> Map.empty)"

definition is_terminal :: "jobj \<Rightarrow> bool" where
  "is_terminal d \<longleftrightarrow> jget d ''terminal_outcome'' \<noteq> JNull"

definition record_evolves :: "jobj \<Rightarrow> jobj \<Rightarrow> bool" where
  "record_evolves d d' \<longleftrightarrow> (\<forall>k \<in> set identity_keys. map_of d' k = map_of d k) \<and> phase_map d \<subseteq>\<^sub>m phase_map d'
     \<and> fst ` set d \<subseteq> fst ` set d' \<and> (is_terminal d \<longrightarrow> d' = d)"

definition ledger_evolves :: "('r, 'x) host_scheme \<Rightarrow> path \<Rightarrow> 'r world \<Rightarrow> 'r world \<Rightarrow> bool" where
  "ledger_evolves h repo w w' \<longleftrightarrow> (\<forall>i d. valid_file h repo i (ledger_file i w) d \<longrightarrow>
     (\<exists>d'. valid_file h repo i (ledger_file i w') d' \<and> record_evolves d d'))"

lemma record_evolves_refl [simp]: "record_evolves d d"
  by (simp add: record_evolves_def)

lemma record_evolves_trans:
  assumes "record_evolves d e" "record_evolves e f"
  shows "record_evolves d f"
proof (cases "is_terminal d")
  case True
  then show ?thesis using assms by (simp add: record_evolves_def)
next
  case False
  have "phase_map d \<subseteq>\<^sub>m phase_map f" "fst ` set d \<subseteq> fst ` set f"
    using assms unfolding record_evolves_def by (blast intro: map_le_trans, blast)
  with False assms show ?thesis by (simp add: record_evolves_def)
qed

interpretation ledger: effect "ledger_evolves h repo" for h repo
proof
  show "ledger_evolves h repo w w" for w unfolding ledger_evolves_def using record_evolves_refl by blast
  show "ledger_evolves h repo w u" if "ledger_evolves h repo w v" "ledger_evolves h repo v u" for w v u
    using that unfolding ledger_evolves_def by (meson record_evolves_trans)
qed

lemma same_ledger_evolves: "w_ledger w' = w_ledger w \<Longrightarrow> ledger_evolves h repo w w'"
  unfolding ledger_evolves_def ledger_file_def using record_evolves_refl by auto

section \<open>Validation depends on the identity fields\<close>

lemma validate_record_iff:
  "validate_record h repo (JObj d) i = Inr e \<longleftrightarrow> e = d \<and> set ledger_required \<subseteq> fst ` set d
     \<and> jget d ''operation_id'' = JStr i \<and> json_eq (jget d ''version'') (JInt 1)
     \<and> jget d ''action'' \<in> {JStr ''task_commit'', JStr ''rollback''}
     \<and> mc_resolve h (path_of (py_str (jget d ''repository''))) = repo
     \<and> is_hex_digest (jget d ''patch_sha256'') \<and> py_str (jget d ''record_sha256'') = record_digest h d
     \<and> validate_scope d i = Inr ()"
proof -
  have m: "filter (\<lambda>k. k \<notin> fst ` set d) ledger_required = [] \<longleftrightarrow> set ledger_required \<subseteq> fst ` set d"
    by (auto simp: filter_empty_conv)
  have h: "jget d ''action'' \<in> {JStr ''task_commit'', JStr ''rollback''} \<Longrightarrow> is_hashable (jget d ''action'')"
    by (auto simp: is_hashable_def)
  show ?thesis
    unfolding validate_record_def json.case Let_def rbind_Inr_iff check_Inr_iff m using h by auto
qed

lemma jget_cong: "map_of d' k = map_of d k \<Longrightarrow> jget d' k = jget d k"
  by (simp add: jget_def jget_or_def)

lemma validate_transfer:
  assumes v: "validate_record h repo (JObj d) i = Inr d" and k: "fst ` set d \<subseteq> fst ` set d'"
    and same: "\<forall>k \<in> set identity_keys. map_of d' k = map_of d k"
    and ph: "jget d' ''phases'' = JObj p" and dig: "py_str (jget d' ''record_sha256'') = record_digest h d'"
  shows "validate_record h repo (JObj d') i = Inr d'"
proof -
  have g: "k \<in> set identity_keys \<Longrightarrow> jget d' k = jget d k" for k using same by (intro jget_cong) blast
  have gs: "jget d' ''operation_id'' = jget d ''operation_id''" "jget d' ''version'' = jget d ''version''"
    "jget d' ''action'' = jget d ''action''" "jget d' ''repository'' = jget d ''repository''"
    "jget d' ''patch_sha256'' = jget d ''patch_sha256''" "jget d' ''expected_changed_files'' = jget d ''expected_changed_files''"
    "jget d' ''baseline_files'' = jget d ''baseline_files''" "jget d' ''expected_post_files'' = jget d ''expected_post_files''"
    by (rule g, simp add: identity_keys_def)+
  have "validate_scope d i = Inr ()" using v by (simp only: validate_record_iff)
  then have "validate_scope d' i = Inr ()"
    unfolding validate_scope_def gs ph by (cases "jget d ''phases''") auto
  with v k dig show ?thesis unfolding validate_record_iff gs by blast
qed

lemma valid_phases: "validate_record h repo (JObj d) i = Inr d \<Longrightarrow> \<exists>p. jget d ''phases'' = JObj p"
  unfolding validate_record_iff validate_scope_def by (auto split: json.splits)

section \<open>Writing\<close>

lemma sealed_digest: "distinct (map fst d) \<Longrightarrow> record_digest h (sealed h d) = record_digest h d"
  by (simp add: record_digest_def sealed_def)

lemma sealed_fields: "k \<noteq> ''record_sha256'' \<Longrightarrow> map_of (sealed h d) k = map_of d k"
  "k \<noteq> ''record_sha256'' \<Longrightarrow> jget (sealed h d) k = jget d k"
  by (simp_all add: sealed_def)

lemma sealed_evolves:
  assumes "record_evolves d d'" "\<not> is_terminal d"
  shows "record_evolves d (sealed h d')"
proof -
  have id: "k \<in> set identity_keys \<Longrightarrow> k \<noteq> ''record_sha256''" for k by (auto simp: identity_keys_def)
  have p: "phase_map (sealed h d') = phase_map d'" by (simp add: phase_map_def sealed_def)
  have k: "fst ` set (sealed h d') = insert ''record_sha256'' (fst ` set d')" by (simp only: sealed_def keys_jset)
  show ?thesis
    unfolding record_evolves_def p k
  proof (intro conjI ballI impI)
    fix x assume "x \<in> set identity_keys"
    then show "map_of (sealed h d') x = map_of d x"
      using id [of x] assms(1) by (simp add: sealed_fields record_evolves_def)
  qed (use assms in \<open>simp_all add: record_evolves_def subset_insertI2\<close>)
qed

lemma sealed_valid:
  assumes "valid_file h repo i f d" "record_evolves d d'" "distinct (map fst d')" "jget d' ''phases'' = JObj p"
  shows "valid_file h repo i (Content (JObj (sealed h d'))) (sealed h d')"
proof -
  have "validate_record h repo (JObj (sealed h d')) i = Inr (sealed h d')"
  proof (rule validate_transfer)
    show "validate_record h repo (JObj d) i = Inr d" using assms(1) by (simp add: valid_file_def)
    show "fst ` set d \<subseteq> fst ` set (sealed h d')" using assms(2) by (auto simp: record_evolves_def sealed_def)
    show "\<forall>k \<in> set identity_keys. map_of (sealed h d') k = map_of d k"
      using assms(2) by (auto simp: record_evolves_def sealed_def identity_keys_def)
    show "jget (sealed h d') ''phases'' = JObj p" using assms(4) by (simp add: sealed_def)
    show "py_str (jget (sealed h d') ''record_sha256'') = record_digest h (sealed h d')"
      unfolding sealed_digest [OF assms(3)] by (simp add: sealed_def)
  qed
  moreover have "distinct (map fst (sealed h d'))" using assms(3) by (simp add: sealed_def)
  ultimately show ?thesis by (simp add: valid_file_def)
qed

lemma world_write_cases:
  assumes "world_write p f w = (x, w')"
  obtains e where "x = Inl (DurableIOError e)" "w' = w"
  | b where "x = Inr ()" "w' = f (w\<lparr>w_budget := b\<rparr>)"
proof (cases "w_budget w")
  case None
  then have e: "w\<lparr>w_budget := None\<rparr> = w" by (cases w) simp
  have "x = Inr ()" "w' = f w" using None assms by (simp_all add: world_write_def)
  then show ?thesis by (intro that(2) [of None]) (simp_all only: e)
next
  case (Some n)
  show ?thesis
  proof (cases n)
    case 0
    obtain e where "world_write p f w = (Inl (DurableIOError e), w)"
      using Some 0 by (simp add: world_write_def)
    with assms have "x = Inl (DurableIOError e)" "w' = w" by auto
    then show ?thesis by (rule that(1))
  next
    case (Suc m)
    then have "x = Inr ()" "w' = f (w\<lparr>w_budget := Some m\<rparr>)"
      using Some assms by (auto simp: world_write_def)
    then show ?thesis by (rule that(2))
  qed
qed

lemma put_file_map: "map_of (put_file j f fs) i = (if i = j then Some f else map_of fs i)"
  unfolding put_file_def by (induction fs) auto

text \<open>The one place where records change: a record of its own file, extended, is written back.\<close>

lemma write_record_evolves:
  assumes "valid_file h repo i (ledger_file i w) d" "record_evolves d d'" "\<not> is_terminal d"
    "distinct (map fst d')" "jget d' ''phases'' = JObj p"
  shows "ledger_evolves h repo w (snd (write_record h repo d' w))"
proof -
  have "map_of d' ''operation_id'' = map_of d ''operation_id''"
    using assms(2) by (simp add: record_evolves_def identity_keys_def)
  then have i: "py_str (jget d' ''operation_id'') = i"
    using assms(1) jget_cong [of d' "''operation_id''" d] by (simp add: valid_file_def validate_record_iff)
  obtain x w1 where w1: "world_write (ledger_path h repo i)
      (\<lambda>w. w\<lparr>w_ledger := put_file i (Content (JObj (sealed h d'))) (w_ledger w)\<rparr>) w = (x, w1)" by fastforce
  then have e: "snd (write_record h repo d' w) = w1"
    by (simp add: write_record_def i mseq_def mbind_def split: sum.splits)
  from w1 show ?thesis
  proof (cases rule: world_write_cases)
    case 1
    then show ?thesis by (simp add: e ledger.R_refl)
  next
    case (2 b)
    have f: "ledger_file j w1 = (if j = i then Content (JObj (sealed h d')) else ledger_file j w)" for j
      unfolding 2 by (simp add: ledger_file_def put_file_map)
    show ?thesis
      unfolding e ledger_evolves_def
    proof (intro allI impI)
      fix j c assume c: "valid_file h repo j (ledger_file j w) c"
      show "\<exists>c'. valid_file h repo j (ledger_file j w1) c' \<and> record_evolves c c'"
      proof (cases "j = i")
        case True
        with c assms(1) have "c = d" by (simp add: valid_file_def)
        with True show ?thesis
          using sealed_valid [OF assms(1,2,4,5)] sealed_evolves [OF assms(2,3)] f by auto
      qed (use c f in auto)
    qed
  qed
qed

end
