(* ===== verification/Ledger_Steps.thy ===== *)
theory Ledger_Steps imports Ledger_Facts begin

text \<open>
  Every operation of the ledger keeps the relation \<open>ledger_evolves\<close>, and touches only the file of its
  own operation.
\<close>

section \<open>Operations that leave the ledger alone\<close>

definition same_ledger :: "'r world \<Rightarrow> 'r world \<Rightarrow> bool" where
  "same_ledger w w' \<longleftrightarrow> w_ledger w' = w_ledger w"

interpretation quiet: effect same_ledger
  by unfold_locales (simp_all add: same_ledger_def)

lemma within_attempt: "within R m \<Longrightarrow> within R (attempt h m)"
  by (simp add: within_def)

lemma quiet_primitives:
  "within same_ledger (in_repo m)" "within same_ledger (on_store root sm)" "within same_ledger world_now"
  by (auto simp: within_def same_ledger_def in_repo_def on_store_def world_now_def split: prod.splits)

lemma quiet_state_complete: "within same_ledger (state_complete h repo record)"
  unfolding state_complete_def by (intro quiet.within_intros quiet_primitives)

lemma quiet_gather: "within same_ledger (gather_evidence h repo record)" "within same_ledger (gather_commit h repo c)"
  unfolding gather_evidence_def gather_commit_def
  by (intro quiet.within_intros quiet_primitives quiet_state_complete)+

lemma quiet_worktree: "within same_ledger (classify_worktree h repo record head clean)"
  unfolding classify_worktree_def by (intro quiet.within_intros quiet_primitives)

lemma quiet_evolves: "within same_ledger m \<Longrightarrow> within (ledger_evolves h repo) m"
  by (simp add: within_def same_ledger_def same_ledger_evolves)

section \<open>The current record\<close>

definition current :: "('r, 'x) host_scheme \<Rightarrow> path \<Rightarrow> string \<Rightarrow> jobj \<Rightarrow> 'r world \<Rightarrow> bool" where
  "current h repo i d w \<longleftrightarrow> ledger_file i w = Content (JObj d) \<and> validate_record h repo (JObj d) i = Inr d"

lemma current_same: "same_ledger w w' \<Longrightarrow> current h repo i d w' \<longleftrightarrow> current h repo i d w"
  by (simp add: current_def same_ledger_def ledger_file_def)

lemma validate_same: "validate_record h repo payload i = Inr d \<Longrightarrow> payload = JObj d"
  by (cases payload) (simp_all add: validate_record_iff, simp_all add: validate_record_def)

lemma load_current: "load_record h repo i w = Inr d \<longleftrightarrow> safe_id i \<and> current h repo i d w"
proof -
  have "validate_record h repo JNull i \<noteq> Inr d" by (simp add: validate_record_def)
  then show ?thesis
    by (auto simp: load_record_def current_def read_json_def dest: validate_same split: durable.splits if_splits sum.splits)
qed

lemma quiet_bind_given:
  assumes "within same_ledger m" "\<And>x. within_given (current h repo i d) (ledger_evolves h repo) (k x)"
  shows "within_given (current h repo i d) (ledger_evolves h repo) (mbind m k)"
  unfolding within_given_def
proof (intro allI impI)
  fix w assume c: "current h repo i d w"
  obtain r w1 where r: "m w = (r, w1)" by fastforce
  then have s: "same_ledger w w1" using assms(1) by (metis withinD)
  show "ledger_evolves h repo w (snd (mbind m k w))"
  proof (cases r)
    case (Inl e)
    then show ?thesis using r s by (simp add: mbind_def same_ledger_def same_ledger_evolves)
  next
    case (Inr x)
    have "ledger_evolves h repo w1 (snd (k x w1))"
      using assms(2) [of x] c current_same [OF s] unfolding within_given_def by blast
    moreover have "ledger_evolves h repo w w1" using s by (simp add: same_ledger_def same_ledger_evolves)
    ultimately show ?thesis using r Inr ledger.R_trans by (simp add: mbind_def)
  qed
qed

text \<open>Writing an extension of the current record; a file with repeated keys is no valid record.\<close>

lemma write_current:
  assumes "\<not> is_terminal d"
    "distinct (map fst d) \<Longrightarrow> record_evolves d d' \<and> distinct (map fst d')" "jget d' ''phases'' = JObj p"
    "jget d' ''operation_id'' = jget d ''operation_id''"
  shows "within_given (current h repo i d) (ledger_evolves h repo) (write_record h repo d')"
  unfolding within_given_def
proof (intro allI impI)
  fix w assume c: "current h repo i d w"
  show "ledger_evolves h repo w (snd (write_record h repo d' w))"
  proof (cases "distinct (map fst d)")
    case True
    then show ?thesis
      using c assms by (intro write_record_evolves [of h repo i w d]) (auto simp: valid_file_def current_def)
  next
    case False
    have i: "py_str (jget d' ''operation_id'') = i"
      using c assms(4) by (simp add: current_def validate_record_iff)
    obtain x w1 where w1: "world_write (ledger_path h repo i)
        (\<lambda>w. w\<lparr>w_ledger := put_file i (Content (JObj (sealed h d'))) (w_ledger w)\<rparr>) w = (x, w1)" by fastforce
    then have e: "snd (write_record h repo d' w) = w1"
      by (simp add: write_record_def i mseq_def mbind_def split: sum.splits)
    from w1 have "j \<noteq> i \<Longrightarrow> ledger_file j w1 = ledger_file j w" for j
      by (cases rule: world_write_cases) (simp_all add: ledger_file_def put_file_map)
    moreover have "\<not> valid_file h repo i (ledger_file i w) x" for x
      using c False by (auto simp: valid_file_def current_def)
    ultimately show ?thesis unfolding e ledger_evolves_def by (metis record_evolves_refl)
  qed
qed

section \<open>Extensions of a record\<close>

lemma map_of_jupdate: "k \<notin> fst ` set ch \<Longrightarrow> map_of (jupdate d ch) k = map_of d k"
proof (induction ch arbitrary: d)
  case (Cons c ch)
  then show ?case by (cases c) (auto simp: jupdate_def)
qed (simp add: jupdate_def)

lemma keys_jupdate: "fst ` set d \<subseteq> fst ` set (jupdate d ch) \<and> (distinct (map fst d) \<longrightarrow> distinct (map fst (jupdate d ch)))"
proof (induction ch arbitrary: d)
  case (Cons c ch)
  obtain k v where c: "c = (k, v)" by (cases c)
  show ?case using Cons.IH [of "jset d k v"] by (auto simp: jupdate_def c)
qed (simp add: jupdate_def)

lemma phase_map_JObj: "jget d ''phases'' = JObj p \<Longrightarrow> phase_map d = map_of p"
  by (simp add: phase_map_def)

lemma setdefault_le: "map_of p \<subseteq>\<^sub>m map_of (setdefault p k v)"
  by (auto simp: setdefault_def map_le_def map_of_eq_None_iff [symmetric])

text \<open>The fields a caller of \<open>phase\<close> may add are none of the identity fields.\<close>

definition free_changes :: "jobj \<Rightarrow> bool" where
  "free_changes ch \<longleftrightarrow> fst ` set ch \<inter> (set identity_keys \<union> {''phases''}) = {}"

lemma phase_extends:
  fixes d p ch :: jobj and name :: string and v :: json
  defines "d' \<equiv> jupdate (jset d ''phases'' (JObj (setdefault p name v))) ch"
  assumes "jget d ''phases'' = JObj p" "\<not> is_terminal d" "free_changes ch"
  shows "record_evolves d d'" "jget d' ''phases'' = JObj (setdefault p name v)"
    "jget d' ''operation_id'' = jget d ''operation_id''" "distinct (map fst d) \<Longrightarrow> distinct (map fst d')"
proof -
  have out: "k \<notin> fst ` set ch" if "k \<in> set identity_keys \<union> {''phases''}" for k
    using assms(4) that unfolding free_changes_def by blast
  have id: "map_of d' k = map_of d k" if "k \<in> set identity_keys" for k
  proof -
    have "k \<noteq> ''phases''" using that by (auto simp: identity_keys_def)
    then show ?thesis using that out by (simp add: d'_def map_of_jupdate)
  qed
  show ph: "jget d' ''phases'' = JObj (setdefault p name v)"
    using map_of_jupdate [OF out] by (simp add: d'_def jget_def jget_or_def)
  show "jget d' ''operation_id'' = jget d ''operation_id''" using id by (intro jget_cong) (simp add: identity_keys_def)
  show "distinct (map fst d')" if "distinct (map fst d)" using that keys_jupdate unfolding d'_def by auto
  have "fst ` set d \<subseteq> fst ` set d'" using keys_jupdate [of "jset d ''phases'' _"] unfolding d'_def by auto
  then show "record_evolves d d'"
    using assms(3) id setdefault_le [of p name v]
    by (simp add: record_evolves_def phase_map_JObj [OF ph] phase_map_JObj [OF assms(2)])
qed

lemma terminal_extends:
  fixes d :: jobj and a b c :: json
  defines "d' \<equiv> jset (jset (jset d ''terminal_outcome'' a) ''terminal_detail'' b) ''finished_at_utc'' c"
  assumes "\<not> is_terminal d"
  shows "record_evolves d d'" "jget d' ''phases'' = jget d ''phases''" "jget d' ''operation_id'' = jget d ''operation_id''"
    "distinct (map fst d) \<Longrightarrow> distinct (map fst d')"
  using assms(2) by (auto simp: d'_def record_evolves_def identity_keys_def phase_map_def)

lemma with_commit_extends:
  assumes "\<not> is_terminal d"
  shows "record_evolves d (with_commit d full)" "jget (with_commit d full) ''phases'' = jget d ''phases''"
    "jget (with_commit d full) ''operation_id'' = jget d ''operation_id''"
    "distinct (map fst d) \<Longrightarrow> distinct (map fst (with_commit d full))"
  using assms by (auto simp: with_commit_def record_evolves_def identity_keys_def phase_map_def Let_def split: json.splits)

section \<open>Every operation\<close>

lemma valid_phases_current: "current h repo i d w \<Longrightarrow> \<exists>p. jget d ''phases'' = JObj p"
  by (auto simp: current_def intro: valid_phases)

lemma load_given:
  assumes "\<And>d p. jget d ''phases'' = JObj p \<Longrightarrow> within_given (current h repo i d) (ledger_evolves h repo) (k d)"
  shows "within (ledger_evolves h repo) (mbind (gets (load_record h repo i)) k)"
proof (rule ledger.within_gets_given)
  fix d
  show "within_given (\<lambda>w. load_record h repo i w = Inr d) (ledger_evolves h repo) (k d)"
  proof (cases "\<exists>p. jget d ''phases'' = JObj p")
    case True
    then show ?thesis using assms by (blast intro: within_given_mono dest: load_current [THEN iffD1])
  qed (auto simp: within_given_def load_current dest: valid_phases_current)
qed

lemma phase_evolves:
  assumes "free_changes ch"
  shows "within (ledger_evolves h repo) (ledger_phase h repo i name ch)"
  unfolding ledger_phase_def
proof (rule load_given)
  fix d p assume p: "jget d ''phases'' = JObj p"
  show "within_given (current h repo i d) (ledger_evolves h repo)
     (mseq (require (jget d ''terminal_outcome'' = JNull) (OperationLedgerError (''Operation is already terminal: '' @ i)))
       (mbind (lift_res (jobj_of (jget d ''phases''))) (\<lambda>phases. mbind world_now (\<lambda>now.
          write_record h repo (jupdate (jset d ''phases'' (JObj (setdefault phases name (JStr now)))) ch)))))"
  proof (rule ledger.given_require)
    assume t: "jget d ''terminal_outcome'' = JNull"
    have w: "within_given (current h repo i d) (ledger_evolves h repo)
        (write_record h repo (jupdate (jset d ''phases'' (JObj (setdefault p name (JStr now)))) ch))" for now
      using phase_extends [OF p _ assms, of name "JStr now"] t
      by (intro write_current) (auto simp: is_terminal_def)
    have "within_given (current h repo i d) (ledger_evolves h repo) (mbind world_now (\<lambda>now.
        write_record h repo (jupdate (jset d ''phases'' (JObj (setdefault p name (JStr now)))) ch)))"
      by (intro quiet_bind_given quiet_primitives w)
    then show "within_given (current h repo i d) (ledger_evolves h repo)
       (mbind (lift_res (jobj_of (jget d ''phases''))) (\<lambda>phases. mbind world_now (\<lambda>now.
          write_record h repo (jupdate (jset d ''phases'' (JObj (setdefault phases name (JStr now)))) ch))))"
      by (simp add: p jobj_of_def mbind_def lift_res_def)
  qed
qed

lemma terminal_evolves: "within (ledger_evolves h repo) (ledger_terminal h repo i outcome detail)"
  unfolding ledger_terminal_def
proof (intro ledger.within_seq ledger.within_require load_given)
  fix d p assume p: "jget d ''phases'' = JObj p"
  show "within_given (current h repo i d) (ledger_evolves h repo)
     (let existing = jget d ''terminal_outcome'' in
      if existing \<noteq> JNull then
        (if existing = JStr outcome then ret d
         else raise (OperationLedgerError (''Operation already ended as '' @ py_str existing @ '': '' @ i)))
      else mbind world_now (\<lambda>now. write_record h repo
        (jset (jset (jset d ''terminal_outcome'' (JStr outcome)) ''terminal_detail'' (redact_option h detail))
           ''finished_at_utc'' (JStr now))))"
    unfolding Let_def
  proof (intro within_given_if)
    assume "\<not> jget d ''terminal_outcome'' \<noteq> JNull"
    then show "within_given (current h repo i d) (ledger_evolves h repo) (mbind world_now (\<lambda>now. write_record h repo
        (jset (jset (jset d ''terminal_outcome'' (JStr outcome)) ''terminal_detail'' (redact_option h detail))
           ''finished_at_utc'' (JStr now))))"
      using terminal_extends [of d] p
      by (intro quiet_bind_given quiet_primitives write_current) (auto simp: is_terminal_def)
  qed (intro ledger.given_within ledger.within_ret ledger.within_raise)+
qed

lemma classify_evolves:
  fixes h :: "('r, 'x) host_scheme"
  shows "within_given (current h repo i d) (ledger_evolves h repo) (classify h repo d)"
proof -
  have ret: "within_given (current h repo i d) (ledger_evolves h repo) (ret x)" for x :: "reconciliation_item \<times> jobj"
    by (intro ledger.given_within ledger.within_ret)
  have q: "within same_ledger m \<Longrightarrow> within_given (current h repo i d) (ledger_evolves h repo) m"
    for m :: "('r, reconciliation_item \<times> jobj) world_op"
    by (intro ledger.given_within quiet_evolves)
  show ?thesis
  proof (cases "is_terminal d")
    case True
    then show ?thesis by (auto simp: classify_def is_terminal_def intro: ret)
  next
    case False
    have w: "within_given (current h repo i d) (ledger_evolves h repo) (write_record h repo (with_commit d full))" for full
      unfolding within_given_def
    proof (intro allI impI)
      fix w assume c: "current h repo i d w"
      then obtain p where "jget d ''phases'' = JObj p" using valid_phases_current by blast
      then have "within_given (current h repo i d) (ledger_evolves h repo) (write_record h repo (with_commit d full))"
        using with_commit_extends [OF False] by (intro write_current False) auto
      with c show "ledger_evolves h repo w (snd (write_record h repo (with_commit d full) w))"
        by (simp add: within_given_def)
    qed
    have cc: "within_given (current h repo i d) (ledger_evolves h repo) (classify_commit h repo d commit clean)" for commit clean
      unfolding classify_commit_def
    proof (rule quiet_bind_given)
      show "within same_ledger (attempt is_git_error (gather_commit h repo (py_str commit)))"
        by (intro within_attempt quiet_gather)
    next
      fix x :: "exn + (string \<times> string list \<times> string list)"
      show "within_given (current h repo i d) (ledger_evolves h repo)
        (case x of Inl e \<Rightarrow> ret (contradictory d (exn_message e), d)
         | Inr (full, parents, changed) \<Rightarrow> mbind (lift_res (expected_files d)) (\<lambda>expected.
             if length parents = 1 \<and> JStr (hd parents) = jget d ''baseline_head''
               \<and> set changed = set expected \<and> jget d (payload_key d) \<noteq> JNull \<and> clean
             then mbind (if jget d ''commit'' \<noteq> JStr full then write_record h repo (with_commit d full) else ret d)
               (\<lambda>record'. ret (item d ''commit_exists_state_missing'' (Some ''complete_state'')
                 ''Exact trailer, parent, scope, clean worktree, and durable state payload match.'' False, record'))
             else ret (contradictory d
               ''Commit evidence does not match baseline, scope, payload, or clean-worktree guards.'', d)))"
      proof (cases x)
        case (Inl e)
        then show ?thesis by (simp add: ret)
      next
        case (Inr y)
        obtain full parents changed where y: "y = (full, parents, changed)" by (cases y)
        show ?thesis unfolding Inr y sum.case prod.case
          by (intro quiet_bind_given quiet.within_lift within_given_if ledger.given_bind ret ledger.within_ret w
              ledger.given_within)
      qed
    qed
    show ?thesis
      unfolding classify_def
    proof (intro within_given_if ret quiet_bind_given within_attempt quiet_gather)
      fix x :: "exn + (bool \<times> json \<times> string \<times> bool)"
      show "within_given (current h repo i d) (ledger_evolves h repo)
        (case x of Inl e \<Rightarrow> ret (contradictory d (exn_message e), d)
         | Inr (done, commit, head, clean) \<Rightarrow>
            if done then ret (item d ''state_complete'' (Some ''finish_ledger'') ''Expected StateStore evidence already exists.'' False, d)
            else if commit \<noteq> JNull then classify_commit h repo d commit clean
            else mbind (classify_worktree h repo d head clean) (\<lambda>it. ret (it, d)))"
        by (cases x) (auto intro!: within_given_if ret cc q quiet.within_bind quiet_worktree quiet.within_ret split: prod.splits)
    qed
  qed
qed

lemma reload_evolves: "within (ledger_evolves h repo) (reload_item h repo i)"
  unfolding reload_item_def
  by (rule load_given, rule ledger.given_bind, rule classify_evolves) (intro ledger.within_prod ledger.within_ret)

lemma free_Nil [simp]: "free_changes []"
  by (simp add: free_changes_def)

lemma complete_state_evolves: "within (ledger_evolves h repo) (complete_state h repo d)"
  unfolding complete_state_def
  by (intro ledger.within_intros quiet_evolves [OF quiet_primitives(2)] phase_evolves terminal_evolves free_Nil)

lemma guarded_resolve_evolves: "within (ledger_evolves h repo) (guarded_resolve h repo i action)"
  unfolding guarded_resolve_def resolve_action_def
  by (rule load_given, rule ledger.given_bind, rule classify_evolves)
     (intro ledger.within_intros complete_state_evolves terminal_evolves reload_evolves
       quiet_evolves [OF quiet_primitives(1)])

end
