(* ===== verification/Ledger_System.thy ===== *)
theory Ledger_System imports Ledger_Steps begin

text \<open>
  The ledger as a whole: reconciliation goes through all files, each step touching only its own file,
  and any sequence of ledger calls keeps what \<open>ledger_evolves\<close> says.
\<close>

section \<open>Frames\<close>

definition only_file :: "string \<Rightarrow> 'r world \<Rightarrow> 'r world \<Rightarrow> bool" where
  "only_file i w w' \<longleftrightarrow> (\<forall>j. j \<noteq> i \<longrightarrow> ledger_file j w' = ledger_file j w)
     \<and> (distinct (map fst (w_ledger w)) \<longrightarrow> distinct (map fst (w_ledger w')))"

interpretation frame: effect "only_file i" for i
  by unfold_locales (simp_all add: only_file_def)

lemma quiet_frame: "within same_ledger m \<Longrightarrow> within (only_file i) m"
  by (simp add: within_def same_ledger_def only_file_def ledger_file_def)

lemma put_file_distinct: "distinct (map fst fs) \<Longrightarrow> distinct (map fst (put_file i f fs))"
proof -
  assume "distinct (map fst fs)"
  then have "distinct (map fst (filter (\<lambda>(k, _). k \<noteq> i) fs))" by (induction fs) auto
  then show ?thesis by (auto simp: put_file_def)
qed

lemma write_frame:
  fixes h :: "('r, 'x) host_scheme"
  assumes i: "py_str (jget d ''operation_id'') = i"
  shows "within (only_file i) (write_record h repo d)"
  unfolding within_def
proof (rule allI)
  fix w :: "'r world"
  obtain x w1 where w1: "world_write (ledger_path h repo i)
      (\<lambda>w. w\<lparr>w_ledger := put_file i (Content (JObj (sealed h d))) (w_ledger w)\<rparr>) w = (x, w1)" by fastforce
  then have e: "snd (write_record h repo d w) = w1"
    by (simp add: write_record_def i mseq_def mbind_def split: sum.splits)
  from w1 show "only_file i w (snd (write_record h repo d w))" unfolding e
    by (cases rule: world_write_cases)
       (simp_all add: only_file_def ledger_file_def put_file_map put_file_distinct)
qed

lemma load_id: "load_record h repo i w = Inr d \<Longrightarrow> jget d ''operation_id'' = JStr i"
  by (auto simp: load_current current_def validate_record_iff)

lemma load_frame:
  assumes "\<And>d. jget d ''operation_id'' = JStr i \<Longrightarrow> within (only_file i) (k d)"
  shows "within (only_file i) (mbind (gets (load_record h repo i)) k)"
  by (rule frame.within_gets_given)
     (auto simp: within_given_def dest!: load_id assms [unfolded within_def, rule_format])

lemma phase_frame:
  assumes "free_changes ch"
  shows "within (only_file i) (ledger_phase h repo i name ch)"
  unfolding ledger_phase_def
proof (intro load_frame frame.within_seq frame.within_require frame.within_bind frame.within_lift
    quiet_frame [OF quiet_primitives(3)] write_frame)
  fix d phases now assume d: "jget d ''operation_id'' = JStr i"
  have "''operation_id'' \<notin> fst ` set ch" using assms unfolding free_changes_def by (auto simp: identity_keys_def)
  then have "map_of (jupdate (jset d ''phases'' (JObj (setdefault phases name (JStr now)))) ch) ''operation_id''
      = map_of d ''operation_id''" by (simp add: map_of_jupdate)
  from jget_cong [OF this] show "py_str (jget (jupdate (jset d ''phases'' (JObj (setdefault phases name (JStr now)))) ch) ''operation_id'') = i"
    using d by simp
qed

lemma terminal_frame: "within (only_file i) (ledger_terminal h repo i outcome detail)"
  unfolding ledger_terminal_def
  by (intro frame.within_seq frame.within_require load_frame frame.within_let frame.within_if frame.within_ret
      frame.within_raise frame.within_bind quiet_frame [OF quiet_primitives(3)] write_frame) simp

lemma classify_frame:
  assumes "jget d ''operation_id'' = JStr i"
  shows "within (only_file i) (classify h repo d)"
proof -
  have w: "within (only_file i) (write_record h repo (with_commit d full))" for full
    using assms by (intro write_frame) (auto simp: with_commit_def Let_def split: json.splits)
  have c: "within (only_file i) (classify_commit h repo d commit clean)" for commit clean
    unfolding classify_commit_def
    by (auto intro!: frame.within_intros quiet_frame [OF within_attempt [OF quiet_gather(2)]] w split: sum.split)
  show ?thesis
    unfolding classify_def
    by (auto intro!: frame.within_intros quiet_frame [OF within_attempt [OF quiet_gather(1)]] c quiet_frame [OF quiet_worktree]
        split: sum.split)
qed

lemma reload_frame: "within (only_file i) (reload_item h repo i)"
  unfolding reload_item_def by (intro load_frame frame.within_bind classify_frame frame.within_prod frame.within_ret)

lemma complete_frame:
  assumes "jget d ''operation_id'' = JStr i"
  shows "within (only_file i) (complete_state h repo d)"
proof -
  have "str_item d ''operation_id'' = Inr i"
    using assms by (simp add: str_item_def jitem_def jget_def jget_or_def split: option.splits)
  then show ?thesis
    unfolding complete_state_def
    by (auto intro!: frame.within_intros quiet_frame [OF quiet_primitives(2)] frame.within_lift_bind phase_frame terminal_frame)
qed

section \<open>What a classification says\<close>

lemma item_simps [simp]:
  "ri_terminal (item r c s dt t) = t" "ri_classification (item r c s dt t) = c" "ri_safe_action (item r c s dt t) = s"
  by (simp_all add: item_def)

lemma item_id: "jget d ''operation_id'' = JStr i \<Longrightarrow> ri_operation_id (item d c s dt t) = i"
  by (auto simp: item_def jget_def jget_or_def split: option.splits)

text \<open>The shape of an item: its operation is that of the record, and it is not terminal.\<close>

definition open_item :: "jobj \<Rightarrow> reconciliation_item \<Rightarrow> bool" where
  "open_item d it \<longleftrightarrow> \<not> ri_terminal it \<and> ri_operation_id it = py_str (jget_or d ''operation_id'' (JStr ''unknown''))"

lemma open_items: "open_item d (item d c s dt False)" "open_item d (contradictory d m)"
  by (simp_all add: open_item_def contradictory_def item_def)

lemma worktree_open: "returns (open_item d) (classify_worktree h repo d head clean)"
  unfolding classify_worktree_def Let_def by (intro returns_intros open_items) (auto simp: open_items)

definition open_result :: "('r, 'x) host_scheme \<Rightarrow> jobj \<Rightarrow> reconciliation_item \<times> jobj \<Rightarrow> bool" where
  "open_result h d = (\<lambda>(it, d'). open_item d it \<and> (d' = d \<or> (\<exists>full. d' = sealed h (with_commit d full))))"

lemma returns_write: "returns (\<lambda>r. r = sealed h d) (write_record h repo d)"
  unfolding write_record_def Let_def by (intro returns_intros refl)

lemma commit_open: "returns (open_result h d) (classify_commit h repo d c clean)"
proof -
  have w: "returns (\<lambda>r. r = d \<or> (\<exists>full. r = sealed h (with_commit d full)))
      (if b then write_record h repo (with_commit d full) else ret d)" for b full
    by (intro returns_if returns_mono [OF returns_write] returns_ret) auto
  show ?thesis
    unfolding classify_commit_def
    by (intro returns_intros returns_bind_given [OF w]) (auto simp: open_result_def open_items)
qed

lemma classify_result:
  assumes "classify h repo d w = (Inr (it, d'), w')"
  shows "(ri_terminal it \<longrightarrow> is_terminal d \<and> \<not> truthy (jget d ''_corruption'') \<and> w' = w)
    \<and> ri_operation_id it = py_str (jget_or d ''operation_id'' (JStr ''unknown''))
    \<and> (d' = d \<or> (\<exists>full. d' = sealed h (with_commit d full)))"
proof (cases "truthy (jget d ''_corruption'') \<or> jget d ''terminal_outcome'' \<noteq> JNull")
  case True
  then show ?thesis using assms by (auto simp: classify_def item_def is_terminal_def split: if_splits)
next
  case False
  have wt: "returns (open_result h d) (mbind (classify_worktree h repo d head clean) (\<lambda>it. ret (it, d)))" for head clean
    by (rule returns_bind_given [OF worktree_open]) (auto simp: open_result_def intro: returns_ret)
  have "returns (open_result h d) (classify h repo d)"
    unfolding classify_def using False
    by (intro returns_intros commit_open wt) (auto simp: open_result_def open_items)
  with assms show ?thesis by (auto simp: returns_def open_result_def open_item_def)
qed

section \<open>Reconciliation\<close>

lemma reconcile_one_evolves:
  fixes h :: "('r, 'x) host_scheme"
  shows "within_given (current h repo i d) (ledger_evolves h repo) (reconcile_one h repo auto d)"
  unfolding reconcile_one_def
  by (rule ledger.given_bind, rule classify_evolves)
     (intro ledger.within_intros complete_state_evolves terminal_evolves reload_evolves)

lemma current_id: "current h repo i d w \<Longrightarrow> jget d ''operation_id'' = JStr i"
  by (simp add: current_def validate_record_iff)

lemma sealed_with_commit_id: "jget (sealed h (with_commit d full)) ''operation_id'' = jget d ''operation_id''"
  by (auto simp: sealed_def with_commit_def Let_def split: json.splits)

lemma id_field: "jget d ''operation_id'' = JStr i \<Longrightarrow> py_str (jget_or d ''operation_id'' (JStr ''unknown'')) = i"
  by (auto simp: jget_def jget_or_def split: option.splits)

lemma reconcile_one_frame:
  assumes "jget d ''operation_id'' = JStr i"
  shows "within (only_file i) (reconcile_one h repo auto d)"
  unfolding within_def
proof
  fix w
  obtain r w1 where r: "classify h repo d w = (r, w1)" by fastforce
  have f: "only_file i w w1" using r classify_frame [OF assms] by (metis withinD)
  show "only_file i w (snd (reconcile_one h repo auto d w))"
  proof (cases r)
    case (Inl e)
    then show ?thesis using r f by (simp add: reconcile_one_def mbind_def)
  next
    case (Inr y)
    obtain it d' where y: "y = (it, d')" by (cases y)
    note res = classify_result [OF r [unfolded Inr y]]
    have it: "ri_operation_id it = i" using res id_field [OF assms] by simp
    have d': "jget d' ''operation_id'' = JStr i" using res assms sealed_with_commit_id [of h d] by metis
    have "within (only_file i) (if auto \<and> ri_safe_action it = Some ''complete_state'' then
        mseq (complete_state h repo d') (reload_item h repo (ri_operation_id it))
      else if auto \<and> ri_safe_action it = Some ''finish_ledger'' then
        mseq (ledger_terminal h repo (ri_operation_id it) ''complete'' (Some ''State evidence already complete.''))
          (reload_item h repo (ri_operation_id it))
      else ret it)"
      unfolding it by (intro frame.within_intros complete_frame [OF d'] terminal_frame reload_frame)
    then have "only_file i w1 (snd (reconcile_one h repo auto d w))"
      unfolding within_def using r by (simp add: reconcile_one_def mbind_def Inr y)
    with f show ?thesis by (rule frame.R_trans)
  qed
qed

lemma reload_terminal:
  assumes "reload_item h repo i w = (Inr it, w')" "ri_terminal it"
  shows "\<exists>d. current h repo i d w' \<and> is_terminal d"
proof -
  obtain d d' where d: "load_record h repo i w = Inr d" "classify h repo d w = (Inr (it, d'), w')"
    using assms(1) by (auto simp: reload_item_def mbind_Inr_iff split: sum.splits)
  with classify_result [OF d(2)] assms(2) show ?thesis by (auto simp: load_current)
qed

lemma reconcile_one_terminal:
  assumes "current h repo i d w" "reconcile_one h repo auto d w = (Inr it, w')" "ri_terminal it"
  shows "\<exists>d'. current h repo i d' w' \<and> is_terminal d'"
proof -
  obtain it0 d0 w1 where c: "classify h repo d w = (Inr (it0, d0), w1)"
    "(if auto \<and> ri_safe_action it0 = Some ''complete_state'' then
        mseq (complete_state h repo d0) (reload_item h repo (ri_operation_id it0))
      else if auto \<and> ri_safe_action it0 = Some ''finish_ledger'' then
        mseq (ledger_terminal h repo (ri_operation_id it0) ''complete'' (Some ''State evidence already complete.''))
          (reload_item h repo (ri_operation_id it0))
      else ret it0) w1 = (Inr it, w')"
    using assms(2) unfolding reconcile_one_def mbind_Inr_iff by (auto split: prod.splits)
  have i: "ri_operation_id it0 = i"
    using classify_result [OF c(1)] id_field [OF current_id [OF assms(1)]] by simp
  show ?thesis
  proof (cases "auto \<and> (ri_safe_action it0 = Some ''complete_state'' \<or> ri_safe_action it0 = Some ''finish_ledger'')")
    case True
    then show ?thesis
      using c(2) assms(3) reload_terminal unfolding i by (auto simp: mseq_Inr_iff split: if_splits)
  next
    case False
    then have "it = it0" "w' = w1" using c(2) by (auto split: if_splits)
    then show ?thesis using classify_result [OF c(1)] assms(1,3) by auto
  qed
qed

text \<open>A file that cannot be read blocks: its item is neither terminal nor completed.\<close>

lemma corrupt_classify:
  assumes "classify h repo (corruption_record i m) w = (Inr (it, d'), w')"
  shows "ri_safe_action it = None \<and> \<not> ri_terminal it"
proof (cases "m = []")
  case True
  have "path_field (corruption_record i m) ''state_root'' = Inl (KeyError ''state_root'')"
    by (simp add: path_field_def corruption_record_def)
  then have "gather_evidence h repo (corruption_record i m) w = (Inl (KeyError ''state_root''), w)"
    by (simp add: gather_evidence_def state_complete_def mbind_def lift_res_def)
  then show ?thesis
    using assms True by (simp add: classify_def corruption_record_def attempt_def mbind_def)
next
  case False
  then show ?thesis using assms by (auto simp: classify_def corruption_record_def)
qed

lemma read_record_cases:
  assumes "read_record h repo (i, f) = Inr d" "f \<noteq> Missing"
  obtains "f = Content (JObj d)" "validate_record h repo (JObj d) i = Inr d" | m where "d = corruption_record i m"
  using assms
  by (cases f) (auto simp: read_record_def read_json_def dest: validate_same split: sum.splits if_splits)

lemma corrupt_blocks:
  assumes "reconcile_one h repo auto (corruption_record i m) w = (Inr it, w')"
  shows "\<not> ri_terminal it"
  using assms corrupt_classify
  by (fastforce simp: reconcile_one_def mbind_Inr_iff split: prod.splits if_splits)

text \<open>Reconciliation over a list of files, none of them twice.\<close>

definition listed :: "('r, 'x) host_scheme \<Rightarrow> path \<Rightarrow> 'r world \<Rightarrow> (string \<times> json durable) \<Rightarrow> jobj \<Rightarrow> bool" where
  "listed h repo w = (\<lambda>(i, f) d. f \<noteq> Missing \<and> ledger_file i w = f \<and> read_record h repo (i, f) = Inr d)"

lemma listed_id: "listed h repo w (i, f) d \<Longrightarrow> jget d ''operation_id'' = JStr i"
  by (auto simp: listed_def validate_record_iff corruption_record_def elim: read_record_cases)

lemma listed_cases: "listed h repo w (i, f) d \<Longrightarrow> current h repo i d w \<or> (\<exists>m. d = corruption_record i m)"
  by (auto simp: listed_def current_def elim: read_record_cases)

lemma listed_valid:
  assumes "listed h repo w (i, f) d" "valid_file h repo i (ledger_file i w) e"
  shows "current h repo i d w"
proof -
  have "read_record h repo (i, Content (JObj e)) = Inr e"
    using assms(2) by (simp add: valid_file_def read_record_def read_json_def)
  then have "d = e" using assms by (auto simp: listed_def valid_file_def)
  then show ?thesis using assms(2) by (simp add: current_def valid_file_def)
qed

lemma mmap_Cons_run:
  assumes "f x s = (a, s1)" "mmap f xs s1 = (b, s2)"
  shows "mmap f (x # xs) s = (case a of Inl e \<Rightarrow> (Inl e, s1) | Inr y \<Rightarrow> (case b of Inl e \<Rightarrow> (Inl e, s2) | Inr ys \<Rightarrow> (Inr (y # ys), s2)))"
  using assms by (auto simp: mbind_def split: sum.splits)

lemma reconcile_step:
  assumes "listed h repo w (i, f) d" "reconcile_one h repo auto d w = (a, w1)"
  shows "only_file i w w1" "ledger_evolves h repo w w1"
    "a = Inr it \<Longrightarrow> ri_terminal it \<Longrightarrow> \<exists>d'. current h repo i d' w1 \<and> is_terminal d'"
proof -
  show fr: "only_file i w w1"
    using reconcile_one_frame [OF listed_id [OF assms(1)]] assms(2) by (metis withinD)
  show "ledger_evolves h repo w w1"
  proof (cases "current h repo i d w")
    case True
    then show ?thesis using reconcile_one_evolves assms(2) unfolding within_given_def by (metis snd_conv)
  next
    case False
    then have "\<not> valid_file h repo i (ledger_file i w) e" for e using listed_valid [OF assms(1)] by blast
    then show ?thesis using fr unfolding ledger_evolves_def only_file_def by (metis record_evolves_refl)
  qed
  show "\<exists>d'. current h repo i d' w1 \<and> is_terminal d'" if "a = Inr it" "ri_terminal it"
    using listed_cases [OF assms(1)] assms(2) that reconcile_one_terminal corrupt_blocks by blast
qed

lemma reconcile_list:
  assumes "list_all2 (listed h repo w) fs ds" "distinct (map fst fs)" "mmap (reconcile_one h repo auto) ds w = (r, w')"
  shows "ledger_evolves h repo w w' \<and> (\<forall>j. j \<notin> fst ` set fs \<longrightarrow> ledger_file j w' = ledger_file j w)
    \<and> (\<forall>items. r = Inr items \<longrightarrow> list_all ri_terminal items \<longrightarrow>
         (\<forall>i \<in> fst ` set fs. \<exists>d. current h repo i d w' \<and> is_terminal d))"
  using assms
proof (induction fs arbitrary: ds w r w')
  case Nil
  then show ?case by (simp add: ledger.R_refl)
next
  case (Cons x fs ds0)
  obtain i f where x: "x = (i, f)" by (cases x)
  obtain d ds where ds: "ds0 = d # ds" "listed h repo w (i, f) d" "list_all2 (listed h repo w) fs ds"
    using Cons.prems(1) x by (auto simp: list_all2_Cons1)
  obtain a w1 where a: "reconcile_one h repo auto d w = (a, w1)" by fastforce
  obtain b w2 where b: "mmap (reconcile_one h repo auto) ds w1 = (b, w2)" by fastforce
  note st = reconcile_step [OF ds(2) a]
  have i: "i \<notin> fst ` set fs" "distinct (map fst fs)" using Cons.prems(2) x by auto
  have "listed h repo w1 y e" if "y \<in> set fs" "listed h repo w y e" for y e
  proof -
    have "fst y \<noteq> i" using i(1) that(1) by auto
    then show ?thesis using st(1) that(2) by (cases y) (auto simp: listed_def only_file_def)
  qed
  with ds(3) have l1: "list_all2 (listed h repo w1) fs ds" by (rule list.rel_mono_strong)
  note IH = Cons.IH [OF l1 i(2) b]
  note run = mmap_Cons_run [OF a b]
  show ?case
  proof (cases a)
    case (Inl e)
    then show ?thesis using run Cons.prems(3) ds(1) st(1,2) x by (auto simp: only_file_def)
  next
    case (Inr y)
    then have w': "w' = w2" and r: "r = (case b of Inl e \<Rightarrow> Inl e | Inr ys \<Rightarrow> Inr (y # ys))"
      using run Cons.prems(3) ds(1) by (auto split: sum.splits)
    have "ledger_evolves h repo w w'" using st(2) IH w' ledger.R_trans by blast
    moreover have "j \<notin> fst ` set (x # fs) \<Longrightarrow> ledger_file j w' = ledger_file j w" for j
      using st(1) IH w' x by (auto simp: only_file_def)
    moreover have "\<exists>d. current h repo k d w' \<and> is_terminal d"
      if q: "r = Inr items" "list_all ri_terminal items" "k \<in> fst ` set (x # fs)" for items k
    proof -
      obtain ys where ys: "b = Inr ys" "items = y # ys" using r q(1) by (auto split: sum.splits)
      show ?thesis
      proof (cases "k = i")
        case True
        obtain d' where "current h repo i d' w1" "is_terminal d'" using st(3) [OF Inr] q(2) ys by auto
        moreover have "ledger_file i w2 = ledger_file i w1" using IH i(1) by blast
        ultimately show ?thesis using True w' by (auto simp: current_def)
      next
        case False
        then show ?thesis using IH ys q(2,3) w' x by auto
      qed
    qed
    ultimately show ?thesis by blast
  qed
qed

lemma records_listed:
  assumes "ledger_records h repo w = Inr ds" "distinct (map fst (w_ledger w))"
  obtains fs where "list_all2 (listed h repo w) fs ds" "distinct (map fst fs)"
    "\<And>i. ledger_file i w \<noteq> Missing \<Longrightarrow> i \<in> fst ` set fs"
proof -
  let ?fs = "sort_key (\<lambda>(i, _). i @ ''.json'') (filter (\<lambda>(_, f). f \<noteq> Missing) (w_ledger w))"
  have files: "ledger_file i w = f" if "(i, f) \<in> set (w_ledger w)" for i f
    using that assms(2) by (simp add: ledger_file_def)
  have "list_all2 (listed h repo w) ?fs ds"
    using assms(1) unfolding ledger_records_def mapE_Inr_iff
  proof (rule list.rel_mono_strong)
    fix x d assume "x \<in> set ?fs" "read_record h repo x = Inr d"
    then show "listed h repo w x d" using files by (auto simp: listed_def)
  qed
  moreover have "distinct (map fst ?fs)"
  proof -
    have "distinct (map fst (filter (\<lambda>(_, f). f \<noteq> Missing) (w_ledger w)))"
      using assms(2) by (simp add: distinct_map_filter)
    then show ?thesis by (simp add: distinct_map)
  qed
  moreover have "i \<in> fst ` set ?fs" if "ledger_file i w \<noteq> Missing" for i
  proof -
    have "(i, ledger_file i w) \<in> set (w_ledger w)"
      using that by (auto simp: ledger_file_def split: option.splits dest: map_of_SomeD)
    then show ?thesis using that by (auto intro!: image_eqI [of _ _ "(i, ledger_file i w)"])
  qed
  ultimately show ?thesis by (rule that)
qed

lemma reconcile_evolves:
  assumes "distinct (map fst (w_ledger w))"
  shows "ledger_evolves h repo w (snd (reconcile h repo auto w))"
proof (cases "ledger_records h repo w")
  case (Inr ds)
  obtain fs where fs: "list_all2 (listed h repo w) fs ds" "distinct (map fst fs)"
    by (rule records_listed [OF Inr assms])
  obtain r w' where r: "mmap (reconcile_one h repo auto) ds w = (r, w')" by fastforce
  then have "snd (reconcile h repo auto w) = w'" by (simp add: reconcile_def Inr)
  then show ?thesis using reconcile_list [OF fs r] by simp
qed (simp add: reconcile_def ledger.R_refl)

lemma no_blocking_terminal:
  assumes "distinct (map fst (w_ledger w))" "assert_no_blocking h repo w = (Inr (), w')" "ledger_file i w' \<noteq> Missing"
  shows "\<exists>d. current h repo i d w' \<and> is_terminal d"
proof -
  obtain items where items: "reconcile h repo True w = (Inr items, w')" "blocking items = []"
    using assms(2) by (auto simp: assert_no_blocking_def mbind_Inr_iff split: if_splits)
  then obtain ds where ds: "ledger_records h repo w = Inr ds" "mmap (reconcile_one h repo True) ds w = (Inr items, w')"
    by (auto simp: reconcile_def split: sum.splits)
  obtain fs where fs: "list_all2 (listed h repo w) fs ds" "distinct (map fst fs)"
    "\<And>i. ledger_file i w \<noteq> Missing \<Longrightarrow> i \<in> fst ` set fs"
    using records_listed [OF ds(1) assms(1)] by metis
  note rl = reconcile_list [OF fs(1,2) ds(2)]
  have "list_all ri_terminal items" using items(2) by (auto simp: blocking_def filter_empty_conv list_all_iff)
  moreover have "i \<in> fst ` set fs" using fs(3) [of i] rl assms(3) by metis
  ultimately show ?thesis using rl by blast
qed

end
