(* ===== verification/Sample_Host.thy ===== *)
theory Sample_Host imports Ledger_System State_Props begin

text \<open>
  A small concrete host, for the instances of the theorems: a repository with a linear history, a
  list of changed files and an index, and the git commands the program uses on it.
\<close>

record toy_repo =
  ty_commits :: "(string \<times> string \<times> string \<times> string list) list"
  ty_dirty :: "string list"
  ty_staged :: bool

definition toy_head :: "toy_repo \<Rightarrow> string" where
  "toy_head r = (case ty_commits r of [] \<Rightarrow> [] | (c, _) # _ \<Rightarrow> c)"

definition ok_out :: "string \<Rightarrow> completed" where
  "ok_out s = \<lparr>co_code = 0, co_out = s, co_err = []\<rparr>"

definition fail_out :: completed where
  "fail_out = \<lparr>co_code = 1, co_out = [], co_err = ''fatal''\<rparr>"

definition toy_find :: "toy_repo \<Rightarrow> string \<Rightarrow> (string \<times> string \<times> string \<times> string list) option" where
  "toy_find r c = (if c = ''HEAD'' then List.find (\<lambda>_. True) (ty_commits r)
     else List.find (\<lambda>(i, _). c \<noteq> [] \<and> startswith i c) (ty_commits r))"

definition toy_query :: "string list \<Rightarrow> toy_repo \<Rightarrow> completed option" where
  "toy_query args r = (case args of
     _ # sub # rest \<Rightarrow>
       if sub = ''rev-parse'' then Some (case rest of
           [_, v] \<Rightarrow> (if v = ''HEAD'' then ok_out (take 4 (toy_head r))
             else case toy_find r (take (length v - 9) v) of Some (c, _) \<Rightarrow> ok_out c | None \<Rightarrow> fail_out)
         | _ \<Rightarrow> ok_out ''true'')
       else if sub = ''status'' then Some (ok_out (concat (map (\<lambda>f. '' M '' @ f @ [CHR 0x0A]) (ty_dirty r))))
       else if sub = ''log'' then Some (ok_out (concat (map (\<lambda>(c, _, m, _). c @ [CHR 0x00] @ m @ [CHR 0x00, CHR 0x0A])
         (filter (\<lambda>(_, _, m, _). endswith m (butlast (drop 8 (last args)))) (ty_commits r)))))
       else if sub = ''show'' then Some (case toy_find r (last args) of Some (_, p, _) \<Rightarrow> ok_out p | None \<Rightarrow> fail_out)
       else if sub = ''diff-tree'' then Some (case toy_find r (last args) of
         Some (_, _, _, fs) \<Rightarrow> ok_out (concat (map (\<lambda>f. f @ [CHR 0x0A]) fs)) | None \<Rightarrow> fail_out)
       else if sub = ''merge-base'' then Some (ok_out [])
       else if sub = ''diff'' then Some (if ty_staged r then fail_out else ok_out [])
       else None
   | _ \<Rightarrow> None)"

definition toy_git :: "string list \<Rightarrow> path \<Rightarrow> string option \<Rightarrow> toy_repo \<Rightarrow> completed \<times> toy_repo" where
  "toy_git args repo inp r = (case toy_query args r of
     Some c \<Rightarrow> (c, r)
   | None \<Rightarrow>
       let sub = args ! 1 in
       if sub = ''apply'' \<and> length args = 3 \<and> args ! 2 = ''--check'' then (ok_out [], r)
       else if sub = ''apply'' \<and> length args = 2 then
         (ok_out [], r\<lparr>ty_dirty := (case inp of Some p \<Rightarrow> (case scan_patch p of Inr s \<Rightarrow> ps_files s | _ \<Rightarrow> []) | None \<Rightarrow> [])\<rparr>)
       else if sub = ''add'' then (ok_out [], r\<lparr>ty_staged := True\<rparr>)
       else if sub = ''commit'' then
         (ok_out [], r\<lparr>ty_commits := (''commit-'' @ str_nat (length (ty_commits r)), toy_head r, last args, ty_dirty r) # ty_commits r,
            ty_dirty := [], ty_staged := False\<rparr>)
       else (ok_out [], r\<lparr>ty_dirty := [], ty_staged := False\<rparr>))"

definition toy_host :: "toy_repo host" where
  "toy_host = \<lparr>mc_git = toy_git, mc_exec = (\<lambda>argv _ _ r. (Completed (if argv = [''false''] then fail_out else ok_out []), r)),
     mc_node = (\<lambda>_ _. Absent), mc_unlink = (\<lambda>_ r. r), mc_rmtree = (\<lambda>_ r. r), mc_post_image = (\<lambda>_ _. Inr (\<lambda>_. Regular ''x'')),
     mc_sha256 = (\<lambda>_. replicate 64 CHR ''0''), mc_resolve = (\<lambda>p. p), mc_redact = (\<lambda>j. j),
     mc_running = (\<lambda>_. False), mc_iso = (\<lambda>_. Some True), mc_own_options = [''decide yourself'', ''other'']\<rparr>"

definition toy_start :: toy_repo where
  "toy_start = \<lparr>ty_commits = [(''base'', [], ''start'', [])], ty_dirty = [], ty_staged = False\<rparr>"

definition toy_root :: path where
  "toy_root = path_of ''/repo''"

definition toy_world :: "(path \<Rightarrow> store) \<Rightarrow> toy_repo world" where
  "toy_world stores = \<lparr>w_repo = toy_start, w_ledger = [], w_stores = stores,
     w_clock = (\<lambda>n. ''t'' @ str_nat n), w_ticks = 0, w_uuids = (\<lambda>n. ''u'' @ str_nat n), w_drawn = 0,
     w_budget = None, w_fault = ''full'', w_notices = [],
     w_jobs = empty_job_store, w_lock = None, w_files = (\<lambda>_. Missing)\<rparr>"

definition toy_context :: operation_context where
  "toy_context = \<lparr>oc_operation_id = ''op-1'', oc_run_id = ''run-1'', oc_state_root = path_of ''/state'',
     oc_started_at_utc = ''t'', oc_review_required = False\<rparr>"

section \<open>Sample records\<close>

definition zero_digest :: string where
  "zero_digest = replicate 64 CHR ''0''"

definition sample_record :: "json \<Rightarrow> jobj" where
  "sample_record outcome =
     [(''version'', JInt 1), (''operation_id'', JStr ''op-1''), (''action'', JStr ''task_commit''),
      (''repository'', JStr ''/repo''), (''state_root'', JStr ''/state''), (''task_id'', JStr ''t1''),
      (''run_id'', JStr ''run-1''), (''started_at_utc'', JStr ''t''), (''review_required'', JBool False),
      (''baseline_head'', JStr ''base''), (''patch_sha256'', JStr zero_digest),
      (''expected_changed_files'', JList [JStr ''HARNESS_DEMO.md'']), (''baseline_files'', JObj [(''HARNESS_DEMO.md'', JNull)]),
      (''expected_post_files'', JObj [(''HARNESS_DEMO.md'', bytes_evidence toy_host ''file'' ''x'')]), (''created_at_utc'', JStr ''t0''),
      (''phases'', JObj [(''intent_written'', JStr ''t1'')]), (''result'', JNull), (''commit'', JNull),
      (''terminal_outcome'', outcome), (''terminal_detail'', JNull), (''record_sha256'', JStr zero_digest)]"

definition ledger_world :: "json \<Rightarrow> toy_repo world" where
  "ledger_world outcome = (toy_world (\<lambda>_. sample_store))
     \<lparr>w_ledger := [(''op-1'', Content (JObj (sample_record outcome)))]\<rparr>"

lemma toy_resolve: "mc_resolve toy_host p = p"
  by (simp add: toy_host_def)

lemma toy_digest [simp]: "record_digest toy_host d = zero_digest"
  by (simp add: record_digest_def text_sha256_def toy_host_def zero_digest_def)

lemma zero_hex: "is_hex_digest (JStr zero_digest)"
  by (simp add: is_hex_digest_def zero_digest_def list_all_iff)

lemma sample_evidence: "validate_file_evidence (bytes_evidence toy_host ''file'' ''x'') i = Inr ()"
proof -
  have "bytes_evidence toy_host ''file'' ''x'' = JObj [(''kind'', JStr ''file''), (''sha256'', JStr zero_digest), (''size'', JInt 1)]"
    by (simp add: bytes_evidence_def toy_host_def zero_digest_def)
  then show ?thesis using zero_hex by (auto simp: validate_file_evidence_def is_hashable_def)
qed

lemma sample_valid: "validate_record toy_host toy_root (JObj (sample_record outcome)) ''op-1'' = Inr (sample_record outcome)"
proof -
  have fields: "jget (sample_record outcome) ''operation_id'' = JStr ''op-1''" "jget (sample_record outcome) ''version'' = JInt 1"
    "jget (sample_record outcome) ''action'' = JStr ''task_commit''" "jget (sample_record outcome) ''repository'' = JStr ''/repo''"
    "jget (sample_record outcome) ''patch_sha256'' = JStr zero_digest" "jget (sample_record outcome) ''record_sha256'' = JStr zero_digest"
    "jget (sample_record outcome) ''phases'' = JObj [(''intent_written'', JStr ''t1'')]"
    "jget (sample_record outcome) ''expected_changed_files'' = JList [JStr ''HARNESS_DEMO.md'']"
    "jget (sample_record outcome) ''baseline_files'' = JObj [(''HARNESS_DEMO.md'', JNull)]"
    "jget (sample_record outcome) ''expected_post_files'' = JObj [(''HARNESS_DEMO.md'', bytes_evidence toy_host ''file'' ''x'')]"
    by (simp_all add: sample_record_def)
  have keys: "set ledger_required \<subseteq> fst ` set (sample_record outcome)"
    by (simp add: ledger_required_def sample_record_def)
  have safe: "\<not> unsafe_scope ''HARNESS_DEMO.md''" by code_simp
  have "validate_scope (sample_record outcome) ''op-1'' = Inr ()"
    using sample_evidence safe by (simp add: validate_scope_def fields validate_file_evidence_def)
  then show ?thesis
    unfolding validate_record_iff fields using keys zero_hex
    by (simp add: toy_root_def toy_resolve json_eq_def)
qed

lemma sample_keys: "distinct (map fst (sample_record outcome))"
  by (simp add: sample_record_def)

lemma ledger_world_file: "ledger_file ''op-1'' (ledger_world outcome) = Content (JObj (sample_record outcome))"
  by (simp add: ledger_file_def ledger_world_def)

lemma sample_fields:
  "jget (sample_record outcome) ''operation_id'' = JStr ''op-1''" "jget (sample_record outcome) ''version'' = JInt 1"
  "jget (sample_record outcome) ''action'' = JStr ''task_commit''" "jget (sample_record outcome) ''repository'' = JStr ''/repo''"
  "jget (sample_record outcome) ''state_root'' = JStr ''/state''" "jget (sample_record outcome) ''task_id'' = JStr ''t1''"
  "jget (sample_record outcome) ''run_id'' = JStr ''run-1''" "jget (sample_record outcome) ''commit'' = JNull"
  "jget (sample_record outcome) ''baseline_head'' = JStr ''base''" "jget (sample_record outcome) ''_corruption'' = JNull"
  "jget (sample_record outcome) ''terminal_outcome'' = outcome" "jget (sample_record outcome) ''terminal_detail'' = JNull"
  "jget_or (sample_record outcome) ''operation_id'' d = JStr ''op-1''"
  "jitem (sample_record outcome) ''state_root'' = Inr (JStr ''/state'')"
  by (simp_all add: sample_record_def jitem_def)

lemma ledger_world_fields:
  "w_repo (ledger_world outcome) = toy_start" "w_stores (ledger_world outcome) = (\<lambda>_. sample_store)"
  "w_ledger (ledger_world outcome) = [(''op-1'', Content (JObj (sample_record outcome)))]"
  "w_ticks (ledger_world outcome) = 0" "w_budget (ledger_world outcome) = None" "w_clock (ledger_world outcome) n = ''t'' @ str_nat n"
  "ledger_world outcome\<lparr>w_repo := toy_start\<rparr> = ledger_world outcome"
  "ledger_world outcome\<lparr>w_stores := \<lambda>_. sample_store, w_budget := None\<rparr> = ledger_world outcome"
  by (simp_all add: ledger_world_def toy_world_def)

text \<open>What the toy repository answers.\<close>

lemma toy_head_start: "current_head toy_host toy_root toy_start = (Inr ''base'', toy_start)"
  by code_simp

lemma toy_clean_start: "repository_is_clean toy_host toy_root toy_start = (Inr True, toy_start)"
  by code_simp

lemma toy_trailer_start: "find_commit_by_trailer toy_host toy_root ''HoH-Operation'' ''op-1'' toy_start = (Inr None, toy_start)"
  by code_simp

lemma toy_history: "history sample_store = Inr []"
  by (simp add: history_def sample_store_def read_jsonl_def)

lemma const_upd [simp]: "(\<lambda>_. a)(x := a) = (\<lambda>_. a)"
  by auto

lemma sample_budget [simp]: "sample_store\<lparr>st_budget := None\<rparr> = sample_store" "st_budget sample_store = None"
  by (simp_all add: sample_store_def)

lemma sample_gather: "gather_evidence toy_host toy_root (sample_record JNull) (ledger_world JNull)
   = (Inr (False, JNull, ''base'', True), ledger_world JNull)"
  by (simp add: gather_evidence_def state_complete_def path_field_def mbind_def sample_fields on_store_def
    in_repo_def ledger_world_fields toy_head_start toy_clean_start toy_trailer_start toy_history j_opt_str_def)

lemma sample_classify: "classify toy_host toy_root (sample_record JNull) (ledger_world JNull)
   = (Inr (item (sample_record JNull) ''not_started'' (Some ''cancel_intent'')
       ''HEAD and worktree still match the recorded baseline.'' False, sample_record JNull), ledger_world JNull)"
  by (simp add: classify_def mbind_def attempt_def sample_gather classify_worktree_def sample_fields)

end
