(* ===== verification/Ledger_Props.thy ===== *)
theory Ledger_Props imports Sample_Host begin

text \<open>
  The properties of the operation ledger: what no sequence of calls can change, what an admitted
  mutation may rely on, what an operator's resolution achieves, and that reconciliation reads the
  repository without changing it.
\<close>

section \<open>Sequences of calls\<close>

datatype ledger_call =
    Begin_Task operation_context string string "string list"
  | Begin_Rollback string path string string string string "string list" string
  | Phase string string jobj
  | Terminal string string "string option"
  | Reconcile bool
  | Resolve string string

definition ignore :: "('s, 'a) op \<Rightarrow> 's \<Rightarrow> 's" where
  "ignore m s = snd (m s)"

fun run_call :: "('r, 'x) host_scheme \<Rightarrow> path \<Rightarrow> ledger_call \<Rightarrow> 'r world \<Rightarrow> 'r world" where
  "run_call h repo (Begin_Task ctx task patch changed) = ignore (begin_task h repo ctx task patch changed)"
| "run_call h repo (Begin_Rollback oid root task run target patch changed reason) =
     ignore (begin_rollback h repo oid root task run target patch changed reason)"
| "run_call h repo (Phase i name changes) = ignore (ledger_phase h repo i name changes)"
| "run_call h repo (Terminal i outcome detail) = ignore (ledger_terminal h repo i outcome detail)"
| "run_call h repo (Reconcile auto) = ignore (reconcile h repo auto)"
| "run_call h repo (Resolve i action) = ignore (guarded_resolve h repo i action)"

fun call_ok :: "ledger_call \<Rightarrow> bool" where
  "call_ok (Phase i name changes) = free_changes changes"
| "call_ok _ = True"

lemma create_evolves: "within (ledger_evolves h repo) (create_record h repo record)"
  unfolding within_def
proof
  fix w
  let ?i = "py_str (jget record ''operation_id'')"
  show "ledger_evolves h repo w (snd (create_record h repo record w))"
  proof (cases "ledger_file ?i w = Missing")
    case True
    then have e: "create_record h repo record w = write_record h repo record w"
      by (simp add: create_record_def Let_def)
    have "only_file ?i w (snd (write_record h repo record w))" using write_frame [OF refl] by (metis within_def)
    moreover have "\<not> valid_file h repo ?i (ledger_file ?i w) d" for d using True by (simp add: valid_file_def)
    ultimately show ?thesis unfolding e ledger_evolves_def only_file_def by (metis record_evolves_refl)
  next
    case False
    then have "snd (create_record h repo record w) = w"
      by (auto simp: create_record_def Let_def split: sum.splits)
    then show ?thesis by (simp add: ledger.R_refl)
  qed
qed

text \<open>A directory has no name twice; no operation changes that.\<close>

abbreviation unique_files :: "'r world \<Rightarrow> bool" where
  "unique_files w \<equiv> distinct (map fst (w_ledger w))"

lemma quiet_unique: "within same_ledger m \<Longrightarrow> within (keeping unique_files) m"
  by (simp add: within_def same_ledger_def keeping_def)

lemma write_unique: "within (keeping unique_files) (write_record h repo d)"
  using write_frame [OF refl, of d h repo] by (simp add: within_def only_file_def keeping_def)

lemma unique_ops:
  "within (keeping unique_files) (ledger_phase h repo i name ch)"
  "within (keeping unique_files) (ledger_terminal h repo i outcome detail)"
  "within (keeping unique_files) (create_record h repo record)"
  "within (keeping unique_files) (classify h repo d)"
  unfolding ledger_phase_def ledger_terminal_def create_record_def classify_def classify_commit_def Let_def
  by (auto intro!: keep.within_intros write_unique quiet_unique [OF quiet_primitives(3)] quiet_unique [OF quiet_worktree]
      quiet_unique [OF within_attempt [OF quiet_gather(1)]] quiet_unique [OF within_attempt [OF quiet_gather(2)]] split: sum.split)

lemma unique_composed:
  "within (keeping unique_files) (complete_state h repo d)"
  "within (keeping unique_files) (reload_item h repo i)"
  unfolding complete_state_def reload_item_def
  by (auto intro!: keep.within_intros unique_ops quiet_unique [OF quiet_primitives(2)])

lemma unique_calls:
  "within (keeping unique_files) (reconcile h repo auto)"
  "within (keeping unique_files) (guarded_resolve h repo i action)"
  "within (keeping unique_files) (begin_task h repo ctx task patch changed)"
  "within (keeping unique_files) (begin_rollback h repo oid root task' run target patch changed reason)"
  unfolding reconcile_def reconcile_one_def guarded_resolve_def resolve_action_def begin_task_def begin_rollback_def
  by (auto intro!: keep.within_intros unique_ops unique_composed quiet_unique [OF quiet_primitives(1)]
      quiet_unique [OF quiet_primitives(3)])

lemma begin_evolves:
  "within (ledger_evolves h repo) (begin_task h repo ctx task patch changed)"
  "within (ledger_evolves h repo) (begin_rollback h repo oid root task' run target patch changed reason)"
  unfolding begin_task_def begin_rollback_def
  by (auto intro!: ledger.within_intros create_evolves quiet_evolves [OF quiet_primitives(1)] quiet_evolves [OF quiet_primitives(3)])

lemma within_ignore: "within R m \<Longrightarrow> R s (ignore m s)"
  by (simp add: within_def ignore_def)

lemma unique_ignore: "within (keeping unique_files) m \<Longrightarrow> unique_files s \<Longrightarrow> unique_files (ignore m s)"
  by (simp add: within_def keeping_def ignore_def)

lemma call_evolves:
  assumes "unique_files w" "call_ok c"
  shows "ledger_evolves h repo w (run_call h repo c w) \<and> unique_files (run_call h repo c w)"
proof (cases c)
  case (Begin_Task ctx task patch changed)
  show ?thesis unfolding Begin_Task run_call.simps
    by (rule conjI [OF within_ignore [OF begin_evolves(1)] unique_ignore [OF unique_calls(3) assms(1)]])
next
  case (Begin_Rollback oid root task run target patch changed reason)
  show ?thesis unfolding Begin_Rollback run_call.simps
    by (rule conjI [OF within_ignore [OF begin_evolves(2)] unique_ignore [OF unique_calls(4) assms(1)]])
next
  case (Phase i name changes)
  have f: "free_changes changes" using assms(2) Phase by simp
  show ?thesis unfolding Phase run_call.simps
    by (rule conjI [OF within_ignore [OF phase_evolves [OF f]] unique_ignore [OF unique_ops(1) assms(1)]])
next
  case (Terminal i outcome detail)
  show ?thesis unfolding Terminal run_call.simps
    by (rule conjI [OF within_ignore [OF terminal_evolves] unique_ignore [OF unique_ops(2) assms(1)]])
next
  case (Reconcile auto)
  then show ?thesis
    using reconcile_evolves [OF assms(1), of h repo auto] unique_ignore [OF unique_calls(1) assms(1), of h repo auto]
    by (simp add: ignore_def)
next
  case (Resolve i action)
  show ?thesis unfolding Resolve run_call.simps
    by (rule conjI [OF within_ignore [OF guarded_resolve_evolves] unique_ignore [OF unique_calls(2) assms(1)]])
qed

text \<open>C11: Whatever sequence of calls the ledger receives, at whatever writes the disk fails: a readable record
  stays readable, its identity and its evidence never change, a phase once reached keeps its time, and a
  record that has ended is never written again.\<close>

theorem ledger_calls_preserve:
  assumes "distinct (map fst (w_ledger w))" "list_all call_ok calls"
  shows "ledger_evolves h repo w (fold (run_call h repo) calls w)"
  using assms
proof (induction calls arbitrary: w)
  case (Cons c cs)
  then show ?case
    using call_evolves [of w c h repo] ledger.R_trans by (simp only: fold.simps comp_apply list.pred_inject(2)) blast
qed (simp add: ledger.R_refl)

lemma sample_valid_file:
  "valid_file toy_host toy_root ''op-1'' (ledger_file ''op-1'' (ledger_world outcome)) (sample_record outcome)"
  using sample_valid sample_keys by (simp add: valid_file_def ledger_world_file)

theorem ledger_calls_preserve_witness:
  "\<exists>d. ledger_file ''op-1'' (fold (run_call toy_host toy_root)
       [Phase ''op-1'' ''patch_applied'' [], Reconcile True, Terminal ''op-1'' ''failed'' None, Resolve ''op-1'' ''restore-patch'']
       (ledger_world JNull)) = Content (JObj d)
     \<and> jget d ''task_id'' = JStr ''t1'' \<and> phase_map d ''intent_written'' = Some (JStr ''t1'')"
proof -
  let ?cs = "[Phase ''op-1'' ''patch_applied'' [], Reconcile True, Terminal ''op-1'' ''failed'' None, Resolve ''op-1'' ''restore-patch'']"
  have "ledger_evolves toy_host toy_root (ledger_world JNull) (fold (run_call toy_host toy_root) ?cs (ledger_world JNull))"
    by (rule ledger_calls_preserve) (simp_all add: ledger_world_def)
  then obtain d where d: "valid_file toy_host toy_root ''op-1''
      (ledger_file ''op-1'' (fold (run_call toy_host toy_root) ?cs (ledger_world JNull))) d"
    "record_evolves (sample_record JNull) d"
    using sample_valid_file unfolding ledger_evolves_def by blast
  have c: "ledger_file ''op-1'' (fold (run_call toy_host toy_root) ?cs (ledger_world JNull)) = Content (JObj d)"
    using d(1) unfolding valid_file_def by blast
  have "map_of d ''task_id'' = map_of (sample_record JNull) ''task_id''"
    using d(2) unfolding record_evolves_def identity_keys_def by simp
  then have t: "jget d ''task_id'' = JStr ''t1''"
    by (simp add: jget_def jget_or_def sample_record_def)
  have "phase_map (sample_record JNull) ''intent_written'' = Some (JStr ''t1'')"
    by (simp add: phase_map_def sample_record_def)
  moreover have "phase_map (sample_record JNull) \<subseteq>\<^sub>m phase_map d"
    using d(2) unfolding record_evolves_def by blast
  ultimately have "phase_map d ''intent_written'' = Some (JStr ''t1'')"
    unfolding map_le_def by (metis domI)
  with c t show ?thesis by blast
qed

section \<open>Admission\<close>

text \<open>C12: When \<open>assert_no_blocking\<close> returns, every file of the ledger holds a valid record that has ended: no
  interrupted, unreadable or contradictory operation is left when the canonical repository is changed.\<close>

theorem no_blocking_means_ended:
  assumes "distinct (map fst (w_ledger w))" "assert_no_blocking h repo w = (Inr (), w')" "ledger_file i w' \<noteq> Missing"
  shows "\<exists>d. ledger_file i w' = Content (JObj d) \<and> validate_record h repo (JObj d) i = Inr d
    \<and> jget d ''terminal_outcome'' \<noteq> JNull"
  using no_blocking_terminal [OF assms] by (auto simp: current_def is_terminal_def)

theorem no_blocking_means_ended_witness:
  "\<exists>w' d. assert_no_blocking toy_host toy_root (ledger_world (JStr ''failed'')) = (Inr (), w')
     \<and> ledger_file ''op-1'' w' = Content (JObj d) \<and> jget d ''terminal_outcome'' \<noteq> JNull"
proof -
  let ?w = "ledger_world (JStr ''failed'')" and ?d = "sample_record (JStr ''failed'')"
  have f: "w_ledger ?w = [(''op-1'', Content (JObj ?d))]" by (simp add: ledger_world_def)
  have r: "ledger_records toy_host toy_root ?w = Inr [?d]"
    using sample_valid [of "JStr ''failed''"] by (simp add: ledger_records_def f read_record_def read_json_def)
  have fields: "jget ?d ''_corruption'' = JNull" "jget ?d ''terminal_outcome'' = JStr ''failed''"
    "jget ?d ''terminal_detail'' = JNull" by (simp_all add: sample_record_def)
  have "classify toy_host toy_root ?d ?w = (Inr (item ?d ''failed'' None [] True, ?d), ?w)"
    by (simp add: classify_def fields)
  then have "reconcile toy_host toy_root True ?w = (Inr [item ?d ''failed'' None [] True], ?w)"
    by (simp add: reconcile_def r reconcile_one_def mbind_def)
  then have a: "assert_no_blocking toy_host toy_root ?w = (Inr (), ?w)"
    by (simp add: assert_no_blocking_def mbind_def blocking_def)
  have "distinct (map fst (w_ledger ?w))" "ledger_file ''op-1'' ?w \<noteq> Missing" by (simp_all add: f ledger_file_def)
  from no_blocking_means_ended [OF this(1) a this(2)] a show ?thesis by blast
qed

section \<open>Resolution by the operator\<close>

lemma write_content:
  assumes "write_record h repo d w = (Inr x, w')" "jget d ''operation_id'' = JStr i"
  shows "ledger_file i w' = Content (JObj (sealed h d))"
proof -
  let ?f = "\<lambda>w. w\<lparr>w_ledger := put_file i (Content (JObj (sealed h d))) (w_ledger w)\<rparr>"
  obtain y w2 where w2: "world_write (ledger_path h repo i) ?f w = (y, w2)" by fastforce
  then have y: "y = Inr ()" "w' = w2"
    using assms by (auto simp: write_record_def mseq_def mbind_def split: sum.splits)
  from w2 show ?thesis
    by (cases rule: world_write_cases) (use y in \<open>simp_all add: ledger_file_def put_file_map\<close>)
qed

lemma terminal_ends:
  assumes "ledger_terminal h repo i outcome detail w = (Inr d, w')"
  shows "jget d ''terminal_outcome'' = JStr outcome \<and> outcome \<in> set terminal_outcomes \<and> ledger_file i w' = Content (JObj d)"
proof -
  obtain r where t: "outcome \<in> set terminal_outcomes" and l: "load_record h repo i w = Inr r"
    and b: "(if jget r ''terminal_outcome'' \<noteq> JNull then
        (if jget r ''terminal_outcome'' = JStr outcome then ret r
         else raise (OperationLedgerError (''Operation already ended as '' @ py_str (jget r ''terminal_outcome'') @ '': '' @ i)))
      else mbind world_now (\<lambda>now. write_record h repo
        (jset (jset (jset r ''terminal_outcome'' (JStr outcome)) ''terminal_detail'' (redact_option h detail))
           ''finished_at_utc'' (JStr now)))) w = (Inr d, w')"
    using assms unfolding ledger_terminal_def Let_def mseq_Inr_iff mbind_Inr_iff require_Inr_iff
    by (auto split: sum.splits)
  show ?thesis
  proof (cases "jget r ''terminal_outcome'' = JNull")
    case False
    have "jget r ''terminal_outcome'' = JStr outcome" "d = r" "w' = w"
      using b by (simp_all add: False ret_def raise_def split: if_splits)
    then show ?thesis using t l by (simp add: load_current current_def)
  next
    case True
    let ?r = "\<lambda>now. jset (jset (jset r ''terminal_outcome'' (JStr outcome)) ''terminal_detail'' (redact_option h detail)) ''finished_at_utc'' (JStr now)"
    have id: "jget (?r now) ''operation_id'' = JStr i" for now using load_id [OF l] by simp
    have "mbind world_now (\<lambda>now. write_record h repo (?r now)) w = (Inr d, w')" using b True by simp
    then obtain now w1 where wr: "write_record h repo (?r now) w1 = (Inr d, w')"
      unfolding mbind_Inr_iff by blast
    then have d: "d = sealed h (?r now)" using returns_write [of h "?r now" repo] unfolding returns_def by blast
    have "ledger_file i w' = Content (JObj d)" using write_content [OF wr id] d by simp
    then show ?thesis using t d by (simp add: sealed_def)
  qed
qed

lemma reload_ended:
  assumes "ledger_file i w = Content (JObj d)" "jget d ''terminal_outcome'' \<noteq> JNull" "reload_item h repo i w = (Inr it, w')"
  shows "w' = w \<and> load_record h repo i w = Inr d"
proof -
  obtain r x where r: "load_record h repo i w = Inr r" "classify h repo r w = (Inr x, w')"
    using assms(3) by (auto simp: reload_item_def mbind_Inr_iff gets_def split: sum.splits prod.splits)
  then have "r = d" using assms(1) by (simp add: load_current current_def)
  then show ?thesis using r assms(2) by (auto simp: classify_def ret_def split: if_splits)
qed

definition ended :: "string \<Rightarrow> 'r world \<Rightarrow> bool" where
  "ended i w \<longleftrightarrow> (\<exists>d. ledger_file i w = Content (JObj d) \<and> jget d ''terminal_outcome'' \<noteq> JNull)"

lemma terminal_ended: "ledger_terminal h repo i outcome detail w = (Inr d, w') \<Longrightarrow> ended i w'"
  unfolding ended_def using terminal_ends by fastforce

lemma complete_ended:
  assumes "complete_state h repo d w = (Inr u, w')" "jget d ''operation_id'' = JStr i"
  shows "ended i w'"
proof -
  have "str_item d ''operation_id'' = Inr i"
    using assms(2) by (simp add: str_item_def jitem_def jget_def jget_or_def split: option.splits)
  then obtain s1 x where "ledger_terminal h repo i ''complete'' (Some ''StateStore completed from durable evidence.'') s1 = (Inr x, w')"
    using assms(1) unfolding complete_state_def mbind_Inr_iff mseq_Inr_iff lift_res_def by auto
  then show ?thesis by (rule terminal_ended)
qed

definition ends :: "string \<Rightarrow> ('r, 'a) world_op \<Rightarrow> bool" where
  "ends i m \<longleftrightarrow> (\<forall>s x s'. m s = (Inr x, s') \<longrightarrow> ended i s')"

lemma ends_bind: "(\<And>x. ends i (k x)) \<Longrightarrow> ends i (mbind m k)"
  unfolding ends_def mbind_Inr_iff by blast

lemma ends_mseq: "ends i k \<Longrightarrow> ends i (mseq m k)"
  unfolding ends_def mseq_Inr_iff by blast

lemma ends_raise: "ends i (raise e)"
  by (simp add: ends_def raise_def)

lemma ends_terminal: "ends i (mseq (ledger_terminal h repo i outcome detail) (ret ()))"
  unfolding ends_def mseq_Inr_iff ret_def using terminal_ended by (metis prod.inject)

lemma ends_complete: "jget d ''operation_id'' = JStr i \<Longrightarrow> ends i (complete_state h repo d)"
  unfolding ends_def using complete_ended by blast

lemma resolve_action_ends:
  assumes "jget record ''operation_id'' = JStr i"
  shows "ends i (resolve_action h repo i action it record)"
  unfolding resolve_action_def by (simp add: ends_complete [OF assms] ends_terminal ends_raise ends_bind ends_mseq)

lemma commit_keeps_id: "jget (sealed h (with_commit d full)) ''operation_id'' = jget d ''operation_id''"
  by (auto simp: sealed_def with_commit_def Let_def split: json.splits)

text \<open>C13: A resolution by the operator either raises or ends the operation: afterwards its record is valid and
  terminal, and the action was one of the four that exist.\<close>

theorem resolve_ends_operation:
  assumes "guarded_resolve h repo i action w = (Inr it, w')"
  shows "\<exists>d. load_record h repo i w' = Inr d \<and> jget d ''terminal_outcome'' \<noteq> JNull
    \<and> action \<in> {''complete-state'', ''finish-ledger'', ''cancel-intent'', ''restore-patch''}"
proof -
  obtain r c r' w1 where l: "load_record h repo i w = Inr r" and c: "classify h repo r w = (Inr (c, r'), w1)"
    using assms by (auto simp: guarded_resolve_def mbind_Inr_iff split: sum.splits prod.splits)
  have id: "jget r' ''operation_id'' = JStr i"
    using classify_result [OF c] load_id [OF l] commit_keeps_id [of h r] by metis
  obtain u w2 where m: "resolve_action h repo i action c r' w1 = (Inr u, w2)" "reload_item h repo i w2 = (Inr it, w')"
    using assms l c by (auto simp: guarded_resolve_def mbind_def mseq_Inr_iff)
  have "ended i w2" using resolve_action_ends [OF id] m(1) unfolding ends_def by blast
  then obtain d where "load_record h repo i w' = Inr d" "jget d ''terminal_outcome'' \<noteq> JNull"
    using reload_ended [OF _ _ m(2)] unfolding ended_def by blast
  moreover have "action \<in> {''complete-state'', ''finish-ledger'', ''cancel-intent'', ''restore-patch''}"
  proof (rule ccontr)
    assume "\<not> ?thesis"
    then have "resolve_action h repo i action c r' = raise (ReconciliationBlockedError
        (''Action '' @ action @ '' is unsafe for '' @ i @ '' in state '' @ ri_classification c @ ''.''))"
      by (simp add: resolve_action_def)
    with m(1) show False by (simp add: raise_def)
  qed
  ultimately show ?thesis by (intro exI [of _ d] conjI)
qed

theorem resolve_ends_operation_witness:
  "\<exists>it w d. guarded_resolve toy_host toy_root ''op-1'' ''cancel-intent'' (ledger_world JNull) = (Inr it, w)
     \<and> load_record toy_host toy_root ''op-1'' w = Inr d \<and> jget d ''terminal_outcome'' \<noteq> JNull"
proof -
  let ?r = "sample_record JNull" and ?w = "ledger_world JNull"
  have safe: "safe_id ''op-1''" by code_simp
  have l: "load_record toy_host toy_root ''op-1'' ?w = Inr ?r"
    by (simp add: load_current current_def ledger_world_file sample_valid safe)
  let ?d = "jset (jset (jset ?r ''terminal_outcome'' (JStr ''cancelled'')) ''terminal_detail'' (redact_option toy_host (Some ''Operator cancelled clean, unapplied intent.''))) ''finished_at_utc'' (JStr ''t0'')"
  let ?w1 = "?w\<lparr>w_ticks := 1, w_ledger := [(''op-1'', Content (JObj (sealed toy_host ?d)))]\<rparr>"
  have id: "jget ?r ''operation_id'' = JStr ''op-1''" and n: "jget ?r ''terminal_outcome'' = JNull"
    by (simp_all add: sample_fields)
  have "str_nat 0 = ''0''" by code_simp
  then have world: "w_ticks ?w = 0" "w_budget ?w = None" "w_clock ?w 0 = ''t0''" "w_ledger ?w = [(''op-1'', Content (JObj ?r))]"
    by (simp_all add: ledger_world_fields)
  have t: "ledger_terminal toy_host toy_root ''op-1'' ''cancelled'' (Some ''Operator cancelled clean, unapplied intent.'') ?w
      = (Inr (sealed toy_host ?d), ?w1)"
    by (simp add: ledger_terminal_def terminal_outcomes_def l n mseq_def mbind_def world_now_def write_record_def id
      Let_def world_write_def put_file_def world)
  have c: "current toy_host toy_root ''op-1'' (sealed toy_host ?d) ?w1"
  proof -
    have "ledger_evolves toy_host toy_root ?w ?w1"
      using terminal_evolves t unfolding within_def by (metis snd_conv)
    then obtain e where "valid_file toy_host toy_root ''op-1'' (ledger_file ''op-1'' ?w1) e"
      using sample_valid_file unfolding ledger_evolves_def by blast
    then show ?thesis by (auto simp: valid_file_def current_def ledger_file_def)
  qed
  have v: "load_record toy_host toy_root ''op-1'' ?w1 = Inr (sealed toy_host ?d)"
    using c by (simp add: load_current safe)
  have step: "resolve_action toy_host toy_root ''op-1'' ''cancel-intent'' (item ?r ''not_started'' (Some ''cancel_intent'')
       ''HEAD and worktree still match the recorded baseline.'' False) ?r ?w = (Inr (), ?w1)"
    using t by (simp add: resolve_action_def item_def mseq_def mbind_def)
  have nc: "jget (sealed toy_host ?d) ''_corruption'' = JNull" "jget (sealed toy_host ?d) ''terminal_outcome'' = JStr ''cancelled''"
    by (simp_all add: sealed_def sample_fields)
  obtain it where rl: "reload_item toy_host toy_root ''op-1'' ?w1 = (Inr it, ?w1)"
    using v nc by (simp add: reload_item_def mbind_def classify_def)
  have "guarded_resolve toy_host toy_root ''op-1'' ''cancel-intent'' ?w = (Inr it, ?w1)"
    using step rl by (simp add: guarded_resolve_def mbind_def l sample_classify mseq_def)
  with resolve_ends_operation [OF this] show ?thesis by blast
qed
end
