(* ===== verification/Attempts.thy ===== *)
theory Attempts imports World Patch_Text begin

text \<open>
  Worker attempts (\<open>src/llm_harness/attempts.py\<close>, \<open>workers.py\<close>): a worker runs in a git worktree of
  its own, and what it did is collected as a patch.  A worker is whatever it does to the host, with
  the completion it returns or the exception it raises.  Removing a directory tree is a parameter of
  the host.
\<close>

record 'r job_worker =
  jw_name :: string
  jw_run :: "path \<Rightarrow> worker_job \<Rightarrow> ('r, worker_completion) op"

record worktree_attempt =
  wa_repository :: path
  wa_path :: path
  wa_branch :: string
  wa_base_commit :: string

section \<open>Names\<close>

definition safe_ref_component :: "string \<Rightarrow> string" where
  "safe_ref_component v = (let safe = strip_set ''.-'' (dash_runs False v) in if safe = [] then ''work-item'' else safe)"

definition path_parent :: "path \<Rightarrow> path" where
  "path_parent p = Path (p_root p) (butlast (p_parts p))"

section \<open>Worktrees\<close>

definition attempt_git :: "('r, 'x) host_scheme \<Rightarrow> path \<Rightarrow> string list \<Rightarrow> ('r, completed) world_op" where
  "attempt_git h repo args = in_repo (run_git h (''git'' # args) repo None)"

definition attempt_error :: "completed \<Rightarrow> string \<Rightarrow> exn" where
  "attempt_error c fallback = AttemptError (if strip (co_err c) = [] then fallback else strip (co_err c))"

definition create_worktree_attempt ::
  "('r, 'x) host_scheme \<Rightarrow> path \<Rightarrow> path \<Rightarrow> work_item \<Rightarrow> ('r, worktree_attempt) world_op" where
  "create_worktree_attempt h repo attempts_root wi =
     mbind (attempt_git h repo [''status'', ''--porcelain'']) (\<lambda>st.
     if strip (co_out st) \<noteq> [] then
       (let dirty = map strip (filter (\<lambda>l. strip l \<noteq> []) (splitlines (co_out st)));
            more = (if 10 < length dirty then '' (+'' @ str_nat (length dirty - 10) @ '' more)'' else [])
        in raise (AttemptError (''Canonical repository must be clean before creating a worker attempt. ''
             @ ''Uncommitted or untracked paths: '' @ join '', '' (take 10 dirty) @ more)))
     else
     mbind (attempt_git h repo [''rev-parse'', ''HEAD'']) (\<lambda>base.
     if co_code base \<noteq> 0 \<or> strip (co_out base) = [] then raise (attempt_error base ''git rev-parse HEAD failed'')
     else
     mbind world_uuid (\<lambda>u.
     let hex = take 12 (filter (\<lambda>c. c \<noteq> CHR ''-'') u);
         safe = safe_ref_component (wi_id wi);
         branch = ''hoh/attempt/'' @ safe @ ''/'' @ hex;
         place = path_join attempts_root (path_of (safe @ ''-'' @ hex))
     in mbind (attempt_git h repo [''worktree'', ''add'', ''-b'', branch, path_str place, ''HEAD'']) (\<lambda>created.
        if co_code created \<noteq> 0 then raise (attempt_error created ''git worktree add failed'')
        else ret \<lparr>wa_repository = repo, wa_path = place, wa_branch = branch, wa_base_commit = strip (co_out base)\<rparr>))))"

definition collect_attempt_patch ::
  "('r, 'x) host_scheme \<Rightarrow> worktree_attempt \<Rightarrow> string \<Rightarrow> work_item \<Rightarrow> ('r, worker_patch) world_op" where
  "collect_attempt_patch h a name wi =
     mbind (attempt_git h (wa_path a) [''add'', ''-A'']) (\<lambda>staged.
     if co_code staged \<noteq> 0 then raise (attempt_error staged ''git add -A failed in attempt worktree'')
     else
     mbind (attempt_git h (wa_path a) [''diff'', ''--cached'', ''--binary'']) (\<lambda>diff.
     if co_code diff \<noteq> 0 then raise (attempt_error diff ''git diff failed'')
     else ret \<lparr>wp_worker_name = name, wp_work_item_id = wi_id wi, wp_patch = co_out diff,
            wp_notes = ''Collected from isolated worktree '' @ path_str (wa_path a)\<rparr>))"

definition remove_worktree_attempt :: "('r, 'x) host_scheme \<Rightarrow> worktree_attempt \<Rightarrow> bool \<Rightarrow> ('r, unit) world_op" where
  "remove_worktree_attempt h a delete_branch =
     mbind (attempt_git h (wa_repository a) [''worktree'', ''remove'', ''--force'', path_str (wa_path a)]) (\<lambda>removed.
     mseq (\<lambda>w. (Inr (), if co_code removed \<noteq> 0 \<and> mc_node h (wa_path a) (w_repo w) \<noteq> Absent
                       then w\<lparr>w_repo := mc_rmtree h (wa_path a) (w_repo w)\<rparr> else w))
     (if delete_branch
      then mseq (attempt_git h (wa_repository a) [''branch'', ''-D'', wa_branch a]) (ret ())
      else ret ()))"

section \<open>Workers in worktrees\<close>

record attempt_worker =
  aw_canonical_repository :: path
  aw_attempts_root :: path
  aw_cleanup :: bool

definition new_attempt_worker :: "path \<Rightarrow> path option \<Rightarrow> bool \<Rightarrow> attempt_worker" where
  "new_attempt_worker canonical root cleanup = \<lparr>aw_canonical_repository = canonical,
     aw_attempts_root = (case root of None \<Rightarrow> path_join (path_parent canonical) (path_of ''.hoh-attempts'') | Some r \<Rightarrow> r),
     aw_cleanup = cleanup\<rparr>"

definition refused :: "worker_job \<Rightarrow> string \<Rightarrow> worker_completion" where
  "refused job m = \<lparr>wc_job_id = wj_id job, wc_callback_token = wj_callback_token job, wc_patch = None,
     wc_error = Some m, wc_error_kind = None, wc_retryable = False\<rparr>"

definition run_in_attempt ::
  "('r, 'x) host_scheme \<Rightarrow> 'r job_worker \<Rightarrow> worktree_attempt \<Rightarrow> worker_job \<Rightarrow> ('r, worker_completion) world_op" where
  "run_in_attempt h inner a job =
     mbind (in_repo (jw_run inner (wa_path a) job)) (\<lambda>c.
     if has_error c then ret c
     else
     mbind (attempt_git h (wa_path a) [''rev-parse'', ''HEAD'']) (\<lambda>head.
     if co_code head \<noteq> 0 \<or> strip (co_out head) \<noteq> wa_base_commit a then
       ret (refused job (''Worker changed Git HEAD inside the isolated attempt. ''
         @ ''Workers may edit files but must not commit; HoH owns all commits.''))
     else
     mbind (collect_attempt_patch h a (jw_name inner) (wj_work_item job)) (\<lambda>p.
     ret \<lparr>wc_job_id = wj_id job, wc_callback_token = wj_callback_token job, wc_patch = Some p,
          wc_error = None, wc_error_kind = None, wc_retryable = False\<rparr>)))"

definition attempt_run_job ::
  "('r, 'x) host_scheme \<Rightarrow> attempt_worker \<Rightarrow> 'r job_worker \<Rightarrow> path \<Rightarrow> worker_job \<Rightarrow> ('r, worker_completion) world_op" where
  "attempt_run_job h aw inner repo job =
     (if mc_resolve h repo \<noteq> mc_resolve h (aw_canonical_repository aw) then
        ret (refused job ''Attempt worker repository does not match canonical repository.'')
      else
        mbind (create_worktree_attempt h (aw_canonical_repository aw) (aw_attempts_root aw) (wj_work_item job)) (\<lambda>a.
        finally_do (run_in_attempt h inner a job)
          (if aw_cleanup aw then remove_worktree_attempt h a True else ret ())))"

section \<open>The stub worker\<close>

definition stub_content :: "work_item \<Rightarrow> string" where
  "stub_content wi = ''# Harness demo'' @ [CHR 0x0A] @ [CHR 0x0A] @ ''Work item: '' @ wi_id wi @ [CHR 0x0A]
     @ ''Objective: '' @ wi_objective wi @ [CHR 0x0A]"

definition stub_patch_text :: "work_item \<Rightarrow> string" where
  "stub_patch_text wi = (let ls = splitlines (stub_content wi) in
     unlines [''diff --git a/HARNESS_DEMO.md b/HARNESS_DEMO.md'', ''new file mode 100644'', ''index 0000000..9daeafb'',
       ''--- /dev/null'', ''+++ b/HARNESS_DEMO.md'', ''@@ -0,0 +1,4 @@'',
       ''+'' @ ls ! 0, ''+'', ''+'' @ ls ! 2, ''+'' @ ls ! 3])"

definition stub_produce_patch :: "work_item \<Rightarrow> worker_patch" where
  "stub_produce_patch wi = \<lparr>wp_worker_name = ''stub-worker'', wp_work_item_id = wi_id wi, wp_patch = stub_patch_text wi,
     wp_notes = ''Deterministic patch for demo and test execution.''\<rparr>"

definition stub_worker :: "'r job_worker" where
  "stub_worker = \<lparr>jw_name = ''stub-worker'',
     jw_run = (\<lambda>_ job. ret \<lparr>wc_job_id = wj_id job, wc_callback_token = wj_callback_token job,
       wc_patch = Some (stub_produce_patch (wj_work_item job)), wc_error = None, wc_error_kind = None, wc_retryable = False\<rparr>)\<rparr>"

end
