(* ===== verification/Supervisor.thy ===== *)
theory Supervisor imports Ledger Attempts Command_Policy begin

text \<open>
  The supervisor (\<open>src/llm_harness/supervisor.py\<close>): it hands a work item to a worker, checks the
  patch that comes back, applies it to the canonical repository, runs the verification commands,
  asks the semantic verifier, and commits or takes the patch back.  The semantic verifier's answer
  is a parameter (\<open>sp_semantic\<close>); the journal is the one of the state store at \<open>sp_journal\<close>.
\<close>

record supervisor =
  sp_verifier :: policy_verifier
  sp_journal :: "path option"
  sp_semantic :: "(work_item \<Rightarrow> worker_patch \<Rightarrow> command_result list \<Rightarrow> semantic_report res) option"
  sp_policy :: command_policy

section \<open>The journal of the supervisor\<close>

definition sv_record :: "supervisor \<Rightarrow> journal_args \<Rightarrow> ('r, unit) world_op" where
  "sv_record sv a = (case sp_journal sv of
     None \<Rightarrow> ret ()
   | Some root \<Rightarrow> mseq (on_store root (journal_record a)) (ret ()))"

definition sv_event ::
  "supervisor \<Rightarrow> string \<Rightarrow> string \<Rightarrow> string \<Rightarrow> string option \<Rightarrow> jobj \<Rightarrow> string \<Rightarrow> string \<Rightarrow> ('r, unit) world_op" where
  "sv_event sv ty actor action recipient content task job =
     sv_record sv ((journal_args ty actor action (JObj content))
       \<lparr>ja_recipient := recipient, ja_task_id := Some task, ja_correlation_id := Some job\<rparr>)"

definition work_item_trace :: "work_item \<Rightarrow> json" where
  "work_item_trace wi = JObj
     [(''id'', JStr (wi_id wi)), (''title'', JStr (wi_title wi)), (''objective'', JStr (wi_objective wi)),
      (''acceptance_criteria'', j_strs (wi_acceptance_criteria wi)),
      (''verification_commands'', j_strs (wi_verification_commands wi)),
      (''allowed_paths'', j_strs (wi_allowed_paths wi)), (''non_goals'', j_strs (wi_non_goals wi)),
      (''correction_instructions'', j_strs (wi_correction_instructions wi)),
      (''correction_decision_id'', j_opt_str (wi_correction_decision_id wi))]"

definition semantic_trace :: "semantic_report \<Rightarrow> jobj" where
  "semantic_trace r =
     [(''decision'', JStr (sv_decision r)), (''summary'', JStr (sv_summary r)), (''findings'', j_strs (sv_findings r)),
      (''evidence'', (case sv_evidence r of None \<Rightarrow> JNull | Some e \<Rightarrow> evidence_to_json e))]"

section \<open>The locked section\<close>

text \<open>\<open>completion.error or default\<close>\<close>

definition error_or :: "worker_completion \<Rightarrow> string \<Rightarrow> string" where
  "error_or c m = (case wc_error c of Some e \<Rightarrow> if e = [] then m else e | None \<Rightarrow> m)"

definition no_commit ::
  "path \<Rightarrow> work_item \<Rightarrow> verification_report \<Rightarrow> verification_report \<Rightarrow> command_result list \<Rightarrow> semantic_report option
     \<Rightarrow> harness_run_result" where
  "no_commit repo wi pre post results semantic =
     \<lparr>hr_repository = path_str repo, hr_work_item_id = wi_id wi, hr_commit = None, hr_pre_apply = pre,
      hr_post_apply = post, hr_command_results = results, hr_semantic_verification = semantic\<rparr>"

definition with_operation :: "operation_context option \<Rightarrow> (operation_context \<Rightarrow> ('r, 'a) world_op) \<Rightarrow> ('r, unit) world_op" where
  "with_operation ctx f = (case ctx of None \<Rightarrow> ret () | Some c \<Rightarrow> mseq (f c) (ret ()))"

text \<open>The patch is taken back and the operation ends.\<close>

definition take_back ::
  "('r, 'x) host_scheme \<Rightarrow> path \<Rightarrow> operation_context option \<Rightarrow> string \<Rightarrow> string \<Rightarrow> string \<Rightarrow> ('r, unit) world_op" where
  "take_back h repo ctx patch reason notice =
     mseq (in_repo (revert_patch h repo patch))
    (mseq (with_operation ctx (\<lambda>c. ledger_terminal h repo (oc_operation_id c) ''reverted'' (Some reason)))
    (notify_user_action_required notice))"

definition is_semantic_failure :: "exn \<Rightarrow> bool" where
  "is_semantic_failure e \<longleftrightarrow> is_provider_error e \<or> is_value_error e"

definition semantic_answer ::
  "(work_item \<Rightarrow> worker_patch \<Rightarrow> command_result list \<Rightarrow> semantic_report res) \<Rightarrow> work_item \<Rightarrow> worker_patch
     \<Rightarrow> command_result list \<Rightarrow> semantic_report res" where
  "semantic_answer verify wi p results = (case verify wi p results of
     Inr r \<Rightarrow> Inr r
   | Inl e \<Rightarrow> if is_semantic_failure e
       then Inr \<lparr>sv_decision = ''fail'', sv_summary = ''Semantic verification could not produce trustworthy evidence.'',
              sv_findings = [exn_message e], sv_evidence = None\<rparr>
       else Inl e)"

fun record_commands :: "supervisor \<Rightarrow> work_item \<Rightarrow> string \<Rightarrow> command_result list \<Rightarrow> ('r, unit) world_op" where
  "record_commands sv wi job [] = ret ()"
| "record_commands sv wi job (r # rs) =
     mseq (sv_event sv ''tool_result'' ''supervisor'' ''verification.command'' (Some ''deterministic-verifier'')
       [(''command'', JStr (cr_command r)), (''return_code'', JInt (cr_return_code r)),
        (''stdout'', JStr (cr_stdout r)), (''stderr'', JStr (cr_stderr r))] (wi_id wi) job)
     (record_commands sv wi job rs)"

text \<open>From the accepted evidence to the commit.\<close>

definition commit_message :: "work_item \<Rightarrow> operation_context option \<Rightarrow> string" where
  "commit_message wi ctx = wi_id wi @ '': '' @ wi_title wi @ (case ctx of
     None \<Rightarrow> [] | Some c \<Rightarrow> [CHR 0x0A, CHR 0x0A] @ ''HoH-Operation: '' @ oc_operation_id c)"

definition commit_verified ::
  "('r, 'x) host_scheme \<Rightarrow> supervisor \<Rightarrow> path \<Rightarrow> work_item \<Rightarrow> string \<Rightarrow> operation_context option \<Rightarrow> string list
     \<Rightarrow> harness_run_result \<Rightarrow> ('r, harness_run_result) world_op" where
  "commit_verified h sv repo wi job ctx changed provisional =
     mseq (with_operation ctx (\<lambda>c. ledger_phase h repo (oc_operation_id c) ''verified'' [(''result'', result_to_json h provisional)]))
    (mseq (in_repo (stage_paths h repo changed))
    (mbind (in_repo (commit_staged h repo (commit_message wi ctx))) (\<lambda>commit.
     mseq (with_operation ctx (\<lambda>c.
       mbind (case commit of None \<Rightarrow> ret None | Some s \<Rightarrow> mbind (in_repo (resolve_commit h repo s)) (\<lambda>f. ret (Some f))) (\<lambda>full.
       ledger_phase h repo (oc_operation_id c) ''commit_created'' [(''commit'', j_opt_str full)])))
    (mseq (sv_event sv ''tool_result'' ''supervisor'' ''git.commit'' None
       [(''commit'', j_opt_str commit), (''changed_files'', j_strs changed)] (wi_id wi) job)
    (ret (provisional\<lparr>hr_commit := commit\<rparr>))))))"

text \<open>From the applied patch to the decision.\<close>

definition judge_applied ::
  "('r, 'x) host_scheme \<Rightarrow> supervisor \<Rightarrow> path \<Rightarrow> work_item \<Rightarrow> string \<Rightarrow> operation_context option \<Rightarrow> worker_patch
     \<Rightarrow> string list \<Rightarrow> verification_report \<Rightarrow> command_result list \<Rightarrow> ('r, harness_run_result) world_op" where
  "judge_applied h sv repo wi job ctx p changed pre results =
     (let post = verify_after_apply wi (list_all command_ok results) (documentation_paths changed \<noteq> []) in
      if \<not> vr_ok post then
        mseq (take_back h repo ctx (wp_patch p) ''Deterministic verification rejected the applied patch.''
          (''Verifier rejected applied result: '' @ join ''; '' (vr_findings post)))
        (ret (no_commit repo wi pre post results None))
      else case sp_semantic sv of
        None \<Rightarrow> commit_verified h sv repo wi job ctx changed (no_commit repo wi pre post results None)
      | Some verify \<Rightarrow>
          mbind (lift_res (semantic_answer verify wi p results)) (\<lambda>semantic.
          mseq (sv_event sv ''decision'' ''semantic-verifier'' ''patch.semantic_checked'' (Some ''supervisor'')
            (semantic_trace semantic) (wi_id wi) job)
          (if \<not> semantic_ok semantic then
             mseq (take_back h repo ctx (wp_patch p) ''Semantic verification rejected the applied patch.''
               (''Semantic verifier blocked the applied result: '' @ sv_summary semantic))
             (ret (no_commit repo wi pre post results (Some semantic)))
           else commit_verified h sv repo wi job ctx changed (no_commit repo wi pre post results (Some semantic)))))"

definition apply_accepted ::
  "('r, 'x) host_scheme \<Rightarrow> supervisor \<Rightarrow> path \<Rightarrow> work_item \<Rightarrow> string \<Rightarrow> operation_context option \<Rightarrow> worker_patch
     \<Rightarrow> string list \<Rightarrow> verification_report \<Rightarrow> ('r, harness_run_result) world_op" where
  "apply_accepted h sv repo wi job ctx p changed pre =
     mseq (with_operation ctx (\<lambda>c. begin_task h repo c (wi_id wi) (wp_patch p) changed))
    (mseq (in_repo (apply_patch h repo (wp_patch p)))
    (mseq (with_operation ctx (\<lambda>c. ledger_phase h repo (oc_operation_id c) ''patch_applied'' []))
    (mseq (sv_event sv ''tool_call'' ''supervisor'' ''git.apply'' None [(''changed_files'', j_strs changed)] (wi_id wi) job)
    (mbind (in_repo (run_verification_commands h (resolve_command (mc_running h) (sp_policy sv)) repo ''120.0''
       (wi_verification_commands wi))) (\<lambda>results.
     mseq (record_commands sv wi job results)
     (judge_applied h sv repo wi job ctx p changed pre results))))))"

definition execute_locked ::
  "('r, 'x) host_scheme \<Rightarrow> supervisor \<Rightarrow> path \<Rightarrow> work_item \<Rightarrow> worker_completion \<Rightarrow> operation_context option
     \<Rightarrow> ('r, harness_run_result) world_op" where
  "execute_locked h sv repo wi completion ctx =
     (let unapplied = verify_after_apply wi False False; job = wc_job_id completion in
      case wc_patch completion of
        None \<Rightarrow>
          mseq (notify_user_action_required (error_or completion ''Worker returned no patch.''))
          (ret (no_commit repo wi unapplied unapplied [] None))
      | Some p \<Rightarrow>
          mseq (sv_event sv ''artifact'' (wp_worker_name p) ''worker.patch_returned'' (Some ''supervisor'')
            [(''patch'', JStr (wp_patch p)), (''notes'', JStr (wp_notes p))] (wi_id wi) job)
         (mbind (lift_res (changed_files_from_patch (wp_patch p))) (\<lambda>changed.
          mbind (lift_res (verify_patch_before_apply (sp_verifier sv) wi p)) (\<lambda>pre.
          mseq (sv_event sv ''decision'' ''deterministic-verifier'' ''patch.policy_checked'' (Some ''supervisor'')
            [(''ok'', JBool (vr_ok pre)), (''findings'', j_strs (vr_findings pre)), (''changed_files'', j_strs changed)]
            (wi_id wi) job)
          (if \<not> vr_ok pre then
             mseq (notify_user_action_required (''Verifier rejected worker patch before apply: '' @ join ''; '' (vr_findings pre)))
             (ret (no_commit repo wi pre unapplied [] None))
           else apply_accepted h sv repo wi job ctx p changed pre)))))"

section \<open>Entry points\<close>

definition execute_worker_completion ::
  "('r, 'x) host_scheme \<Rightarrow> supervisor \<Rightarrow> path \<Rightarrow> work_item \<Rightarrow> worker_completion \<Rightarrow> operation_context option
     \<Rightarrow> ('r, harness_run_result) world_op" where
  "execute_worker_completion h sv repo wi completion ctx =
     with_lease (mseq (assert_no_blocking h repo) (execute_locked h sv repo wi completion ctx))"

definition execute_work_item ::
  "('r, 'x) host_scheme \<Rightarrow> supervisor \<Rightarrow> path \<Rightarrow> work_item \<Rightarrow> (path \<Rightarrow> work_item \<Rightarrow> ('r, worker_patch) op)
     \<Rightarrow> ('r, harness_run_result) world_op" where
  "execute_work_item h sv repo wi produce =
     mseq (in_repo (ensure_git_repository h repo))
    (mbind (in_repo (produce repo wi)) (\<lambda>p.
     execute_worker_completion h sv repo wi
       \<lparr>wc_job_id = ''sync'', wc_callback_token = ''sync'', wc_patch = Some p, wc_error = None, wc_error_kind = None,
        wc_retryable = False\<rparr> None))"

text \<open>A worker the supervisor dispatches to: its name and what it does with a job.\<close>

record 'r dispatcher =
  dp_name :: string
  dp_run :: "path \<Rightarrow> worker_job \<Rightarrow> ('r, worker_completion) world_op"

definition direct :: "'r job_worker \<Rightarrow> 'r dispatcher" where
  "direct jw = \<lparr>dp_name = jw_name jw, dp_run = (\<lambda>repo job. in_repo (jw_run jw repo job))\<rparr>"

definition in_attempt :: "('r, 'x) host_scheme \<Rightarrow> 'r job_worker \<Rightarrow> path \<Rightarrow> path option \<Rightarrow> 'r dispatcher" where
  "in_attempt h jw repo root = \<lparr>dp_name = ''attempt-'' @ jw_name jw,
     dp_run = attempt_run_job h (new_attempt_worker repo root True) jw\<rparr>"

definition dispatch_job ::
  "('r, 'x) host_scheme \<Rightarrow> supervisor \<Rightarrow> path \<Rightarrow> work_item \<Rightarrow> execution_target \<Rightarrow> 'r dispatcher
     \<Rightarrow> ('r, worker_job \<times> worker_completion) world_op" where
  "dispatch_job h sv repo wi target worker =
     mseq (in_repo (ensure_git_repository h repo))
    (mbind world_uuid (\<lambda>jid. mbind world_uuid (\<lambda>token. mbind world_now (\<lambda>now.
     mbind (on_jobs (job_create jid token now wi target)) (\<lambda>job.
     mbind (on_jobs (mark_dispatched (wj_id job))) (\<lambda>dispatched.
     mseq (sv_event sv ''interaction'' ''supervisor'' ''worker.task_dispatched'' (Some (dp_name worker))
       [(''repository'', JStr (path_str repo)),
        (''target'', JObj [(''name'', JStr (target_name target)), (''type'', JStr (target_type target))]),
        (''task'', work_item_trace wi)] (wi_id wi) (wj_id job))
    (mbind (dp_run worker repo dispatched) (\<lambda>completion.
     mbind (on_jobs (job_complete completion)) (\<lambda>completed. ret (completed, completion))))))))))"

definition dispatch_work_item ::
  "('r, 'x) host_scheme \<Rightarrow> supervisor \<Rightarrow> path \<Rightarrow> work_item \<Rightarrow> execution_target \<Rightarrow> 'r dispatcher \<Rightarrow> operation_context option
     \<Rightarrow> ('r, harness_run_result) world_op" where
  "dispatch_work_item h sv repo wi target worker ctx =
     mbind (dispatch_job h sv repo wi target worker) (\<lambda>(completed, completion).
     if wj_status completed = FAILED then
       mseq (sv_event sv ''tool_result'' (dp_name worker) ''worker.failed'' (Some ''supervisor'')
         [(''error'', j_opt_str (wc_error completion)), (''error_kind'', j_opt_str (wc_error_kind completion)),
          (''retryable'', JBool (wc_retryable completion))] (wi_id wi) (wj_id completed))
      (mseq (notify_user_action_required (error_or completion ''Worker job failed.''))
      (let unapplied = verify_after_apply wi False False in ret (no_commit repo wi unapplied unapplied [] None)))
     else execute_worker_completion h sv repo wi completion ctx)"

definition dispatch_work_item_in_attempt ::
  "('r, 'x) host_scheme \<Rightarrow> supervisor \<Rightarrow> path \<Rightarrow> work_item \<Rightarrow> execution_target \<Rightarrow> 'r job_worker \<Rightarrow> path option
     \<Rightarrow> operation_context option \<Rightarrow> ('r, harness_run_result) world_op" where
  "dispatch_work_item_in_attempt h sv repo wi target jw root ctx =
     dispatch_work_item h sv repo wi target (in_attempt h jw repo root) ctx"

definition collect_worker_completion ::
  "('r, 'x) host_scheme \<Rightarrow> supervisor \<Rightarrow> path \<Rightarrow> work_item \<Rightarrow> execution_target \<Rightarrow> 'r dispatcher
     \<Rightarrow> ('r, worker_completion) world_op" where
  "collect_worker_completion h sv repo wi target worker =
     mbind (dispatch_job h sv repo wi target worker) (\<lambda>(_, completion). ret completion)"

definition collect_worker_completion_in_attempt ::
  "('r, 'x) host_scheme \<Rightarrow> supervisor \<Rightarrow> path \<Rightarrow> work_item \<Rightarrow> execution_target \<Rightarrow> 'r job_worker \<Rightarrow> path option
     \<Rightarrow> ('r, worker_completion) world_op" where
  "collect_worker_completion_in_attempt h sv repo wi target jw root =
     collect_worker_completion h sv repo wi target (in_attempt h jw repo root)"

end
