(* ===== verification/Ledger_Runs.thy ===== *)
theory Ledger_Runs imports Ledger_Props begin

text \<open>
  The ledger on a disk that does not fail: advancing and ending an open operation succeeds, keeps its
  record valid and touches nothing but the record and the clock; an ended operation refuses to advance.
\<close>

definition open_op :: "('r, 'x) host_scheme \<Rightarrow> path \<Rightarrow> string \<Rightarrow> jobj \<Rightarrow> 'r world \<Rightarrow> bool" where
  "open_op h repo i d w \<longleftrightarrow> safe_id i \<and> valid_file h repo i (ledger_file i w) d \<and> \<not> is_terminal d \<and> w_budget w = None"

definition same_rest :: "'r world \<Rightarrow> 'r world \<Rightarrow> bool" where
  "same_rest w w' \<longleftrightarrow> w_repo w' = w_repo w \<and> w_stores w' = w_stores w \<and> w_jobs w' = w_jobs w \<and> w_lock w' = w_lock w
     \<and> w_notices w' = w_notices w \<and> w_budget w' = w_budget w \<and> (\<forall>j. w_uuids w' j = w_uuids w j) \<and> w_drawn w' = w_drawn w"

lemma open_load: "open_op h repo i d w \<Longrightarrow> load_record h repo i w = Inr d"
  by (simp add: open_op_def load_current current_def valid_file_def)

lemma write_run:
  assumes "jget d ''operation_id'' = JStr i" "w_budget w = None"
  shows "write_record h repo d w
    = (Inr (sealed h d), w\<lparr>w_ledger := put_file i (Content (JObj (sealed h d))) (w_ledger w)\<rparr>)"
  using assms by (simp add: write_record_def Let_def mseq_def mbind_def world_write_def)

lemma sealed_terminal: "jget (sealed h d) ''terminal_outcome'' = jget d ''terminal_outcome''"
  by (simp add: sealed_def)

lemma phase_run:
  assumes o: "open_op h repo i d w" and f: "free_changes ch" "''terminal_outcome'' \<notin> fst ` set ch"
  shows "\<exists>d' w'. ledger_phase h repo i name ch w = (Inr d', w') \<and> open_op h repo i d' w' \<and> same_rest w w'"
proof -
  have l: "load_record h repo i w = Inr d" and b: "w_budget w = None" and t: "jget d ''terminal_outcome'' = JNull"
    and v: "valid_file h repo i (ledger_file i w) d"
    using o open_load [OF o] by (simp_all add: open_op_def is_terminal_def)
  obtain p where p: "jget d ''phases'' = JObj p" using v valid_phases [of h repo d i] unfolding valid_file_def by blast
  let ?d = "jupdate (jset d ''phases'' (JObj (setdefault p name (JStr (w_clock w (w_ticks w)))))) ch"
  let ?w = "w\<lparr>w_ticks := Suc (w_ticks w), w_ledger := put_file i (Content (JObj (sealed h ?d))) (w_ledger w)\<rparr>"
  have ext: "jget ?d ''operation_id'' = jget d ''operation_id''"
    using phase_extends [OF p _ f(1)] t by (simp add: is_terminal_def)
  then have id: "jget ?d ''operation_id'' = JStr i" using load_id [OF l] by simp
  have run: "ledger_phase h repo i name ch w = (Inr (sealed h ?d), ?w)"
    by (simp add: ledger_phase_def l t p jobj_of_def mseq_def mbind_def write_run [OF id] b)
  have "ledger_evolves h repo w ?w" using phase_evolves [OF f(1)] run unfolding within_def by (metis snd_conv)
  then have "\<exists>e. valid_file h repo i (ledger_file i ?w) e" using v unfolding ledger_evolves_def by blast
  moreover have "ledger_file i ?w = Content (JObj (sealed h ?d))" by (simp add: ledger_file_def put_file_map)
  ultimately have "valid_file h repo i (ledger_file i ?w) (sealed h ?d)" by (auto simp: valid_file_def)
  moreover have "jget ?d ''terminal_outcome'' = JNull"
    using t f(2) by (simp add: jget_def jget_or_def map_of_jupdate)
  ultimately have "open_op h repo i (sealed h ?d) ?w"
    using o by (simp add: open_op_def is_terminal_def sealed_terminal)
  then show ?thesis using run by (intro exI conjI) (auto simp: same_rest_def)
qed

lemma terminal_run:
  assumes o: "open_op h repo i d w" and out: "outcome \<in> set terminal_outcomes"
  shows "\<exists>d' w'. ledger_terminal h repo i outcome detail w = (Inr d', w')
    \<and> ledger_file i w' = Content (JObj d') \<and> jget d' ''terminal_outcome'' = JStr outcome
    \<and> load_record h repo i w' = Inr d' \<and> same_rest w w'"
proof -
  have l: "load_record h repo i w = Inr d" and b: "w_budget w = None" and t: "jget d ''terminal_outcome'' = JNull"
    and v: "valid_file h repo i (ledger_file i w) d" and s: "safe_id i"
    using o open_load [OF o] by (simp_all add: open_op_def is_terminal_def)
  let ?d = "jset (jset (jset d ''terminal_outcome'' (JStr outcome)) ''terminal_detail'' (redact_option h detail))
     ''finished_at_utc'' (JStr (w_clock w (w_ticks w)))"
  let ?w = "w\<lparr>w_ticks := Suc (w_ticks w), w_ledger := put_file i (Content (JObj (sealed h ?d))) (w_ledger w)\<rparr>"
  have id: "jget ?d ''operation_id'' = JStr i" using load_id [OF l] by simp
  have run: "ledger_terminal h repo i outcome detail w = (Inr (sealed h ?d), ?w)"
    using out by (simp add: ledger_terminal_def l t mseq_def mbind_def write_run [OF id] b)
  have "ledger_evolves h repo w ?w" using terminal_evolves run unfolding within_def by (metis snd_conv)
  then have "\<exists>e. valid_file h repo i (ledger_file i ?w) e" using v unfolding ledger_evolves_def by blast
  moreover have f: "ledger_file i ?w = Content (JObj (sealed h ?d))" by (simp add: ledger_file_def put_file_map)
  ultimately have "load_record h repo i ?w = Inr (sealed h ?d)"
    using s by (auto simp: valid_file_def load_current current_def)
  then show ?thesis using run f by (intro exI conjI) (auto simp: same_rest_def sealed_terminal)
qed

lemma phase_ended:
  assumes "ledger_file i w = Content (JObj d)" "jget d ''terminal_outcome'' \<noteq> JNull"
  shows "\<exists>e. ledger_phase h repo i name ch w = (Inl e, w)"
proof (cases "load_record h repo i w")
  case (Inr r)
  then have "r = d" using assms(1) by (simp add: load_current current_def)
  then show ?thesis using assms(2) Inr by (simp add: ledger_phase_def)
qed (simp add: ledger_phase_def)

end
