(* ===== verification/Sample_Supervisor.thy ===== *)
theory Sample_Supervisor imports Supervisor Ledger_Runs begin

text \<open>
  A supervisor without journal and semantic verifier on the toy host, the stub worker's patch, and what
  the steps of its execution do there.
\<close>

lemma post_ok: "vr_ok (verify_after_apply wi b d) \<longleftrightarrow> b \<and> wi_acceptance_criteria wi \<noteq> []"
  by (simp add: verify_after_apply_def Let_def)

definition demo_item :: "string \<Rightarrow> work_item" where
  "demo_item cmd = \<lparr>wi_id = ''t1'', wi_title = ''demo'', wi_objective = ''show'', wi_acceptance_criteria = [''works''],
     wi_verification_commands = [cmd], wi_allowed_paths = [''HARNESS_DEMO.md''], wi_non_goals = [],
     wi_depends_on = [], wi_priority = 0, wi_correction_instructions = [], wi_correction_decision_id = None\<rparr>"

definition demo_patch :: worker_patch where
  "demo_patch = stub_produce_patch (demo_item [])"

definition demo_supervisor :: supervisor where
  "demo_supervisor = \<lparr>sp_verifier = default_verifier, sp_journal = None, sp_semantic = None, sp_policy = operator_policy\<rparr>"

definition demo_applied :: toy_repo where
  "demo_applied = toy_start\<lparr>ty_dirty := [''HARNESS_DEMO.md'']\<rparr>"

lemma demo_files: "changed_files_from_patch (wp_patch demo_patch) = Inr [''HARNESS_DEMO.md'']" by code_simp
lemma demo_gate: "rbind (verify_patch_before_apply default_verifier (demo_item cmd) demo_patch) (\<lambda>r. Inr (vr_ok r)) = Inr True" by code_simp
lemma demo_apply: "apply_patch toy_host toy_root (wp_patch demo_patch) toy_start = (Inr (), demo_applied)" by code_simp
lemma demo_commands: "run_verification_commands toy_host (resolve_command (mc_running toy_host) operator_policy) toy_root ''120.0'' [''make test''] r = (Inr [\<lparr>cr_command = ''make test'', cr_return_code = 0, cr_stdout = [], cr_stderr = []\<rparr>], r)" by code_simp
lemma demo_failing: "run_verification_commands toy_host (resolve_command (mc_running toy_host) operator_policy) toy_root ''120.0'' [''false''] r = (Inr [\<lparr>cr_command = ''false'', cr_return_code = 1, cr_stdout = [], cr_stderr = ''fatal''\<rparr>], r)" by code_simp
lemma demo_stage: "stage_paths toy_host toy_root [''HARNESS_DEMO.md''] demo_applied = (Inr (), demo_applied\<lparr>ty_staged := True\<rparr>)" by code_simp
lemma demo_commit: "fst (commit_staged toy_host toy_root (commit_message (demo_item c) None) (demo_applied\<lparr>ty_staged := True\<rparr>)) = Inr (Some ''comm'')" by code_simp
definition demo_world :: "toy_repo world" where
  "demo_world = toy_world (\<lambda>_. sample_store)"

definition demo_completion :: worker_completion where
  "demo_completion = \<lparr>wc_job_id = ''j1'', wc_callback_token = ''k1'', wc_patch = Some demo_patch, wc_error = None,
     wc_error_kind = None, wc_retryable = False\<rparr>"

lemma empty_reconciled: "assert_no_blocking toy_host toy_root demo_world = (Inr (), demo_world)"
  by (simp add: assert_no_blocking_def reconcile_def ledger_records_def demo_world_def toy_world_def mbind_def blocking_def)

lemma demo_pre: "\<exists>pre. verify_patch_before_apply default_verifier (demo_item cmd) demo_patch = Inr pre \<and> vr_ok pre"
  using demo_gate [of cmd] by (auto simp: rbind_Inr_iff)

lemma demo_criteria: "wi_acceptance_criteria (demo_item cmd) = [''works'']" "wi_verification_commands (demo_item cmd) = [cmd]"
  by (simp_all add: demo_item_def)

lemma demo_post: "vr_ok (verify_after_apply (demo_item cmd) b d) = b"
  by (simp add: post_ok demo_criteria)

lemma demo_fields: "w_repo demo_world = toy_start" "w_lock demo_world = None" "sp_verifier demo_supervisor = default_verifier"
  "sp_journal demo_supervisor = None" "sp_semantic demo_supervisor = None" "sp_policy demo_supervisor = operator_policy"
  "wc_patch demo_completion = Some demo_patch"
  by (simp_all add: demo_world_def toy_world_def demo_supervisor_def demo_completion_def)

lemma demo_quiet: "sv_event demo_supervisor ty actor action recipient content task job = ret ()"
  by (simp add: sv_event_def sv_record_def demo_fields)

lemma demo_quiet_commands: "record_commands demo_supervisor wi job rs = ret ()"
  by (induction rs) (simp_all add: demo_quiet)

text \<open>Beginning the operation of the sample context.\<close>

lemma demo_begin: "begin_task toy_host toy_root toy_context ''t1'' (wp_patch demo_patch) [''HARNESS_DEMO.md''] demo_world
   = (Inr (sample_record JNull), demo_world\<lparr>w_ticks := Suc (Suc 0), w_ledger := [(''op-1'', Content (JObj (sample_record JNull)))]\<rparr>)"
proof -
  have strs: "path_str toy_root = ''/repo''" "path_str (path_of ''/state'') = ''/state''" "str_nat 0 = ''0''" "str_nat (Suc 0) = ''1''"
    by code_simp+
  have ev: "patch_file_evidence toy_host toy_root patch [''HARNESS_DEMO.md''] r =
      Inr (JObj [(''HARNESS_DEMO.md'', JNull)], JObj [(''HARNESS_DEMO.md'', bytes_evidence toy_host ''file'' ''x'')])" for patch r
    by (simp add: patch_file_evidence_def baseline_evidence_def dict_of_def jupdate_def node_evidence_def toy_host_def)
  have sha: "text_sha256 toy_host t = zero_digest" for t by (simp add: text_sha256_def toy_host_def zero_digest_def)
  have world: "w_ticks demo_world = 0" "w_clock demo_world 0 = ''t0''" "w_clock demo_world (Suc 0) = ''t1''" "w_ledger demo_world = []" "w_budget demo_world = None"
    by (simp_all add: demo_world_def toy_world_def strs)
  have ctx: "oc_operation_id toy_context = ''op-1''" "oc_run_id toy_context = ''run-1''" "oc_state_root toy_context = path_of ''/state''"
      "oc_started_at_utc toy_context = ''t''" "oc_review_required toy_context = False" by (simp_all add: toy_context_def)
  have start: "demo_world\<lparr>w_repo := toy_start\<rparr> = demo_world" by (simp add: demo_world_def toy_world_def)
  have new: "create_record toy_host toy_root d w = write_record toy_host toy_root d w"
    if "jget d ''operation_id'' = JStr ''op-1''" "w_ledger w = []" for d and w :: "toy_repo world"
    using that by (simp add: create_record_def Let_def mbind_def ledger_file_def)
  show ?thesis
    by (simp add: begin_task_def mbind_def in_repo_def demo_fields toy_head_start start ev sha world new
      write_run [where i = "''op-1''"] sealed_def put_file_def ctx strs j_strs_def sample_record_def)
qed

lemma demo_open: "open_op toy_host toy_root ''op-1'' (sample_record JNull)
    (demo_world\<lparr>w_ticks := Suc (Suc 0), w_ledger := [(''op-1'', Content (JObj (sample_record JNull)))], w_repo := r\<rparr>)"
proof -
  have "safe_id ''op-1''" by code_simp
  then show ?thesis
    by (simp add: open_op_def valid_file_def sample_valid sample_keys ledger_file_def is_terminal_def sample_fields
      demo_world_def toy_world_def)
qed

end
