(* ===== verification/Supervisor_Props.thy ===== *)
theory Supervisor_Props imports Sample_Supervisor begin

text \<open>
  The properties of the supervisor: what a commit rests on, what a refused patch leaves alone, and
  how an operation ends when the applied patch is taken back.
\<close>

section \<open>Results\<close>

lemma returns_lift: "returns (\<lambda>x. v = Inr x) (lift_res v)"
  by (simp add: returns_def lift_res_def)

lemma returns_lift_bind:
  "(\<And>x. v = Inr x \<Longrightarrow> returns Q (k x)) \<Longrightarrow> returns Q (mbind (lift_res v) k)"
  by (rule returns_bind_given [OF returns_lift])

lemma returns_in_repo: "returns Q m \<Longrightarrow> returns Q (in_repo m)"
  by (auto simp: returns_def in_repo_def split: prod.splits)

lemma command_names: "returns (\<lambda>rs. map cr_command rs = cmds) (run_verification_commands h resolve repo t cmds)"
  unfolding run_verification_commands_def
proof (induction cmds)
  case Nil
  show ?case by (simp add: returns_def)
next
  case (Cons c cs)
  have "returns (\<lambda>r. cr_command r = c) (run_verification_command h resolve repo t c)"
    by (auto simp: returns_def run_verification_command_def split: sum.splits prod.splits exec_outcome.splits)
  then show ?case
    unfolding mmap.simps
    by (rule returns_bind_given) (rule returns_bind_given [OF Cons.IH], simp add: returns_ret)
qed

definition evidenced :: "supervisor \<Rightarrow> work_item \<Rightarrow> worker_completion \<Rightarrow> harness_run_result \<Rightarrow> bool" where
  "evidenced sv wi c r \<longleftrightarrow>
     (\<exists>p. wc_patch c = Some p \<and> verify_patch_before_apply (sp_verifier sv) wi p = Inr (hr_pre_apply r)
        \<and> vr_ok (hr_pre_apply r) \<and> wi_acceptance_criteria wi \<noteq> []
        \<and> map cr_command (hr_command_results r) = wi_verification_commands wi
        \<and> list_all command_ok (hr_command_results r) \<and> vr_ok (hr_post_apply r)
        \<and> (case sp_semantic sv of None \<Rightarrow> hr_semantic_verification r = None
           | Some verify \<Rightarrow> \<exists>s. verify wi p (hr_command_results r) = Inr s \<and> semantic_ok s \<and> hr_semantic_verification r = Some s))"

lemma semantic_answer_ok:
  "semantic_answer verify wi p rs = Inr s \<Longrightarrow> semantic_ok s \<Longrightarrow> verify wi p rs = Inr s"
  by (auto simp: semantic_answer_def semantic_ok_def split: sum.splits if_splits)

lemma evidenced_commit [simp]: "evidenced sv wi c (r\<lparr>hr_commit := x\<rparr>) = evidenced sv wi c r"
  by (cases "sp_semantic sv") (simp_all add: evidenced_def)

lemma commit_result:
  assumes "evidenced sv wi c r"
  shows "returns (evidenced sv wi c) (commit_verified h sv repo wi job ctx changed r)"
  unfolding commit_verified_def
  by (rule returns_seq, rule returns_seq, rule returns_bind, rule returns_seq, rule returns_seq, rule returns_ret) (simp add: assms)

abbreviation commits_on_evidence :: "supervisor \<Rightarrow> work_item \<Rightarrow> worker_completion \<Rightarrow> harness_run_result \<Rightarrow> bool" where
  "commits_on_evidence sv wi c r \<equiv> hr_commit r \<noteq> None \<longrightarrow> evidenced sv wi c r"

lemma judge_result:
  assumes p: "wc_patch c = Some p" "verify_patch_before_apply (sp_verifier sv) wi p = Inr pre" "vr_ok pre"
    and rs: "map cr_command results = wi_verification_commands wi"
  shows "returns (commits_on_evidence sv wi c) (judge_applied h sv repo wi job ctx p changed pre results)"
proof -
  let ?post = "verify_after_apply wi (list_all command_ok results) (documentation_paths changed \<noteq> [])"
  have ev: "evidenced sv wi c (no_commit repo wi pre ?post results semantic)"
    if "vr_ok ?post" and "case sp_semantic sv of None \<Rightarrow> semantic = None
      | Some verify \<Rightarrow> \<exists>s. verify wi p results = Inr s \<and> semantic_ok s \<and> semantic = Some s" for semantic
    using that p rs by (cases "sp_semantic sv") (auto simp: evidenced_def no_commit_def post_ok)
  have commit: "returns (commits_on_evidence sv wi c) (commit_verified h sv repo wi job ctx changed r)"
    if "evidenced sv wi c r" for r
    by (rule returns_mono [OF commit_result [OF that]]) simp
  show ?thesis
    unfolding judge_applied_def Let_def
  proof (intro returns_if returns_seq returns_ret)
    assume "\<not> \<not> vr_ok ?post"
    then have ok: "vr_ok ?post" by simp
    show "returns (commits_on_evidence sv wi c) (case sp_semantic sv of
        None \<Rightarrow> commit_verified h sv repo wi job ctx changed (no_commit repo wi pre ?post results None)
      | Some verify \<Rightarrow>
          mbind (lift_res (semantic_answer verify wi p results)) (\<lambda>semantic.
          mseq (sv_event sv ''decision'' ''semantic-verifier'' ''patch.semantic_checked'' (Some ''supervisor'')
            (semantic_trace semantic) (wi_id wi) job)
          (if \<not> semantic_ok semantic then
             mseq (take_back h repo ctx (wp_patch p) ''Semantic verification rejected the applied patch.''
               (''Semantic verifier blocked the applied result: '' @ sv_summary semantic))
             (ret (no_commit repo wi pre ?post results (Some semantic)))
           else commit_verified h sv repo wi job ctx changed (no_commit repo wi pre ?post results (Some semantic)))))"
    proof (cases "sp_semantic sv")
      case None
      then show ?thesis using commit [OF ev [OF ok, of None]] by simp
    next
      case (Some verify)
      show ?thesis unfolding Some option.case
      proof (intro returns_lift_bind returns_seq returns_if returns_ret)
        fix semantic
        assume "semantic_answer verify wi p results = Inr semantic" "\<not> \<not> semantic_ok semantic"
        then show "returns (commits_on_evidence sv wi c)
            (commit_verified h sv repo wi job ctx changed (no_commit repo wi pre ?post results (Some semantic)))"
          using Some semantic_answer_ok by (intro commit ev ok) auto
      qed (simp add: no_commit_def)
    qed
  qed (simp add: no_commit_def)
qed

lemma execute_result: "returns (commits_on_evidence sv wi c) (execute_locked h sv repo wi c ctx)"
proof (cases "wc_patch c")
  case None
  then show ?thesis
    by (simp add: execute_locked_def Let_def) (intro returns_seq returns_ret, simp add: no_commit_def)
next
  case (Some p)
  show ?thesis
    unfolding execute_locked_def Let_def Some option.case apply_accepted_def
  proof (intro returns_seq returns_lift_bind returns_if returns_ret)
    fix changed pre
    assume "verify_patch_before_apply (sp_verifier sv) wi p = Inr pre" "\<not> \<not> vr_ok pre"
    then show "returns (commits_on_evidence sv wi c)
        (mbind (in_repo (run_verification_commands h (resolve_command (mc_running h) (sp_policy sv)) repo ''120.0''
           (wi_verification_commands wi))) (\<lambda>results.
         mseq (record_commands sv wi (wc_job_id c) results)
         (judge_applied h sv repo wi (wc_job_id c) ctx p changed pre results)))"
      using Some
      by (intro returns_bind_given [OF returns_in_repo [OF command_names]] returns_seq judge_result) simp_all
  qed (simp add: no_commit_def)
qed

text \<open>C14: A commit rests on evidence: whenever the supervisor returns a commit, the patch was accepted by the
  gate, every verification command of the work item was run in order and returned 0, the work item states
  acceptance criteria, the semantic verifier (if there is one) passed this patch with these results, and the
  result counts as successful.\<close>

theorem commit_needs_evidence:
  assumes "execute_worker_completion h sv repo wi c ctx w = (Inr r, w')" "hr_commit r \<noteq> None"
  shows "run_ok r \<and> (\<exists>p. wc_patch c = Some p \<and> verify_patch_before_apply (sp_verifier sv) wi p = Inr (hr_pre_apply r)
    \<and> vr_ok (hr_pre_apply r) \<and> wi_acceptance_criteria wi \<noteq> []
    \<and> map cr_command (hr_command_results r) = wi_verification_commands wi
    \<and> (\<forall>verify. sp_semantic sv = Some verify \<longrightarrow> (\<exists>s. verify wi p (hr_command_results r) = Inr s \<and> semantic_ok s)))"
proof -
  have "returns (commits_on_evidence sv wi c) (execute_worker_completion h sv repo wi c ctx)"
    unfolding execute_worker_completion_def with_lease_def by (intro returns_bind returns_seq execute_result)
  then have "evidenced sv wi c r" using assms unfolding returns_def by blast
  then show ?thesis
    using assms(2) unfolding evidenced_def run_ok_def by (cases "sp_semantic sv") auto
qed

theorem commit_needs_evidence_witness:
  "\<exists>r w. execute_worker_completion toy_host demo_supervisor toy_root (demo_item ''make test'') demo_completion None demo_world = (Inr r, w)
     \<and> hr_commit r = Some ''comm'' \<and> run_ok r"
proof -
  let ?wi = "demo_item ''make test''"
  obtain pre where pre: "verify_patch_before_apply default_verifier ?wi demo_patch = Inr pre" "vr_ok pre"
    using demo_pre by blast
  obtain r2 where c: "commit_staged toy_host toy_root (commit_message ?wi None) (demo_applied\<lparr>ty_staged := True\<rparr>) = (Inr (Some ''comm''), r2)"
    using demo_commit [of "''make test''"] by (metis prod.collapse)
  have "\<exists>r w. execute_worker_completion toy_host demo_supervisor toy_root ?wi demo_completion None demo_world = (Inr r, w) \<and> hr_commit r = Some ''comm''"
    by (simp add: execute_worker_completion_def with_lease_def mbind_def mseq_def empty_reconciled demo_fields execute_locked_def
      demo_files pre demo_quiet apply_accepted_def with_operation_def in_repo_def demo_apply demo_commands demo_criteria demo_quiet_commands
      judge_applied_def demo_post command_ok_def commit_verified_def demo_stage c)
  then show ?thesis using commit_needs_evidence by blast
qed
section \<open>Refused patches\<close>

text \<open>The repository and the ledger stay as they are.\<close>

definition untouched :: "'r world \<Rightarrow> 'r world \<Rightarrow> bool" where
  "untouched w w' \<longleftrightarrow> w_repo w' = w_repo w \<and> w_ledger w' = w_ledger w"

interpretation untouched: effect untouched
  by unfold_locales (simp_all add: untouched_def)

lemma untouched_store: "within untouched (on_store root m)"
  by (auto simp: within_def untouched_def on_store_def split: prod.splits)

lemma untouched_record: "within untouched (sv_record sv a)"
  unfolding sv_record_def by (intro untouched.within_intros untouched_store)

lemma untouched_event: "within untouched (sv_event sv ty actor action recipient content task job)"
  unfolding sv_event_def by (rule untouched_record)

lemma untouched_notice: "within untouched (notify_user_action_required m)"
  by (simp add: within_def untouched_def notify_user_action_required_def)

definition refused_by :: "supervisor \<Rightarrow> work_item \<Rightarrow> worker_completion \<Rightarrow> bool" where
  "refused_by sv wi c \<longleftrightarrow> (case wc_patch c of None \<Rightarrow> True
     | Some p \<Rightarrow> (case verify_patch_before_apply (sp_verifier sv) wi p of Inl e \<Rightarrow> True | Inr pre \<Rightarrow> \<not> vr_ok pre))"

lemma refused_locked:
  assumes "refused_by sv wi c"
  shows "within untouched (execute_locked h sv repo wi c ctx)"
proof (cases "wc_patch c")
  case None
  then show ?thesis
    by (simp add: execute_locked_def Let_def) (intro untouched.within_intros untouched_notice)
next
  case (Some p)
  show ?thesis
    unfolding execute_locked_def Let_def Some option.case
  proof (intro untouched.within_seq untouched.within_lift_bind untouched.within_if untouched_event untouched_notice
      untouched.within_ret)
    fix changed pre
    assume "verify_patch_before_apply (sp_verifier sv) wi p = Inr pre" "\<not> \<not> vr_ok pre"
    then show "within untouched (apply_accepted h sv repo wi (wc_job_id c) ctx p changed pre)"
      using assms Some by (simp add: refused_by_def)
  qed
qed

text \<open>C15: A completion without a patch, or whose patch the gate does not accept or cannot read, changes nothing: the
  repository and the ledger are what the reconciliation at the start of the call left, also when the journal
  or the notification fails half way, and no commit is returned.\<close>

theorem refused_patch_untouched:
  assumes "refused_by sv wi c" "w_lock w = None" "assert_no_blocking h repo w = (Inr (), w1)"
    "execute_worker_completion h sv repo wi c ctx w = (x, w')"
  shows "w_repo w' = w_repo w1 \<and> w_ledger w' = w_ledger w1 \<and> (\<forall>r. x = Inr r \<longrightarrow> hr_commit r = None)"
proof -
  have run: "execute_locked h sv repo wi c ctx w1 = (x, w')"
    using assms by (simp add: execute_worker_completion_def with_lease_def mseq_def mbind_def)
  have "untouched w1 w'" by (rule withinD [OF refused_locked [OF assms(1)] run])
  moreover have "hr_commit r = None" if "x = Inr r" for r
  proof -
    have "\<not> evidenced sv wi c r" using assms(1) by (auto simp: evidenced_def refused_by_def)
    then show ?thesis using execute_result [of sv wi c h repo ctx] run that unfolding returns_def by blast
  qed
  ultimately show ?thesis by (simp add: untouched_def)
qed

theorem refused_patch_untouched_witness:
  "\<exists>r w. execute_worker_completion toy_host demo_supervisor toy_root ((demo_item ''make test'')\<lparr>wi_allowed_paths := [''src'']\<rparr>)
       demo_completion None demo_world = (Inr r, w) \<and> w_repo w = toy_start \<and> hr_commit r = None"
proof -
  let ?wi = "(demo_item ''make test'')\<lparr>wi_allowed_paths := [''src'']\<rparr>"
  have "rbind (verify_patch_before_apply default_verifier ?wi demo_patch) (\<lambda>r. Inr (vr_ok r)) = Inr False" by code_simp
  then obtain pre where pre: "verify_patch_before_apply default_verifier ?wi demo_patch = Inr pre" "\<not> vr_ok pre"
    by (auto simp: rbind_Inr_iff)
  have run: "\<exists>r w. execute_worker_completion toy_host demo_supervisor toy_root ?wi demo_completion None demo_world = (Inr r, w)"
    by (simp add: execute_worker_completion_def with_lease_def mbind_def mseq_def empty_reconciled demo_fields execute_locked_def
      demo_files pre demo_quiet notify_user_action_required_def Let_def)
  have "refused_by demo_supervisor ?wi demo_completion" using pre by (simp add: refused_by_def demo_fields)
  with run show ?thesis using refused_patch_untouched [OF _ demo_fields(2) empty_reconciled] demo_fields(1) by metis
qed

section \<open>Patches taken back\<close>

definition reverted :: "string \<Rightarrow> 'r world \<Rightarrow> bool" where
  "reverted i w \<longleftrightarrow> safe_id i \<and> (\<exists>d. ledger_file i w = Content (JObj d) \<and> jget d ''terminal_outcome'' = JStr ''reverted'')"

lemma terminal_safe: "ledger_terminal h repo i out detail w = (Inr d, w') \<Longrightarrow> safe_id i"
  unfolding ledger_terminal_def mseq_Inr_iff mbind_Inr_iff by (auto simp: load_current split: sum.splits)

lemma take_back_reverts:
  assumes "take_back h repo (Some c) patch reason notice w = (Inr u, w')"
  shows "reverted (oc_operation_id c) w'"
proof -
  obtain w1 d w2 where "ledger_terminal h repo (oc_operation_id c) ''reverted'' (Some reason) w1 = (Inr d, w2)"
      "notify_user_action_required notice w2 = (Inr u, w')"
    using assms unfolding take_back_def with_operation_def option.case mseq_Inr_iff ret_def by (metis prod.inject)
  then show ?thesis
    using terminal_ends terminal_safe by (fastforce simp: reverted_def notify_user_action_required_def ledger_file_def)
qed

definition passes :: "harness_run_result \<Rightarrow> bool" where
  "passes r \<longleftrightarrow> vr_ok (hr_post_apply r) \<and> (case hr_semantic_verification r of None \<Rightarrow> True | Some s \<Rightarrow> semantic_ok s)"

text \<open>When the operation returns a result that does not pass, the record of the operation is ended.\<close>

definition reverts :: "string \<Rightarrow> (harness_run_result \<Rightarrow> bool) \<Rightarrow> ('r, harness_run_result) world_op \<Rightarrow> bool" where
  "reverts i Q m \<longleftrightarrow> (\<forall>s r s'. m s = (Inr r, s') \<longrightarrow> Q r \<longrightarrow> reverted i s')"

lemma reverts_bind: "(\<And>x. v = Inr x \<Longrightarrow> reverts i Q (k x)) \<Longrightarrow> reverts i Q (mbind (lift_res v) k)"
  by (cases v) (simp_all add: reverts_def)

lemma reverts_then: "(\<And>x. reverts i Q (k x)) \<Longrightarrow> reverts i Q (mbind m k)"
  unfolding reverts_def mbind_Inr_iff by blast

lemma reverts_seq: "reverts i Q k \<Longrightarrow> reverts i Q (mseq m k)"
  unfolding reverts_def mseq_Inr_iff by blast

lemma reverts_never: "returns (\<lambda>r. \<not> Q r) m \<Longrightarrow> reverts i Q m"
  unfolding reverts_def returns_def by blast

lemma reverts_take_back: "reverts (oc_operation_id c) Q (mseq (take_back h repo (Some c) patch reason notice) (ret r))"
  unfolding reverts_def mseq_Inr_iff ret_def using take_back_reverts by (metis prod.inject)

lemma commit_passes: "passes r \<Longrightarrow> returns passes (commit_verified h sv repo wi job ctx changed r)"
  unfolding commit_verified_def
  by (rule returns_seq, rule returns_seq, rule returns_bind, rule returns_seq, rule returns_seq, rule returns_ret)
     (simp add: passes_def)

lemma passes_no_commit: "passes (no_commit repo wi pre post results semantic) \<longleftrightarrow>
    vr_ok post \<and> (case semantic of None \<Rightarrow> True | Some s \<Rightarrow> semantic_ok s)"
  by (simp add: passes_def no_commit_def)

lemma reverts_if: "(b \<Longrightarrow> reverts i Q m) \<Longrightarrow> (\<not> b \<Longrightarrow> reverts i Q k) \<Longrightarrow> reverts i Q (if b then m else k)"
  by simp

lemma commit_reverts: "passes r \<Longrightarrow> reverts i (\<lambda>r. \<not> passes r) (commit_verified h sv repo wi job ctx changed r)"
  by (rule reverts_never) (simp add: commit_passes)

lemma judge_reverts:
  "reverts (oc_operation_id c) (\<lambda>r. \<not> passes r) (judge_applied h sv repo wi job (Some c) p changed pre results)"
proof (cases "sp_semantic sv")
  case None
  show ?thesis unfolding judge_applied_def Let_def None option.case
    by (intro reverts_if reverts_take_back commit_reverts) (simp add: passes_no_commit)
next
  case (Some verify)
  show ?thesis unfolding judge_applied_def Let_def Some option.case
    by (intro reverts_if reverts_take_back reverts_bind reverts_seq commit_reverts) (simp add: passes_no_commit)
qed

lemma apply_reverts:
  "reverts (oc_operation_id ctx) (\<lambda>r. \<not> passes r) (apply_accepted h sv repo wi job (Some ctx) p changed pre)"
  unfolding apply_accepted_def by (intro reverts_seq reverts_then judge_reverts)

lemma reverts_mono: "reverts i Q m \<Longrightarrow> (\<And>r. P r \<Longrightarrow> Q r) \<Longrightarrow> reverts i P m"
  unfolding reverts_def by blast

abbreviation rejected_after_apply :: "harness_run_result \<Rightarrow> bool" where
  "rejected_after_apply r \<equiv> vr_ok (hr_pre_apply r) \<and> \<not> passes r"

lemma execute_reverts: "reverts (oc_operation_id ctx) rejected_after_apply (execute_locked h sv repo wi c (Some ctx))"
proof (cases "wc_patch c")
  case None
  have "\<not> vr_ok (verify_after_apply wi False d)" for d by (simp add: post_ok)
  then show ?thesis
    unfolding execute_locked_def Let_def None option.case
    by (intro reverts_seq reverts_never returns_ret) (simp add: no_commit_def)
next
  case (Some p)
  have "reverts (oc_operation_id ctx) rejected_after_apply (ret (no_commit repo wi pre post results semantic))"
    if "\<not> vr_ok pre" for pre post results semantic
    by (rule reverts_never, rule returns_ret) (use that in \<open>simp add: no_commit_def\<close>)
  then show ?thesis
    unfolding execute_locked_def Let_def Some option.case
    by (intro reverts_seq reverts_bind reverts_if reverts_mono [OF apply_reverts]) simp_all
qed

lemma execute_takes_back:
  assumes "execute_worker_completion h sv repo wi c (Some ctx) w = (Inr r, w')" "rejected_after_apply r"
  shows "reverted (oc_operation_id ctx) w'"
proof -
  have "reverts (oc_operation_id ctx) rejected_after_apply (execute_worker_completion h sv repo wi c (Some ctx))"
    unfolding execute_worker_completion_def with_lease_def by (intro reverts_then reverts_seq execute_reverts)
  then show ?thesis using assms unfolding reverts_def by blast
qed

lemma demo_rejected:
  "\<exists>r w. execute_worker_completion toy_host demo_supervisor toy_root (demo_item ''false'') demo_completion (Some toy_context) demo_world
       = (Inr r, w) \<and> vr_ok (hr_pre_apply r) \<and> \<not> vr_ok (hr_post_apply r)"
proof -
  let ?wi = "demo_item ''false''"
  obtain pre where pre: "verify_patch_before_apply default_verifier ?wi demo_patch = Inr pre" "vr_ok pre"
    using demo_pre by blast
  let ?w = "\<lambda>r. demo_world\<lparr>w_ticks := Suc (Suc 0), w_ledger := [(''op-1'', Content (JObj (sample_record JNull)))], w_repo := r\<rparr>"
  have id: "oc_operation_id toy_context = ''op-1''" "wi_id ?wi = ''t1''" by (simp_all add: toy_context_def demo_item_def)
  obtain d1 w1 where ph: "ledger_phase toy_host toy_root ''op-1'' ''patch_applied'' [] (?w demo_applied) = (Inr d1, w1)"
      "open_op toy_host toy_root ''op-1'' d1 w1" "w_repo w1 = demo_applied"
    using phase_run [OF demo_open free_Nil] by (fastforce simp: same_rest_def)
  have "open_op toy_host toy_root ''op-1'' d1 (w1\<lparr>w_repo := toy_start\<rparr>)"
    using ph(2) by (simp add: open_op_def ledger_file_def)
  then obtain d2 w2 where t: "ledger_terminal toy_host toy_root ''op-1'' ''reverted''
        (Some ''Deterministic verification rejected the applied patch.'') (w1\<lparr>w_repo := toy_start\<rparr>) = (Inr d2, w2)"
    using terminal_run [where outcome = "''reverted''"] by (fastforce simp: terminal_outcomes_def)
  have undone: "revert_patch toy_host toy_root (wp_patch demo_patch) demo_applied = (Inr (), toy_start)" by code_simp
  let ?post = "verify_after_apply ?wi False True"
  let ?rs = "[\<lparr>cr_command = ''false'', cr_return_code = 1, cr_stdout = [], cr_stderr = ''fatal''\<rparr>]"
  have doc: "documentation_paths [''HARNESS_DEMO.md''] \<noteq> []" by code_simp
  obtain w3 where j: "judge_applied toy_host demo_supervisor toy_root ?wi job (Some toy_context) demo_patch [''HARNESS_DEMO.md''] pre ?rs w1
      = (Inr (no_commit toy_root ?wi pre ?post ?rs None), w3)" for job
    by (simp add: judge_applied_def demo_post doc command_ok_def take_back_def with_operation_def mseq_def mbind_def in_repo_def
      ph(3) undone id t notify_user_action_required_def Let_def)
  have "\<exists>w. execute_worker_completion toy_host demo_supervisor toy_root ?wi demo_completion (Some toy_context) demo_world
      = (Inr (no_commit toy_root ?wi pre ?post ?rs None), w)"
    by (simp add: execute_worker_completion_def with_lease_def mbind_def mseq_def empty_reconciled demo_fields execute_locked_def
        demo_files pre demo_quiet apply_accepted_def with_operation_def in_repo_def id demo_begin demo_apply ph demo_failing demo_criteria
        demo_quiet_commands j)
  moreover have "vr_ok (hr_pre_apply (no_commit toy_root ?wi pre ?post results None))"
      "\<not> vr_ok (hr_post_apply (no_commit toy_root ?wi pre ?post results None))" for results
    using pre(2) by (simp_all add: no_commit_def demo_post)
  ultimately show ?thesis by blast
qed



end
