(* ===== verification/Wire_Formats.thy ===== *)
theory Wire_Formats imports Scheduler State_Codec Json_Text begin

text \<open>
  The payloads of the machine-facing protocol (\<open>src/llm_harness/protocol.py\<close>): the envelope, one
  encoder per record, and the two texts of a payload (the canonical bytes that are hashed, and the
  indented text of a file).  Bytes are characters below 256.
\<close>

section \<open>Envelope and text\<close>

definition protocol_version :: string where
  "protocol_version = ''1.0''"

definition protocol_namespace :: string where
  "protocol_namespace = ''hoh.protocol''"

definition protocol_envelope :: "string \<Rightarrow> string \<Rightarrow> bool \<Rightarrow> jobj option \<Rightarrow> string option \<Rightarrow> jobj" where
  "protocol_envelope now message_type ok data err =
     [(''protocol'', JStr protocol_namespace), (''protocol_version'', JStr protocol_version),
      (''message_type'', JStr message_type), (''ok'', JBool ok), (''generated_at_utc'', JStr now),
      (''data'', JObj (case data of None \<Rightarrow> [] | Some d \<Rightarrow> d))]
     @ (case err of None \<Rightarrow> [] | Some e \<Rightarrow> [(''error'', JStr e)])"

definition canonical_json_text :: "json \<Rightarrow> string" where
  "canonical_json_text j = dumps '','' '':'' (sort_keys j)"

text \<open>\<open>json.dumps(..., indent=2)\<close>: a list or object that is not empty takes a line per element.\<close>

definition indent_of :: "nat \<Rightarrow> string" where
  "indent_of n = CHR 0x0A # replicate (2 * n) CHR '' ''"

fun dumps_indented :: "nat \<Rightarrow> json \<Rightarrow> string" where
  "dumps_indented n (JList xs) =
     (if xs = [] then ''[]''
      else ''['' @ indent_of (Suc n) @ join ('','' @ indent_of (Suc n)) (map (dumps_indented (Suc n)) xs) @ indent_of n @ '']'')"
| "dumps_indented n (JObj kvs) =
     (if kvs = [] then ''{}''
      else ''{'' @ indent_of (Suc n)
        @ join ('','' @ indent_of (Suc n)) (map (\<lambda>(k, v). dumps_str k @ '': '' @ dumps_indented (Suc n) v) kvs)
        @ indent_of n @ ''}'')"
| "dumps_indented n j = dumps '','' '':'' j"

definition dump_json :: "json \<Rightarrow> string" where
  "dump_json j = dumps_indented 0 (sort_keys j) @ [CHR 0x0A]"

section \<open>Payloads\<close>

definition work_item_payload :: "work_item \<Rightarrow> json" where
  "work_item_payload w = JObj
     [(''id'', JStr (wi_id w)), (''title'', JStr (wi_title w)), (''objective'', JStr (wi_objective w)),
      (''acceptance_criteria'', j_strs (wi_acceptance_criteria w)),
      (''verification_commands'', j_strs (wi_verification_commands w)),
      (''allowed_paths'', j_strs (wi_allowed_paths w)), (''non_goals'', j_strs (wi_non_goals w)),
      (''depends_on'', j_strs (wi_depends_on w)), (''priority'', JInt (wi_priority w))]"

definition command_result_payload :: "command_result \<Rightarrow> json" where
  "command_result_payload r = JObj
     [(''command'', JStr (cr_command r)), (''return_code'', JInt (cr_return_code r)), (''ok'', JBool (command_ok r)),
      (''stdout'', JStr (cr_stdout r)), (''stderr'', JStr (cr_stderr r))]"

definition verification_report_payload :: "verification_report \<Rightarrow> json" where
  "verification_report_payload r = JObj
     [(''ok'', JBool (vr_ok r)), (''findings'', j_strs (vr_findings r)), (''metrics'', JObj (vr_metrics r))]"

definition semantic_verification_payload :: "semantic_report option \<Rightarrow> json" where
  "semantic_verification_payload r = (case r of
     None \<Rightarrow> JNull
   | Some s \<Rightarrow> JObj
       [(''decision'', JStr (sv_decision s)), (''ok'', JBool (semantic_ok s)), (''summary'', JStr (sv_summary s)),
        (''findings'', j_strs (sv_findings s)),
        (''evidence'', (case sv_evidence s of None \<Rightarrow> JNull | Some e \<Rightarrow> evidence_to_json e))])"

definition harness_run_result_payload :: "harness_run_result \<Rightarrow> json" where
  "harness_run_result_payload r = JObj
     [(''repository'', JStr (hr_repository r)), (''work_item_id'', JStr (hr_work_item_id r)), (''ok'', JBool (run_ok r)),
      (''commit'', j_opt_str (hr_commit r)), (''pre_apply'', verification_report_payload (hr_pre_apply r)),
      (''post_apply'', verification_report_payload (hr_post_apply r)),
      (''command_results'', JList (map command_result_payload (hr_command_results r))),
      (''semantic_verification'', semantic_verification_payload (hr_semantic_verification r))]"

definition queue_task_payload :: "queue_task \<Rightarrow> json" where
  "queue_task_payload t = JObj
     [(''work_item'', work_item_payload (qt_work_item t)), (''status'', JStr (status_str (qt_status t))),
      (''source'', JStr (qt_source t)), (''added_at_utc'', JStr (qt_added_at_utc t)),
      (''updated_at_utc'', JStr (qt_updated_at_utc t)), (''attempts'', JInt (qt_attempts t)),
      (''last_commit'', j_opt_str (qt_last_commit t)), (''last_error'', j_opt_str (qt_last_error t)),
      (''pending_review_bundle_id'', j_opt_str (qt_pending_review_bundle_id t)),
      (''last_review_decision_id'', j_opt_str (qt_last_review_decision_id t)),
      (''correction_context'', JObj
        [(''decision_id'', j_opt_str (wi_correction_decision_id (qt_work_item t))),
         (''instructions'', j_strs (wi_correction_instructions (qt_work_item t)))])]"

definition task_readiness_payload :: "task_readiness \<Rightarrow> json" where
  "task_readiness_payload r = JObj
     [(''task_id'', JStr (task_id (tr_task r))), (''ready'', JBool (tr_ready r)),
      (''priority'', JInt (wi_priority (qt_work_item (tr_task r)))),
      (''depends_on'', j_strs (wi_depends_on (qt_work_item (tr_task r)))),
      (''blockers'', JList (map (\<lambda>b. JObj [(''task_id'', JStr (blk_task_id b)), (''status'', JStr (blk_status b))]) (tr_blockers r)))]"

definition queue_schedule_payload :: "queue_schedule \<Rightarrow> json" where
  "queue_schedule_payload s = JObj
     [(''selected_task_id'', j_opt_str (map_option task_id (qs_selected s))),
      (''ready'', JList (map task_readiness_payload (qs_ready s))),
      (''waiting'', JList (map task_readiness_payload (qs_waiting s)))]"

definition run_record_payload :: "run_record \<Rightarrow> json" where
  "run_record_payload r = JObj
     [(''run_id'', JStr (rr_run_id r)), (''work_item_id'', JStr (rr_work_item_id r)),
      (''started_at_utc'', JStr (rr_started_at_utc r)), (''finished_at_utc'', JStr (rr_finished_at_utc r)),
      (''ok'', JBool (rr_ok r)), (''commit'', j_opt_str (rr_commit r)), (''error'', j_opt_str (rr_error r)),
      (''pre_apply_findings'', j_strs (rr_pre_apply_findings r)),
      (''post_apply_findings'', j_strs (rr_post_apply_findings r)),
      (''command_results'', JList (map command_result_payload (rr_command_results r))),
      (''semantic_verification'', semantic_verification_payload (rr_semantic_verification r))]"

definition rollback_record_payload :: "rollback_record \<Rightarrow> json" where
  "rollback_record_payload r = JObj
     [(''rollback_id'', JStr (rb_rollback_id r)), (''created_at_utc'', JStr (rb_created_at_utc r)),
      (''work_item_id'', JStr (rb_work_item_id r)), (''run_id'', JStr (rb_run_id r)),
      (''target_commit'', JStr (rb_target_commit r)), (''rollback_commit'', j_opt_str (rb_rollback_commit r)),
      (''reason'', JStr (rb_reason r)), (''ok'', JBool (rb_ok r)), (''changed_files'', j_strs (rb_changed_files r)),
      (''command_results'', JList (map command_result_payload (rb_command_results r))), (''error'', j_opt_str (rb_error r))]"

definition audit_record_payload :: "audit_record \<Rightarrow> json" where
  "audit_record_payload r = JObj
     [(''audit_id'', JStr (ar_audit_id r)), (''created_at_utc'', JStr (ar_created_at_utc r)), (''ok'', JBool (ar_ok r)),
      (''report_path'', JStr (path_str (ar_report_path r))), (''findings_count'', JInt (ar_findings_count r)),
      (''command_results_count'', JInt (ar_command_results_count r))]"

definition operator_event_payload :: "operator_event \<Rightarrow> json" where
  "operator_event_payload e = JObj
     [(''event_id'', JStr (oe_event_id e)), (''created_at_utc'', JStr (oe_created_at_utc e)),
      (''command'', JStr (oe_command e)), (''ok'', JBool (oe_ok e)), (''message'', JStr (oe_message e)),
      (''raw_text'', JStr (oe_raw_text e)), (''task_id'', j_opt_str (oe_task_id e))]"

definition review_decision_record_payload :: "review_decision_record \<Rightarrow> json" where
  "review_decision_record_payload r = JObj
     [(''decision_id'', JStr (rd_decision_id r)), (''bundle_id'', JStr (rd_bundle_id r)),
      (''bundle_sha256'', JStr (rd_bundle_sha256 r)), (''run_id'', JStr (rd_run_id r)),
      (''work_item_id'', JStr (rd_work_item_id r)), (''commit'', JStr (rd_commit r)),
      (''reviewer'', JObj [(''id'', JStr (rd_reviewer_id r)), (''kind'', JStr (rd_reviewer_kind r))]),
      (''decision'', JStr (rd_decision r)), (''summary'', JStr (rd_summary r)),
      (''findings'', JList (map finding_to_json (rd_findings r))),
      (''created_at_utc'', JStr (rd_created_at_utc r)), (''imported_at_utc'', JStr (rd_imported_at_utc r)),
      (''protocol_version'', JStr (rd_protocol_version r)),
      (''correction_brief'', correction_to_json (rd_correction_brief r)),
      (''escalation'', escalation_to_json (rd_escalation r))]"

end
