(* ===== verification/Review_Protocol.thy ===== *)
theory Review_Protocol imports World Wire_Formats Ledger_Record begin

text \<open>
  Review bundles and decisions (\<open>src/llm_harness/review_protocol.py\<close>): the closed wire formats and
  their checks, exporting the evidence of a run as a bundle, and importing the decision of a verifier
  or of the critic.  A validated decision is a copy of the payload, so validation returns nothing here.
\<close>

section \<open>Roles\<close>

record role_identity =
  rl_identity :: string
  rl_provider :: string
  rl_model :: string

record three_head_config =
  th_mode :: string
  th_max_attempts :: int
  th_logic :: role_identity
  th_worker :: role_identity
  th_critic :: role_identity

definition th_required :: "three_head_config \<Rightarrow> bool" where
  "th_required t \<longleftrightarrow> th_mode t = ''required''"

definition three_head_protocol_version :: string where
  "three_head_protocol_version = ''2.0''"

section \<open>Checks\<close>

definition rp_error :: "string \<Rightarrow> exn" where
  "rp_error m = ReviewProtocolError m"

definition rp_check :: "bool \<Rightarrow> string \<Rightarrow> unit res" where
  "rp_check b m = check b (ReviewProtocolError m)"

definition require_exact_keys :: "jobj \<Rightarrow> string list \<Rightarrow> string \<Rightarrow> unit res" where
  "require_exact_keys d keys label =
     (let missing = sort (filter (\<lambda>k. k \<notin> fst ` set d) keys);
          unknown = sort (filter (\<lambda>k. k \<notin> set keys) (map fst d))
      in rbind (rp_check (missing = []) (label @ '' is missing fields: '' @ join '', '' missing)) (\<lambda>_.
         rp_check (unknown = []) (label @ '' contains unknown fields: '' @ join '', '' unknown)))"

definition require_object :: "json \<Rightarrow> string \<Rightarrow> jobj res" where
  "require_object v label = (case v of JObj d \<Rightarrow> Inr d | _ \<Rightarrow> Inl (ReviewProtocolError (label @ '' must be an object.'')))"

definition is_id_start :: "char \<Rightarrow> bool" where
  "is_id_start c \<longleftrightarrow> is_ascii_digit c \<or> is_ascii_upper c \<or> is_ascii_lower c"

definition safe_review_id :: "string \<Rightarrow> bool" where
  "safe_review_id s \<longleftrightarrow> (case s of [] \<Rightarrow> False
     | c # cs \<Rightarrow> is_id_start c \<and> length cs \<le> 127 \<and> list_all (\<lambda>c. is_id_start c \<or> c \<in> set ''._:-'') cs)"

definition require_safe_id :: "json \<Rightarrow> string \<Rightarrow> unit res" where
  "require_safe_id v label =
     rp_check (case v of JStr s \<Rightarrow> safe_review_id s | _ \<Rightarrow> False)
       (label @ '' must be a safe non-empty identifier up to 128 characters.'')"

text \<open>\<open>value.replace("Z", "+00:00")\<close>\<close>

definition expand_z :: "string \<Rightarrow> string" where
  "expand_z s = concat (map (\<lambda>c. if c = CHR ''Z'' then ''+00:00'' else [c]) s)"

definition require_timestamp :: "('r, 'x) host_scheme \<Rightarrow> json \<Rightarrow> string \<Rightarrow> unit res" where
  "require_timestamp h v label = (case v of
     JStr s \<Rightarrow> (case mc_iso h (expand_z s) of
        None \<Rightarrow> Inl (ReviewProtocolError (label @ '' must be an ISO-8601 timestamp.''))
      | Some aware \<Rightarrow> rp_check aware (label @ '' must include a timezone offset.''))
   | _ \<Rightarrow> Inl (ReviewProtocolError (label @ '' must be an ISO-8601 timestamp.'')))"

definition is_text :: "json \<Rightarrow> bool" where
  "is_text v = (case v of JStr s \<Rightarrow> strip s \<noteq> [] | _ \<Rightarrow> False)"

text \<open>\<open>value not in {...}\<close> raises for a value that cannot be hashed.\<close>

definition one_of :: "json \<Rightarrow> string list \<Rightarrow> bool res" where
  "one_of v xs = (if is_hashable v then Inr (v \<in> set (map JStr xs)) else Inl TypeError)"

definition require_protocol_version :: "jobj \<Rightarrow> string \<Rightarrow> string \<Rightarrow> unit res" where
  "require_protocol_version d version message_type =
     rbind (rp_check (jget d ''protocol'' = JStr protocol_namespace) (''protocol must be '' @ protocol_namespace @ ''.'')) (\<lambda>_.
     rbind (rp_check (jget d ''protocol_version'' = JStr version) (''protocol_version must be '' @ version @ ''.'')) (\<lambda>_.
     rp_check (jget d ''message_type'' = JStr message_type) (''message_type must be '' @ message_type @ ''.'')))"

definition require_protocol :: "jobj \<Rightarrow> string \<Rightarrow> unit res" where
  "require_protocol d message_type = require_protocol_version d protocol_version message_type"

definition is_strict :: "jobj \<Rightarrow> bool" where
  "is_strict d \<longleftrightarrow> jget d ''protocol_version'' = JStr three_head_protocol_version"

section \<open>The manifest of the three heads\<close>

text \<open>\<open>isinstance(v, int)\<close> holds for booleans too.\<close>

definition positive_int :: "json \<Rightarrow> bool" where
  "positive_int v = (case v of JInt i \<Rightarrow> 1 \<le> i | JBool b \<Rightarrow> b | _ \<Rightarrow> False)"

definition folded :: "json \<Rightarrow> string" where
  "folded v = (case v of JStr s \<Rightarrow> casefold (strip s) | _ \<Rightarrow> [])"

fun check_role_fields :: "jobj \<Rightarrow> string \<Rightarrow> string list \<Rightarrow> unit res" where
  "check_role_fields role name [] = Inr ()"
| "check_role_fields role name (f # fs) =
     rbind (rp_check (is_text (jget role f)) (''three_head.roles.'' @ name @ ''.'' @ f @ '' must be non-empty.''))
       (\<lambda>_. check_role_fields role name fs)"

definition check_role :: "jobj \<Rightarrow> string \<Rightarrow> (string \<times> string \<times> string) res" where
  "check_role roles name =
     rbind (rbind (jitem roles name) (\<lambda>v. require_object v (''three_head.roles.'' @ name))) (\<lambda>role.
     rbind (require_exact_keys role [''identity'', ''provider'', ''model''] (''three_head.roles.'' @ name)) (\<lambda>_.
     rbind (check_role_fields role name [''identity'', ''provider'', ''model'']) (\<lambda>_.
     Inr (folded (jget role ''identity''), folded (jget role ''provider''), folded (jget role ''model'')))))"

definition text_list :: "json \<Rightarrow> bool" where
  "text_list v = (case v of JList xs \<Rightarrow> list_all is_text xs | _ \<Rightarrow> False)"

definition validate_three_head_manifest :: "json \<Rightarrow> unit res" where
  "validate_three_head_manifest v =
     rbind (require_object v ''three_head'') (\<lambda>m.
     rbind (require_exact_keys m [''mode'', ''attempt'', ''max_attempts'', ''roles'', ''correction_context'', ''closure_policy''] ''three_head'') (\<lambda>_.
     rbind (rp_check (jget m ''mode'' = JStr ''required'') ''Three-head bundle mode must be required.'') (\<lambda>_.
     rbind (rp_check (positive_int (jget m ''attempt'')) ''Three-head attempt must be a positive integer.'') (\<lambda>_.
     rbind (rp_check (positive_int (jget m ''max_attempts'')) ''Three-head max_attempts must be a positive integer.'') (\<lambda>_.
     rbind (require_object (jget m ''roles'') ''three_head.roles'') (\<lambda>roles.
     rbind (require_exact_keys roles [''logic'', ''worker'', ''critic''] ''three_head.roles'') (\<lambda>_.
     rbind (mapE (check_role roles) [''logic'', ''worker'', ''critic'']) (\<lambda>rs.
     rbind (rp_check (distinct (map fst rs) \<and> distinct (map snd rs))
       ''Three-head bundle must contain three distinct role identities and models.'') (\<lambda>_.
     rbind (require_object (jget m ''correction_context'') ''three_head.correction_context'') (\<lambda>correction.
     rbind (require_exact_keys correction [''decision_id'', ''instructions''] ''three_head.correction_context'') (\<lambda>_.
     rbind (if jget correction ''decision_id'' = JNull then Inr ()
            else require_safe_id (jget correction ''decision_id'') ''three_head.correction_context.decision_id'') (\<lambda>_.
     rbind (rp_check (text_list (jget correction ''instructions''))
       ''three_head.correction_context.instructions must be non-empty strings.'') (\<lambda>_.
     rbind (require_object (jget m ''closure_policy'') ''three_head.closure_policy'') (\<lambda>closure.
     rbind (require_exact_keys closure [''critic_approval_required'', ''supervisor_owns_git'', ''supervisor_confirms_rework'']
       ''three_head.closure_policy'') (\<lambda>_.
     rp_check (list_all (\<lambda>(k, v). v = JBool True) closure)
       ''Three-head closure policy invariants must all be true.'')))))))))))))))"

section \<open>The bundle\<close>

definition payload_sha256 :: "('r, 'x) host_scheme \<Rightarrow> jobj \<Rightarrow> string" where
  "payload_sha256 h d = mc_sha256 h (encode_utf8 (canonical_json_text (JObj d)))"

definition bundle_keys :: "string list" where
  "bundle_keys = [''protocol'', ''protocol_version'', ''message_type'', ''bundle_id'', ''created_at_utc'', ''repository'',
     ''task'', ''scope'', ''artifact'', ''verification'', ''authority'', ''integrity'']"

definition denied_authority :: "string list" where
  "denied_authority = [''worker_commit_allowed'', ''worker_merge_allowed'', ''verifier_commit_allowed'', ''verifier_merge_allowed'']"

definition validate_review_bundle :: "('r, 'x) host_scheme \<Rightarrow> jobj \<Rightarrow> unit res" where
  "validate_review_bundle h d =
     rbind (require_exact_keys d (bundle_keys @ (if is_strict d then [''three_head''] else [])) ''Review bundle'') (\<lambda>_.
     rbind (if is_strict d
       then rbind (require_protocol_version d three_head_protocol_version ''critic.review_bundle'') (\<lambda>_.
            validate_three_head_manifest (jget d ''three_head''))
       else require_protocol d ''verifier.review_bundle'') (\<lambda>_.
     rbind (require_safe_id (jget d ''bundle_id'') ''bundle_id'') (\<lambda>_.
     rbind (require_timestamp h (jget d ''created_at_utc'') ''created_at_utc'') (\<lambda>_.
     rbind (require_object (jget d ''integrity'') ''integrity'') (\<lambda>integrity.
     rbind (require_exact_keys integrity [''algorithm'', ''payload_sha256''] ''integrity'') (\<lambda>_.
     rbind (rp_check (jget integrity ''algorithm'' = JStr ''sha256'' \<and> is_hex_digest (jget integrity ''payload_sha256''))
       ''Review bundle integrity must contain a lowercase SHA-256 digest.'') (\<lambda>_.
     rbind (rp_check (JStr (payload_sha256 h (jdel d ''integrity'')) = jget integrity ''payload_sha256'')
       ''Review bundle integrity digest does not match its payload.'') (\<lambda>_.
     rbind (require_object (jget d ''artifact'') ''artifact'') (\<lambda>artifact.
     rbind (rp_check (is_hex_digest (jget artifact ''patch_sha256''))
       ''Review bundle artifact.patch_sha256 must be a lowercase SHA-256 digest.'') (\<lambda>_.
     rbind (case jget artifact ''patch_text'' of JStr s \<Rightarrow> Inr s
         | _ \<Rightarrow> Inl (ReviewProtocolError ''Review bundle artifact.patch_text must be a string.'')) (\<lambda>patch_text.
     rbind (rp_check (JStr (text_sha256 h patch_text) = jget artifact ''patch_sha256'')
       ''Review bundle patch digest does not match patch_text.'') (\<lambda>_.
     rbind (require_object (jget d ''authority'') ''authority'') (\<lambda>authority.
     rp_check (list_all (\<lambda>f. jget authority f = JBool False) denied_authority)
       ''Review bundle must deny worker and verifier commit/merge authority.'')))))))))))))"

section \<open>Decisions\<close>

definition finding_label :: "nat \<Rightarrow> string \<Rightarrow> string" where
  "finding_label i s = ''findings['' @ str_nat i @ '']'' @ s"

definition check_finding :: "string \<Rightarrow> nat \<times> json \<Rightarrow> unit res" where
  "check_finding decision p = (case p of (i, raw) \<Rightarrow>
     rbind (require_object raw (finding_label i [])) (\<lambda>f.
     rbind (rp_check ({''code'', ''severity'', ''message''} \<subseteq> fst ` set f \<and> fst ` set f \<subseteq> {''code'', ''severity'', ''message'', ''path''})
       (finding_label i '' has missing or unknown fields.'')) (\<lambda>_.
     rbind (require_safe_id (jget f ''code'') (finding_label i ''.code'')) (\<lambda>_.
     rbind (rbind (one_of (jget f ''severity'') [''info'', ''warning'', ''error'', ''blocker'']) (\<lambda>b.
       rp_check b (finding_label i ''.severity is invalid.''))) (\<lambda>_.
     rbind (rp_check (\<not> (decision = ''approve'' \<and> jget f ''severity'' \<in> {JStr ''error'', JStr ''blocker''}))
       ''An approve decision cannot contain error or blocker findings.'') (\<lambda>_.
     rbind (rp_check (is_text (jget f ''message'')) (finding_label i ''.message must be a non-empty string.'')) (\<lambda>_.
     rp_check (jget f ''path'' = JNull \<or> is_text (jget f ''path''))
       (finding_label i ''.path must be null or a non-empty string.''))))))))"

definition normalize_findings :: "json \<Rightarrow> string \<Rightarrow> unit res" where
  "normalize_findings v decision = (case v of
     JList xs \<Rightarrow>
       rbind (rp_check (\<not> (decision \<in> {''reject'', ''escalate''} \<and> xs = []))
         (''A '' @ decision @ '' decision must contain at least one finding.'')) (\<lambda>_.
       rbind (mapE (check_finding decision) (enumerate 0 xs)) (\<lambda>_. Inr ()))
   | _ \<Rightarrow> Inl (ReviewProtocolError ''findings must be a list.''))"

definition validate_attestation :: "jobj \<Rightarrow> unit res" where
  "validate_attestation d =
     rbind (require_object (jget d ''attestation'') ''attestation'') (\<lambda>a.
     rbind (require_exact_keys a [''reviewed_commit'', ''reviewed_patch_sha256''] ''attestation'') (\<lambda>_.
     rbind (rp_check (is_text (jget a ''reviewed_commit'')) ''attestation.reviewed_commit must be a non-empty string.'') (\<lambda>_.
     rp_check (is_hex_digest (jget a ''reviewed_patch_sha256''))
       ''attestation.reviewed_patch_sha256 must be a lowercase SHA-256 digest.'')))"

text \<open>What both kinds of decision share: ids, digest, actor, decision, summary, time, attestation, findings.\<close>

definition decision_text :: "jobj \<Rightarrow> string" where
  "decision_text d = (case jget d ''decision'' of JStr s \<Rightarrow> s | _ \<Rightarrow> [])"

definition validate_decision_core ::
  "('r, 'x) host_scheme \<Rightarrow> jobj \<Rightarrow> string \<Rightarrow> string \<Rightarrow> string \<Rightarrow> string list \<Rightarrow> string \<Rightarrow> unit res" where
  "validate_decision_core h d label actor id_key decisions choice =
     rbind (require_safe_id (jget d ''decision_id'') ''decision_id'') (\<lambda>_.
     rbind (require_safe_id (jget d ''bundle_id'') ''bundle_id'') (\<lambda>_.
     rbind (rp_check (is_hex_digest (jget d ''bundle_sha256''))
       (label @ '' bundle_sha256 must be a lowercase SHA-256 digest.'')) (\<lambda>_.
     rbind (require_object (jget d actor) actor) (\<lambda>who.
     rbind (require_exact_keys who [id_key, ''kind''] actor) (\<lambda>_.
     rbind (require_safe_id (jget who id_key) (actor @ ''.'' @ id_key)) (\<lambda>_.
     rbind (rbind (one_of (jget who ''kind'') [''agent'', ''human'', ''service'']) (\<lambda>b.
       rp_check b (actor @ ''.kind must be agent, human, or service.''))) (\<lambda>_.
     rbind (rbind (one_of (jget d ''decision'') decisions) (\<lambda>b. rp_check b (''decision must be '' @ choice @ ''.''))) (\<lambda>_.
     rbind (rp_check (is_text (jget d ''summary'')) ''summary must be a non-empty string.'') (\<lambda>_.
     rbind (require_timestamp h (jget d ''created_at_utc'') ''created_at_utc'') (\<lambda>_.
     rbind (validate_attestation d) (\<lambda>_.
     normalize_findings (jget d ''findings'') (decision_text d))))))))))))"

definition validate_verifier_decision :: "('r, 'x) host_scheme \<Rightarrow> jobj \<Rightarrow> unit res" where
  "validate_verifier_decision h d =
     rbind (require_exact_keys d [''protocol'', ''protocol_version'', ''message_type'', ''decision_id'', ''bundle_id'',
       ''bundle_sha256'', ''reviewer'', ''decision'', ''summary'', ''findings'', ''created_at_utc'', ''attestation''] ''Verifier decision'') (\<lambda>_.
     rbind (require_protocol d ''verifier.decision'') (\<lambda>_.
     validate_decision_core h d ''Verifier decision'' ''reviewer'' ''id'' [''approve'', ''reject''] ''approve or reject''))"

definition validate_correction_brief :: "json \<Rightarrow> unit res" where
  "validate_correction_brief v =
     rbind (require_object v ''correction_brief'') (\<lambda>b.
     rbind (require_exact_keys b [''rationale'', ''instructions'', ''validation_focus''] ''correction_brief'') (\<lambda>_.
     rbind (rp_check (is_text (jget b ''rationale'')) ''correction_brief.rationale must be non-empty.'') (\<lambda>_.
     rbind (mapE (\<lambda>f. case jget b f of
         JList xs \<Rightarrow>
           rbind (rp_check (\<not> (f = ''instructions'' \<and> xs = [])) (''correction_brief.'' @ f @ '' must be a list of strings.'')) (\<lambda>_.
           rp_check (list_all is_text xs) (''correction_brief.'' @ f @ '' must contain non-empty strings.''))
       | _ \<Rightarrow> Inl (ReviewProtocolError (''correction_brief.'' @ f @ '' must be a list of strings.'')))
       [''instructions'', ''validation_focus'']) (\<lambda>_. Inr ()))))"

definition validate_escalation :: "('r, 'x) host_scheme \<Rightarrow> json \<Rightarrow> unit res" where
  "validate_escalation h v =
     rbind (require_object v ''escalation'') (\<lambda>e.
     rbind (require_exact_keys e [''reason'', ''question'', ''options''] ''escalation'') (\<lambda>_.
     rbind (mapE (\<lambda>f. rp_check (is_text (jget e f)) (''escalation.'' @ f @ '' must be non-empty.'')) [''reason'', ''question'']) (\<lambda>_.
     rbind (rp_check (text_list (jget e ''options'')) ''escalation.options must contain non-empty strings.'') (\<lambda>_.
     rp_check (case jget e ''options'' of JList xs \<Rightarrow> JStr ` set (mc_own_options h) \<subseteq> set xs | _ \<Rightarrow> False)
       ''escalation.options must include both own-choice texts.''))))"

definition validate_critic_decision :: "('r, 'x) host_scheme \<Rightarrow> jobj \<Rightarrow> unit res" where
  "validate_critic_decision h d =
     rbind (require_exact_keys d [''protocol'', ''protocol_version'', ''message_type'', ''decision_id'', ''bundle_id'',
       ''bundle_sha256'', ''critic'', ''decision'', ''summary'', ''findings'', ''correction_brief'', ''escalation'',
       ''created_at_utc'', ''attestation''] ''Critic decision'') (\<lambda>_.
     rbind (require_protocol_version d three_head_protocol_version ''critic.decision'') (\<lambda>_.
     rbind (validate_decision_core h d ''Critic decision'' ''critic'' ''identity'' [''approve'', ''reject'', ''escalate'']
       ''approve, reject, or escalate'') (\<lambda>_.
     let correction = jget d ''correction_brief''; escalation = jget d ''escalation''; decision = decision_text d in
     if decision = ''approve'' then
       rp_check (correction = JNull \<and> escalation = JNull) ''Approve decisions cannot contain correction_brief or escalation.''
     else if decision = ''reject'' then
       rbind (rp_check (correction \<noteq> JNull \<and> escalation = JNull)
         ''Reject decisions require correction_brief and cannot contain escalation.'') (\<lambda>_. validate_correction_brief correction)
     else
       rbind (rp_check (escalation \<noteq> JNull \<and> correction = JNull)
         ''Escalate decisions require escalation and cannot contain correction_brief.'') (\<lambda>_. validate_escalation h escalation))))"

end
