(* ===== verification/Review_Ops.thy ===== *)
theory Review_Ops imports Review_Protocol begin

text \<open>
  The operations of \<open>src/llm_harness/review_protocol.py\<close>: loading a recorded bundle, exporting the
  evidence of a run, and importing a decision.  A JSON file holds its value; a bundle is written with
  sorted keys.  The lease of an export and of an import is the lease of the store.
\<close>

section \<open>Files\<close>

definition load_json_object :: "path \<Rightarrow> string \<Rightarrow> 'r world \<Rightarrow> jobj res" where
  "load_json_object p label w = (case w_files w p of
     Missing \<Rightarrow> Inl (ReviewProtocolError (label @ '' cannot be read: '' @ path_str p))
   | Unreadable m \<Rightarrow> Inl (ReviewProtocolError (label @ '' is not valid JSON: '' @ path_str p @ '': '' @ m))
   | Content (JObj d) \<Rightarrow> Inr d
   | Content _ \<Rightarrow> Inl (ReviewProtocolError (label @ '' must be a JSON object.'')))"

text \<open>\<open>atomic_write_text(path, dump_json(payload))\<close>\<close>

definition write_json_file :: "path \<Rightarrow> jobj \<Rightarrow> ('r, unit) world_op" where
  "write_json_file p d = world_write p (\<lambda>w. w\<lparr>w_files := (w_files w)(p := Content (sort_keys (JObj d)))\<rparr>)"

definition store_lease :: "path \<Rightarrow> ('r, 'a) world_op \<Rightarrow> ('r, 'a) world_op" where
  "store_lease root m = mbind (on_store root (hold (ret ()))) (\<lambda>_. m)"

definition review_bundles_dir :: "path \<Rightarrow> path" where
  "review_bundles_dir root = path_join root (path_of ''review-bundles'')"

section \<open>Git evidence\<close>

definition review_git :: "('r, 'x) host_scheme \<Rightarrow> path \<Rightarrow> string list \<Rightarrow> ('r, string) world_op" where
  "review_git h repo args =
     mbind (in_repo (run_git h (''git'' # args) repo None)) (\<lambda>c.
     if co_code c \<noteq> 0 then raise (ReviewProtocolError (if strip (co_err c) = []
       then ''git '' @ join '' '' args @ '' failed'' else strip (co_err c)))
     else ret (co_out c))"

definition review_resolve_commit :: "('r, 'x) host_scheme \<Rightarrow> path \<Rightarrow> string \<Rightarrow> ('r, string) world_op" where
  "review_resolve_commit h repo c =
     mbind (review_git h repo [''rev-parse'', ''--verify'', c @ ''^{commit}'']) (\<lambda>out. ret (strip out))"

definition review_parent_commit :: "('r, 'x) host_scheme \<Rightarrow> path \<Rightarrow> string \<Rightarrow> ('r, string option) world_op" where
  "review_parent_commit h repo c =
     mbind (review_git h repo [''rev-list'', ''--parents'', ''-n'', ''1'', c]) (\<lambda>out.
     ret (case split_ws (strip out) of _ # p # _ \<Rightarrow> Some p | _ \<Rightarrow> None))"

definition review_changed_files :: "('r, 'x) host_scheme \<Rightarrow> path \<Rightarrow> string \<Rightarrow> ('r, string list) world_op" where
  "review_changed_files h repo c =
     mbind (review_git h repo [''diff-tree'', ''--root'', ''--no-commit-id'', ''--name-only'', ''-r'', c]) (\<lambda>out.
     ret (filter (\<lambda>l. strip l \<noteq> []) (splitlines out)))"

section \<open>Loading\<close>

definition bundle_digest :: "jobj \<Rightarrow> json" where
  "bundle_digest d = (case jget d ''integrity'' of JObj i \<Rightarrow> jget i ''payload_sha256'' | _ \<Rightarrow> JNull)"

definition checked_bundle :: "('r, 'x) host_scheme \<Rightarrow> path \<Rightarrow> 'r world \<Rightarrow> jobj res" where
  "checked_bundle h p w = rbind (load_json_object p ''Review bundle'' w) (\<lambda>d. rbind (validate_review_bundle h d) (\<lambda>_. Inr d))"

definition load_review_bundle :: "('r, 'x) host_scheme \<Rightarrow> path \<Rightarrow> string \<Rightarrow> ('r, jobj) world_op" where
  "load_review_bundle h root bundle_id =
     mbind (on_store root (gets review_bundles)) (\<lambda>bundles.
     case List.find (\<lambda>b. bb_bundle_id b = bundle_id) bundles of
       None \<Rightarrow> raise (ReviewProtocolError (''Unknown review bundle: '' @ bundle_id))
     | Some r \<Rightarrow>
         mbind (gets (checked_bundle h (bb_bundle_path r))) (\<lambda>d.
         if bundle_digest d \<noteq> JStr (bb_bundle_sha256 r)
         then raise (ReviewProtocolError (''Stored review bundle evidence does not match its index: '' @ bundle_id))
         else ret d))"

section \<open>Exporting\<close>

record bundle_export =
  be_record :: review_bundle_record
  be_payload :: jobj
  be_output_path :: path

definition role_payload :: "role_identity \<Rightarrow> json" where
  "role_payload r = JObj [(''identity'', JStr (rl_identity r)), (''provider'', JStr (rl_provider r)), (''model'', JStr (rl_model r))]"

definition three_head_manifest :: "three_head_config \<Rightarrow> queue_task \<Rightarrow> json" where
  "three_head_manifest t task = JObj
     [(''mode'', JStr (th_mode t)), (''attempt'', JInt (qt_attempts task)), (''max_attempts'', JInt (th_max_attempts t)),
      (''roles'', JObj [(''logic'', role_payload (th_logic t)), (''worker'', role_payload (th_worker t)),
         (''critic'', role_payload (th_critic t))]),
      (''correction_context'', JObj
        [(''decision_id'', j_opt_str (wi_correction_decision_id (qt_work_item task))),
         (''instructions'', j_strs (wi_correction_instructions (qt_work_item task)))]),
      (''closure_policy'', JObj
        [(''critic_approval_required'', JBool True), (''supervisor_owns_git'', JBool True),
         (''supervisor_confirms_rework'', JBool True)])]"

definition bundle_content ::
  "('r, 'x) host_scheme \<Rightarrow> path \<Rightarrow> three_head_config option \<Rightarrow> run_record \<Rightarrow> queue_task \<Rightarrow> string \<Rightarrow> string \<Rightarrow> string
     \<Rightarrow> string list \<Rightarrow> string option \<Rightarrow> string \<Rightarrow> jobj" where
  "bundle_content h root strict run task bundle_id commit patch_text changed parent created =
     [(''protocol'', JStr protocol_namespace),
      (''protocol_version'', JStr (if strict \<noteq> None then three_head_protocol_version else protocol_version)),
      (''message_type'', JStr (if strict \<noteq> None then ''critic.review_bundle'' else ''verifier.review_bundle'')),
      (''bundle_id'', JStr bundle_id), (''created_at_utc'', JStr created),
      (''repository'', JObj [(''path'', JStr (path_str root)), (''commit'', JStr commit), (''parent_commit'', j_opt_str parent)]),
      (''task'', work_item_payload (qt_work_item task)),
      (''scope'', JObj
        [(''allowed_paths'', j_strs (wi_allowed_paths (qt_work_item task))),
         (''non_goals'', j_strs (wi_non_goals (qt_work_item task))), (''changed_files'', j_strs changed)]),
      (''artifact'', JObj
        [(''contract'', JStr ''git_commit_diff''), (''commit'', JStr commit),
         (''patch_sha256'', JStr (text_sha256 h patch_text)), (''patch_text'', JStr patch_text)]),
      (''verification'', JObj
        [(''run'', run_record_payload run), (''pre_apply_ok'', JBool (rr_pre_apply_findings run = [])),
         (''post_apply_ok'', JBool (rr_post_apply_findings run = [])),
         (''commands_ok'', JBool (list_all command_ok (rr_command_results run))),
         (''command_results'', JList (map command_result_payload (rr_command_results run)))]),
      (''authority'', JObj
        [(''worker'', j_strs [''produce_candidate_patch'']),
         (''verifier'', j_strs ([''inspect_evidence'', ''approve'', ''reject''] @ (if strict \<noteq> None then [''escalate''] else []))),
         (''supervisor'', j_strs [''apply_patch'', ''run_checks'', ''commit'', ''merge'', ''handoff'']),
         (''worker_commit_allowed'', JBool False), (''worker_merge_allowed'', JBool False),
         (''verifier_commit_allowed'', JBool False), (''verifier_merge_allowed'', JBool False)])]
     @ (case strict of None \<Rightarrow> [] | Some t \<Rightarrow> [(''three_head'', three_head_manifest t task)])"

definition with_integrity :: "('r, 'x) host_scheme \<Rightarrow> jobj \<Rightarrow> jobj" where
  "with_integrity h d = d @ [(''integrity'', JObj [(''algorithm'', JStr ''sha256''), (''payload_sha256'', JStr (payload_sha256 h d))])]"

definition write_elsewhere :: "('r, 'x) host_scheme \<Rightarrow> path option \<Rightarrow> path \<Rightarrow> jobj \<Rightarrow> ('r, path) world_op" where
  "write_elsewhere h output canonical d =
     (let destination = (case output of None \<Rightarrow> canonical | Some p \<Rightarrow> mc_resolve h p) in
      mseq (if destination \<noteq> canonical then write_json_file destination d else ret ()) (ret destination))"

definition find_run :: "string \<Rightarrow> run_record list \<Rightarrow> run_record res" where
  "find_run run_id runs = (case List.find (\<lambda>r. rr_run_id r = run_id) runs of
     None \<Rightarrow> Inl (ReviewProtocolError (''Unknown run id: '' @ run_id)) | Some r \<Rightarrow> Inr r)"

definition find_task :: "string \<Rightarrow> queue_task list \<Rightarrow> queue_task res" where
  "find_task wid tasks = (case List.find (\<lambda>t. task_id t = wid) (rev tasks) of
     None \<Rightarrow> Inl (ReviewProtocolError (''Run references an unknown queued task: '' @ wid)) | Some t \<Rightarrow> Inr t)"

definition export_existing ::
  "('r, 'x) host_scheme \<Rightarrow> path option \<Rightarrow> string \<Rightarrow> review_bundle_record \<Rightarrow> ('r, bundle_export) world_op" where
  "export_existing h output commit existing =
     mbind (gets (checked_bundle h (bb_bundle_path existing))) (\<lambda>d.
     if py_str (bundle_digest d) \<noteq> bb_bundle_sha256 existing \<or> bb_commit existing \<noteq> commit
     then raise (ReviewProtocolError (''Stored review bundle evidence does not match its index: '' @ bb_bundle_id existing))
     else mbind (write_elsewhere h output (bb_bundle_path existing) d) (\<lambda>destination.
       ret \<lparr>be_record = existing, be_payload = d, be_output_path = destination\<rparr>))"

definition export_new ::
  "('r, 'x) host_scheme \<Rightarrow> path \<Rightarrow> path \<Rightarrow> three_head_config option \<Rightarrow> path option \<Rightarrow> run_record \<Rightarrow> queue_task \<Rightarrow> string
     \<Rightarrow> string \<Rightarrow> ('r, bundle_export) world_op" where
  "export_new h repo root strict output run task bundle_id commit =
     mbind (review_git h repo [''show'', ''--format='', ''--binary'', ''--no-ext-diff'', commit]) (\<lambda>patch_text.
     mbind (review_changed_files h repo commit) (\<lambda>changed.
     mbind (review_parent_commit h repo commit) (\<lambda>parent.
     mbind world_now (\<lambda>created.
     let content = bundle_content h repo strict run task bundle_id commit patch_text changed parent created;
         d = with_integrity h content;
         canonical = path_join (review_bundles_dir root) (path_of (bundle_id @ ''.json''))
     in
     mseq (lift_res (validate_review_bundle h d))
    (mseq (write_json_file canonical d)
    (mbind (on_store root (record_review_bundle \<lparr>bb_bundle_id = bundle_id, bb_created_at_utc = created,
        bb_run_id = rr_run_id run, bb_work_item_id = rr_work_item_id run, bb_commit = commit,
        bb_bundle_sha256 = payload_sha256 h content, bb_bundle_path = canonical\<rparr>)) (\<lambda>stored.
     mseq (on_store root (journal_record ((journal_args ''interaction'' ''supervisor'' ''critic.review_bundle_payload'' (JObj d))
        \<lparr>ja_recipient := Some ''critic'', ja_task_id := Some (rr_work_item_id run), ja_run_id := Some (rr_run_id run),
         ja_correlation_id := Some bundle_id\<rparr>)))
    (mbind (write_elsewhere h output canonical d) (\<lambda>destination.
     ret \<lparr>be_record = stored, be_payload = d, be_output_path = destination\<rparr>)))))))))"

definition export_locked ::
  "('r, 'x) host_scheme \<Rightarrow> path \<Rightarrow> path \<Rightarrow> string \<Rightarrow> path option \<Rightarrow> three_head_config option \<Rightarrow> ('r, bundle_export) world_op" where
  "export_locked h repository root run_id output three_head =
     (let repo = mc_resolve h repository;
          strict = (case three_head of None \<Rightarrow> None | Some t \<Rightarrow> if th_required t then Some t else None) in
      mbind (on_store root (gets history)) (\<lambda>runs.
      mbind (lift_res (find_run run_id runs)) (\<lambda>run.
      case (if rr_ok run then rr_commit run else None) of
        None \<Rightarrow> raise (ReviewProtocolError (''Only a successful committed run can be exported for review: '' @ run_id))
      | Some c \<Rightarrow>
          mbind (on_store root (gets list_tasks)) (\<lambda>tasks.
          mbind (lift_res (find_task (rr_work_item_id run) tasks)) (\<lambda>task.
          mbind (review_resolve_commit h repo c) (\<lambda>commit.
          let bundle_id = (if strict \<noteq> None then ''three-head-'' else ''review-'') @ rr_run_id run in
          mbind (on_store root (gets review_bundles)) (\<lambda>bundles.
          case List.find (\<lambda>b. bb_bundle_id b = bundle_id) bundles of
            Some existing \<Rightarrow> export_existing h output commit existing
          | None \<Rightarrow> export_new h repo root strict output run task bundle_id commit)))))))"

definition export_review_bundle ::
  "('r, 'x) host_scheme \<Rightarrow> path \<Rightarrow> path \<Rightarrow> string \<Rightarrow> path option \<Rightarrow> three_head_config option \<Rightarrow> ('r, bundle_export) world_op" where
  "export_review_bundle h repository root run_id output three_head =
     store_lease root (export_locked h repository root run_id output three_head)"

section \<open>Importing a decision\<close>

definition obj_text :: "jobj \<Rightarrow> string \<Rightarrow> string res" where
  "obj_text d k = rbind (jitem d k) as_str"

definition as_texts :: "json \<Rightarrow> string list res" where
  "as_texts v = rbind (py_iter v) (mapE as_str)"

definition finding_of :: "json \<Rightarrow> review_finding res" where
  "finding_of j = rbind (jobj_of j) (\<lambda>f.
     rbind (obj_text f ''code'') (\<lambda>c. rbind (obj_text f ''severity'') (\<lambda>s. rbind (obj_text f ''message'') (\<lambda>m.
     rbind (as_opt as_str (jget f ''path'')) (\<lambda>p.
     Inr \<lparr>rf_code = c, rf_severity = s, rf_message = m, rf_path = p\<rparr>)))))"

definition correction_of :: "json \<Rightarrow> correction_brief option res" where
  "correction_of j = (if j = JNull then Inr None else
     rbind (jobj_of j) (\<lambda>d. rbind (obj_text d ''rationale'') (\<lambda>r.
     rbind (rbind (jitem d ''instructions'') as_texts) (\<lambda>i. rbind (rbind (jitem d ''validation_focus'') as_texts) (\<lambda>v.
     Inr (Some \<lparr>cb_rationale = r, cb_instructions = i, cb_validation_focus = v\<rparr>))))))"

definition escalation_of :: "json \<Rightarrow> escalation_request option res" where
  "escalation_of j = (if j = JNull then Inr None else
     rbind (jobj_of j) (\<lambda>d. rbind (obj_text d ''reason'') (\<lambda>r. rbind (obj_text d ''question'') (\<lambda>q.
     rbind (rbind (jitem d ''options'') as_texts) (\<lambda>os.
     Inr (Some \<lparr>er_reason = r, er_question = q, er_options = os\<rparr>))))))"

definition decision_actor :: "bool \<Rightarrow> jobj \<Rightarrow> (string \<times> string) res" where
  "decision_actor strict d =
     rbind (rbind (jitem d (if strict then ''critic'' else ''reviewer'')) jobj_of) (\<lambda>a.
     rbind (obj_text a (if strict then ''identity'' else ''id'')) (\<lambda>i. rbind (obj_text a ''kind'') (\<lambda>k. Inr (i, k))))"

text \<open>The record a validated decision stands for.\<close>

definition decision_record :: "bool \<Rightarrow> jobj \<Rightarrow> review_bundle_record \<Rightarrow> string \<Rightarrow> string \<Rightarrow> review_decision_record res" where
  "decision_record strict d bundle digest now =
     rbind (rbind (rbind (jitem d ''findings'') py_iter) (mapE finding_of)) (\<lambda>findings.
     rbind (decision_actor strict d) (\<lambda>(who, kind).
     rbind (correction_of (jget d ''correction_brief'')) (\<lambda>correction.
     rbind (escalation_of (jget d ''escalation'')) (\<lambda>escalation.
     rbind (obj_text d ''decision_id'') (\<lambda>did. rbind (obj_text d ''decision'') (\<lambda>decision.
     rbind (obj_text d ''summary'') (\<lambda>summary. rbind (obj_text d ''created_at_utc'') (\<lambda>created.
     rbind (obj_text d ''protocol_version'') (\<lambda>version.
     Inr \<lparr>rd_decision_id = did, rd_bundle_id = bb_bundle_id bundle, rd_bundle_sha256 = digest,
          rd_run_id = bb_run_id bundle, rd_work_item_id = bb_work_item_id bundle, rd_commit = bb_commit bundle,
          rd_reviewer_id = who, rd_reviewer_kind = kind, rd_decision = decision, rd_summary = summary,
          rd_findings = findings, rd_created_at_utc = created, rd_imported_at_utc = now,
          rd_protocol_version = version, rd_correction_brief = correction, rd_escalation = escalation\<rparr>)))))))))"

text \<open>\<open>_decision_matches\<close>: the recorded decision says the same, apart from when it was imported.\<close>

definition decision_matches :: "review_decision_record \<Rightarrow> review_decision_record \<Rightarrow> bool" where
  "decision_matches existing incoming \<longleftrightarrow>
     rd_bundle_id existing = rd_bundle_id incoming \<and> rd_bundle_sha256 existing = rd_bundle_sha256 incoming
     \<and> rd_reviewer_id existing = rd_reviewer_id incoming \<and> rd_reviewer_kind existing = rd_reviewer_kind incoming
     \<and> rd_decision existing = rd_decision incoming \<and> rd_summary existing = rd_summary incoming
     \<and> rd_created_at_utc existing = rd_created_at_utc incoming
     \<and> rd_protocol_version existing = rd_protocol_version incoming \<and> rd_findings existing = rd_findings incoming
     \<and> rd_correction_brief existing = rd_correction_brief incoming \<and> rd_escalation existing = rd_escalation incoming"

fun to_review_error :: "exn \<Rightarrow> exn" where
  "to_review_error (StateStoreError m) = ReviewProtocolError m"
| "to_review_error e = e"

definition expected_status :: "string \<Rightarrow> task_status res" where
  "expected_status decision =
     (if decision = ''approve'' then Inr Done else if decision = ''reject'' then Inr Rework_Required
      else if decision = ''escalate'' then Inr Escalated else Inl (KeyError decision))"

definition apply_strict_decision :: "review_decision_record \<Rightarrow> unit store_op" where
  "apply_strict_decision r =
     mbind (gets list_tasks) (\<lambda>tasks.
     case List.find (\<lambda>t. task_id t = rd_work_item_id r) (rev tasks) of
       None \<Rightarrow> raise (ReviewProtocolError (''Critic decision references an unknown task: '' @ rd_work_item_id r))
     | Some task \<Rightarrow>
         mbind (lift_res (expected_status (rd_decision r))) (\<lambda>status.
         if qt_status task = status \<and> qt_last_review_decision_id task = Some (rd_decision_id r) then ret ()
         else map_exn to_review_error
           (mseq (resolve_review (rd_work_item_id r) (rd_bundle_id r) (rd_decision_id r) (rd_decision r) (rd_summary r)) (ret ()))))"

text \<open>What has to agree before a decision counts: the kind, the critic, the digests, the commit.\<close>

definition jpath :: "jobj \<Rightarrow> string list \<Rightarrow> json" where
  "jpath d ks = foldl (\<lambda>v k. case v of JObj d \<Rightarrow> jget d k | _ \<Rightarrow> JNull) (JObj d) ks"

definition check_evidence :: "jobj \<Rightarrow> review_bundle_record \<Rightarrow> jobj \<Rightarrow> unit res" where
  "check_evidence d r bundle =
     rbind (rp_check (is_strict bundle = is_strict d) ''Three-head review bundles require a protocol v2 critic decision.'') (\<lambda>_.
     rbind (rp_check (\<not> is_strict bundle \<or> jpath d [''critic'', ''identity''] = jpath bundle [''three_head'', ''roles'', ''critic'', ''identity''])
       ''Critic decision identity does not match the review bundle role manifest.'') (\<lambda>_.
     rbind (rp_check (jget d ''bundle_sha256'' = bundle_digest bundle \<and> bundle_digest bundle = JStr (bb_bundle_sha256 r))
       ''Verifier decision bundle_sha256 does not match canonical bundle evidence.'') (\<lambda>_.
     rbind (rp_check (jpath d [''attestation'', ''reviewed_commit''] = jpath bundle [''artifact'', ''commit''])
       ''Verifier decision reviewed_commit does not match canonical bundle evidence.'') (\<lambda>_.
     rp_check (jpath d [''attestation'', ''reviewed_patch_sha256''] = jpath bundle [''artifact'', ''patch_sha256''])
       ''Verifier decision reviewed_patch_sha256 does not match canonical bundle evidence.''))))"

definition record_decision :: "jobj \<Rightarrow> review_decision_record \<Rightarrow> review_decision_record store_op" where
  "record_decision d record = map_exn to_review_error
     (mbind (record_review_decision record) (\<lambda>stored.
      mseq (journal_record ((journal_args ''interaction'' (if is_strict d then ''critic'' else ''external-verifier'')
          ''review.decision_payload'' (JObj d))
        \<lparr>ja_recipient := Some ''supervisor'', ja_task_id := Some (rd_work_item_id record),
         ja_run_id := Some (rd_run_id record), ja_correlation_id := Some (rd_bundle_id record)\<rparr>))
      (mseq (if is_strict d then apply_strict_decision stored else ret ())
      (ret stored))))"

text \<open>From the checked evidence to the record: the commit is resolved again, a decision recorded before is matched.\<close>

definition conclude_import ::
  "('r, 'x) host_scheme \<Rightarrow> path \<Rightarrow> path \<Rightarrow> jobj \<Rightarrow> review_bundle_record \<Rightarrow> jobj \<Rightarrow> ('r, review_decision_record) world_op" where
  "conclude_import h repository root d r bundle =
     mbind (review_resolve_commit h (mc_resolve h repository) (py_str (jpath bundle [''artifact'', ''commit'']))) (\<lambda>resolved.
     mseq (require (resolved = bb_commit r)
       (ReviewProtocolError ''Canonical repository no longer resolves the reviewed commit evidence.''))
    (mbind (on_store root (gets review_decisions)) (\<lambda>decisions.
     mbind (lift_res (decision_record (is_strict d) d r (py_str (bundle_digest bundle)) [])) (\<lambda>incoming.
     case List.find (\<lambda>x. rd_decision_id x = rd_decision_id incoming) decisions of
       Some existing \<Rightarrow>
         if decision_matches existing incoming then
           mseq (if is_strict d then on_store root (apply_strict_decision existing) else ret ()) (ret existing)
         else raise (ReviewProtocolError (''Review decision id already exists with different evidence: '' @ rd_decision_id existing))
     | None \<Rightarrow>
         mbind world_now (\<lambda>now.
         on_store root (record_decision d (incoming\<lparr>rd_imported_at_utc := now\<rparr>)))))))"

definition import_locked ::
  "('r, 'x) host_scheme \<Rightarrow> path \<Rightarrow> path \<Rightarrow> path \<Rightarrow> ('r, review_decision_record) world_op" where
  "import_locked h repository root decision_path =
     mbind (gets (load_json_object decision_path ''Verifier decision'')) (\<lambda>d.
     mseq (lift_res (if is_strict d then validate_critic_decision h d else validate_verifier_decision h d))
    (mbind (lift_res (obj_text d ''bundle_id'')) (\<lambda>bundle_id.
     mbind (on_store root (gets review_bundles)) (\<lambda>bundles.
     case List.find (\<lambda>b. bb_bundle_id b = bundle_id) bundles of
       None \<Rightarrow> raise (ReviewProtocolError (''Unknown review bundle: '' @ bundle_id))
     | Some r \<Rightarrow>
         mbind (gets (checked_bundle h (bb_bundle_path r))) (\<lambda>bundle.
         mseq (lift_res (check_evidence d r bundle))
         (conclude_import h repository root d r bundle))))))"

definition import_verifier_decision ::
  "('r, 'x) host_scheme \<Rightarrow> path \<Rightarrow> path \<Rightarrow> path \<Rightarrow> ('r, review_decision_record) world_op" where
  "import_verifier_decision h repository root decision_path =
     store_lease root (import_locked h repository root decision_path)"

end
