(* ===== verification/Queue_Run.thy ===== *)
theory Queue_Run imports Supervisor Review_Ops begin

text \<open>
  One turn of the queue (\<open>src/llm_harness/cli.py\<close>: \<open>_run_next_queued_task\<close>, \<open>_run_ready_batch\<close> and what
  they call) and the automatic critic (\<open>critic_runtime.py\<close>): reconciliation, claiming a task, running it
  through the supervisor, recording the outcome, exporting the review bundle.

  The configured worker, critic and semantic verifier are parameters (\<open>run_setup\<close>).  Usage metrics
  (\<open>record_quality\<close>, in a \<open>try\<close> that ignores every error) are left out.  The workers of a batch run in
  threads; they are run here in the order of the batch, each in a worktree of its own.
\<close>

section \<open>Configuration and outcome\<close>

record 'r worker_adapter =
  wk_isolated :: bool
  wk_target :: execution_target
  wk_worker :: "'r job_worker"

record 'r run_setup =
  rs_three_head :: three_head_config
  rs_critic_automatic :: bool
  rs_verifier :: policy_verifier
  rs_semantic :: "(work_item \<Rightarrow> worker_patch \<Rightarrow> command_result list \<Rightarrow> semantic_report res) option"
  rs_policy :: command_policy
  rs_adapter :: "'r worker_adapter"
  rs_critic :: "path \<Rightarrow> jobj \<Rightarrow> ('r, jobj) op"

record critic_review_result =
  cv_decision :: review_decision_record
  cv_decision_path :: path
  cv_task_status :: string

record run_outcome =
  ro_empty :: bool
  ro_dependency_blocked :: bool
  ro_task_id :: "string option"
  ro_run_id :: "string option"
  ro_result :: "harness_run_result option"
  ro_exception :: "exn option"
  ro_review_bundle :: "bundle_export option"
  ro_critic_review :: "critic_review_result option"
  ro_lifecycle_status :: string

definition outcome :: "string \<Rightarrow> run_outcome" where
  "outcome status = \<lparr>ro_empty = False, ro_dependency_blocked = False, ro_task_id = None, ro_run_id = None, ro_result = None,
     ro_exception = None, ro_review_bundle = None, ro_critic_review = None, ro_lifecycle_status = status\<rparr>"

abbreviation rs_required :: "'r run_setup \<Rightarrow> bool" where
  "rs_required cfg \<equiv> th_required (rs_three_head cfg)"

section \<open>The automatic critic\<close>

definition pending_work_item_id :: "string \<Rightarrow> store \<Rightarrow> string res" where
  "pending_work_item_id bundle_id s =
     rbind (list_tasks s) (\<lambda>tasks.
     case filter (\<lambda>t. qt_status t = Review_Pending \<and> qt_pending_review_bundle_id t = Some bundle_id) tasks of
       [t] \<Rightarrow> Inr (task_id t)
     | ts \<Rightarrow> Inl (CriticAdapterError (''Expected exactly one review-pending task for bundle '' @ bundle_id @ ''; found ''
         @ str_nat (length ts) @ ''.'')))"

definition write_decision_payload :: "path \<Rightarrow> jobj \<Rightarrow> ('r, path) world_op" where
  "write_decision_payload root d =
     mbind (lift_res (jitem d ''decision_id'')) (\<lambda>v.
     let p = path_join (path_join root (path_of ''review-decision-payloads'')) (path_of (py_str v @ ''.json'')) in
     mseq (world_write p (\<lambda>w. w\<lparr>w_files := (w_files w)(p := Content (JObj d))\<rparr>)) (ret p))"

definition is_review_failure :: "exn \<Rightarrow> bool" where
  "is_review_failure e \<longleftrightarrow> is_critic_error e \<or> is_review_error e \<or> is_os_error e \<or> is_value_error e"

text \<open>\<open>next(item for item in tasks if item.work_item.id == task_id)\<close>: the first entry of that id.\<close>

definition first_task :: "string \<Rightarrow> store \<Rightarrow> queue_task res" where
  "first_task wid s = rbind (list_tasks s) (\<lambda>tasks.
     case List.find (\<lambda>t. task_id t = wid) tasks of None \<Rightarrow> Inl StopIteration | Some t \<Rightarrow> Inr t)"

definition run_critic_review ::
  "('r, 'x) host_scheme \<Rightarrow> path \<Rightarrow> path \<Rightarrow> 'r run_setup \<Rightarrow> bundle_export \<Rightarrow> ('r, critic_review_result) world_op" where
  "run_critic_review h repo root cfg bundle =
     mseq (require (rs_required cfg) (CriticAdapterError ''Automatic Critic requires three_head.mode = 'required'.''))
    (mseq (require (rs_critic_automatic cfg) (CriticAdapterError ''Critic transport is manual; no automatic adapter is configured.''))
    (mbind (on_store root (gets (pending_work_item_id (bb_bundle_id (be_record bundle))))) (\<lambda>wid.
     mbind (attempt is_review_failure
       (mbind (in_repo (rs_critic cfg (mc_resolve h repo) (be_payload bundle))) (\<lambda>d.
        mbind (write_decision_payload root d) (\<lambda>p.
        mbind (import_verifier_decision h repo root p) (\<lambda>decision. ret (decision, p)))))) (\<lambda>answer.
     case answer of
       Inl e \<Rightarrow>
         mseq (on_store root (record_review_failure wid (exn_message e)))
         (raise (if is_critic_error e then e else CriticAdapterError (''Critic decision could not be imported: '' @ exn_message e)))
     | Inr (decision, p) \<Rightarrow>
         mbind (on_store root (gets (first_task wid))) (\<lambda>task.
         ret \<lparr>cv_decision = decision, cv_decision_path = p, cv_task_status = status_str (qt_status task)\<rparr>)))))"

section \<open>Recording the result\<close>

definition finish_operation :: "('r, 'x) host_scheme \<Rightarrow> path \<Rightarrow> operation_context option \<Rightarrow> ('r, unit) world_op" where
  "finish_operation h repo ctx = with_operation ctx (\<lambda>c.
     mbind (gets (\<lambda>w. Inr (ledger_exists (oc_operation_id c) w))) (\<lambda>known.
     if known then
       mseq (ledger_phase h repo (oc_operation_id c) ''state_recorded'' [])
      (mseq (ledger_terminal h repo (oc_operation_id c) ''complete''
         (Some ''Canonical commit and StateStore run evidence are durable.'')) (ret ()))
     else ret ()))"

text \<open>The export and, when it is automatic, the critic; an exception carries what was exported before it.\<close>

definition review_setup ::
  "('r, 'x) host_scheme \<Rightarrow> path \<Rightarrow> path \<Rightarrow> 'r run_setup \<Rightarrow> string \<Rightarrow> string
     \<Rightarrow> ('r, bundle_export option \<times> (exn + critic_review_result option)) world_op" where
  "review_setup h repo root cfg wid run_id =
     mbind (attempt (\<lambda>_. True) (export_review_bundle h repo root run_id None (Some (rs_three_head cfg)))) (\<lambda>b.
     case b of
       Inl e \<Rightarrow> ret (None, Inl e)
     | Inr bundle \<Rightarrow>
         mbind (attempt (\<lambda>_. True)
           (mseq (on_store root (attach_review_bundle wid (bb_bundle_id (be_record bundle))))
           (if rs_critic_automatic cfg
            then mbind (run_critic_review h repo root cfg bundle) (\<lambda>c. ret (Some c)) else ret None))) (\<lambda>c.
         ret (Some bundle, c)))"

definition lifecycle_status :: "critic_review_result option \<Rightarrow> bundle_export option \<Rightarrow> harness_run_result \<Rightarrow> string" where
  "lifecycle_status critic exported result = (case critic of
     Some c \<Rightarrow> cv_task_status c
   | None \<Rightarrow> if exported \<noteq> None then ''review_pending'' else if run_ok result then ''done'' else ''failed'')"

definition record_worker_result ::
  "('r, 'x) host_scheme \<Rightarrow> path \<Rightarrow> path \<Rightarrow> 'r run_setup \<Rightarrow> string \<Rightarrow> string \<Rightarrow> harness_run_result \<Rightarrow> operation_context option
     \<Rightarrow> ('r, run_outcome) world_op" where
  "record_worker_result h repo root cfg wid started result ctx =
     mbind (on_store root (record_result wid started result None (rs_required cfg) (map_option oc_run_id ctx))) (\<lambda>record.
     mseq (finish_operation h repo ctx)
    (let done = (outcome [])\<lparr>ro_task_id := Some wid, ro_run_id := Some (rr_run_id record), ro_result := Some result\<rparr> in
     if rs_required cfg \<and> run_ok result then
       mbind (review_setup h repo root cfg wid (rr_run_id record)) (\<lambda>(exported, review).
       case review of
         Inl e \<Rightarrow>
           mbind (on_store root (gets (first_task wid))) (\<lambda>current.
           mbind (if qt_pending_review_bundle_id current = None
                  then on_store root (fail_review_setup wid (''Review bundle setup failed: '' @ exn_message e))
                  else ret current) (\<lambda>task.
           ret (done\<lparr>ro_exception := Some e, ro_review_bundle := exported,
                ro_lifecycle_status := status_str (qt_status task)\<rparr>)))
       | Inr critic \<Rightarrow>
           ret (done\<lparr>ro_review_bundle := exported, ro_critic_review := critic,
                ro_lifecycle_status := lifecycle_status critic exported result\<rparr>))
     else ret (done\<lparr>ro_lifecycle_status := lifecycle_status None None result\<rparr>)))"

section \<open>One task\<close>

definition startup_reconcile :: "('r, 'x) host_scheme \<Rightarrow> path \<Rightarrow> ('r, reconciliation_item list) world_op" where
  "startup_reconcile h repo = with_lease (reconcile h repo True)"

fun setup_reviews ::
  "('r, 'x) host_scheme \<Rightarrow> path \<Rightarrow> path \<Rightarrow> three_head_config \<Rightarrow> run_record list \<Rightarrow> queue_task list \<Rightarrow> ('r, unit) world_op" where
  "setup_reviews h repo root t runs [] = ret ()"
| "setup_reviews h repo root t runs (task # tasks) =
     (if qt_status task \<noteq> Review_Pending \<or> qt_pending_review_bundle_id task \<noteq> None then setup_reviews h repo root t runs tasks
      else case List.find (\<lambda>r. rr_work_item_id r = task_id task \<and> rr_ok r \<and> rr_commit r \<noteq> None) (rev runs) of
        None \<Rightarrow> raise (ReconciliationBlockedError (''Review-pending task has no successful run evidence: '' @ task_id task))
      | Some run \<Rightarrow>
          mbind (export_review_bundle h repo root (rr_run_id run) None (Some t)) (\<lambda>b.
          mseq (on_store root (attach_review_bundle (task_id task) (bb_bundle_id (be_record b))))
          (setup_reviews h repo root t runs tasks)))"

definition reconcile_pending_review_setup :: "('r, 'x) host_scheme \<Rightarrow> path \<Rightarrow> path \<Rightarrow> 'r run_setup \<Rightarrow> ('r, unit) world_op" where
  "reconcile_pending_review_setup h repo root cfg =
     (if \<not> rs_required cfg then ret ()
      else mbind (on_store root (gets history)) (\<lambda>runs.
           mbind (on_store root (gets list_tasks)) (\<lambda>tasks.
           setup_reviews h repo root (rs_three_head cfg) runs tasks)))"

definition supervisor_of :: "'r run_setup \<Rightarrow> path \<Rightarrow> supervisor" where
  "supervisor_of cfg root = \<lparr>sp_verifier = rs_verifier cfg, sp_journal = Some root, sp_semantic = rs_semantic cfg,
     sp_policy = rs_policy cfg\<rparr>"

text \<open>Every call makes a supervisor of its own, with an empty job store.\<close>

definition fresh_jobs :: "('r, unit) world_op" where
  "fresh_jobs = (\<lambda>w. (Inr (), w\<lparr>w_jobs := empty_job_store\<rparr>))"

definition run_worker_work_item ::
  "('r, 'x) host_scheme \<Rightarrow> path \<Rightarrow> path \<Rightarrow> 'r run_setup \<Rightarrow> work_item \<Rightarrow> operation_context option \<Rightarrow> ('r, harness_run_result) world_op" where
  "run_worker_work_item h repo root cfg wi ctx =
     (let a = rs_adapter cfg; sv = supervisor_of cfg root in
      mseq fresh_jobs
      (if wk_isolated a then dispatch_work_item_in_attempt h sv repo wi (wk_target a) (wk_worker a) None ctx
       else dispatch_work_item h sv repo wi (wk_target a) (direct (wk_worker a)) ctx))"

definition collect_worker_work_item ::
  "('r, 'x) host_scheme \<Rightarrow> path \<Rightarrow> path \<Rightarrow> 'r run_setup \<Rightarrow> work_item \<Rightarrow> ('r, worker_completion) world_op" where
  "collect_worker_work_item h repo root cfg wi =
     (let a = rs_adapter cfg in
      mseq (require (wk_isolated a) (WorkerAdapterError ''Parallel preparation requires an isolated-worktree worker adapter.''))
     (mseq fresh_jobs
      (collect_worker_completion_in_attempt h (supervisor_of cfg root) repo wi (wk_target a) (wk_worker a) None)))"

text \<open>What is done with the exception of a run (\<open>except LockContendedError\<close>, \<open>except Exception\<close>).\<close>

definition failed_run ::
  "('r, 'x) host_scheme \<Rightarrow> path \<Rightarrow> path \<Rightarrow> string \<Rightarrow> string \<Rightarrow> operation_context \<Rightarrow> exn \<Rightarrow> ('r, run_outcome) world_op" where
  "failed_run h repo root wid started ctx e =
     (if is_contention e then
        mseq (on_store root (recover_running wid
          (''Repository execution lease contention; task was safely requeued: '' @ exn_message e)))
        (ret ((outcome ''claim_contended'')\<lparr>ro_task_id := Some wid, ro_exception := Some e\<rparr>))
      else
        mbind (reconcile h repo True) (\<lambda>items.
        if blocking items \<noteq> [] then
          ret ((outcome ''reconciliation_blocked'')
            \<lparr>ro_task_id := Some wid, ro_run_id := Some (oc_run_id ctx), ro_exception := Some e\<rparr>)
        else
          mbind (on_store root (record_failure wid started (exn_message e))) (\<lambda>record.
          ret ((outcome ''failed'')\<lparr>ro_task_id := Some wid, ro_run_id := Some (rr_run_id record), ro_exception := Some e\<rparr>))))"

definition run_claimed_task ::
  "('r, 'x) host_scheme \<Rightarrow> path \<Rightarrow> path \<Rightarrow> 'r run_setup \<Rightarrow> queue_task \<Rightarrow> ('r, run_outcome) world_op" where
  "run_claimed_task h repo root cfg task =
     mbind world_now (\<lambda>started.
     mbind (create_context h root started (rs_required cfg)) (\<lambda>ctx.
     mbind (attempt (\<lambda>_. True) (run_worker_work_item h repo root cfg (qt_work_item task) (Some ctx))) (\<lambda>run.
     case run of
       Inl e \<Rightarrow> failed_run h repo root (task_id task) started ctx e
     | Inr result \<Rightarrow> record_worker_result h repo root cfg (task_id task) started result (Some ctx))))"

definition claim_failed :: "path \<Rightarrow> string \<Rightarrow> exn \<Rightarrow> ('r, run_outcome) world_op" where
  "claim_failed root wid e =
     mbind (on_store root (gets list_tasks)) (\<lambda>tasks.
     ret ((outcome (if list_ex (\<lambda>t. task_id t = wid \<and> qt_status t = Escalated) tasks then ''escalated'' else ''claim_contended''))
       \<lparr>ro_task_id := Some wid, ro_exception := Some e\<rparr>))"

definition blocked_outcome :: run_outcome where
  "blocked_outcome = (outcome ''reconciliation_blocked'')
     \<lparr>ro_exception := Some (ReconciliationBlockedError ''Unresolved canonical operation blocks Worker execution.'')\<rparr>"

text \<open>The startup common to one task and a batch: \<open>Some\<close> outcome ends the call.\<close>

definition startup :: "('r, 'x) host_scheme \<Rightarrow> path \<Rightarrow> path \<Rightarrow> 'r run_setup \<Rightarrow> ('r, run_outcome option) world_op" where
  "startup h repo root cfg =
     mbind (attempt is_contention (startup_reconcile h repo)) (\<lambda>reconciled.
     case reconciled of
       Inl e \<Rightarrow> ret (Some ((outcome ''claim_contended'')\<lparr>ro_exception := Some e\<rparr>))
     | Inr items \<Rightarrow>
         if blocking items \<noteq> [] then ret (Some blocked_outcome)
         else mseq (reconcile_pending_review_setup h repo root cfg) (ret None))"

definition empty_outcome :: run_outcome where
  "empty_outcome = (outcome ''empty'')\<lparr>ro_empty := True\<rparr>"

definition run_next_queued_task ::
  "('r, 'x) host_scheme \<Rightarrow> path \<Rightarrow> path \<Rightarrow> 'r run_setup \<Rightarrow> ('r, run_outcome) world_op" where
  "run_next_queued_task h repo root cfg =
     mbind (startup h repo root cfg) (\<lambda>ended.
     case ended of Some x \<Rightarrow> ret x | None \<Rightarrow>
     mbind (on_store root (gets store_schedule)) (\<lambda>q.
     case qs_selected q of
       None \<Rightarrow>
         if qs_waiting q \<noteq> [] then
           ret ((outcome ''dependency_blocked'')\<lparr>ro_dependency_blocked := True,
             ro_exception := Some (StateStoreError ''Queued tasks are waiting for dependencies; no task is runnable.'')\<rparr>)
         else ret empty_outcome
     | Some selected \<Rightarrow>
         mbind (attempt is_store_error (on_store root (claim_next
           (if rs_required cfg then Some (th_max_attempts (rs_three_head cfg)) else None)))) (\<lambda>claimed.
         case claimed of
           Inl e \<Rightarrow> claim_failed root (task_id selected) e
         | Inr None \<Rightarrow> ret empty_outcome
         | Inr (Some task) \<Rightarrow> run_claimed_task h repo root cfg task)))"

section \<open>A batch\<close>

text \<open>\<open>starts\<close> and \<open>contexts\<close>, in the order of the batch.\<close>

fun prepare_batch ::
  "('r, 'x) host_scheme \<Rightarrow> path \<Rightarrow> 'r run_setup \<Rightarrow> queue_task list \<Rightarrow> ('r, (queue_task \<times> string \<times> operation_context) list) world_op" where
  "prepare_batch h root cfg [] = ret []"
| "prepare_batch h root cfg (task # tasks) =
     mbind world_now (\<lambda>started.
     mbind (create_context h root started (rs_required cfg)) (\<lambda>ctx.
     mbind (prepare_batch h root cfg tasks) (\<lambda>rest. ret ((task, started, ctx) # rest))))"

definition run_prepared ::
  "('r, 'x) host_scheme \<Rightarrow> path \<Rightarrow> path \<Rightarrow> 'r run_setup
     \<Rightarrow> (queue_task \<times> string \<times> operation_context) \<times> (exn + worker_completion) \<Rightarrow> ('r, run_outcome) world_op" where
  "run_prepared h repo root cfg p = (case p of ((task, started, ctx), value) \<Rightarrow>
     (case value of
        Inl e \<Rightarrow>
          mbind (on_store root (record_failure (task_id task) started (exn_message e))) (\<lambda>record.
          ret ((outcome ''failed'')\<lparr>ro_task_id := Some (task_id task), ro_run_id := Some (rr_run_id record), ro_exception := Some e\<rparr>))
      | Inr completion \<Rightarrow>
          mbind (attempt (\<lambda>_. True)
            (execute_worker_completion h (supervisor_of cfg root) repo (qt_work_item task) completion (Some ctx))) (\<lambda>run.
          case run of
            Inl e \<Rightarrow> failed_run h repo root (task_id task) started ctx e
          | Inr result \<Rightarrow> record_worker_result h repo root cfg (task_id task) started result (Some ctx))))"

definition run_ready_batch ::
  "('r, 'x) host_scheme \<Rightarrow> path \<Rightarrow> path \<Rightarrow> 'r run_setup \<Rightarrow> int \<Rightarrow> ('r, run_outcome list) world_op" where
  "run_ready_batch h repo root cfg limit =
     (let one = mbind (run_next_queued_task h repo root cfg) (\<lambda>x. ret [x]) in
      if limit \<le> 1 then one
      else
        mbind (startup h repo root cfg) (\<lambda>ended.
        case ended of Some x \<Rightarrow> ret [x] | None \<Rightarrow>
        mbind (on_store root (gets (store_schedule_batch limit))) (\<lambda>scheduled.
        if length scheduled \<le> 1 then one
        else
          mbind (on_store root (claim_batch limit)) (\<lambda>batch.
          mbind (prepare_batch h root cfg batch) (\<lambda>started.
          mseq (on_store root (journal_record (journal_args ''decision'' ''supervisor'' ''scheduler.batch_started''
            (JObj [(''task_ids'', j_strs (map task_id batch)), (''parallelism'', JInt (int (length batch))),
              (''resource_policy'', JStr ''non-overlapping allowed_paths'')]))))
         (mbind (mmap (\<lambda>(task, _). attempt (\<lambda>_. True) (collect_worker_work_item h repo root cfg (qt_work_item task))) started) (\<lambda>prepared.
          mmap (run_prepared h repo root cfg) (zip started prepared))))))))"

section \<open>Recovering a task by hand\<close>

definition queue_recover_running :: "('r, 'x) host_scheme \<Rightarrow> path \<Rightarrow> path \<Rightarrow> string \<Rightarrow> string \<Rightarrow> ('r, queue_task) world_op" where
  "queue_recover_running h repo root wid reason =
     mbind (reconcile h repo False) (\<lambda>items.
     mbind (gets (ledger_records h repo)) (\<lambda>records.
     if list_ex (\<lambda>d. jget d ''operation_id'' \<in> (\<lambda>i. JStr (ri_operation_id i)) ` set (blocking items)
          \<and> jget d ''task_id'' = JStr wid) records
     then raise (StateStoreError (''Task '' @ wid @ '' has unresolved canonical operation evidence; reconcile it first.''))
     else on_store root (recover_running wid reason)))"

end
