(* ===== verification/Queue_Props.thy ===== *)
theory Queue_Props imports Queue_Run Supervisor_Props begin

text \<open>
  The properties of a turn of the queue: what an outcome that reports success rests on, that an unresolved
  operation keeps the queue still, and what happens to a run whose patch the supervisor took back.
\<close>

section \<open>Runs taken back\<close>

lemma finish_reverted:
  assumes "reverted (oc_operation_id c) w"
  shows "\<exists>e. finish_operation h repo (Some c) w = (Inl e, w)"
proof -
  obtain d where d: "ledger_file (oc_operation_id c) w = Content (JObj d)" "jget d ''terminal_outcome'' = JStr ''reverted''"
    using assms by (auto simp: reverted_def)
  then obtain e where e: "ledger_phase h repo (oc_operation_id c) ''state_recorded'' [] w = (Inl e, w)"
    using phase_ended [of _ w d h repo "''state_recorded''" "[]"] by auto
  have "ledger_exists (oc_operation_id c) w" using d(1) assms by (simp add: ledger_exists_def reverted_def)
  then show ?thesis by (simp add: finish_operation_def with_operation_def mbind_def mseq_def e)
qed

lemma reverted_on_store: "on_store root m w = (x, w') \<Longrightarrow> reverted i w' = reverted i w"
  by (auto simp: on_store_def reverted_def ledger_file_def split: prod.splits)

text \<open>When the supervisor has taken a patch back, its result can never be handed to the caller: recording it raises,
  because the operation has ended as reverted and cannot be advanced to \<open>state_recorded\<close>.  This holds for
  every store, also when the store has recorded the failed run.\<close>

theorem taken_back_run_raises:
  assumes run: "execute_worker_completion h sv repo wi c (Some ctx) w = (Inr r, w1)" "vr_ok (hr_pre_apply r)"
      "\<not> vr_ok (hr_post_apply r) \<or> (\<exists>s. hr_semantic_verification r = Some s \<and> \<not> semantic_ok s)"
  shows "\<exists>e w2. record_worker_result h repo root cfg wid started r (Some ctx) w1 = (Inl e, w2)"
proof -
  have "rejected_after_apply r" using run(2,3) by (auto simp: passes_def)
  then have ended: "reverted (oc_operation_id ctx) w1" using execute_takes_back [OF run(1)] by simp
  let ?m = "record_result wid started r None (rs_required cfg) (map_option oc_run_id (Some ctx))"
  obtain x w2 where s: "on_store root ?m w1 = (x, w2)" by fastforce
  then have "reverted (oc_operation_id ctx) w2" using ended reverted_on_store by blast
  then obtain e where "finish_operation h repo (Some ctx) w2 = (Inl e, w2)" using finish_reverted by blast
  then show ?thesis
    by (cases x) (auto simp: record_worker_result_def mbind_def mseq_def s [simplified])
qed

theorem taken_back_run_raises_witness:
  "\<forall>cfg. \<exists>r w e w'. execute_worker_completion toy_host demo_supervisor toy_root (demo_item ''false'') demo_completion (Some toy_context) demo_world
       = (Inr r, w)
     \<and> record_worker_result toy_host toy_root (path_of ''/state'') cfg ''t1'' ''t'' r (Some toy_context) w = (Inl e, w')"
proof
  fix cfg :: "toy_repo run_setup"
  obtain r w where r: "execute_worker_completion toy_host demo_supervisor toy_root (demo_item ''false'') demo_completion (Some toy_context) demo_world
      = (Inr r, w)" "vr_ok (hr_pre_apply r)" "\<not> vr_ok (hr_post_apply r)"
    using demo_rejected by blast
  then show "\<exists>r w e w'. execute_worker_completion toy_host demo_supervisor toy_root (demo_item ''false'') demo_completion (Some toy_context) demo_world
       = (Inr r, w)
     \<and> record_worker_result toy_host toy_root (path_of ''/state'') cfg ''t1'' ''t'' r (Some toy_context) w = (Inl e, w')"
    using taken_back_run_raises [OF r(1,2)] by blast
qed

section \<open>Outcomes that report success\<close>

text \<open>An outcome without an exception says done only for a result that is ok; when the review is required, only after
  the critic has decided on the exported bundle.\<close>

definition done_rests :: "'r run_setup \<Rightarrow> run_outcome \<Rightarrow> bool" where
  "done_rests cfg x \<longleftrightarrow> (ro_lifecycle_status x = ''done'' \<and> ro_exception x = None \<longrightarrow>
     (\<exists>r. ro_result x = Some r \<and> run_ok r
        \<and> (rs_required cfg \<longrightarrow> (\<exists>c b. ro_critic_review x = Some c \<and> cv_task_status c = ''done'' \<and> ro_review_bundle x = Some b))))"

lemma outcome_fields [simp]: "ro_lifecycle_status (outcome s) = s" "ro_exception (outcome s) = None" "ro_result (outcome s) = None"
  "ro_critic_review (outcome s) = None" "ro_review_bundle (outcome s) = None"
  by (simp_all add: outcome_def)

lemma setup_exported:
  "returns (\<lambda>(b, v). \<forall>c. v = Inr c \<longrightarrow> (\<exists>e. b = Some e)) (review_setup h repo root cfg wid run_id)"
  unfolding review_setup_def by (intro returns_bind returns_sum returns_ret) auto

lemma record_done: "returns (done_rests cfg) (record_worker_result h repo root cfg wid started result ctx)"
  unfolding record_worker_result_def Let_def
proof (rule returns_bind, rule returns_seq, rule returns_if)
  fix r :: run_record
  let ?done = "(outcome [])\<lparr>ro_task_id := Some wid, ro_run_id := Some (rr_run_id r), ro_result := Some result\<rparr>"
  let ?k = "\<lambda>(exported, review). case review of
       Inl e \<Rightarrow>
         mbind (on_store root (gets (first_task wid))) (\<lambda>current.
         mbind (if qt_pending_review_bundle_id current = None
                then on_store root (fail_review_setup wid (''Review bundle setup failed: '' @ exn_message e))
                else ret current) (\<lambda>task.
         ret (?done\<lparr>ro_exception := Some e, ro_review_bundle := exported, ro_lifecycle_status := status_str (qt_status task)\<rparr>)))
     | Inr critic \<Rightarrow>
         ret (?done\<lparr>ro_review_bundle := exported, ro_critic_review := critic,
              ro_lifecycle_status := lifecycle_status critic exported result\<rparr>)"
  { assume ok: "rs_required cfg \<and> run_ok result"
    show "returns (done_rests cfg) (mbind (review_setup h repo root cfg wid (rr_run_id r)) ?k)"
    proof (rule returns_bind_given [OF setup_exported])
      fix x :: "bundle_export option \<times> (exn + critic_review_result option)"
      assume x: "case x of (b, v) \<Rightarrow> \<forall>c. v = Inr c \<longrightarrow> (\<exists>e. b = Some e)"
      show "returns (done_rests cfg) (?k x)"
      proof (cases "snd x")
        case (Inl e)
        then show ?thesis
          by (simp add: case_prod_beta) (intro returns_bind returns_ret, simp add: done_rests_def)
      next
        case (Inr critic)
        then show ?thesis
          using x ok by (cases critic) (auto simp: done_rests_def lifecycle_status_def case_prod_beta intro!: returns_ret)
      qed
    qed }
  show "returns (done_rests cfg) (ret (?done\<lparr>ro_lifecycle_status := lifecycle_status None None result\<rparr>))"
    if "\<not> (rs_required cfg \<and> run_ok result)"
    using that by (intro returns_ret) (auto simp: done_rests_def lifecycle_status_def)
qed

lemma failed_run_done: "returns (done_rests cfg) (failed_run h repo root wid started ctx e)"
  unfolding failed_run_def by (intro returns_intros) (simp_all add: done_rests_def)

lemma claimed_done: "returns (done_rests cfg) (run_claimed_task h repo root cfg task)"
  unfolding run_claimed_task_def by (intro returns_bind returns_sum failed_run_done record_done)

lemma claim_failed_done: "returns (done_rests cfg) (claim_failed root wid e)"
  unfolding claim_failed_def by (intro returns_intros) (simp add: done_rests_def)

lemma startup_done: "returns (\<lambda>x. \<forall>v. x = Some v \<longrightarrow> done_rests cfg v) (startup h repo root cfg)"
  unfolding startup_def by (intro returns_intros) (simp_all add: done_rests_def blocked_outcome_def)

lemma next_done: "returns (done_rests cfg) (run_next_queued_task h repo root cfg)"
  unfolding run_next_queued_task_def
proof (rule returns_bind_given [OF startup_done])
  fix ended
  assume e: "\<forall>v. ended = Some v \<longrightarrow> done_rests cfg v"
  show "returns (done_rests cfg) (case ended of Some x \<Rightarrow> ret x | None \<Rightarrow>
     mbind (on_store root (gets store_schedule)) (\<lambda>q.
     case qs_selected q of
       None \<Rightarrow>
         if qs_waiting q \<noteq> [] then
           ret ((outcome ''dependency_blocked'')\<lparr>ro_dependency_blocked := True,
             ro_exception := Some (StateStoreError ''Queued tasks are waiting for dependencies; no task is runnable.'')\<rparr>)
         else ret empty_outcome
     | Some selected \<Rightarrow>
         mbind (attempt is_store_error (on_store root (claim_next
           (if rs_required cfg then Some (th_max_attempts (rs_three_head cfg)) else None)))) (\<lambda>claimed.
         case claimed of
           Inl e \<Rightarrow> claim_failed root (task_id selected) e
         | Inr None \<Rightarrow> ret empty_outcome
         | Inr (Some task) \<Rightarrow> run_claimed_task h repo root cfg task)))"
  proof (cases ended)
    case None
    show ?thesis unfolding None option.case
      by (intro returns_bind returns_option returns_if returns_sum claim_failed_done claimed_done returns_ret)
         (simp_all add: done_rests_def empty_outcome_def)
  qed (simp add: e returns_ret)
qed

lemma returns_mmap: "(\<And>x. returns P (f x)) \<Longrightarrow> returns (list_all P) (mmap f xs)"
proof (induction xs)
  case Nil
  show ?case by (simp add: returns_def)
next
  case (Cons x xs)
  show ?case unfolding mmap.simps
    by (rule returns_bind_given [OF Cons.prems], rule returns_bind_given [OF Cons.IH [OF Cons.prems]]) (simp add: returns_ret)
qed

lemma prepared_done: "returns (done_rests cfg) (run_prepared h repo root cfg p)"
  unfolding run_prepared_def
  by (intro returns_prod returns_sum returns_bind failed_run_done record_done returns_ret) (simp add: done_rests_def)

lemma batch_done: "returns (list_all (done_rests cfg)) (run_ready_batch h repo root cfg limit)"
proof -
  have one: "returns (list_all (done_rests cfg)) (mbind (run_next_queued_task h repo root cfg) (\<lambda>x. ret [x]))"
    by (rule returns_bind_given [OF next_done]) (simp add: returns_ret)
  have rest: "returns (list_all (done_rests cfg)) (case ended of Some x \<Rightarrow> ret [x] | None \<Rightarrow> m)"
    if "\<forall>v. ended = Some v \<longrightarrow> done_rests cfg v" "returns (list_all (done_rests cfg)) m" for ended and m :: "('a, run_outcome list) world_op"
    using that by (cases ended) (simp_all add: returns_ret)
  show ?thesis
    unfolding run_ready_batch_def Let_def
    by (rule returns_if, rule one, rule returns_bind_given [OF startup_done], erule rest)
       (intro returns_bind returns_if returns_seq one returns_mmap prepared_done)
qed


section \<open>Nothing starts behind an unresolved operation\<close>

text \<open>When the reconciliation at the start leaves an operation unresolved, neither a turn of the queue nor a batch
  claims a task or touches the repository: the call ends with \<open>reconciliation_blocked\<close>, and the world is what the
  reconciliation left.\<close>

theorem blocked_queue_stays:
  assumes "startup_reconcile h repo w = (Inr items, w1)" "blocking items \<noteq> []" "1 < limit"
  shows "run_next_queued_task h repo root cfg w = (Inr blocked_outcome, w1)
    \<and> run_ready_batch h repo root cfg limit w = (Inr [blocked_outcome], w1)"
proof -
  have "startup h repo root cfg w = (Inr (Some blocked_outcome), w1)"
    using assms(1,2) by (simp add: startup_def mbind_def attempt_def)
  then show ?thesis using assms(3) by (simp add: run_next_queued_task_def run_ready_batch_def mbind_def)
qed

text \<open>A ledger file that is not JSON blocks.\<close>

definition broken_world :: "toy_repo world" where
  "broken_world = (toy_world (\<lambda>_. sample_store))\<lparr>w_ledger := [(''op-1'', Unreadable ''corrupt'')]\<rparr>"

theorem blocked_queue_stays_witness:
  "\<forall>cfg. \<exists>w1. run_next_queued_task toy_host toy_root (path_of ''/state'') cfg broken_world = (Inr blocked_outcome, w1)"
proof
  have "(case startup_reconcile toy_host toy_root broken_world of (Inr items, _) \<Rightarrow> blocking items \<noteq> [] | _ \<Rightarrow> False) = True"
    by code_simp
  then obtain items w1 where "startup_reconcile toy_host toy_root broken_world = (Inr items, w1)" "blocking items \<noteq> []"
    by (auto split: prod.splits sum.splits)
  then show "\<exists>w1. run_next_queued_task toy_host toy_root (path_of ''/state'') cfg broken_world = (Inr blocked_outcome, w1)" for cfg using blocked_queue_stays [where limit = 2] by fastforce
qed

end
