(* ===== verification/Json_Read.thy ===== *)
theory Json_Read imports Json_Text begin

text \<open>
  \<open>json.loads\<close> as the program uses it: a recursive descent over the text, \<open>None\<close> for a \<open>JSONDecodeError\<close>.
  Texts whose value has no counterpart here are not read: numbers with a fraction or an exponent, \<open>NaN\<close>
  and \<open>Infinity\<close>, escapes of code points from 256 on.  Duplicate keys: the last value wins.  CPython's limits
  on nesting and on the digits of an integer are not modelled.
\<close>

section \<open>Tokens\<close>

definition json_ws :: "char \<Rightarrow> bool" where
  "json_ws c \<longleftrightarrow> c \<in> {CHR '' '', CHR 0x09, CHR 0x0A, CHR 0x0D}"

abbreviation skip_ws :: "string \<Rightarrow> string" where
  "skip_ws \<equiv> dropWhile json_ws"

definition hex_val :: "char \<Rightarrow> nat option" where
  "hex_val c = (let n = code c in
     if 48 \<le> n \<and> n \<le> 57 then Some (n - 48) else if 97 \<le> n \<and> n \<le> 102 then Some (n - 87)
     else if 65 \<le> n \<and> n \<le> 70 then Some (n - 55) else None)"

fun hex_number :: "nat \<Rightarrow> string \<Rightarrow> nat option" where
  "hex_number n [] = Some n"
| "hex_number n (c # cs) = (case hex_val c of None \<Rightarrow> None | Some d \<Rightarrow> hex_number (16 * n + d) cs)"

definition unescape :: "char \<Rightarrow> char option" where
  "unescape e = map_of [(CHR 0x22, CHR 0x22), (CHR 0x5C, CHR 0x5C), (CHR ''/'', CHR ''/''), (CHR ''b'', CHR 0x08),
     (CHR ''f'', CHR 0x0C), (CHR ''n'', CHR 0x0A), (CHR ''r'', CHR 0x0D), (CHR ''t'', CHR 0x09)] e"

definition push :: "'a \<Rightarrow> ('a list \<times> string) option \<Rightarrow> ('a list \<times> string) option" where
  "push x r = map_option (\<lambda>(xs, rest). (x # xs, rest)) r"

text \<open>After the backslash.\<close>

definition read_escape :: "string \<Rightarrow> (char \<times> string) option" where
  "read_escape s = (case s of
     [] \<Rightarrow> None
   | e # r \<Rightarrow>
       if e = CHR ''u'' then
         (if length r < 4 then None
          else case hex_number 0 (take 4 r) of
            None \<Rightarrow> None
          | Some n \<Rightarrow> if n < 256 then Some (char_of n, drop 4 r) else None)
       else map_option (\<lambda>x. (x, r)) (unescape e))"

lemma read_escape_shorter: "read_escape s = Some (x, r) \<Longrightarrow> length r < length s"
  by (auto simp: read_escape_def split: list.splits if_splits option.splits)

text \<open>After the opening quote.\<close>

function read_str :: "string \<Rightarrow> (string \<times> string) option" where
  "read_str [] = None"
| "read_str (c # s) =
     (if c = CHR 0x22 then Some ([], s)
      else if c = CHR 0x5C then
        (case read_escape s of None \<Rightarrow> None | Some (x, r) \<Rightarrow> push x (read_str r))
      else if code c < 32 then None
      else push c (read_str s))"
  by pat_completeness auto
termination
  by (relation "measure length") (auto dest: read_escape_shorter)

definition read_digits :: "string \<Rightarrow> (nat \<times> string) option" where
  "read_digits s = (case s of
     [] \<Rightarrow> None
   | c # r \<Rightarrow>
       if c = CHR ''0'' then Some (0, r)
       else if is_ascii_digit c then Some (nat_of_digits (takeWhile is_ascii_digit s), dropWhile is_ascii_digit s)
       else None)"

definition read_int :: "string \<Rightarrow> (json \<times> string) option" where
  "read_int s = (if s \<noteq> [] \<and> hd s = CHR ''-''
     then map_option (\<lambda>(n, r). (JInt (- int n), r)) (read_digits (tl s))
     else map_option (\<lambda>(n, r). (JInt (int n), r)) (read_digits s))"

definition read_atom :: "string \<Rightarrow> (json \<times> string) option" where
  "read_atom s =
     (if startswith s ''null'' then Some (JNull, drop 4 s)
      else if startswith s ''true'' then Some (JBool True, drop 4 s)
      else if startswith s ''false'' then Some (JBool False, drop 5 s)
      else read_int s)"

section \<open>Values\<close>

text \<open>The first argument bounds the depth of the recursion; \<open>loads\<close> passes more than the text can use.\<close>

fun parse_value :: "nat \<Rightarrow> string \<Rightarrow> (json \<times> string) option"
and parse_items :: "nat \<Rightarrow> string \<Rightarrow> (json list \<times> string) option"
and parse_members :: "nat \<Rightarrow> string \<Rightarrow> (jobj \<times> string) option" where
  "parse_value 0 s = None"
| "parse_value (Suc n) s = (case s of
     [] \<Rightarrow> None
   | c # r \<Rightarrow>
       if c = CHR 0x22 then map_option (\<lambda>(t, r). (JStr t, r)) (read_str r)
       else if c = CHR ''['' then
         (case skip_ws r of
            [] \<Rightarrow> None
          | d # r' \<Rightarrow> if d = CHR '']'' then Some (JList [], r')
                      else map_option (\<lambda>(xs, r). (JList xs, r)) (parse_items n (d # r')))
       else if c = CHR ''{'' then
         (case skip_ws r of
            [] \<Rightarrow> None
          | d # r' \<Rightarrow> if d = CHR ''}'' then Some (JObj [], r')
                      else map_option (\<lambda>(kvs, r). (JObj (jupdate [] kvs), r)) (parse_members n (d # r')))
       else read_atom s)"
| "parse_items 0 s = None"
| "parse_items (Suc n) s = (case parse_value n s of
     None \<Rightarrow> None
   | Some (v, r) \<Rightarrow>
       (case skip_ws r of
          [] \<Rightarrow> None
        | d # r' \<Rightarrow> if d = CHR '']'' then Some ([v], r')
                    else if d = CHR '','' then push v (parse_items n (skip_ws r')) else None))"
| "parse_members 0 s = None"
| "parse_members (Suc n) s = (case s of
     [] \<Rightarrow> None
   | q # t \<Rightarrow>
       if q \<noteq> CHR 0x22 then None
       else (case read_str t of
          None \<Rightarrow> None
        | Some (k, r) \<Rightarrow>
            (case skip_ws r of
               [] \<Rightarrow> None
             | d # r' \<Rightarrow>
                 if d \<noteq> CHR '':'' then None
                 else (case parse_value n (skip_ws r') of
                    None \<Rightarrow> None
                  | Some (v, r'') \<Rightarrow>
                      (case skip_ws r'' of
                         [] \<Rightarrow> None
                       | e # r3 \<Rightarrow> if e = CHR ''}'' then Some ([(k, v)], r3)
                                   else if e = CHR '','' then push (k, v) (parse_members n (skip_ws r3)) else None)))))"

definition loads :: "string \<Rightarrow> json option" where
  "loads s = (case parse_value (2 * length s + 1) (skip_ws s) of
     None \<Rightarrow> None
   | Some (v, r) \<Rightarrow> if skip_ws r = [] then Some v else None)"

section \<open>The bound on the recursion\<close>

declare dropWhile_eq_Nil_conv [simp del]

lemma dropWhile_shorter: "dropWhile P s = d # r \<Longrightarrow> length r < length s"
  using length_dropWhile_le [of P s] by simp

definition consumes :: "string \<Rightarrow> ('a \<times> string) option \<Rightarrow> bool" where
  "consumes s m \<longleftrightarrow> (\<forall>x r. m = Some (x, r) \<longrightarrow> length r < length s)"

lemma consumes_simps [simp]:
  "consumes s None" "consumes s (Some (x, r)) = (length r < length s)" "consumes s (push y m) = consumes s m"
  "consumes s (map_option (\<lambda>(y, r). (f y, r)) n) = consumes s n"
  by (auto simp: consumes_def push_def)

lemma consumes_mono: "consumes t m \<Longrightarrow> length t \<le> length s \<Longrightarrow> consumes s m"
  unfolding consumes_def using order_less_le_trans by blast

lemma consumes_cons: "consumes s m \<Longrightarrow> consumes (c # s) m"
  by (erule consumes_mono) simp

lemma consumesD: "consumes s m \<Longrightarrow> m = Some (x, r) \<Longrightarrow> length r < length s"
  by (simp add: consumes_def)

lemma read_str_consumes: "consumes s (read_str s)"
proof (induction s rule: read_str.induct)
  case (2 c s)
  show ?case
  proof (cases "read_escape s")
    case None
    then show ?thesis using 2 by (simp add: consumes_cons)
  next
    case (Some p)
    obtain x r where p: "p = (x, r)" by fastforce
    have "consumes (c # s) (read_str r)" if "c \<noteq> CHR 0x22" "c = CHR 0x5C"
      using 2(1) [OF that Some p [symmetric]] read_escape_shorter [of s x r] Some p by (auto intro: consumes_mono)
    then show ?thesis using 2(2) by (simp add: Some p consumes_cons)
  qed
qed simp

lemma read_digits_consumes: "consumes s (read_digits s)"
  using length_dropWhile_le [of is_ascii_digit "tl s"] by (cases s) (simp_all add: read_digits_def less_Suc_eq_le)

lemma read_int_consumes: "consumes s (read_int s)"
  using read_digits_consumes [of s] consumes_cons [OF read_digits_consumes [of "tl s"]]
  by (cases s) (auto simp: read_int_def)

lemma startswith_length: "startswith s p \<Longrightarrow> length p \<le> length s"
  by (auto simp: startswith_iff_prefix prefix_def)

lemma read_atom_consumes: "consumes s (read_atom s)"
  using startswith_length [of s "''null''"] startswith_length [of s "''true''"] startswith_length [of s "''false''"]
  by (auto simp: read_atom_def read_int_consumes)

lemma consumes_items:
  assumes "consumes s v" "\<And>t. consumes t (items t)"
  shows "consumes s (case v of None \<Rightarrow> None | Some (x, r) \<Rightarrow>
    (case skip_ws r of [] \<Rightarrow> None | d # r' \<Rightarrow> if d = e then Some ([f x], r')
       else if d = CHR '','' then push (f x) (items (skip_ws r')) else None))"
proof (cases v)
  case (Some p)
  obtain x r where p: "p = (x, r)" by fastforce
  have r: "length r < length s" using assms(1) Some p by simp
  show ?thesis
  proof (cases "skip_ws r")
    case (Cons d r')
    have l: "length r' < length r" using Cons by (rule dropWhile_shorter)
    have "consumes s (items (skip_ws r'))"
      using l r length_dropWhile_le [of json_ws r'] by (intro consumes_mono [OF assms(2)]) simp
    then show ?thesis using l r by (simp add: Some p Cons)
  qed (simp add: Some p)
qed simp

lemma parse_Nil: "parse_value n [] = None" "parse_members n [] = None"
  by (cases n; simp)+

lemma parse_consumes:
  "\<forall>s. consumes s (parse_value n s)" "\<forall>s. consumes s (parse_items n s)" "\<forall>s. consumes s (parse_members n s)"
proof (induction n)
  case (Suc n)
  { case 1
    have "consumes s (parse_value (Suc n) (c # r))" if s: "s = c # r" for s c r
    proof (cases "skip_ws r")
      case Nil
      then show ?thesis using read_atom_consumes [of s] by (simp add: s consumes_cons read_str_consumes)
    next
      case (Cons d t)
      have l: "length (d # t) \<le> length s" using length_dropWhile_le [of json_ws r] by (simp add: s Cons [symmetric])
      have "consumes s (parse_items n (d # t))" "consumes s (parse_members n (d # t))"
        using Suc.IH(2,3) l by (blast intro: consumes_mono)+
      moreover have "consumes s (read_atom (c # r))" "consumes s (read_str r)"
        using read_atom_consumes [of s] by (simp_all add: s consumes_cons read_str_consumes)
      ultimately show ?thesis using l by (simp add: Cons)
    qed
    then show ?case by (metis neq_Nil_conv parse_Nil(1) consumes_simps(1))
  next
    case 2
    show ?case using consumes_items [OF spec [OF Suc.IH(1)] spec [OF Suc.IH(2)], where f = "\<lambda>x. x"] by simp
  next
    case 3
    have "consumes (q # t) (parse_members (Suc n) (q # t))" for q t
    proof (cases "read_str t")
      case (Some p)
      obtain k r where p: "p = (k, r)" by fastforce
      have r: "length r < length t" using read_str_consumes [of t] Some p by simp
      show ?thesis
      proof (cases "skip_ws r")
        case (Cons d r')
        have "consumes (q # t) (parse_value n (skip_ws r'))"
          using dropWhile_shorter [OF Cons] r length_dropWhile_le [of json_ws r']
          by (intro consumes_mono [OF spec [OF Suc.IH(1)]]) simp
        from consumes_items [OF this spec [OF Suc.IH(3)], where f = "Pair k" and e = "CHR ''}''"] show ?thesis
          by (cases "q = CHR 0x22") (simp_all add: Some p Cons)
      qed (simp add: Some p)
    qed simp
    then show ?case by (metis neq_Nil_conv parse_Nil(2) consumes_simps(1)) }
qed simp_all

lemma skip_shorter: "length (skip_ws s) \<le> length s"
  by (rule length_dropWhile_le)

lemmas parse_steps = parse_value.simps(2) parse_items.simps(2) parse_members.simps(2)

declare parse_steps [simp del]

lemma parse_stable:
  "\<forall>s. 2 * length s < n \<longrightarrow> parse_value (Suc n) s = parse_value n s"
  "\<forall>s. 2 * length s + 1 < n \<longrightarrow> parse_items (Suc n) s = parse_items n s"
  "\<forall>s. 2 * length s + 1 < n \<longrightarrow> parse_members (Suc n) s = parse_members n s"
proof (induction n)
  case (Suc n)
  { case 1
    show ?case
    proof (intro allI impI)
      fix s :: string
      assume b: "2 * length s < Suc n"
      show "parse_value (Suc (Suc n)) s = parse_value (Suc n) s"
      proof (cases s)
        case (Cons c r)
        have "parse_items (Suc n) (d # t) = parse_items n (d # t)" "parse_members (Suc n) (d # t) = parse_members n (d # t)"
          if "skip_ws r = d # t" for d t
          using Suc.IH(2,3) b Cons skip_shorter [of r] that by simp_all
        then show ?thesis
          by (simp add: Cons parse_value.simps(2) [of "Suc n"] parse_value.simps(2) [of n] split: list.split)
      qed (simp add: parse_Nil)
    qed
  next
    case 2
    show ?case
    proof (intro allI impI)
      fix s :: string
      assume b: "2 * length s + 1 < Suc n"
      have v: "parse_value (Suc n) s = parse_value n s" using Suc.IH(1) b by simp
      have "parse_items (Suc n) (skip_ws r') = parse_items n (skip_ws r')"
        if "parse_value n s = Some (x, r)" "skip_ws r = d # r'" for x r d r'
        using Suc.IH(2) b consumesD [OF spec [OF parse_consumes(1)] that(1)] dropWhile_shorter [OF that(2)] skip_shorter [of r'] by simp
      then show "parse_items (Suc (Suc n)) s = parse_items (Suc n) s"
        by (simp add: parse_items.simps(2) [of "Suc n"] parse_items.simps(2) [of n] v
          split: option.split list.split)
    qed
  next
    case 3
    show ?case
    proof (intro allI impI)
      fix s :: string
      assume b: "2 * length s + 1 < Suc n"
      show "parse_members (Suc (Suc n)) s = parse_members (Suc n) s"
      proof (cases s)
        case (Cons q t)
        have v: "parse_value (Suc n) (skip_ws r') = parse_value n (skip_ws r')"
          if "read_str t = Some (k, r)" "skip_ws r = d # r'" for k r d r'
          using Suc.IH(1) b Cons consumesD [OF read_str_consumes that(1)] dropWhile_shorter [OF that(2)] skip_shorter [of r'] by simp
        have "parse_members (Suc n) (skip_ws r3) = parse_members n (skip_ws r3)"
          if "read_str t = Some (k, r)" "skip_ws r = d # r'" "parse_value n (skip_ws r') = Some (x, r'')" "skip_ws r'' = e # r3"
          for k r d r' x r'' e r3
          using Suc.IH(3) b Cons consumesD [OF read_str_consumes that(1)] dropWhile_shorter [OF that(2)] skip_shorter [of r']
            consumesD [OF spec [OF parse_consumes(1)] that(3)] dropWhile_shorter [OF that(4)] skip_shorter [of r3] by simp
        then show ?thesis
          by (simp add: Cons parse_members.simps(2) [of "Suc n"] parse_members.simps(2) [of n] v
            split: option.split list.split)
      qed (simp add: parse_Nil)
    qed }
qed simp_all

text \<open>The bound \<open>loads\<close> puts on its recursion is never reached: on a text of length \<open>l\<close> every bound above \<open>2 * l\<close>
  gives the same result, so the result is that of the recursion without a bound.\<close>

theorem reader_bound_enough:
  "parse_value (2 * length s + 1 + k) s = parse_value (2 * length s + 1) s"
proof (induction k)
  case (Suc k)
  have "parse_value (Suc (2 * length s + 1 + k)) s = parse_value (2 * length s + 1 + k) s"
    using parse_stable(1) by (metis add.commute less_add_one trans_less_add1)
  then show ?case using Suc by simp
qed simp

declare parse_steps [simp]

end
