(* ===== verification/Json_Round.thy ===== *)
theory Json_Round imports Json_Read Wire_Formats "HOL-Library.Multiset" begin

text \<open>
  What \<open>json.dumps\<close> writes, \<open>json.loads\<close> reads back: every text with any blanks between the tokens is
  read as the value it renders, the compact, the spaced and the indented texts are such texts, and the
  bound on the recursion is never reached.
\<close>

section \<open>Strings and numbers\<close>

lemma hex_digit_val: "d < 16 \<Longrightarrow> hex_val (hex_digit d) = Some d"
  by (auto simp: hex_val_def hex_digit_def code_def Let_def)

lemma char_of_code [simp]: "char_of (code c) = c"
  by (simp add: code_def)

lemma read_escape_char:
  assumes "escape_char c \<noteq> [c]"
  shows "\<exists>e. escape_char c = CHR 0x5C # e \<and> (\<forall>t. read_escape (e @ t) = Some (c, t))"
proof -
  have "code c < 32 \<Longrightarrow> hex_number 0 [CHR ''0'', CHR ''0'', hex_digit (code c div 16), hex_digit (code c mod 16)] = Some (code c)"
    using hex_digit_val [of "code c div 16"] hex_digit_val [of "code c mod 16"] hex_digit_val [of 0]
    by (simp add: hex_val_def code_def)
  then show ?thesis
    using assms by (auto simp: escape_char_def read_escape_def unescape_def split: if_splits)
qed

lemma read_escaped: "read_str (escape_char c @ t) = push c (read_str t)"
proof (cases "escape_char c = [c]")
  case True
  then have "c \<noteq> CHR 0x22" "c \<noteq> CHR 0x5C" "\<not> code c < 32"
    by (auto simp: escape_char_def split: if_splits)
  with True show ?thesis by simp
next
  case False
  then obtain e where "escape_char c = CHR 0x5C # e" "\<And>t. read_escape (e @ t) = Some (c, t)"
    using read_escape_char by blast
  then show ?thesis by simp
qed

lemma read_dumped_str: "read_str (concat (map escape_char s) @ CHR 0x22 # r) = Some (s, r)"
  by (induction s) (simp_all add: read_escaped push_def)

lemma dumps_str_cons: "dumps_str s = CHR 0x22 # concat (map escape_char s) @ [CHR 0x22]"
  by (simp add: dumps_str_def)

text \<open>A number ends where no digit follows.\<close>

definition stops :: "string \<Rightarrow> bool" where
  "stops r \<longleftrightarrow> (\<forall>c t. r = c # t \<longrightarrow> \<not> is_ascii_digit c)"

lemma span_digits: "list_all is_ascii_digit ds \<Longrightarrow> stops r \<Longrightarrow>
    takeWhile is_ascii_digit (ds @ r) = ds \<and> dropWhile is_ascii_digit (ds @ r) = r"
  by (induction ds) (cases r; simp add: stops_def)+

lemma str_nat_head: "0 < n \<Longrightarrow> \<exists>c t. str_nat n = c # t \<and> c \<noteq> CHR ''0'' \<and> is_ascii_digit c"
proof (induction n rule: str_nat.induct)
  case (1 n)
  show ?case
  proof (cases "n < 10")
    case True
    then have "digit_char n \<noteq> CHR ''0''" using 1 by (auto simp: digit_char_def char_of_eq_iff take_bit_eq_mod)
    with True show ?thesis by (simp add: str_nat.simps [of n])
  next
    case False
    then have "0 < n div 10" by (simp add: div_greater_zero_iff)
    with False 1 obtain c t where "str_nat (n div 10) = c # t" "c \<noteq> CHR ''0''" "is_ascii_digit c" by blast
    with False show ?thesis by (simp add: str_nat.simps [of n])
  qed
qed

lemma read_nat: "stops r \<Longrightarrow> read_digits (str_nat n @ r) = Some (n, r)"
proof (cases n)
  case 0
  assume "stops r"
  have "str_nat 0 = ''0''" by code_simp
  then show ?thesis by (simp add: 0 read_digits_def)
next
  case (Suc m)
  assume r: "stops r"
  obtain c t where c: "str_nat n = c # t" "c \<noteq> CHR ''0''" "is_ascii_digit c" using str_nat_head [of n] Suc by auto
  have "takeWhile is_ascii_digit (c # t @ r) = c # t \<and> dropWhile is_ascii_digit (c # t @ r) = r"
    using span_digits [OF str_nat_digits [of n] r] c(1) by simp
  moreover have "nat_of_digits (c # t) = n" using nat_of_digits_str_nat [of n] c(1) by simp
  ultimately show ?thesis using c by (simp add: read_digits_def)
qed

lemma read_number: "stops r \<Longrightarrow> read_int (str_int i @ r) = Some (JInt i, r)"
proof -
  assume r: "stops r"
  have "hd (str_nat n @ r) \<noteq> CHR ''-''" "str_nat n @ r \<noteq> []" for n
    using digits_no_minus [OF str_nat_digits, of n] by (cases "str_nat n"; force)+
  then show ?thesis by (simp add: read_int_def str_int_def read_nat [OF r])
qed

section \<open>Texts of a value\<close>

abbreviation blanks :: "string \<Rightarrow> bool" where
  "blanks w \<equiv> list_all json_ws w"

inductive renders :: "json \<Rightarrow> string \<Rightarrow> bool"
  and renders_items :: "json list \<Rightarrow> string \<Rightarrow> bool"
  and renders_members :: "jobj \<Rightarrow> string \<Rightarrow> bool" where
  null: "renders JNull ''null''"
| true: "renders (JBool True) ''true''"
| false: "renders (JBool False) ''false''"
| int: "renders (JInt i) (str_int i)"
| str: "renders (JStr s) (dumps_str s)"
| no_items: "renders (JList []) ''[]''"
| items: "renders_items xs t \<Longrightarrow> blanks w \<Longrightarrow> renders (JList xs) (''['' @ w @ t @ '']'')"
| no_members: "renders (JObj []) ''{}''"
| members: "renders_members kvs t \<Longrightarrow> blanks w \<Longrightarrow> distinct (map fst kvs) \<Longrightarrow> renders (JObj kvs) (''{'' @ w @ t @ ''}'')"
| last_item: "renders x t \<Longrightarrow> blanks w \<Longrightarrow> renders_items [x] (t @ w)"
| item: "renders x t \<Longrightarrow> blanks w \<Longrightarrow> blanks w' \<Longrightarrow> renders_items xs ts \<Longrightarrow> renders_items (x # xs) (t @ w @ '','' @ w' @ ts)"
| last_member: "renders v t \<Longrightarrow> blanks w \<Longrightarrow> blanks w' \<Longrightarrow> renders_members [(k, v)] (dumps_str k @ '':'' @ w @ t @ w')"
| member: "renders v t \<Longrightarrow> blanks w \<Longrightarrow> blanks w' \<Longrightarrow> blanks w'' \<Longrightarrow> renders_members kvs ts
    \<Longrightarrow> renders_members ((k, v) # kvs) (dumps_str k @ '':'' @ w @ t @ w' @ '','' @ w'' @ ts)"

lemma skip_blanks [simp]: "blanks w \<Longrightarrow> skip_ws (w @ r) = skip_ws r"
  by (induction w) simp_all

lemma skip_nothing [simp]: "\<not> json_ws c \<Longrightarrow> skip_ws (c # r) = c # r"
  by simp

text \<open>How a text starts.\<close>

definition starts_value :: "string \<Rightarrow> bool" where
  "starts_value t \<longleftrightarrow> (\<exists>c r. t = c # r \<and> \<not> json_ws c \<and> c \<noteq> CHR '']'' \<and> c \<noteq> CHR ''}'')"

lemma digit_starts: "is_ascii_digit c \<Longrightarrow> \<not> json_ws c \<and> c \<noteq> CHR '']'' \<and> c \<noteq> CHR ''}'' \<and> c \<noteq> CHR 0x22 \<and> c \<noteq> CHR ''['' \<and> c \<noteq> CHR ''{''
    \<and> c \<noteq> CHR ''n'' \<and> c \<noteq> CHR ''t'' \<and> c \<noteq> CHR ''f''"
  by (auto simp: is_ascii_digit_def json_ws_def code_def)

lemma str_int_head: "\<exists>c t. str_int i = c # t \<and> (is_ascii_digit c \<or> c = CHR ''-'')"
proof -
  have "\<exists>c t. str_nat n = c # t \<and> is_ascii_digit c" for n
    using str_nat_digits [of n] by (cases "str_nat n") auto
  then show ?thesis unfolding str_int_def by fastforce
qed

lemma renders_start:
  "renders j t \<Longrightarrow> starts_value t"
  "renders_items xs t \<Longrightarrow> starts_value t"
  "renders_members kvs t \<Longrightarrow> \<exists>r. t = CHR 0x22 # r"
proof (induction rule: renders_renders_items_renders_members.inducts)
  case (int i)
  then show ?case using str_int_head [of i] by (auto simp: starts_value_def json_ws_def dest: digit_starts)
qed (auto simp: starts_value_def json_ws_def dumps_str_cons)

section \<open>Reading a text\<close>

lemma stops_blanks: "blanks w \<Longrightarrow> \<not> is_ascii_digit c \<Longrightarrow> stops (w @ c # r)"
  by (cases w) (auto simp: stops_def json_ws_def is_ascii_digit_def code_def)

lemma not_digits: "\<not> is_ascii_digit (CHR '','')" "\<not> is_ascii_digit (CHR '']'')" "\<not> is_ascii_digit (CHR ''}'')"
  by (simp_all add: is_ascii_digit_def code_def)

lemma not_blank: "\<not> json_ws (CHR '','')" "\<not> json_ws (CHR '']'')" "\<not> json_ws (CHR ''}'')" "\<not> json_ws (CHR '':'')" "\<not> json_ws (CHR 0x22)"
  by (simp_all add: json_ws_def)

lemma jset_fresh: "k \<notin> fst ` set d \<Longrightarrow> jset d k v = d @ [(k, v)]"
  by (induction d k v rule: jset.induct) auto

lemma jupdate_fresh: "distinct (map fst (d @ kvs)) \<Longrightarrow> jupdate d kvs = d @ kvs"
  unfolding jupdate_def
proof (induction kvs arbitrary: d)
  case (Cons p kvs)
  then show ?case using jset_fresh [of "fst p" d "snd p"] by (cases p) simp
qed simp

lemma read_atom_simps [simp]:
  "read_atom (''null'' @ r) = Some (JNull, r)" "read_atom (''true'' @ r) = Some (JBool True, r)"
  "read_atom (''false'' @ r) = Some (JBool False, r)"
  by (simp_all add: read_atom_def startswith_iff_prefix)

lemma parse_int: "stops r \<Longrightarrow> parse_value (Suc n) (str_int i @ r) = Some (JInt i, r)"
proof -
  assume r: "stops r"
  obtain c t where c: "str_int i = c # t" "is_ascii_digit c \<or> c = CHR ''-''" using str_int_head by blast
  then have "c \<noteq> CHR ''n''" "c \<noteq> CHR ''t''" "c \<noteq> CHR ''f''" "c \<noteq> CHR 0x22" "c \<noteq> CHR ''[''" "c \<noteq> CHR ''{''"
    using digit_starts by auto
  moreover have "read_int (c # t @ r) = Some (JInt i, r)" using read_number [OF r, of i] c(1) by simp
  ultimately show ?thesis by (simp add: c(1) read_atom_def startswith_iff_prefix)
qed

lemma at_depth:
  assumes "\<And>m r. stops r \<Longrightarrow> parse_value (Suc m) (t @ r) = Some (j, r)" "t \<noteq> []"
  shows "\<forall>n r. 2 * length t \<le> n \<longrightarrow> stops r \<longrightarrow> parse_value n (t @ r) = Some (j, r)"
proof (intro allI impI)
  fix n r
  assume "2 * length t \<le> n" "stops r"
  then show "parse_value n (t @ r) = Some (j, r)" using assms by (cases n) auto
qed

lemma starts_cons: "starts_value t \<Longrightarrow> \<exists>c u. t = c # u \<and> \<not> json_ws c \<and> c \<noteq> CHR '']'' \<and> c \<noteq> CHR ''}''"
  by (simp add: starts_value_def)

lemma parse_renders:
  "renders j t \<Longrightarrow> \<forall>n r. 2 * length t \<le> n \<longrightarrow> stops r \<longrightarrow> parse_value n (t @ r) = Some (j, r)"
  "renders_items xs t \<Longrightarrow> \<forall>n r. Suc (2 * length t) \<le> n \<longrightarrow> parse_items n (t @ CHR '']'' # r) = Some (xs, r)"
  "renders_members kvs t \<Longrightarrow> \<forall>n r. Suc (2 * length t) \<le> n \<longrightarrow> parse_members n (t @ CHR ''}'' # r) = Some (kvs, r)"
proof (induction rule: renders_renders_items_renders_members.inducts)
  case null
  show ?case by (rule at_depth) (use read_atom_simps(1) in simp_all)
next
  case true
  show ?case by (rule at_depth) (use read_atom_simps(2) in simp_all)
next
  case false
  show ?case by (rule at_depth) (use read_atom_simps(3) in simp_all)
next
  case (int i)
  show ?case using str_int_head [of i] by (intro at_depth parse_int) auto
next
  case (str s)
  show ?case by (rule at_depth) (simp_all add: dumps_str_cons read_dumped_str)
next
  case no_items
  show ?case by (rule at_depth) (simp_all add: not_blank)
next
  case (items xs t w)
  obtain c u where t: "t = c # u" "\<not> json_ws c" "c \<noteq> CHR '']''" using renders_start(2) [OF items.hyps(1)] starts_cons by blast
  show ?case
  proof (intro allI impI)
    fix n r
    assume "2 * length (''['' @ w @ t @ '']'') \<le> n"
    then obtain m where m: "n = Suc m" "Suc (2 * length t) \<le> m" by (cases n) auto
    have "parse_items m (c # u @ CHR '']'' # r) = Some (xs, r)" using items.IH m(2) t(1) by simp
    then show "parse_value n ((''['' @ w @ t @ '']'') @ r) = Some (JList xs, r)"
      using items.hyps(2) t by (simp add: m(1))
  qed
next
  case no_members
  show ?case by (rule at_depth) (simp_all add: not_blank)
next
  case (members kvs t w)
  obtain u where t: "t = CHR 0x22 # u" using renders_start(3) [OF members.hyps(1)] by blast
  show ?case
  proof (intro allI impI)
    fix n r
    assume "2 * length (''{'' @ w @ t @ ''}'') \<le> n"
    then obtain m where m: "n = Suc m" "Suc (2 * length t) \<le> m" by (cases n) auto
    have "parse_members m (CHR 0x22 # u @ CHR ''}'' # r) = Some (kvs, r)" using members.IH m(2) t by simp
    then show "parse_value n ((''{'' @ w @ t @ ''}'') @ r) = Some (JObj kvs, r)"
      using members.hyps(2,3) by (simp add: m(1) t not_blank jupdate_fresh [of "[]"])
  qed
next
  case (last_item x t w)
  show ?case
  proof (intro allI impI)
    fix n r
    assume "Suc (2 * length (t @ w)) \<le> n"
    then obtain m where m: "n = Suc m" "2 * length t \<le> m" by (cases n) auto
    have "parse_value m (t @ w @ CHR '']'' # r) = Some (x, w @ CHR '']'' # r)"
      using last_item.IH last_item.hyps(2) m(2) by (simp add: stops_blanks not_digits)
    then show "parse_items n ((t @ w) @ CHR '']'' # r) = Some ([x], r)" using last_item.hyps(2) by (simp add: m(1) not_blank)
  qed
next
  case (item x t w w' xs ts)
  obtain c u where ts: "ts = c # u" "\<not> json_ws c" using renders_start(2) [OF item.hyps(4)] starts_cons by blast
  show ?case
  proof (intro allI impI)
    fix n r
    assume "Suc (2 * length (t @ w @ '','' @ w' @ ts)) \<le> n"
    then obtain m where m: "n = Suc m" "2 * length t \<le> m" "Suc (2 * length ts) \<le> m" by (cases n) auto
    have "parse_value m (t @ w @ CHR '','' # w' @ ts @ CHR '']'' # r) = Some (x, w @ CHR '','' # w' @ ts @ CHR '']'' # r)"
      using item.IH(1) item.hyps(2) m(2) by (simp add: stops_blanks not_digits)
    moreover have "parse_items m (ts @ CHR '']'' # r) = Some (xs, r)" using item.IH(2) m(3) by blast
    ultimately show "parse_items n ((t @ w @ '','' @ w' @ ts) @ CHR '']'' # r) = Some (x # xs, r)"
      using item.hyps(2,3) ts by (simp add: m(1) not_blank push_def)
  qed
next
  case (last_member v t w w' k)
  obtain c u where t: "t = c # u" "\<not> json_ws c" using renders_start(1) [OF last_member.hyps(1)] starts_cons by blast
  show ?case
  proof (intro allI impI)
    fix n r
    assume "Suc (2 * length (dumps_str k @ '':'' @ w @ t @ w')) \<le> n"
    then obtain m where m: "n = Suc m" "2 * length t \<le> m" by (cases n) auto
    have "parse_value m (t @ w' @ CHR ''}'' # r) = Some (v, w' @ CHR ''}'' # r)"
      using last_member.IH last_member.hyps m(2) by (simp add: stops_blanks not_digits)
    then show "parse_members n ((dumps_str k @ '':'' @ w @ t @ w') @ CHR ''}'' # r) = Some ([(k, v)], r)"
      using last_member.hyps(2,3) t by (simp add: m(1) not_blank dumps_str_cons read_dumped_str)
  qed
next
  case (member v t w w' w'' kvs ts k)
  obtain c u where t: "t = c # u" "\<not> json_ws c" using renders_start(1) [OF member.hyps(1)] starts_cons by blast
  obtain u' where ts: "ts = CHR 0x22 # u'" using renders_start(3) [OF member.hyps(5)] by blast
  show ?case
  proof (intro allI impI)
    fix n r
    assume "Suc (2 * length (dumps_str k @ '':'' @ w @ t @ w' @ '','' @ w'' @ ts)) \<le> n"
    then obtain m where m: "n = Suc m" "2 * length t \<le> m" "Suc (2 * length ts) \<le> m" by (cases n) auto
    have "parse_value m (t @ w' @ CHR '','' # w'' @ ts @ CHR ''}'' # r) = Some (v, w' @ CHR '','' # w'' @ ts @ CHR ''}'' # r)"
      using member.IH(1) member.hyps(3) m(2) by (simp add: stops_blanks not_digits)
    moreover have "parse_members m (ts @ CHR ''}'' # r) = Some (kvs, r)" using member.IH(2) m(3) by blast
    ultimately show "parse_members n ((dumps_str k @ '':'' @ w @ t @ w' @ '','' @ w'' @ ts) @ CHR ''}'' # r) = Some ((k, v) # kvs, r)"
      using member.hyps(2-4) t ts by (simp add: m(1) not_blank dumps_str_cons read_dumped_str push_def)
  qed
qed

lemma loads_renders: "renders j t \<Longrightarrow> blanks w \<Longrightarrow> blanks w' \<Longrightarrow> loads (w @ t @ w') = Some j"
proof -
  assume j: "renders j t" and w: "blanks w" "blanks w'"
  obtain c u where t: "t = c # u" "\<not> json_ws c" using renders_start(1) [OF j] starts_cons by blast
  have "stops w'" using w(2) by (cases w') (auto simp: stops_def json_ws_def is_ascii_digit_def code_def)
  then have "parse_value (2 * length (w @ t @ w') + 1) (t @ w') = Some (j, w')"
    using parse_renders(1) [OF j] by (simp del: parse_value.simps)
  moreover have "skip_ws w' = []" using w(2) skip_blanks [of w' "[]"] by simp
  ultimately show ?thesis using w(1) t by (simp add: loads_def del: parse_value.simps)
qed

section \<open>The texts of \<open>json.dumps\<close>\<close>

text \<open>Objects have distinct keys, as \<open>dict\<close>s do.\<close>

fun json_wf :: "json \<Rightarrow> bool" where
  "json_wf (JList xs) = list_all json_wf xs"
| "json_wf (JObj kvs) = (distinct (map fst kvs) \<and> list_all (\<lambda>(k, v). json_wf v) kvs)"
| "json_wf j = True"

lemma join_items:
  assumes "\<And>x. x \<in> set xs \<Longrightarrow> renders x (f x)" "blanks w" "blanks e" "xs \<noteq> []"
  shows "renders_items xs (join (CHR '','' # w) (map f xs) @ e)"
  using assms(1,4)
proof (induction xs)
  case (Cons x xs)
  show ?case
  proof (cases xs)
    case Nil
    then show ?thesis using last_item [OF Cons.prems(1) assms(3)] by simp
  next
    case (Cons y ys)
    then show ?thesis
      using item [OF Cons.prems(1), of x "[]" w xs "join (CHR '','' # w) (map f xs) @ e"] Cons.IH Cons.prems(1) assms(2) by simp
  qed
qed simp

lemma join_members:
  assumes "\<And>k v. (k, v) \<in> set kvs \<Longrightarrow> renders v (f v)" "blanks w" "blanks w'" "blanks e" "kvs \<noteq> []"
  shows "renders_members kvs (join (CHR '','' # w) (map (\<lambda>(k, v). dumps_str k @ CHR '':'' # w' @ f v) kvs) @ e)"
  using assms(1,5)
proof (induction kvs)
  case (Cons p kvs)
  obtain k v where p: "p = (k, v)" by fastforce
  have v: "renders v (f v)" using Cons.prems(1) [of k v] p by simp
  show ?case
  proof (cases kvs)
    case Nil
    then show ?thesis using last_member [OF v assms(3,4)] by (simp add: p)
  next
    case (Cons q qs)
    then have "renders_members kvs (join (CHR '','' # w) (map (\<lambda>(k, v). dumps_str k @ CHR '':'' # w' @ f v) kvs) @ e)"
      using Cons.prems(1) by (intro Cons.IH) auto
    then show ?thesis
      using Cons member [OF v assms(3), of "[]" w kvs "join (CHR '','' # w) (map (\<lambda>(k, v). dumps_str k @ CHR '':'' # w' @ f v) kvs) @ e" k]
        assms(2) by (simp add: p)
  qed
qed simp

lemma renders_dumps:
  "json_wf j \<Longrightarrow> blanks w \<Longrightarrow> blanks w' \<Longrightarrow> renders j (dumps (CHR '','' # w) (CHR '':'' # w') j)"
proof (induction j)
  case (JBool b)
  then show ?case by (cases b) (simp_all add: true false)
next
  case (JList xs)
  show ?case
  proof (cases "xs = []")
    case False
    have "renders_items xs (join (CHR '','' # w) (map (dumps (CHR '','' # w) (CHR '':'' # w')) xs) @ [])"
      using JList False by (intro join_items) (auto simp: list_all_iff)
    from items [OF this, of "[]"] show ?thesis by simp
  qed (simp add: no_items)
next
  case (JObj kvs)
  show ?case
  proof (cases "kvs = []")
    case False
    have "renders_members kvs (join (CHR '','' # w) (map (\<lambda>(k, v). dumps_str k @ CHR '':'' # w' @ dumps (CHR '','' # w) (CHR '':'' # w') v) kvs) @ [])"
      using JObj False by (intro join_members) (fastforce simp: list_all_iff)+
    from members [OF this, of "[]"] JObj.prems show ?thesis by (simp add: case_prod_beta)
  qed (simp add: no_members)
qed (simp_all add: null int str)

lemma blanks_indent: "blanks (indent_of n)"
  by (simp add: indent_of_def json_ws_def list_all_iff)

lemma renders_indented: "json_wf j \<Longrightarrow> renders j (dumps_indented n j)"
proof (induction j arbitrary: n)
  case (JBool b)
  then show ?case by (cases b) (simp_all add: true false)
next
  case (JList xs)
  show ?case
  proof (cases "xs = []")
    case False
    have "renders_items xs (join (CHR '','' # indent_of (Suc n)) (map (dumps_indented (Suc n)) xs) @ indent_of n)"
      using JList False by (intro join_items blanks_indent) (auto simp: list_all_iff)
    from items [OF this blanks_indent] False show ?thesis by simp
  qed (simp add: no_items)
next
  case (JObj kvs)
  show ?case
  proof (cases "kvs = []")
    case False
    have "renders_members kvs (join (CHR '','' # indent_of (Suc n))
        (map (\<lambda>(k, v). dumps_str k @ CHR '':'' # '' '' @ dumps_indented (Suc n) v) kvs) @ indent_of n)"
      using JObj False by (intro join_members blanks_indent) (fastforce simp: list_all_iff json_ws_def)+
    from members [OF this blanks_indent] JObj.prems False show ?thesis by simp
  qed (simp add: no_members)
qed (simp_all add: null int str)

lemma loads_dumps: "json_wf j \<Longrightarrow> loads (dumps '', '' '': '' j) = Some j"
  using loads_renders [OF renders_dumps [of j "'' ''" "'' ''"], of "[]" "[]"] by (simp add: json_ws_def)

lemma loads_compact: "json_wf j \<Longrightarrow> loads (dumps '','' '':'' j) = Some j"
  using loads_renders [OF renders_dumps [of j "[]" "[]"], of "[]" "[]"] by simp

section \<open>Sorted keys\<close>

lemma sort_keys_wf [simp]: "json_wf j \<Longrightarrow> json_wf (sort_keys j)"
proof (induction j)
  case (JObj kvs)
  have "map fst (map (\<lambda>(k, v). (k, sort_keys v)) kvs) = map fst kvs" by (simp add: case_prod_beta comp_def)
  then have "mset (map fst (sort_key fst (map (\<lambda>(k, v). (k, sort_keys v)) kvs))) = mset (map fst kvs)"
    by (metis mset_map mset_sort)
  then have "distinct (map fst (sort_key fst (map (\<lambda>(k, v). (k, sort_keys v)) kvs)))"
    using JObj.prems mset_eq_imp_distinct_iff by fastforce
  moreover have "json_wf (sort_keys v)" if "(k, v) \<in> set kvs" for k v
    using JObj.IH [OF that, of v] JObj.prems that by (auto simp: list_all_iff)
  ultimately show ?case by (auto simp: list_all_iff)
qed (auto simp: list_all_iff)

lemma loads_dump_json: "json_wf j \<Longrightarrow> loads (dump_json j) = Some (sort_keys j)"
  using loads_renders [OF renders_indented [OF sort_keys_wf], of j "[]" "[CHR 0x0A]" 0] by (simp add: dump_json_def json_ws_def)

lemma sort_key_perm:
  assumes "mset xs = mset ys" "distinct (map fst xs)"
  shows "sort_key fst xs = sort_key fst ys"
proof (rule map_sorted_distinct_set_unique [where f = fst])
  have m: "mset (sort_key fst xs) = mset xs" "mset (sort_key fst ys) = mset ys" by simp_all
  show "inj_on fst (set (sort_key fst xs) \<union> set (sort_key fst ys))"
    using assms m by (metis Un_absorb distinct_map mset_eq_setD)
  show "distinct (map fst (sort_key fst xs))" "distinct (map fst (sort_key fst ys))"
    using assms m by (metis mset_eq_imp_distinct_iff mset_map)+
  show "set (sort_key fst xs) = set (sort_key fst ys)" using assms(1) by (metis mset_eq_setD m)
qed simp_all

text \<open>Two JSON values that differ in the order of the keys of objects only, at any depth.\<close>

inductive json_perm :: "json \<Rightarrow> json \<Rightarrow> bool" where
  null: "json_perm JNull JNull"
| bool: "json_perm (JBool b) (JBool b)"
| int: "json_perm (JInt i) (JInt i)"
| str: "json_perm (JStr s) (JStr s)"
| list: "list_all2 json_perm xs ys \<Longrightarrow> json_perm (JList xs) (JList ys)"
| obj: "distinct (map fst kvs) \<Longrightarrow> distinct (map fst lws) \<Longrightarrow> list_all2 (\<lambda>a b. fst a = fst b \<and> json_perm (snd a) (snd b)) kvs kws
    \<Longrightarrow> mset kws = mset lws \<Longrightarrow> json_perm (JObj kvs) (JObj lws)"
monos list_all2_mono

lemma perm_sorted: "json_perm a b \<Longrightarrow> sort_keys a = sort_keys b"
proof (induction rule: json_perm.induct)
  case (list xs ys)
  then have "map sort_keys xs = map sort_keys ys" by (induction rule: list_all2_induct) simp_all
  then show ?case by simp
next
  case (obj kvs lws kws)
  let ?g = "\<lambda>(k, v). (k, sort_keys v)"
  have "list_all2 (\<lambda>a b. ?g a = ?g b) kvs kws" using obj.IH by (rule list_all2_mono) auto
  then have "map ?g kvs = map ?g kws" by (induction rule: list_all2_induct) simp_all
  then have "mset (map ?g kvs) = mset (map ?g lws)" using obj.hyps(3) by (metis mset_map)
  moreover have "distinct (map fst (map ?g kvs))" using obj.hyps(1) by (simp add: case_prod_beta comp_def)
  ultimately show ?case using sort_key_perm by fastforce
qed simp_all

lemma sorted_perm: "json_wf a \<Longrightarrow> json_wf b \<Longrightarrow> sort_keys a = sort_keys b \<Longrightarrow> json_perm a b"
proof (induction a arbitrary: b)
  case (JList xs)
  from JList.prems obtain ys where b: "b = JList ys" by (cases b) auto
  then have "map sort_keys xs = map sort_keys ys" using JList.prems by simp
  then have "list_all2 json_perm xs ys"
    using JList b by (auto simp: list_all2_conv_all_nth list_all_length map_equality_iff)
  then show ?case by (simp add: b json_perm.list)
next
  case (JObj kvs)
  from JObj.prems obtain lws where b: "b = JObj lws" by (cases b) auto
  let ?g = "\<lambda>(k, v). (k, sort_keys v)"
  let ?kws = "map (\<lambda>(k, v). (k, the (map_of lws k))) kvs"
  have d: "distinct (map fst kvs)" "distinct (map fst lws)" using JObj.prems b by simp_all
  have "sort_key fst (map ?g kvs) = sort_key fst (map ?g lws)" using JObj.prems(3) b by simp
  then have "mset (sort_key fst (map ?g kvs)) = mset (sort_key fst (map ?g lws))" by (rule arg_cong)
  then have "mset (map ?g kvs) = mset (map ?g lws)" by simp
  then have g: "?g ` set kvs = ?g ` set lws" by (metis mset_eq_setD set_map)
  have keys: "fst ` set kvs = fst ` set lws"
    using arg_cong [OF g, of "(`) fst"] by (simp add: image_image case_prod_beta)
  have rel: "(k, the (map_of lws k)) \<in> set lws \<and> sort_keys v = sort_keys (the (map_of lws k))" if "(k, v) \<in> set kvs" for k v
  proof -
    have "(k, sort_keys v) \<in> ?g ` set kvs" using that by (rule rev_image_eqI) simp
    then have "(k, sort_keys v) \<in> ?g ` set lws" by (simp only: g)
    then obtain u where u: "(k, u) \<in> set lws" "sort_keys v = sort_keys u" by auto
    have "map_of lws k = Some u" using d(2) u(1) by (rule map_of_is_SomeI)
    then show ?thesis using u by simp
  qed
  have "json_perm v (the (map_of lws k))" if "(k, v) \<in> set kvs" for k v
  proof -
    have "json_wf v" using JObj.prems(1) that by (auto simp: list_all_iff)
    moreover have "json_wf (the (map_of lws k))" using JObj.prems(2) rel [OF that] unfolding b by (auto simp: list_all_iff)
    ultimately show ?thesis using JObj.IH [OF that, of v] rel [OF that] by simp
  qed
  then have "list_all2 (\<lambda>a b. fst a = fst b \<and> json_perm (snd a) (snd b)) kvs ?kws"
    by (auto simp: list_all2_map2 list_all2_same)
  moreover have "mset ?kws = mset lws"
  proof -
    have "distinct (map fst ?kws)" using d(1) by (simp add: case_prod_beta comp_def)
    then have "distinct ?kws" by (rule distinct_map [THEN iffD1, THEN conjunct1])
    moreover have "set ?kws = set lws"
    proof
      show "set ?kws \<subseteq> set lws" using rel by auto
      show "set lws \<subseteq> set ?kws"
      proof
        fix p
        assume p: "p \<in> set lws"
        then obtain v where v: "(fst p, v) \<in> set kvs" using keys by (metis imageE imageI prod.collapse)
        have "map_of lws (fst p) = Some (snd p)" using d(2) p by (simp add: map_of_is_SomeI)
        with v show "p \<in> set ?kws" by force
      qed
    qed
    moreover have "distinct lws" using d(2) by (simp add: distinct_map)
    ultimately show ?thesis by (simp only: set_eq_iff_mset_eq_distinct)
  qed
  ultimately show ?case unfolding b by (intro json_perm.obj d)
next
  case (JStr s)
  then show ?case by (cases b) (auto intro: json_perm.intros)
next
  case (JBool s)
  then show ?case by (cases b) (auto intro: json_perm.intros)
next
  case (JInt s)
  then show ?case by (cases b) (auto intro: json_perm.intros)
next
  case JNull
  then show ?case by (cases b) (auto intro: json_perm.intros)
qed

end
