(* ===== verification/Durable_Text.thy ===== *)
theory Durable_Text imports Json_Round State_Store begin

text \<open>
  \<open>durable_io.py\<close> at the level of text: the files of the state directory, reading JSON and JSON lines,
  the atomic write and the retry of its \<open>os.replace\<close>.

  A write can fail before the replacement (the old text stays), in the replacement, or after it when
  the directory is synced (the new text stays although the call raises); \<open>mkdir\<close> fails outside of the
  \<open>try\<close>.  \<open>td_faults\<close> says what happens to the writes to come.  UTF-8 decoding is the identity on
  Latin-1 texts; text that is not UTF-8 is \<open>Unreadable\<close>.
\<close>

section \<open>Replacing with retries\<close>

datatype replace_outcome = Replaced | Denied string | Failed string

text \<open>\<open>_replace_with_retry\<close>: \<open>out i\<close> is what the attempt \<open>i\<close> meets, \<open>clock i\<close> the reading number \<open>i\<close> of
  \<open>time.monotonic\<close> in milliseconds.  The result comes with the number of the last attempt.\<close>

partial_function (option) replace_loop ::
  "(nat \<Rightarrow> replace_outcome) \<Rightarrow> (nat \<Rightarrow> nat) \<Rightarrow> nat \<Rightarrow> nat \<Rightarrow> (unit res \<times> nat) option" where
  "replace_loop out clock deadline i = (case out i of
     Replaced \<Rightarrow> Some (Inr (), i)
   | Failed m \<Rightarrow> Some (Inl (OSError m), i)
   | Denied m \<Rightarrow> if deadline \<le> clock (Suc i) then Some (Inl (OSError m), i) else replace_loop out clock deadline (Suc i))"

definition replace_with_retry :: "(nat \<Rightarrow> replace_outcome) \<Rightarrow> (nat \<Rightarrow> nat) \<Rightarrow> (unit res \<times> nat) option" where
  "replace_with_retry out clock = replace_loop out clock (clock 0 + 500) 0"

section \<open>Files\<close>

datatype write_fault = No_Fault | No_Directory string | Before_Replace string | After_Replace string

record text_disk =
  td_files :: "path \<Rightarrow> string durable"
  td_faults :: "write_fault list"

definition unwritable :: "path \<Rightarrow> string \<Rightarrow> exn" where
  "unwritable p m = DurableIOError (''Could not durably write '' @ path_str p @ '': '' @ m)"

definition atomic_write_text :: "path \<Rightarrow> string \<Rightarrow> (text_disk, unit) op" where
  "atomic_write_text p t = (\<lambda>d.
     let new = d\<lparr>td_files := (td_files d)(p := Content t), td_faults := tl (td_faults d)\<rparr>;
         old = d\<lparr>td_faults := tl (td_faults d)\<rparr>
     in case td_faults d of
          [] \<Rightarrow> (Inr (), new)
        | f # fs \<Rightarrow> (case f of
            No_Fault \<Rightarrow> (Inr (), new)
          | No_Directory m \<Rightarrow> (Inl (OSError m), old)
          | Before_Replace m \<Rightarrow> (Inl (unwritable p m), old)
          | After_Replace m \<Rightarrow> (Inl (unwritable p m), new)))"

definition atomic_write_json :: "path \<Rightarrow> json \<Rightarrow> (text_disk, unit) op" where
  "atomic_write_json p payload = atomic_write_text p (dumps_indented 0 payload @ [CHR 0x0A])"

text \<open>Text mode: CR LF and CR are read as LF.\<close>

fun universal_newlines :: "string \<Rightarrow> string" where
  "universal_newlines [] = []"
| "universal_newlines (c # s) =
     (if c = CHR 0x0D then (if s \<noteq> [] \<and> hd s = CHR 0x0A then universal_newlines s else CHR 0x0A # universal_newlines s)
      else c # universal_newlines s)"

definition read_json_file :: "path \<Rightarrow> json \<Rightarrow> text_disk \<Rightarrow> json res" where
  "read_json_file p dflt d = (case td_files d p of
     Missing \<Rightarrow> Inr dflt
   | Unreadable m \<Rightarrow> Inl (DurableIOError (''Corrupted or unreadable JSON state at '' @ path_str p @ '': '' @ m))
   | Content t \<Rightarrow> (case loads (universal_newlines t) of
       None \<Rightarrow> Inl (DurableIOError (''Corrupted or unreadable JSON state at '' @ path_str p))
     | Some j \<Rightarrow> Inr j))"

text \<open>The lines of a log, numbered from 1; blank ones are skipped.\<close>

fun read_lines :: "path \<Rightarrow> nat \<Rightarrow> string list \<Rightarrow> json list res" where
  "read_lines p n [] = Inr []"
| "read_lines p n (l # ls) =
     (if strip l = [] then read_lines p (Suc n) ls
      else case loads l of
        None \<Rightarrow> Inl (DurableIOError (''Corrupted JSONL state at '' @ path_str p @ '':'' @ str_nat n))
      | Some j \<Rightarrow> rbind (read_lines p (Suc n) ls) (\<lambda>js. Inr (j # js)))"

definition read_jsonl_file :: "path \<Rightarrow> text_disk \<Rightarrow> json list res" where
  "read_jsonl_file p d = (case td_files d p of
     Missing \<Rightarrow> Inr []
   | Unreadable m \<Rightarrow> Inl (DurableIOError (''Could not read JSONL state at '' @ path_str p @ '': '' @ m))
   | Content t \<Rightarrow> read_lines p 1 (splitlines (universal_newlines t)))"

definition record_line :: "json \<Rightarrow> string" where
  "record_line j = dumps '', '' '': '' (sort_keys j) @ [CHR 0x0A]"

definition jsonl_text :: "json list \<Rightarrow> string" where
  "jsonl_text js = concat (map record_line js)"

definition append_jsonl_file :: "path \<Rightarrow> json \<Rightarrow> (text_disk, unit) op" where
  "append_jsonl_file p payload =
     mbind (gets (read_jsonl_file p)) (\<lambda>records. atomic_write_text p (jsonl_text (records @ [payload])))"

end
