(* ===== verification/Durable_Props.thy ===== *)
theory Durable_Props imports Durable_Text Patch_Text begin

text \<open>
  The durable files at the level of text: the retry of the replacement ends, what is appended is read
  back, and which texts a log cannot hold.
\<close>

section \<open>The retry ends\<close>

lemma replace_loop_ends:
  assumes "\<And>n. clock n + 10 \<le> clock (Suc n)" "deadline \<le> clock (Suc (i + k))"
  shows "\<exists>r j. replace_loop out clock deadline i = Some (r, j) \<and> j \<le> i + k"
  using assms(2)
proof (induction k arbitrary: i)
  case 0
  then show ?case by (subst replace_loop.simps) (auto split: replace_outcome.split)
next
  case (Suc k)
  have "\<exists>r j. replace_loop out clock deadline (Suc i) = Some (r, j) \<and> j \<le> Suc i + k"
    by (rule Suc.IH) (use Suc.prems in simp)
  then show ?case by (subst replace_loop.simps) (auto split: replace_outcome.split)
qed

lemma clock_after: "(\<And>n. clock n + 10 \<le> clock (Suc n)) \<Longrightarrow> clock (0::nat) + 10 * n \<le> clock n" for clock :: "nat \<Rightarrow> nat"
proof (induction n)
  case (Suc n)
  then have "clock 0 + 10 * n \<le> clock n" "clock n + 10 \<le> clock (Suc n)" by blast+
  then show ?case by simp
qed simp



section \<open>The lines of a record\<close>

text \<open>The characters of the strings and keys of a value.\<close>

fun json_chars :: "json \<Rightarrow> char set" where
  "json_chars (JStr s) = set s"
| "json_chars (JList xs) = (\<Union>x\<in>set xs. json_chars x)"
| "json_chars (JObj kvs) = (\<Union>(k, v)\<in>set kvs. set k \<union> json_chars v)"
| "json_chars j = {}"

definition line_safe :: "json \<Rightarrow> bool" where
  "line_safe j \<longleftrightarrow> CHR 0x85 \<notin> json_chars j"

lemma hex_digit_plain: "d < 16 \<Longrightarrow> \<not> is_linebreak (hex_digit d)"
  by (auto simp: hex_digit_def is_linebreak_def code_def Let_def)

lemma next_line: "code c = 133 \<Longrightarrow> c = CHR 0x85"
proof -
  assume "code c = 133"
  then have "c = char_of (133 :: nat)" by (metis char_of_code)
  moreover have "char_of (133 :: nat) = CHR 0x85" by code_simp
  ultimately show ?thesis by simp
qed

lemma plain_chars: "\<not> is_linebreak (CHR 0x5C)" "\<not> is_linebreak (CHR 0x22)" "\<not> is_linebreak (CHR ''n'')" "\<not> is_linebreak (CHR ''r'')"
    "\<not> is_linebreak (CHR ''t'')" "\<not> is_linebreak (CHR ''f'')" "\<not> is_linebreak (CHR ''b'')" "\<not> is_linebreak (CHR ''u'')" "\<not> is_linebreak (CHR ''0'')"
  by (simp_all add: is_linebreak_def code_def)

lemma escape_breaks: "c \<in> set (escape_char d) \<Longrightarrow> is_linebreak c \<Longrightarrow> c = CHR 0x85 \<and> d = CHR 0x85"
proof (cases "escape_char d = [d]")
  case True
  assume c: "c \<in> set (escape_char d)" "is_linebreak c"
  have "\<not> code d < 32" using True by (auto simp: escape_char_def split: if_splits)
  then have "code d = 133" using c True by (auto simp: is_linebreak_def Let_def)
  then show ?thesis using c True next_line by simp
next
  case False
  have "\<not> is_linebreak (hex_digit (code d div 16))" "\<not> is_linebreak (hex_digit (code d mod 16))" if "code d < 32"
    using that by (auto intro!: hex_digit_plain)
  then have "\<forall>x \<in> set (escape_char d). \<not> is_linebreak x"
    using False plain_chars unfolding escape_char_def by (auto split: if_splits)
  then show "c \<in> set (escape_char d) \<Longrightarrow> is_linebreak c \<Longrightarrow> c = CHR 0x85 \<and> d = CHR 0x85" by blast
qed

lemma dumps_str_breaks: "c \<in> set (dumps_str s) \<Longrightarrow> is_linebreak c \<Longrightarrow> c = CHR 0x85 \<and> c \<in> set s"
  using escape_breaks plain_chars(2) by (fastforce simp: dumps_str_def)

lemma set_join: "set (join sep xs) \<subseteq> set sep \<union> (\<Union>x\<in>set xs. set x)"
  by (induction sep xs rule: join.induct) auto

lemma digits_plain: "is_ascii_digit c \<Longrightarrow> \<not> is_linebreak c"
  by (auto simp: is_ascii_digit_def is_linebreak_def Let_def)

lemma str_int_plain: "c \<in> set (str_int i) \<Longrightarrow> \<not> is_linebreak c"
  using str_nat_digits digits_plain by (auto simp: str_int_def list_all_iff is_linebreak_def code_def split: if_splits)

lemma dumps_breaks: "c \<in> set (dumps '', '' '': '' j) \<Longrightarrow> is_linebreak c \<Longrightarrow> c = CHR 0x85 \<and> c \<in> json_chars j"
proof (induction j)
  case JNull
  then show ?case by (auto simp: is_linebreak_def code_def)
next
  case (JBool b)
  then show ?case by (cases b) (auto simp: is_linebreak_def code_def)
next
  case (JInt i)
  then show ?case using str_int_plain by auto
next
  case (JStr s)
  then show ?case using dumps_str_breaks by auto
next
  case (JList xs)
  have "c \<notin> set ''[], ''" using JList.prems(2) by (auto simp: is_linebreak_def code_def)
  then obtain x where "x \<in> set xs" "c \<in> set (dumps '', '' '': '' x)"
    using JList.prems(1) set_join [of "'', ''" "map (dumps '', '' '': '') xs"] by auto
  then show ?case using JList.IH JList.prems(2) by auto
next
  case (JObj kvs)
  have sep: "c \<notin> set ''{}, :''" using JObj.prems(2) by (auto simp: is_linebreak_def code_def)
  then obtain k v where kv: "(k, v) \<in> set kvs" "c \<in> set (dumps_str k) \<or> c \<in> set (dumps '', '' '': '' v)"
    using JObj.prems(1) set_join [of "'', ''" "map (\<lambda>(k, v). dumps_str k @ '': '' @ dumps '', '' '': '' v) kvs"] by fastforce
  then show ?case using JObj.IH [OF kv(1), of v] JObj.prems(2) dumps_str_breaks [of c k] by auto
qed

section \<open>A text cut short\<close>

declare dropWhile_eq_Nil_conv [simp del]

lemma read_escape_extend: "read_escape u = Some (c, r) \<Longrightarrow> read_escape (u @ x) = Some (c, r @ x)"
  by (auto simp: read_escape_def split: list.splits if_splits option.splits)

lemma push_Some_iff: "push x m = Some (ys, r) \<longleftrightarrow> (\<exists>xs. m = Some (xs, r) \<and> ys = x # xs)"
  by (auto simp: push_def)

lemma read_str_extend: "read_str u = Some (s, r) \<Longrightarrow> read_str (u @ x) = Some (s, r @ x)"
proof (induction u arbitrary: s r rule: read_str.induct)
  case (2 c u)
  show ?case
  proof (cases "c = CHR 0x5C")
    case True
    then obtain e v where v: "read_escape u = Some (e, v)" using 2(3) by (auto split: option.splits)
    show ?thesis using 2(3) 2(1) [OF _ True v refl] True read_escape_extend [OF v] by (auto simp: v push_Some_iff)
  next
    case False
    show ?thesis
    proof (cases "c = CHR 0x22")
      case False
      then show ?thesis using 2(2,3) \<open>c \<noteq> CHR 0x5C\<close> by (auto simp: push_Some_iff split: if_splits)
    qed (use 2(3) in simp)
  qed
qed simp

lemma dropWhile_extend: "dropWhile P u = d # r \<Longrightarrow> dropWhile P (u @ x) = d # r @ x \<and> takeWhile P (u @ x) = takeWhile P u"
  by (induction u) (auto split: if_splits)

lemma read_digits_extend: "read_digits u = Some (n, r) \<Longrightarrow> r \<noteq> [] \<Longrightarrow> read_digits (u @ x) = Some (n, r @ x)"
  using dropWhile_extend [of is_ascii_digit u "hd r" "tl r" x]
  by (auto simp: read_digits_def split: list.splits if_splits)

lemma read_int_extend: "read_int u = Some (j, r) \<Longrightarrow> r \<noteq> [] \<Longrightarrow> read_int (u @ x) = Some (j, r @ x)"
  using read_digits_extend [of u _ r x] read_digits_extend [of "tl u" _ r x]
  by (cases u) (auto simp: read_int_def read_digits_def [of "[]"] split: if_splits)

lemma startswith_extend: "startswith u p \<Longrightarrow> startswith (u @ x) p \<and> drop (length p) (u @ x) = drop (length p) u @ x"
  by (auto simp: startswith_iff_prefix prefix_def)

lemma read_int_head: "read_int u = Some (j, r) \<Longrightarrow> \<exists>c v. u = c # v \<and> (is_ascii_digit c \<or> c = CHR ''-'')"
  by (cases u) (auto simp: read_int_def read_digits_def is_ascii_digit_def code_def split: if_splits list.splits)

text \<open>A number can go on where the text was cut, nothing else can.\<close>

definition closed :: "json \<Rightarrow> string \<Rightarrow> bool" where
  "closed v r \<longleftrightarrow> r \<noteq> [] \<or> (\<forall>i. v \<noteq> JInt i)"

lemma read_atom_extend:
  assumes "read_atom u = Some (v, r)" "closed v r"
  shows "read_atom (u @ x) = Some (v, r @ x)"
proof (cases "startswith u ''null'' \<or> startswith u ''true'' \<or> startswith u ''false''")
  case True
  then obtain s where s: "u = ''null'' @ s \<or> u = ''true'' @ s \<or> u = ''false'' @ s"
    by (auto simp: startswith_iff_prefix prefix_def)
  then show ?thesis using assms(1) read_atom_simps [of s] read_atom_simps [of "s @ x"] by auto
next
  case False
  then have i: "read_int u = Some (v, r)" using assms(1) by (simp add: read_atom_def)
  then obtain c w where c: "u = c # w" "is_ascii_digit c \<or> c = CHR ''-''" using read_int_head by blast
  have "c \<noteq> CHR ''n''" "c \<noteq> CHR ''t''" "c \<noteq> CHR ''f''" using c(2) digit_starts by auto
  moreover have "r \<noteq> []" using assms(2) i by (auto simp: closed_def read_int_def split: if_splits)
  ultimately show ?thesis using read_int_extend [OF i] c(1) by (simp add: read_atom_def startswith_iff_prefix)
qed

lemma skip_extend: "skip_ws r = d # r' \<Longrightarrow> skip_ws (r @ x) = d # r' @ x"
  by (simp add: dropWhile_extend)

lemma open_rest: "skip_ws r = d # r' \<Longrightarrow> closed v r"
  by (auto simp: closed_def)

text \<open>A larger bound on the recursion does not change what is read.\<close>

lemma parse_extend:
  "\<forall>u v r x. parse_value n u = Some (v, r) \<longrightarrow> closed v r \<longrightarrow> parse_value (n + k) (u @ x) = Some (v, r @ x)"
  "\<forall>u vs r x. parse_items n u = Some (vs, r) \<longrightarrow> parse_items (n + k) (u @ x) = Some (vs, r @ x)"
  "\<forall>u kvs r x. parse_members n u = Some (kvs, r) \<longrightarrow> parse_members (n + k) (u @ x) = Some (kvs, r @ x)"
proof (induction n)
  case (Suc n)
  { case 1
    show ?case
    proof (intro allI impI)
      fix u v r x
      assume p: "parse_value (Suc n) u = Some (v, r)" "closed v r"
      then obtain c w where u: "u = c # w" by (cases u) simp_all
      consider (str) "c = CHR 0x22" | (list) "c = CHR ''[''" | (obj) "c = CHR ''{''"
        | (atom) "c \<noteq> CHR 0x22" "c \<noteq> CHR ''[''" "c \<noteq> CHR ''{''" by blast
      then show "parse_value (Suc n + k) (u @ x) = Some (v, r @ x)"
      proof cases
        case str
        then show ?thesis using p(1) u read_str_extend [of w _ r x] by auto
      next
        case list
        then obtain d t where d: "skip_ws w = d # t" using p(1) u by (cases "skip_ws w") simp_all
        have "parse_items (n + k) (d # t @ x) = Some (y, s @ x)" if "parse_items n (d # t) = Some (y, s)" for y s
          using Suc.IH(2) that append_Cons by metis
        then show ?thesis
          using p(1) u list by (cases "d = CHR '']''") (auto simp: d skip_extend [OF d])
      next
        case obj
        then obtain d t where d: "skip_ws w = d # t" using p(1) u by (cases "skip_ws w") simp_all
        have "parse_members (n + k) (d # t @ x) = Some (y, s @ x)" if "parse_members n (d # t) = Some (y, s)" for y s
          using Suc.IH(3) that append_Cons by metis
        then show ?thesis
          using p(1) u obj by (cases "d = CHR ''}''") (auto simp: d skip_extend [OF d])
      next
        case atom
        then show ?thesis using p u read_atom_extend [of u v r x] by simp
      qed
    qed
  next
    case 2
    show ?case
    proof (intro allI impI)
      fix u vs r x
      assume p: "parse_items (Suc n) u = Some (vs, r)"
      then obtain v t where v: "parse_value n u = Some (v, t)" by (auto split: option.splits)
      then obtain d t' where d: "skip_ws t = d # t'" using p by (cases "skip_ws t") simp_all
      have "parse_value (n + k) (u @ x) = Some (v, t @ x)" using Suc.IH(1) v open_rest [OF d] by blast
      moreover have "skip_ws (t' @ x) = skip_ws t' @ x" if "parse_items n (skip_ws t') = Some y" for y
        using that by (cases "skip_ws t'"; cases n) (auto simp: skip_extend parse_Nil)
      ultimately show "parse_items (Suc n + k) (u @ x) = Some (vs, r @ x)"
        using p Suc.IH(2) by (auto simp: v d skip_extend [OF d] push_Some_iff split: if_splits)
    qed
  next
    case 3
    show ?case
    proof (intro allI impI)
      fix u kvs r x
      assume p: "parse_members (Suc n) u = Some (kvs, r)"
      then obtain w where u: "u = CHR 0x22 # w" by (cases u) (auto split: if_splits)
      then obtain q t where k: "read_str w = Some (q, t)" using p by (auto split: option.splits)
      then obtain t' where t: "skip_ws t = CHR '':'' # t'" using p u by (cases "skip_ws t") (auto split: if_splits)
      then obtain v s where v: "parse_value n (skip_ws t') = Some (v, s)" using p u k by (auto split: option.splits)
      then obtain d s' where d: "skip_ws s = d # s'" using p u k t by (cases "skip_ws s") simp_all
      have blank: "skip_ws (y @ x) = skip_ws y @ x" if "skip_ws y \<noteq> []" for y
        using that by (cases "skip_ws y") (auto simp: skip_extend)
      have "skip_ws t' \<noteq> []" using v by (auto simp: parse_Nil)
      then have "parse_value (n + k) (skip_ws (t' @ x)) = Some (v, s @ x)" using Suc.IH(1) v open_rest [OF d] by (simp add: blank)
      moreover have "skip_ws (s' @ x) = skip_ws s' @ x" if "parse_members n (skip_ws s') = Some y" for y
        using that by (cases "skip_ws s'") (auto simp: parse_Nil blank)
      ultimately show "parse_members (Suc n + k) (u @ x) = Some (kvs, r @ x)"
        using p Suc.IH(3) u read_str_extend [OF k]
        by (auto simp: k t v d skip_extend [OF d] skip_extend [OF t] push_Some_iff split: if_splits)
    qed }
qed simp_all

lemma cut_object:
  assumes "renders (JObj kvs) (u @ x)" "x \<noteq> []"
  shows "loads u = None"
proof (rule ccontr)
  assume "loads u \<noteq> None"
  then obtain v r where p: "parse_value (2 * length u + 1) (skip_ws u) = Some (v, r)" "skip_ws r = []"
    unfolding loads_def by (auto simp del: parse_value.simps split: option.splits if_splits)
  obtain w where w: "u @ x = CHR ''{'' # w"
    using assms(1) by (cases rule: renders.cases) auto
  show False
  proof (cases u)
    case Nil
    then show ?thesis using p(1) by (simp add: parse_Nil del: parse_value.simps)
  next
    case (Cons c u')
    then have u: "u = CHR ''{'' # u'" using w by simp
    have s: "skip_ws u = u" by (simp add: u json_ws_def)
    have "\<not> json_ws (CHR ''{'')" by (simp add: json_ws_def)
    then have "closed v r" using p(1) unfolding s u by (auto simp: closed_def split: list.splits if_splits)
    then have "parse_value (2 * length u + 1 + 2 * length x) (u @ x) = Some (v, r @ x)"
      using parse_extend(1) p(1) unfolding s by blast
    moreover have "parse_value (2 * length u + 1 + 2 * length x) ((u @ x) @ []) = Some (JObj kvs, [])"
      by (rule parse_renders(1) [OF assms(1), rule_format]) (simp_all add: stops_def)
    ultimately show False using assms(2) by simp
  qed
qed

section \<open>Logs\<close>

lemma sort_keys_chars: "json_chars (sort_keys j) = json_chars j"
proof (induction j)
  case (JObj kvs)
  then have "set k \<union> json_chars (sort_keys v) = set k \<union> json_chars v" if "(k, v) \<in> set kvs" for k v using that by auto
  then show ?case by (fastforce simp: image_image case_prod_beta)
qed auto

lemma sort_keys_idem: "sort_keys (sort_keys j) = sort_keys j"
proof (induction j)
  case (JObj kvs)
  let ?g = "\<lambda>(k, v). (k, sort_keys v)"
  let ?s = "sort_key fst (map ?g kvs)"
  have "?g q = q" if "q \<in> set ?s" for q
    using that JObj.IH by auto
  then have "map ?g ?s = ?s" by (rule map_idI)
  then show ?case by (simp add: sort_key_id_if_sorted)
qed simp_all

lemma no_returns: "CHR 0x0D \<notin> set s \<Longrightarrow> universal_newlines s = s"
  by (induction s) auto

definition log_record :: "json \<Rightarrow> bool" where
  "log_record j \<longleftrightarrow> json_wf j \<and> (\<exists>d. j = JObj d)"

abbreviation log_line :: "json \<Rightarrow> string" where
  "log_line j \<equiv> dumps '', '' '': '' (sort_keys j)"

lemma log_line_start: "log_record j \<Longrightarrow> \<exists>t. log_line j = CHR ''{'' # t"
  by (auto simp: log_record_def)

lemma strip_brace: "strip (CHR ''{'' # t) \<noteq> []"
proof -
  have "\<not> is_space (CHR ''{'')" by (simp add: is_space_def code_def)
  then show ?thesis by (auto simp: strip_def lstrip_def rstrip_def dropWhile_eq_Nil_conv)
qed

lemma log_line_breaks: "c \<in> set (log_line j) \<Longrightarrow> is_linebreak c \<Longrightarrow> c = CHR 0x85 \<and> \<not> line_safe j"
  using dumps_breaks [of c "sort_keys j"] by (auto simp: line_safe_def sort_keys_chars)

lemma log_text: "universal_newlines (jsonl_text js) = jsonl_text js"
proof (rule no_returns, rule notI)
  assume r: "CHR 0x0D \<in> set (jsonl_text js)"
  have "is_linebreak (CHR 0x0D)" by (simp add: is_linebreak_def code_def)
  moreover obtain j where "CHR 0x0D \<in> set (log_line j)" using r by (auto simp: jsonl_text_def record_line_def split: if_splits)
  ultimately show False using log_line_breaks by blast
qed

lemma loads_log_line: "log_record j \<Longrightarrow> loads (log_line j) = Some (sort_keys j)"
  by (simp add: log_record_def loads_dumps)

lemma read_log_lines:
  "list_all log_record js \<Longrightarrow> read_lines p n (map log_line js @ ls)
     = rbind (read_lines p (n + length js) ls) (\<lambda>rest. Inr (map sort_keys js @ rest))"
proof (induction js arbitrary: n)
  case Nil
  show ?case by (cases "read_lines p n ls") simp_all
next
  case (Cons j js)
  then have "strip (log_line j) \<noteq> []" using log_line_start strip_brace by (metis list.pred_inject(2))
  then show ?case using Cons by (cases "read_lines p (Suc (n + length js)) ls") (simp_all add: loads_log_line)
qed

lemma split_log: "list_all line_safe js \<Longrightarrow> splitlines (jsonl_text js @ s) = map log_line js @ splitlines s"
proof (induction js)
  case (Cons j js)
  have "list_all (\<lambda>c. \<not> is_linebreak c) (log_line j)" using log_line_breaks Cons.prems by (auto simp: list_all_iff)
  then show ?case using Cons splitlines_line [of "log_line j" "jsonl_text js @ s"] by (simp add: jsonl_text_def record_line_def)
qed (simp add: jsonl_text_def)

lemma splitlines_at: "list_all (\<lambda>c. \<not> is_linebreak c) l \<Longrightarrow> is_linebreak b \<Longrightarrow> b \<noteq> CHR 0x0D \<Longrightarrow> splitlines (l @ b # s) = l # splitlines s"
  by (induction l) auto

lemma dumped_chars: "CHR 0x85 \<in> json_chars j \<Longrightarrow> CHR 0x85 \<in> set (dumps is ks j)"
proof -
  have esc: "escape_char (CHR 0x85) = [CHR 0x85]" by (simp add: escape_char_def code_def)
  have str: "CHR 0x85 \<in> set s \<Longrightarrow> CHR 0x85 \<in> set (dumps_str s)" for s
    using esc by (force simp: dumps_str_def)
  have join: "x \<in> set xs \<Longrightarrow> set x \<subseteq> set (join sep xs)" for x xs sep
    by (induction sep xs rule: join.induct) auto
  show "CHR 0x85 \<in> json_chars j \<Longrightarrow> CHR 0x85 \<in> set (dumps is ks j)"
  proof (induction j)
    case (JList xs)
    then obtain x where "x \<in> set xs" "CHR 0x85 \<in> set (dumps is ks x)" by auto
    then show ?case using join [of "dumps is ks x" "map (dumps is ks) xs" "is"] by auto
  next
    case (JObj kvs)
    then obtain k v where kv: "(k, v) \<in> set kvs" "CHR 0x85 \<in> set (dumps_str k @ ks @ dumps is ks v)"
      using str by fastforce
    let ?f = "\<lambda>(k, v). dumps_str k @ ks @ dumps is ks v"
    have "?f (k, v) \<in> set (map ?f kvs)" unfolding list.set_map using kv(1) by (rule imageI)
    from join [OF this, of "is"] kv(2) show ?case by auto
  qed (simp_all add: str)
qed

text \<open>C19: What is appended to a log is read back: the file holds one text line per record, reading gives the records with
  sorted keys, and appending keeps it so, provided no string of a record contains U+0085.\<close>

theorem log_round_trip:
  assumes "td_files d p = Content (jsonl_text js)" "td_faults d = []" "list_all log_record (js @ [r])" "list_all line_safe (js @ [r])"
  shows "read_jsonl_file p d = Inr (map sort_keys js)
    \<and> (\<exists>d'. append_jsonl_file p r d = (Inr (), d') \<and> td_files d' p = Content (jsonl_text (js @ [r]))
         \<and> read_jsonl_file p d' = Inr (map sort_keys (js @ [r])))"
proof -
  have read: "read_jsonl_file p e = Inr (map sort_keys xs)"
    if "td_files e p = Content (jsonl_text xs)" "list_all log_record xs" "list_all line_safe xs" for e xs
    using that read_log_lines [of xs p 1 "[]"] split_log [of xs "[]"] by (simp add: read_jsonl_file_def log_text)
  have "jsonl_text (map sort_keys js @ [r]) = jsonl_text (js @ [r])"
    by (simp add: jsonl_text_def record_line_def [abs_def] sort_keys_idem comp_def)
  then show ?thesis
    using assms read [of d js] read [of _ "js @ [r]"]
    by (simp add: append_jsonl_file_def mbind_def atomic_write_text_def Let_def)
qed

text \<open>A log with one record on a disk that does not fail.\<close>

definition log_disk :: text_disk where
  "log_disk = \<lparr>td_files = (\<lambda>_. Content (jsonl_text [JObj [(''b'', JInt 1), (''a'', JStr [CHR 0x0A])]])), td_faults = []\<rparr>"

theorem log_round_trip_witness:
  "\<exists>d'. append_jsonl_file (path_of ''/log.jsonl'') (JObj [(''ok'', JBool True)]) log_disk = (Inr (), d')
     \<and> read_jsonl_file (path_of ''/log.jsonl'') d' = Inr [JObj [(''a'', JStr [CHR 0x0A]), (''b'', JInt 1)], JObj [(''ok'', JBool True)]]"
proof -
  have "list_all log_record [JObj [(''b'', JInt 1), (''a'', JStr [CHR 0x0A])], JObj [(''ok'', JBool True)]]"
    "list_all line_safe [JObj [(''b'', JInt 1), (''a'', JStr [CHR 0x0A])], JObj [(''ok'', JBool True)]]"
    by (simp_all add: log_record_def line_safe_def)
  then show ?thesis
    using log_round_trip [of log_disk "path_of ''/log.jsonl''" "[JObj [(''b'', JInt 1), (''a'', JStr [CHR 0x0A])]]" "JObj [(''ok'', JBool True)]"]
    by (auto simp: log_disk_def)
qed

text \<open>A record with U+0085 in one of its strings is written without complaint and makes the log unreadable: reading
  raises at the line of that record, and every later append raises and leaves the file as it is.\<close>

theorem next_line_corrupts_log:
  assumes "td_files d p = Content (jsonl_text js)" "td_faults d = []" "list_all log_record (js @ [r])" "list_all line_safe js"
    "\<not> line_safe r"
  shows "\<exists>d' e. append_jsonl_file p r d = (Inr (), d') \<and> read_jsonl_file p d' = Inl e \<and> append_jsonl_file p x d' = (Inl e, d')"
proof -
  have "CHR 0x85 \<in> set (log_line r)" using assms(5) dumped_chars by (simp add: line_safe_def sort_keys_chars)
  then obtain u v where l: "log_line r = u @ CHR 0x85 # v" "CHR 0x85 \<notin> set u" using split_list_first by metis
  have u: "list_all (\<lambda>c. \<not> is_linebreak c) u" using log_line_breaks [of _ r] l by (force simp: list_all_iff)
  obtain t where t: "log_line r = CHR ''{'' # t" using log_line_start assms(3) by auto
  then obtain u' where u': "u = CHR ''{'' # u'" using l(1) by (cases u) auto
  have "renders (sort_keys r) (log_line r)"
    using assms(3) renders_dumps [of "sort_keys r" "'' ''" "'' ''"] by (simp add: log_record_def json_ws_def)
  then have cut: "loads u = None" using cut_object [of _ u "CHR 0x85 # v"] l(1) assms(3) by (auto simp: log_record_def)
  let ?text = "jsonl_text (js @ [r])"
  have brk: "is_linebreak (CHR 0x85)" by (simp add: is_linebreak_def code_def)
  have "splitlines ?text = map log_line js @ u # splitlines (v @ [CHR 0x0A])"
    using split_log [OF assms(4), of "log_line r @ [CHR 0x0A]"] splitlines_at [OF u brk, of "v @ [CHR 0x0A]"]
    by (simp add: jsonl_text_def record_line_def l(1))
  moreover have "strip u \<noteq> []" unfolding u' by (rule strip_brace)
  ultimately obtain e where e: "read_jsonl_file p d' = Inl e" if "td_files d' p = Content ?text" for d'
    using read_log_lines [of js p 1] assms(3) cut by (simp add: read_jsonl_file_def log_text)
  have old: "read_jsonl_file p d = Inr (map sort_keys js)"
    using assms(1,3,4) read_log_lines [of js p 1 "[]"] split_log [of js "[]"] by (simp add: read_jsonl_file_def log_text)
  let ?d = "d\<lparr>td_files := (td_files d)(p := Content ?text), td_faults := []\<rparr>"
  have "jsonl_text (map sort_keys js @ [r]) = ?text"
    by (simp add: jsonl_text_def record_line_def [abs_def] sort_keys_idem comp_def)
  then have "append_jsonl_file p r d = (Inr (), ?d)"
    by (simp add: append_jsonl_file_def mbind_def atomic_write_text_def Let_def old assms(2))
  moreover have bad: "read_jsonl_file p ?d = Inl e" by (rule e) simp
  moreover have "append_jsonl_file p x ?d = (Inl e, ?d)" by (simp add: append_jsonl_file_def mbind_def bad)
  ultimately show ?thesis by blast
qed

theorem next_line_corrupts_log_witness:
  "\<exists>d' e. append_jsonl_file (path_of ''/log.jsonl'') (JObj [(''patch'', JStr [CHR ''x'', CHR 0x85])]) log_disk = (Inr (), d') \<and> read_jsonl_file (path_of ''/log.jsonl'') d' = Inl e"
proof -
  have "list_all log_record [JObj [(''b'', JInt 1), (''a'', JStr [CHR 0x0A])], JObj [(''patch'', JStr [CHR ''x'', CHR 0x85])]]"
    "list_all line_safe [JObj [(''b'', JInt 1), (''a'', JStr [CHR 0x0A])]]" "\<not> line_safe (JObj [(''patch'', JStr [CHR ''x'', CHR 0x85])])"
    by (simp_all add: log_record_def line_safe_def)
  then show ?thesis
    using next_line_corrupts_log [of log_disk "path_of ''/log.jsonl''" "[JObj [(''b'', JInt 1), (''a'', JStr [CHR 0x0A])]]" "JObj [(''patch'', JStr [CHR ''x'', CHR 0x85])]"]
    by (fastforce simp: log_disk_def)
qed

section \<open>The canonical text\<close>

text \<open>C20: The text whose hash seals a bundle stands for the value and nothing else: two values have the same canonical text
  exactly when they differ at most in the order of the keys of their objects.\<close>

theorem canonical_text_exact:
  assumes "json_wf a" "json_wf b"
  shows "canonical_json_text a = canonical_json_text b \<longleftrightarrow> json_perm a b"
proof
  assume "canonical_json_text a = canonical_json_text b"
  then have "loads (dumps '','' '':'' (sort_keys a)) = loads (dumps '','' '':'' (sort_keys b))" by (simp add: canonical_json_text_def)
  then have "sort_keys a = sort_keys b" using assms by (simp add: loads_compact)
  then show "json_perm a b" using sorted_perm assms by blast
next
  assume "json_perm a b"
  then show "canonical_json_text a = canonical_json_text b" using perm_sorted by (simp add: canonical_json_text_def)
qed

theorem canonical_text_exact_witness:
  "canonical_json_text (JObj [(''a'', JInt 1), (''b'', JNull)]) = canonical_json_text (JObj [(''b'', JNull), (''a'', JInt 1)])"
proof -
  have "json_perm (JObj [(''a'', JInt 1), (''b'', JNull)]) (JObj [(''b'', JNull), (''a'', JInt 1)])"
    by (rule json_perm.obj [where kws = "[(''a'', JInt 1), (''b'', JNull)]"]) (auto intro: json_perm.intros)
  then show ?thesis using canonical_text_exact by simp
qed

text \<open>What \<open>json.dumps\<close> writes, compact, spaced or indented, \<open>json.loads\<close> reads back; the bound of the reader is never
  reached on such a text.\<close>

theorem json_text_round_trip:
  assumes "json_wf j"
  shows "loads (dumps '','' '':'' j) = Some j \<and> loads (dumps '', '' '': '' j) = Some j \<and> loads (dump_json j) = Some (sort_keys j)
    \<and> loads (dumps_indented 0 j) = Some j"
  using assms loads_renders [OF renders_indented [of j 0], of "[]" "[]"] by (simp add: loads_compact loads_dumps loads_dump_json)

theorem json_text_round_trip_witness:
  "loads (dump_json (JObj [(''b'', JList [JInt (- 12), JBool True]), (''a'', JStr [CHR 0x22, CHR 0x01])]))
     = Some (JObj [(''a'', JStr [CHR 0x22, CHR 0x01]), (''b'', JList [JInt (- 12), JBool True])])"
  using json_text_round_trip [of "JObj [(''b'', JList [JInt (- 12), JBool True]), (''a'', JStr [CHR 0x22, CHR 0x01])]"] by simp

section \<open>JSON files\<close>

lemma indented_no_return: "CHR 0x0D \<notin> set (dumps_indented n j)"
proof (induction j arbitrary: n)
  case (JList xs)
  have "CHR 0x0D \<notin> set x" if "x \<in> set (map (dumps_indented (Suc n)) xs)" for x using that JList.IH by auto
  then show ?case using set_join [of "'','' @ indent_of (Suc n)" "map (dumps_indented (Suc n)) xs"]
    by (auto simp: indent_of_def)
next
  case (JObj kvs)
  let ?f = "\<lambda>(k, v). dumps_str k @ '': '' @ dumps_indented (Suc n) v"
  have cr: "is_linebreak (CHR 0x0D)" by (simp add: is_linebreak_def code_def)
  have "CHR 0x0D \<notin> set x" if "x \<in> set (map ?f kvs)" for x
    using that JObj.IH dumps_str_breaks [OF _ cr] by fastforce
  then have "CHR 0x0D \<notin> (\<Union>x\<in>set (map ?f kvs). set x)" by blast
  then have "CHR 0x0D \<notin> set (join ('','' @ indent_of (Suc n)) (map ?f kvs))"
    using set_join [of "'','' @ indent_of (Suc n)" "map ?f kvs"] by (auto simp del: list.set_map simp: indent_of_def)
  then show ?case by (simp add: indent_of_def)
next
  case (JStr s)
  have "is_linebreak (CHR 0x0D)" by (simp add: is_linebreak_def code_def)
  then show ?case using dumps_str_breaks [of "CHR 0x0D" s] by auto
next
  case (JInt i)
  have "is_linebreak (CHR 0x0D)" by (simp add: is_linebreak_def code_def)
  then show ?case using str_int_plain by auto
next
  case (JBool b)
  then show ?case by (cases b) auto
qed auto



end
