(* ===== verification/Review_Props.thy ===== *)
theory Review_Props imports Review_Ops Supervisor_Props begin

text \<open>
  The properties of the review protocol: what an imported decision rests on, and what an exported bundle
  is.
\<close>

section \<open>Reading\<close>

text \<open>A call that reads the store leaves the logs and the files.\<close>

definition same_reads :: "path \<Rightarrow> 'r world \<Rightarrow> 'r world \<Rightarrow> bool" where
  "same_reads root w w' \<longleftrightarrow> w_files w' = w_files w \<and> st_logs (w_stores w' root) = st_logs (w_stores w root)
     \<and> st_root (w_stores w' root) = st_root (w_stores w root)"

lemma same_reads_refl: "same_reads root w w"
  by (simp add: same_reads_def)

lemma same_reads_trans: "same_reads root w w1 \<Longrightarrow> same_reads root w1 w2 \<Longrightarrow> same_reads root w w2"
  by (simp add: same_reads_def)

lemma store_gets: "on_store root (gets f) w = (x, w') \<Longrightarrow> same_reads root w w' \<and> x = f ((w_stores w root)\<lparr>st_budget := w_budget w\<rparr>)"
  by (auto simp: on_store_def gets_def same_reads_def split: prod.splits)

lemma bundles_cong:
  "st_logs s = st_logs t \<Longrightarrow> st_root s = st_root t \<Longrightarrow> review_bundles s = review_bundles t"
  by (simp add: review_bundles_def)

lemma load_cong: "w_files w = w_files w' \<Longrightarrow> load_json_object p l w = load_json_object p l w'"
  by (simp add: load_json_object_def)

section \<open>What is recorded\<close>

lemma returns_map_exn: "returns P m \<Longrightarrow> returns P (map_exn f m)"
  by (auto simp: returns_def map_exn_def split: prod.splits sum.splits)

lemma returns_on_store: "returns P m \<Longrightarrow> returns P (on_store root m)"
  by (auto simp: returns_def on_store_def split: prod.splits)

lemma returns_lift_seq: "(v = Inr () \<Longrightarrow> returns Q k) \<Longrightarrow> returns Q (mseq (lift_res v) k)" for v :: "unit res"
  by (cases v) (auto simp: returns_def mseq_def mbind_def lift_res_def)

lemma clash_same: "decision_clash r rs = Inr (Some x) \<Longrightarrow> x = r"
  by (induction rs) (auto split: if_splits)

lemma record_decision_result: "returns (\<lambda>x. x = r) (record_decision d r)"
proof -
  have "returns (\<lambda>x. x = r) (record_review_decision r)"
    unfolding record_review_decision_def state_mutation_def hold_def
  proof (rule returns_map_exn, rule returns_bind)
    show "returns (\<lambda>x. x = r) (mbind (gets (\<lambda>s. rbind (review_decisions s) (decision_clash r))) (\<lambda>clash.
      case clash of
        Some existing \<Rightarrow> ret existing
      | None \<Rightarrow>
          mseq (atomic_append_jsonl Decisions (review_decision_record_to_json r))
          (mseq (journal_record ((journal_args ''decision'' ''critic'' ''critic.decision''
              (review_decision_record_to_json r))
            \<lparr>ja_recipient := Some ''supervisor'', ja_task_id := Some (rd_work_item_id r), ja_run_id := Some (rd_run_id r)\<rparr>))
          (ret r))))"
    proof (rule returns_bind_given [where P = "\<lambda>c. \<forall>x. c = Some x \<longrightarrow> x = r"])
      show "returns (\<lambda>c. \<forall>x. c = Some x \<longrightarrow> x = r) (gets (\<lambda>s. rbind (review_decisions s) (decision_clash r)))"
        by (auto simp: returns_def gets_def rbind_Inr_iff dest: clash_same)
    qed (auto split: option.split intro!: returns_ret returns_seq)
  qed
  then show ?thesis
    unfolding record_decision_def
    by (intro returns_map_exn, elim returns_bind_given) (intro returns_seq returns_ret)
qed

definition decides :: "jobj \<Rightarrow> review_bundle_record \<Rightarrow> string \<Rightarrow> review_decision_record \<Rightarrow> bool" where
  "decides d b digest r \<longleftrightarrow> rd_bundle_id r = bb_bundle_id b \<and> rd_bundle_sha256 r = digest \<and> jget d ''decision'' = JStr (rd_decision r)
     \<and> jget d ''summary'' = JStr (rd_summary r)"

lemma as_str_Inr: "as_str j = Inr s \<longleftrightarrow> j = JStr s"
  by (cases j) (auto simp: as_str_def)

lemma obj_text_Inr: "obj_text d k = Inr s \<Longrightarrow> jget d k = JStr s"
  by (auto simp: obj_text_def rbind_Inr_iff jitem_def jget_def jget_or_def as_str_Inr split: option.splits)

lemma decision_record_decides: "decision_record strict d b digest now = Inr r \<Longrightarrow> decides d b digest r"
  by (auto simp: decision_record_def rbind_Inr_iff decides_def dest!: obj_text_Inr split: prod.splits)

lemma matches_decides: "decision_matches x r \<Longrightarrow> decides d b digest r \<Longrightarrow> decides d b digest x"
  by (simp add: decision_matches_def decides_def)

lemma conclude_decides: "returns (decides d r (py_str (bundle_digest bundle))) (conclude_import h repository root d r bundle)"
  unfolding conclude_import_def
proof (rule returns_bind, rule returns_seq, rule returns_bind, rule returns_lift_bind)
  fix decisions incoming
  assume "decision_record (is_strict d) d r (py_str (bundle_digest bundle)) [] = Inr incoming"
  then have i: "decides d r (py_str (bundle_digest bundle)) incoming" by (rule decision_record_decides)
  have "returns (decides d r (py_str (bundle_digest bundle))) (on_store root (record_decision d (incoming\<lparr>rd_imported_at_utc := now\<rparr>)))" for now
    by (rule returns_on_store, rule returns_mono [OF record_decision_result]) (use i in \<open>simp add: decides_def\<close>)
  then show "returns (decides d r (py_str (bundle_digest bundle))) (case List.find (\<lambda>x. rd_decision_id x = rd_decision_id incoming) decisions of
       Some existing \<Rightarrow>
         if decision_matches existing incoming then
           mseq (if is_strict d then on_store root (apply_strict_decision existing) else ret ()) (ret existing)
         else raise (ReviewProtocolError (''Review decision id already exists with different evidence: '' @ rd_decision_id existing))
     | None \<Rightarrow> mbind world_now (\<lambda>now. on_store root (record_decision d (incoming\<lparr>rd_imported_at_utc := now\<rparr>))))"
    by (intro returns_option returns_bind returns_if returns_seq returns_ret returns_raise) (use i matches_decides in blast)+
qed

lemma find_id: "List.find (\<lambda>b. bb_bundle_id b = i) bs = Some b \<Longrightarrow> b \<in> set bs \<and> bb_bundle_id b = i"
  by (auto simp: find_Some_iff)

lemma rp_check_Inr: "rp_check b m = Inr u \<longleftrightarrow> b"
  by (simp add: rp_check_def)

lemma check_evidence_Inr: "check_evidence d b bundle = Inr () \<longleftrightarrow>
    is_strict bundle = is_strict d
    \<and> (is_strict bundle \<longrightarrow> jpath d [''critic'', ''identity''] = jpath bundle [''three_head'', ''roles'', ''critic'', ''identity''])
    \<and> jget d ''bundle_sha256'' = bundle_digest bundle \<and> bundle_digest bundle = JStr (bb_bundle_sha256 b)
    \<and> jpath d [''attestation'', ''reviewed_commit''] = jpath bundle [''artifact'', ''commit'']
    \<and> jpath d [''attestation'', ''reviewed_patch_sha256''] = jpath bundle [''artifact'', ''patch_sha256'']"
  by (auto simp: check_evidence_def rbind_Inr_iff rp_check_Inr)

text \<open>C17: A decision is imported only on agreeing evidence: the file holds a valid decision of the kind of the bundle, the
  bundle it names is indexed and its file is valid and sealed with the indexed digest, the decision attests that
  digest, the commit and the patch digest of the bundle and, under three heads, comes from the critic the bundle
  names; the record returned carries this bundle, digest, decision and summary.\<close>

theorem import_needs_evidence:
  assumes "import_verifier_decision h repository root p w = (Inr r, w')"
  shows "\<exists>d bundles b bundle.
      load_json_object p ''Verifier decision'' w = Inr d
    \<and> (if is_strict d then validate_critic_decision h d else validate_verifier_decision h d) = Inr ()
    \<and> review_bundles (w_stores w root) = Inr bundles \<and> b \<in> set bundles \<and> jget d ''bundle_id'' = JStr (bb_bundle_id b)
    \<and> load_json_object (bb_bundle_path b) ''Review bundle'' w = Inr bundle \<and> validate_review_bundle h bundle = Inr ()
    \<and> bundle_digest bundle = JStr (bb_bundle_sha256 b) \<and> jget d ''bundle_sha256'' = JStr (bb_bundle_sha256 b)
    \<and> jpath d [''attestation'', ''reviewed_commit''] = jpath bundle [''artifact'', ''commit'']
    \<and> jpath d [''attestation'', ''reviewed_patch_sha256''] = jpath bundle [''artifact'', ''patch_sha256'']
    \<and> is_strict bundle = is_strict d
    \<and> (is_strict d \<longrightarrow> jpath d [''critic'', ''identity''] = jpath bundle [''three_head'', ''roles'', ''critic'', ''identity''])
    \<and> decides d b (bb_bundle_sha256 b) r"
proof -
  obtain u w1 where lock: "on_store root (hold (ret ())) w = (Inr u, w1)" and run: "import_locked h repository root p w1 = (Inr r, w')"
    using assms unfolding import_verifier_decision_def store_lease_def mbind_Inr_iff by blast
  have w1: "same_reads root w w1"
    using lock unfolding hold_def on_store_def mbind_def gets_def ret_def
    by (auto simp: same_reads_def split: prod.splits sum.splits option.splits)
  obtain d i w2 bundles where d: "load_json_object p ''Verifier decision'' w1 = Inr d"
      "(if is_strict d then validate_critic_decision h d else validate_verifier_decision h d) = Inr ()" "obj_text d ''bundle_id'' = Inr i"
    and bs: "on_store root (gets review_bundles) w1 = (Inr bundles, w2)"
    and rest: "(case List.find (\<lambda>b. bb_bundle_id b = i) bundles of
       None \<Rightarrow> raise (ReviewProtocolError (''Unknown review bundle: '' @ i))
     | Some b \<Rightarrow>
         mbind (gets (checked_bundle h (bb_bundle_path b))) (\<lambda>bundle.
         mseq (lift_res (check_evidence d b bundle))
         (conclude_import h repository root d b bundle))) w2 = (Inr r, w')"
    using run unfolding import_locked_def mbind_Inr_iff mseq_Inr_iff by (auto simp: gets_def lift_res_def)
  obtain b where b: "List.find (\<lambda>b. bb_bundle_id b = i) bundles = Some b"
    using rest by (cases "List.find (\<lambda>b. bb_bundle_id b = i) bundles") (simp_all add: raise_def)
  obtain v where v: "checked_bundle h (bb_bundle_path b) w2 = Inr v" "check_evidence d b v = Inr ()"
    and fin: "conclude_import h repository root d b v w2 = (Inr r, w')"
    using rest unfolding b option.case mbind_Inr_iff mseq_Inr_iff by (auto simp: gets_def lift_res_def)
  have w2: "same_reads root w w2" using store_gets [OF bs] w1 same_reads_trans by blast
  have "review_bundles (w_stores w root) = Inr bundles"
  proof -
    have "review_bundles (w_stores w root) = review_bundles ((w_stores w1 root)\<lparr>st_budget := w_budget w1\<rparr>)"
      by (rule bundles_cong) (use w1 in \<open>simp_all add: same_reads_def\<close>)
    then show ?thesis using store_gets [OF bs] by simp
  qed
  moreover have "load_json_object p ''Verifier decision'' w = Inr d"
    unfolding d(1) [symmetric] by (rule load_cong) (use w1 in \<open>simp add: same_reads_def\<close>)
  moreover have "load_json_object (bb_bundle_path b) ''Review bundle'' w = Inr v \<and> validate_review_bundle h v = Inr ()"
  proof -
    have "load_json_object (bb_bundle_path b) ''Review bundle'' w = load_json_object (bb_bundle_path b) ''Review bundle'' w2"
      by (rule load_cong) (use w2 in \<open>simp add: same_reads_def\<close>)
    moreover have "load_json_object (bb_bundle_path b) ''Review bundle'' w2 = Inr v \<and> validate_review_bundle h v = Inr ()"
      using v(1) unfolding checked_bundle_def rbind_Inr_iff by fastforce
    ultimately show ?thesis by simp
  qed
  moreover have "decides d b (bb_bundle_sha256 b) r"
    using conclude_decides [of d b v h repository root] fin v(2) unfolding returns_def check_evidence_Inr by (metis py_str_JStr)
  moreover have "jget d ''bundle_id'' = JStr (bb_bundle_id b)" using obj_text_Inr [OF d(3)] find_id [OF b] by simp
  ultimately show ?thesis using d(2) find_id [OF b] v(2) unfolding check_evidence_Inr by auto
qed

text \<open>A verifier's approval of a bundle on the toy host, whose digests are all the same.\<close>

definition sample_bundle :: jobj where
  "sample_bundle = [(''protocol'', JStr protocol_namespace), (''protocol_version'', JStr protocol_version),
     (''message_type'', JStr ''verifier.review_bundle''), (''bundle_id'', JStr ''B''), (''created_at_utc'', JStr ''t''),
     (''repository'', JNull), (''task'', JNull), (''scope'', JNull),
     (''artifact'', JObj [(''commit'', JStr ''base''), (''patch_sha256'', JStr zero_digest), (''patch_text'', JStr ''p'')]),
     (''verification'', JNull), (''authority'', JObj (map (\<lambda>f. (f, JBool False)) denied_authority)),
     (''integrity'', JObj [(''algorithm'', JStr ''sha256''), (''payload_sha256'', JStr zero_digest)])]"

definition sample_approval :: jobj where
  "sample_approval = [(''protocol'', JStr protocol_namespace), (''protocol_version'', JStr protocol_version),
     (''message_type'', JStr ''verifier.decision''), (''decision_id'', JStr ''D''), (''bundle_id'', JStr ''B''),
     (''bundle_sha256'', JStr zero_digest), (''reviewer'', JObj [(''id'', JStr ''ann''), (''kind'', JStr ''human'')]),
     (''decision'', JStr ''approve''), (''summary'', JStr ''fine''), (''findings'', JList []), (''created_at_utc'', JStr ''t''),
     (''attestation'', JObj [(''reviewed_commit'', JStr ''base''), (''reviewed_patch_sha256'', JStr zero_digest)])]"

definition approved_bundle :: review_bundle_record where
  "approved_bundle = \<lparr>bb_bundle_id = ''B'', bb_created_at_utc = ''t'', bb_run_id = ''r'', bb_work_item_id = ''t1'',
     bb_commit = ''base'', bb_bundle_sha256 = zero_digest, bb_bundle_path = path_of ''/state/B.json''\<rparr>"

definition approval_store :: store where
  "approval_store = sample_store\<lparr>st_logs := (st_logs sample_store)(Bundles := Content
     [review_bundle_record_to_json approved_bundle (path_of ''/state'')])\<rparr>"

definition approval_world :: "toy_repo world" where
  "approval_world = (toy_world (\<lambda>_. approval_store))
     \<lparr>w_files := (\<lambda>p. if p = path_of ''/d.json'' then Content (JObj sample_approval) else Content (JObj sample_bundle))\<rparr>"

lemma mbind_given_step: "m s = (Inr x, s1) \<Longrightarrow> f x s1 = y \<Longrightarrow> mbind m f s = y"
  by (simp add: mbind_def)

lemma map_exn_given_step: "m s = (Inr x, s') \<Longrightarrow> map_exn f m s = (Inr x, s')"
  by (simp add: map_exn_def)

lemma mseq_given_step: "m s = (Inr x, s1) \<Longrightarrow> n s1 = y \<Longrightarrow> mseq m n s = y"
  by (simp add: mseq_def mbind_def)

lemma decision_stored:
  assumes s: "healthy s" "read_jsonl (st_logs s Decisions) = Inr []" and d: "\<not> is_strict d"
  shows "\<exists>s'. record_decision d r s = (Inr r, s')"
proof -
  have lock: "st_lock s = None" "st_budget s = None" using s(1) by (simp_all add: healthy_def)
  have none: "rbind (review_decisions s) (decision_clash r) = Inr None" using s(2) by (simp add: review_decisions_def read_guard_def)
  let ?s = "s\<lparr>st_logs := (st_logs s)(Decisions := Content [review_decision_record_to_json r])\<rparr>"
  have app: "atomic_append_jsonl Decisions (review_decision_record_to_json r) s = (Inr (), ?s)"
    using append_run [OF lock(2) s(2)] by simp
  have h: "healthy ?s" using s(1) by (rule healthy_frame) (simp_all add: lock)
  obtain e s2 where j: "journal_record ((journal_args ''decision'' ''critic'' ''critic.decision'' (review_decision_record_to_json r))
        \<lparr>ja_recipient := Some ''supervisor'', ja_task_id := Some (rd_work_item_id r), ja_run_id := Some (rd_run_id r)\<rparr>) ?s = (Inr e, s2)"
      "healthy s2"
    using journal_healthy [OF h] by blast
  have rec: "record_review_decision r s = (Inr r, s2)"
    by (simp add: record_review_decision_def state_mutation_unlocked [OF lock(1)] map_exn_def mbind_def mseq_def gets_def none app j ret_def)
  obtain e3 s3 where e3: "journal_record ((journal_args ''interaction'' ''external-verifier'' ''review.decision_payload'' (JObj d))
        \<lparr>ja_recipient := Some ''supervisor'', ja_task_id := Some (rd_work_item_id r),
         ja_run_id := Some (rd_run_id r), ja_correlation_id := Some (rd_bundle_id r)\<rparr>) s2 = (Inr e3, s3)"
    using journal_healthy [OF j(2)] by blast
  have party: "(if is_strict d then ''critic'' else ''external-verifier'') = ''external-verifier''"
      "(if is_strict d then apply_strict_decision r else ret ()) s3 = (Inr (), s3)"
    using d by (simp_all add: ret_def)
  have "record_decision d r s = (Inr r, s3)"
    unfolding record_decision_def party(1)
    by (rule map_exn_given_step, rule mbind_given_step, rule rec, rule mseq_given_step, rule e3,
        rule mseq_given_step, rule party(2), simp add: ret_def)
  then show ?thesis by blast
qed

lemma approval_valid: "validate_verifier_decision toy_host sample_approval = Inr ()" by code_simp

lemma toy_digests: "payload_sha256 toy_host d = zero_digest" "text_sha256 toy_host s = zero_digest"
  by (simp_all add: payload_sha256_def text_sha256_def toy_host_def zero_digest_def)

lemma bundle_valid: "validate_review_bundle toy_host sample_bundle = Inr ()"
  unfolding validate_review_bundle_def toy_digests by code_simp

lemma sample_evidence_agrees: "check_evidence sample_approval approved_bundle sample_bundle = Inr ()"
  unfolding check_evidence_Inr by code_simp

lemma approval_kind: "is_strict sample_approval = False" "obj_text sample_approval ''bundle_id'' = Inr ''B''" by code_simp+

lemma approval_resolved: "review_resolve_commit toy_host toy_root ''base'' w = (Inr ''base'', w)" if "w_repo w = toy_start"
proof -
  have "run_git toy_host [''git'', ''rev-parse'', ''--verify'', ''base^{commit}''] toy_root None toy_start
      = (Inr \<lparr>co_code = 0, co_out = ''base'', co_err = []\<rparr>, toy_start)"
    by code_simp
  moreover have "strip ''base'' = ''base''" by code_simp
  ultimately show ?thesis using that by (simp add: review_resolve_commit_def review_git_def mbind_def in_repo_def)
qed

lemma approval_record: "\<exists>r. decision_record False sample_approval approved_bundle zero_digest [] = Inr r \<and> rd_decision_id r = ''D''"
proof -
  have "(case decision_record False sample_approval approved_bundle zero_digest [] of Inr r \<Rightarrow> rd_decision_id r = ''D'' | _ \<Rightarrow> False) = True"
    by code_simp
  then show ?thesis by (auto split: sum.splits)
qed

lemma approval_store_facts: "healthy approval_store" "review_bundles approval_store = Inr [approved_bundle]"
    "read_jsonl (st_logs approval_store Decisions) = Inr []" "approval_store\<lparr>st_budget := None\<rparr> = approval_store"
    "st_lock approval_store = None" "st_budget approval_store = None"
proof -
  have "review_bundle_record_from_json (review_bundle_record_to_json approved_bundle (path_of ''/state'')) (path_of ''/state'') = Inr approved_bundle"
    by (rule review_bundle_round_trip) (code_simp+)?
  then show "review_bundles approval_store = Inr [approved_bundle]"
    by (simp add: review_bundles_def approval_store_def sample_store_def read_guard_def)
qed (simp_all add: approval_store_def healthy_def sample_store_def read_jsonl_def)

lemma approval_imported:
  "\<exists>r w'. import_verifier_decision toy_host toy_root (path_of ''/state'') (path_of ''/d.json'') approval_world = (Inr r, w') \<and> rd_decision_id r = ''D''"
proof -
  let ?root = "path_of ''/state''"
  have w: "w_stores approval_world = (\<lambda>_. approval_store)" "w_budget approval_world = None" "w_repo approval_world = toy_start"
      "w_files approval_world = (\<lambda>p. if p = path_of ''/d.json'' then Content (JObj sample_approval) else Content (JObj sample_bundle))"
      "approval_world\<lparr>w_stores := \<lambda>_. approval_store, w_budget := None\<rparr> = approval_world"
    by (simp_all add: approval_world_def toy_world_def)
  have read: "on_store ?root (gets f) approval_world = (f approval_store, approval_world)" for f :: "store \<Rightarrow> 'z res"
    by (simp add: on_store_def gets_def w approval_store_facts)
  have lock: "on_store ?root (hold (ret ())) approval_world = (Inr (), approval_world)"
    by (simp add: on_store_def hold_def mbind_def gets_def ret_def w approval_store_facts)
  have peek: "gets f w = (f w, w)" for f :: "toy_repo world \<Rightarrow> 'z res" and w by (simp add: gets_def)
  have neq: "path_of ''/state/B.json'' \<noteq> path_of ''/d.json''" by code_simp
  have load: "load_json_object (path_of ''/d.json'') l approval_world = Inr sample_approval"
      "checked_bundle toy_host (path_of ''/state/B.json'') approval_world = Inr sample_bundle" for l
    using neq by (simp_all add: load_json_object_def checked_bundle_def w bundle_valid)
  have evidence: "py_str (jpath sample_bundle [''artifact'', ''commit'']) = ''base''" "py_str (bundle_digest sample_bundle) = zero_digest"
    by code_simp+
  have approved: "bb_bundle_id approved_bundle = ''B''" "bb_bundle_path approved_bundle = path_of ''/state/B.json''" "bb_commit approved_bundle = ''base''"
    by (simp_all add: approved_bundle_def)
  have none: "review_decisions approval_store = Inr []" using approval_store_facts(3) by (simp add: review_decisions_def read_guard_def)
  obtain r where r: "decision_record False sample_approval approved_bundle zero_digest [] = Inr r" "rd_decision_id r = ''D''"
    using approval_record by blast
  let ?w = "approval_world\<lparr>w_ticks := Suc (w_ticks approval_world)\<rparr>"
  let ?r = "r\<lparr>rd_imported_at_utc := w_clock approval_world (w_ticks approval_world)\<rparr>"
  obtain s' where "record_decision sample_approval ?r approval_store = (Inr ?r, s')"
    using decision_stored [OF approval_store_facts(1,3)] approval_kind(1) by blast
  then have "on_store ?root (record_decision sample_approval ?r) ?w = (Inr ?r, ?w\<lparr>w_stores := (w_stores ?w)(?root := s'), w_budget := st_budget s'\<rparr>)"
    by (intro on_store_run) (simp add: w approval_store_facts)
  then have "\<exists>w'. import_verifier_decision toy_host toy_root ?root (path_of ''/d.json'') approval_world = (Inr ?r, w')"
    by (simp add: import_verifier_decision_def store_lease_def import_locked_def conclude_import_def mbind_def mseq_def lock load read
      approval_kind approval_valid approval_store_facts approved sample_evidence_agrees evidence approval_resolved w toy_resolve none r peek)
  then show ?thesis using r(2) by fastforce
qed

theorem import_needs_evidence_witness:
  "\<exists>r w' b. import_verifier_decision toy_host toy_root (path_of ''/state'') (path_of ''/d.json'') approval_world = (Inr r, w')
     \<and> rd_decision_id r = ''D'' \<and> decides sample_approval b (bb_bundle_sha256 b) r"
proof -
  obtain r w' where r: "import_verifier_decision toy_host toy_root (path_of ''/state'') (path_of ''/d.json'') approval_world = (Inr r, w')"
      "rd_decision_id r = ''D''"
    using approval_imported by blast
  have "load_json_object (path_of ''/d.json'') ''Verifier decision'' approval_world = Inr sample_approval"
    by (simp add: load_json_object_def approval_world_def)
  then show ?thesis using import_needs_evidence [OF r(1)] r by (metis sum.inject(2))
qed

section \<open>Exported bundles\<close>

lemma bundle_content_open: "map_of (bundle_content h root strict run task i commit patch changed parent created) ''integrity'' = None"
  by (simp add: bundle_content_def split: option.split)

lemma integrity_digest: "map_of c ''integrity'' = None \<Longrightarrow> bundle_digest (with_integrity h c) = JStr (payload_sha256 h c)"
  by (simp add: bundle_digest_def with_integrity_def jget_def jget_or_def map_add_def)

lemma record_bundle_result: "returns (\<lambda>x. x = r) (record_review_bundle r)"
  unfolding record_review_bundle_def state_mutation_def hold_def
  by (rule returns_map_exn, rule returns_bind, rule returns_bind)
     (auto split: option.split intro!: returns_ret returns_bind returns_seq returns_raise)

lemma digest_text: "validate_review_bundle h d = Inr () \<Longrightarrow> \<exists>s. bundle_digest d = JStr s"
  by (auto simp: validate_review_bundle_def rbind_Inr_iff rp_check_Inr bundle_digest_def require_object_def is_hex_digest_def
    split: json.splits)

abbreviation sealed_export :: "('r, 'x) host_scheme \<Rightarrow> bundle_export \<Rightarrow> bool" where
  "sealed_export h e \<equiv> validate_review_bundle h (be_payload e) = Inr ()
     \<and> bundle_digest (be_payload e) = JStr (bb_bundle_sha256 (be_record e))"

lemma returns_gets: "returns (\<lambda>x. \<exists>s. f s = Inr x) (gets f)"
  by (auto simp: returns_def gets_def)

lemma existing_sealed: "returns (sealed_export h) (export_existing h output commit b)"
  unfolding export_existing_def
proof (rule returns_bind_given [OF returns_gets], elim exE)
  fix d w
  assume "checked_bundle h (bb_bundle_path b) w = Inr d"
  then have v: "validate_review_bundle h d = Inr ()" by (auto simp: checked_bundle_def rbind_Inr_iff)
  then show "returns (sealed_export h) (if py_str (bundle_digest d) \<noteq> bb_bundle_sha256 b \<or> bb_commit b \<noteq> commit
     then raise (ReviewProtocolError (''Stored review bundle evidence does not match its index: '' @ bb_bundle_id b))
     else mbind (write_elsewhere h output (bb_bundle_path b) d) (\<lambda>destination.
       ret \<lparr>be_record = b, be_payload = d, be_output_path = destination\<rparr>))"
    using digest_text [OF v] by (intro returns_if returns_raise returns_bind returns_ret) auto
qed

lemma new_sealed: "returns (sealed_export h) (export_new h repo root strict output run task i commit)"
  unfolding export_new_def Let_def
  by (rule returns_bind, rule returns_bind, rule returns_bind, rule returns_bind, rule returns_lift_seq, rule returns_seq,
      rule returns_bind_given [OF returns_on_store [OF record_bundle_result]], rule returns_seq, rule returns_bind, rule returns_ret)
     (simp add: integrity_digest bundle_content_open)

text \<open>Whatever run it is asked for, the export returns only bundles that pass the validation and whose seal is the
  digest in the index, both for a bundle it creates and for one that exists.\<close>

theorem exported_bundle_sealed:
  "returns (\<lambda>e. validate_review_bundle h (be_payload e) = Inr () \<and> bundle_digest (be_payload e) = JStr (bb_bundle_sha256 (be_record e)))
     (export_review_bundle h repository root run_id output three_head)"
  unfolding export_review_bundle_def store_lease_def export_locked_def Let_def
  by (intro returns_bind returns_option returns_raise existing_sealed new_sealed)

end
