(* ===== verification/Rollback.thy ===== *)
theory Rollback imports Supervisor begin

text \<open>
  Taking a committed task back (\<open>src/llm_harness/rollback.py\<close>): the plan with everything that stands
  against it, the trial in a worktree of its own, and the canonical change with its ledger record,
  commit and stored evidence.  The time limit is a number of seconds read as positive or not, and its text.
\<close>

section \<open>Plans\<close>

record rollback_blocker =
  bl_code :: string
  bl_message :: string
  bl_task_id :: "string option"

record rollback_plan =
  pl_work_item_id :: string
  pl_run_id :: "string option"
  pl_target_commit :: "string option"
  pl_changed_files :: "string list"
  pl_downstream_task_ids :: "string list"
  pl_blockers :: "rollback_blocker list"

definition eligible :: "rollback_plan \<Rightarrow> bool" where
  "eligible p \<longleftrightarrow> pl_blockers p = [] \<and> pl_run_id p \<noteq> None \<and> pl_target_commit p \<noteq> None"

definition blocker :: "string \<Rightarrow> string \<Rightarrow> string option \<Rightarrow> rollback_blocker" where
  "blocker c m i = \<lparr>bl_code = c, bl_message = m, bl_task_id = i\<rparr>"

definition blocker_if :: "bool \<Rightarrow> string \<Rightarrow> string \<Rightarrow> string option \<Rightarrow> rollback_blocker list" where
  "blocker_if b c m i = (if b then [blocker c m i] else [])"

definition latest_successful_run :: "string \<Rightarrow> store \<Rightarrow> run_record option res" where
  "latest_successful_run wid s = rbind (history s) (\<lambda>runs.
     Inr (List.find (\<lambda>r. rr_work_item_id r = wid \<and> rr_ok r \<and> rr_commit r \<noteq> None) (rev runs)))"

text \<open>The checks inside the \<open>try\<close>: a \<open>GitError\<close> ends them; the blockers found before it stay.\<close>

fun run_checks :: "('s, rollback_blocker list) op list \<Rightarrow> ('s, rollback_blocker list \<times> exn option) op" where
  "run_checks [] = ret ([], None)"
| "run_checks (c # cs) =
     mbind (attempt is_git_error c) (\<lambda>x. case x of
       Inl e \<Rightarrow> ret ([], Some e)
     | Inr bs \<Rightarrow> mbind (run_checks cs) (\<lambda>(more, err). ret (bs @ more, err)))"

definition target_checks ::
  "('r, 'x) host_scheme \<Rightarrow> path \<Rightarrow> string \<Rightarrow> queue_task \<Rightarrow> string \<Rightarrow> string option
     \<Rightarrow> ('r world, rollback_blocker list) op list" where
  "target_checks h repo wid task target expected =
     [case qt_last_commit task of
        None \<Rightarrow> ret (blocker_if True ''LATEST_COMMIT_MISMATCH''
          ''Latest task state does not point to the latest successful run commit.'' (Some wid))
      | Some c \<Rightarrow> mbind (in_repo (resolve_commit h repo c)) (\<lambda>full.
          ret (blocker_if (full \<noteq> target) ''LATEST_COMMIT_MISMATCH''
            ''Latest task state does not point to the latest successful run commit.'' (Some wid))),
      case expected of
        None \<Rightarrow> ret []
      | Some c \<Rightarrow> mbind (in_repo (resolve_commit h repo c)) (\<lambda>full.
          ret (blocker_if (full \<noteq> target) ''EXPECTED_COMMIT_MISMATCH''
            ''Expected commit does not match the recorded task commit.'' (Some wid))),
      mbind (in_repo (commit_is_ancestor h repo target ''HEAD'')) (\<lambda>b.
        ret (blocker_if (\<not> b) ''TARGET_NOT_ANCESTOR'' ''Recorded task commit is not an ancestor of HEAD.'' (Some wid))),
      mbind (in_repo (commit_parents h repo target)) (\<lambda>parents.
        ret (blocker_if (length parents \<noteq> 1) ''UNSUPPORTED_COMMIT_SHAPE''
          ''Rollback supports only non-root, non-merge commits with exactly one parent.'' (Some wid)))]"

definition git_invalid :: "string \<Rightarrow> exn \<Rightarrow> rollback_blocker" where
  "git_invalid wid e = blocker ''GIT_EVIDENCE_INVALID'' (exn_message e) (Some wid)"

text \<open>The target commit, its files and what stands against it.\<close>

definition target_evidence ::
  "('r, 'x) host_scheme \<Rightarrow> path \<Rightarrow> string \<Rightarrow> queue_task \<Rightarrow> string \<Rightarrow> string option
     \<Rightarrow> ('r, string option \<times> string list \<times> rollback_blocker list) world_op" where
  "target_evidence h repo wid task commit expected =
     mbind (attempt is_git_error (in_repo (resolve_commit h repo commit))) (\<lambda>t. case t of
       Inl e \<Rightarrow> ret (None, [], [git_invalid wid e])
     | Inr target \<Rightarrow>
         mbind (run_checks (target_checks h repo wid task target expected)) (\<lambda>(bs, err). case err of
           Some e \<Rightarrow> ret (Some target, [], bs @ [git_invalid wid e])
         | None \<Rightarrow>
             mbind (attempt is_git_error (in_repo (commit_changed_files h repo target))) (\<lambda>f. case f of
               Inl e \<Rightarrow> ret (Some target, [], bs @ [git_invalid wid e])
             | Inr files \<Rightarrow> ret (Some target, files, bs @ blocker_if (files = []) ''TARGET_HAS_NO_CHANGES''
                 ''Recorded commit has no changed files to revert.'' (Some wid)))))"

definition run_evidence ::
  "('r, 'x) host_scheme \<Rightarrow> path \<Rightarrow> string \<Rightarrow> queue_task \<Rightarrow> run_record option \<Rightarrow> string option
     \<Rightarrow> ('r, string option \<times> string list \<times> rollback_blocker list) world_op" where
  "run_evidence h repo wid task run expected =
     (case run of
        Some r \<Rightarrow> (case rr_commit r of
            Some c \<Rightarrow> target_evidence h repo wid task c expected
          | None \<Rightarrow> ret (None, [], [blocker ''SUCCESSFUL_RUN_NOT_FOUND''
              ''No successful HoH run with a commit was found for the task.'' (Some wid)]))
      | None \<Rightarrow> ret (None, [], [blocker ''SUCCESSFUL_RUN_NOT_FOUND''
          ''No successful HoH run with a commit was found for the task.'' (Some wid)]))"

definition active_for_rollback :: "queue_task \<Rightarrow> bool" where
  "active_for_rollback t \<longleftrightarrow> qt_status t \<in> {Running, Review_Pending, Rework_Required, Escalated}"

definition blocks_downstream :: "queue_task \<Rightarrow> bool" where
  "blocks_downstream t \<longleftrightarrow> qt_status t = Done \<or> active_for_rollback t"

definition task_equation :: "queue_task \<Rightarrow> string" where
  "task_equation t = task_id t @ ''='' @ status_str (qt_status t) @ ''.''"

definition prior_blockers :: "string \<Rightarrow> string option \<Rightarrow> rollback_record list \<Rightarrow> rollback_blocker list" where
  "prior_blockers wid target past = (case target of
     None \<Rightarrow> []
   | Some t \<Rightarrow> (case List.find (\<lambda>r. rb_ok r \<and> rb_target_commit r = t) past of
       None \<Rightarrow> []
     | Some r \<Rightarrow> [blocker ''ALREADY_ROLLED_BACK'' (''Commit was already rolled back by ''
         @ (case rb_rollback_commit r of None \<Rightarrow> ''None'' | Some c \<Rightarrow> c) @ ''.'') (Some wid)]))"

definition plan_of ::
  "string \<Rightarrow> queue_task \<Rightarrow> run_record option \<Rightarrow> string option \<Rightarrow> string list \<Rightarrow> rollback_blocker list \<Rightarrow> bool
     \<Rightarrow> queue_task list \<Rightarrow> queue_task list \<Rightarrow> rollback_record list \<Rightarrow> rollback_plan" where
  "plan_of wid task run target files against clean tasks downstream past =
     \<lparr>pl_work_item_id = wid, pl_run_id = map_option rr_run_id run, pl_target_commit = target, pl_changed_files = files,
      pl_downstream_task_ids = map task_id downstream,
      pl_blockers =
        blocker_if (qt_status task \<noteq> Done) ''TASK_NOT_DONE''
          (''Task must be done before rollback; current status is '' @ status_str (qt_status task) @ ''.'') (Some wid)
        @ against
        @ blocker_if (\<not> clean) ''CANONICAL_REPOSITORY_DIRTY'' ''Canonical repository must be clean before rollback.'' None
        @ map (\<lambda>t. blocker ''ACTIVE_TASK'' (''Active or unresolved task blocks rollback: '' @ task_equation t) (Some (task_id t)))
            (filter active_for_rollback tasks)
        @ map (\<lambda>t. blocker ''DOWNSTREAM_TASK_BLOCKS_ROLLBACK''
              (''Downstream task must be remediated first: '' @ task_equation t) (Some (task_id t)))
            (filter blocks_downstream downstream)
        @ prior_blockers wid target past\<rparr>"

definition plan_found ::
  "('r, 'x) host_scheme \<Rightarrow> path \<Rightarrow> path \<Rightarrow> string \<Rightarrow> string option \<Rightarrow> queue_task \<Rightarrow> ('r, rollback_plan) world_op" where
  "plan_found h repo root wid expected task =
     mbind (on_store root (gets (latest_successful_run wid))) (\<lambda>run.
     mbind (run_evidence h repo wid task run expected) (\<lambda>(target, files, against).
     mbind (in_repo (repository_is_clean h repo)) (\<lambda>clean.
     mbind (on_store root (gets list_tasks)) (\<lambda>tasks.
     mbind (on_store root (gets (store_downstream_tasks wid))) (\<lambda>downstream.
     mbind (if target = None then ret [] else on_store root (gets rollback_records)) (\<lambda>past.
     ret (plan_of wid task run target files against clean tasks downstream past)))))))"

definition plan_rollback ::
  "('r, 'x) host_scheme \<Rightarrow> path \<Rightarrow> path \<Rightarrow> string \<Rightarrow> string option \<Rightarrow> ('r, rollback_plan) world_op" where
  "plan_rollback h repo root wid expected =
     mseq (in_repo (ensure_git_repository h repo))
    (mbind (attempt is_store_error (on_store root (gets (get_task wid)))) (\<lambda>t. case t of
       Inl e \<Rightarrow> ret \<lparr>pl_work_item_id = wid, pl_run_id = None, pl_target_commit = None, pl_changed_files = [],
         pl_downstream_task_ids = [], pl_blockers = [blocker ''TASK_NOT_FOUND'' (exn_message e) (Some wid)]\<rparr>
     | Inr task \<Rightarrow> plan_found h repo root wid expected task))"

section \<open>Records and reasons\<close>

text \<open>\<open>re.sub(r"\s+", " ", value)\<close>; the flag says that a blank already stands for this run.\<close>

fun squeeze_spaces :: "bool \<Rightarrow> string \<Rightarrow> string" where
  "squeeze_spaces inside [] = []"
| "squeeze_spaces inside (c # cs) =
     (if is_space c then (if inside then squeeze_spaces True cs else CHR '' '' # squeeze_spaces True cs)
      else c # squeeze_spaces False cs)"

definition normalize_reason :: "string \<Rightarrow> string res" where
  "normalize_reason v = (let n = strip (squeeze_spaces False v) in
     if n = [] then Inl (RollbackError ''Rollback reason must be non-empty.'')
     else if 200 < length n then Inl (RollbackError ''Rollback reason must be at most 200 characters.'')
     else Inr n)"

definition new_rollback_record ::
  "rollback_plan \<Rightarrow> string \<Rightarrow> bool \<Rightarrow> command_result list \<Rightarrow> string option \<Rightarrow> string option \<Rightarrow> string option
     \<Rightarrow> ('r, rollback_record) world_op" where
  "new_rollback_record p reason ok results commit err rid =
     (case (pl_run_id p, pl_target_commit p) of
        (Some run, Some target) \<Rightarrow>
          mbind (case rid of Some i \<Rightarrow> if i = [] then world_uuid else ret i | None \<Rightarrow> world_uuid) (\<lambda>i.
          mbind world_now (\<lambda>now.
          ret \<lparr>rb_rollback_id = i, rb_created_at_utc = now, rb_work_item_id = pl_work_item_id p, rb_run_id = run,
               rb_target_commit = target, rb_rollback_commit = commit, rb_reason = reason, rb_ok = ok,
               rb_changed_files = pl_changed_files p, rb_command_results = results, rb_error = err\<rparr>))
      | _ \<Rightarrow> raise (RollbackError ''Cannot record rollback without exact run and commit evidence.''))"

text \<open>A failure is recorded and raised.\<close>

definition record_failed ::
  "path \<Rightarrow> rollback_plan \<Rightarrow> string \<Rightarrow> command_result list \<Rightarrow> string \<Rightarrow> ('r, unit) world_op" where
  "record_failed root p reason results err =
     mbind (new_rollback_record p reason False results None (Some err) None) (\<lambda>r.
     mseq (on_store root (record_rollback r)) (ret ()))"

definition blocker_text :: "rollback_plan \<Rightarrow> string" where
  "blocker_text p = join ''; '' (map (\<lambda>b. bl_code b @ '': '' @ bl_message b) (pl_blockers p))"

section \<open>The trial\<close>

definition rollback_item :: "rollback_plan \<Rightarrow> string \<Rightarrow> string list \<Rightarrow> work_item" where
  "rollback_item p target commands =
     \<lparr>wi_id = ''rollback-'' @ pl_work_item_id p, wi_title = ''Rollback '' @ pl_work_item_id p,
      wi_objective = ''Revert exact HoH commit '' @ target @ ''.'',
      wi_acceptance_criteria = [''Operator-provided rollback verification commands pass.''],
      wi_verification_commands = commands, wi_allowed_paths = pl_changed_files p,
      wi_non_goals = [''Do not modify files outside the target commit.''], wi_depends_on = [], wi_priority = 0,
      wi_correction_instructions = [], wi_correction_decision_id = None\<rparr>"

definition rollback_commands ::
  "('r, 'x) host_scheme \<Rightarrow> string \<Rightarrow> string list \<Rightarrow> path \<Rightarrow> ('r, command_result list) world_op" where
  "rollback_commands h timeout commands repo =
     in_repo (run_verification_commands h (resolve_command (mc_running h) operator_policy) repo timeout commands)"

definition is_rollback_caught :: "exn \<Rightarrow> bool" where
  "is_rollback_caught e \<longleftrightarrow> is_git_error e \<or> is_store_error e"

text \<open>\<open>except (GitError, StateStoreError) as exc\<close>, with the command results known at that point.\<close>

definition trial_step ::
  "path \<Rightarrow> rollback_plan \<Rightarrow> string \<Rightarrow> command_result list \<Rightarrow> ('r, 'a) world_op \<Rightarrow> ('r, 'a) world_op" where
  "trial_step root p reason results m =
     mbind (attempt is_rollback_caught m) (\<lambda>x. case x of
       Inr v \<Rightarrow> ret v
     | Inl e \<Rightarrow> mseq (record_failed root p reason results (exn_message e)) (raise (RollbackError (exn_message e))))"

definition check_trial ::
  "('r, 'x) host_scheme \<Rightarrow> path \<Rightarrow> worktree_attempt \<Rightarrow> work_item \<Rightarrow> rollback_plan \<Rightarrow> string \<Rightarrow> command_result list
     \<Rightarrow> ('r, worker_patch) world_op" where
  "check_trial h root a wi p reason results =
     (if \<not> list_all command_ok results then
        (let err = ''Rollback verification failed in isolated worktree.''
         in mseq (record_failed root p reason results err) (raise (RollbackError err)))
      else
      mbind (collect_attempt_patch h a ''supervisor-rollback'' wi) (\<lambda>patch.
      mbind (lift_res (changed_files_from_patch (wp_patch patch))) (\<lambda>actual.
      if set actual \<noteq> set (pl_changed_files p) then
        (let err = ''Rollback patch scope differs from the exact target commit: expected='' @ join '','' (pl_changed_files p)
             @ '' actual='' @ join '','' actual
         in mseq (record_failed root p reason results err) (raise (RollbackError err)))
      else ret patch)))"

definition rollback_trial ::
  "('r, 'x) host_scheme \<Rightarrow> path \<Rightarrow> worktree_attempt \<Rightarrow> work_item \<Rightarrow> rollback_plan \<Rightarrow> string \<Rightarrow> string \<Rightarrow> string
     \<Rightarrow> string list \<Rightarrow> ('r, worker_patch \<times> command_result list) world_op" where
  "rollback_trial h root a wi p target reason timeout commands =
     mseq (trial_step root p reason [] (in_repo (revert_commit_no_commit h (wa_path a) target)))
    (mbind (rollback_commands h timeout commands (wa_path a)) (\<lambda>results.
     mbind (trial_step root p reason results (check_trial h root a wi p reason results)) (\<lambda>patch.
     ret (patch, results))))"

section \<open>The canonical change\<close>

definition restore_message :: "exn \<Rightarrow> exn \<Rightarrow> string" where
  "restore_message e e2 = exn_message e @ ''; canonical restore also failed: '' @ exn_message e2"

text \<open>
  \<open>except GitError as exc\<close>: \<open>reverting\<close> is \<open>canonical_applied and not committed\<close> where the
  exception was raised.
\<close>

definition canonical_failed ::
  "('r, 'x) host_scheme \<Rightarrow> path \<Rightarrow> path \<Rightarrow> rollback_plan \<Rightarrow> string \<Rightarrow> string \<Rightarrow> bool \<Rightarrow> command_result list \<Rightarrow> exn
     \<Rightarrow> ('r, 'a) world_op" where
  "canonical_failed h repo root p reason oid reverting results e =
     mbind (if reverting then
          mbind (attempt is_git_error (in_repo (restore_paths_to_head h repo (pl_changed_files p)))) (\<lambda>x. case x of
            Inr _ \<Rightarrow> ret (exn_message e)
          | Inl e2 \<Rightarrow> ret (restore_message e e2))
        else ret (exn_message e)) (\<lambda>m.
     mseq (record_failed root p reason results m)
    (mseq (if reverting then mseq (ledger_terminal h repo oid ''reverted'' (Some m)) (ret ()) else ret ())
     (raise (RollbackError m))))"

definition canonical_step ::
  "('r, 'x) host_scheme \<Rightarrow> path \<Rightarrow> path \<Rightarrow> rollback_plan \<Rightarrow> string \<Rightarrow> string \<Rightarrow> bool \<Rightarrow> command_result list
     \<Rightarrow> ('r, 'a) world_op \<Rightarrow> ('r, 'a) world_op" where
  "canonical_step h repo root p reason oid reverting results m =
     mbind (attempt is_git_error m) (\<lambda>x. case x of
       Inr v \<Rightarrow> ret v
     | Inl e \<Rightarrow> canonical_failed h repo root p reason oid reverting results e)"

definition rollback_message :: "rollback_plan \<Rightarrow> string \<Rightarrow> string \<Rightarrow> string \<Rightarrow> string" where
  "rollback_message p target reason oid =
     ''rollback('' @ pl_work_item_id p @ ''): revert '' @ take 12 target @ '' - '' @ reason
     @ [CHR 0x0A, CHR 0x0A] @ ''HoH-Operation: '' @ oid"

text \<open>The patch is in the canonical working tree: from the commands to the commit (its short name).\<close>

definition canonical_commit ::
  "('r, 'x) host_scheme \<Rightarrow> path \<Rightarrow> path \<Rightarrow> rollback_plan \<Rightarrow> string \<Rightarrow> string \<Rightarrow> string \<Rightarrow> command_result list
     \<Rightarrow> ('r, string) world_op" where
  "canonical_commit h repo root p target reason oid results =
     (if \<not> list_all command_ok results then
        (let err = ''Rollback verification failed after canonical patch application.'' in
         mseq (in_repo (restore_paths_to_head h repo (pl_changed_files p)))
        (mseq (record_failed root p reason results err)
        (mseq (ledger_terminal h repo oid ''reverted'' (Some err))
        (raise (RollbackError err)))))
      else
        mbind (new_rollback_record p reason True results None None (Some oid)) (\<lambda>provisional.
        mseq (ledger_phase h repo oid ''verified'' [(''rollback_record'', rollback_to_json h provisional)])
       (mseq (in_repo (stage_paths h repo (pl_changed_files p)))
       (mbind (in_repo (commit_staged h repo (rollback_message p target reason oid))) (\<lambda>short.
        case short of
          None \<Rightarrow> raise (RollbackError ''Rollback produced no commit.'')
        | Some s \<Rightarrow> ret s)))))"

definition canonical_rollback ::
  "('r, 'x) host_scheme \<Rightarrow> path \<Rightarrow> path \<Rightarrow> rollback_plan \<Rightarrow> string \<Rightarrow> string \<Rightarrow> string \<Rightarrow> string \<Rightarrow> string list
     \<Rightarrow> string \<Rightarrow> command_result list \<Rightarrow> ('r, rollback_record) world_op" where
  "canonical_rollback h repo root p target reason oid timeout commands patch trial =
     mseq (canonical_step h repo root p reason oid False trial (in_repo (apply_patch h repo patch)))
    (mseq (ledger_phase h repo oid ''patch_applied'' [])
    (mbind (rollback_commands h timeout commands repo) (\<lambda>results.
     mbind (canonical_step h repo root p reason oid True results
       (canonical_commit h repo root p target reason oid results)) (\<lambda>short.
     mbind (canonical_step h repo root p reason oid False results (in_repo (resolve_commit h repo short))) (\<lambda>commit.
     mbind (new_rollback_record p reason True results (Some commit) None (Some oid)) (\<lambda>r.
     mseq (ledger_phase h repo oid ''commit_created'' [(''commit'', JStr commit), (''rollback_record'', rollback_to_json h r)])
    (mbind (on_store root (complete_rollback r)) (\<lambda>stored.
     mseq (ledger_phase h repo oid ''state_recorded'' [])
    (mseq (ledger_terminal h repo oid ''complete'' (Some ''Rollback commit and StateStore evidence are durable.''))
    (ret stored))))))))))"

section \<open>Applying a rollback\<close>

definition apply_planned ::
  "('r, 'x) host_scheme \<Rightarrow> path \<Rightarrow> path \<Rightarrow> rollback_plan \<Rightarrow> string \<Rightarrow> string \<Rightarrow> string \<Rightarrow> string \<Rightarrow> string list
     \<Rightarrow> ('r, rollback_record) world_op" where
  "apply_planned h repo root p run target reason timeout commands =
     (let wi = rollback_item p target commands in
      mbind (create_worktree_attempt h repo (path_join (path_parent repo) (path_of ''.hoh-rollback-attempts'')) wi) (\<lambda>a.
      mbind (finally_do (rollback_trial h root a wi p target reason timeout commands) (remove_worktree_attempt h a True))
        (\<lambda>(patch, results).
      mbind (plan_rollback h repo root (pl_work_item_id p) (Some target)) (\<lambda>again.
      if \<not> eligible again then
        (let err = ''Rollback preconditions changed after isolated verification: '' @ blocker_text again
         in mseq (record_failed root p reason results err) (raise (RollbackError err)))
      else
        mbind world_uuid (\<lambda>oid.
        mseq (begin_rollback h repo oid root (pl_work_item_id p) run target (wp_patch patch) (pl_changed_files p) reason)
       (canonical_rollback h repo root p target reason oid timeout commands (wp_patch patch) results))))))"

definition apply_rollback_locked ::
  "('r, 'x) host_scheme \<Rightarrow> path \<Rightarrow> path \<Rightarrow> string \<Rightarrow> string \<Rightarrow> string \<Rightarrow> string list \<Rightarrow> bool \<Rightarrow> string
     \<Rightarrow> ('r, rollback_record) world_op" where
  "apply_rollback_locked h repo root wid expected raw commands positive timeout =
     mbind (lift_res (normalize_reason raw)) (\<lambda>reason.
     mseq (require positive (RollbackError ''Rollback timeout must be greater than zero.''))
    (mseq (require (commands \<noteq> [] \<and> list_all (\<lambda>c. strip c \<noteq> []) commands)
       (RollbackError ''At least one non-empty post-rollback verification command is required.''))
    (mbind (map_exn (\<lambda>e. if is_git_error e then RollbackError (exn_message e) else e)
       (in_repo (resolve_commit h repo expected))) (\<lambda>full.
     mbind (on_store root (gets rollback_records)) (\<lambda>past.
     case List.find (\<lambda>r. rb_ok r \<and> rb_work_item_id r = wid \<and> rb_target_commit r = full) past of
       Some prior \<Rightarrow> ret prior
     | None \<Rightarrow>
         mbind (plan_rollback h repo root wid (Some full)) (\<lambda>p.
         case (pl_target_commit p, pl_run_id p) of
           (Some target, Some run) \<Rightarrow>
             if pl_blockers p = [] then apply_planned h repo root p run target reason timeout commands
             else raise (RollbackError (blocker_text p))
         | _ \<Rightarrow> raise (RollbackError
             (if blocker_text p = [] then ''Rollback plan is not eligible.'' else blocker_text p))))))))"

definition apply_rollback ::
  "('r, 'x) host_scheme \<Rightarrow> path \<Rightarrow> path \<Rightarrow> string \<Rightarrow> string \<Rightarrow> string \<Rightarrow> string list \<Rightarrow> bool \<Rightarrow> string
     \<Rightarrow> ('r, rollback_record) world_op" where
  "apply_rollback h repo root wid expected raw commands positive timeout =
     map_exn (\<lambda>e. if is_contention e then RollbackError (''Repository execution lease is busy: '' @ exn_message e) else e)
       (with_lease (mseq (assert_no_blocking h repo)
         (apply_rollback_locked h repo root wid expected raw commands positive timeout)))"

end
