(* ===== verification/Rollback_Props.thy ===== *)
theory Rollback_Props imports Rollback Review_Props begin

text \<open>
  The properties of the rollback: what a plan without blockers has established, what an applied rollback
  leaves behind, and what a failed restore leaves in the ledger.
\<close>

section \<open>Calls that return\<close>

text \<open>\<open>yields P m Q\<close>: from a state in \<open>P\<close>, whenever \<open>m\<close> returns a value, \<open>Q\<close> holds of it and the state after.\<close>

definition yields :: "('s \<Rightarrow> bool) \<Rightarrow> ('s, 'a) op \<Rightarrow> ('a \<Rightarrow> 's \<Rightarrow> bool) \<Rightarrow> bool" where
  "yields P m Q \<longleftrightarrow> (\<forall>s x s'. P s \<longrightarrow> m s = (Inr x, s') \<longrightarrow> Q x s')"

lemma yields_ret: "(\<And>s. P s \<Longrightarrow> Q x s) \<Longrightarrow> yields P (ret x) Q"
  by (simp add: yields_def ret_def)

lemma yields_raise: "yields P (raise e) Q"
  by (simp add: yields_def)

lemma yields_bind: "yields P m R \<Longrightarrow> (\<And>x. yields (R x) (k x) Q) \<Longrightarrow> yields P (mbind m k) Q"
  unfolding yields_def mbind_Inr_iff by blast

lemma yields_seq: "yields P m (\<lambda>_. R) \<Longrightarrow> yields R k Q \<Longrightarrow> yields P (mseq m k) Q"
  unfolding yields_def mseq_Inr_iff by blast

lemma yields_mono: "yields P m Q \<Longrightarrow> (\<And>s. P' s \<Longrightarrow> P s) \<Longrightarrow> (\<And>x s. Q x s \<Longrightarrow> Q' x s) \<Longrightarrow> yields P' m Q'"
  unfolding yields_def by blast

lemma yields_given: "(b \<Longrightarrow> yields P m Q) \<Longrightarrow> yields (\<lambda>s. P s \<and> b) m Q"
  unfolding yields_def by blast

lemma yields_attempt: "yields P m Q \<Longrightarrow> (\<And>s. P s \<Longrightarrow> E (snd (m s))) \<Longrightarrow>
    yields P (attempt h m) (\<lambda>x s. case x of Inl _ \<Rightarrow> E s | Inr v \<Rightarrow> Q v s)"
  unfolding yields_def attempt_Inr_iff by (metis snd_conv sum.simps(5) sum.simps(6))

lemma yields_lift: "yields P (lift_res v) (\<lambda>x s. P s \<and> v = Inr x)"
  by (cases v) (auto simp: yields_def lift_res_def)

lemma yields_require: "yields P (require b e) (\<lambda>_ s. P s \<and> b)"
  by (cases b) (auto simp: yields_def)

lemma yields_map_exn: "yields P m Q \<Longrightarrow> yields P (map_exn f m) Q"
  by (auto simp: yields_def map_exn_def split: prod.splits sum.splits)

section \<open>What the store holds\<close>

definition holds_store :: "path \<Rightarrow> store \<Rightarrow> 'r world \<Rightarrow> bool" where
  "holds_store root s w \<longleftrightarrow> (w_stores w root)\<lparr>st_budget := None\<rparr> = s\<lparr>st_budget := None\<rparr>"

abbreviation budget_free :: "(store \<Rightarrow> 'a res) \<Rightarrow> bool" where
  "budget_free f \<equiv> \<forall>s b. f (s\<lparr>st_budget := b\<rparr>) = f s"

lemma holds_read: "holds_store root s w \<Longrightarrow> budget_free f \<Longrightarrow> f ((w_stores w root)\<lparr>st_budget := b\<rparr>) = f s"
  unfolding holds_store_def by metis

lemma yields_gets:
  assumes "budget_free f"
  shows "yields (holds_store root s) (on_store root (gets f)) (\<lambda>x w. holds_store root s w \<and> f s = Inr x)"
  unfolding yields_def
proof (intro allI impI)
  fix w x w'
  assume w: "holds_store root s w" and run: "on_store root (gets f) w = (Inr x, w')"
  have "f s = Inr x" using run holds_read [OF w assms] by (auto simp: on_store_def gets_def split: prod.splits)
  moreover have "holds_store root s w'" using run w by (auto simp: on_store_def gets_def holds_store_def split: prod.splits)
  ultimately show "holds_store root s w' \<and> f s = Inr x" by simp
qed

lemma yields_in_repo: "yields (holds_store root s) (in_repo m) (\<lambda>_. holds_store root s)"
  by (auto simp: yields_def in_repo_def holds_store_def split: prod.splits)

lemma budget_reads: "budget_free list_tasks" "budget_free (get_task wid)" "budget_free history"
    "budget_free (latest_successful_run wid)" "budget_free (store_downstream_tasks wid)" "budget_free rollback_records"
  by (simp_all add: list_tasks_def get_task_def history_def latest_successful_run_def store_downstream_tasks_def
      rollback_records_def)

section \<open>Plans\<close>

text \<open>\<open>answered m x\<close>: the repository answered the query \<open>m\<close> with \<open>x\<close>.\<close>

definition answered :: "('r, 'a) op \<Rightarrow> 'a \<Rightarrow> bool" where
  "answered m x \<longleftrightarrow> (\<exists>r r'. m r = (Inr x, r'))"

lemma in_repo_answered: "in_repo m w = (Inr x, w') \<Longrightarrow> answered m x"
  by (auto simp: in_repo_def answered_def split: prod.splits)

lemma checks_passed: "run_checks cs w = (Inr ([], None), w') \<Longrightarrow> c \<in> set cs \<Longrightarrow> \<exists>u v. c u = (Inr [], v)"
proof (induction cs arbitrary: w w')
  case (Cons d cs)
  obtain w1 where "d w = (Inr [], w1)" "run_checks cs w1 = (Inr ([], None), w')"
    using Cons.prems(1) by (auto simp: mbind_Inr_iff attempt_Inr_iff ret_def split: prod.splits)
  then show ?case using Cons.IH Cons.prems(2) by auto
qed simp

definition fits_target :: "('r, 'x) host_scheme \<Rightarrow> path \<Rightarrow> queue_task \<Rightarrow> string option \<Rightarrow> string \<Rightarrow> bool" where
  "fits_target h repo task expected target \<longleftrightarrow>
     (\<exists>c. qt_last_commit task = Some c \<and> answered (resolve_commit h repo c) target)
     \<and> (case expected of None \<Rightarrow> True | Some c \<Rightarrow> answered (resolve_commit h repo c) target)
     \<and> answered (commit_is_ancestor h repo target ''HEAD'') True
     \<and> (\<exists>q. answered (commit_parents h repo target) [q])"

lemma blocker_if_Nil [simp]: "blocker_if b c m i = [] \<longleftrightarrow> \<not> b"
  by (simp add: blocker_if_def)

lemma gated: "mbind (in_repo m) (\<lambda>x. ret (blocker_if (b x) c t i)) u = (Inr [], v) \<Longrightarrow> \<exists>x. answered m x \<and> \<not> b x"
  using in_repo_answered by (fastforce simp: mbind_Inr_iff ret_def)

lemma target_fits:
  assumes "run_checks (target_checks h repo wid task target expected) w = (Inr ([], None), w')"
  shows "fits_target h repo task expected target"
proof -
  have all: "\<exists>u v. c u = (Inr [], v)" if "c \<in> set (target_checks h repo wid task target expected)" for c
    using checks_passed [OF assms that] .
  note checks = all [unfolded target_checks_def list.set insert_iff]
  have "\<exists>c. qt_last_commit task = Some c \<and> answered (resolve_commit h repo c) target"
    using checks [OF disjI1 [OF refl]] by (cases "qt_last_commit task") (auto dest!: gated)
  moreover have "case expected of None \<Rightarrow> True | Some c \<Rightarrow> answered (resolve_commit h repo c) target"
    using checks [OF disjI2 [OF disjI1 [OF refl]]] by (cases expected) (auto dest!: gated)
  moreover have "answered (commit_is_ancestor h repo target ''HEAD'') True"
    using checks [OF disjI2 [OF disjI2 [OF disjI1 [OF refl]]]] by (auto dest!: gated)
  moreover have "\<exists>q. answered (commit_parents h repo target) [q]"
  proof -
    obtain parents where "answered (commit_parents h repo target) parents" "length parents = 1"
      using checks [OF disjI2 [OF disjI2 [OF disjI2 [OF disjI1 [OF refl]]]]] by (auto dest!: gated)
    then show ?thesis by (cases parents) auto
  qed
  ultimately show ?thesis by (simp add: fits_target_def)
qed

lemma evidence_fits:
  assumes "target_evidence h repo wid task c expected w = (Inr (t, files, []), w')" "t \<noteq> None"
  shows "\<exists>target. t = Some target \<and> files \<noteq> [] \<and> answered (resolve_commit h repo c) target
    \<and> fits_target h repo task expected target \<and> answered (commit_changed_files h repo target) files"
proof -
  obtain w1 target where a: "in_repo (resolve_commit h repo c) w = (Inr target, w1)" and b:
      "mbind (run_checks (target_checks h repo wid task target expected)) (\<lambda>(bs, err). case err of
           Some e \<Rightarrow> ret (Some target, [], bs @ [git_invalid wid e])
         | None \<Rightarrow>
             mbind (attempt is_git_error (in_repo (commit_changed_files h repo target))) (\<lambda>f. case f of
               Inl e \<Rightarrow> ret (Some target, [], bs @ [git_invalid wid e])
             | Inr files \<Rightarrow> ret (Some target, files, bs @ blocker_if (files = []) ''TARGET_HAS_NO_CHANGES''
                 ''Recorded commit has no changed files to revert.'' (Some wid)))) w1 = (Inr (t, files, []), w')"
    using assms unfolding target_evidence_def mbind_Inr_iff [of "attempt is_git_error (in_repo (resolve_commit h repo c))"] attempt_Inr_iff
    by (auto simp: ret_def)
  obtain bs err w2 where r: "run_checks (target_checks h repo wid task target expected) w1 = (Inr (bs, err), w2)"
    and k: "(case err of Some e \<Rightarrow> ret (Some target, [], bs @ [git_invalid wid e])
         | None \<Rightarrow>
             mbind (attempt is_git_error (in_repo (commit_changed_files h repo target))) (\<lambda>f. case f of
               Inl e \<Rightarrow> ret (Some target, [], bs @ [git_invalid wid e])
             | Inr files \<Rightarrow> ret (Some target, files, bs @ blocker_if (files = []) ''TARGET_HAS_NO_CHANGES''
                 ''Recorded commit has no changed files to revert.'' (Some wid)))) w2 = (Inr (t, files, []), w')"
    using b unfolding mbind_Inr_iff [of "run_checks _"] by (auto split: prod.splits)
  have n: "err = None" using k by (cases err) (auto simp: ret_def)
  then obtain w3 fs where f: "in_repo (commit_changed_files h repo target) w2 = (Inr fs, w3)"
      "t = Some target" "fs = files" "bs = []" "files \<noteq> []"
    using k by (auto simp: mbind_Inr_iff attempt_Inr_iff ret_def)
  have "run_checks (target_checks h repo wid task target expected) w1 = (Inr ([], None), w2)" using r n f(4) by simp
  from target_fits [OF this] f in_repo_answered [OF a] in_repo_answered [OF f(1)] show ?thesis by simp
qed

lemma keeps_in_repo: "within (keeping (holds_store root s)) (in_repo m)"
  by (auto simp: within_def keeping_def in_repo_def holds_store_def split: prod.splits)

lemma keeps_attempt: "within (keeping I) m \<Longrightarrow> within (keeping I) (attempt h m)"
  by (simp add: within_def)

lemma keeps_sum: "(\<And>e. within R (f e)) \<Longrightarrow> (\<And>x. within R (g x)) \<Longrightarrow> within R (case v of Inl e \<Rightarrow> f e | Inr x \<Rightarrow> g x)"
  by (cases v) simp_all

lemma keeps_checks: "(\<And>c. c \<in> set cs \<Longrightarrow> within (keeping I) c) \<Longrightarrow> within (keeping I) (run_checks cs)"
  by (induction cs) (auto intro!: keep.within_intros keeps_attempt keeps_sum)

lemma keeps_target_checks: "c \<in> set (target_checks h repo wid task target expected) \<Longrightarrow> within (keeping (holds_store root s)) c"
  by (auto simp: target_checks_def intro!: keep.within_intros keeps_in_repo)

lemma keeps_evidence: "within (keeping (holds_store root s)) (run_evidence h repo wid task run expected)"
  unfolding run_evidence_def target_evidence_def
  by (intro keep.within_intros keeps_in_repo keeps_attempt keeps_sum keeps_checks keeps_target_checks)

definition evidence_for ::
  "('r, 'x) host_scheme \<Rightarrow> path \<Rightarrow> queue_task \<Rightarrow> string option \<Rightarrow> run_record \<Rightarrow> string \<Rightarrow> string list \<Rightarrow> bool" where
  "evidence_for h repo task expected run target files \<longleftrightarrow> files \<noteq> []
     \<and> (\<exists>c. rr_commit run = Some c \<and> answered (resolve_commit h repo c) target)
     \<and> fits_target h repo task expected target \<and> answered (commit_changed_files h repo target) files"

lemma yields_evidence:
  "yields (holds_store root s) (run_evidence h repo wid task run expected) (\<lambda>(t, files, against) w.
     holds_store root s w \<and> (against = [] \<longrightarrow> t \<noteq> None \<longrightarrow>
       (\<exists>r target. run = Some r \<and> t = Some target \<and> evidence_for h repo task expected r target files)))"
  unfolding yields_def
proof (intro allI impI, clarify, intro conjI impI)
  fix w w' t files against
  assume w: "holds_store root s w" and run: "run_evidence h repo wid task run expected w = (Inr (t, files, against), w')"
  show "holds_store root s w'" using within_keepingD [OF keeps_evidence w run] .
  assume no: "against = []" "t \<noteq> None"
  obtain r c where "run = Some r" "rr_commit r = Some c" "target_evidence h repo wid task c expected w = (Inr (t, files, []), w')"
    using run no by (auto simp: run_evidence_def ret_def split: option.splits)
  with evidence_fits [OF this(3) no(2)] show "\<exists>r target. run = Some r \<and> t = Some target \<and> evidence_for h repo task expected r target files"
    by (auto simp: evidence_for_def)
qed

definition free_to_roll_back :: "string \<Rightarrow> store \<Rightarrow> string \<Rightarrow> bool" where
  "free_to_roll_back wid s target \<longleftrightarrow>
     (\<exists>tasks past. list_tasks s = Inr tasks \<and> rollback_records s = Inr past
       \<and> list_all (\<lambda>t. \<not> active_for_rollback t) tasks
       \<and> list_all (\<lambda>t. \<not> blocks_downstream t) (downstream_tasks wid tasks)
       \<and> list_all (\<lambda>r. \<not> (rb_ok r \<and> rb_target_commit r = target)) past)"

definition established ::
  "('r, 'x) host_scheme \<Rightarrow> path \<Rightarrow> string \<Rightarrow> string option \<Rightarrow> store \<Rightarrow> rollback_plan \<Rightarrow> bool" where
  "established h repo wid expected s p \<longleftrightarrow>
     (\<exists>task run target. get_task wid s = Inr task \<and> qt_status task = Done
       \<and> latest_successful_run wid s = Inr (Some run) \<and> pl_run_id p = Some (rr_run_id run)
       \<and> pl_target_commit p = Some target \<and> evidence_for h repo task expected run target (pl_changed_files p)
       \<and> answered (repository_is_clean h repo) True \<and> free_to_roll_back wid s target)"

lemma yields_clean:
  "yields (holds_store root s) (in_repo m) (\<lambda>x w. holds_store root s w \<and> answered m x)"
  using yields_in_repo in_repo_answered unfolding yields_def by fast

lemma no_prior: "prior_blockers wid (Some t) past = [] \<Longrightarrow> list_all (\<lambda>r. \<not> (rb_ok r \<and> rb_target_commit r = t)) past"
  by (auto simp: prior_blockers_def list_all_iff split: option.splits dest!: find_NoneD)

lemma yieldsD: "yields P m Q \<Longrightarrow> P s \<Longrightarrow> m s = (Inr x, s') \<Longrightarrow> Q x s'"
  unfolding yields_def by blast

lemma eligible_plan_of:
  "eligible (plan_of wid task run target files against clean tasks downstream past) \<Longrightarrow>
     qt_status task = Done \<and> against = [] \<and> clean \<and> list_all (\<lambda>t. \<not> active_for_rollback t) tasks
     \<and> list_all (\<lambda>t. \<not> blocks_downstream t) downstream
     \<and> (\<exists>r t. run = Some r \<and> target = Some t \<and> list_all (\<lambda>r. \<not> (rb_ok r \<and> rb_target_commit r = t)) past)"
  using no_prior by (auto simp: eligible_def plan_of_def filter_empty_conv list_all_iff)

lemma found_established:
  assumes w: "holds_store root s w" and task: "get_task wid s = Inr task"
    and run: "plan_found h repo root wid expected task w = (Inr p, w')" and e: "eligible p"
  shows "established h repo wid expected s p"
proof -
  obtain r w1 t files against w2 clean w3 tasks w4 downstream w5 past where
      a: "on_store root (gets (latest_successful_run wid)) w = (Inr r, w1)"
    and b: "run_evidence h repo wid task r expected w1 = (Inr (t, files, against), w2)"
    and c: "in_repo (repository_is_clean h repo) w2 = (Inr clean, w3)"
    and d: "on_store root (gets list_tasks) w3 = (Inr tasks, w4)"
    and f: "on_store root (gets (store_downstream_tasks wid)) w4 = (Inr downstream, w5)"
    and g: "(if t = None then ret [] else on_store root (gets rollback_records)) w5 = (Inr past, w')"
    and p: "p = plan_of wid task r t files against clean tasks downstream past"
    using run unfolding plan_found_def mbind_Inr_iff ret_def by (auto simp: mbind_Inr_iff split: prod.splits)
  note el = eligible_plan_of [OF e [unfolded p]]
  have a': "holds_store root s w1" "latest_successful_run wid s = Inr r"
    using yieldsD [OF yields_gets [OF budget_reads(4)] w a] by simp_all
  have b': "holds_store root s w2" "\<exists>r' target. r = Some r' \<and> t = Some target \<and> evidence_for h repo task expected r' target files"
    using yieldsD [OF yields_evidence a'(1) b] el by auto
  have c': "holds_store root s w3" "answered (repository_is_clean h repo) True"
    using yieldsD [OF yields_clean b'(1) c] el by simp_all
  have d': "holds_store root s w4" "list_tasks s = Inr tasks" using yieldsD [OF yields_gets [OF budget_reads(1)] c'(1) d] by simp_all
  have f': "holds_store root s w5" "downstream = downstream_tasks wid tasks"
    using yieldsD [OF yields_gets [OF budget_reads(5)] d'(1) f] d'(2) by (simp_all add: store_downstream_tasks_def)
  have g': "rollback_records s = Inr past"
    using g b'(2) yieldsD [OF yields_gets [OF budget_reads(6)] f'(1)] by (auto split: if_splits)
  show ?thesis using el a'(2) b'(2) c'(2) d'(2) f'(2) g' task
    by (auto simp: established_def free_to_roll_back_def p plan_of_def)
qed

section \<open>Completed rollbacks\<close>

definition marked :: "string \<Rightarrow> store \<Rightarrow> bool" where
  "marked wid s \<longleftrightarrow> (\<exists>ts. list_tasks s = Inr ts \<and> list_ex (\<lambda>t. task_id t = wid \<and> qt_status t = Rolled_Back) ts)"

definition recorded :: "rollback_record \<Rightarrow> store \<Rightarrow> bool" where
  "recorded r s \<longleftrightarrow> (\<exists>past. rollback_records s = Inr past \<and> r \<in> set past)"

lemma get_task_member: "get_task wid s = Inr t \<Longrightarrow> \<exists>ts. list_tasks s = Inr ts \<and> t \<in> set ts \<and> task_id t = wid"
  by (auto simp: get_task_Inr last_index_Some_iff)

lemma replaced_member:
  assumes "replace_task cur ch s = (Inr u, s')" "\<And>t. task_id t = task_id cur \<Longrightarrow> task_id (ch t) = task_id cur \<and> qt_status (ch t) = Rolled_Back"
  shows "marked (task_id cur) s'"
proof -
  obtain s1 now ts i where i: "first_index (\<lambda>t. t = cur) ts = Some i"
      and w: "write_tasks (ts[i := ch ((ts ! i)\<lparr>qt_updated_at_utc := now\<rparr>)]) s1 = (Inr (), s')"
    using assms(1) by (auto simp: replace_task_def mbind_Inr_iff mseq_Inr_iff Let_def ret_def split: option.splits sum.splits)
  have "i < length ts" "ts ! i = cur" using first_index_SomeD [OF i] by simp_all
  moreover have "list_tasks s' = Inr (ts[i := ch ((ts ! i)\<lparr>qt_updated_at_utc := now\<rparr>)])" using write_tasks_cases [OF w] by simp
  ultimately show ?thesis using assms(2) [of "cur\<lparr>qt_updated_at_utc := now\<rparr>"]
    by (auto simp: marked_def list_ex_iff intro!: set_update_memI bexI)
qed

lemma mark_marks:
  assumes "mark_rolled_back wid target commit s = (Inr t, s')"
  shows "marked wid s'"
proof -
  let ?ch = "\<lambda>t. t\<lparr>qt_status := Rolled_Back, qt_last_error := Some (rollback_text target commit)\<rparr>"
  obtain cur where cur: "get_task wid s = Inr cur" and
      k: "(if qt_status cur = Rolled_Back \<and> qt_last_error cur = Some (rollback_text target commit) then ret cur
      else mseq (require (qt_status cur = Done) (StateStoreError (''Only done tasks can be marked rolled back: '' @ wid)))
        (mbind (replace_task cur ?ch) (\<lambda>updated.
        mseq (transition_event updated (qt_status cur) Rolled_Back ''rollback.applied''
          (JObj [(''target_commit'', JStr target), (''rollback_commit'', JStr commit)]) None)
        (ret updated)))) s = (Inr t, s')"
    using assms unfolding mark_rolled_back_def state_mutation_Inr mbind_Inr_iff by (auto simp: gets_def)
  have wid: "task_id cur = wid" using get_task_member [OF cur] by auto
  show ?thesis
  proof (cases "qt_status cur = Rolled_Back \<and> qt_last_error cur = Some (rollback_text target commit)")
    case True
    then have "s' = s" using k by (simp add: ret_def)
    then show ?thesis using True get_task_member [OF cur] by (auto simp: marked_def list_ex_iff)
  next
    case False
    then obtain u s1 where r: "replace_task cur ?ch s = (Inr u, s1)" and
        e: "transition_event u (qt_status cur) Rolled_Back ''rollback.applied''
          (JObj [(''target_commit'', JStr target), (''rollback_commit'', JStr commit)]) None s1 = (Inr (), s')"
      using k by (auto simp: mseq_Inr_iff mbind_Inr_iff ret_def split: if_splits)
    have "marked wid s1" using replaced_member [OF r] wid by simp
    moreover have "list_tasks s' = list_tasks s1"
      using withinD [OF transition_same_queue e] by (intro list_tasks_cong) (simp add: same_queue_def)
    ultimately show ?thesis by (simp add: marked_def)
  qed
qed

lemma recorded_after:
  assumes "record_rollback r s = (Inr x, s')"
  shows "x = r \<and> recorded r s' \<and> (marked wid s \<longrightarrow> marked wid s')"
proof -
  obtain rs where rs: "rollback_records s = Inr rs"
    using assms by (auto simp: record_rollback_def state_mutation_Inr mbind_Inr_iff gets_def)
  have "list_tasks s' = list_tasks s"
    using withinD [OF record_rollback_same_queue assms] by (intro list_tasks_cong) (simp add: same_queue_def)
  then show ?thesis
    using rollback_log.put_recorded [OF assms _ rs] rollback_log.put_ok [OF assms _ rs] by (auto simp: recorded_def marked_def)
qed

lemma complete_completes:
  assumes "complete_rollback r s = (Inr x, s')"
  shows "x = r \<and> recorded r s' \<and> marked (rb_work_item_id r) s'"
proof -
  obtain c t s1 where "mark_rolled_back (rb_work_item_id r) (rb_target_commit r) c s = (Inr t, s1)" "record_rollback r s1 = (Inr x, s')"
    using assms by (auto simp: complete_rollback_def state_mutation_Inr mseq_Inr_iff split: option.splits if_splits)
  with mark_marks recorded_after show ?thesis by blast
qed

section \<open>The ledger leaves the stores\<close>

definition stores_kept :: "'r world \<Rightarrow> 'r world \<Rightarrow> bool" where
  "stores_kept w w' \<longleftrightarrow> w_stores w' = w_stores w"

interpretation stores_kept: effect stores_kept
  by unfold_locales (auto simp: stores_kept_def)

lemma write_record_stores: "within stores_kept (write_record h repo d)"
proof -
  have "within stores_kept (world_write p (\<lambda>w. w\<lparr>w_ledger := g w\<rparr>))" for p and g :: "'a world \<Rightarrow> (string \<times> json durable) list"
    unfolding within_def stores_kept_def world_write_def by (auto split: option.splits nat.splits)
  then show ?thesis unfolding write_record_def Let_def by (intro stores_kept.within_intros)
qed

lemma world_now_stores: "within stores_kept world_now"
  by (simp add: within_def stores_kept_def)

lemma ledger_stores:
  "within stores_kept (ledger_phase h repo i n ch)" "within stores_kept (ledger_terminal h repo i out detail)"
  unfolding ledger_phase_def ledger_terminal_def
  by (intro stores_kept.within_intros write_record_stores world_now_stores)+

section \<open>The canonical change\<close>

lemma failed_raises: "canonical_failed h repo root p reason oid reverting results e w \<noteq> (Inr v, w')"
  unfolding canonical_failed_def mbind_Inr_iff mseq_Inr_iff by simp

lemma step_returns: "canonical_step h repo root p reason oid reverting results m w = (Inr v, w') \<Longrightarrow> m w = (Inr v, w')"
  unfolding canonical_step_def mbind_Inr_iff attempt_Inr_iff using failed_raises by (fastforce simp: ret_def)

lemma committed_verified: "returns (\<lambda>_. list_all command_ok results) (canonical_commit h repo root p target reason oid results)"
  unfolding canonical_commit_def Let_def
  by (intro returns_if returns_seq returns_raise) (simp add: returns_def)

lemma new_record_fields:
  assumes "new_rollback_record p reason ok results commit err rid w = (Inr r, w')" "pl_target_commit p = Some target" "pl_run_id p = Some run"
  shows "rb_work_item_id r = pl_work_item_id p \<and> rb_run_id r = run \<and> rb_target_commit r = target \<and> rb_rollback_commit r = commit
    \<and> rb_reason r = reason \<and> rb_ok r = ok \<and> rb_changed_files r = pl_changed_files p \<and> rb_command_results r = results
    \<and> rb_error r = err \<and> (\<forall>i. rid = Some i \<longrightarrow> i \<noteq> [] \<longrightarrow> rb_rollback_id r = i)"
  using assms by (auto simp: new_rollback_record_def mbind_Inr_iff ret_def split: option.splits if_splits)

text \<open>What a rollback that returns has left behind.\<close>

definition rolled_back :: "path \<Rightarrow> rollback_plan \<Rightarrow> rollback_record \<Rightarrow> 'r world \<Rightarrow> bool" where
  "rolled_back root p r w \<longleftrightarrow>
     rb_ok r \<and> rb_work_item_id r = pl_work_item_id p \<and> Some (rb_target_commit r) = pl_target_commit p
     \<and> rb_changed_files r = pl_changed_files p \<and> rb_rollback_commit r \<noteq> None \<and> list_all command_ok (rb_command_results r)
     \<and> recorded r (w_stores w root) \<and> marked (pl_work_item_id p) (w_stores w root)"

definition ended_complete :: "string \<Rightarrow> 'r world \<Rightarrow> bool" where
  "ended_complete i w \<longleftrightarrow> (\<exists>d. ledger_file i w = Content (JObj d) \<and> jget d ''terminal_outcome'' = JStr ''complete'')"

lemma canonical_rolls_back:
  fixes h :: "('r, 'x) host_scheme" and w w' :: "'r world"
  assumes run: "canonical_rollback h repo root p target reason oid timeout commands patch trial w = (Inr r, w')"
    and p: "pl_target_commit p = Some target" "pl_run_id p = Some rid"
  shows "rolled_back root p r w' \<and> ended_complete oid w'"
proof -
  obtain w1 results w2 short and w3 :: "'r world" and w4 commit w5 w6 w7 w8 d r' where
      a: "canonical_step h repo root p reason oid True results (canonical_commit h repo root p target reason oid results) w1 = (Inr short, w2)"
    and b: "new_rollback_record p reason True results (Some commit) None (Some oid) w3 = (Inr r', w4)"
    and c: "on_store root (complete_rollback r') w5 = (Inr r, w6)"
    and e: "ledger_phase h repo oid ''state_recorded'' [] w6 = (Inr d, w7)"
    and f: "ledger_terminal h repo oid ''complete'' (Some ''Rollback commit and StateStore evidence are durable.'') w7 = (Inr w8, w')"
    using run unfolding canonical_rollback_def by (auto simp: mbind_Inr_iff mseq_Inr_iff ret_def)
  have ok: "list_all command_ok results" using committed_verified step_returns [OF a] unfolding returns_def by blast
  obtain s where s: "complete_rollback r' ((w_stores w5 root)\<lparr>st_budget := w_budget w5\<rparr>) = (Inr r, s)" "w_stores w6 root = s"
    using c by (auto simp: on_store_def split: prod.splits)
  have "w_stores w' root = s"
    using withinD [OF ledger_stores(1) e] withinD [OF ledger_stores(2) f] s(2) by (simp add: stores_kept_def)
  then show ?thesis
    using complete_completes [OF s(1)] new_record_fields [OF b p] ok terminal_ends [OF f]
    by (auto simp: rolled_back_def ended_complete_def p)
qed

lemma plan_of_item: "returns (\<lambda>p. pl_work_item_id p = wid) (plan_rollback h repo root wid expected)"
  unfolding plan_rollback_def plan_found_def
  by (intro returns_intros) (simp_all add: plan_of_def)

lemma planned_rolls_back:
  assumes run: "apply_planned h repo root p rid target reason timeout commands w = (Inr r, w')"
    and p: "pl_target_commit p = Some target" "pl_run_id p = Some rid"
  shows "\<exists>oid. rolled_back root p r w' \<and> ended_complete oid w'"
proof -
  obtain oid patch results w1 where "canonical_rollback h repo root p target reason oid timeout commands patch results w1 = (Inr r, w')"
    using run unfolding apply_planned_def Let_def
    by (auto simp: mbind_Inr_iff mseq_Inr_iff split: prod.splits if_splits)
  then show ?thesis using canonical_rolls_back [OF _ p] by blast
qed

lemma holds_self: "holds_store root (w_stores w root) w"
  by (simp add: holds_store_def)

lemma recorded_held: "holds_store root s w \<Longrightarrow> recorded r (w_stores w root) = recorded r s"
  unfolding recorded_def using holds_read [OF _ budget_reads(6), of root s w "st_budget (w_stores w root)"] by simp

lemma locked_rolls_back:
  assumes run: "apply_rollback_locked h repo root wid expected raw commands positive timeout w = (Inr r, w')"
    and before: "rollback_records (w_stores w root) = Inr before"
  shows "rb_ok r \<and> rb_work_item_id r = wid \<and> recorded r (w_stores w' root)
    \<and> (r \<in> set before \<or> (\<exists>p oid. rolled_back root p r w' \<and> ended_complete oid w'))"
proof -
  obtain reason full w1 past w2 where
      a: "map_exn (\<lambda>e. if is_git_error e then RollbackError (exn_message e) else e) (in_repo (resolve_commit h repo expected)) w
        = (Inr full, w1)"
    and b: "on_store root (gets rollback_records) w1 = (Inr past, w2)"
    and c: "(case List.find (\<lambda>r. rb_ok r \<and> rb_work_item_id r = wid \<and> rb_target_commit r = full) past of
       Some prior \<Rightarrow> ret prior
     | None \<Rightarrow>
         mbind (plan_rollback h repo root wid (Some full)) (\<lambda>p.
         case (pl_target_commit p, pl_run_id p) of
           (Some target, Some run) \<Rightarrow>
             if pl_blockers p = [] then apply_planned h repo root p run target reason timeout commands
             else raise (RollbackError (blocker_text p))
         | _ \<Rightarrow> raise (RollbackError
             (if blocker_text p = [] then ''Rollback plan is not eligible.'' else blocker_text p)))) w2 = (Inr r, w')"
    using run unfolding apply_rollback_locked_def mbind_Inr_iff [of "lift_res _"] mbind_Inr_iff [of "map_exn _ _"]
      mbind_Inr_iff [of "on_store _ _"] mseq_Inr_iff require_Inr_iff by (auto simp: lift_res_def)
  have h1: "holds_store root (w_stores w root) w1" using yieldsD [OF yields_map_exn [OF yields_in_repo] holds_self a] .
  have h2: "holds_store root (w_stores w root) w2" "past = before"
    using yieldsD [OF yields_gets [OF budget_reads(6)] h1 b] before by simp_all
  show ?thesis
  proof (cases "List.find (\<lambda>r. rb_ok r \<and> rb_work_item_id r = wid \<and> rb_target_commit r = full) past")
    case (Some prior)
    then have "r = prior" "w' = w2" using c by (simp_all add: ret_def)
    then show ?thesis using find_SomeD [OF Some] h2 before recorded_held [OF h2(1), of r] by (simp add: recorded_def)
  next
    case None
    then obtain p w3 where p: "plan_rollback h repo root wid (Some full) w2 = (Inr p, w3)" and
        k: "(case (pl_target_commit p, pl_run_id p) of
           (Some target, Some run) \<Rightarrow>
             if pl_blockers p = [] then apply_planned h repo root p run target reason timeout commands
             else raise (RollbackError (blocker_text p))
         | _ \<Rightarrow> raise (RollbackError
             (if blocker_text p = [] then ''Rollback plan is not eligible.'' else blocker_text p))) w3 = (Inr r, w')"
      using c unfolding None option.case mbind_Inr_iff [of "plan_rollback _ _ _ _ _"] by blast
    obtain target rid where t: "pl_target_commit p = Some target" "pl_run_id p = Some rid"
        "apply_planned h repo root p rid target reason timeout commands w3 = (Inr r, w')"
      using k by (auto split: option.splits if_splits)
    have "pl_work_item_id p = wid" using plan_of_item p unfolding returns_def by blast
    then show ?thesis using planned_rolls_back [OF t(3,1,2)] by (auto simp: rolled_back_def)
  qed
qed


section \<open>What a plan establishes\<close>


text \<open>A task done by the second commit of the toy repository.\<close>

definition done_task :: queue_task where
  "done_task = (sample_task ''t1'' 0 [] [''src''] Done)\<lparr>qt_last_commit := Some ''commit-1''\<rparr>"

definition done_run :: run_record where
  "done_run = \<lparr>rr_run_id = ''run-1'', rr_work_item_id = ''t1'', rr_started_at_utc = ''t'', rr_finished_at_utc = ''t'', rr_ok = True,
     rr_commit = Some ''commit-1'', rr_error = None, rr_pre_apply_findings = [], rr_post_apply_findings = [],
     rr_command_results = [], rr_semantic_verification = None\<rparr>"

definition done_store :: store where
  "done_store = sample_store\<lparr>st_queue := Content (JList (map task_to_json [done_task])),
     st_logs := (\<lambda>_. Missing)(History := Content [run_to_json done_run])\<rparr>"

definition done_repo :: toy_repo where
  "done_repo = \<lparr>ty_commits = [(''commit-1'', ''base'', ''t1: t'', [''src/a'']), (''base'', [], ''start'', [])], ty_dirty = [], ty_staged = False\<rparr>"

definition done_world :: "toy_repo world" where
  "done_world = (toy_world (\<lambda>_. done_store))\<lparr>w_repo := done_repo\<rparr>"

lemma done_reads:
  "list_tasks done_store = Inr [done_task]" "history done_store = Inr [done_run]" "rollback_records done_store = Inr []"
  "done_store\<lparr>st_budget := None\<rparr> = done_store" "st_budget done_store = None"
proof -
  show "list_tasks done_store = Inr [done_task]"
    by (simp only: done_store_def list_tasks_def) (simp add: read_json_def read_guard_def tasks_round_trip del: list.map)
  have "run_from_json (run_to_json done_run) = Inr done_run" by (rule run_round_trip) (simp add: done_run_def semantic_wf_def)
  then show "history done_store = Inr [done_run]"
    by (simp add: done_store_def history_def read_jsonl_def read_guard_def)
qed (simp_all add: done_store_def sample_store_def history_def read_jsonl_def read_guard_def rollback_records_def)

lemma done_answers:
  "ensure_git_repository toy_host toy_root done_repo = (Inr (), done_repo)"
  "resolve_commit toy_host toy_root ''commit-1'' done_repo = (Inr ''commit-1'', done_repo)"
  "commit_is_ancestor toy_host toy_root ''commit-1'' ''HEAD'' done_repo = (Inr True, done_repo)"
  "commit_parents toy_host toy_root ''commit-1'' done_repo = (Inr [''base''], done_repo)"
  "commit_changed_files toy_host toy_root ''commit-1'' done_repo = (Inr [''src/a''], done_repo)"
  "repository_is_clean toy_host toy_root done_repo = (Inr True, done_repo)"
  by code_simp+

lemma done_fields:
  "task_id done_task = ''t1''" "qt_status done_task = Done" "qt_last_commit done_task = Some ''commit-1''"
  "rr_work_item_id done_run = ''t1''" "rr_ok done_run" "rr_commit done_run = Some ''commit-1''" "rr_run_id done_run = ''run-1''"
  by (simp_all add: done_task_def done_run_def sample_task_def sample_item_def placeholder_task_def)

lemma done_downstream: "downstream_tasks ''t1'' [done_task] = []" by code_simp

lemma done_plan: "\<exists>p w. plan_rollback toy_host toy_root (path_of ''/state'') ''t1'' (Some ''commit-1'') done_world = (Inr p, w) \<and> eligible p"
proof -
  have w: "w_repo done_world = done_repo" "w_stores done_world = (\<lambda>_. done_store)" "w_budget done_world = None"
      "done_world\<lparr>w_repo := done_repo\<rparr> = done_world"
      "done_world\<lparr>w_stores := \<lambda>_. done_store, w_budget := None\<rparr> = done_world"
    by (simp_all add: done_world_def toy_world_def)
  have git: "in_repo m done_world = (Inr x, done_world)" if "m done_repo = (Inr x, done_repo)" for m and x :: 'z
    using that by (simp add: in_repo_def w)
  have read: "on_store (path_of ''/state'') (gets f) done_world = (f done_store, done_world)" for f :: "store \<Rightarrow> 'z res"
    by (simp add: on_store_def gets_def w done_reads)
  have reads: "get_task ''t1'' done_store = Inr done_task" "latest_successful_run ''t1'' done_store = Inr (Some done_run)"
      "store_downstream_tasks ''t1'' done_store = Inr []"
    by (simp_all add: get_task_def latest_successful_run_def store_downstream_tasks_def done_reads done_fields done_downstream)
  show ?thesis
    by (simp add: plan_rollback_def plan_found_def mbind_def mseq_def attempt_def git done_answers read reads done_reads
      run_evidence_def target_evidence_def target_checks_def done_fields blocker_if_def)
       (simp add: eligible_def plan_of_def prior_blockers_def done_fields blocker_if_def active_for_rollback_def)
qed


section \<open>A restore that fails\<close>

text \<open>C25: When git refuses to restore the files of a canonical rollback that failed, the operation is nevertheless ended as
  reverted: the ledger no longer blocks the repository, whose files still carry the patch.\<close>

theorem failed_restore_ends_reverted:
  assumes "restore_paths_to_head h repo (pl_changed_files p) (w_repo w) = (Inl (GitError m), r)"
    "record_failed root p reason results (restore_message e (GitError m)) (w\<lparr>w_repo := r\<rparr>) = (Inr (), w1)"
    "open_op h repo oid d w1"
  shows "\<exists>w' d'. canonical_failed h repo root p reason oid True results e w
      = (Inl (RollbackError (restore_message e (GitError m))), w')
    \<and> ledger_file oid w' = Content (JObj d') \<and> jget d' ''terminal_outcome'' = JStr ''reverted'' \<and> w_repo w' = w_repo w1"
proof -
  have restore: "in_repo (restore_paths_to_head h repo (pl_changed_files p)) w = (Inl (GitError m), w\<lparr>w_repo := r\<rparr>)"
    using assms(1) by (simp add: in_repo_def)
  obtain d' w' where t: "ledger_terminal h repo oid ''reverted'' (Some (restore_message e (GitError m))) w1
      = (Inr d', w')" "ledger_file oid w' = Content (JObj d')" "jget d' ''terminal_outcome'' = JStr ''reverted''" "same_rest w1 w'"
    using terminal_run [OF assms(3), of "''reverted''"] unfolding terminal_outcomes_def by (meson list.set_intros)
  have "canonical_failed h repo root p reason oid True results e w
      = (Inl (RollbackError (restore_message e (GitError m))), w')"
    by (simp add: canonical_failed_def mbind_def mseq_def attempt_def restore assms(2) t(1))
  then show ?thesis using t by (auto simp: same_rest_def)
qed

text \<open>A host whose git refuses everything.\<close>

definition stuck_host :: "toy_repo host" where
  "stuck_host = toy_host\<lparr>mc_git := \<lambda>_ _ _ r. (fail_out, r)\<rparr>"

definition stuck_plan :: rollback_plan where
  "stuck_plan = \<lparr>pl_work_item_id = ''t1'', pl_run_id = Some ''run-1'', pl_target_commit = Some ''commit-1'', pl_changed_files = [''src/a''],
     pl_downstream_task_ids = [], pl_blockers = []\<rparr>"

lemma rollback_stored:
  assumes s: "healthy s" "read_jsonl (st_logs s Rollbacks) = Inr []"
  shows "\<exists>s'. record_rollback r s = (Inr r, s') \<and> healthy s'"
proof -
  have lock: "st_lock s = None" "st_budget s = None" using s(1) by (simp_all add: healthy_def)
  have none: "rollback_records s = Inr []" using s(2) by (simp add: rollback_records_def read_guard_def)
  let ?s = "s\<lparr>st_logs := (st_logs s)(Rollbacks := Content [rollback_record_to_json r])\<rparr>"
  have app: "atomic_append_jsonl Rollbacks (rollback_record_to_json r) s = (Inr (), ?s)"
    using append_run [OF lock(2) s(2)] by simp
  have "healthy ?s" using s(1) by (rule healthy_frame) (simp_all add: lock)
  then obtain e s2 where j: "journal_record ((journal_args ''decision'' ''supervisor'' ''rollback.recorded'' (rollback_record_to_json r))
        \<lparr>ja_task_id := Some (rb_work_item_id r), ja_run_id := Some (rb_run_id r),
         ja_correlation_id := Some (rb_rollback_id r)\<rparr>) ?s = (Inr e, s2)" "healthy s2"
    using journal_healthy by blast
  have "record_rollback r s = (Inr r, s2)"
    by (simp add: record_rollback_def state_mutation_unlocked [OF lock(1)] map_exn_def mbind_def mseq_def gets_def none app j ret_def)
  then show ?thesis using j(2) by blast
qed

lemma stuck_recorded:
  "\<exists>w1. record_failed (path_of ''/state'') stuck_plan ''why'' [] m (ledger_world JNull) = (Inr (), w1)
     \<and> open_op stuck_host toy_root ''op-1'' (sample_record JNull) w1"
proof -
  let ?r = "\<lparr>rb_rollback_id = ''u'' @ str_nat 0, rb_created_at_utc = ''t'' @ str_nat 0, rb_work_item_id = ''t1'', rb_run_id = ''run-1'',
     rb_target_commit = ''commit-1'', rb_rollback_commit = None, rb_reason = ''why'', rb_ok = False, rb_changed_files = [''src/a''],
     rb_command_results = [], rb_error = Some m\<rparr>"
  obtain s where s: "record_rollback ?r sample_store = (Inr ?r, s)" "healthy s"
    using rollback_stored [OF sample_healthy, of ?r] by (auto simp: sample_store_def read_jsonl_def)
  let ?w = "(ledger_world JNull)\<lparr>w_drawn := 1, w_ticks := 1, w_stores := (\<lambda>_. sample_store)(path_of ''/state'' := s), w_budget := st_budget s\<rparr>"
  have "record_failed (path_of ''/state'') stuck_plan ''why'' [] m (ledger_world JNull) = (Inr (), ?w)"
    using s(1) by (simp add: record_failed_def new_rollback_record_def stuck_plan_def mbind_def mseq_def world_uuid_def on_store_def
      ledger_world_def toy_world_def)
  moreover have "open_op stuck_host toy_root ''op-1'' (sample_record JNull) ?w"
  proof -
    have digest: "record_digest stuck_host d = record_digest toy_host d" "mc_resolve stuck_host q = mc_resolve toy_host q" for d q
      by (simp_all add: record_digest_def text_sha256_def stuck_host_def)
    have "validate_record stuck_host toy_root (JObj (sample_record JNull)) ''op-1'' = Inr (sample_record JNull)"
      using sample_valid [of JNull] unfolding validate_record_def digest .
    moreover have "safe_id ''op-1''" by code_simp
    moreover have "st_budget s = None" using s(2) by (simp add: healthy_def)
    ultimately show ?thesis
      by (simp add: open_op_def valid_file_def sample_keys ledger_file_def is_terminal_def sample_fields ledger_world_def toy_world_def)
  qed
  ultimately show ?thesis by blast
qed

theorem failed_restore_ends_reverted_witness:
  "\<exists>m w' d'. canonical_failed stuck_host toy_root (path_of ''/state'') stuck_plan ''why'' ''op-1'' True [] (GitError ''e'') (ledger_world JNull)
      = (Inl (RollbackError m) :: unit res, w')
    \<and> ledger_file ''op-1'' w' = Content (JObj d') \<and> jget d' ''terminal_outcome'' = JStr ''reverted''"
proof -
  have "(case restore_paths_to_head stuck_host toy_root (pl_changed_files stuck_plan) toy_start of
      (Inl (GitError m), r) \<Rightarrow> r = toy_start | _ \<Rightarrow> False) = True" by code_simp
  then obtain m where m: "restore_paths_to_head stuck_host toy_root (pl_changed_files stuck_plan) toy_start = (Inl (GitError m), toy_start)"
    by (auto split: prod.splits sum.splits exn.splits)
  obtain w1 where w1: "record_failed (path_of ''/state'') stuck_plan ''why'' [] (restore_message (GitError ''e'') (GitError m))
      (ledger_world JNull) = (Inr (), w1)" "open_op stuck_host toy_root ''op-1'' (sample_record JNull) w1"
    using stuck_recorded by blast
  have f: "w_repo (ledger_world JNull) = toy_start" "(ledger_world JNull)\<lparr>w_repo := toy_start\<rparr> = ledger_world JNull"
    by (simp_all add: ledger_world_def toy_world_def)
  have "\<exists>w' d'. canonical_failed stuck_host toy_root (path_of ''/state'') stuck_plan ''why'' ''op-1'' True [] (GitError ''e'') (ledger_world JNull)
      = (Inl (RollbackError (restore_message (GitError ''e'') (GitError m))) :: unit res, w')
    \<and> ledger_file ''op-1'' w' = Content (JObj d') \<and> jget d' ''terminal_outcome'' = JStr ''reverted'' \<and> w_repo w' = w_repo w1"
    by (rule failed_restore_ends_reverted [OF _ _ w1(2)], unfold f(1), rule m, unfold f(2), rule w1(1))
  then show ?thesis by blast
qed

end
