(* ===== verification/Lease.thy ===== *)
theory Lease imports Ledger_Record Durable_Text begin

text \<open>
  The file lease (\<open>src/llm_harness/coordination.py\<close>) as a system of processes and threads.  A process
  has one \<open>FileLease\<close> object for the lock path; the kernel lock is held by an open file (a process and
  a number), and closing the file gives it up.  Each call is a sequence of steps, in the phases below,
  so that the steps of different threads interleave freely.  Times are milliseconds.
\<close>

section \<open>State\<close>

datatype agent = Agent (ag_process: nat) (ag_thread: nat)

record lease_request =
  rq_action :: string
  rq_command :: string
  rq_timeout :: int
  rq_deadline :: int

text \<open>Where a thread is: in no call, in \<open>acquire\<close> (before the thread lock, before the lock file is open, polling,
  with the kernel lock), in \<open>release\<close> after the marker was written, or in \<open>status\<close>.\<close>

datatype phase =
    Idle
  | Thread_Wait lease_request
  | Opening lease_request
  | Polling nat lease_request
  | Locked nat lease_request
  | Unlocking
  | Probe_Open "jobj option \<times> string option"
  | Probing nat "jobj option \<times> string option"
  | Probe_Locked nat "jobj option \<times> string option"

record lease_status =
  ls_available :: bool
  ls_stale_owner :: bool
  ls_owner :: "jobj option"
  ls_metadata_error :: "string option"

datatype lease_outcome = Acquired jobj | Released | Reported lease_status | Raised exn | Assertion_Failed

text \<open>The thread lock is an \<open>RLock\<close>: its owner and how often it took it.\<close>

record lease_system =
  sy_path :: path
  sy_kind :: string
  sy_thread_lock :: "nat \<Rightarrow> (nat \<times> nat) option"
  sy_handle :: "nat \<Rightarrow> nat option"
  sy_owner :: "nat \<Rightarrow> jobj option"
  sy_depth :: "agent \<Rightarrow> nat"
  sy_phase :: "agent \<Rightarrow> phase"
  sy_kernel :: "(nat \<times> nat) option"
  sy_metadata :: "json durable"
  sy_clock :: int
  sy_next :: nat
  sy_results :: "(agent \<times> lease_outcome) list"

section \<open>Metadata\<close>

definition metadata_path :: "path \<Rightarrow> path" where
  "metadata_path p = Path (p_root p) (butlast (p_parts p) @ [path_name p @ ''.owner.json''])"

definition read_metadata :: "path \<Rightarrow> json durable \<Rightarrow> jobj option \<times> string option" where
  "read_metadata p f = (case f of
     Missing \<Rightarrow> (None, None)
   | Unreadable m \<Rightarrow> (None, Some (''Corrupted or unreadable JSON state at '' @ path_str (metadata_path p) @ '': '' @ m))
   | Content JNull \<Rightarrow> (None, None)
   | Content (JObj d) \<Rightarrow> (Some d, None)
   | Content _ \<Rightarrow> (None, Some (''Invalid lease metadata object at '' @ path_str (metadata_path p))))"

definition is_active :: "jobj \<Rightarrow> bool" where
  "is_active d \<longleftrightarrow> jget d ''status'' = JStr ''active''"

text \<open>What a process reads of its surroundings when it takes the lease.\<close>

record lease_env =
  en_lease_id :: string
  en_pid :: int
  en_hostname :: string
  en_default_command :: string
  en_now :: string

definition owner_payload :: "string \<Rightarrow> lease_env \<Rightarrow> lease_request \<Rightarrow> jobj option \<times> string option \<Rightarrow> jobj" where
  "owner_payload kind en rq previous =
     [(''version'', JInt 1), (''lease_id'', JStr (en_lease_id en)), (''kind'', JStr kind), (''status'', JStr ''active''),
      (''pid'', JInt (en_pid en)), (''hostname'', JStr (en_hostname en)),
      (''command'', JStr (if rq_command rq = [] then en_default_command en else rq_command rq)),
      (''action'', JStr (rq_action rq)), (''acquired_at_utc'', JStr (en_now en))]
     @ (case fst previous of Some d \<Rightarrow> if is_active d then [(''recovered_from'', JObj d)] else [] | None \<Rightarrow> [])
     @ (case snd previous of Some e \<Rightarrow> [(''recovered_metadata_error'', JStr e)] | None \<Rightarrow> [])"

definition released_payload :: "jobj \<Rightarrow> string \<Rightarrow> jobj" where
  "released_payload d now = jset (jset d ''status'' (JStr ''released'')) ''released_at_utc'' (JStr now)"

text \<open>\<open>atomic_write_json\<close> of the metadata: whether it returns, and what the file holds then.\<close>

definition write_metadata :: "write_fault \<Rightarrow> jobj \<Rightarrow> lease_system \<Rightarrow> exn option \<times> lease_system" where
  "write_metadata fault d \<sigma> = (case fault of
     No_Fault \<Rightarrow> (None, \<sigma>\<lparr>sy_metadata := Content (JObj d)\<rparr>)
   | No_Directory m \<Rightarrow> (Some (OSError m), \<sigma>)
   | Before_Replace m \<Rightarrow> (Some (unwritable (metadata_path (sy_path \<sigma>)) m), \<sigma>)
   | After_Replace m \<Rightarrow> (Some (unwritable (metadata_path (sy_path \<sigma>)) m), \<sigma>\<lparr>sy_metadata := Content (JObj d)\<rparr>))"

definition contended :: "lease_system \<Rightarrow> lease_request \<Rightarrow> exn" where
  "contended \<sigma> rq = LockContendedError (''Timed out after '' @ str_int (rq_timeout rq div 1000) @ ''.'' @ pad3 (nat (rq_timeout rq mod 1000))
     @ ''s waiting for '' @ path_str (sy_path \<sigma>) @ ''; owner=''
     @ (case fst (read_metadata (sy_path \<sigma>) (sy_metadata \<sigma>)) of
          Some d \<Rightarrow> if d = [] then ''unknown'' else dumps '', '' '': '' (sort_keys (JObj d)) | None \<Rightarrow> ''unknown''))"

section \<open>Steps\<close>

definition goto :: "agent \<Rightarrow> phase \<Rightarrow> lease_system \<Rightarrow> lease_system" where
  "goto a ph \<sigma> = \<sigma>\<lparr>sy_phase := (sy_phase \<sigma>)(a := ph)\<rparr>"

definition finish :: "agent \<Rightarrow> lease_outcome \<Rightarrow> lease_system \<Rightarrow> lease_system" where
  "finish a r \<sigma> = \<sigma>\<lparr>sy_phase := (sy_phase \<sigma>)(a := Idle), sy_results := sy_results \<sigma> @ [(a, r)]\<rparr>"

definition thread_release :: "nat \<Rightarrow> lease_system \<Rightarrow> lease_system" where
  "thread_release p \<sigma> = \<sigma>\<lparr>sy_thread_lock := (sy_thread_lock \<sigma>)(p := (case sy_thread_lock \<sigma> p of
     Some (t, n) \<Rightarrow> if n \<le> 1 then None else Some (t, n - 1) | None \<Rightarrow> None))\<rparr>"

text \<open>Closing an open file gives up the kernel lock it holds.\<close>

definition close_handle :: "nat \<Rightarrow> nat \<Rightarrow> lease_system \<Rightarrow> lease_system" where
  "close_handle p n \<sigma> = (if sy_kernel \<sigma> = Some (p, n) then \<sigma>\<lparr>sy_kernel := None\<rparr> else \<sigma>)"

definition begin_acquire :: "agent \<Rightarrow> string \<Rightarrow> string \<Rightarrow> int \<Rightarrow> lease_system \<Rightarrow> lease_system option" where
  "begin_acquire a action command timeout \<sigma> =
     (if sy_phase \<sigma> a \<noteq> Idle then None
      else if timeout < 0 then Some (finish a (Raised (ValueError ''Lock timeout must be zero or greater.'')) \<sigma>)
      else Some (goto a (Thread_Wait \<lparr>rq_action = action, rq_command = command, rq_timeout = timeout,
        rq_deadline = sy_clock \<sigma> + timeout\<rparr>) \<sigma>))"

text \<open>The thread lock is taken; a thread that holds the lease already goes one level deeper.\<close>

definition take_thread_lock :: "agent \<Rightarrow> lease_system \<Rightarrow> lease_system option" where
  "take_thread_lock a \<sigma> = (case sy_phase \<sigma> a of
     Thread_Wait rq \<Rightarrow>
       let p = ag_process a; t = ag_thread a;
           taken = \<lambda>n. \<sigma>\<lparr>sy_thread_lock := (sy_thread_lock \<sigma>)(p := Some (t, Suc n))\<rparr>;
           go = \<lambda>\<tau>. if sy_depth \<tau> a = 0 then goto a (Opening rq) \<tau>
                else finish a (case sy_owner \<tau> p of Some d \<Rightarrow> Acquired d | None \<Rightarrow> Assertion_Failed)
                  (\<tau>\<lparr>sy_depth := (sy_depth \<tau>)(a := Suc (sy_depth \<tau> a))\<rparr>)
       in (case sy_thread_lock \<sigma> p of
             None \<Rightarrow> Some (go (taken 0))
           | Some (u, n) \<Rightarrow> if u = t then Some (go (taken n))
               else if rq_deadline rq \<le> sy_clock \<sigma> then Some (finish a (Raised (contended \<sigma> rq)) \<sigma>)
               else Some \<sigma>)
   | _ \<Rightarrow> None)"

definition open_lock_file :: "agent \<Rightarrow> string option \<Rightarrow> lease_system \<Rightarrow> lease_system option" where
  "open_lock_file a failure \<sigma> = (case sy_phase \<sigma> a of
     Opening rq \<Rightarrow> (case failure of
         None \<Rightarrow> Some (goto a (Polling (sy_next \<sigma>) rq) (\<sigma>\<lparr>sy_next := Suc (sy_next \<sigma>)\<rparr>))
       | Some m \<Rightarrow> Some (thread_release (ag_process a) (finish a (Raised (OSError m)) \<sigma>)))
   | _ \<Rightarrow> None)"

definition poll :: "agent \<Rightarrow> lease_system \<Rightarrow> lease_system option" where
  "poll a \<sigma> = (case sy_phase \<sigma> a of
     Polling n rq \<Rightarrow>
       if sy_kernel \<sigma> = None then Some (goto a (Locked n rq) (\<sigma>\<lparr>sy_kernel := Some (ag_process a, n)\<rparr>))
       else if rq_deadline rq \<le> sy_clock \<sigma> then Some (thread_release (ag_process a) (finish a (Raised (contended \<sigma> rq)) \<sigma>))
       else Some \<sigma>
   | _ \<Rightarrow> None)"

definition publish :: "agent \<Rightarrow> lease_env \<Rightarrow> write_fault \<Rightarrow> lease_system \<Rightarrow> lease_system option" where
  "publish a en fault \<sigma> = (case sy_phase \<sigma> a of
     Locked n rq \<Rightarrow>
       let p = ag_process a; owner = owner_payload (sy_kind \<sigma>) en rq (read_metadata (sy_path \<sigma>) (sy_metadata \<sigma>))
       in (case write_metadata fault owner \<sigma> of
             (None, \<tau>) \<Rightarrow> Some (finish a (Acquired owner)
               (\<tau>\<lparr>sy_handle := (sy_handle \<tau>)(p := Some n), sy_owner := (sy_owner \<tau>)(p := Some owner),
                  sy_depth := (sy_depth \<tau>)(a := 1)\<rparr>))
           | (Some e, \<tau>) \<Rightarrow> Some (thread_release p (finish a (Raised e) (close_handle p n \<tau>))))
   | _ \<Rightarrow> None)"

text \<open>\<open>release\<close>: up to the marker, whose failure is ignored; the last level goes on to unlock.\<close>

definition begin_release :: "agent \<Rightarrow> string \<Rightarrow> write_fault \<Rightarrow> lease_system \<Rightarrow> lease_system option" where
  "begin_release a now fault \<sigma> =
     (if sy_phase \<sigma> a \<noteq> Idle then None
      else let p = ag_process a; d = sy_depth \<sigma> a in
        if d < 1 then Some (finish a (Raised (CoordinationError (''Lease '' @ path_str (sy_path \<sigma>) @ '' is not held by this thread.''))) \<sigma>)
        else if 1 < d then Some (thread_release p (finish a Released (\<sigma>\<lparr>sy_depth := (sy_depth \<sigma>)(a := d - 1)\<rparr>)))
        else if sy_handle \<sigma> p = None then Some (finish a Assertion_Failed \<sigma>)
        else Some (goto a Unlocking
          (snd (write_metadata fault (released_payload (case sy_owner \<sigma> p of Some o' \<Rightarrow> o' | None \<Rightarrow> []) now) \<sigma>))))"

definition finish_release :: "agent \<Rightarrow> lease_system \<Rightarrow> lease_system option" where
  "finish_release a \<sigma> = (case (sy_phase \<sigma> a, sy_handle \<sigma> (ag_process a)) of
     (Unlocking, Some n) \<Rightarrow> Some (thread_release (ag_process a) (finish a Released ((close_handle (ag_process a) n \<sigma>)
       \<lparr>sy_handle := (sy_handle \<sigma>)(ag_process a := None), sy_owner := (sy_owner \<sigma>)(ag_process a := None),
        sy_depth := (sy_depth \<sigma>)(a := 0)\<rparr>)))
   | _ \<Rightarrow> None)"

text \<open>\<open>status\<close> reads the metadata first and then probes the kernel lock with a file of its own.\<close>

definition begin_status :: "agent \<Rightarrow> lease_system \<Rightarrow> lease_system option" where
  "begin_status a \<sigma> = (if sy_phase \<sigma> a \<noteq> Idle then None
     else Some (goto a (Probe_Open (read_metadata (sy_path \<sigma>) (sy_metadata \<sigma>))) \<sigma>))"

definition open_probe :: "agent \<Rightarrow> string option \<Rightarrow> lease_system \<Rightarrow> lease_system option" where
  "open_probe a failure \<sigma> = (case sy_phase \<sigma> a of
     Probe_Open seen \<Rightarrow> (case failure of
         None \<Rightarrow> Some (goto a (Probing (sy_next \<sigma>) seen) (\<sigma>\<lparr>sy_next := Suc (sy_next \<sigma>)\<rparr>))
       | Some m \<Rightarrow> Some (finish a (Raised (OSError m)) \<sigma>))
   | _ \<Rightarrow> None)"

definition lease_report :: "bool \<Rightarrow> jobj option \<times> string option \<Rightarrow> lease_status" where
  "lease_report available seen = \<lparr>ls_available = available,
     ls_stale_owner = (available \<and> (case fst seen of Some d \<Rightarrow> is_active d | None \<Rightarrow> False)),
     ls_owner = fst seen, ls_metadata_error = snd seen\<rparr>"

definition probe :: "agent \<Rightarrow> lease_system \<Rightarrow> lease_system option" where
  "probe a \<sigma> = (case sy_phase \<sigma> a of
     Probing n seen \<Rightarrow>
       if sy_kernel \<sigma> = None then Some (goto a (Probe_Locked n seen) (\<sigma>\<lparr>sy_kernel := Some (ag_process a, n)\<rparr>))
       else Some (finish a (Reported (lease_report False seen)) \<sigma>)
   | _ \<Rightarrow> None)"

definition finish_probe :: "agent \<Rightarrow> lease_system \<Rightarrow> lease_system option" where
  "finish_probe a \<sigma> = (case sy_phase \<sigma> a of
     Probe_Locked n seen \<Rightarrow> Some (finish a (Reported (lease_report True seen)) (close_handle (ag_process a) n \<sigma>))
   | _ \<Rightarrow> None)"

text \<open>A process that dies loses its object and its open files; the metadata stays.\<close>

definition crash :: "nat \<Rightarrow> lease_system \<Rightarrow> lease_system option" where
  "crash p \<sigma> = Some (\<sigma>\<lparr>sy_thread_lock := (sy_thread_lock \<sigma>)(p := None), sy_handle := (sy_handle \<sigma>)(p := None),
     sy_owner := (sy_owner \<sigma>)(p := None), sy_depth := (\<lambda>a. if ag_process a = p then 0 else sy_depth \<sigma> a),
     sy_phase := (\<lambda>a. if ag_process a = p then Idle else sy_phase \<sigma> a),
     sy_kernel := (case sy_kernel \<sigma> of Some (q, n) \<Rightarrow> if q = p then None else Some (q, n) | None \<Rightarrow> None)\<rparr>)"

datatype lease_action =
    Begin_Acquire agent string string int
  | Take_Thread_Lock agent
  | Open_Lock_File agent "string option"
  | Poll agent
  | Publish agent lease_env write_fault
  | Begin_Release agent string write_fault
  | Finish_Release agent
  | Begin_Status agent
  | Open_Probe agent "string option"
  | Probe agent
  | Finish_Probe agent
  | Crash nat
  | Tick nat

fun perform :: "lease_action \<Rightarrow> lease_system \<Rightarrow> lease_system option" where
  "perform (Begin_Acquire a action command timeout) \<sigma> = begin_acquire a action command timeout \<sigma>"
| "perform (Take_Thread_Lock a) \<sigma> = take_thread_lock a \<sigma>"
| "perform (Open_Lock_File a failure) \<sigma> = open_lock_file a failure \<sigma>"
| "perform (Poll a) \<sigma> = poll a \<sigma>"
| "perform (Publish a en fault) \<sigma> = publish a en fault \<sigma>"
| "perform (Begin_Release a now fault) \<sigma> = begin_release a now fault \<sigma>"
| "perform (Finish_Release a) \<sigma> = finish_release a \<sigma>"
| "perform (Begin_Status a) \<sigma> = begin_status a \<sigma>"
| "perform (Open_Probe a failure) \<sigma> = open_probe a failure \<sigma>"
| "perform (Probe a) \<sigma> = probe a \<sigma>"
| "perform (Finish_Probe a) \<sigma> = finish_probe a \<sigma>"
| "perform (Crash p) \<sigma> = crash p \<sigma>"
| "perform (Tick n) \<sigma> = Some (\<sigma>\<lparr>sy_clock := sy_clock \<sigma> + int n\<rparr>)"

fun perform_all :: "lease_action list \<Rightarrow> lease_system \<Rightarrow> lease_system option" where
  "perform_all [] \<sigma> = Some \<sigma>"
| "perform_all (x # xs) \<sigma> = (case perform x \<sigma> of None \<Rightarrow> None | Some \<tau> \<Rightarrow> perform_all xs \<tau>)"

inductive lease_step :: "lease_system \<Rightarrow> lease_system \<Rightarrow> bool" where
  step: "perform x \<sigma> = Some \<tau> \<Longrightarrow> lease_step \<sigma> \<tau>"

definition fresh_system :: "path \<Rightarrow> string \<Rightarrow> json durable \<Rightarrow> int \<Rightarrow> lease_system" where
  "fresh_system p kind metadata now = \<lparr>sy_path = p, sy_kind = kind, sy_thread_lock = (\<lambda>_. None), sy_handle = (\<lambda>_. None),
     sy_owner = (\<lambda>_. None), sy_depth = (\<lambda>_. 0), sy_phase = (\<lambda>_. Idle), sy_kernel = None, sy_metadata = metadata,
     sy_clock = now, sy_next = 0, sy_results = []\<rparr>"

inductive reachable :: "lease_system \<Rightarrow> bool" where
  start: "reachable (fresh_system p kind metadata now)"
| next_step: "reachable \<sigma> \<Longrightarrow> lease_step \<sigma> \<tau> \<Longrightarrow> reachable \<tau>"

section \<open>Names of leases\<close>

definition lease_name_ok :: "string \<Rightarrow> bool" where
  "lease_name_ok s \<longleftrightarrow> s \<noteq> [] \<and> list_all (\<lambda>c. is_ascii_lower c \<or> is_ascii_digit c \<or> c = CHR ''-'') s"

section \<open>The leases of a process\<close>

text \<open>One object per lock file: the key is the resolved path, later calls only change the time-outs.\<close>

record coordination_config =
  cc_state_lock_timeout :: int
  cc_execution_lock_timeout :: int
  cc_poll_interval :: int

definition check_coordination_config :: "coordination_config \<Rightarrow> coordination_config res" where
  "check_coordination_config c =
     (if cc_state_lock_timeout c \<le> 0 then Inl (ValueError ''coordination.state_lock_timeout_seconds must be greater than zero.'')
      else if cc_execution_lock_timeout c \<le> 0 then Inl (ValueError ''coordination.execution_lock_timeout_seconds must be greater than zero.'')
      else if cc_poll_interval c \<le> 0 then Inl (ValueError ''coordination.poll_interval_seconds must be greater than zero.'')
      else Inr c)"

record file_lease =
  fl_lock_path :: path
  fl_metadata_path :: path
  fl_kind :: string
  fl_default_timeout :: int
  fl_poll_interval :: int

type_synonym leases = "(string \<times> file_lease) list"

definition new_file_lease :: "path \<Rightarrow> string \<Rightarrow> int \<Rightarrow> int \<Rightarrow> file_lease" where
  "new_file_lease p kind timeout poll_interval = \<lparr>fl_lock_path = p, fl_metadata_path = metadata_path p, fl_kind = kind,
     fl_default_timeout = timeout, fl_poll_interval = poll_interval\<rparr>"

definition shared_file_lease :: "('r, 'x) host_scheme \<Rightarrow> path \<Rightarrow> string \<Rightarrow> int \<Rightarrow> int \<Rightarrow> leases \<Rightarrow> file_lease \<times> leases" where
  "shared_file_lease h p kind timeout poll_interval reg =
     (let key = path_str (mc_resolve h p);
          l = (case map_of reg key of
                 None \<Rightarrow> new_file_lease p kind timeout poll_interval
               | Some old \<Rightarrow> old\<lparr>fl_default_timeout := timeout, fl_poll_interval := poll_interval\<rparr>)
      in (l, (key, l) # filter (\<lambda>e. fst e \<noteq> key) reg))"

definition state_lease :: "('r, 'x) host_scheme \<Rightarrow> path \<Rightarrow> coordination_config \<Rightarrow> leases \<Rightarrow> file_lease \<times> leases" where
  "state_lease h root c = shared_file_lease h (path_join root (Path [] [''.coordination'', ''state.lock''])) ''state''
     (cc_state_lock_timeout c) (cc_poll_interval c)"

definition repository_execution_lease :: "('r, 'x) host_scheme \<Rightarrow> path \<Rightarrow> coordination_config \<Rightarrow> leases \<Rightarrow> file_lease \<times> leases" where
  "repository_execution_lease h repo c =
     shared_file_lease h (path_join (repository_coordination_root h repo) (Path [] [''execution.lock''])) ''repository-execution''
       (cc_execution_lock_timeout c) (cc_poll_interval c)"

definition named_state_operation_lease ::
  "('r, 'x) host_scheme \<Rightarrow> path \<Rightarrow> string \<Rightarrow> coordination_config \<Rightarrow> leases \<Rightarrow> (file_lease \<times> leases) res" where
  "named_state_operation_lease h root name c reg =
     (if lease_name_ok name
      then Inr (shared_file_lease h (path_join root (Path [] [''.coordination'', name @ ''.lock''])) (''state-operation:'' @ name)
             (cc_execution_lock_timeout c) (cc_poll_interval c) reg)
      else Inl (ValueError ''Operation lease name must use lowercase letters, digits, or hyphens.''))"

end
