(* ===== verification/Lease_Facts.thy ===== *)
theory Lease_Facts imports Lease begin

text \<open>
  The invariants of the file lease: the thread lock of a process counts what its threads took of it, the
  kernel lock belongs to the file of the holder or of a thread that is about to publish, numbers of open
  files are not shared, and the metadata is what the holder wrote.
\<close>

section \<open>The invariant\<close>

fun inside :: "phase \<Rightarrow> bool" where
  "inside (Opening _) = True"
| "inside (Polling _ _) = True"
| "inside (Locked _ _) = True"
| "inside _ = False"

fun handle_in :: "phase \<Rightarrow> nat option" where
  "handle_in (Polling n _) = Some n"
| "handle_in (Locked n _) = Some n"
| "handle_in (Probing n _) = Some n"
| "handle_in (Probe_Locked n _) = Some n"
| "handle_in _ = None"

fun owns_lock :: "phase \<Rightarrow> bool" where
  "owns_lock (Locked _ _) = True"
| "owns_lock (Probe_Locked _ _) = True"
| "owns_lock _ = False"

text \<open>What a thread has taken of the thread lock.\<close>

definition levels :: "lease_system \<Rightarrow> agent \<Rightarrow> nat" where
  "levels \<sigma> a = sy_depth \<sigma> a + (if inside (sy_phase \<sigma> a) then 1 else 0)"

definition thread_lock_ok :: "lease_system \<Rightarrow> bool" where
  "thread_lock_ok \<sigma> \<longleftrightarrow> (\<forall>p t. levels \<sigma> (Agent p t) = (case sy_thread_lock \<sigma> p of Some (u, n) \<Rightarrow> if u = t then n else 0 | None \<Rightarrow> 0))
     \<and> (\<forall>p u n. sy_thread_lock \<sigma> p = Some (u, n) \<longrightarrow> 0 < n)"

definition phases_ok :: "lease_system \<Rightarrow> bool" where
  "phases_ok \<sigma> \<longleftrightarrow> (\<forall>a. (inside (sy_phase \<sigma> a) \<longrightarrow> sy_depth \<sigma> a = 0) \<and> (sy_phase \<sigma> a = Unlocking \<longrightarrow> sy_depth \<sigma> a = 1))"

definition objects_ok :: "lease_system \<Rightarrow> bool" where
  "objects_ok \<sigma> \<longleftrightarrow> (\<forall>p. (sy_handle \<sigma> p \<noteq> None \<longleftrightarrow> (\<exists>t. 0 < sy_depth \<sigma> (Agent p t)))
     \<and> (sy_owner \<sigma> p \<noteq> None \<longleftrightarrow> sy_handle \<sigma> p \<noteq> None))"

definition kernel_ok :: "lease_system \<Rightarrow> bool" where
  "kernel_ok \<sigma> \<longleftrightarrow> (\<forall>p n. sy_handle \<sigma> p = Some n \<longrightarrow> sy_kernel \<sigma> = Some (p, n))
     \<and> (\<forall>a n. owns_lock (sy_phase \<sigma> a) \<longrightarrow> handle_in (sy_phase \<sigma> a) = Some n \<longrightarrow> sy_kernel \<sigma> = Some (ag_process a, n))"

definition numbers_ok :: "lease_system \<Rightarrow> bool" where
  "numbers_ok \<sigma> \<longleftrightarrow> (\<forall>a n. handle_in (sy_phase \<sigma> a) = Some n \<longrightarrow> n < sy_next \<sigma>)
     \<and> (\<forall>p n. sy_handle \<sigma> p = Some n \<longrightarrow> n < sy_next \<sigma>)
     \<and> (\<forall>a b n. handle_in (sy_phase \<sigma> a) = Some n \<longrightarrow> handle_in (sy_phase \<sigma> b) = Some n \<longrightarrow> a = b)
     \<and> (\<forall>p a n. sy_handle \<sigma> p = Some n \<longrightarrow> handle_in (sy_phase \<sigma> a) \<noteq> Some n)"

definition lease_inv :: "lease_system \<Rightarrow> bool" where
  "lease_inv \<sigma> \<longleftrightarrow> thread_lock_ok \<sigma> \<and> phases_ok \<sigma> \<and> objects_ok \<sigma> \<and> kernel_ok \<sigma> \<and> numbers_ok \<sigma>"

lemma fresh_inv: "lease_inv (fresh_system p kind metadata now)"
  by (simp add: lease_inv_def thread_lock_ok_def levels_def phases_ok_def objects_ok_def kernel_ok_def numbers_ok_def
      fresh_system_def)

section \<open>Numbers and the kernel lock\<close>

lemmas step_defs = begin_acquire_def take_thread_lock_def open_lock_file_def poll_def publish_def begin_release_def
  finish_release_def begin_status_def open_probe_def probe_def finish_probe_def crash_def
lemmas part_defs = goto_def finish_def thread_release_def close_handle_def write_metadata_def

lemma numbers_phase:
  "numbers_ok \<sigma> \<Longrightarrow> sy_handle \<tau> = sy_handle \<sigma> \<Longrightarrow> sy_next \<tau> = sy_next \<sigma> \<Longrightarrow> sy_phase \<tau> = (sy_phase \<sigma>)(a := ph) \<Longrightarrow>
     handle_in ph \<in> {None, handle_in (sy_phase \<sigma> a)} \<Longrightarrow> numbers_ok \<tau>"
  unfolding numbers_ok_def by (auto split: if_splits) (metis option.distinct(1))+

lemma numbers_open:
  "numbers_ok \<sigma> \<Longrightarrow> sy_handle \<tau> = sy_handle \<sigma> \<Longrightarrow> sy_next \<tau> = Suc (sy_next \<sigma>) \<Longrightarrow> sy_phase \<tau> = (sy_phase \<sigma>)(a := ph) \<Longrightarrow>
     handle_in ph = Some (sy_next \<sigma>) \<Longrightarrow> numbers_ok \<tau>"
  unfolding numbers_ok_def by (auto simp: less_Suc_eq split: if_splits)

lemma numbers_taken:
  "numbers_ok \<sigma> \<Longrightarrow> sy_handle \<tau> = (sy_handle \<sigma>)(p := Some n) \<Longrightarrow> sy_next \<tau> = sy_next \<sigma> \<Longrightarrow> sy_phase \<tau> = (sy_phase \<sigma>)(a := Idle) \<Longrightarrow>
     handle_in (sy_phase \<sigma> a) = Some n \<Longrightarrow> numbers_ok \<tau>"
  unfolding numbers_ok_def by (auto split: if_splits)

lemma numbers_fewer:
  assumes "numbers_ok \<sigma>" "\<And>p n. sy_handle \<tau> p = Some n \<Longrightarrow> sy_handle \<sigma> p = Some n" "sy_next \<tau> = sy_next \<sigma>"
     "\<And>a n. handle_in (sy_phase \<tau> a) = Some n \<Longrightarrow> handle_in (sy_phase \<sigma> a) = Some n"
  shows "numbers_ok \<tau>"
proof -
  note old = assms(1) [unfolded numbers_ok_def]
  have "handle_in (sy_phase \<tau> a) = Some n \<Longrightarrow> n < sy_next \<tau>" for a n using assms(3,4) old by metis
  moreover have "sy_handle \<tau> p = Some n \<Longrightarrow> n < sy_next \<tau>" for p n using assms(2,3) old by metis
  moreover have "handle_in (sy_phase \<tau> a) = Some n \<Longrightarrow> handle_in (sy_phase \<tau> b) = Some n \<Longrightarrow> a = b" for a b n
    using assms(4) old by metis
  moreover have "sy_handle \<tau> p = Some n \<Longrightarrow> handle_in (sy_phase \<tau> a) \<noteq> Some n" for p a n using assms(2,4) old by metis
  ultimately show ?thesis unfolding numbers_ok_def by simp
qed

lemma fields:
  "sy_handle (goto a ph \<sigma>) = sy_handle \<sigma>" "sy_next (goto a ph \<sigma>) = sy_next \<sigma>" "sy_phase (goto a ph \<sigma>) = (sy_phase \<sigma>)(a := ph)"
  "sy_kernel (goto a ph \<sigma>) = sy_kernel \<sigma>" "sy_thread_lock (goto a ph \<sigma>) = sy_thread_lock \<sigma>" "sy_depth (goto a ph \<sigma>) = sy_depth \<sigma>"
  "sy_owner (goto a ph \<sigma>) = sy_owner \<sigma>" "sy_metadata (goto a ph \<sigma>) = sy_metadata \<sigma>"
  "sy_handle (finish a r \<sigma>) = sy_handle \<sigma>" "sy_next (finish a r \<sigma>) = sy_next \<sigma>" "sy_phase (finish a r \<sigma>) = (sy_phase \<sigma>)(a := Idle)"
  "sy_kernel (finish a r \<sigma>) = sy_kernel \<sigma>" "sy_thread_lock (finish a r \<sigma>) = sy_thread_lock \<sigma>" "sy_depth (finish a r \<sigma>) = sy_depth \<sigma>"
  "sy_owner (finish a r \<sigma>) = sy_owner \<sigma>" "sy_metadata (finish a r \<sigma>) = sy_metadata \<sigma>"
  "sy_handle (thread_release p \<sigma>) = sy_handle \<sigma>" "sy_next (thread_release p \<sigma>) = sy_next \<sigma>" "sy_phase (thread_release p \<sigma>) = sy_phase \<sigma>"
  "sy_kernel (thread_release p \<sigma>) = sy_kernel \<sigma>" "sy_depth (thread_release p \<sigma>) = sy_depth \<sigma>"
  "sy_owner (thread_release p \<sigma>) = sy_owner \<sigma>" "sy_metadata (thread_release p \<sigma>) = sy_metadata \<sigma>"
  "sy_handle (close_handle p n \<sigma>) = sy_handle \<sigma>" "sy_next (close_handle p n \<sigma>) = sy_next \<sigma>" "sy_phase (close_handle p n \<sigma>) = sy_phase \<sigma>"
  "sy_kernel (close_handle p n \<sigma>) = (if sy_kernel \<sigma> = Some (p, n) then None else sy_kernel \<sigma>)"
  "sy_thread_lock (close_handle p n \<sigma>) = sy_thread_lock \<sigma>" "sy_depth (close_handle p n \<sigma>) = sy_depth \<sigma>"
  "sy_owner (close_handle p n \<sigma>) = sy_owner \<sigma>" "sy_metadata (close_handle p n \<sigma>) = sy_metadata \<sigma>"
  by (simp_all add: goto_def finish_def thread_release_def close_handle_def)

lemma written_fields:
  assumes "write_metadata fault d \<sigma> = (r, \<tau>)"
  shows "sy_handle \<tau> = sy_handle \<sigma>" "sy_next \<tau> = sy_next \<sigma>" "sy_phase \<tau> = sy_phase \<sigma>" "sy_kernel \<tau> = sy_kernel \<sigma>"
    "sy_thread_lock \<tau> = sy_thread_lock \<sigma>" "sy_depth \<tau> = sy_depth \<sigma>" "sy_owner \<tau> = sy_owner \<sigma>"
    "sy_metadata \<tau> = sy_metadata \<sigma> \<or> sy_metadata \<tau> = Content (JObj d)" "r = None \<Longrightarrow> sy_metadata \<tau> = Content (JObj d)"
  using assms by (auto simp: write_metadata_def split: write_fault.splits)

lemma numbers_step:
  assumes inv: "numbers_ok \<sigma>" and run: "perform x \<sigma> = Some \<tau>"
  shows "numbers_ok \<tau>"
proof -
  have quiet: "sy_handle \<tau> = sy_handle \<sigma> \<Longrightarrow> sy_next \<tau> = sy_next \<sigma> \<Longrightarrow> sy_phase \<tau> = (sy_phase \<sigma>)(a := ph) \<Longrightarrow>
      handle_in ph \<in> {None, handle_in (sy_phase \<sigma> a)} \<Longrightarrow> numbers_ok \<tau>" for a ph
    using numbers_phase [OF inv] by blast
  show ?thesis
  proof (cases x)
    case (Begin_Acquire a action command timeout)
    then show ?thesis using run quiet by (auto simp: begin_acquire_def fields split: if_splits)
  next
    case (Take_Thread_Lock a)
    then show ?thesis using run quiet inv
      by (auto simp: take_thread_lock_def Let_def fields split: phase.splits option.splits prod.splits if_splits)
  next
    case (Open_Lock_File a failure)
    then show ?thesis using run quiet numbers_open [OF inv]
      by (auto simp: open_lock_file_def fields split: phase.splits option.splits)
  next
    case (Poll a)
    then show ?thesis using run quiet inv by (auto simp: poll_def fields split: phase.splits if_splits)
  next
    case (Publish a en fault)
    then show ?thesis using run quiet numbers_taken [OF inv]
      by (auto simp: publish_def Let_def fields written_fields split: phase.splits option.splits prod.splits)
  next
    case (Begin_Release a now fault)
    obtain r \<rho> where "write_metadata fault (released_payload (case sy_owner \<sigma> (ag_process a) of Some o' \<Rightarrow> o' | None \<Rightarrow> []) now) \<sigma> = (r, \<rho>)"
      by fastforce
    then show ?thesis using run quiet Begin_Release
      by (auto simp: begin_release_def Let_def fields written_fields split: if_splits)
  next
    case (Finish_Release a)
    then show ?thesis using run
      by (auto simp: finish_release_def fields split: phase.splits option.splits if_splits intro!: numbers_fewer [OF inv])
  next
    case (Begin_Status a)
    then show ?thesis using run quiet by (auto simp: begin_status_def fields split: if_splits)
  next
    case (Open_Probe a failure)
    then show ?thesis using run quiet numbers_open [OF inv] by (auto simp: open_probe_def fields split: phase.splits option.splits)
  next
    case (Probe a)
    then show ?thesis using run quiet by (auto simp: probe_def fields split: phase.splits if_splits)
  next
    case (Finish_Probe a)
    then show ?thesis using run quiet by (auto simp: finish_probe_def fields split: phase.splits)
  next
    case (Crash p)
    then show ?thesis using run by (auto simp: crash_def split: if_splits intro!: numbers_fewer [OF inv])
  next
    case (Tick n)
    then show ?thesis using run inv by (auto simp: numbers_ok_def)
  qed
qed

section \<open>The thread lock\<close>

lemma thread_quiet:
  "thread_lock_ok \<sigma> \<Longrightarrow> sy_thread_lock \<tau> = sy_thread_lock \<sigma> \<Longrightarrow> levels \<tau> = levels \<sigma> \<Longrightarrow> thread_lock_ok \<tau>"
  by (simp add: thread_lock_ok_def)

lemma thread_taken:
  assumes "thread_lock_ok \<sigma>" "levels \<tau> = (levels \<sigma>)(a := Suc (levels \<sigma> a))"
    "sy_thread_lock \<tau> = (sy_thread_lock \<sigma>)(ag_process a := Some (ag_thread a, Suc n))"
    "case sy_thread_lock \<sigma> (ag_process a) of None \<Rightarrow> n = 0 | Some (u, m) \<Rightarrow> u = ag_thread a \<and> m = n"
  shows "thread_lock_ok \<tau>"
  using assms unfolding thread_lock_ok_def by (cases a) (auto split: option.splits prod.splits if_splits)

lemma thread_given_back:
  assumes "thread_lock_ok \<sigma>" "levels \<tau> = (levels \<sigma>)(a := levels \<sigma> a - 1)" "0 < levels \<sigma> a"
    "sy_thread_lock \<tau> = sy_thread_lock (thread_release (ag_process a) \<sigma>)"
  shows "thread_lock_ok \<tau>"
proof -
  obtain n where n: "sy_thread_lock \<sigma> (ag_process a) = Some (ag_thread a, n)" "levels \<sigma> a = n"
    using assms(1,3) unfolding thread_lock_ok_def by (cases a) (auto split: option.splits if_splits)
  then show ?thesis using assms unfolding thread_lock_ok_def thread_release_def
    by (cases a) (auto split: option.splits prod.splits if_splits)
qed

lemma levels_phase: "sy_depth \<tau> = sy_depth \<sigma> \<Longrightarrow> sy_phase \<tau> = (sy_phase \<sigma>)(a := ph) \<Longrightarrow> inside ph = inside (sy_phase \<sigma> a) \<Longrightarrow>
    levels \<tau> = levels \<sigma>"
  by (auto simp: levels_def fun_eq_iff)

lemma released_lock: "sy_thread_lock \<rho> = sy_thread_lock \<sigma> \<Longrightarrow> sy_thread_lock (thread_release p \<rho>) = sy_thread_lock (thread_release p \<sigma>)"
  by (simp add: thread_release_def)

lemma thread_lock_step:
  assumes inv: "thread_lock_ok \<sigma>" "phases_ok \<sigma>" and run: "perform x \<sigma> = Some \<tau>"
  shows "thread_lock_ok \<tau>"
proof -
  have quiet: "sy_thread_lock \<tau> = sy_thread_lock \<sigma> \<Longrightarrow> sy_depth \<tau> = sy_depth \<sigma> \<Longrightarrow> sy_phase \<tau> = (sy_phase \<sigma>)(a := ph) \<Longrightarrow>
      inside ph = inside (sy_phase \<sigma> a) \<Longrightarrow> thread_lock_ok \<tau>" for a ph
    using thread_quiet [OF inv(1)] levels_phase by blast
  have given: "thread_lock_ok (thread_release (ag_process a) \<rho>)" if "sy_thread_lock \<rho> = sy_thread_lock \<sigma>"
      "levels (thread_release (ag_process a) \<rho>) = (levels \<sigma>)(a := levels \<sigma> a - 1)" "0 < levels \<sigma> a" for a \<rho>
    by (rule thread_given_back [OF inv(1) that(2,3)], rule released_lock [OF that(1)])
  show ?thesis
  proof (cases x)
    case (Begin_Acquire a action command timeout)
    then show ?thesis using run quiet by (auto simp: begin_acquire_def fields split: if_splits)
  next
    case (Take_Thread_Lock a)
    then obtain rq where rq: "sy_phase \<sigma> a = Thread_Wait rq" using run by (auto simp: take_thread_lock_def split: phase.splits)
    show ?thesis
    proof (cases "case sy_thread_lock \<sigma> (ag_process a) of None \<Rightarrow> True | Some (u, n) \<Rightarrow> u = ag_thread a")
      case True
      then obtain n where n: "case sy_thread_lock \<sigma> (ag_process a) of None \<Rightarrow> n = 0 | Some (u, m) \<Rightarrow> u = ag_thread a \<and> m = n"
        by (cases "sy_thread_lock \<sigma> (ag_process a)") auto
      show ?thesis
        by (rule thread_taken [OF inv(1) _ _ n])
           (use Take_Thread_Lock run rq n in \<open>auto simp: take_thread_lock_def Let_def fields levels_def fun_eq_iff split: option.splits if_splits\<close>)
    next
      case False
      then show ?thesis using Take_Thread_Lock run rq quiet inv(1)
        by (auto simp: take_thread_lock_def Let_def fields split: option.splits if_splits)
    qed
  next
    case (Open_Lock_File a failure)
    then obtain rq where rq: "sy_phase \<sigma> a = Opening rq" using run by (auto simp: open_lock_file_def split: phase.splits)
    show ?thesis
    proof (cases failure)
      case None
      then show ?thesis using Open_Lock_File run rq quiet by (auto simp: open_lock_file_def fields)
    next
      case (Some m)
      then show ?thesis using Open_Lock_File run rq
        by (auto simp: open_lock_file_def fields levels_def fun_eq_iff intro!: given)
    qed
  next
    case (Poll a)
    then obtain n rq where rq: "sy_phase \<sigma> a = Polling n rq" using run by (auto simp: poll_def split: phase.splits)
    show ?thesis
    proof (cases "sy_kernel \<sigma> \<noteq> None \<and> rq_deadline rq \<le> sy_clock \<sigma>")
      case True
      then show ?thesis using Poll run rq by (auto simp: poll_def fields levels_def fun_eq_iff intro!: given)
    next
      case False
      then show ?thesis using Poll run rq quiet inv(1) by (auto simp: poll_def fields split: if_splits)
    qed
  next
    case (Publish a en fault)
    then obtain n rq where rq: "sy_phase \<sigma> a = Locked n rq" using run by (auto simp: publish_def split: phase.splits)
    then have d: "sy_depth \<sigma> a = 0" using inv(2) by (auto simp: phases_ok_def)
    obtain r \<rho> where w: "write_metadata fault (owner_payload (sy_kind \<sigma>) en rq (read_metadata (sy_path \<sigma>) (sy_metadata \<sigma>))) \<sigma> = (r, \<rho>)"
      by fastforce
    show ?thesis
    proof (cases r)
      case None
      then show ?thesis using Publish run rq w d
        by (auto simp: publish_def Let_def fields written_fields levels_def fun_eq_iff intro!: thread_quiet [OF inv(1)])
    next
      case (Some e)
      then show ?thesis using Publish run rq w
        by (auto simp: publish_def Let_def fields written_fields levels_def fun_eq_iff intro!: given)
    qed
  next
    case (Begin_Release a now fault)
    obtain r \<rho> where "write_metadata fault (released_payload (case sy_owner \<sigma> (ag_process a) of Some o' \<Rightarrow> o' | None \<Rightarrow> []) now) \<sigma> = (r, \<rho>)"
      by fastforce
    moreover have "thread_lock_ok \<tau>" if "1 < sy_depth \<sigma> a" "sy_phase \<sigma> a = Idle"
      using that run Begin_Release by (auto simp: begin_release_def Let_def fields levels_def fun_eq_iff intro!: given)
    ultimately show ?thesis using run quiet Begin_Release
      by (cases "1 < sy_depth \<sigma> a") (auto simp: begin_release_def Let_def fields written_fields split: if_splits)
  next
    case (Finish_Release a)
    then have "sy_phase \<sigma> a = Unlocking" "sy_depth \<sigma> a = 1"
      using run inv(2) by (auto simp: finish_release_def phases_ok_def split: phase.splits)
    then show ?thesis using run Finish_Release
      by (auto simp: finish_release_def fields levels_def fun_eq_iff intro!: given split: option.splits)
  next
    case (Begin_Status a)
    then show ?thesis using run quiet by (auto simp: begin_status_def fields split: if_splits)
  next
    case (Open_Probe a failure)
    then show ?thesis using run quiet by (auto simp: open_probe_def fields split: phase.splits option.splits)
  next
    case (Probe a)
    then show ?thesis using run quiet by (auto simp: probe_def fields split: phase.splits if_splits)
  next
    case (Finish_Probe a)
    then show ?thesis using run quiet by (auto simp: finish_probe_def fields split: phase.splits)
  next
    case (Crash p)
    then have "levels \<tau> = (\<lambda>b. if ag_process b = p then 0 else levels \<sigma> b)" "sy_thread_lock \<tau> = (sy_thread_lock \<sigma>)(p := None)"
      using run by (auto simp: crash_def levels_def fun_eq_iff)
    then show ?thesis using inv(1) by (simp add: thread_lock_ok_def)
  next
    case (Tick n)
    then have "levels \<tau> = levels \<sigma>" "sy_thread_lock \<tau> = sy_thread_lock \<sigma>" using run by (auto simp: levels_def fun_eq_iff)
    then show ?thesis using thread_quiet [OF inv(1)] by blast
  qed
qed

section \<open>Phases, objects and the kernel lock\<close>

lemma phases_step:
  assumes inv: "phases_ok \<sigma>" and run: "perform x \<sigma> = Some \<tau>"
  shows "phases_ok \<tau>"
proof -
  have upd: "phases_ok \<tau>" if "sy_depth \<tau> = (sy_depth \<sigma>)(a := d)" "sy_phase \<tau> = (sy_phase \<sigma>)(a := ph)"
      "inside ph \<longrightarrow> d = 0" "ph = Unlocking \<longrightarrow> d = 1" for a d ph
    using inv that by (simp add: phases_ok_def)
  have same: "phases_ok \<tau>" if "sy_depth \<tau> = sy_depth \<sigma>" "sy_phase \<tau> = (sy_phase \<sigma>)(a := ph)"
      "inside ph \<longrightarrow> sy_depth \<sigma> a = 0" "ph = Unlocking \<longrightarrow> sy_depth \<sigma> a = 1" for a ph
    using inv that by (simp add: phases_ok_def)
  have d0: "inside (sy_phase \<sigma> a) \<Longrightarrow> sy_depth \<sigma> a = 0" for a using inv by (simp add: phases_ok_def)
  show ?thesis
  proof (cases x)
    case (Begin_Acquire a action command timeout)
    then show ?thesis using run same [of a] by (auto simp: begin_acquire_def fields split: if_splits)
  next
    case (Take_Thread_Lock a)
    then show ?thesis using run same [of a] upd [of a] inv
      by (auto simp: take_thread_lock_def Let_def fields split: phase.splits option.splits prod.splits if_splits)
  next
    case (Open_Lock_File a failure)
    then show ?thesis using run same [of a] d0 [of a] by (auto simp: open_lock_file_def fields split: phase.splits option.splits)
  next
    case (Poll a)
    then show ?thesis using run same [of a] d0 [of a] inv by (auto simp: poll_def fields split: phase.splits if_splits)
  next
    case (Publish a en fault)
    then show ?thesis using run same [of a] upd [of a]
      by (auto simp: publish_def Let_def fields written_fields split: phase.splits option.splits prod.splits)
  next
    case (Begin_Release a now fault)
    obtain r \<rho> where "write_metadata fault (released_payload (case sy_owner \<sigma> (ag_process a) of Some o' \<Rightarrow> o' | None \<Rightarrow> []) now) \<sigma> = (r, \<rho>)"
      by fastforce
    then show ?thesis using run same [of a] upd [of a] Begin_Release
      by (auto simp: begin_release_def Let_def fields written_fields split: if_splits)
  next
    case (Finish_Release a)
    then show ?thesis using run upd [of a] by (auto simp: finish_release_def fields split: phase.splits option.splits)
  next
    case (Begin_Status a)
    then show ?thesis using run same [of a] by (auto simp: begin_status_def fields split: if_splits)
  next
    case (Open_Probe a failure)
    then show ?thesis using run same [of a] by (auto simp: open_probe_def fields split: phase.splits option.splits)
  next
    case (Probe a)
    then show ?thesis using run same [of a] by (auto simp: probe_def fields split: phase.splits if_splits)
  next
    case (Finish_Probe a)
    then show ?thesis using run same [of a] by (auto simp: finish_probe_def fields split: phase.splits)
  next
    case (Crash p)
    then show ?thesis using run inv by (auto simp: crash_def phases_ok_def)
  next
    case (Tick n)
    then show ?thesis using run inv by (auto simp: phases_ok_def)
  qed
qed

lemma only_one: "thread_lock_ok \<sigma> \<Longrightarrow> 0 < levels \<sigma> (Agent p t) \<Longrightarrow> 0 < levels \<sigma> (Agent p u) \<Longrightarrow> t = u"
  unfolding thread_lock_ok_def by (cases "sy_thread_lock \<sigma> p") (auto split: if_splits)

lemma objects_same:
  "objects_ok \<sigma> \<Longrightarrow> sy_handle \<tau> = sy_handle \<sigma> \<Longrightarrow> sy_owner \<tau> = sy_owner \<sigma> \<Longrightarrow> (\<And>a. 0 < sy_depth \<tau> a \<longleftrightarrow> 0 < sy_depth \<sigma> a) \<Longrightarrow> objects_ok \<tau>"
  by (simp add: objects_ok_def)

lemma objects_step:
  assumes inv: "objects_ok \<sigma>" "thread_lock_ok \<sigma>" "phases_ok \<sigma>" and run: "perform x \<sigma> = Some \<tau>"
  shows "objects_ok \<tau>"
proof (cases x)
  case (Begin_Acquire a action command timeout)
  then show ?thesis using run by (auto simp: begin_acquire_def fields split: if_splits intro!: objects_same [OF inv(1)])
next
  case (Take_Thread_Lock a)
  then show ?thesis using run
    by (auto simp: take_thread_lock_def Let_def fields split: phase.splits option.splits prod.splits if_splits
        intro!: objects_same [OF inv(1)])
next
  case (Open_Lock_File a failure)
  then show ?thesis using run by (auto simp: open_lock_file_def fields split: phase.splits option.splits intro!: objects_same [OF inv(1)])
next
  case (Poll a)
  then show ?thesis using run by (auto simp: poll_def fields split: phase.splits if_splits intro!: objects_same [OF inv(1)])
next
  case (Publish a en fault)
  then obtain n rq where rq: "sy_phase \<sigma> a = Locked n rq" using run by (auto simp: publish_def split: phase.splits)
  obtain r \<rho> where w: "write_metadata fault (owner_payload (sy_kind \<sigma>) en rq (read_metadata (sy_path \<sigma>) (sy_metadata \<sigma>))) \<sigma> = (r, \<rho>)"
    by fastforce
  show ?thesis
  proof (cases r)
    case None
    then have \<tau>: "sy_handle \<tau> = (sy_handle \<sigma>)(ag_process a := Some n)" "\<exists>d. sy_owner \<tau> = (sy_owner \<sigma>)(ag_process a := Some d)"
        "sy_depth \<tau> = (sy_depth \<sigma>)(a := 1)"
      using Publish run rq w by (auto simp: publish_def Let_def fields written_fields)
    obtain t where "a = Agent (ag_process a) t" by (cases a) simp
    moreover have "0 < sy_depth \<tau> a" using \<tau>(3) by simp
    ultimately have some: "\<exists>t. 0 < sy_depth \<tau> (Agent (ag_process a) t)" by metis
    have other: "sy_depth \<tau> (Agent p t) = sy_depth \<sigma> (Agent p t)" if "p \<noteq> ag_process a" for p t using \<tau>(3) that by auto
    show ?thesis unfolding objects_ok_def
    proof (intro allI)
      fix p
      show "(sy_handle \<tau> p \<noteq> None \<longleftrightarrow> (\<exists>t. 0 < sy_depth \<tau> (Agent p t))) \<and> (sy_owner \<tau> p \<noteq> None \<longleftrightarrow> sy_handle \<tau> p \<noteq> None)"
        using \<tau>(1,2) some other inv(1) by (cases "p = ag_process a") (auto simp: objects_ok_def)
    qed
  next
    case (Some e)
    then show ?thesis using Publish run rq w
      by (auto simp: publish_def Let_def fields written_fields intro!: objects_same [OF inv(1)])
  qed
next
  case (Begin_Release a now fault)
  obtain r \<rho> where "write_metadata fault (released_payload (case sy_owner \<sigma> (ag_process a) of Some o' \<Rightarrow> o' | None \<Rightarrow> []) now) \<sigma> = (r, \<rho>)"
    by fastforce
  then show ?thesis using run Begin_Release
    by (auto simp: begin_release_def Let_def fields written_fields split: if_splits intro!: objects_same [OF inv(1)])
next
  case (Finish_Release a)
  then have u: "sy_phase \<sigma> a = Unlocking" and d: "sy_depth \<sigma> a = 1"
    using run inv(3) by (auto simp: finish_release_def phases_ok_def split: phase.splits)
  have \<tau>: "sy_handle \<tau> = (sy_handle \<sigma>)(ag_process a := None)" "sy_owner \<tau> = (sy_owner \<sigma>)(ag_process a := None)"
      "sy_depth \<tau> = (sy_depth \<sigma>)(a := 0)"
    using run Finish_Release u by (auto simp: finish_release_def fields split: option.splits)
  obtain p t where a: "a = Agent p t" by (cases a)
  have "0 < levels \<sigma> (Agent p t)" using d a by (simp add: levels_def)
  then have "levels \<sigma> (Agent p s) = 0" if "s \<noteq> t" for s using only_one [OF inv(2)] that by blast
  then have "sy_depth \<tau> (Agent p s) = 0" for s using \<tau>(3) a by (cases "s = t") (auto simp: levels_def)
  moreover have "sy_depth \<tau> (Agent q s) = sy_depth \<sigma> (Agent q s)" if "q \<noteq> p" for q s using \<tau>(3) a that by simp
  ultimately show ?thesis using inv(1) \<tau>(1,2) a by (simp add: objects_ok_def)
next
  case (Begin_Status a)
  then show ?thesis using run by (auto simp: begin_status_def fields split: if_splits intro!: objects_same [OF inv(1)])
next
  case (Open_Probe a failure)
  then show ?thesis using run by (auto simp: open_probe_def fields split: phase.splits option.splits intro!: objects_same [OF inv(1)])
next
  case (Probe a)
  then show ?thesis using run by (auto simp: probe_def fields split: phase.splits if_splits intro!: objects_same [OF inv(1)])
next
  case (Finish_Probe a)
  then show ?thesis using run by (auto simp: finish_probe_def fields split: phase.splits intro!: objects_same [OF inv(1)])
next
  case (Crash p)
  then have "\<tau> = the (crash p \<sigma>)" using run by simp
  then show ?thesis using inv(1) by (simp add: crash_def objects_ok_def)
next
  case (Tick n)
  then show ?thesis using run by (auto intro!: objects_same [OF inv(1)])
qed

lemma kernel_same:
  "kernel_ok \<sigma> \<Longrightarrow> sy_handle \<tau> = sy_handle \<sigma> \<Longrightarrow> sy_kernel \<tau> = sy_kernel \<sigma> \<Longrightarrow> sy_phase \<tau> = (sy_phase \<sigma>)(a := ph) \<Longrightarrow>
     \<not> owns_lock ph \<Longrightarrow> kernel_ok \<tau>"
  unfolding kernel_ok_def by (auto split: if_splits)

lemma kernel_taken:
  assumes "kernel_ok \<sigma>" "sy_kernel \<sigma> = None" "sy_handle \<tau> = sy_handle \<sigma>" "sy_kernel \<tau> = Some (ag_process a, n)"
    "sy_phase \<tau> = (sy_phase \<sigma>)(a := ph)" "handle_in ph = Some n"
  shows "kernel_ok \<tau>"
proof -
  have "sy_handle \<sigma> p = None" for p using assms(1,2) unfolding kernel_ok_def by (cases "sy_handle \<sigma> p") auto
  moreover have "\<not> owns_lock (sy_phase \<sigma> b)" for b
    using assms(1,2) unfolding kernel_ok_def by (cases "sy_phase \<sigma> b") fastforce+
  ultimately show ?thesis using assms by (auto simp: kernel_ok_def split: if_splits)
qed

lemma kernel_closed:
  assumes "kernel_ok \<sigma>" "numbers_ok \<sigma>" "owns_lock (sy_phase \<sigma> a)" "handle_in (sy_phase \<sigma> a) = Some n"
    "sy_handle \<tau> = sy_handle \<sigma>" "sy_phase \<tau> = (sy_phase \<sigma>)(a := Idle)"
  shows "kernel_ok \<tau>"
proof -
  have k: "sy_kernel \<sigma> = Some (ag_process a, n)" using assms(1,3,4) by (simp add: kernel_ok_def)
  have "sy_handle \<sigma> p = None" for p
  proof (cases "sy_handle \<sigma> p")
    case (Some m)
    then have "m = n" using assms(1) k by (auto simp: kernel_ok_def)
    then show ?thesis using Some assms(2,4) by (auto simp: numbers_ok_def)
  qed
  moreover have "\<not> owns_lock (sy_phase \<sigma> b)" if "b \<noteq> a" for b
  proof
    assume o: "owns_lock (sy_phase \<sigma> b)"
    then obtain m where m: "handle_in (sy_phase \<sigma> b) = Some m" by (cases "sy_phase \<sigma> b") auto
    then have "m = n" using o assms(1) k by (auto simp: kernel_ok_def)
    then show False using m assms(2,4) that by (auto simp: numbers_ok_def)
  qed
  ultimately show ?thesis using assms(5,6) by (auto simp: kernel_ok_def)
qed

lemma kernel_step:
  assumes inv: "kernel_ok \<sigma>" "numbers_ok \<sigma>" and run: "perform x \<sigma> = Some \<tau>"
  shows "kernel_ok \<tau>"
proof -
  have same: "kernel_ok \<tau>" if "sy_handle \<tau> = sy_handle \<sigma>" "sy_kernel \<tau> = sy_kernel \<sigma>" "sy_phase \<tau> = (sy_phase \<sigma>)(a := ph)"
      "\<not> owns_lock ph" for a ph
    using kernel_same [OF inv(1)] that by blast
  have taken: "kernel_ok \<tau>" if "sy_kernel \<sigma> = None" "sy_handle \<tau> = sy_handle \<sigma>" "sy_kernel \<tau> = Some (ag_process a, n)"
      "sy_phase \<tau> = (sy_phase \<sigma>)(a := ph)" "handle_in ph = Some n" for a n ph
    using kernel_taken [OF inv(1)] that by blast
  have closed: "kernel_ok \<tau>" if "owns_lock (sy_phase \<sigma> a)" "handle_in (sy_phase \<sigma> a) = Some n"
      "sy_handle \<tau> = sy_handle \<sigma>" "sy_phase \<tau> = (sy_phase \<sigma>)(a := Idle)" for a n
    using kernel_closed [OF inv] that by blast
  show ?thesis
  proof (cases x)
    case (Begin_Acquire a action command timeout)
    then show ?thesis using run same by (auto simp: begin_acquire_def fields split: if_splits)
  next
    case (Take_Thread_Lock a)
    then show ?thesis using run same inv
      by (auto simp: take_thread_lock_def Let_def fields split: phase.splits option.splits prod.splits if_splits)
  next
    case (Open_Lock_File a failure)
    then show ?thesis using run same by (auto simp: open_lock_file_def fields split: phase.splits option.splits)
  next
    case (Poll a)
    then obtain n rq where rq: "sy_phase \<sigma> a = Polling n rq" using run by (auto simp: poll_def split: phase.splits)
    show ?thesis
    proof (cases "sy_kernel \<sigma>")
      case None
      then show ?thesis using Poll run rq taken [of a n "Locked n rq"] by (auto simp: poll_def fields)
    next
      case (Some k)
      then show ?thesis using Poll run rq same inv(1) by (auto simp: poll_def fields split: if_splits)
    qed
  next
    case (Publish a en fault)
    then obtain n rq where rq: "sy_phase \<sigma> a = Locked n rq" using run by (auto simp: publish_def split: phase.splits)
    obtain r \<rho> where w: "write_metadata fault (owner_payload (sy_kind \<sigma>) en rq (read_metadata (sy_path \<sigma>) (sy_metadata \<sigma>))) \<sigma> = (r, \<rho>)"
      by fastforce
    show ?thesis
    proof (cases r)
      case None
      have "sy_kernel \<sigma> = Some (ag_process a, n)" using inv(1) rq by (auto simp: kernel_ok_def)
      moreover have "sy_handle \<tau> = (sy_handle \<sigma>)(ag_process a := Some n)" "sy_kernel \<tau> = sy_kernel \<sigma>" "sy_phase \<tau> = (sy_phase \<sigma>)(a := Idle)"
        using None Publish run rq w by (auto simp: publish_def Let_def fields written_fields)
      ultimately show ?thesis using inv(1) unfolding kernel_ok_def by (auto split: if_splits)
    next
      case (Some e)
      then show ?thesis using Publish run rq w closed [of a n] by (auto simp: publish_def Let_def fields written_fields)
    qed
  next
    case (Begin_Release a now fault)
    obtain r \<rho> where "write_metadata fault (released_payload (case sy_owner \<sigma> (ag_process a) of Some o' \<Rightarrow> o' | None \<Rightarrow> []) now) \<sigma> = (r, \<rho>)"
      by fastforce
    then show ?thesis using run same Begin_Release
      by (auto simp: begin_release_def Let_def fields written_fields split: if_splits)
  next
    case (Finish_Release a)
    then obtain n where u: "sy_phase \<sigma> a = Unlocking" "sy_handle \<sigma> (ag_process a) = Some n"
      using run by (auto simp: finish_release_def split: phase.splits option.splits)
    have k: "sy_kernel \<sigma> = Some (ag_process a, n)" using inv(1) u(2) by (simp add: kernel_ok_def)
    have \<tau>: "sy_handle \<tau> = (sy_handle \<sigma>)(ag_process a := None)" "sy_phase \<tau> = (sy_phase \<sigma>)(a := Idle)"
      using run Finish_Release u by (auto simp: finish_release_def fields)
    have "sy_handle \<tau> p = None" for p
    proof (cases "sy_handle \<tau> p")
      case (Some m)
      then have "sy_handle \<sigma> p = Some m" "p \<noteq> ag_process a" using \<tau>(1) by (auto split: if_splits)
      then show ?thesis using inv(1) k by (auto simp: kernel_ok_def)
    qed
    moreover have "\<not> owns_lock (sy_phase \<tau> b)" for b
    proof
      assume o: "owns_lock (sy_phase \<tau> b)"
      then have b: "sy_phase \<tau> b = sy_phase \<sigma> b" using \<tau>(2) by (auto split: if_splits)
      obtain m where m: "handle_in (sy_phase \<sigma> b) = Some m" using o b by (cases "sy_phase \<sigma> b") auto
      then have "m = n" using o b inv(1) k by (auto simp: kernel_ok_def)
      then show False using m inv(2) u(2) by (auto simp: numbers_ok_def)
    qed
    ultimately show ?thesis by (simp add: kernel_ok_def)
  next
    case (Begin_Status a)
    then show ?thesis using run same by (auto simp: begin_status_def fields split: if_splits)
  next
    case (Open_Probe a failure)
    then show ?thesis using run same by (auto simp: open_probe_def fields split: phase.splits option.splits)
  next
    case (Probe a)
    then obtain n seen where rq: "sy_phase \<sigma> a = Probing n seen" using run by (auto simp: probe_def split: phase.splits)
    show ?thesis
    proof (cases "sy_kernel \<sigma>")
      case None
      then show ?thesis using Probe run rq taken [of a n "Probe_Locked n seen"] by (auto simp: probe_def fields)
    next
      case (Some k)
      then show ?thesis using Probe run rq same by (auto simp: probe_def fields)
    qed
  next
    case (Finish_Probe a)
    then obtain n seen where "sy_phase \<sigma> a = Probe_Locked n seen" using run by (auto simp: finish_probe_def split: phase.splits)
    then show ?thesis using Finish_Probe run closed [of a n] by (auto simp: finish_probe_def fields)
  next
    case (Crash p)
    then have "\<tau> = the (crash p \<sigma>)" using run by simp
    then show ?thesis using inv(1) by (auto simp: crash_def kernel_ok_def split: if_splits)
  next
    case (Tick n)
    then show ?thesis using run inv(1) by (auto simp: kernel_ok_def)
  qed
qed

lemma inv_step: "lease_inv \<sigma> \<Longrightarrow> lease_step \<sigma> \<tau> \<Longrightarrow> lease_inv \<tau>"
  unfolding lease_inv_def lease_step.simps
  using thread_lock_step phases_step objects_step kernel_step numbers_step by blast

lemma reachable_inv: "reachable \<sigma> \<Longrightarrow> lease_inv \<sigma>"
  by (induction rule: reachable.induct) (auto intro: fresh_inv inv_step)

section \<open>What the metadata says\<close>

definition meta_ok :: "lease_system \<Rightarrow> bool" where
  "meta_ok \<sigma> \<longleftrightarrow> (\<forall>p d. sy_owner \<sigma> p = Some d \<longrightarrow> (\<forall>t. sy_phase \<sigma> (Agent p t) \<noteq> Unlocking) \<longrightarrow>
     sy_metadata \<sigma> = Content (JObj d) \<and> is_active d)"

lemma owner_locks: "lease_inv \<sigma> \<Longrightarrow> sy_owner \<sigma> p = Some d \<Longrightarrow> \<exists>n. sy_handle \<sigma> p = Some n \<and> sy_kernel \<sigma> = Some (p, n)"
  unfolding lease_inv_def objects_ok_def kernel_ok_def by (metis option.collapse option.distinct(1))

lemma locked_unowned:
  assumes "lease_inv \<sigma>" "sy_phase \<sigma> a = Locked n rq"
  shows "sy_owner \<sigma> p = None"
proof (cases "sy_owner \<sigma> p")
  case (Some d)
  then obtain m where "sy_handle \<sigma> p = Some m" "sy_kernel \<sigma> = Some (p, m)" using owner_locks assms(1) by blast
  moreover have "sy_kernel \<sigma> = Some (ag_process a, n)" "handle_in (sy_phase \<sigma> a) = Some n"
    using assms unfolding lease_inv_def kernel_ok_def by auto
  ultimately show ?thesis using assms(1) unfolding lease_inv_def numbers_ok_def by force
qed

lemma meta_same:
  "meta_ok \<sigma> \<Longrightarrow> sy_owner \<tau> = sy_owner \<sigma> \<Longrightarrow> sy_metadata \<tau> = sy_metadata \<sigma> \<Longrightarrow> sy_phase \<tau> = (sy_phase \<sigma>)(a := ph) \<Longrightarrow>
     sy_phase \<sigma> a \<noteq> Unlocking \<Longrightarrow> meta_ok \<tau>"
  unfolding meta_ok_def by (auto split: if_splits)

lemma payload_active: "is_active (owner_payload kind en rq previous)"
  by (simp add: is_active_def owner_payload_def jget_def jget_or_def)

lemma meta_step:
  assumes inv: "lease_inv \<sigma>" "meta_ok \<sigma>" and run: "perform x \<sigma> = Some \<tau>"
  shows "meta_ok \<tau>"
proof -
  have same: "meta_ok \<tau>" if "sy_owner \<tau> = sy_owner \<sigma>" "sy_metadata \<tau> = sy_metadata \<sigma>" "sy_phase \<tau> = (sy_phase \<sigma>)(a := ph)"
      "sy_phase \<sigma> a \<noteq> Unlocking" for a ph
    using meta_same [OF inv(2)] that by blast
  show ?thesis
  proof (cases x)
    case (Begin_Acquire a action command timeout)
    then show ?thesis using run same by (auto simp: begin_acquire_def fields split: if_splits)
  next
    case (Take_Thread_Lock a)
    then show ?thesis using run same inv(2)
      by (auto simp: take_thread_lock_def Let_def fields split: phase.splits option.splits prod.splits if_splits)
  next
    case (Open_Lock_File a failure)
    then show ?thesis using run same by (auto simp: open_lock_file_def fields split: phase.splits option.splits)
  next
    case (Poll a)
    then show ?thesis using run same inv(2) by (auto simp: poll_def fields split: phase.splits if_splits)
  next
    case (Publish a en fault)
    then obtain n rq where rq: "sy_phase \<sigma> a = Locked n rq" using run by (auto simp: publish_def split: phase.splits)
    let ?d = "owner_payload (sy_kind \<sigma>) en rq (read_metadata (sy_path \<sigma>) (sy_metadata \<sigma>))"
    obtain r \<rho> where w: "write_metadata fault ?d \<sigma> = (r, \<rho>)" by fastforce
    have none: "sy_owner \<sigma> q = None" for q using locked_unowned [OF inv(1) rq] .
    show ?thesis
    proof (cases r)
      case None
      then have "sy_owner \<tau> = (sy_owner \<sigma>)(ag_process a := Some ?d)" "sy_metadata \<tau> = Content (JObj ?d)"
        using Publish run rq w by (auto simp: publish_def Let_def fields written_fields)
      then show ?thesis using none payload_active by (auto simp: meta_ok_def split: if_splits)
    next
      case (Some e)
      then have "sy_owner \<tau> = sy_owner \<sigma>" using Publish run rq w by (auto simp: publish_def Let_def fields written_fields)
      then show ?thesis using none by (simp add: meta_ok_def)
    qed
  next
    case (Begin_Release a now fault)
    obtain r \<rho> where w: "write_metadata fault (released_payload (case sy_owner \<sigma> (ag_process a) of Some o' \<Rightarrow> o' | None \<Rightarrow> []) now) \<sigma> = (r, \<rho>)"
      by fastforce
    show ?thesis
    proof (cases "sy_phase \<tau> a = Unlocking")
      case True
      then have "sy_phase \<sigma> a = Idle" "sy_depth \<sigma> a = 1" "sy_owner \<tau> = sy_owner \<sigma>"
        using w run Begin_Release by (auto simp: begin_release_def Let_def fields written_fields split: if_splits)
      moreover have "q = ag_process a" if "sy_owner \<sigma> q = Some d" for q d
      proof -
        obtain t where "a = Agent (ag_process a) t" by (cases a) simp
        then have "sy_handle \<sigma> (ag_process a) \<noteq> None"
          using \<open>sy_depth \<sigma> a = 1\<close> inv(1) unfolding lease_inv_def objects_ok_def by (metis zero_less_one)
        then have "\<exists>m. sy_kernel \<sigma> = Some (ag_process a, m)" using inv(1) unfolding lease_inv_def kernel_ok_def by auto
        then show ?thesis using owner_locks [OF inv(1) that] by auto
      qed
      ultimately show ?thesis using True by (cases a) (auto simp: meta_ok_def)
    next
      case False
      then show ?thesis using w run same Begin_Release
        by (auto simp: begin_release_def Let_def fields written_fields split: if_splits)
    qed
  next
    case (Finish_Release a)
    then obtain n where u: "sy_phase \<sigma> a = Unlocking" "sy_handle \<sigma> (ag_process a) = Some n"
      using run by (auto simp: finish_release_def split: phase.splits option.splits)
    have "sy_kernel \<sigma> = Some (ag_process a, n)" using inv(1) u(2) by (simp add: lease_inv_def kernel_ok_def)
    then have "sy_owner \<sigma> q = None" if "q \<noteq> ag_process a" for q
      using owner_locks [OF inv(1), of q] that by (cases "sy_owner \<sigma> q") auto
    moreover have "sy_owner \<tau> = (sy_owner \<sigma>)(ag_process a := None)"
      using run Finish_Release u by (auto simp: finish_release_def fields)
    ultimately show ?thesis by (simp add: meta_ok_def)
  next
    case (Begin_Status a)
    then show ?thesis using run same by (auto simp: begin_status_def fields split: if_splits)
  next
    case (Open_Probe a failure)
    then show ?thesis using run same by (auto simp: open_probe_def fields split: phase.splits option.splits)
  next
    case (Probe a)
    then show ?thesis using run same by (auto simp: probe_def fields split: phase.splits if_splits)
  next
    case (Finish_Probe a)
    then show ?thesis using run same by (auto simp: finish_probe_def fields split: phase.splits)
  next
    case (Crash p)
    then have "\<tau> = the (crash p \<sigma>)" using run by simp
    then show ?thesis using inv(2) by (simp add: crash_def meta_ok_def)
  next
    case (Tick n)
    then show ?thesis using run inv(2) by (auto simp: meta_ok_def)
  qed
qed

lemma reachable_meta: "reachable \<sigma> \<Longrightarrow> meta_ok \<sigma>"
proof (induction rule: reachable.induct)
  case (start p kind metadata now)
  show ?case by (simp add: meta_ok_def fresh_system_def)
next
  case (next_step \<sigma> \<tau>)
  then show ?case using meta_step reachable_inv by (auto simp: lease_step.simps)
qed

section \<open>Assertions\<close>

lemma deep_owned: "lease_inv \<sigma> \<Longrightarrow> 0 < sy_depth \<sigma> a \<Longrightarrow> \<exists>d n. sy_owner \<sigma> (ag_process a) = Some d \<and> sy_handle \<sigma> (ag_process a) = Some n"
  unfolding lease_inv_def objects_ok_def by (metis agent.collapse not_None_eq)

lemma result_fields:
  "sy_results (goto a ph \<sigma>) = sy_results \<sigma>" "sy_results (finish a r \<sigma>) = sy_results \<sigma> @ [(a, r)]"
  "sy_results (thread_release p \<sigma>) = sy_results \<sigma>" "sy_results (close_handle p n \<sigma>) = sy_results \<sigma>"
  "sy_results (snd (write_metadata fault d \<sigma>)) = sy_results \<sigma>"
  by (auto simp: goto_def finish_def thread_release_def close_handle_def write_metadata_def split: write_fault.splits)

lemma assertions_step:
  assumes inv: "lease_inv \<sigma>" and run: "perform x \<sigma> = Some \<tau>" and new: "(b, Assertion_Failed) \<in> set (sy_results \<tau>)"
  shows "(b, Assertion_Failed) \<in> set (sy_results \<sigma>)"
proof (cases x)
  case (Take_Thread_Lock a)
  then show ?thesis using run new deep_owned [OF inv, of a]
    by (auto simp: take_thread_lock_def Let_def result_fields fields split: phase.splits option.splits prod.splits if_splits)
next
  case (Publish a en fault)
  then obtain n rq where rq: "sy_phase \<sigma> a = Locked n rq" using run by (auto simp: publish_def split: phase.splits)
  obtain r \<rho> where w: "write_metadata fault (owner_payload (sy_kind \<sigma>) en rq (read_metadata (sy_path \<sigma>) (sy_metadata \<sigma>))) \<sigma> = (r, \<rho>)"
    by fastforce
  then have "sy_results \<rho> = sy_results \<sigma>" using result_fields(5) by (metis snd_conv)
  then show ?thesis using Publish run rq w new by (auto simp: publish_def Let_def result_fields split: option.splits)
next
  case (Begin_Release a now fault)
  then show ?thesis using run new deep_owned [OF inv, of a]
    by (auto simp: begin_release_def Let_def result_fields split: if_splits)
qed (use run new in \<open>auto simp: begin_acquire_def open_lock_file_def poll_def finish_release_def begin_status_def open_probe_def
    probe_def finish_probe_def crash_def result_fields split: phase.splits option.splits if_splits\<close>)

lemma only_holder:
  assumes "reachable \<sigma>" "0 < sy_depth \<sigma> a" "0 < sy_depth \<sigma> b"
  shows "a = b \<and> (\<exists>n. sy_kernel \<sigma> = Some (ag_process a, n))"
proof -
  have inv: "lease_inv \<sigma>" using assms(1) by (rule reachable_inv)
  obtain n m where n: "sy_kernel \<sigma> = Some (ag_process a, n)" "sy_kernel \<sigma> = Some (ag_process b, m)"
    using deep_owned [OF inv assms(2)] deep_owned [OF inv assms(3)] owner_locks [OF inv] by blast
  then have "ag_process b = ag_process a" by simp
  moreover have "0 < levels \<sigma> a" "0 < levels \<sigma> b" using assms(2,3) by (simp_all add: levels_def)
  ultimately have "ag_thread a = ag_thread b"
    using inv only_one [of \<sigma> "ag_process a" "ag_thread a" "ag_thread b"] unfolding lease_inv_def by (metis agent.collapse)
  then show ?thesis using n \<open>ag_process b = ag_process a\<close> by (metis agent.collapse)
qed

lemma reachable_no_assertion: "reachable \<sigma> \<Longrightarrow> (a, Assertion_Failed) \<notin> set (sy_results \<sigma>)"
proof (induction rule: reachable.induct)
  case (next_step \<sigma> \<tau>)
  then obtain x where "perform x \<sigma> = Some \<tau>" by (auto elim: lease_step.cases)
  then show ?case using assertions_step [OF reachable_inv [OF next_step.hyps(1)]] next_step.IH by blast
qed (simp add: fresh_system_def)

lemma reachable_all: "perform_all xs \<sigma> = Some \<tau> \<Longrightarrow> reachable \<sigma> \<Longrightarrow> reachable \<tau>"
proof (induction xs arbitrary: \<sigma>)
  case (Cons x xs)
  then obtain \<rho> where \<rho>: "perform x \<sigma> = Some \<rho>" "perform_all xs \<rho> = Some \<tau>" by (auto split: option.splits)
  have "reachable \<rho>" by (rule reachable.next_step [OF Cons.prems(2) lease_step.step [OF \<rho>(1)]])
  then show ?case by (rule Cons.IH [OF \<rho>(2)])
qed simp


end
