(* ===== verification/Lease_Props.thy ===== *)
theory Lease_Props imports Lease_Facts begin

text \<open>
  What the file lease guarantees: at most one thread of all processes holds it, the metadata names the
  holder, assertions never fail, a call that waits ends within its deadline, and what a status report can
  be wrong about.
\<close>

section \<open>Properties\<close>

text \<open>C26: Whatever the processes and threads do, in whichever order, with whichever failures and crashes, at most one thread
  of all of them holds the lease, and its process has the kernel lock.\<close>

theorem lease_excludes:
  assumes "reachable \<sigma>" "0 < sy_depth \<sigma> a" "0 < sy_depth \<sigma> b"
  shows "a = b \<and> (\<exists>n. sy_kernel \<sigma> = Some (ag_process a, n))"
  using assms by (rule only_holder)

definition demo_env :: lease_env where
  "demo_env = \<lparr>en_lease_id = ''l1'', en_pid = 7, en_hostname = ''h'', en_default_command = ''hoh run'', en_now = ''t''\<rparr>"

text \<open>The steps of a call of \<open>acquire\<close> that meets no contention.\<close>

definition acquiring :: "agent \<Rightarrow> lease_action list" where
  "acquiring a = [Begin_Acquire a ''run'' [] 0, Take_Thread_Lock a, Open_Lock_File a None, Poll a, Publish a demo_env No_Fault]"

definition demo_start :: lease_system where
  "demo_start = fresh_system (path_of ''/s/.coordination/state.lock'') ''state'' Missing 0"

lemma reachable_demo: "perform_all xs demo_start = Some \<tau> \<Longrightarrow> reachable \<tau>"
  using reachable_all reachable.start unfolding demo_start_def by blast

theorem lease_excludes_witness:
  "\<exists>\<sigma>. perform_all (acquiring (Agent 0 0) @ [Begin_Acquire (Agent 0 0) ''again'' [] 0, Take_Thread_Lock (Agent 0 0)]) demo_start = Some \<sigma>
     \<and> sy_depth \<sigma> (Agent 0 0) = 2 \<and> (\<exists>n. sy_kernel \<sigma> = Some (0, n))"
proof -
  have "(case perform_all (acquiring (Agent 0 0) @ [Begin_Acquire (Agent 0 0) ''again'' [] 0, Take_Thread_Lock (Agent 0 0)]) demo_start of
      Some \<sigma> \<Rightarrow> sy_depth \<sigma> (Agent 0 0) = 2 | None \<Rightarrow> False) = True"
    by code_simp
  then obtain \<sigma> where \<sigma>: "perform_all (acquiring (Agent 0 0) @ [Begin_Acquire (Agent 0 0) ''again'' [] 0, Take_Thread_Lock (Agent 0 0)]) demo_start = Some \<sigma>"
      "sy_depth \<sigma> (Agent 0 0) = 2"
    by (auto split: option.splits)
  then show ?thesis using lease_excludes [OF reachable_demo [OF \<sigma>(1)], of "Agent 0 0" "Agent 0 0"] by simp
qed

text \<open>While a thread holds the lease and has not begun to release it, the metadata file names it as the active owner; when
  its process dies, the kernel lock is free, the file still names it, and the next owner records what it recovered from.\<close>

theorem lease_metadata_names_holder:
  assumes "reachable \<sigma>" "0 < sy_depth \<sigma> a" "sy_phase \<sigma> a \<noteq> Unlocking"
  shows "\<exists>d \<tau>. sy_owner \<sigma> (ag_process a) = Some d \<and> is_active d \<and> sy_metadata \<sigma> = Content (JObj d)
    \<and> crash (ag_process a) \<sigma> = Some \<tau> \<and> sy_kernel \<tau> = None \<and> sy_metadata \<tau> = Content (JObj d)
    \<and> map_of (owner_payload kind en rq (read_metadata (sy_path \<tau>) (sy_metadata \<tau>))) ''recovered_from'' = Some (JObj d)"
proof -
  have inv: "lease_inv \<sigma>" using assms(1) by (rule reachable_inv)
  obtain d where d: "sy_owner \<sigma> (ag_process a) = Some d" using deep_owned [OF inv assms(2)] by blast
  have "sy_phase \<sigma> (Agent (ag_process a) t) \<noteq> Unlocking" for t
  proof
    assume u: "sy_phase \<sigma> (Agent (ag_process a) t) = Unlocking"
    then have "0 < sy_depth \<sigma> (Agent (ag_process a) t)" using inv by (auto simp: lease_inv_def phases_ok_def)
    then have "a = Agent (ag_process a) t" using only_holder assms(1,2) by blast
    then show False using u assms(3) by metis
  qed
  then have m: "sy_metadata \<sigma> = Content (JObj d)" "is_active d"
    using reachable_meta [OF assms(1)] d unfolding meta_ok_def by blast+
  obtain n where "sy_kernel \<sigma> = Some (ag_process a, n)" using owner_locks [OF inv d] by blast
  then show ?thesis using d m by (auto simp: crash_def read_metadata_def owner_payload_def)
qed

definition demo_request :: lease_request where
  "demo_request = \<lparr>rq_action = ''recover'', rq_command = [], rq_timeout = 0, rq_deadline = 0\<rparr>"

theorem lease_metadata_names_holder_witness:
  "\<exists>\<sigma> d \<tau>. perform_all (acquiring (Agent 0 0)) demo_start = Some \<sigma> \<and> crash 0 \<sigma> = Some \<tau> \<and> sy_kernel \<tau> = None
     \<and> map_of (owner_payload ''state'' demo_env demo_request (read_metadata (sy_path \<tau>) (sy_metadata \<tau>))) ''recovered_from'' = Some (JObj d)"
proof -
  have "(case perform_all (acquiring (Agent 0 0)) demo_start of
      Some \<sigma> \<Rightarrow> sy_depth \<sigma> (Agent 0 0) = 1 \<and> sy_phase \<sigma> (Agent 0 0) = Idle | None \<Rightarrow> False) = True"
    by code_simp
  then obtain \<sigma> where \<sigma>: "perform_all (acquiring (Agent 0 0)) demo_start = Some \<sigma>"
      "sy_depth \<sigma> (Agent 0 0) = 1" "sy_phase \<sigma> (Agent 0 0) = Idle"
    by (auto split: option.splits)
  then show ?thesis
    using lease_metadata_names_holder [OF reachable_demo [OF \<sigma>(1)], of "Agent 0 0" "''state''" demo_env demo_request] by auto
qed

text \<open>No assertion of the lease ever fails: a thread that goes a level deeper finds the owner, one that releases finds the file.\<close>

theorem lease_assertions_hold:
  assumes "reachable \<sigma>"
  shows "(a, Assertion_Failed) \<notin> set (sy_results \<sigma>)"
  using assms by (rule reachable_no_assertion)

theorem lease_assertions_hold_witness:
  "\<exists>\<sigma>. perform_all (acquiring (Agent 0 0)) demo_start = Some \<sigma> \<and> (Agent 0 0, Assertion_Failed) \<notin> set (sy_results \<sigma>)"
proof -
  have "(case perform_all (acquiring (Agent 0 0)) demo_start of Some \<sigma> \<Rightarrow> True | None \<Rightarrow> False) = True" by code_simp
  then obtain \<sigma> where \<sigma>: "perform_all (acquiring (Agent 0 0)) demo_start = Some \<sigma>" by (auto split: option.splits)
  then show ?thesis using lease_assertions_hold [OF reachable_demo [OF \<sigma>]] by blast
qed

section \<open>Waiting ends\<close>

text \<open>The next step of a thread in the middle of a call.\<close>

fun own_action :: "agent \<Rightarrow> lease_env \<Rightarrow> phase \<Rightarrow> lease_action" where
  "own_action a en Idle = Tick 0"
| "own_action a en (Thread_Wait _) = Take_Thread_Lock a"
| "own_action a en (Opening _) = Open_Lock_File a None"
| "own_action a en (Polling _ _) = Poll a"
| "own_action a en (Locked _ _) = Publish a en No_Fault"
| "own_action a en Unlocking = Finish_Release a"
| "own_action a en (Probe_Open _) = Open_Probe a None"
| "own_action a en (Probing _ _) = Probe a"
| "own_action a en (Probe_Locked _ _) = Finish_Probe a"

fun steps_left :: "phase \<Rightarrow> nat" where
  "steps_left Idle = 0"
| "steps_left (Thread_Wait _) = 4"
| "steps_left (Opening _) = 3"
| "steps_left (Polling _ _) = 2"
| "steps_left (Locked _ _) = 1"
| "steps_left Unlocking = 1"
| "steps_left (Probe_Open _) = 3"
| "steps_left (Probing _ _) = 2"
| "steps_left (Probe_Locked _ _) = 1"

fun deadline :: "phase \<Rightarrow> int option" where
  "deadline (Thread_Wait rq) = Some (rq_deadline rq)"
| "deadline (Opening rq) = Some (rq_deadline rq)"
| "deadline (Polling _ rq) = Some (rq_deadline rq)"
| "deadline _ = None"

definition overdue :: "lease_system \<Rightarrow> agent \<Rightarrow> bool" where
  "overdue \<sigma> a \<longleftrightarrow> (case deadline (sy_phase \<sigma> a) of Some t \<Rightarrow> t \<le> sy_clock \<sigma> | None \<Rightarrow> True)"

fun concerns :: "agent \<Rightarrow> lease_action \<Rightarrow> bool" where
  "concerns a (Begin_Acquire b _ _ _) = (b = a)"
| "concerns a (Take_Thread_Lock b) = (b = a)"
| "concerns a (Open_Lock_File b _) = (b = a)"
| "concerns a (Poll b) = (b = a)"
| "concerns a (Publish b _ _) = (b = a)"
| "concerns a (Begin_Release b _ _) = (b = a)"
| "concerns a (Finish_Release b) = (b = a)"
| "concerns a (Begin_Status b) = (b = a)"
| "concerns a (Open_Probe b _) = (b = a)"
| "concerns a (Probe b) = (b = a)"
| "concerns a (Finish_Probe b) = (b = a)"
| "concerns a (Crash p) = (p = ag_process a)"
| "concerns a (Tick _) = False"

lemma clock_fields:
  "sy_clock (goto a ph \<sigma>) = sy_clock \<sigma>" "sy_clock (finish a r \<sigma>) = sy_clock \<sigma>" "sy_clock (thread_release p \<sigma>) = sy_clock \<sigma>"
  "sy_clock (close_handle p n \<sigma>) = sy_clock \<sigma>"
  by (simp_all add: goto_def finish_def thread_release_def close_handle_def)

lemma written_frame:
  "sy_clock (snd (write_metadata fault d \<sigma>)) = sy_clock \<sigma>" "sy_phase (snd (write_metadata fault d \<sigma>)) = sy_phase \<sigma>"
  by (auto simp: write_metadata_def split: write_fault.splits)

lemma others_keep_phase:
  assumes "perform x \<sigma> = Some \<tau>" "\<not> concerns a x"
  shows "sy_phase \<tau> a = sy_phase \<sigma> a \<and> sy_clock \<sigma> \<le> sy_clock \<tau>"
proof (cases x)
  case (Publish b en fault)
  then obtain n rq where rq: "sy_phase \<sigma> b = Locked n rq" using assms by (auto simp: publish_def split: phase.splits)
  obtain r \<rho> where w: "write_metadata fault (owner_payload (sy_kind \<sigma>) en rq (read_metadata (sy_path \<sigma>) (sy_metadata \<sigma>))) \<sigma> = (r, \<rho>)"
    by fastforce
  then have "sy_phase \<rho> = sy_phase \<sigma>" "sy_clock \<rho> = sy_clock \<sigma>" using written_frame by (metis snd_conv)+
  then show ?thesis using Publish assms rq w by (auto simp: publish_def Let_def fields clock_fields split: option.splits)
next
  case (Take_Thread_Lock b)
  then show ?thesis using assms
    by (auto simp: take_thread_lock_def Let_def fields clock_fields split: phase.splits option.splits prod.splits if_splits)
qed (use assms in \<open>auto simp: step_defs Let_def fields clock_fields written_frame split: phase.splits option.splits if_splits\<close>)

lemma own_step_advances:
  assumes "reachable \<sigma>" "sy_phase \<sigma> a \<noteq> Idle" "overdue \<sigma> a"
  shows "\<exists>\<tau>. perform (own_action a en (sy_phase \<sigma> a)) \<sigma> = Some \<tau> \<and> steps_left (sy_phase \<tau> a) < steps_left (sy_phase \<sigma> a) \<and> overdue \<tau> a"
proof (cases "sy_phase \<sigma> a")
  case (Thread_Wait rq)
  then show ?thesis using assms(3)
    by (auto simp: take_thread_lock_def overdue_def Let_def fields clock_fields split: option.splits)
next
  case Unlocking
  have inv: "lease_inv \<sigma>" using assms(1) by (rule reachable_inv)
  then have "0 < sy_depth \<sigma> a" using Unlocking by (auto simp: lease_inv_def phases_ok_def)
  then obtain n where "sy_handle \<sigma> (ag_process a) = Some n" using deep_owned [OF inv] by blast
  then show ?thesis using Unlocking by (simp add: finish_release_def overdue_def fields)
qed (use assms in \<open>auto simp: step_defs overdue_def Let_def fields clock_fields write_metadata_def\<close>)

text \<open>C27: A call on the lease never waits beyond its deadline: once the deadline has passed the thread is at most four own steps
  from the end of its call, every one of them can be taken, and no step of another thread or process sets it back.\<close>

theorem lease_wait_bounded:
  assumes "reachable \<sigma>" "sy_phase \<sigma> a \<noteq> Idle" "overdue \<sigma> a"
  shows "steps_left (sy_phase \<sigma> a) \<le> 4
    \<and> (\<exists>\<tau>. perform (own_action a en (sy_phase \<sigma> a)) \<sigma> = Some \<tau> \<and> steps_left (sy_phase \<tau> a) < steps_left (sy_phase \<sigma> a) \<and> overdue \<tau> a)
    \<and> (\<forall>x \<tau>. perform x \<sigma> = Some \<tau> \<longrightarrow> \<not> concerns a x \<longrightarrow> sy_phase \<tau> a = sy_phase \<sigma> a \<and> overdue \<tau> a)"
proof (intro conjI allI impI)
  show "steps_left (sy_phase \<sigma> a) \<le> 4" by (cases "sy_phase \<sigma> a") auto
  show "\<exists>\<tau>. perform (own_action a en (sy_phase \<sigma> a)) \<sigma> = Some \<tau> \<and> steps_left (sy_phase \<tau> a) < steps_left (sy_phase \<sigma> a) \<and> overdue \<tau> a"
    using assms by (rule own_step_advances)
  fix x \<tau> assume x: "perform x \<sigma> = Some \<tau>" "\<not> concerns a x"
  show "sy_phase \<tau> a = sy_phase \<sigma> a" using others_keep_phase [OF x] by simp
  show "overdue \<tau> a" using others_keep_phase [OF x] assms(3) by (auto simp: overdue_def split: option.splits)
qed

theorem lease_wait_bounded_witness:
  "\<exists>\<sigma> \<tau>. perform_all (acquiring (Agent 0 0) @ [Begin_Acquire (Agent 1 0) ''wait'' [] 5, Take_Thread_Lock (Agent 1 0),
       Open_Lock_File (Agent 1 0) None, Poll (Agent 1 0), Tick 5]) demo_start = Some \<sigma>
     \<and> perform (Poll (Agent 1 0)) \<sigma> = Some \<tau> \<and> steps_left (sy_phase \<tau> (Agent 1 0)) < 2"
proof -
  let ?run = "perform_all (acquiring (Agent 0 0) @ [Begin_Acquire (Agent 1 0) ''wait'' [] 5, Take_Thread_Lock (Agent 1 0),
       Open_Lock_File (Agent 1 0) None, Poll (Agent 1 0), Tick 5]) demo_start"
  have "(case ?run of Some \<sigma> \<Rightarrow> (case sy_phase \<sigma> (Agent 1 0) of Polling n rq \<Rightarrow> rq_deadline rq \<le> sy_clock \<sigma> | _ \<Rightarrow> False) | None \<Rightarrow> False) = True"
    by code_simp
  then obtain \<sigma> n rq where \<sigma>: "?run = Some \<sigma>" "sy_phase \<sigma> (Agent 1 0) = Polling n rq" "rq_deadline rq \<le> sy_clock \<sigma>"
    by (auto split: option.splits phase.splits)
  then show ?thesis
    using lease_wait_bounded [OF reachable_demo [OF \<sigma>(1)], of "Agent 1 0" demo_env] by (auto simp: overdue_def)
qed

section \<open>What a report can be wrong about\<close>

text \<open>A status report names an owner as stale although it released the lease in the normal way, when the release falls
  between the reading of the metadata and the probe: \<open>status\<close> reads first and does not read again once it has the lock.\<close>

theorem stale_report_possible:
  "case perform_all (acquiring (Agent 0 0)
     @ [Begin_Status (Agent 1 0), Begin_Release (Agent 0 0) ''u'' No_Fault, Finish_Release (Agent 0 0),
        Open_Probe (Agent 1 0) None, Probe (Agent 1 0), Finish_Probe (Agent 1 0)]) demo_start of
     Some \<sigma> \<Rightarrow> (case sy_results \<sigma> of
         [(_, Acquired d), (_, Released), (b, Reported r)] \<Rightarrow> b = Agent 1 0 \<and> ls_available r \<and> ls_stale_owner r \<and> ls_owner r = Some d
       | _ \<Rightarrow> False)
     \<and> \<not> (case fst (read_metadata (sy_path \<sigma>) (sy_metadata \<sigma>)) of Some d \<Rightarrow> is_active d | None \<Rightarrow> True)
   | None \<Rightarrow> False"
  by code_simp

text \<open>A report takes the kernel lock for a moment, so that a call of \<open>acquire\<close> that may not wait (\<open>recover\<close>) raises that the
  lease is contended although nobody holds it.\<close>

theorem probe_contends_acquire:
  "case perform_all [Begin_Status (Agent 1 0), Open_Probe (Agent 1 0) None, Probe (Agent 1 0),
        Begin_Acquire (Agent 0 0) ''operator.recover'' [] 0, Take_Thread_Lock (Agent 0 0), Open_Lock_File (Agent 0 0) None,
        Poll (Agent 0 0)] demo_start of
     Some \<sigma> \<Rightarrow> (case sy_results \<sigma> of [(a, Raised (LockContendedError m))] \<Rightarrow> a = Agent 0 0 | _ \<Rightarrow> False)
       \<and> sy_depth \<sigma> (Agent 0 0) = 0 \<and> sy_depth \<sigma> (Agent 1 0) = 0
   | None \<Rightarrow> False"
  by code_simp

end
