(* ===== verification/Field_Read.thy ===== *)
theory Field_Read imports Py_Json begin

text \<open>
  Reading the fields of an object a person or a model wrote: the readers \<open>_required_string\<close>,
  \<open>_required_string_tuple\<close>, \<open>_optional_string_tuple\<close> and \<open>_optional_integer\<close> that \<open>tasks.py\<close> and
  \<open>lifecycle.py\<close> have in common.  They differ in their exception, which is the argument \<open>err\<close> (the key
  and the rest of the message).
\<close>

section \<open>Readers\<close>

definition read_string :: "(string \<Rightarrow> string \<Rightarrow> exn) \<Rightarrow> jobj \<Rightarrow> string \<Rightarrow> string res" where
  "read_string err d k = (case jget d k of
     JStr s \<Rightarrow> if strip s = [] then Inl (err k '' must be a non-empty string.'') else Inr (strip s)
   | _ \<Rightarrow> Inl (err k '' must be a non-empty string.''))"

fun read_items :: "exn \<Rightarrow> json list \<Rightarrow> string list res" where
  "read_items e [] = Inr []"
| "read_items e (JStr s # js) = (if strip s = [] then Inl e else rbind (read_items e js) (\<lambda>xs. Inr (strip s # xs)))"
| "read_items e (j # js) = Inl e"

definition read_strings :: "(string \<Rightarrow> string \<Rightarrow> exn) \<Rightarrow> jobj \<Rightarrow> string \<Rightarrow> string list res" where
  "read_strings err d k = (case jget d k of
     JNull \<Rightarrow> Inr []
   | JList js \<Rightarrow> read_items (err k '' must be a list of non-empty strings.'') js
   | _ \<Rightarrow> Inl (err k '' must be a list of strings.''))"

definition read_some_strings :: "(string \<Rightarrow> string \<Rightarrow> exn) \<Rightarrow> jobj \<Rightarrow> string \<Rightarrow> string list res" where
  "read_some_strings err d k = rbind (read_strings err d k) (\<lambda>xs.
     if xs = [] then Inl (err k '' must contain at least one item.'') else Inr xs)"

definition read_integer :: "(string \<Rightarrow> string \<Rightarrow> exn) \<Rightarrow> jobj \<Rightarrow> string \<Rightarrow> int res" where
  "read_integer err d k = (case jget_or d k (JInt 0) of
     JInt i \<Rightarrow> Inr i | _ \<Rightarrow> Inl (err k '' must be an integer.''))"

section \<open>What they return\<close>

definition clean :: "string \<Rightarrow> bool" where
  "clean s \<longleftrightarrow> s \<noteq> [] \<and> strip s = s"

lemma dropWhile_idem: "dropWhile P (dropWhile P xs) = dropWhile P xs"
  by (induction xs) auto

lemma rstrip_idem [simp]: "rstrip (rstrip s) = rstrip s"
  by (simp add: rstrip_def dropWhile_idem)

lemma rstrip_prefix: "\<exists>t. s = rstrip s @ t"
  by (metis rev_append rev_rev_ident rstrip_def takeWhile_dropWhile_id)

lemma strip_idem [simp]: "strip (strip s) = strip s"
proof (cases "lstrip s")
  case Nil
  then have "strip s = []" by (simp add: strip_def rstrip_def)
  then show ?thesis by simp
next
  case (Cons c t)
  then have c: "\<not> is_space c" by (metis dropWhile_eq_Cons_conv lstrip_def)
  obtain u where u: "c # t = rstrip (c # t) @ u" using rstrip_prefix by blast
  have "rstrip (c # t) \<noteq> []" using c by (auto simp: rstrip_def dropWhile_eq_Nil_conv)
  then obtain v where "rstrip (c # t) = c # v" using u by (metis append_Cons list.exhaust list.inject)
  then have "lstrip (rstrip (c # t)) = rstrip (c # t)" using c by (simp add: lstrip_def)
  then show ?thesis using Cons by (simp add: strip_def)
qed

lemma strip_clean: "strip s \<noteq> [] \<Longrightarrow> clean (strip s)"
  by (simp add: clean_def)

lemma read_string_clean: "read_string err d k = Inr s \<Longrightarrow> clean s"
  by (auto simp: read_string_def clean_def split: json.splits if_splits)

lemma read_items_clean: "read_items e js = Inr xs \<Longrightarrow> list_all clean xs"
  by (induction e js arbitrary: xs rule: read_items.induct)
     (auto simp: rbind_Inr_iff clean_def split: if_splits)

lemma read_strings_clean: "read_strings err d k = Inr xs \<Longrightarrow> list_all clean xs"
  by (auto simp: read_strings_def dest: read_items_clean split: json.splits)

lemma read_some_strings_clean: "read_some_strings err d k = Inr xs \<Longrightarrow> list_all clean xs \<and> xs \<noteq> []"
  by (auto simp: read_some_strings_def rbind_Inr_iff dest: read_strings_clean split: if_splits)

text \<open>Clean values are read back as they are.\<close>

lemma read_string_clean_id: "jget d k = JStr s \<Longrightarrow> clean s \<Longrightarrow> read_string err d k = Inr s"
  by (simp add: read_string_def clean_def)

lemma read_items_clean_id: "list_all clean xs \<Longrightarrow> read_items e (map JStr xs) = Inr xs"
  by (induction xs) (auto simp: clean_def)

lemma read_strings_clean_id: "jget d k = j_strs xs \<Longrightarrow> list_all clean xs \<Longrightarrow> read_strings err d k = Inr xs"
  by (simp add: read_strings_def j_strs_def read_items_clean_id)

lemma read_some_strings_clean_id:
  "jget d k = j_strs xs \<Longrightarrow> list_all clean xs \<Longrightarrow> xs \<noteq> [] \<Longrightarrow> read_some_strings err d k = Inr xs"
  by (simp add: read_some_strings_def read_strings_clean_id)

lemma read_integer_id: "jget_or d k (JInt 0) = JInt i \<Longrightarrow> read_integer err d k = Inr i"
  by (simp add: read_integer_def)

end
