(* ===== verification/Task_Files.thy ===== *)
theory Task_Files imports Field_Read Domain Durable_Text begin

text \<open>
  Task files (\<open>src/llm_harness/tasks.py\<close>): a work item read from a JSON object or from the sections of a
  Markdown text.  Files are texts (\<open>text_disk\<close>); a byte order mark lies outside of Latin-1, so that
  \<open>read_authored_text\<close> reads the text as it is (with universal newlines).
\<close>

section \<open>Fields\<close>

definition task_error :: "string \<Rightarrow> string \<Rightarrow> exn" where
  "task_error k m = TaskLoadError (''Task field '' @ [CHR 0x27] @ k @ [CHR 0x27] @ m)"

definition task_string :: "jobj \<Rightarrow> string \<Rightarrow> string res" where
  "task_string = read_string task_error"

definition task_strings :: "jobj \<Rightarrow> string \<Rightarrow> string list res" where
  "task_strings = read_strings task_error"

definition task_some_strings :: "jobj \<Rightarrow> string \<Rightarrow> string list res" where
  "task_some_strings = read_some_strings task_error"

definition task_integer :: "jobj \<Rightarrow> string \<Rightarrow> int res" where
  "task_integer = read_integer task_error"

definition task_optional_string :: "jobj \<Rightarrow> string \<Rightarrow> string option res" where
  "task_optional_string d k = (case jget d k of
     JNull \<Rightarrow> Inr None
   | JStr s \<Rightarrow> if strip s = [] then Inl (task_error k '' must be null or a non-empty string.'') else Inr (Some (strip s))
   | _ \<Rightarrow> Inl (task_error k '' must be null or a non-empty string.''))"

definition work_item_from_mapping :: "jobj \<Rightarrow> work_item res" where
  "work_item_from_mapping d =
     rbind (task_string d ''id'') (\<lambda>i.
     rbind (task_string d ''title'') (\<lambda>title.
     rbind (task_string d ''objective'') (\<lambda>objective.
     rbind (task_some_strings d ''acceptance_criteria'') (\<lambda>criteria.
     rbind (task_some_strings d ''verification_commands'') (\<lambda>commands.
     rbind (task_strings d ''allowed_paths'') (\<lambda>paths.
     rbind (task_strings d ''non_goals'') (\<lambda>non_goals.
     rbind (task_strings d ''depends_on'') (\<lambda>deps.
     rbind (task_integer d ''priority'') (\<lambda>priority.
     rbind (task_strings d ''correction_instructions'') (\<lambda>corrections.
     rbind (task_optional_string d ''correction_decision_id'') (\<lambda>decision.
     Inr \<lparr>wi_id = i, wi_title = title, wi_objective = objective, wi_acceptance_criteria = criteria,
       wi_verification_commands = commands, wi_allowed_paths = paths, wi_non_goals = non_goals, wi_depends_on = deps,
       wi_priority = priority, wi_correction_instructions = corrections, wi_correction_decision_id = decision\<rparr>)))))))))))"

section \<open>Markdown\<close>

type_synonym sections = "(string \<times> string list) list"

definition normalize_heading :: "string \<Rightarrow> string" where
  "normalize_heading s = replace_char CHR ''_'' CHR '' '' (lower (strip s))"

definition open_section :: "sections \<Rightarrow> string \<Rightarrow> sections" where
  "open_section m k = (if map_of m k = None then m @ [(k, [])] else m)"

fun collect_sections :: "sections \<Rightarrow> string option \<Rightarrow> string list \<Rightarrow> sections" where
  "collect_sections m current [] = m"
| "collect_sections m current (raw # raws) =
     (let line = rstrip raw in
      if startswith line ''## '' then
        let k = normalize_heading (drop 3 line) in collect_sections (open_section m k) (Some k) raws
      else case current of
        None \<Rightarrow> collect_sections m current raws
      | Some k \<Rightarrow> collect_sections (map (\<lambda>(k', ls). (k', if k' = k then ls @ [line] else ls)) m) current raws)"

definition markdown_sections :: "string \<Rightarrow> sections" where
  "markdown_sections text = collect_sections [] None (splitlines text)"

definition heading_text :: "string \<Rightarrow> string option" where
  "heading_text raw = (let line = strip raw in
     if startswith line ''# '' \<and> strip (drop 2 line) \<noteq> [] then Some (strip (drop 2 line)) else None)"

definition first_markdown_heading :: "string \<Rightarrow> string option" where
  "first_markdown_heading text =
     (case filter (\<lambda>x. x \<noteq> None) (map heading_text (splitlines text)) of [] \<Rightarrow> None | x # _ \<Rightarrow> x)"

definition content_lines :: "sections \<Rightarrow> string \<Rightarrow> string list" where
  "content_lines m heading = (case map_of m (normalize_heading heading) of
     None \<Rightarrow> [] | Some ls \<Rightarrow> map strip (filter (\<lambda>l. strip l \<noteq> []) ls))"

definition is_list_item :: "string \<Rightarrow> bool" where
  "is_list_item line \<longleftrightarrow> startswith (strip line) ''- '' \<or> startswith (strip line) ''* ''"

definition strip_list_marker :: "string \<Rightarrow> string" where
  "strip_list_marker line = strip (drop 2 (strip line))"

definition optional_list :: "sections \<Rightarrow> string \<Rightarrow> string list" where
  "optional_list m heading = map strip_list_marker (filter is_list_item (content_lines m heading))"

definition required_list :: "sections \<Rightarrow> string \<Rightarrow> string list res" where
  "required_list m heading = (if optional_list m heading = []
     then Inl (TaskLoadError (''Markdown task section '' @ [CHR 0x27] @ ''## '' @ heading @ [CHR 0x27] @ '' must contain at least one list item.''))
     else Inr (optional_list m heading))"

definition optional_scalar :: "sections \<Rightarrow> string \<Rightarrow> string option" where
  "optional_scalar m heading = (if content_lines m heading = [] then None
     else Some (strip (join [CHR 0x0A] (content_lines m heading))))"

definition required_scalar :: "sections \<Rightarrow> string \<Rightarrow> string res" where
  "required_scalar m heading = (case optional_scalar m heading of
     None \<Rightarrow> Inl (TaskLoadError (''Markdown task section '' @ [CHR 0x27] @ ''## '' @ heading @ [CHR 0x27] @ '' is required.''))
   | Some s \<Rightarrow> Inr s)"

definition markdown_integer :: "sections \<Rightarrow> string \<Rightarrow> int res" where
  "markdown_integer m heading = (case optional_scalar m heading of
     None \<Rightarrow> Inr 0
   | Some s \<Rightarrow> (case parse_int s of
       None \<Rightarrow> Inl (TaskLoadError (''Markdown task section '' @ [CHR 0x27] @ ''## '' @ heading @ [CHR 0x27] @ '' must be an integer.''))
     | Some i \<Rightarrow> Inr i))"

definition markdown_mapping :: "string \<Rightarrow> jobj res" where
  "markdown_mapping text =
     (let m = markdown_sections text in
     rbind (case first_markdown_heading text of Some t \<Rightarrow> Inr t | None \<Rightarrow> required_scalar m ''title'') (\<lambda>title.
     rbind (required_scalar m ''id'') (\<lambda>i.
     rbind (required_scalar m ''objective'') (\<lambda>objective.
     rbind (required_list m ''acceptance criteria'') (\<lambda>criteria.
     rbind (required_list m ''verification commands'') (\<lambda>commands.
     rbind (markdown_integer m ''priority'') (\<lambda>priority.
     Inr [(''id'', JStr i), (''title'', JStr title), (''objective'', JStr objective),
       (''acceptance_criteria'', j_strs criteria), (''verification_commands'', j_strs commands),
       (''allowed_paths'', j_strs (optional_list m ''allowed paths'')), (''non_goals'', j_strs (optional_list m ''non-goals'')),
       (''depends_on'', j_strs (optional_list m ''depends on'')), (''priority'', JInt priority),
       (''correction_instructions'', j_strs (optional_list m ''correction instructions'')),
       (''correction_decision_id'', j_opt_str (optional_scalar m ''correction decision id''))])))))))"

section \<open>Files\<close>

definition load_json_task :: "string \<Rightarrow> path \<Rightarrow> work_item res" where
  "load_json_task text p = (case loads text of
     None \<Rightarrow> Inl (TaskLoadError (''Invalid JSON task file: '' @ path_str p))
   | Some (JObj d) \<Rightarrow> work_item_from_mapping d
   | Some _ \<Rightarrow> Inl (TaskLoadError ''JSON task file must contain an object.''))"

definition load_markdown_task :: "string \<Rightarrow> path \<Rightarrow> work_item res" where
  "load_markdown_task text p =
     rbind (markdown_mapping text) (\<lambda>d.
     case work_item_from_mapping d of
       Inl (TaskLoadError m) \<Rightarrow> Inl (TaskLoadError (''Invalid Markdown task file '' @ path_str p @ '': '' @ m))
     | r \<Rightarrow> r)"

definition read_authored_text :: "path \<Rightarrow> text_disk \<Rightarrow> string res" where
  "read_authored_text p d = (case td_files d p of
     Missing \<Rightarrow> Inl (OSError (''[Errno 2] No such file or directory: '' @ repr_str (path_str p)))
   | Unreadable m \<Rightarrow> Inl (OSError m)
   | Content t \<Rightarrow> Inr (universal_newlines t))"

definition load_work_item :: "path \<Rightarrow> text_disk \<Rightarrow> work_item res" where
  "load_work_item p d =
     rbind (read_authored_text p d) (\<lambda>text.
     let ext = lower (path_suffix p) in
     if ext = ''.json'' then load_json_task text p
     else if ext \<in> {''.md'', ''.markdown''} then load_markdown_task text p
     else Inl (TaskLoadError (''Unsupported task file extension: '' @ path_suffix p)))"

section \<open>What a task file gives\<close>

definition work_item_wf :: "work_item \<Rightarrow> bool" where
  "work_item_wf w \<longleftrightarrow> clean (wi_id w) \<and> clean (wi_title w) \<and> clean (wi_objective w)
     \<and> wi_acceptance_criteria w \<noteq> [] \<and> list_all clean (wi_acceptance_criteria w)
     \<and> wi_verification_commands w \<noteq> [] \<and> list_all clean (wi_verification_commands w)
     \<and> list_all clean (wi_allowed_paths w) \<and> list_all clean (wi_non_goals w) \<and> list_all clean (wi_depends_on w)
     \<and> list_all clean (wi_correction_instructions w)
     \<and> (case wi_correction_decision_id w of None \<Rightarrow> True | Some s \<Rightarrow> clean s)"

lemmas task_field_defs = task_string_def task_strings_def task_some_strings_def task_integer_def

lemma task_optional_string_clean: "task_optional_string d k = Inr (Some s) \<Longrightarrow> clean s"
  by (auto simp: task_optional_string_def clean_def split: json.splits if_splits)

lemma mapping_wf:
  assumes "work_item_from_mapping d = Inr w"
  shows "work_item_wf w"
proof -
  from assms obtain i title objective criteria commands paths non_goals deps priority corrections decision where
    "task_string d ''id'' = Inr i" "task_string d ''title'' = Inr title" "task_string d ''objective'' = Inr objective"
    "task_some_strings d ''acceptance_criteria'' = Inr criteria" "task_some_strings d ''verification_commands'' = Inr commands"
    "task_strings d ''allowed_paths'' = Inr paths" "task_strings d ''non_goals'' = Inr non_goals"
    "task_strings d ''depends_on'' = Inr deps" "task_strings d ''correction_instructions'' = Inr corrections"
    and decision: "task_optional_string d ''correction_decision_id'' = Inr decision"
    and w: "w = \<lparr>wi_id = i, wi_title = title, wi_objective = objective, wi_acceptance_criteria = criteria,
       wi_verification_commands = commands, wi_allowed_paths = paths, wi_non_goals = non_goals, wi_depends_on = deps,
       wi_priority = priority, wi_correction_instructions = corrections, wi_correction_decision_id = decision\<rparr>"
    unfolding work_item_from_mapping_def rbind_Inr_iff by blast
  note parts = this(1-9) [unfolded task_field_defs]
  have "case decision of None \<Rightarrow> True | Some s \<Rightarrow> clean s"
    using decision task_optional_string_clean by (auto split: option.splits)
  then show ?thesis
    unfolding w work_item_wf_def
    using parts(1-3) [THEN read_string_clean] parts(4-5) [THEN read_some_strings_clean] parts(6-9) [THEN read_strings_clean]
    by simp
qed

lemma load_json_wf: "load_json_task text p = Inr w \<Longrightarrow> work_item_wf w"
  by (simp add: load_json_task_def mapping_wf split: option.splits json.splits)

lemma load_markdown_wf:
  assumes "load_markdown_task text p = Inr w"
  shows "work_item_wf w"
proof -
  obtain d where d: "(case work_item_from_mapping d of
       Inl (TaskLoadError m) \<Rightarrow> Inl (TaskLoadError (''Invalid Markdown task file '' @ path_str p @ '': '' @ m))
     | r \<Rightarrow> r) = Inr w"
    using assms unfolding load_markdown_task_def rbind_Inr_iff by blast
  show ?thesis
  proof (cases "work_item_from_mapping d")
    case (Inl e)
    with d show ?thesis by (cases e) simp_all
  next
    case (Inr x)
    with d show ?thesis by (simp add: mapping_wf)
  qed
qed

lemma load_wf: "load_work_item p d = Inr w \<Longrightarrow> work_item_wf w"
  unfolding load_work_item_def rbind_Inr_iff Let_def
  by (auto split: if_split_asm intro: load_json_wf load_markdown_wf)

end
