(* ===== verification/Project_Plan.thy ===== *)
theory Project_Plan imports Task_Files State_Store begin

text \<open>
  The project specification and what is made of it (\<open>src/llm_harness/lifecycle.py\<close>, with the role
  profile of \<open>role_profiles.py\<close>): reading and checking a specification, the two documents, the task
  files, the role profile, and the tasks in the queue.

  The dash of the documents (U+2014) lies outside of Latin-1 and is the argument \<open>dash\<close>;
  \<open>Path.resolve\<close> is the argument \<open>resolve\<close>.
\<close>

section \<open>Roles\<close>

record role_selection =
  rl_agent :: string
  rl_model :: "string option"
  rl_driver :: "string option"

definition make_role_selection :: "string \<Rightarrow> string option \<Rightarrow> string option \<Rightarrow> role_selection res" where
  "make_role_selection agent model driver =
     (if strip agent = [] then Inl (RoleProfileError ''Role agent must be non-empty.'')
      else if (case model of None \<Rightarrow> False | Some s \<Rightarrow> strip s = []) then Inl (RoleProfileError ''Role model must be non-empty when provided.'')
      else if (case driver of None \<Rightarrow> False | Some s \<Rightarrow> strip s = []) then Inl (RoleProfileError ''Role driver must be non-empty when provided.'')
      else Inr \<lparr>rl_agent = agent, rl_model = model, rl_driver = driver\<rparr>)"

record role_profile =
  rp_supervisor :: role_selection
  rp_worker :: role_selection
  rp_critic :: "role_selection option"
  rp_max_attempts :: int

definition make_role_profile :: "role_selection \<Rightarrow> role_selection \<Rightarrow> role_selection option \<Rightarrow> int \<Rightarrow> role_profile res" where
  "make_role_profile supervisor worker critic max_attempts =
     (if max_attempts < 1 then Inl (RoleProfileError ''Role profile max_attempts must be at least 1.'')
      else Inr \<lparr>rp_supervisor = supervisor, rp_worker = worker, rp_critic = critic, rp_max_attempts = max_attempts\<rparr>)"

definition selection_payload :: "role_selection \<Rightarrow> json" where
  "selection_payload r = JObj [(''agent'', JStr (rl_agent r)), (''model'', j_opt_str (rl_model r)), (''driver'', j_opt_str (rl_driver r))]"

definition role_profile_payload :: "role_profile \<Rightarrow> json" where
  "role_profile_payload r = JObj
     [(''profile_version'', JStr ''2.0''), (''critic_enabled'', JBool (rp_critic r \<noteq> None)),
      (''max_attempts'', JInt (rp_max_attempts r)),
      (''roles'', JObj [(''supervisor'', selection_payload (rp_supervisor r)), (''worker'', selection_payload (rp_worker r)),
        (''critic'', (case rp_critic r of None \<Rightarrow> JNull | Some c \<Rightarrow> selection_payload c))])]"

definition role_profile_path :: "(path \<Rightarrow> path) \<Rightarrow> path \<Rightarrow> path" where
  "role_profile_path resolve root = path_join (resolve root) (Path [] [''.hoh'', ''role-profile.json''])"

definition write_role_profile :: "(path \<Rightarrow> path) \<Rightarrow> path \<Rightarrow> role_profile \<Rightarrow> (text_disk, path) op" where
  "write_role_profile resolve root r =
     mseq (atomic_write_text (role_profile_path resolve root) (dumps_indented 0 (role_profile_payload r) @ [CHR 0x0A]))
     (ret (role_profile_path resolve root))"

definition profile_error :: "string \<Rightarrow> string \<Rightarrow> exn" where
  "profile_error label m = RoleProfileError (''Role profile '' @ label @ m)"

definition stored_selection :: "json \<Rightarrow> string \<Rightarrow> role_selection res" where
  "stored_selection v label = (case v of
     JObj d \<Rightarrow>
       (case jget d ''agent'' of
          JStr agent \<Rightarrow>
            rbind (case jget d ''model'' of JNull \<Rightarrow> Inr None | JStr s \<Rightarrow> Inr (Some s)
              | _ \<Rightarrow> Inl (profile_error label ''.model must be a string or null.'')) (\<lambda>model.
            rbind (case jget d ''driver'' of JNull \<Rightarrow> Inr None | JStr s \<Rightarrow> Inr (Some s)
              | _ \<Rightarrow> Inl (profile_error label ''.driver must be a string or null.'')) (\<lambda>driver.
            make_role_selection agent model driver))
        | _ \<Rightarrow> Inl (profile_error label ''.agent must be a string.''))
   | _ \<Rightarrow> Inl (profile_error label '' must be an object.''))"

text \<open>\<open>load_role_profile\<close>; the file is absent, or a text.\<close>

definition load_role_profile :: "(path \<Rightarrow> path) \<Rightarrow> path \<Rightarrow> text_disk \<Rightarrow> role_profile option res" where
  "load_role_profile resolve root disk = (let p = role_profile_path resolve root in
     if td_files disk p = Missing then Inr None
     else rbind (read_authored_text p disk) (\<lambda>text.
       case loads text of
         None \<Rightarrow> Inl (RoleProfileError (''Invalid role profile JSON: '' @ path_str p))
       | Some (JObj d) \<Rightarrow>
           if jget d ''profile_version'' \<notin> {JStr ''1.0'', JStr ''2.0''}
           then (if is_hashable (jget d ''profile_version'') then Inl (RoleProfileError ''Unsupported role profile version.'') else Inl TypeError)
           else (case jget d ''roles'' of
               JObj roles \<Rightarrow>
                 rbind (stored_selection (jget roles ''supervisor'') ''supervisor'') (\<lambda>supervisor.
                 rbind (stored_selection (jget roles ''worker'') ''worker'') (\<lambda>worker.
                 rbind (if jget roles ''critic'' = JNull then Inr None
                   else rbind (stored_selection (jget roles ''critic'') ''critic'') (\<lambda>c. Inr (Some c))) (\<lambda>critic.
                 rbind (py_int (jget_or d ''max_attempts'' (JInt 3))) (\<lambda>n.
                 rbind (make_role_profile supervisor worker critic n) (\<lambda>r. Inr (Some r))))))
             | _ \<Rightarrow> Inl (RoleProfileError ''Role profile roles must be an object.''))
       | Some _ \<Rightarrow> Inl (RoleProfileError ''Role profile must contain a JSON object.'')))"

section \<open>The specification\<close>

record project_task =
  pt_id :: string
  pt_title :: string
  pt_objective :: string
  pt_acceptance_criteria :: "string list"
  pt_verification_commands :: "string list"
  pt_allowed_paths :: "string list"
  pt_non_goals :: "string list"
  pt_depends_on :: "string list"
  pt_priority :: int

definition to_work_item :: "project_task \<Rightarrow> work_item" where
  "to_work_item t = \<lparr>wi_id = pt_id t, wi_title = pt_title t, wi_objective = pt_objective t,
     wi_acceptance_criteria = pt_acceptance_criteria t, wi_verification_commands = pt_verification_commands t,
     wi_allowed_paths = pt_allowed_paths t, wi_non_goals = pt_non_goals t, wi_depends_on = pt_depends_on t,
     wi_priority = pt_priority t, wi_correction_instructions = [], wi_correction_decision_id = None\<rparr>"

record project_spec =
  ps_id :: string
  ps_title :: string
  ps_goal :: string
  ps_customer :: string
  ps_business_requirements :: "string list"
  ps_definition_of_done :: "string list"
  ps_tasks :: "project_task list"
  ps_non_functional_requirements :: "string list"
  ps_documentation_requirements :: "string list"
  ps_constraints :: "string list"
  ps_open_questions :: "string list"
  ps_spec_version :: string
  ps_orchestration :: "role_profile option"

definition spec_error :: "string \<Rightarrow> string \<Rightarrow> exn" where
  "spec_error k m = ProjectSpecError (''Project spec field '' @ [CHR 0x27] @ k @ [CHR 0x27] @ m)"

definition spec_string :: "jobj \<Rightarrow> string \<Rightarrow> string res" where
  "spec_string = read_string spec_error"

definition spec_strings :: "jobj \<Rightarrow> string \<Rightarrow> string list res" where
  "spec_strings = read_strings spec_error"

definition spec_some_strings :: "jobj \<Rightarrow> string \<Rightarrow> string list res" where
  "spec_some_strings = read_some_strings spec_error"

definition spec_integer :: "jobj \<Rightarrow> string \<Rightarrow> int res" where
  "spec_integer = read_integer spec_error"

definition spec_objects :: "jobj \<Rightarrow> string \<Rightarrow> jobj list res" where
  "spec_objects d k = (case jget d k of
     JList js \<Rightarrow> if js = [] then Inl (spec_error k '' must contain at least one object.'')
       else mapE (\<lambda>j. case j of JObj o' \<Rightarrow> Inr o' | _ \<Rightarrow> Inl (spec_error k '' must contain objects.'')) js
   | _ \<Rightarrow> Inl (spec_error k '' must contain at least one object.''))"

definition project_task_from_mapping :: "jobj \<Rightarrow> project_task res" where
  "project_task_from_mapping d =
     rbind (spec_string d ''id'') (\<lambda>i.
     rbind (spec_string d ''title'') (\<lambda>title.
     rbind (spec_string d ''objective'') (\<lambda>objective.
     rbind (spec_some_strings d ''acceptance_criteria'') (\<lambda>criteria.
     rbind (spec_some_strings d ''verification_commands'') (\<lambda>commands.
     rbind (spec_strings d ''allowed_paths'') (\<lambda>paths.
     rbind (spec_strings d ''non_goals'') (\<lambda>non_goals.
     rbind (spec_strings d ''depends_on'') (\<lambda>deps.
     rbind (spec_integer d ''priority'') (\<lambda>priority.
     Inr \<lparr>pt_id = i, pt_title = title, pt_objective = objective, pt_acceptance_criteria = criteria,
       pt_verification_commands = commands, pt_allowed_paths = paths, pt_non_goals = non_goals, pt_depends_on = deps,
       pt_priority = priority\<rparr>)))))))))"

definition role_error :: "string \<Rightarrow> string \<Rightarrow> exn" where
  "role_error label m = ProjectSpecError (''Project spec orchestration.'' @ label @ m)"

definition optional_role_text :: "string \<Rightarrow> jobj \<Rightarrow> string \<Rightarrow> string option res" where
  "optional_role_text label d k = (case jget d k of
     JNull \<Rightarrow> Inr None
   | JStr s \<Rightarrow> if strip s = [] then Inl (role_error label (CHR ''.'' # k @ '' must be a non-empty string or null.'')) else Inr (Some s)
   | _ \<Rightarrow> Inl (role_error label (CHR ''.'' # k @ '' must be a non-empty string or null.'')))"

definition spec_role_selection :: "json \<Rightarrow> string \<Rightarrow> role_selection res" where
  "spec_role_selection v label = (case v of
     JObj d \<Rightarrow>
       rbind (case jget d ''agent'' of
           JStr s \<Rightarrow> if strip s = [] then Inl (role_error label ''.agent must be a non-empty string.'') else Inr s
         | _ \<Rightarrow> Inl (role_error label ''.agent must be a non-empty string.'')) (\<lambda>agent.
       rbind (optional_role_text label d ''model'') (\<lambda>model.
       rbind (optional_role_text label d ''driver'') (\<lambda>driver.
       make_role_selection (strip agent) (map_option strip model) (map_option strip driver))))
   | _ \<Rightarrow> Inl (role_error label '' must be an object.''))"

definition orchestration_from_mapping :: "json \<Rightarrow> role_profile option res" where
  "orchestration_from_mapping v = (case v of
     JNull \<Rightarrow> Inr None
   | JObj d \<Rightarrow>
       rbind (spec_role_selection (jget d ''supervisor'') ''supervisor'') (\<lambda>supervisor.
       rbind (spec_role_selection (jget d ''worker'') ''worker'') (\<lambda>worker.
       rbind (if jget d ''critic'' = JNull then Inr None
         else rbind (spec_role_selection (jget d ''critic'') ''critic'') (\<lambda>c. Inr (Some c))) (\<lambda>critic.
       rbind (py_int (jget_or d ''max_attempts'' (JInt 3))) (\<lambda>n.
       rbind (make_role_profile supervisor worker critic n) (\<lambda>r. Inr (Some r))))))
   | _ \<Rightarrow> Inl (ProjectSpecError ''Project spec orchestration must be an object.''))"

text \<open>The check of the dependencies.  The depth-first search is that of \<open>state.py\<close> (theory Scheduler) with another
  beginning of its message.\<close>

definition check_task :: "string list \<Rightarrow> project_task \<Rightarrow> unit res" where
  "check_task ids t =
     (let unknown = filter (\<lambda>d. d \<notin> set ids) (pt_depends_on t) in
      if unknown \<noteq> [] then Inl (ProjectSpecError (''Task '' @ pt_id t @ '' has unknown dependencies: '' @ join '', '' unknown @ ''.''))
      else if \<not> distinct (pt_depends_on t) then Inl (ProjectSpecError (''Task '' @ pt_id t @ '' contains duplicate dependencies.''))
      else Inr ())"

fun project_cycle :: "exn \<Rightarrow> exn" where
  "project_cycle (StateStoreError m) = ProjectSpecError (''Project'' @ drop (length ''Queue'') m)"
| "project_cycle e = e"

definition validate_task_graph :: "project_task list \<Rightarrow> unit res" where
  "validate_task_graph ts =
     rbind (mapE (check_task (map pt_id ts)) ts) (\<lambda>_.
     case visit_all (map (\<lambda>t. (pt_id t, pt_depends_on t)) ts) [] [] (map pt_id ts) of
       Inl e \<Rightarrow> Inl (project_cycle e) | Inr _ \<Rightarrow> Inr ())"

definition spec_version :: "jobj \<Rightarrow> string" where
  "spec_version d = py_str (jget_or d ''spec_version'' (JStr ''1.0''))"

definition spec_orchestration :: "jobj \<Rightarrow> role_profile option res" where
  "spec_orchestration d =
     rbind (orchestration_from_mapping (jget d ''orchestration'')) (\<lambda>orchestration.
     if spec_version d = ''2.0'' \<and> orchestration = None
     then Inl (ProjectSpecError ''Project spec v2 requires an orchestration role selection from the customer brief.'')
     else if spec_version d \<notin> {''1.0'', ''2.0''}
     then Inl (ProjectSpecError (''Unsupported project spec version: '' @ spec_version d))
     else Inr orchestration)"

definition spec_tasks :: "jobj \<Rightarrow> project_task list res" where
  "spec_tasks d =
     rbind (spec_objects d ''tasks'') (\<lambda>objects.
     rbind (mapE project_task_from_mapping objects) (\<lambda>tasks.
     rbind (check (distinct (map pt_id tasks)) (ProjectSpecError ''Project spec tasks must have unique ids.'')) (\<lambda>_.
     rbind (validate_task_graph tasks) (\<lambda>_. Inr tasks))))"

definition project_spec_from_mapping :: "jobj \<Rightarrow> project_spec res" where
  "project_spec_from_mapping d =
     rbind (spec_orchestration d) (\<lambda>orchestration.
     rbind (spec_tasks d) (\<lambda>tasks.
     rbind (spec_string d ''id'') (\<lambda>i.
     rbind (spec_string d ''title'') (\<lambda>title.
     rbind (spec_string d ''goal'') (\<lambda>goal.
     rbind (spec_string d ''customer'') (\<lambda>customer.
     rbind (spec_some_strings d ''business_requirements'') (\<lambda>business.
     rbind (spec_some_strings d ''definition_of_done'') (\<lambda>finished.
     rbind (spec_strings d ''non_functional_requirements'') (\<lambda>non_functional.
     rbind (spec_strings d ''documentation_requirements'') (\<lambda>documentation.
     rbind (spec_strings d ''constraints'') (\<lambda>constraints.
     rbind (spec_strings d ''open_questions'') (\<lambda>questions.
     Inr \<lparr>ps_id = i, ps_title = title, ps_goal = goal, ps_customer = customer, ps_business_requirements = business,
       ps_definition_of_done = finished, ps_tasks = tasks, ps_non_functional_requirements = non_functional,
       ps_documentation_requirements = documentation, ps_constraints = constraints, ps_open_questions = questions,
       ps_spec_version = spec_version d, ps_orchestration = orchestration\<rparr>))))))))))))"

definition load_project_spec :: "path \<Rightarrow> text_disk \<Rightarrow> project_spec res" where
  "load_project_spec p disk =
     (if lower (path_suffix p) \<noteq> ''.json'' then Inl (ProjectSpecError (''Unsupported project spec extension: '' @ path_suffix p))
      else rbind (read_authored_text p disk) (\<lambda>text.
        case loads text of
          None \<Rightarrow> Inl (ProjectSpecError (''Invalid JSON project spec: '' @ path_str p))
        | Some (JObj d) \<Rightarrow> project_spec_from_mapping d
        | Some _ \<Rightarrow> Inl (ProjectSpecError ''Project spec must contain a JSON object.'')))"

section \<open>Documents\<close>

definition bullets :: "string list \<Rightarrow> string list" where
  "bullets items = map (\<lambda>i. ''- '' @ i) items"

definition bullets_or_none :: "string list \<Rightarrow> string list" where
  "bullets_or_none items = (if items = [] then [''- None.''] else bullets items)"

definition indented_bullets :: "string list \<Rightarrow> string list" where
  "indented_bullets items = map (\<lambda>i. ''  - '' @ i) items"

definition or_default :: "string list \<Rightarrow> string \<Rightarrow> string list" where
  "or_default items d = (if items = [] then [d] else items)"

definition orchestration_lines :: "string \<Rightarrow> role_profile option \<Rightarrow> string list" where
  "orchestration_lines dash profile = (case profile of
     None \<Rightarrow> [''- Legacy project spec: roles are resolved from existing runtime configuration.'']
   | Some r \<Rightarrow>
       [''- Supervisor: '' @ rl_agent (rp_supervisor r) @ '' / '' @ or_text (rl_model (rp_supervisor r)) ''agent default'',
        ''- Worker: '' @ rl_agent (rp_worker r) @ '' / '' @ or_text (rl_model (rp_worker r)) ''agent default'' @ '' / driver ''
          @ or_text (rl_driver (rp_worker r)) ''agent catalog'',
        ''- Critic: '' @ (case rp_critic r of
            Some c \<Rightarrow> rl_agent c @ '' / '' @ or_text (rl_model c) ''agent default'' @ '' / driver '' @ or_text (rl_driver c) ''agent catalog''
          | None \<Rightarrow> ''Disabled '' @ dash @ '' Supervisor closes only after deterministic verification.''),
        ''- Maximum worker attempts: '' @ str_int (rp_max_attempts r),
        ''- Role selection was captured in the customer brief; no manual TOML editing is required.''])"

definition render_project_brief :: "string \<Rightarrow> project_spec \<Rightarrow> string" where
  "render_project_brief dash s = join [CHR 0x0A]
     ([''# '' @ ps_title s @ '' '' @ dash @ '' Project brief'', [],
       ''- Project id: `'' @ ps_id s @ ''`'', ''- Customer: '' @ ps_customer s, [],
       ''## Goal'', [], ps_goal s, [], ''## Business requirements'', []]
      @ bullets (ps_business_requirements s)
      @ [[], ''## Non-functional requirements'', []] @ bullets_or_none (ps_non_functional_requirements s)
      @ [[], ''## Constraints'', []] @ bullets_or_none (ps_constraints s)
      @ [[], ''## Open questions'', []] @ bullets_or_none (ps_open_questions s)
      @ [[], ''## Orchestration roles'', []] @ orchestration_lines dash (ps_orchestration s) @ [[]])"

definition roadmap_task :: "nat \<times> project_task \<Rightarrow> string list" where
  "roadmap_task x = (case x of (n, t) \<Rightarrow>
     [''### '' @ str_nat n @ ''. '' @ pt_title t, [], ''- Task id: `'' @ pt_id t @ ''`'', ''- Objective: '' @ pt_objective t,
      ''- Acceptance criteria:''] @ indented_bullets (pt_acceptance_criteria t)
     @ [''- Verification commands:''] @ indented_bullets (pt_verification_commands t)
     @ [''- Allowed paths:''] @ indented_bullets (or_default (pt_allowed_paths t)
          ''No allowed paths declared; the deterministic gate will reject any patch.'')
     @ [''- Non-goals:''] @ indented_bullets (or_default (pt_non_goals t) ''No explicit non-goals.'')
     @ [''- Priority: '' @ str_int (pt_priority t), ''- Depends on:'']
     @ indented_bullets (or_default (pt_depends_on t) ''No dependencies.'') @ [[]])"

definition render_project_roadmap :: "string \<Rightarrow> project_spec \<Rightarrow> string" where
  "render_project_roadmap dash s = join [CHR 0x0A]
     ([''# '' @ ps_title s @ '' '' @ dash @ '' Roadmap'', [], ''## Definition of done'', []]
      @ bullets (ps_definition_of_done s)
      @ [[], ''## Documentation requirements'', []] @ bullets_or_none (ps_documentation_requirements s)
      @ [[], ''## Atomic tasks'', []]
      @ concat (map roadmap_task (zip [1..<Suc (length (ps_tasks s))] (ps_tasks s))))"

section \<open>Materializing the plan\<close>

text \<open>\<open>re.sub(r"[^A-Za-z0-9._-]+", "-", value).strip(".-")\<close>\<close>

definition safe_filename :: "string \<Rightarrow> string" where
  "safe_filename v = (let s = strip_set ''.-'' (dash_runs False v) in if s = [] then ''task'' else s)"

definition task_path :: "path \<Rightarrow> nat \<Rightarrow> project_task \<Rightarrow> path" where
  "task_path root n t = path_join root (Path [] [''tasks'', ''hoh'', pad3 n @ ''-'' @ safe_filename (pt_id t) @ ''.json''])"

definition task_paths :: "path \<Rightarrow> project_spec \<Rightarrow> path list" where
  "task_paths root s = map (\<lambda>(n, t). task_path root n t) (zip [1..<Suc (length (ps_tasks s))] (ps_tasks s))"

definition project_task_to_json :: "project_task \<Rightarrow> json" where
  "project_task_to_json t = JObj
     [(''id'', JStr (pt_id t)), (''title'', JStr (pt_title t)), (''objective'', JStr (pt_objective t)),
      (''acceptance_criteria'', j_strs (pt_acceptance_criteria t)),
      (''verification_commands'', j_strs (pt_verification_commands t)), (''allowed_paths'', j_strs (pt_allowed_paths t)),
      (''non_goals'', j_strs (pt_non_goals t)), (''depends_on'', j_strs (pt_depends_on t)), (''priority'', JInt (pt_priority t))]"

record plan_materialization =
  pm_brief_path :: path
  pm_roadmap_path :: path
  pm_task_paths :: "path list"
  pm_enqueued_task_ids :: "string list"
  pm_role_profile_path :: "path option"

fun write_task_files :: "(project_task \<times> path) list \<Rightarrow> (text_disk, unit) op" where
  "write_task_files [] = ret ()"
| "write_task_files ((t, p) # rest) =
     mseq (atomic_write_text p (dumps_indented 0 (project_task_to_json t) @ [CHR 0x0A])) (write_task_files rest)"

definition brief_path :: "path \<Rightarrow> path" where
  "brief_path root = path_join root (Path [] [''docs'', ''hoh'', ''project-brief.md''])"

definition roadmap_path :: "path \<Rightarrow> path" where
  "roadmap_path root = path_join root (Path [] [''docs'', ''hoh'', ''roadmap.md''])"

definition write_plan :: "(path \<Rightarrow> path) \<Rightarrow> string \<Rightarrow> path \<Rightarrow> project_spec \<Rightarrow> (text_disk, path option) op" where
  "write_plan resolve dash root s =
     mseq (atomic_write_text (brief_path root) (render_project_brief dash s))
    (mseq (atomic_write_text (roadmap_path root) (render_project_roadmap dash s))
    (mbind (case ps_orchestration s of
        None \<Rightarrow> ret None | Some r \<Rightarrow> mbind (write_role_profile resolve root r) (\<lambda>p. ret (Some p))) (\<lambda>profile.
     mseq (write_task_files (zip (ps_tasks s) (task_paths root s))) (ret profile))))"

record plan_state =
  pl_disk :: text_disk
  pl_store :: store

definition on_plan_disk :: "(text_disk, 'a) op \<Rightarrow> (plan_state, 'a) op" where
  "on_plan_disk m = (\<lambda>s. let (x, d) = m (pl_disk s) in (x, s\<lparr>pl_disk := d\<rparr>))"

definition on_plan_store :: "'a store_op \<Rightarrow> (plan_state, 'a) op" where
  "on_plan_store m = (\<lambda>s. let (x, st) = m (pl_store s) in (x, s\<lparr>pl_store := st\<rparr>))"

text \<open>\<open>queued\<close> says whether a queue is given.\<close>

definition materialize_project_plan ::
  "(path \<Rightarrow> path) \<Rightarrow> string \<Rightarrow> path \<Rightarrow> project_spec \<Rightarrow> bool \<Rightarrow> bool \<Rightarrow> (plan_state, plan_materialization) op" where
  "materialize_project_plan resolve dash root s write queued =
     (let paths = task_paths root s;
          result = \<lambda>profile ids. \<lparr>pm_brief_path = brief_path root, pm_roadmap_path = roadmap_path root, pm_task_paths = paths,
            pm_enqueued_task_ids = ids, pm_role_profile_path = profile\<rparr>
      in if \<not> write then ret (result None [])
         else
           mbind (on_plan_disk (write_plan resolve dash root s)) (\<lambda>profile.
           if \<not> queued then ret (result profile [])
           else
             mbind (on_plan_store (enqueue_many (map (\<lambda>(t, p). (to_work_item t, path_str p)) (zip (ps_tasks s) paths)))) (\<lambda>tasks.
             ret (result profile (map task_id tasks)))))"

end
