(* ===== verification/Project_Facts.thy ===== *)
theory Project_Facts imports Project_Plan Durable_Props State_Crash begin

text \<open>
  What reading task files and project specifications guarantees, and that an accepted plan reaches the
  queue and can be read back from its files.
\<close>

section \<open>The dependency check\<close>

definition needs :: "project_task list \<Rightarrow> (string \<times> string) set" where
  "needs ts = {(pt_id t, d) | t d. t \<in> set ts \<and> d \<in> set (pt_depends_on t)}"

lemma map_of_tasks: "distinct (map pt_id ts) \<Longrightarrow> t \<in> set ts \<Longrightarrow> map_of (map (\<lambda>t. (pt_id t, f t)) ts) (pt_id t) = Some (f t)"
  by (rule map_of_is_SomeI) (auto simp: comp_def)

lemma graph_rel_needs:
  assumes "distinct (map pt_id ts)"
  shows "graph_rel (map (\<lambda>t. (pt_id t, pt_depends_on t)) ts) = needs ts"
proof -
  let ?g = "map (\<lambda>t. (pt_id t, pt_depends_on t)) ts"
  have "b \<in> set (graph_get ?g a) \<longleftrightarrow> (a, b) \<in> needs ts" for a b
  proof (cases "a \<in> pt_id ` set ts")
    case True
    then obtain t where t: "t \<in> set ts" "pt_id t = a" by blast
    have one: "u = t" if "u \<in> set ts" "pt_id u = a" for u
      using assms t that unfolding distinct_map inj_on_def by blast
    have "(a, b) \<in> needs ts \<longleftrightarrow> b \<in> set (pt_depends_on t)" using t one unfolding needs_def by blast
    moreover have "graph_get ?g a = pt_depends_on t"
      using map_of_tasks [OF assms t(1), of pt_depends_on] t(2) by (simp add: graph_get_def)
    ultimately show ?thesis by simp
  next
    case False
    then have "map_of ?g a = None" by (auto simp: map_of_eq_None_iff)
    then show ?thesis using False by (auto simp: needs_def graph_get_def)
  qed
  then show ?thesis by (auto simp: graph_rel_def)
qed

lemma check_task_iff: "check_task ids t = Inr u \<longleftrightarrow> set (pt_depends_on t) \<subseteq> set ids \<and> distinct (pt_depends_on t)"
  by (auto simp: check_task_def Let_def filter_empty_conv)

lemma validate_graph_iff:
  assumes "distinct (map pt_id ts)"
  shows "validate_task_graph ts = Inr () \<longleftrightarrow>
    (\<forall>t \<in> set ts. set (pt_depends_on t) \<subseteq> pt_id ` set ts \<and> distinct (pt_depends_on t)) \<and> acyclic (needs ts)"
proof -
  let ?g = "map (\<lambda>t. (pt_id t, pt_depends_on t)) ts"
  have keys: "map fst ?g = map pt_id ts" by (simp add: comp_def)
  have "(\<exists>us. mapE (check_task (map pt_id ts)) ts = Inr us) \<longleftrightarrow>
      (\<forall>t \<in> set ts. set (pt_depends_on t) \<subseteq> pt_id ` set ts \<and> distinct (pt_depends_on t))"
    by (simp add: mapE_check_iff check_task_iff)
  moreover have "(\<exists>vis. visit_all ?g [] [] (map pt_id ts) = Inr vis) \<longleftrightarrow> acyclic (needs ts)"
    using visit_all_acyclic_iff [of ?g] unfolding keys graph_rel_needs [OF assms] .
  moreover have "validate_task_graph ts = Inr () \<longleftrightarrow>
      (\<exists>us. mapE (check_task (map pt_id ts)) ts = Inr us) \<and> (\<exists>vis. visit_all ?g [] [] (map pt_id ts) = Inr vis)"
    unfolding validate_task_graph_def rbind_Inr_iff
    by (cases "visit_all ?g [] [] (map pt_id ts)") auto
  ultimately show ?thesis by simp
qed

section \<open>Accepted specifications\<close>

definition project_task_wf :: "project_task \<Rightarrow> bool" where
  "project_task_wf t \<longleftrightarrow> clean (pt_id t) \<and> clean (pt_title t) \<and> clean (pt_objective t)
     \<and> pt_acceptance_criteria t \<noteq> [] \<and> list_all clean (pt_acceptance_criteria t)
     \<and> pt_verification_commands t \<noteq> [] \<and> list_all clean (pt_verification_commands t)
     \<and> list_all clean (pt_allowed_paths t) \<and> list_all clean (pt_non_goals t) \<and> list_all clean (pt_depends_on t)"

definition role_profile_wf :: "role_profile \<Rightarrow> bool" where
  "role_profile_wf r \<longleftrightarrow> 1 \<le> rp_max_attempts r
     \<and> (\<forall>x \<in> {rp_supervisor r, rp_worker r} \<union> set_option (rp_critic r). clean (rl_agent x)
          \<and> list_all clean (case rl_model x of None \<Rightarrow> [] | Some s \<Rightarrow> [s])
          \<and> list_all clean (case rl_driver x of None \<Rightarrow> [] | Some s \<Rightarrow> [s]))"

definition project_spec_wf :: "project_spec \<Rightarrow> bool" where
  "project_spec_wf s \<longleftrightarrow> clean (ps_id s) \<and> clean (ps_title s) \<and> clean (ps_goal s) \<and> clean (ps_customer s)
     \<and> ps_business_requirements s \<noteq> [] \<and> ps_definition_of_done s \<noteq> [] \<and> ps_tasks s \<noteq> []
     \<and> list_all clean (ps_business_requirements s @ ps_definition_of_done s @ ps_non_functional_requirements s
          @ ps_documentation_requirements s @ ps_constraints s @ ps_open_questions s)
     \<and> ps_spec_version s \<in> {''1.0'', ''2.0''} \<and> (ps_spec_version s = ''2.0'' \<longrightarrow> ps_orchestration s \<noteq> None)
     \<and> (\<forall>r. ps_orchestration s = Some r \<longrightarrow> role_profile_wf r)
     \<and> list_all project_task_wf (ps_tasks s) \<and> distinct (map pt_id (ps_tasks s))
     \<and> (\<forall>t \<in> set (ps_tasks s). set (pt_depends_on t) \<subseteq> pt_id ` set (ps_tasks s) \<and> distinct (pt_depends_on t))
     \<and> acyclic (needs (ps_tasks s))"

lemmas spec_field_defs = spec_string_def spec_strings_def spec_some_strings_def spec_integer_def

lemma task_mapping_wf:
  assumes "project_task_from_mapping d = Inr t"
  shows "project_task_wf t"
proof -
  from assms obtain i title objective criteria commands paths non_goals deps priority where
    "spec_string d ''id'' = Inr i" "spec_string d ''title'' = Inr title" "spec_string d ''objective'' = Inr objective"
    "spec_some_strings d ''acceptance_criteria'' = Inr criteria" "spec_some_strings d ''verification_commands'' = Inr commands"
    "spec_strings d ''allowed_paths'' = Inr paths" "spec_strings d ''non_goals'' = Inr non_goals"
    "spec_strings d ''depends_on'' = Inr deps"
    and t: "t = \<lparr>pt_id = i, pt_title = title, pt_objective = objective, pt_acceptance_criteria = criteria,
       pt_verification_commands = commands, pt_allowed_paths = paths, pt_non_goals = non_goals, pt_depends_on = deps,
       pt_priority = priority\<rparr>"
    unfolding project_task_from_mapping_def rbind_Inr_iff by blast
  note parts = this(1-8) [unfolded spec_field_defs]
  show ?thesis
    unfolding t project_task_wf_def
    using parts(1-3) [THEN read_string_clean] parts(4-5) [THEN read_some_strings_clean] parts(6-8) [THEN read_strings_clean]
    by simp
qed

definition selection_wf :: "role_selection \<Rightarrow> bool" where
  "selection_wf x \<longleftrightarrow> clean (rl_agent x) \<and> list_all clean (case rl_model x of None \<Rightarrow> [] | Some s \<Rightarrow> [s])
     \<and> list_all clean (case rl_driver x of None \<Rightarrow> [] | Some s \<Rightarrow> [s])"

lemma role_text_stripped: "optional_role_text label d k = Inr (Some s) \<Longrightarrow> strip s \<noteq> []"
  by (auto simp: optional_role_text_def split: json.splits if_splits)

lemma role_selection_wf:
  assumes "spec_role_selection v label = Inr x"
  shows "selection_wf x"
proof -
  from assms obtain d agent model driver where
    "optional_role_text label d ''model'' = Inr model" "optional_role_text label d ''driver'' = Inr driver"
    and agent: "(case jget d ''agent'' of
           JStr s \<Rightarrow> if strip s = [] then Inl (role_error label ''.agent must be a non-empty string.'') else Inr s
         | _ \<Rightarrow> Inl (role_error label ''.agent must be a non-empty string.'')) = Inr agent"
    and x: "make_role_selection (strip agent) (map_option strip model) (map_option strip driver) = Inr x"
    unfolding spec_role_selection_def by (cases v) (auto simp: rbind_Inr_iff)
  moreover have "strip agent \<noteq> []" using agent by (auto split: json.splits if_splits)
  ultimately show ?thesis
    using role_text_stripped by (auto simp: make_role_selection_def selection_wf_def clean_def split: if_splits option.splits)
qed

lemma orchestration_wf:
  assumes "orchestration_from_mapping v = Inr (Some r)"
  shows "role_profile_wf r"
proof -
  from assms obtain d supervisor worker critic n where
    "spec_role_selection (jget d ''supervisor'') ''supervisor'' = Inr supervisor"
    "spec_role_selection (jget d ''worker'') ''worker'' = Inr worker"
    and critic: "(if jget d ''critic'' = JNull then Inr None
         else rbind (spec_role_selection (jget d ''critic'') ''critic'') (\<lambda>c. Inr (Some c))) = Inr critic"
    and r: "make_role_profile supervisor worker critic n = Inr r"
    unfolding orchestration_from_mapping_def by (cases v) (auto simp: rbind_Inr_iff)
  then have "selection_wf supervisor" "selection_wf worker" by (auto dest: role_selection_wf)
  moreover have "selection_wf c" if "critic = Some c" for c
    using critic that by (auto simp: rbind_Inr_iff dest: role_selection_wf split: if_splits)
  moreover have "1 \<le> n \<and> r = \<lparr>rp_supervisor = supervisor, rp_worker = worker, rp_critic = critic, rp_max_attempts = n\<rparr>"
    using r by (auto simp: make_role_profile_def split: if_splits)
  ultimately show ?thesis by (auto simp: role_profile_wf_def selection_wf_def)
qed

lemma mapE_all: "mapE f xs = Inr ys \<Longrightarrow> (\<And>x y. f x = Inr y \<Longrightarrow> P y) \<Longrightarrow> list_all P ys"
  by (induction xs arbitrary: ys) (auto split: sum.splits)

lemma spec_objects_some: "spec_objects d k = Inr os \<Longrightarrow> os \<noteq> []"
proof -
  assume "spec_objects d k = Inr os"
  then obtain js where "js \<noteq> []" "mapE (\<lambda>j. case j of JObj o' \<Rightarrow> Inr o' | _ \<Rightarrow> Inl (spec_error k '' must contain objects.'')) js = Inr os"
    by (auto simp: spec_objects_def split: json.splits if_splits)
  then show "os \<noteq> []" by (cases js) (auto split: sum.splits)
qed

lemma orchestration_ok:
  assumes "spec_orchestration d = Inr r"
  shows "spec_version d \<in> {''1.0'', ''2.0''} \<and> (spec_version d = ''2.0'' \<longrightarrow> r \<noteq> None) \<and> (\<forall>x. r = Some x \<longrightarrow> role_profile_wf x)"
proof -
  have "orchestration_from_mapping (jget d ''orchestration'') = Inr r"
    "spec_version d \<in> {''1.0'', ''2.0''}" "spec_version d = ''2.0'' \<longrightarrow> r \<noteq> None"
    using assms unfolding spec_orchestration_def rbind_Inr_iff by (auto split: if_split_asm)
  then show ?thesis using orchestration_wf by blast
qed

lemma tasks_ok:
  assumes "spec_tasks d = Inr ts"
  shows "ts \<noteq> [] \<and> list_all project_task_wf ts \<and> distinct (map pt_id ts)
    \<and> (\<forall>t \<in> set ts. set (pt_depends_on t) \<subseteq> pt_id ` set ts \<and> distinct (pt_depends_on t)) \<and> acyclic (needs ts)"
proof -
  obtain objects where tasks: "spec_objects d ''tasks'' = Inr objects" "mapE project_task_from_mapping objects = Inr ts"
    "distinct (map pt_id ts)" "validate_task_graph ts = Inr ()"
    using assms unfolding spec_tasks_def rbind_Inr_iff check_Inr_iff by (auto simp del: distinct_map)
  have "list_all project_task_wf ts" using tasks(2) task_mapping_wf by (rule mapE_all)
  moreover have "ts \<noteq> []" using spec_objects_some [OF tasks(1)] tasks(2) by (cases objects) (auto split: sum.splits)
  ultimately show ?thesis using tasks(3) tasks(4) [unfolded validate_graph_iff [OF tasks(3)]] by blast
qed

lemma accepted_spec_wf:
  assumes "project_spec_from_mapping d = Inr s"
  shows "project_spec_wf s"
proof -
  from assms obtain orchestration tasks i title goal customer business finished non_functional documentation constraints questions where
    orchestration: "spec_orchestration d = Inr orchestration" and tasks: "spec_tasks d = Inr tasks"
    and strings: "spec_string d ''id'' = Inr i" "spec_string d ''title'' = Inr title" "spec_string d ''goal'' = Inr goal"
    "spec_string d ''customer'' = Inr customer"
    and some: "spec_some_strings d ''business_requirements'' = Inr business" "spec_some_strings d ''definition_of_done'' = Inr finished"
    and lists: "spec_strings d ''non_functional_requirements'' = Inr non_functional"
    "spec_strings d ''documentation_requirements'' = Inr documentation" "spec_strings d ''constraints'' = Inr constraints"
    "spec_strings d ''open_questions'' = Inr questions"
    and s: "s = \<lparr>ps_id = i, ps_title = title, ps_goal = goal, ps_customer = customer, ps_business_requirements = business,
       ps_definition_of_done = finished, ps_tasks = tasks, ps_non_functional_requirements = non_functional,
       ps_documentation_requirements = documentation, ps_constraints = constraints, ps_open_questions = questions,
       ps_spec_version = spec_version d, ps_orchestration = orchestration\<rparr>"
    unfolding project_spec_from_mapping_def rbind_Inr_iff by blast
  show ?thesis
    unfolding s project_spec_wf_def
    using orchestration_ok [OF orchestration] tasks_ok [OF tasks]
      strings [unfolded spec_field_defs, THEN read_string_clean] some [unfolded spec_field_defs, THEN read_some_strings_clean]
      lists [unfolded spec_field_defs, THEN read_strings_clean]
    by simp
qed

lemma spec_parts:
  assumes "project_spec_wf s"
  shows "ps_tasks s \<noteq> []" "list_all project_task_wf (ps_tasks s)" "distinct (map pt_id (ps_tasks s))" "acyclic (needs (ps_tasks s))"
    "\<And>t. t \<in> set (ps_tasks s) \<Longrightarrow> set (pt_depends_on t) \<subseteq> pt_id ` set (ps_tasks s) \<and> distinct (pt_depends_on t)"
  using assms unfolding project_spec_wf_def by blast+

lemma to_work_item_simps [simp]: "wi_id (to_work_item t) = pt_id t" "wi_depends_on (to_work_item t) = pt_depends_on t"
  by (simp_all add: to_work_item_def)

section \<open>Task files\<close>

lemma plain_zeros: "nat_of_digits (CHR ''0'' # s) = nat_of_digits s"
  by (simp add: nat_of_digits_def digit_val_def code_def)

lemma padded_number: "nat_of_digits (pad3 n) = n"
  by (simp add: pad3_def plain_zeros)

lemma padded_digits: "list_all is_ascii_digit (pad3 n)"
  using str_nat_digits by (simp add: pad3_def is_ascii_digit_def code_def)

lemma padded_prefix: "takeWhile (\<lambda>c. c \<noteq> CHR ''-'') (pad3 n @ ''-'' @ t) = pad3 n"
  using digits_no_minus [OF padded_digits, of n] by (subst takeWhile_append2) auto

lemma task_path_inject: "task_path root n t = task_path root m u \<Longrightarrow> n = m"
  using padded_prefix padded_number by (auto simp: task_path_def path_join_def is_absolute_def) (metis append_Cons append_Nil)

lemma length_task_paths [simp]: "length (task_paths root s) = length (ps_tasks s)"
  by (simp add: task_paths_def del: upt_Suc)

lemma nth_task_paths: "i < length (ps_tasks s) \<Longrightarrow> task_paths root s ! i = task_path root (Suc i) (ps_tasks s ! i)"
  by (simp add: task_paths_def del: upt_Suc)

lemma distinct_task_paths: "distinct (task_paths root s)"
proof (unfold distinct_conv_nth length_task_paths, intro allI impI notI)
  fix i j assume "i < length (ps_tasks s)" "j < length (ps_tasks s)" "i \<noteq> j" "task_paths root s ! i = task_paths root s ! j"
  then show False using task_path_inject [of root "Suc i" "ps_tasks s ! i" "Suc j" "ps_tasks s ! j"] by (simp add: nth_task_paths)
qed

lemma task_path_suffix: "path_suffix (task_path root n t) = ''.json''"
proof -
  have "path_name (task_path root n t) = (pad3 n @ ''-'' @ safe_filename (pt_id t)) @ ''.json''"
    by (simp add: task_path_def path_join_def is_absolute_def path_name_def)
  moreover have "pad3 n \<noteq> []" by (simp add: pad3_def)
  ultimately show ?thesis by (simp add: path_suffix_def Let_def)
qed

lemma written_text: "atomic_write_text p t d = (Inr (), d') \<Longrightarrow> td_files d' = (td_files d)(p := Content t)"
  by (auto simp: atomic_write_text_def Let_def split: list.splits write_fault.splits)

lemma task_files_written:
  "write_task_files xs d = (Inr (), d') \<Longrightarrow> distinct (map snd xs) \<Longrightarrow>
     (\<forall>(t, p) \<in> set xs. td_files d' p = Content (dumps_indented 0 (project_task_to_json t) @ [CHR 0x0A]))
     \<and> (\<forall>p. p \<notin> snd ` set xs \<longrightarrow> td_files d' p = td_files d p)"
proof (induction xs arbitrary: d rule: write_task_files.induct)
  case (2 t p rest)
  then obtain d1 where w: "atomic_write_text p (dumps_indented 0 (project_task_to_json t) @ [CHR 0x0A]) d = (Inr (), d1)"
    "write_task_files rest d1 = (Inr (), d')" by (auto simp: mseq_Inr_iff)
  then have "p \<notin> snd ` set rest" "td_files d1 = (td_files d)(p := Content (dumps_indented 0 (project_task_to_json t) @ [CHR 0x0A]))"
    using "2.prems" written_text by auto
  then show ?case using "2.IH" [OF w(2)] "2.prems"(2) by auto
qed simp

lemma json_wf_strs [simp]: "json_wf (j_strs xs)"
  by (simp add: j_strs_def list_all_iff)

lemma loads_written: "json_wf j \<Longrightarrow> loads (universal_newlines (dumps_indented 0 j @ [CHR 0x0A])) = Some j"
  using loads_renders [OF renders_indented [of j 0], of "[]" "[CHR 0x0A]"] no_returns [of "dumps_indented 0 j @ [CHR 0x0A]"]
    indented_no_return [of 0 j] by (simp add: json_ws_def)

lemma project_task_read_back:
  assumes "project_task_wf t" "project_task_to_json t = JObj d"
  shows "work_item_from_mapping d = Inr (to_work_item t)"
proof -
  note wf = assms(1) [unfolded project_task_wf_def]
  have d: "d = [(''id'', JStr (pt_id t)), (''title'', JStr (pt_title t)), (''objective'', JStr (pt_objective t)),
      (''acceptance_criteria'', j_strs (pt_acceptance_criteria t)),
      (''verification_commands'', j_strs (pt_verification_commands t)), (''allowed_paths'', j_strs (pt_allowed_paths t)),
      (''non_goals'', j_strs (pt_non_goals t)), (''depends_on'', j_strs (pt_depends_on t)), (''priority'', JInt (pt_priority t))]"
    using assms(2) by (simp add: project_task_to_json_def)
  have "task_string d ''id'' = Inr (pt_id t)" "task_string d ''title'' = Inr (pt_title t)"
    "task_string d ''objective'' = Inr (pt_objective t)"
    using wf by (simp_all add: d task_field_defs read_string_clean_id)
  moreover have "task_some_strings d ''acceptance_criteria'' = Inr (pt_acceptance_criteria t)"
    "task_some_strings d ''verification_commands'' = Inr (pt_verification_commands t)"
    using wf by (simp_all add: d task_field_defs read_some_strings_clean_id)
  moreover have "task_strings d ''allowed_paths'' = Inr (pt_allowed_paths t)" "task_strings d ''non_goals'' = Inr (pt_non_goals t)"
    "task_strings d ''depends_on'' = Inr (pt_depends_on t)" "task_strings d ''correction_instructions'' = Inr []"
    using wf by (simp_all add: d task_field_defs read_strings_clean_id) (simp add: read_strings_def)
  moreover have "task_integer d ''priority'' = Inr (pt_priority t)" "task_optional_string d ''correction_decision_id'' = Inr None"
    by (simp_all add: d task_field_defs read_integer_def task_optional_string_def)
  ultimately show ?thesis by (simp add: work_item_from_mapping_def to_work_item_def)
qed

lemma task_file_read_back:
  assumes "project_task_wf t" "td_files d p = Content (dumps_indented 0 (project_task_to_json t) @ [CHR 0x0A])" "path_suffix p = ''.json''"
  shows "load_work_item p d = Inr (to_work_item t)"
proof -
  obtain o' where o': "project_task_to_json t = JObj o'" by (simp add: project_task_to_json_def)
  have "json_wf (project_task_to_json t)" by (simp add: project_task_to_json_def)
  then have "loads (universal_newlines (dumps_indented 0 (project_task_to_json t) @ [CHR 0x0A])) = Some (project_task_to_json t)"
    by (rule loads_written)
  then show ?thesis
    using assms(2,3) project_task_read_back [OF assms(1) o']
    by (simp add: load_work_item_def read_authored_text_def load_json_task_def o' lower_def lower_char_def code_def del: dumps_indented.simps)
qed

lemma plan_written:
  assumes "write_plan resolve dash root s d = (Inr r, d')" "i < length (ps_tasks s)"
  shows "td_files d' (task_paths root s ! i) = Content (dumps_indented 0 (project_task_to_json (ps_tasks s ! i)) @ [CHR 0x0A])"
proof -
  obtain d1 where w: "write_task_files (zip (ps_tasks s) (task_paths root s)) d1 = (Inr (), d')"
    using assms(1) unfolding write_plan_def by (auto simp: mseq_Inr_iff mbind_Inr_iff)
  have "distinct (map snd (zip (ps_tasks s) (task_paths root s)))" by (simp add: distinct_task_paths)
  moreover have "(ps_tasks s ! i, task_paths root s ! i) \<in> set (zip (ps_tasks s) (task_paths root s))"
    using assms(2) by (auto simp: in_set_zip)
  ultimately show ?thesis using task_files_written [OF w] by blast
qed

section \<open>The plan in the queue\<close>

definition planned :: "project_spec \<Rightarrow> queue_task list \<Rightarrow> bool" where
  "planned s ts \<longleftrightarrow> map qt_work_item ts = map to_work_item (ps_tasks s)"

lemma planned_ids:
  assumes "planned s ts"
  shows "map task_id ts = map pt_id (ps_tasks s)"
proof -
  have "map wi_id (map qt_work_item ts) = map wi_id (map to_work_item (ps_tasks s))" using assms by (simp only: planned_def)
  then show ?thesis by (simp add: comp_def to_work_item_def)
qed

lemma planned_nth: "planned s ts \<Longrightarrow> length ts = length (ps_tasks s)
  \<and> (i < length ts \<longrightarrow> qt_work_item (ts ! i) = to_work_item (ps_tasks s ! i))"
  unfolding planned_def by (metis length_map nth_map)

lemma latest_of_distinct:
  assumes "distinct (map task_id ts)" "t \<in> set ts"
  shows "map_of (latest_tasks_by_id ts) (task_id t) = Some t"
proof -
  obtain u where u: "map_of (latest_tasks_by_id ts) (task_id t) = Some u"
    using map_of_latest_None_iff [of ts "task_id t"] assms(2) by fastforce
  then have "u \<in> set ts" "task_id u = task_id t" using map_of_latest_SomeD by blast+
  then show ?thesis using u assms unfolding distinct_map inj_on_def by blast
qed

text \<open>As long as tasks of a plan are queued and the others are done, one of them can start.\<close>

lemma plan_has_ready:
  assumes wf: "project_spec_wf s" and p: "planned s ts" and st: "\<forall>t \<in> set ts. qt_status t \<in> {Queued, Done}"
    and q: "t0 \<in> set ts" "qt_status t0 = Queued"
  shows "\<exists>t \<in> set ts. qt_status t = Queued \<and> deps_done ts t"
proof -
  let ?R = "needs (ps_tasks s)"
  have ids: "map task_id ts = map pt_id (ps_tasks s)" using p by (rule planned_ids)
  have d: "distinct (map task_id ts)" unfolding ids by (rule spec_parts(3) [OF wf])
  have "finite ?R"
  proof -
    have "?R = (\<Union>t \<in> set (ps_tasks s). (\<lambda>d. (pt_id t, d)) ` set (pt_depends_on t))" by (auto simp: needs_def)
    then show ?thesis by simp
  qed
  then have "wf (?R\<inverse>)" using wf by (intro finite_acyclic_wf_converse) (auto dest: spec_parts(4))
  moreover have "task_id t0 \<in> task_id ` {t \<in> set ts. qt_status t = Queued}" using q by blast
  ultimately obtain i where i: "i \<in> task_id ` {t \<in> set ts. qt_status t = Queued}"
    and min: "\<And>d. (d, i) \<in> ?R\<inverse> \<Longrightarrow> d \<notin> task_id ` {t \<in> set ts. qt_status t = Queued}" by (rule wfE_min) blast
  obtain t where t: "t \<in> set ts" "qt_status t = Queued" "task_id t = i" using i by blast
  obtain n where n: "n < length ts" "ts ! n = t" using t(1) by (meson in_set_conv_nth)
  define u where "u = ps_tasks s ! n"
  have u: "u \<in> set (ps_tasks s)" "qt_work_item t = to_work_item u"
    using planned_nth [OF p, of n] n by (auto simp: u_def)
  then have ui: "pt_id u = i" using t(3) by (simp add: to_work_item_def)
  have "\<exists>v. map_of (latest_tasks_by_id ts) x = Some v \<and> qt_status v = Done" if x: "x \<in> set (pt_depends_on u)" for x
  proof -
    have "(x, i) \<in> ?R\<inverse>" using x u(1) ui by (auto simp: needs_def)
    then have nq: "x \<notin> task_id ` {t \<in> set ts. qt_status t = Queued}" by (rule min)
    have "x \<in> pt_id ` set (ps_tasks s)" using spec_parts(5) [OF wf u(1)] x by blast
    then have "x \<in> task_id ` set ts" using arg_cong [OF ids, of set] by simp
    then obtain v where "v \<in> set ts" "task_id v = x" by blast
    then show ?thesis using latest_of_distinct [OF d] st nq by auto
  qed
  then have "deps_done ts t" using u(2) by (simp add: deps_done_def to_work_item_def)
  then show ?thesis using t by blast
qed

lemma fresh_graph_acyclic:
  assumes "distinct (map pt_id ts)" "acyclic (needs ts)"
  shows "acyclic (waits_for (enqueue_latest [] (map to_work_item ts)))"
proof (rule acyclic_subset [OF assms(2)], clarify)
  fix a b assume "(a, b) \<in> waits_for (enqueue_latest [] (map to_work_item ts))"
  then obtain q where q: "map_of (enqueue_latest [] (map to_work_item ts)) a = Some q" "b \<in> set (wi_depends_on (qt_work_item q))"
    by (auto simp: waits_for_def)
  then obtain w where "List.find (\<lambda>w. wi_id w = a) (rev (map to_work_item ts)) = Some w" "q = placeholder_task w"
    by (auto simp: enqueue_latest_def map_of_fold_update latest_tasks_by_id_def split: option.splits)
  then obtain t where "t \<in> set ts" "w = to_work_item t" "wi_id w = a" using find_SomeD by fastforce
  then show "(a, b) \<in> needs ts" using q(2) \<open>q = placeholder_task w\<close>
    by (auto simp: needs_def placeholder_task_def to_work_item_def)
qed

lemma enqueue_events_healthy: "healthy st \<Longrightarrow> \<exists>us st'. mmap enqueue_event ts st = (Inr us, st') \<and> only_events st st' \<and> healthy st'"
proof (induction ts arbitrary: st)
  case Nil
  then show ?case by (simp add: only_events_def)
next
  case (Cons t ts)
  let ?a = "(journal_args ''state_transition'' ''supervisor'' ''task.enqueued''
         (JObj [(''from'', JNull), (''to'', JStr ''queued''), (''source'', JStr (qt_source t)),
                (''priority'', JInt (prio t)), (''depends_on'', j_strs (wi_depends_on (qt_work_item t)))]))
       \<lparr>ja_recipient := Some ''worker'', ja_task_id := Some (task_id t)\<rparr>"
  obtain e st1 where "journal_record ?a st = (Inr e, st1)" "only_events st st1" "healthy st1"
    using journal_healthy [OF Cons.prems] by blast
  then have one: "enqueue_event t st = (Inr (), st1)" "only_events st st1" "healthy st1"
    by (simp_all add: enqueue_event_def mseq_run)
  obtain us st2 where "mmap enqueue_event ts st1 = (Inr us, st2)" "only_events st1 st2" "healthy st2"
    using Cons.IH [OF one(3)] by blast
  then show ?case using one by (auto simp: mbind_run only_events_def)
qed

lemma enqueue_plan:
  assumes wf: "project_spec_wf s" and empty: "list_tasks st = Inr []" and ok: "healthy st"
    and items: "map fst items = map to_work_item (ps_tasks s)"
  shows "\<exists>ts st'. enqueue_many items st = (Inr ts, st') \<and> list_tasks st' = Inr ts \<and> planned s ts
    \<and> (\<forall>t \<in> set ts. qt_status t = Queued \<and> qt_attempts t = 0)"
proof -
  have n: "items \<noteq> []" using items wf by (auto dest: spec_parts(1))
  have d: "distinct (map wi_id (map fst items))" using spec_parts(3) [OF wf] unfolding items by (simp add: comp_def)
  have inactive: "mapE (check_inactive []) ws = Inr (map (\<lambda>_. ()) ws)" for ws
    by (induction ws) (simp_all add: check_inactive_def)
  have graph: "validate_enqueue_graph [] (map fst items) = Inr ()"
    using spec_parts(5) [OF wf] fresh_graph_acyclic [OF spec_parts(3,4) [OF wf]] unfolding validate_enqueue_graph_iff items
    by (simp add: image_image)
  define now where "now = st_clock st (st_ticks st)"
  define ts where "ts = map (new_task now) items"
  define st1 where "st1 = st\<lparr>st_ticks := Suc (st_ticks st), st_queue := Content (JList (map task_to_json ts))\<rparr>"
  have h: "healthy st1" "st_budget st = None" "st_lock st = None" using ok by (auto simp: st1_def healthy_def)
  obtain us st2 where ev: "mmap enqueue_event ts st1 = (Inr us, st2)" "only_events st1 st2"
    using enqueue_events_healthy [OF h(1)] by blast
  have l1: "list_tasks st1 = Inr ts" by (simp add: st1_def)
  have "st_queue st2 = st_queue st1" using ev(2) by (simp add: only_events_def)
  then have l: "list_tasks st2 = Inr ts" using list_tasks_cong [of st2 st1] l1 by simp
  have w: "write_tasks ts (st\<lparr>st_ticks := Suc (st_ticks st)\<rparr>) = (Inr (), st1)"
    by (simp add: write_tasks_def durable_write_healthy h st1_def)
  have "enqueue_many items st = (Inr ts, st2)"
    using n d inactive graph w ev(1) h empty
    by (simp add: enqueue_many_def state_mutation_def map_exn_def hold_def mbind_def mseq_def utc_now_def Let_def
        now_def [symmetric] ts_def [symmetric] del: distinct_map)
  moreover have "planned s ts" using items by (simp add: planned_def ts_def comp_def new_task_def placeholder_task_def)
  moreover have "\<forall>t \<in> set ts. qt_status t = Queued \<and> qt_attempts t = 0" by (auto simp: ts_def new_task_def placeholder_task_def)
  ultimately show ?thesis using l by blast
qed

end
