(* ===== verification/Project_Props.thy ===== *)
theory Project_Props imports Project_Facts State_Props begin

text \<open>
  Properties of task files and project plans: what was accepted is well formed, a plan that was written
  can be read back task by task, it reaches the queue as a whole, and its dependencies never leave the
  queue without a task that can start.
\<close>

section \<open>Task files\<close>

text \<open>Every work item read from a JSON or Markdown task file is well formed: identifier, title, objective and every list
  entry are stripped and not empty, and it has acceptance criteria and verification commands.\<close>

theorem task_file_typed:
  assumes "load_work_item p d = Inr w"
  shows "work_item_wf w"
  using assms by (rule load_wf)

definition flag_task :: project_task where
  "flag_task = \<lparr>pt_id = ''task-1'', pt_title = ''Add a flag'', pt_objective = ''Parse it'', pt_acceptance_criteria = [''it parses''],
     pt_verification_commands = [''pytest''], pt_allowed_paths = [], pt_non_goals = [], pt_depends_on = [], pt_priority = 7\<rparr>"

definition flag_disk :: text_disk where
  "flag_disk = \<lparr>td_files = (\<lambda>p. if p = path_of ''t/a.json''
     then Content (dumps_indented 0 (project_task_to_json flag_task) @ [CHR 0x0A]) else Missing), td_faults = []\<rparr>"

theorem task_file_typed_witness:
  "\<exists>w. load_work_item (path_of ''t/a.json'') flag_disk = Inr w \<and> work_item_wf w \<and> wi_priority w = 7"
proof -
  have "project_task_wf flag_task" "path_suffix (path_of ''t/a.json'') = ''.json''" by code_simp+
  then have w: "load_work_item (path_of ''t/a.json'') flag_disk = Inr (to_work_item flag_task)"
    by (intro task_file_read_back) (simp_all add: flag_disk_def del: dumps_indented.simps)
  then show ?thesis using task_file_typed [OF w] by (simp add: to_work_item_def flag_task_def)
qed

section \<open>Specifications\<close>

text \<open>C28: An accepted project specification is well formed: its texts are stripped and not empty, it has tasks with different
  identifiers, every dependency is a task of the specification and named once, no dependencies form a cycle, and version 2.0
  has a valid choice of roles.\<close>

theorem accepted_spec_typed:
  assumes "project_spec_from_mapping d = Inr s"
  shows "project_spec_wf s"
  using assms by (rule accepted_spec_wf)

definition demo_task :: "string \<Rightarrow> string list \<Rightarrow> json" where
  "demo_task i deps = JObj [(''id'', JStr i), (''title'', JStr '' T ''), (''objective'', JStr ''o''),
     (''acceptance_criteria'', j_strs [''done'']), (''verification_commands'', j_strs ['' pytest '']),
     (''allowed_paths'', j_strs [''src'']), (''depends_on'', j_strs deps), (''priority'', JInt 3)]"

definition demo_spec :: jobj where
  "demo_spec = [(''spec_version'', JStr ''2.0''), (''id'', JStr ''p''), (''title'', JStr ''P''), (''goal'', JStr ''g''), (''customer'', JStr ''c''),
     (''business_requirements'', j_strs [''b'']), (''definition_of_done'', j_strs [''d'']),
     (''orchestration'', JObj [(''supervisor'', JObj [(''agent'', JStr '' s '')]), (''worker'', JObj [(''agent'', JStr ''w''), (''model'', JStr ''m'')])]),
     (''tasks'', JList [demo_task ''b/2'' [''a''], demo_task ''a'' []])]"

lemma demo_spec_accepted:
  obtains s where "project_spec_from_mapping demo_spec = Inr s" "map pt_id (ps_tasks s) = [''b/2'', ''a'']"
proof -
  have "(case project_spec_from_mapping demo_spec of Inr s \<Rightarrow> map pt_id (ps_tasks s) = [''b/2'', ''a''] | Inl _ \<Rightarrow> False) = True"
    by code_simp
  then show ?thesis using that by (auto split: sum.splits)
qed

theorem accepted_spec_typed_witness:
  "\<exists>s. project_spec_from_mapping demo_spec = Inr s \<and> project_spec_wf s \<and> map pt_id (ps_tasks s) = [''b/2'', ''a'']"
  using demo_spec_accepted accepted_spec_typed by metis

section \<open>Plans\<close>

lemma materialized:
  assumes "materialize_project_plan resolve dash root s True queued st = (Inr m, st')"
  shows "\<exists>profile d'. write_plan resolve dash root s (pl_disk st) = (Inr profile, d') \<and> pl_disk st' = d'
    \<and> pm_task_paths m = task_paths root s"
proof -
  obtain x d' where w: "write_plan resolve dash root s (pl_disk st) = (x, d')" by fastforce
  obtain y st1 where q: "enqueue_many (map (\<lambda>(t, p). (to_work_item t, path_str p)) (zip (ps_tasks s) (task_paths root s))) (pl_store st) = (y, st1)"
    by fastforce
  show ?thesis using assms w q
    by (cases x; cases y)
       (auto simp: materialize_project_plan_def Let_def mbind_def on_plan_disk_def on_plan_store_def split: if_splits)
qed

lemma plan_items: "length ps = length ts \<Longrightarrow> map fst (map (\<lambda>(t, p). (to_work_item t, path_str p)) (zip ts ps)) = map to_work_item ts"
  by (induction ps ts rule: list_induct2) simp_all

text \<open>C29: When a plan was materialized, every one of its task files is read back as exactly the work item of its task, whatever
  characters the texts contain and however the identifiers are turned into file names.\<close>

theorem plan_read_back:
  assumes "project_spec_from_mapping d = Inr s"
    and "materialize_project_plan resolve dash root s True queued st = (Inr m, st')"
  shows "list_all2 (\<lambda>p t. load_work_item p (pl_disk st') = Inr (to_work_item t)) (pm_task_paths m) (ps_tasks s)"
proof -
  obtain profile d' where plan: "write_plan resolve dash root s (pl_disk st) = (Inr profile, d')"
    and m: "pm_task_paths m = task_paths root s" "pl_disk st' = d'" using materialized [OF assms(2)] by blast
  have "load_work_item (task_paths root s ! i) (pl_disk st') = Inr (to_work_item (ps_tasks s ! i))" if i: "i < length (ps_tasks s)" for i
  proof (rule task_file_read_back)
    show "project_task_wf (ps_tasks s ! i)" using spec_parts(2) [OF accepted_spec_wf [OF assms(1)]] i by (simp add: list_all_length)
    show "td_files (pl_disk st') (task_paths root s ! i) = Content (dumps_indented 0 (project_task_to_json (ps_tasks s ! i)) @ [CHR 0x0A])"
      unfolding m(2) using plan i by (rule plan_written)
    show "path_suffix (task_paths root s ! i) = ''.json''" using i by (simp add: nth_task_paths task_path_suffix)
  qed
  then show ?thesis unfolding m(1) by (simp add: list_all2_conv_all_nth)
qed

definition demo_plan_state :: plan_state where
  "demo_plan_state = \<lparr>pl_disk = \<lparr>td_files = (\<lambda>_. Missing), td_faults = []\<rparr>, pl_store = sample_store\<lparr>st_queue := Missing\<rparr>\<rparr>"

lemma demo_tasks: "list_tasks (pl_store demo_plan_state) = Inr []" "healthy (pl_store demo_plan_state)"
  by (simp_all add: demo_plan_state_def list_tasks_def read_json_def read_guard_def healthy_def sample_store_def read_jsonl_def)

lemma plan_write_runs:
  assumes "td_faults d = []"
  shows "\<exists>r d'. write_plan resolve dash root s d = (Inr r, d') \<and> td_faults d' = []"
proof -
  have one: "\<exists>d'. atomic_write_text p t d = (Inr (), d') \<and> td_faults d' = []" if "td_faults d = []" for p t d
    using that by (simp add: atomic_write_text_def)
  have files: "\<exists>d'. write_task_files xs d = (Inr (), d') \<and> td_faults d' = []" if "td_faults d = []" for xs d
    using that
  proof (induction xs arbitrary: d rule: write_task_files.induct)
    case (2 t p rest)
    then show ?case using one [OF "2.prems"] by (metis mseq_run(1) write_task_files.simps(2))
  qed simp
  obtain d1 where d1: "atomic_write_text (brief_path root) (render_project_brief dash s) d = (Inr (), d1)" "td_faults d1 = []"
    using one [OF assms] by blast
  obtain d2 where d2: "atomic_write_text (roadmap_path root) (render_project_roadmap dash s) d1 = (Inr (), d2)" "td_faults d2 = []"
    using one [OF d1(2)] by blast
  let ?profile = "case ps_orchestration s of None \<Rightarrow> ret None | Some r \<Rightarrow> mbind (write_role_profile resolve root r) (\<lambda>p. ret (Some p))"
  have "\<exists>r d3. ?profile d2 = (Inr r, d3) \<and> td_faults d3 = []"
  proof (cases "ps_orchestration s")
    case (Some r)
    obtain d3 where "atomic_write_text (role_profile_path resolve root) (dumps_indented 0 (role_profile_payload r) @ [CHR 0x0A]) d2 = (Inr (), d3)"
      "td_faults d3 = []" using one [OF d2(2)] by blast
    then show ?thesis using Some by (simp add: write_role_profile_def mbind_def mseq_def del: dumps_indented.simps)
  qed (use d2 in simp)
  then obtain r d3 where d3: "?profile d2 = (Inr r, d3)" "td_faults d3 = []" by blast
  obtain d4 where "write_task_files (zip (ps_tasks s) (task_paths root s)) d3 = (Inr (), d4)" "td_faults d4 = []"
    using files [OF d3(2)] by blast
  then show ?thesis using d1(1) d2(1) d3(1) by (simp add: write_plan_def mseq_run mbind_run)
qed

lemma plan_selects:
  assumes "project_spec_wf s" "planned s ts" "\<forall>t \<in> set ts. qt_status t \<in> {Queued, Done}" "t0 \<in> set ts" "qt_status t0 = Queued"
  shows "\<exists>t. qs_selected (schedule ts) = Some t"
proof -
  have "distinct (map task_id ts)" using planned_ids [OF assms(2)] spec_parts(3) [OF assms(1)] by simp
  then have "queued_unique ts" by (simp add: queued_unique_def distinct_map_filter)
  then show ?thesis using plan_has_ready [OF assms] selected_None_iff by (cases "qs_selected (schedule ts)") blast+
qed

text \<open>C30: Materializing an accepted plan on a disk that works and an empty queue puts all its tasks into the queue, in the
  order of the specification, queued and with no attempt used, and the scheduler selects one of them.\<close>

theorem plan_reaches_queue:
  assumes spec: "project_spec_from_mapping d = Inr s"
    and disk: "td_faults (pl_disk st) = []" and queue: "list_tasks (pl_store st) = Inr []" "healthy (pl_store st)"
  shows "\<exists>m st' ts. materialize_project_plan resolve dash root s True True st = (Inr m, st')
    \<and> pm_enqueued_task_ids m = map pt_id (ps_tasks s) \<and> list_tasks (pl_store st') = Inr ts
    \<and> map qt_work_item ts = map to_work_item (ps_tasks s) \<and> (\<forall>t \<in> set ts. qt_status t = Queued \<and> qt_attempts t = 0)
    \<and> (\<exists>t. qs_selected (schedule ts) = Some t)"
proof -
  have wf: "project_spec_wf s" using spec by (rule accepted_spec_wf)
  obtain profile d' where w: "write_plan resolve dash root s (pl_disk st) = (Inr profile, d')" using plan_write_runs [OF disk] by blast
  let ?items = "map (\<lambda>(t, p). (to_work_item t, path_str p)) (zip (ps_tasks s) (task_paths root s))"
  have items: "map fst ?items = map to_work_item (ps_tasks s)" by (rule plan_items) simp
  obtain ts st' where q: "enqueue_many ?items (pl_store st) = (Inr ts, st')" "list_tasks st' = Inr ts" "planned s ts"
    "\<forall>t \<in> set ts. qt_status t = Queued \<and> qt_attempts t = 0" using enqueue_plan [OF wf queue items] by blast
  have "ts \<noteq> []" using spec_parts(1) [OF wf] q(3) by (auto simp: planned_def)
  then have "\<exists>t. qs_selected (schedule ts) = Some t"
    using plan_selects [OF wf q(3), of "hd ts"] q(4) by (metis insertI1 list.set_sel(1))
  then show ?thesis
    using w q planned_ids [OF q(3)]
    by (simp add: materialize_project_plan_def Let_def mbind_def on_plan_disk_def on_plan_store_def planned_def)
qed

theorem plan_reaches_queue_witness:
  "\<exists>s m st' ts. materialize_project_plan (\<lambda>p. p) ''-'' (path_of ''/repo'') s True True demo_plan_state = (Inr m, st')
     \<and> pm_enqueued_task_ids m = [''b/2'', ''a''] \<and> list_tasks (pl_store st') = Inr ts \<and> length ts = 2"
proof -
  obtain s where s: "project_spec_from_mapping demo_spec = Inr s" "map pt_id (ps_tasks s) = [''b/2'', ''a'']"
    by (rule demo_spec_accepted)
  have "td_faults (pl_disk demo_plan_state) = []" by (simp add: demo_plan_state_def)
  from plan_reaches_queue [OF s(1) this demo_tasks, of "\<lambda>p. p" "''-''" "path_of ''/repo''"]
  obtain m st' ts where r: "materialize_project_plan (\<lambda>p. p) ''-'' (path_of ''/repo'') s True True demo_plan_state = (Inr m, st')"
    "pm_enqueued_task_ids m = map pt_id (ps_tasks s)" "list_tasks (pl_store st') = Inr ts"
    "map qt_work_item ts = map to_work_item (ps_tasks s)" by blast
  moreover have "length ts = 2" using arg_cong [OF r(4), of length] arg_cong [OF s(2), of length] by simp
  ultimately show ?thesis using s(2) by metis
qed

theorem plan_read_back_witness:
  "\<exists>s m st'. materialize_project_plan (\<lambda>p. p) ''-'' (path_of ''/repo'') s True True demo_plan_state = (Inr m, st')
     \<and> list_all2 (\<lambda>p t. load_work_item p (pl_disk st') = Inr (to_work_item t)) (pm_task_paths m) (ps_tasks s) \<and> length (ps_tasks s) = 2"
proof -
  obtain s where s: "project_spec_from_mapping demo_spec = Inr s" "map pt_id (ps_tasks s) = [''b/2'', ''a'']"
    by (rule demo_spec_accepted)
  have faultless: "td_faults (pl_disk demo_plan_state) = []" by (simp add: demo_plan_state_def)
  obtain profile d' where "write_plan (\<lambda>p. p) ''-'' (path_of ''/repo'') s (pl_disk demo_plan_state) = (Inr profile, d')"
    using plan_write_runs [OF faultless] by blast
  moreover obtain ts st' where "enqueue_many (map (\<lambda>(t, p). (to_work_item t, path_str p)) (zip (ps_tasks s) (task_paths (path_of ''/repo'') s)))
      (pl_store demo_plan_state) = (Inr ts, st')"
  proof -
    have "map fst (map (\<lambda>(t, p). (to_work_item t, path_str p)) (zip (ps_tasks s) (task_paths (path_of ''/repo'') s))) = map to_work_item (ps_tasks s)"
      by (rule plan_items) simp
    then show ?thesis using that enqueue_plan [OF accepted_spec_wf [OF s(1)] demo_tasks] by blast
  qed
  ultimately obtain m st2 where run: "materialize_project_plan (\<lambda>p. p) ''-'' (path_of ''/repo'') s True True demo_plan_state = (Inr m, st2)"
    by (simp add: materialize_project_plan_def Let_def mbind_def on_plan_disk_def on_plan_store_def)
  moreover have "length (ps_tasks s) = 2" using arg_cong [OF s(2), of length] by simp
  ultimately show ?thesis using plan_read_back [OF s(1) run] by blast
qed

text \<open>C31: The dependencies of an accepted plan never block it: as long as some of its tasks are queued and the others are
  done, the scheduler selects a task.\<close>

theorem plan_never_stuck:
  assumes "project_spec_from_mapping d = Inr s" "map qt_work_item ts = map to_work_item (ps_tasks s)"
    and "\<forall>t \<in> set ts. qt_status t \<in> {Queued, Done}" "t0 \<in> set ts" "qt_status t0 = Queued"
  shows "\<exists>t. qs_selected (schedule ts) = Some t"
  using plan_selects [OF accepted_spec_wf [OF assms(1)] _ assms(3-5)] assms(2) by (simp add: planned_def)

theorem plan_never_stuck_witness:
  "\<exists>s t. project_spec_from_mapping demo_spec = Inr s
     \<and> qs_selected (schedule (map (\<lambda>x. placeholder_task (to_work_item x)) (ps_tasks s))) = Some t"
proof -
  obtain s where s: "project_spec_from_mapping demo_spec = Inr s" "map pt_id (ps_tasks s) = [''b/2'', ''a'']"
    by (rule demo_spec_accepted)
  let ?ts = "map (\<lambda>x. placeholder_task (to_work_item x)) (ps_tasks s)"
  have "map qt_work_item ?ts = map to_work_item (ps_tasks s)" by (simp add: placeholder_task_def)
  moreover have "\<forall>t \<in> set ?ts. qt_status t \<in> {Queued, Done}" by (simp add: placeholder_task_def)
  moreover have "hd ?ts \<in> set ?ts" "qt_status (hd ?ts) = Queued"
    using s(2) by (auto simp: hd_map placeholder_task_def)
  ultimately show ?thesis using plan_never_stuck [OF s(1)] s(1) by blast
qed

end
