(* ===== verification/Operator_Commands.thy ===== *)
theory Operator_Commands imports Ledger Scheduler_Facts begin

text \<open>
  The commands an operator sends as text (\<open>src/llm_harness/operator_decisions.py\<close>) and the status report
  of the supervisor (\<open>supervisor_protocol.py\<close>), on the store and the operation ledger of the repository.

  The clock is an argument: what \<open>datetime.fromisoformat\<close> reads (microseconds) and the time of the call.
  The Cyrillic phrase that stands for \<open>delegate\<close> lies outside of Latin-1; the word itself is a command.
\<close>

section \<open>Commands\<close>

record utc_clock =
  uc_parse :: "string \<Rightarrow> int option"
  uc_now :: int

record operator_decision =
  od_command :: string
  od_ok :: bool
  od_message :: string
  od_task_id :: "string option"
  od_continue :: bool

definition supported_commands_help :: string where
  "supported_commands_help = ''Supported commands: /status, /queue, /stale, /retry <task-id>, /recover <task-id> [reason], /continue, /stop.''"

definition answer :: "string \<Rightarrow> bool \<Rightarrow> string \<Rightarrow> operator_decision" where
  "answer command ok message = \<lparr>od_command = command, od_ok = ok, od_message = message, od_task_id = None, od_continue = False\<rparr>"

definition command_aliases :: "(string \<times> string) list" where
  "command_aliases = [(''q'', ''queue''), (''recover-running'', ''recover''), (''resume'', ''continue'')]"

definition parse_command :: "string \<Rightarrow> string \<times> string list" where
  "parse_command text = (case split_ws (strip text) of
     [] \<Rightarrow> (''unknown'', [])
   | word # arguments \<Rightarrow>
       let command = casefold (if startswith word ''/'' then drop 1 word else word)
       in ((case map_of command_aliases command of Some c \<Rightarrow> c | None \<Rightarrow> command), arguments))"

definition first_arg :: "string list \<Rightarrow> string option" where
  "first_arg arguments = (case arguments of [] \<Rightarrow> None | x # _ \<Rightarrow> Some x)"

definition require_task_id :: "string \<Rightarrow> string list \<Rightarrow> string res" where
  "require_task_id command arguments = (case first_arg arguments of
     Some x \<Rightarrow> if x = [] then Inl (StateStoreError (command @ '' requires a task id.'')) else Inr x
   | None \<Rightarrow> Inl (StateStoreError (command @ '' requires a task id.'')))"

definition py_bool :: "bool \<Rightarrow> string" where
  "py_bool b = (if b then ''True'' else ''False'')"

definition task_line :: "queue_task \<Rightarrow> task_readiness option \<Rightarrow> string" where
  "task_line t readiness =
     ''- '' @ task_id t @ '': status='' @ status_str (qt_status t) @ '', attempts='' @ str_int (qt_attempts t)
     @ '', priority='' @ str_int (prio t)
     @ (case readiness of None \<Rightarrow> [] | Some r \<Rightarrow> '', ready='' @ py_bool (tr_ready r) @ '', blockers=''
          @ join '','' (map (\<lambda>b. blk_task_id b @ ''='' @ blk_status b) (tr_blockers r)))
     @ '', commit='' @ or_text (qt_last_commit t) [] @ '', error='' @ or_text (qt_last_error t) []"

definition store_stale :: "utc_clock \<Rightarrow> int \<Rightarrow> store \<Rightarrow> queue_task list res" where
  "store_stale clk max_age s =
     (if max_age \<le> 0 then Inr [] else rbind (list_tasks s) (stale_running_tasks (uc_parse clk) (uc_now clk) max_age))"

definition count_status :: "task_status \<Rightarrow> queue_task list \<Rightarrow> nat" where
  "count_status st tasks = length (filter (\<lambda>t. qt_status t = st) tasks)"

definition operator_status :: "utc_clock \<Rightarrow> int \<Rightarrow> store \<Rightarrow> operator_decision res" where
  "operator_status clk max_age s =
     rbind (list_tasks s) (\<lambda>tasks.
     rbind (store_schedule s) (\<lambda>q.
     rbind (store_stale clk max_age s) (\<lambda>stale.
     Inr (answer ''status'' True (''Queue status: queued='' @ str_nat (count_status Queued tasks)
       @ '' running='' @ str_nat (count_status Running tasks) @ '' ready='' @ str_nat (length (qs_ready q))
       @ '' waiting='' @ str_nat (length (qs_waiting q)) @ '' done='' @ str_nat (count_status Done tasks)
       @ '' failed='' @ str_nat (count_status Failed tasks) @ '' rolled_back='' @ str_nat (count_status Rolled_Back tasks)
       @ '' stale='' @ str_nat (length stale) @ ''.'')))))"

definition readiness_by_id :: "queue_schedule \<Rightarrow> (string \<times> task_readiness) list" where
  "readiness_by_id q = fold (\<lambda>r m. AList.update (task_id (tr_task r)) r m) (qs_ready q @ qs_waiting q) []"

definition operator_queue :: "store \<Rightarrow> operator_decision res" where
  "operator_queue s =
     rbind (list_tasks s) (\<lambda>tasks.
     rbind (store_schedule s) (\<lambda>q.
     Inr (answer ''queue'' True (if tasks = [] then ''Queue is empty.''
       else ''Queue:'' @ [CHR 0x0A] @ join [CHR 0x0A] (map (\<lambda>t. task_line t (map_of (readiness_by_id q) (task_id t))) tasks)))))"

definition operator_stale :: "utc_clock \<Rightarrow> int \<Rightarrow> store \<Rightarrow> operator_decision res" where
  "operator_stale clk max_age s =
     rbind (store_stale clk max_age s) (\<lambda>tasks.
     Inr (answer ''stale'' True (if tasks = [] then ''No stale running tasks.''
       else ''Stale running tasks:'' @ [CHR 0x0A] @ join [CHR 0x0A] (map (\<lambda>t. task_line t None) tasks))))"

text \<open>Whether a record of an operation that blocks the repository belongs to the task.\<close>

definition has_unresolved :: "reconciliation_item list \<Rightarrow> jobj list \<Rightarrow> string \<Rightarrow> bool" where
  "has_unresolved items records wid \<longleftrightarrow>
     list_ex (\<lambda>d. jget d ''operation_id'' \<in> (\<lambda>i. JStr (ri_operation_id i)) ` set (blocking items) \<and> jget d ''task_id'' = JStr wid) records"

definition execute_command ::
  "('r, 'x) host_scheme \<Rightarrow> path \<Rightarrow> utc_clock \<Rightarrow> string \<Rightarrow> string list \<Rightarrow> int \<Rightarrow> path option \<Rightarrow> ('r, operator_decision) world_op" where
  "execute_command h root clk command arguments max_age repository =
     (if command = ''status'' then
        mbind (on_store root (gets (operator_status clk max_age))) (\<lambda>result.
        case repository of
          None \<Rightarrow> ret result
        | Some repo \<Rightarrow>
            mbind (reconcile h repo False) (\<lambda>items.
            ret (answer (od_command result) (od_ok result \<and> blocking items = [])
              (od_message result @ '' Reconciliation pending='' @ str_nat (length (blocking items)) @ ''.''))))
      else if command = ''queue'' then on_store root (gets operator_queue)
      else if command = ''stale'' then on_store root (gets (operator_stale clk max_age))
      else if command = ''retry'' then
        mbind (lift_res (require_task_id command arguments)) (\<lambda>wid.
        mbind (on_store root (requeue_failed wid)) (\<lambda>task.
        ret ((answer command True (''Task '' @ task_id task @ '' requeued from failed status.''))\<lparr>od_task_id := Some (task_id task)\<rparr>)))
      else if command = ''recover'' then
        mbind (lift_res (require_task_id command arguments)) (\<lambda>wid.
        mseq (case repository of
            None \<Rightarrow> ret ()
          | Some repo \<Rightarrow>
              mbind (reconcile h repo False) (\<lambda>items.
              mbind (gets (ledger_records h repo)) (\<lambda>records.
              require (\<not> has_unresolved items records wid)
                (StateStoreError (''Task '' @ wid @ '' has unresolved canonical operation evidence; reconcile it first.'')))))
        (mbind (on_store root (recover_running wid (let reason = strip (join '' '' (tl arguments))
              in if reason = [] then ''Recovered by operator command.'' else reason))) (\<lambda>task.
         ret ((answer command True (''Task '' @ task_id task @ '' recovered to queued status.''))\<lparr>od_task_id := Some (task_id task)\<rparr>))))
      else if command = ''continue'' then
        ret ((answer command True ''Continue requested. Run queue-run-loop to resume queued work.'')\<lparr>od_continue := True\<rparr>)
      else if command = ''stop'' then
        ret (answer command True ''Stop acknowledged. Nothing was changed; the task stays exactly as it is.'')
      else if command = ''delegate'' then
        ret (answer command False (''HoH does not decide on your behalf: an escalation is exactly the case where the evidence is not conclusive. ''
          @ ''Choose one explicitly. '' @ supported_commands_help))
      else ret (answer command False (''Unrecognised operator command. The text was recorded in the operator event log as a note, ''
          @ ''and no queue state was changed. '' @ supported_commands_help)))"

text \<open>\<open>HohStateStore.transaction\<close>: the lease of the store is held for the whole of \<open>m\<close>.\<close>

definition store_transaction :: "path \<Rightarrow> ('r, 'a) world_op \<Rightarrow> ('r, 'a) world_op" where
  "store_transaction root m = map_exn to_store_error
     (mbind (gets (\<lambda>w. case st_lock (w_stores w root) of None \<Rightarrow> Inr () | Some t \<Rightarrow> Inl (LockContendedError t))) (\<lambda>_. m))"

definition decided :: "string \<Rightarrow> string list \<Rightarrow> exn + operator_decision \<Rightarrow> operator_decision" where
  "decided command arguments r = (case r of
     Inl e \<Rightarrow> (answer command False (exn_message e))\<lparr>od_task_id := first_arg arguments\<rparr>
   | Inr d \<Rightarrow> d)"

definition handle_operator_command ::
  "('r, 'x) host_scheme \<Rightarrow> path \<Rightarrow> utc_clock \<Rightarrow> string \<Rightarrow> int \<Rightarrow> path option \<Rightarrow> ('r, operator_decision) world_op" where
  "handle_operator_command h root clk text max_age repository = store_transaction root
     (case parse_command text of (command, arguments) \<Rightarrow>
        mbind (attempt is_store_error (execute_command h root clk command arguments max_age repository)) (\<lambda>r.
        let d = decided command arguments r in
        mseq (on_store root (record_operator_event (od_command d) (od_ok d) (od_message d) text (od_task_id d))) (ret d)))"

section \<open>The status report\<close>

record supervisor_status =
  ss_repository :: path
  ss_state_root :: path
  ss_queued :: nat
  ss_ready :: nat
  ss_waiting :: nat
  ss_running :: nat
  ss_done :: nat
  ss_failed :: nat
  ss_rolled_back :: nat
  ss_review_pending :: nat
  ss_rework_required :: nat
  ss_escalated :: nat
  ss_stale :: nat
  ss_stale_task_ids :: "string list"
  ss_latest_run :: "run_record option"
  ss_latest_audit :: "audit_record option"
  ss_latest_operator_event :: "operator_event option"
  ss_review_bundles :: nat
  ss_pending_reviews :: nat
  ss_approved_reviews :: nat
  ss_rejected_reviews :: nat
  ss_latest_review :: "review_decision_record option"
  ss_rollback_records :: nat
  ss_latest_rollback :: "rollback_record option"
  ss_reconciliation_pending :: nat
  ss_reconciliation_items :: "reconciliation_item list"

definition status_report_ok :: "supervisor_status \<Rightarrow> bool" where
  "status_report_ok r \<longleftrightarrow> ss_failed r = 0 \<and> ss_rolled_back r = 0 \<and> ss_stale r = 0 \<and> ss_review_pending r = 0
     \<and> ss_rework_required r = 0 \<and> ss_escalated r = 0 \<and> ss_pending_reviews r = 0 \<and> ss_rejected_reviews r = 0
     \<and> ss_reconciliation_pending r = 0"

definition last_of :: "'a list \<Rightarrow> 'a option" where
  "last_of xs = (if xs = [] then None else Some (last xs))"

definition latest_tasks :: "queue_task list \<Rightarrow> queue_task list" where
  "latest_tasks tasks = map snd (latest_tasks_by_id tasks)"

text \<open>The decision about the latest bundle of every task, in the order in which the tasks first had one.\<close>

definition current_decisions :: "review_bundle_record list \<Rightarrow> review_decision_record list \<Rightarrow> review_decision_record option list" where
  "current_decisions bundles decisions =
     (let latest = fold (\<lambda>b m. AList.update (bb_work_item_id b) b m) bundles [];
          by_bundle = fold (\<lambda>d m. AList.update (rd_bundle_id d) d m) decisions []
      in map (\<lambda>(_, b). map_of by_bundle (bb_bundle_id b)) latest)"

definition decided_as :: "string \<Rightarrow> review_decision_record option \<Rightarrow> bool" where
  "decided_as v d = (case d of None \<Rightarrow> False | Some x \<Rightarrow> rd_decision x = v)"

text \<open>What is read of the store, in one record; the reads come in the order of the code.\<close>

definition store_report :: "utc_clock \<Rightarrow> int \<Rightarrow> path \<Rightarrow> path \<Rightarrow> store \<Rightarrow> supervisor_status res" where
  "store_report clk max_age repo root s =
     rbind (list_tasks s) (\<lambda>tasks.
     rbind (store_schedule s) (\<lambda>q.
     rbind (store_stale clk max_age s) (\<lambda>stale.
     rbind (history s) (\<lambda>runs.
     rbind (audit_reports s) (\<lambda>audits.
     rbind (operator_events s) (\<lambda>events.
     rbind (review_bundles s) (\<lambda>bundles.
     rbind (review_decisions s) (\<lambda>decisions.
     rbind (rollback_records s) (\<lambda>rollbacks.
     let latest = latest_tasks tasks; current = current_decisions bundles decisions in
     Inr \<lparr>ss_repository = repo, ss_state_root = root, ss_queued = count_status Queued latest, ss_ready = length (qs_ready q),
       ss_waiting = length (qs_waiting q), ss_running = count_status Running latest, ss_done = count_status Done latest,
       ss_failed = count_status Failed latest, ss_rolled_back = count_status Rolled_Back latest,
       ss_review_pending = count_status Review_Pending latest, ss_rework_required = count_status Rework_Required latest,
       ss_escalated = count_status Escalated latest, ss_stale = length stale, ss_stale_task_ids = map task_id stale,
       ss_latest_run = last_of runs, ss_latest_audit = last_of audits, ss_latest_operator_event = last_of events,
       ss_review_bundles = length bundles, ss_pending_reviews = length (filter (\<lambda>d. d = None) current),
       ss_approved_reviews = length (filter (decided_as ''approve'') current),
       ss_rejected_reviews = length (filter (decided_as ''reject'') current), ss_latest_review = last_of decisions,
       ss_rollback_records = length rollbacks, ss_latest_rollback = last_of rollbacks, ss_reconciliation_pending = 0,
       ss_reconciliation_items = []\<rparr>)))))))))"

definition build_supervisor_status ::
  "('r, 'x) host_scheme \<Rightarrow> path \<Rightarrow> path \<Rightarrow> utc_clock \<Rightarrow> int \<Rightarrow> ('r, supervisor_status) world_op" where
  "build_supervisor_status h repo root clk max_age =
     mbind (on_store root (gets (store_report clk max_age repo root))) (\<lambda>r.
     mbind (reconcile h repo False) (\<lambda>items.
     ret (r\<lparr>ss_reconciliation_pending := length (blocking items), ss_reconciliation_items := items\<rparr>)))"

end
