(* ===== verification/Telegram.thy ===== *)
theory Telegram imports Operator_Commands Json_Read begin

text \<open>
  The Telegram side of the operator (\<open>src/llm_harness/telegram.py\<close>, \<open>telegram_polling.py\<close>): requests to the
  bot interface and what their answers mean, messages cut into pieces, the messages found in an update,
  the notifiers, and one poll that executes the commands of the allowed user.

  The service is a parameter: a function of the requests sent before, of the method and of the payload.
\<close>

section \<open>The service\<close>

datatype http_answer = Http_Response int string | Http_Failure int | Url_Failure string | Os_Failure string

type_synonym bot_service = "(string \<times> jobj) list \<Rightarrow> string \<Rightarrow> jobj \<Rightarrow> http_answer"

record 'r chat_world =
  cw_world :: "'r world"
  cw_requests :: "(string \<times> jobj) list"

type_synonym ('r, 'a) chat_op = "('r chat_world, 'a) op"

definition in_world :: "('r, 'a) world_op \<Rightarrow> ('r, 'a) chat_op" where
  "in_world m = (\<lambda>s. let (x, w) = m (cw_world s) in (x, s\<lparr>cw_world := w\<rparr>))"

definition bot_reply :: "string \<Rightarrow> http_answer \<Rightarrow> jobj res" where
  "bot_reply method reply = (case reply of
     Http_Failure n \<Rightarrow> Inl (TelegramError (''Telegram '' @ method @ '' failed with HTTP '' @ str_int n @ ''.''))
   | Url_Failure reason \<Rightarrow> Inl (TelegramError (''Telegram '' @ method @ '' network error: '' @ reason))
   | Os_Failure m \<Rightarrow> Inl (OSError m)
   | Http_Response status body \<Rightarrow>
       if status < 200 \<or> 300 \<le> status then Inl (TelegramError (''Telegram '' @ method @ '' failed with HTTP '' @ str_int status @ ''.''))
       else rbind (if body = [] then Inr (JObj [])
           else case loads body of None \<Rightarrow> Inl (ValueError ''Invalid JSON'') | Some j \<Rightarrow> Inr j) (\<lambda>decoded.
         case decoded of
           JObj d \<Rightarrow> if jget d ''ok'' = JBool True then Inr d
             else Inl (TelegramError (''Telegram '' @ method @ '' failed: '' @ py_str (jget_or d ''description'' (JStr ''unknown Telegram API error''))))
         | _ \<Rightarrow> Inl AttributeError))"

definition post_json :: "bot_service \<Rightarrow> string \<Rightarrow> jobj \<Rightarrow> ('r, jobj) chat_op" where
  "post_json svc method payload = (\<lambda>s. (bot_reply method (svc (cw_requests s) method payload),
     s\<lparr>cw_requests := cw_requests s @ [(method, payload)]\<rparr>))"

section \<open>Messages\<close>

definition max_text_length :: nat where
  "max_text_length = 4096"

function split_pieces :: "string \<Rightarrow> string list" where
  "split_pieces s = (if s = [] then [] else take max_text_length s # split_pieces (drop max_text_length s))"
  by pat_completeness auto
termination
  by (relation "measure length") (auto simp: max_text_length_def)

declare split_pieces.simps [simp del]

definition split_telegram_text :: "string \<Rightarrow> string list" where
  "split_telegram_text text = (if text = [] then ['' ''] else split_pieces text)"

definition send_message :: "bot_service \<Rightarrow> string \<Rightarrow> string \<Rightarrow> ('r, unit) chat_op" where
  "send_message svc chat text =
     mseq (mmap (\<lambda>piece. post_json svc ''sendMessage'' [(''chat_id'', JStr chat), (''text'', JStr piece)]) (split_telegram_text text)) (ret ())"

definition get_updates :: "bot_service \<Rightarrow> int option \<Rightarrow> int \<Rightarrow> int \<Rightarrow> ('r, jobj list) chat_op" where
  "get_updates svc offset limit poll_timeout =
     mbind (post_json svc ''getUpdates'' ([(''limit'', JInt limit), (''timeout'', JInt poll_timeout), (''allowed_updates'', j_strs [''message''])]
       @ (case offset of None \<Rightarrow> [] | Some n \<Rightarrow> [(''offset'', JInt n)]))) (\<lambda>d.
     case jget d ''result'' of
       JList js \<Rightarrow> ret (concat (map (\<lambda>j. case j of JObj o' \<Rightarrow> [o'] | _ \<Rightarrow> []) js))
     | _ \<Rightarrow> raise (TelegramError ''Telegram getUpdates returned a non-list result.''))"

record incoming_message =
  im_update_id :: int
  im_user_id :: string
  im_chat_id :: string
  im_text :: string

text \<open>\<open>isinstance(x, int)\<close>: a Boolean is an integer.\<close>

fun int_value :: "json \<Rightarrow> int option" where
  "int_value (JInt i) = Some i"
| "int_value (JBool b) = Some (if b then 1 else 0)"
| "int_value _ = None"

definition text_message_from_update :: "jobj \<Rightarrow> incoming_message option" where
  "text_message_from_update u = (case (int_value (jget u ''update_id''), jget u ''message'') of
     (Some n, JObj m) \<Rightarrow> (case (jget m ''text'', jget m ''from'', jget m ''chat'') of
         (JStr text, JObj user, JObj chat) \<Rightarrow>
           if jget user ''id'' = JNull \<or> jget chat ''id'' = JNull then None
           else Some \<lparr>im_update_id = n, im_user_id = py_str (jget user ''id''), im_chat_id = py_str (jget chat ''id''), im_text = text\<rparr>
       | _ \<Rightarrow> None)
   | _ \<Rightarrow> None)"

section \<open>Notifiers\<close>

record telegram_config =
  tc_enabled :: bool
  tc_bot_token_env :: "string option"
  tc_chat_id_env :: "string option"
  tc_user_id_env :: "string option"

datatype notifier = Stub_Notifier | Bot_Notifier string string

definition make_bot :: "string \<Rightarrow> string \<Rightarrow> notifier res" where
  "make_bot token chat =
     (if token = [] then Inl (ValueError ''Telegram bot token is required.'')
      else if chat = [] then Inl (ValueError ''Telegram chat id is required.'')
      else Inr (Bot_Notifier token chat))"

definition build_notifier :: "telegram_config \<Rightarrow> (string \<Rightarrow> string option) \<Rightarrow> notifier res" where
  "build_notifier c env =
     (if \<not> tc_enabled c then Inr Stub_Notifier
      else case or_option (tc_bot_token_env c) None of
        None \<Rightarrow> Inl (ValueError ''telegram.bot_token_env is required when Telegram is enabled.'')
      | Some token_env \<Rightarrow> (case or_option (tc_chat_id_env c) None of
          None \<Rightarrow> Inl (ValueError ''telegram.chat_id_env is required when Telegram is enabled.'')
        | Some chat_env \<Rightarrow> (case or_option (env token_env) None of
            None \<Rightarrow> Inl (ValueError (''Environment variable '' @ token_env @ '' is required for Telegram bot token.''))
          | Some token \<Rightarrow> (case or_option (env chat_env) None of
              None \<Rightarrow> Inl (ValueError (''Environment variable '' @ chat_env @ '' is required for Telegram chat id.''))
            | Some chat \<Rightarrow> make_bot token chat))))"

section \<open>Polling\<close>

record poll_result =
  po_processed :: nat
  po_ignored :: nat
  po_next_offset :: "int option"
  po_responses :: "string list"

definition format_response :: "operator_decision \<Rightarrow> string" where
  "format_response d = join [CHR 0x0A]
     ([''HoH operator command: '' @ (if od_ok d then ''OK'' else ''ERROR''), ''Command: '' @ od_command d]
      @ (case or_option (od_task_id d) None of None \<Rightarrow> [] | Some t \<Rightarrow> [''Task: '' @ t])
      @ [od_message d])"

definition max_id :: "int option \<Rightarrow> jobj \<Rightarrow> int option" where
  "max_id best u = (case int_value (jget u ''update_id'') of
     None \<Rightarrow> best | Some n \<Rightarrow> Some (case best of None \<Rightarrow> n | Some b \<Rightarrow> max b n))"

record poll_setup =
  pu_root :: path
  pu_clock :: utc_clock
  pu_user :: string
  pu_chat :: string
  pu_max_age :: int
  pu_repository :: "path option"
  pu_bot_chat :: string

definition authorised :: "poll_setup \<Rightarrow> jobj \<Rightarrow> string option" where
  "authorised c u = (case text_message_from_update u of
     None \<Rightarrow> None
   | Some m \<Rightarrow> if im_user_id m \<noteq> pu_user c \<or> im_chat_id m \<noteq> pu_chat c then None else Some (im_text m))"

text \<open>The loop over the updates; it returns the responses of the commands.\<close>

fun poll_loop :: "('r, 'x) host_scheme \<Rightarrow> bot_service \<Rightarrow> poll_setup \<Rightarrow> jobj list \<Rightarrow> ('r, string list) chat_op" where
  "poll_loop h svc c [] = ret []"
| "poll_loop h svc c (u # us) = (case authorised c u of
     None \<Rightarrow> poll_loop h svc c us
   | Some text \<Rightarrow>
       mbind (in_world (handle_operator_command h (pu_root c) (pu_clock c) text (pu_max_age c) (pu_repository c))) (\<lambda>d.
       mseq (send_message svc (pu_bot_chat c) (format_response d))
      (mbind (poll_loop h svc c us) (\<lambda>rest. ret (format_response d # rest)))))"

definition poll_locked :: "('r, 'x) host_scheme \<Rightarrow> bot_service \<Rightarrow> poll_setup \<Rightarrow> int \<Rightarrow> int \<Rightarrow> ('r, poll_result) chat_op" where
  "poll_locked h svc c limit poll_timeout =
     mbind (in_world (on_store (pu_root c) (gets telegram_update_offset))) (\<lambda>offset.
     mbind (get_updates svc offset limit poll_timeout) (\<lambda>updates.
     mbind (poll_loop h svc c updates) (\<lambda>responses.
     let next_offset = (case foldl max_id None updates of Some n \<Rightarrow> Some (n + 1) | None \<Rightarrow> offset) in
     mseq (case next_offset of None \<Rightarrow> ret () | Some n \<Rightarrow> in_world (on_store (pu_root c) (set_telegram_update_offset n)))
     (ret \<lparr>po_processed = length responses, po_ignored = length updates - length responses, po_next_offset = next_offset,
        po_responses = responses\<rparr>))))"

text \<open>The lease \<open>telegram-poll\<close> of the state directory is either free for the whole call or held by somebody else.\<close>

definition poll_operator_commands ::
  "('r, 'x) host_scheme \<Rightarrow> bot_service \<Rightarrow> poll_setup \<Rightarrow> int \<Rightarrow> int \<Rightarrow> string option \<Rightarrow> ('r, poll_result) chat_op" where
  "poll_operator_commands h svc c limit poll_timeout poll_lease = (case poll_lease of
     Some t \<Rightarrow> raise (LockContendedError t) | None \<Rightarrow> poll_locked h svc c limit poll_timeout)"

end
