(* ===== verification/Operator_Facts.thy ===== *)
theory Operator_Facts imports Telegram Ledger_Steps State_Crash begin

text \<open>
  What the commands of an operator leave alone: reports change nothing durable in any store, retrying and
  recovering change the queue and the journal of the one store, and every command that returns leaves one
  event behind.
\<close>

section \<open>What stays in a store\<close>

definition kept_store :: "store \<Rightarrow> store \<Rightarrow> bool" where
  "kept_store s t \<longleftrightarrow> st_queue t = st_queue s \<and> st_logs t = st_logs s \<and> st_offset t = st_offset s \<and> st_reports t = st_reports s
     \<and> st_root t = st_root s \<and> st_lock t = st_lock s"

definition queue_and_events :: "store \<Rightarrow> store \<Rightarrow> bool" where
  "queue_and_events s t \<longleftrightarrow> (\<forall>l. l \<noteq> Events \<longrightarrow> st_logs t l = st_logs s l) \<and> st_offset t = st_offset s
     \<and> st_reports t = st_reports s \<and> st_root t = st_root s \<and> st_lock t = st_lock s"

interpretation queue_and_events: effect queue_and_events
  by unfold_locales (auto simp: queue_and_events_def)

lemma kept_queue: "kept_store s t \<Longrightarrow> queue_and_events s t"
  by (simp add: kept_store_def queue_and_events_def)

lemma write_queue_and_events:
  "within queue_and_events (durable_write p (\<lambda>s. s\<lparr>st_queue := q\<rparr>))"
  "within queue_and_events (durable_write p (\<lambda>s. s\<lparr>st_logs := (st_logs s)(Events := c)\<rparr>))"
  "within queue_and_events utc_now" "within queue_and_events uuid4"
  by (auto simp: within_def queue_and_events_def durable_write_def utc_now_def uuid4_def split: option.splits nat.splits)

lemma retry_recover_scope:
  "within queue_and_events (requeue_failed wid)" "within queue_and_events (recover_running wid reason)"
  unfolding requeue_failed_def recover_running_def state_mutation_def hold_def update_task_def write_tasks_def
    transition_event_def journal_record_def atomic_append_jsonl_def
  by (intro queue_and_events.within_intros write_queue_and_events)+

section \<open>Lifting\<close>

definition all_kept :: "'r world \<Rightarrow> 'r world \<Rightarrow> bool" where
  "all_kept w w' \<longleftrightarrow> (\<forall>q. kept_store (w_stores w q) (w_stores w' q))"

definition scoped :: "path \<Rightarrow> 'r world \<Rightarrow> 'r world \<Rightarrow> bool" where
  "scoped root w w' \<longleftrightarrow> queue_and_events (w_stores w root) (w_stores w' root)
     \<and> (\<forall>q. q \<noteq> root \<longrightarrow> kept_store (w_stores w q) (w_stores w' q))"

interpretation all_kept: effect all_kept
  by unfold_locales (auto simp: all_kept_def kept_store_def)

interpretation scoped: effect "scoped root" for root
  by unfold_locales (auto simp: scoped_def kept_store_def queue_and_events_def)

lemma all_kept_scoped: "within all_kept m \<Longrightarrow> within (scoped root) m"
  by (auto simp: within_def all_kept_def scoped_def kept_queue)

lemma reads_kept: "within all_kept (on_store root (gets f))" "within all_kept (in_repo m)"
  by (auto simp: within_def all_kept_def kept_store_def on_store_def in_repo_def split: prod.splits)

lemma ledger_write_kept: "within all_kept (world_write p (\<lambda>w. w\<lparr>w_ledger := f w\<rparr>))"
  by (auto simp: within_def all_kept_def kept_store_def world_write_def split: option.splits nat.splits)

lemma on_store_scoped:
  assumes m: "within queue_and_events m"
  shows "within (scoped root) (on_store root m)"
proof -
  show ?thesis unfolding within_def
  proof
    fix w :: "'r world"
    obtain x s where run: "m ((w_stores w root)\<lparr>st_budget := w_budget w\<rparr>) = (x, s)" by fastforce
    have "queue_and_events ((w_stores w root)\<lparr>st_budget := w_budget w\<rparr>) s" using m run by (rule withinD)
    then show "scoped root w (snd (on_store root m w))"
      using run by (simp add: on_store_def scoped_def queue_and_events_def kept_store_def)
  qed
qed

section \<open>Reconciling without completing\<close>

lemma write_record_kept: "within all_kept (write_record h repo d)"
  unfolding write_record_def Let_def by (rule all_kept.within_seq [OF ledger_write_kept all_kept.within_ret])

lemma within_sum:
  "(\<And>e. within R (f e)) \<Longrightarrow> (\<And>x. within R (g x)) \<Longrightarrow> within R (case v of Inl e \<Rightarrow> f e | Inr x \<Rightarrow> g x)"
  by (cases v) simp_all

lemma classify_parts_kept:
  "within all_kept (state_complete h repo d)" "within all_kept (gather_commit h repo c)"
  "within all_kept (classify_worktree h repo d head clean)"
  unfolding state_complete_def gather_commit_def classify_worktree_def Let_def
  by (intro all_kept.within_intros reads_kept)+

lemma classify_kept: "within all_kept (classify h repo d)"
  unfolding classify_def gather_evidence_def classify_commit_def
  by (intro all_kept.within_intros within_sum within_attempt reads_kept classify_parts_kept write_record_kept)

lemma reconcile_kept: "within all_kept (reconcile h repo False)"
  unfolding reconcile_def reconcile_one_def
  by (simp, intro all_kept.within_intros classify_kept)

section \<open>Commands\<close>

lemma transaction_within: "within R m \<Longrightarrow> (\<And>s. R s s) \<Longrightarrow> within R (store_transaction root m)"
  unfolding store_transaction_def by (auto simp: within_def split: option.splits)

lemma execute_scoped: "within (scoped root) (execute_command h root clk command arguments max_age repository)"
  unfolding execute_command_def
  by (intro scoped.within_intros on_store_scoped retry_recover_scope queue_and_events.within_gets all_kept_scoped [OF reconcile_kept])

lemma execute_kept:
  "command \<notin> {''retry'', ''recover''} \<Longrightarrow> within all_kept (execute_command h root clk command arguments max_age repository)"
  unfolding execute_command_def
  by (simp, intro conjI impI all_kept.within_intros reads_kept reconcile_kept)

text \<open>One event per command that returns.\<close>

lemma operator_events_decoded: "operator_events = decoded Operators operator_event_from_json"
  by (simp add: fun_eq_iff operator_events_def decoded_def)

lemma record_operator_event_result:
  assumes run: "record_operator_event command ok message text tid s = (Inr e, s')" and es: "operator_events s = Inr es"
  shows "operator_events s' = Inr (es @ [e]) \<and> oe_command e = command \<and> oe_ok e = ok \<and> oe_message e = message
    \<and> oe_raw_text e = text \<and> oe_task_id e = tid \<and> st_queue s' = st_queue s \<and> st_offset s' = st_offset s \<and> st_lock s = None"
proof -
  define s1 where "s1 = s\<lparr>st_drawn := Suc (st_drawn s), st_ticks := Suc (st_ticks s)\<rparr>"
  define event where "event = \<lparr>oe_event_id = st_uuids s (st_drawn s), oe_created_at_utc = st_clock s (st_ticks s), oe_command = command,
     oe_ok = ok, oe_message = message, oe_raw_text = text, oe_task_id = tid\<rparr>"
  obtain a where body: "mseq (atomic_append_jsonl Operators (operator_event_to_json event)) (mseq (journal_record a) (ret event)) s1 = (Inr e, s')"
    and unlocked: "st_lock s = None"
    using run unfolding record_operator_event_def state_mutation_Inr
    by (auto simp: mbind_def utc_now_def uuid4_def Let_def s1_def event_def)
  have es1: "decoded Operators operator_event_from_json s1 = Inr es"
    using es unfolding operator_events_decoded by (simp add: decoded_def s1_def)
  have "decoded Operators operator_event_from_json s' = Inr (es @ [event]) \<and> e = event"
    using append_decoded [OF body _ es1 operator_event_round_trip] body by (auto simp: mseq_Inr_iff)
  moreover obtain s2 where s2: "atomic_append_jsonl Operators (operator_event_to_json event) s1 = (Inr (), s2)"
    "within only_events (journal_record a)" and j: "\<exists>x. journal_record a s2 = (Inr x, s')"
    using body journal_only_events by (auto simp: mseq_Inr_iff)
  moreover have "st_queue s2 = st_queue s1 \<and> st_offset s2 = st_offset s1"
    using s2(1) by (auto simp: atomic_append_jsonl_def mbind_def durable_write_def split: sum.splits option.splits nat.splits)
  moreover have "st_queue s' = st_queue s2" using j journal_only_events withinD only_events_def by metis
  moreover have "st_offset s' = st_offset s2"
  proof -
    have "within queue_and_events (journal_record a)"
      unfolding journal_record_def hold_def atomic_append_jsonl_def
      by (intro queue_and_events.within_intros write_queue_and_events)
    then show ?thesis using j by (auto simp: queue_and_events_def dest: withinD)
  qed
  ultimately show ?thesis using unlocked by (simp add: operator_events_decoded event_def s1_def)
qed

end
