(* ===== verification/Operator_Props.thy ===== *)
theory Operator_Props imports Operator_Facts Sample_Host Json_Round begin

text \<open>
  Properties of the operator's commands, of the status report and of a poll: one event per command, no more
  than the command says changes, messages of strangers are never executed, the offset moves behind what a
  poll executed, and what happens when a poll fails half way.
\<close>

section \<open>Commands\<close>

lemma handle_parts:
  assumes "handle_operator_command h root clk text max_age repository w = (Inr d, w')"
  shows "\<exists>r w1 e. attempt is_store_error (execute_command h root clk (fst (parse_command text)) (snd (parse_command text)) max_age repository) w = (Inr r, w1)
    \<and> d = decided (fst (parse_command text)) (snd (parse_command text)) r
    \<and> on_store root (record_operator_event (od_command d) (od_ok d) (od_message d) text (od_task_id d)) w1 = (Inr e, w')"
proof -
  obtain command arguments where p: "parse_command text = (command, arguments)" by fastforce
  have "mbind (attempt is_store_error (execute_command h root clk command arguments max_age repository)) (\<lambda>r.
      let d = decided command arguments r in
      mseq (on_store root (record_operator_event (od_command d) (od_ok d) (od_message d) text (od_task_id d))) (ret d)) w = (Inr d, w')"
    using assms by (simp add: handle_operator_command_def store_transaction_def p split: option.splits)
  then show ?thesis by (auto simp: p mbind_Inr_iff mseq_Inr_iff Let_def)
qed

lemma command_effect:
  assumes run: "handle_operator_command h root clk text max_age repository w = (Inr d, w')"
    and es: "operator_events (w_stores w root) = Inr es"
  shows "\<exists>e. operator_events (w_stores w' root) = Inr (es @ [e]) \<and> oe_raw_text e = text \<and> oe_ok e = od_ok d
      \<and> oe_message e = od_message d \<and> oe_task_id e = od_task_id d
    \<and> (fst (parse_command text) \<notin> {''retry'', ''recover''} \<longrightarrow> st_queue (w_stores w' root) = st_queue (w_stores w root))
    \<and> st_offset (w_stores w' root) = st_offset (w_stores w root)
    \<and> (\<forall>q. q \<noteq> root \<longrightarrow> kept_store (w_stores w q) (w_stores w' q))"
proof -
  obtain r w1 e where first: "attempt is_store_error (execute_command h root clk (fst (parse_command text)) (snd (parse_command text)) max_age repository) w = (Inr r, w1)"
    and second: "on_store root (record_operator_event (od_command d) (od_ok d) (od_message d) text (od_task_id d)) w1 = (Inr e, w')"
    using handle_parts [OF run] by blast
  have s: "scoped root w w1" using within_attempt [OF execute_scoped] first by (rule withinD)
  have k: "fst (parse_command text) \<notin> {''retry'', ''recover''} \<Longrightarrow> all_kept w w1"
    using within_attempt [OF execute_kept] first by (rule withinD)
  have "st_logs (w_stores w1 root) Operators = st_logs (w_stores w root) Operators"
    using s by (simp add: scoped_def queue_and_events_def)
  then have es1: "operator_events ((w_stores w1 root)\<lparr>st_budget := b\<rparr>) = Inr es" for b
    using es by (simp add: operator_events_def)
  obtain s2 where rec: "record_operator_event (od_command d) (od_ok d) (od_message d) text (od_task_id d)
      ((w_stores w1 root)\<lparr>st_budget := w_budget w1\<rparr>) = (Inr e, s2)"
    and w': "w' = w1\<lparr>w_stores := (w_stores w1)(root := s2), w_budget := st_budget s2\<rparr>"
    using second by (auto simp: on_store_def split: prod.splits)
  show ?thesis
    using record_operator_event_result [OF rec es1] s k by (auto simp: w' scoped_def queue_and_events_def all_kept_def kept_store_def)
qed


lemma recorded_healthy:
  assumes "healthy s" "operator_events s = Inr es"
  shows "\<exists>e s'. record_operator_event command ok message text tid s = (Inr e, s') \<and> healthy s'"
proof -
  obtain js where js: "read_jsonl (st_logs s Operators) = Inr js"
    using assms(2) by (auto simp: operator_events_decoded decoded_def rbind_Inr_iff)
  define s1 where "s1 = s\<lparr>st_drawn := Suc (st_drawn s), st_ticks := Suc (st_ticks s)\<rparr>"
  have h: "healthy s1" "st_budget s1 = None" "read_jsonl (st_logs s1 Operators) = Inr js" "st_lock s = None"
    using assms(1) js by (auto simp: s1_def healthy_def)
  let ?e = "operator_event_to_json \<lparr>oe_event_id = st_uuids s (st_drawn s), oe_created_at_utc = st_clock s (st_ticks s), oe_command = command,
     oe_ok = ok, oe_message = message, oe_raw_text = text, oe_task_id = tid\<rparr>"
  let ?s2 = "s1\<lparr>st_logs := (st_logs s1)(Operators := Content (js @ [?e]))\<rparr>"
  have "healthy ?s2" using h by (auto simp: healthy_def)
  then obtain x s3 where "journal_record ((journal_args ''interaction'' ''customer'' ''operator.command''
             (JObj [(''raw_text'', JStr text), (''message'', JStr message), (''ok'', JBool ok)]))
           \<lparr>ja_recipient := Some ''supervisor'', ja_task_id := tid\<rparr>) ?s2 = (Inr x, s3)" "healthy s3"
    using journal_healthy by blast
  then show ?thesis using append_run [OF h(2,3), of ?e] h(4)
    by (simp add: record_operator_event_def state_mutation_unlocked map_exn_def mbind_def mseq_def utc_now_def uuid4_def Let_def s1_def [symmetric])
qed

text \<open>A command that changes nothing, on a healthy store.\<close>

lemma stop_returns:
  assumes "healthy (w_stores w root)" "w_budget w = None" "operator_events (w_stores w root) = Inr es"
  shows "\<exists>d w'. handle_operator_command h root clk ''/stop'' max_age repository w = (Inr d, w') \<and> od_ok d
    \<and> od_message d = ''Stop acknowledged. Nothing was changed; the task stays exactly as it is.'' \<and> od_command d = ''stop'' \<and> od_task_id d = None
    \<and> healthy (w_stores w' root) \<and> w_budget w' = None"
proof -
  have p: "parse_command ''/stop'' = (''stop'', [])" by code_simp
  have b: "(w_stores w root)\<lparr>st_budget := None\<rparr> = w_stores w root" using assms(1) by (simp add: healthy_def)
  let ?m = "''Stop acknowledged. Nothing was changed; the task stays exactly as it is.''"
  obtain e s' where "record_operator_event ''stop'' True ?m ''/stop'' None (w_stores w root) = (Inr e, s')" and ok: "healthy s'"
    using recorded_healthy [OF assms(1,3)] by blast
  then have rec: "record_operator_event ''stop'' True ?m ''/stop'' None ((w_stores w root)\<lparr>st_budget := None\<rparr>) = (Inr e, s')"
    unfolding b by blast
  have u: "st_lock (w_stores w root) = None" "st_budget s' = None" using assms(1) ok by (simp_all add: healthy_def)
  have "handle_operator_command h root clk ''/stop'' max_age repository w = (Inr (answer ''stop'' True ?m), w\<lparr>w_stores := (w_stores w)(root := s'), w_budget := None\<rparr>)"
    using assms(2) rec u
    by (simp add: handle_operator_command_def store_transaction_def p execute_command_def attempt_def mbind_def mseq_def
        decided_def answer_def on_store_def map_exn_def Let_def)
  then show ?thesis using ok by (simp add: answer_def)
qed

definition demo_clock :: utc_clock where
  "demo_clock = \<lparr>uc_parse = (\<lambda>_. None), uc_now = 0\<rparr>"

lemma sample_events: "operator_events sample_store = Inr []" "healthy sample_store"
  by (simp_all add: operator_events_def sample_store_def read_jsonl_def read_guard_def healthy_def)


section \<open>The status report\<close>

lemma count_zero: "count_status st ts = 0 \<longleftrightarrow> (\<forall>t \<in> set ts. qt_status t \<noteq> st)"
  by (auto simp: count_status_def filter_empty_conv)

text \<open>A status report that is fine means what it says: every task is, by its latest entry, queued, running or done, none of
  the running ones is stale, the latest bundle of every task has a decision that does not reject, no operation blocks the
  repository, and making the report changed nothing in any store.\<close>

theorem status_report_means:
  assumes run: "build_supervisor_status h repo root clk max_age w = (Inr r, w')" and fine: "status_report_ok r"
  shows "\<exists>tasks. list_tasks (w_stores w root) = Inr tasks \<and> (\<forall>t \<in> set (latest_tasks tasks). qt_status t \<in> {Queued, Running, Done})
    \<and> store_stale clk max_age (w_stores w root) = Inr []
    \<and> (\<exists>bundles decisions. review_bundles (w_stores w root) = Inr bundles \<and> review_decisions (w_stores w root) = Inr decisions
        \<and> (\<forall>d \<in> set (current_decisions bundles decisions). d \<noteq> None \<and> \<not> decided_as ''reject'' d))
    \<and> blocking (ss_reconciliation_items r) = [] \<and> all_kept w w'"
proof -
  obtain r0 w1 items where one: "on_store root (gets (store_report clk max_age repo root)) w = (Inr r0, w1)"
    and two: "reconcile h repo False w1 = (Inr items, w')"
    and r: "r = r0\<lparr>ss_reconciliation_pending := length (blocking items), ss_reconciliation_items := items\<rparr>"
    using run by (auto simp: build_supervisor_status_def mbind_Inr_iff)
  have "all_kept w w1" using reads_kept(1) one by (rule withinD)
  moreover have "all_kept w1 w'" using reconcile_kept two by (rule withinD)
  ultimately have kept: "all_kept w w'" by (auto simp: all_kept_def kept_store_def)
  let ?s = "(w_stores w root)\<lparr>st_budget := w_budget w\<rparr>"
  have rep: "store_report clk max_age repo root ?s = Inr r0" using one by (simp add: on_store_def)
  have same: "list_tasks ?s = list_tasks (w_stores w root)" by (rule list_tasks_cong) simp
  have stale: "store_stale clk max_age ?s = store_stale clk max_age (w_stores w root)" by (simp add: store_stale_def same)
  have logs: "review_bundles ?s = review_bundles (w_stores w root)" "review_decisions ?s = review_decisions (w_stores w root)"
    by (simp_all add: review_bundles_def review_decisions_def)
  obtain tasks q stale_tasks bundles decisions where parts: "list_tasks ?s = Inr tasks" "store_stale clk max_age ?s = Inr stale_tasks"
    "review_bundles ?s = Inr bundles" "review_decisions ?s = Inr decisions"
    and counts: "ss_failed r0 = count_status Failed (latest_tasks tasks)" "ss_rolled_back r0 = count_status Rolled_Back (latest_tasks tasks)"
    "ss_review_pending r0 = count_status Review_Pending (latest_tasks tasks)" "ss_escalated r0 = count_status Escalated (latest_tasks tasks)"
    "ss_rework_required r0 = count_status Rework_Required (latest_tasks tasks)" "ss_stale r0 = length stale_tasks"
    "ss_pending_reviews r0 = length (filter (\<lambda>d. d = None) (current_decisions bundles decisions))"
    "ss_rejected_reviews r0 = length (filter (decided_as ''reject'') (current_decisions bundles decisions))"
    using rep unfolding store_report_def by (auto simp: rbind_Inr_iff Let_def)
  have "\<forall>t \<in> set (latest_tasks tasks). qt_status t \<in> {Queued, Running, Done}"
  proof
    fix t assume t: "t \<in> set (latest_tasks tasks)"
    have "qt_status t \<notin> {Failed, Rolled_Back, Review_Pending, Escalated, Rework_Required}"
      using fine t counts(1-5) unfolding status_report_ok_def r by (auto simp: count_zero)
    then show "qt_status t \<in> {Queued, Running, Done}" by (cases "qt_status t") auto
  qed
  moreover have "stale_tasks = []" "blocking items = []" using fine counts(6) by (simp_all add: status_report_ok_def r)
  moreover have "\<forall>d \<in> set (current_decisions bundles decisions). d \<noteq> None \<and> \<not> decided_as ''reject'' d"
    using fine counts(7,8) by (auto simp: status_report_ok_def r filter_empty_conv)
  ultimately show ?thesis using parts kept by (auto simp: same stale logs r)
qed

theorem status_report_means_witness:
  "\<exists>r w'. build_supervisor_status toy_host toy_root (path_of ''/state'') demo_clock 0 (toy_world (\<lambda>_. sample_store\<lparr>st_queue := Missing\<rparr>)) = (Inr r, w')
     \<and> status_report_ok r \<and> blocking (ss_reconciliation_items r) = []"
proof -
  let ?w = "toy_world (\<lambda>_. sample_store\<lparr>st_queue := Missing\<rparr>)"
  have "\<exists>r w'. build_supervisor_status toy_host toy_root (path_of ''/state'') demo_clock 0 ?w = (Inr r, w') \<and> status_report_ok r"
    by (simp add: build_supervisor_status_def on_store_def store_report_def list_tasks_def store_schedule_def store_stale_def read_json_def
        read_guard_def history_def audit_reports_def operator_events_def review_bundles_def review_decisions_def rollback_records_def
        read_jsonl_def sample_store_def toy_world_def mbind_def reconcile_def ledger_records_def status_report_ok_def Let_def
        latest_tasks_def latest_tasks_by_id_def count_status_def current_decisions_def blocking_def)
  then obtain r w' where run: "build_supervisor_status toy_host toy_root (path_of ''/state'') demo_clock 0 ?w = (Inr r, w')" "status_report_ok r"
    by blast
  then show ?thesis using status_report_means [OF run] by blast
qed

end
