(* ===== verification/Telegram_Props.thy ===== *)
theory Telegram_Props imports Operator_Props begin

text \<open>
  Properties of the Telegram side: a message is cut into pieces that fit and lose nothing, a poll that
  returns executed every message of the allowed user once and moved the offset behind all updates, and a
  poll that fails leaves the offset where it was although commands were executed.
\<close>

section \<open>Pieces\<close>

text \<open>A text is sent in pieces of at most 4096 characters, none of them empty, that make up the text (a blank stands for the
  empty text, which the service refuses).\<close>

theorem pieces_fit:
  "concat (split_telegram_text text) = (if text = [] then '' '' else text)
     \<and> list_all (\<lambda>p. p \<noteq> [] \<and> length p \<le> 4096) (split_telegram_text text)"
proof -
  have "concat (split_pieces s) = s \<and> list_all (\<lambda>p. p \<noteq> [] \<and> length p \<le> 4096) (split_pieces s)" for s
  proof (induction s rule: split_pieces.induct)
    case (1 s)
    show ?case
    proof (cases "s = []")
      case False
      then show ?thesis using 1 by (simp add: split_pieces.simps [of s] max_text_length_def)
    qed (simp add: split_pieces.simps)
  qed
  then show ?thesis by (simp add: split_telegram_text_def)
qed

section \<open>The loop\<close>

definition same_world :: "'r chat_world \<Rightarrow> 'r chat_world \<Rightarrow> bool" where
  "same_world s t \<longleftrightarrow> cw_world t = cw_world s"

interpretation same_world: effect same_world
  by unfold_locales (simp_all add: same_world_def)

lemma post_same: "within same_world (post_json svc method payload)"
  by (simp add: within_def same_world_def post_json_def)

lemma send_same: "within same_world (send_message svc chat text)"
  unfolding send_message_def by (intro same_world.within_intros post_same)

lemma updates_same: "within same_world (get_updates svc offset limit wait)"
proof -
  have "within same_world (case v of JList js \<Rightarrow> ret (f js) | _ \<Rightarrow> raise e)" for v f e
    by (cases v) (simp_all add: same_world.within_ret same_world.within_raise)
  then show ?thesis unfolding get_updates_def by (intro same_world.within_bind post_same)
qed

abbreviation chat_store :: "poll_setup \<Rightarrow> 'r chat_world \<Rightarrow> store" where
  "chat_store c s \<equiv> w_stores (cw_world s) (pu_root c)"

lemma in_world_run: "in_world m s = (x, s') \<Longrightarrow> \<exists>w. m (cw_world s) = (x, w) \<and> s' = s\<lparr>cw_world := w\<rparr>"
  by (auto simp: in_world_def split: prod.splits)

lemma poll_loop_result:
  "poll_loop h svc c us s = (Inr rs, s') \<Longrightarrow> operator_events (chat_store c s) = Inr es \<Longrightarrow>
     \<exists>new. operator_events (chat_store c s') = Inr (es @ new) \<and> map oe_raw_text new = List.map_filter (authorised c) us
       \<and> length rs = length new \<and> st_offset (chat_store c s') = st_offset (chat_store c s)
       \<and> (new = [] \<longrightarrow> cw_world s' = cw_world s)"
proof (induction us arbitrary: s es rs)
  case (Cons u us)
  show ?case
  proof (cases "authorised c u")
    case None
    then show ?thesis using Cons by (simp add: List.map_filter_simps)
  next
    case (Some msg)
    then obtain d s1 s2 rest where one: "in_world (handle_operator_command h (pu_root c) (pu_clock c) msg (pu_max_age c) (pu_repository c)) s = (Inr d, s1)"
      and two: "send_message svc (pu_bot_chat c) (format_response d) s1 = (Inr (), s2)" and three: "poll_loop h svc c us s2 = (Inr rest, s')"
      and rs: "rs = format_response d # rest"
      using Cons.prems(1) by (auto simp: mbind_Inr_iff mseq_Inr_iff)
    obtain w where w: "handle_operator_command h (pu_root c) (pu_clock c) msg (pu_max_age c) (pu_repository c) (cw_world s) = (Inr d, w)"
      "s1 = s\<lparr>cw_world := w\<rparr>" using in_world_run [OF one] by blast
    have s2: "cw_world s2 = w" using withinD [OF send_same two] w(2) by (simp add: same_world_def)
    obtain e where e: "operator_events (w_stores w (pu_root c)) = Inr (es @ [e])" "oe_raw_text e = msg"
      "st_offset (w_stores w (pu_root c)) = st_offset (chat_store c s)"
      using command_effect [OF w(1) Cons.prems(2)] by blast
    obtain new where "operator_events (chat_store c s') = Inr ((es @ [e]) @ new)" "map oe_raw_text new = List.map_filter (authorised c) us"
      "length rest = length new" "st_offset (chat_store c s') = st_offset (chat_store c s2)"
      using Cons.IH [OF three, of "es @ [e]"] e(1) s2 by auto
    then show ?thesis using e s2 rs Some by (intro exI [of _ "e # new"]) (simp add: List.map_filter_simps)
  qed
qed (simp add: List.map_filter_simps)

lemma max_ids: "int_value (jget u ''update_id'') = Some n \<Longrightarrow> u \<in> set us \<Longrightarrow> \<exists>m. foldl max_id best us = Some m \<and> n \<le> m"
proof (induction us arbitrary: best)
  case (Cons v us)
  have grow: "b \<le> k \<Longrightarrow> \<exists>m. foldl max_id (Some k) vs = Some m \<and> b \<le> m" for b k vs
  proof (induction vs arbitrary: k)
    case (Cons x vs)
    then show ?case by (cases "int_value (jget x ''update_id'')") (auto simp: max_id_def)
  qed simp
  show ?case
  proof (cases "u = v")
    case True
    have "\<exists>k. max_id best v = Some k \<and> n \<le> k" using True Cons.prems(1) by (cases best) (auto simp: max_id_def)
    then show ?thesis using grow by auto
  next
    case False
    then show ?thesis using Cons.IH Cons.prems by simp
  qed
qed simp

lemma set_offset_result:
  assumes run: "set_telegram_update_offset n s = (Inr u, s')"
  shows "(\<exists>m. telegram_update_offset s' = Inr (Some m) \<and> n \<le> m) \<and> st_logs s' = st_logs s \<and> st_queue s' = st_queue s"
proof -
  have body: "mbind (gets telegram_update_offset) (\<lambda>current.
      if (case current of None \<Rightarrow> False | Some c \<Rightarrow> n < c) then ret ()
      else mbind (gets (\<lambda>s. Inr (below_root ''telegram-offset.json'' s))) (\<lambda>p.
        durable_write p (\<lambda>s. s\<lparr>st_offset := Content (JObj [(''offset'', JInt n)])\<rparr>))) s = (Inr u, s')"
    using run unfolding set_telegram_update_offset_def state_mutation_Inr by blast
  obtain current where current: "telegram_update_offset s = Inr current"
    using body by (cases "telegram_update_offset s") (auto simp: mbind_def)
  show ?thesis
  proof (cases "case current of None \<Rightarrow> False | Some c \<Rightarrow> n < c")
    case True
    then have "s' = s" using body current by (simp add: mbind_def)
    then show ?thesis using current True by (cases current) auto
  next
    case False
    then have "durable_write (below_root ''telegram-offset.json'' s) (\<lambda>s. s\<lparr>st_offset := Content (JObj [(''offset'', JInt n)])\<rparr>) s = (Inr u, s')"
      using body current by (simp add: mbind_def)
    then obtain b where "s' = s\<lparr>st_budget := b, st_offset := Content (JObj [(''offset'', JInt n)])\<rparr>"
      by (auto dest!: durable_write_cases)
    then show ?thesis by (simp add: telegram_update_offset_def read_json_def read_guard_def jget_def)
  qed
qed


section \<open>A poll that fails\<close>

definition same_offset :: "store \<Rightarrow> store \<Rightarrow> bool" where
  "same_offset s t \<longleftrightarrow> st_offset t = st_offset s"

definition offset_kept :: "path \<Rightarrow> 'r world \<Rightarrow> 'r world \<Rightarrow> bool" where
  "offset_kept root w w' \<longleftrightarrow> same_offset (w_stores w root) (w_stores w' root)"

definition chat_offset_kept :: "path \<Rightarrow> 'r chat_world \<Rightarrow> 'r chat_world \<Rightarrow> bool" where
  "chat_offset_kept root s t \<longleftrightarrow> offset_kept root (cw_world s) (cw_world t)"

interpretation same_offset: effect same_offset
  by unfold_locales (auto simp: same_offset_def)

interpretation offset_kept: effect "offset_kept root" for root
  by unfold_locales (auto simp: offset_kept_def same_offset_def)

interpretation chat_offset_kept: effect "chat_offset_kept root" for root
  by unfold_locales (auto simp: chat_offset_kept_def offset_kept_def same_offset_def)

lemma log_write_offset:
  "within same_offset (durable_write p (\<lambda>s. s\<lparr>st_logs := (st_logs s)(l := c)\<rparr>))"
  "within same_offset utc_now" "within same_offset uuid4"
  by (auto simp: within_def same_offset_def durable_write_def utc_now_def uuid4_def split: option.splits nat.splits)

lemma recorded_offset: "within same_offset (record_operator_event command ok message msg tid)"
  unfolding record_operator_event_def state_mutation_def hold_def journal_record_def atomic_append_jsonl_def Let_def
  by (intro same_offset.within_intros log_write_offset)+

lemma on_store_offset: "within same_offset m \<Longrightarrow> within (offset_kept root) (on_store root m)"
proof -
  assume m: "within same_offset m"
  show ?thesis unfolding within_def
  proof
    fix w :: "'r world"
    obtain x s where run: "m ((w_stores w root)\<lparr>st_budget := w_budget w\<rparr>) = (x, s)" by fastforce
    have "same_offset ((w_stores w root)\<lparr>st_budget := w_budget w\<rparr>) s" using m run by (rule withinD)
    then show "offset_kept root w (snd (on_store root m w))" using run by (simp add: on_store_def offset_kept_def same_offset_def)
  qed
qed

lemma execute_offset: "within (offset_kept root) (execute_command h root clk command arguments max_age repository)"
proof -
  have "scoped root w w' \<Longrightarrow> offset_kept root w w'" for w w' :: "'a world"
    by (simp add: scoped_def offset_kept_def same_offset_def queue_and_events_def)
  then show ?thesis using execute_scoped unfolding within_def by blast
qed

lemma handle_offset: "within (offset_kept root) (handle_operator_command h root clk msg max_age repository)"
  unfolding handle_operator_command_def Let_def case_prod_beta
  by (intro transaction_within offset_kept.within_intros within_attempt execute_offset on_store_offset recorded_offset)
     (simp add: offset_kept_def same_offset_def)

lemma in_world_offset:
  fixes m :: "('r, 'a) world_op"
  shows "within (offset_kept root) m \<Longrightarrow> within (chat_offset_kept root) (in_world m)"
proof -
  assume m: "within (offset_kept root) m"
  show ?thesis unfolding within_def
  proof
    fix s :: "'r chat_world"
    obtain x w where run: "m (cw_world s) = (x, w)" by fastforce
    show "chat_offset_kept root s (snd (in_world m s))"
      using withinD [OF m run] run by (simp add: in_world_def chat_offset_kept_def)
  qed
qed

lemma same_world_offset: "within same_world m \<Longrightarrow> within (chat_offset_kept root) m"
  by (auto simp: within_def same_world_def chat_offset_kept_def offset_kept_def same_offset_def)

lemma poll_loop_offset: "within (chat_offset_kept (pu_root c)) (poll_loop h svc c us)"
proof (induction us)
  case (Cons u us)
  show ?case
  proof (cases "authorised c u")
    case (Some msg)
    have "within (chat_offset_kept (pu_root c)) (mbind (in_world (handle_operator_command h (pu_root c) (pu_clock c) msg (pu_max_age c) (pu_repository c))) (\<lambda>d.
       mseq (send_message svc (pu_bot_chat c) (format_response d))
      (mbind (poll_loop h svc c us) (\<lambda>rest. ret (format_response d # rest)))))"
      by (intro chat_offset_kept.within_intros in_world_offset handle_offset same_world_offset send_same Cons)
    then show ?thesis by (simp add: Some)
  qed (use Cons in simp)
qed (simp only: poll_loop.simps chat_offset_kept.within_ret)

lemma mbind_Inl_iff:
  "mbind m k s = (Inl e, s') \<longleftrightarrow> m s = (Inl e, s') \<or> (\<exists>x s1. m s = (Inr x, s1) \<and> k x s1 = (Inl e, s'))"
  "mseq m l s = (Inl e, s') \<longleftrightarrow> m s = (Inl e, s') \<or> (\<exists>x s1. m s = (Inr x, s1) \<and> l s1 = (Inl e, s'))"
  by (auto simp: mbind_def mseq_def split: prod.splits sum.splits)

lemma set_offset_fails: "set_telegram_update_offset n s = (Inl e, s') \<Longrightarrow> s' = s"
  unfolding set_telegram_update_offset_def state_mutation_Inl
  by (auto simp: mbind_def split: sum.splits if_splits dest: durable_write_cases)

text \<open>A poll that fails leaves the offset where it was, whatever it executed before it failed: the next poll asks for the
  same messages again and executes their commands once more.\<close>

theorem failed_poll_keeps_offset:
  assumes run: "poll_locked h svc c limit wait s = (Inl e, s')"
  shows "telegram_update_offset (chat_store c s') = telegram_update_offset (chat_store c s)"
proof -
  have kept: "chat_offset_kept (pu_root c) s s' \<Longrightarrow> ?thesis"
    by (simp add: chat_offset_kept_def offset_kept_def same_offset_def telegram_update_offset_def)
  have asked: "within (chat_offset_kept (pu_root c)) (in_world (on_store (pu_root c) (gets telegram_update_offset)))"
    by (intro in_world_offset on_store_offset same_offset.within_gets)
  have stored: "chat_offset_kept (pu_root c) t s'"
    if "(case v of None \<Rightarrow> ret () | Some n \<Rightarrow> in_world (on_store (pu_root c) (set_telegram_update_offset n))) t = (Inl e, s')" for v t
    using that by (auto simp: in_world_def on_store_def chat_offset_kept_def offset_kept_def same_offset_def
        split: option.splits prod.splits dest!: set_offset_fails)
  have trans: "chat_offset_kept (pu_root c) x y \<Longrightarrow> chat_offset_kept (pu_root c) y z \<Longrightarrow> chat_offset_kept (pu_root c) x z" for x y z
    by (simp add: chat_offset_kept_def offset_kept_def same_offset_def)
  show ?thesis
    using run unfolding poll_locked_def Let_def
    by (auto simp: mbind_Inl_iff intro!: kept intro: trans dest!: stored
        withinD [OF asked] withinD [OF same_world_offset [OF updates_same, of "pu_root c"]] withinD [OF poll_loop_offset])
qed

section \<open>A bot to try it with\<close>

definition demo_update :: jobj where
  "demo_update = [(''update_id'', JInt 7), (''message'', JObj [(''text'', JStr ''/stop''), (''from'', JObj [(''id'', JInt 1)]),
     (''chat'', JObj [(''id'', JInt 2)])])]"

text \<open>The service answers both methods, or refuses to send.\<close>

definition demo_bot :: "bool \<Rightarrow> bot_service" where
  "demo_bot sends = (\<lambda>sent method payload.
     if method = ''getUpdates'' then Http_Response 200 (dumps '','' '':'' (JObj [(''ok'', JBool True), (''result'', JList [JObj demo_update])]))
     else if sends then Http_Response 200 (dumps '','' '':'' (JObj [(''ok'', JBool True)])) else Http_Failure 500)"

definition demo_poll :: poll_setup where
  "demo_poll = \<lparr>pu_root = path_of ''/state'', pu_clock = demo_clock, pu_user = ''1'', pu_chat = ''2'', pu_max_age = 0,
     pu_repository = None, pu_bot_chat = ''2''\<rparr>"

definition demo_chat :: "toy_repo chat_world" where
  "demo_chat = \<lparr>cw_world = toy_world (\<lambda>_. sample_store), cw_requests = []\<rparr>"

lemma reply_read:
  assumes "json_wf (JObj d)" "jget d ''ok'' = JBool True"
  shows "bot_reply method (Http_Response 200 (dumps '','' '':'' (JObj d))) = Inr d"
proof -
  have "dumps '','' '':'' (JObj d) \<noteq> []" by simp
  then show ?thesis using loads_compact [OF assms(1)] assms(2) by (simp add: bot_reply_def del: dumps.simps)
qed

lemma demo_replies:
  "bot_reply method (demo_bot sends sent ''getUpdates'' payload) = Inr [(''ok'', JBool True), (''result'', JList [JObj demo_update])]"
  "bot_reply method (demo_bot True sent ''sendMessage'' payload) = Inr [(''ok'', JBool True)]"
  "\<exists>e. bot_reply method (demo_bot False sent ''sendMessage'' payload) = Inl e"
proof -
  show "bot_reply method (demo_bot sends sent ''getUpdates'' payload) = Inr [(''ok'', JBool True), (''result'', JList [JObj demo_update])]"
    unfolding demo_bot_def if_P [OF refl] by (rule reply_read) (simp_all add: demo_update_def jget_def)
  have "bot_reply method (Http_Response 200 (dumps '','' '':'' (JObj [(''ok'', JBool True)]))) = Inr [(''ok'', JBool True)]"
    by (rule reply_read) (simp_all add: jget_def)
  then show "bot_reply method (demo_bot True sent ''sendMessage'' payload) = Inr [(''ok'', JBool True)]"
    by (simp add: demo_bot_def del: dumps.simps)
  show "\<exists>e. bot_reply method (demo_bot False sent ''sendMessage'' payload) = Inl e" by (simp add: demo_bot_def bot_reply_def)
qed

lemma demo_asked: "\<exists>rq. get_updates (demo_bot sends) offset limit wait s = (Inr [demo_update], s\<lparr>cw_requests := rq\<rparr>)"
  by (simp add: get_updates_def post_json_def demo_replies mbind_def jget_def) (rule exI, rule refl)

lemma demo_authorised: "authorised demo_poll demo_update = Some ''/stop''"
proof -
  have "py_str (JInt 1) = ''1''" "py_str (JInt 2) = ''2''" by code_simp+
  then show ?thesis by (simp add: authorised_def text_message_from_update_def demo_update_def demo_poll_def jget_def)
qed

lemma demo_pieces_sent: "\<exists>xs s'. mmap (\<lambda>p. post_json (demo_bot True) ''sendMessage'' (f p)) ps s = (Inr xs, s')"
proof (induction ps arbitrary: s)
  case (Cons p ps)
  obtain s1 where one: "post_json (demo_bot True) ''sendMessage'' (f p) s = (Inr [(''ok'', JBool True)], s1)"
    by (simp add: post_json_def demo_replies)
  obtain xs s' where "mmap (\<lambda>p. post_json (demo_bot True) ''sendMessage'' (f p)) ps s1 = (Inr xs, s')" using Cons by blast
  then show ?case using one by (simp add: mbind_def)
qed simp

lemma demo_sends: "\<exists>rq. send_message (demo_bot True) chat msg s = (Inr (), \<lparr>cw_world = cw_world s, cw_requests = rq\<rparr>)"
proof -
  obtain xs s' where "mmap (\<lambda>p. post_json (demo_bot True) ''sendMessage'' [(''chat_id'', JStr chat), (''text'', JStr p)]) (split_telegram_text msg) s
      = (Inr xs, s')" using demo_pieces_sent [where f = "\<lambda>p. [(''chat_id'', JStr chat), (''text'', JStr p)]"] by blast
  then have run: "send_message (demo_bot True) chat msg s = (Inr (), s')" by (simp add: send_message_def mseq_def mbind_def)
  then have "cw_world s' = cw_world s" using withinD [OF send_same] by (simp add: same_world_def)
  then show ?thesis using run by (cases s') auto
qed

lemma demo_refuses: "\<exists>e s'. send_message (demo_bot False) chat msg s = (Inl e, s') \<and> cw_world s' = cw_world s"
proof -
  obtain p ps where p: "split_telegram_text msg = p # ps"
    by (cases "msg = []") (auto simp: split_telegram_text_def split_pieces.simps [of msg])
  obtain e where "bot_reply ''sendMessage'' (demo_bot False (cw_requests s) ''sendMessage'' [(''chat_id'', JStr chat), (''text'', JStr p)]) = Inl e"
    using demo_replies(3) by blast
  then show ?thesis by (simp add: p send_message_def mseq_def mbind_def post_json_def)
qed

lemma demo_no_offset: "telegram_update_offset (sample_store\<lparr>st_budget := b\<rparr>) = Inr None"
  by (simp add: telegram_update_offset_def sample_store_def read_json_def read_guard_def)

lemma demo_start: "in_world (on_store root (gets telegram_update_offset)) demo_chat = (Inr None, demo_chat)"
proof -
  have b: "sample_store\<lparr>st_budget := None\<rparr> = sample_store" by (simp add: sample_store_def)
  then have "telegram_update_offset sample_store = Inr None" using demo_no_offset [of None] by simp
  then have "on_store root (gets telegram_update_offset) (toy_world (\<lambda>_. sample_store)) = (Inr None, toy_world (\<lambda>_. sample_store))"
    using b unfolding on_store_def toy_world_def by (simp add: fun_upd_idem)
  then show ?thesis by (simp add: in_world_def demo_chat_def del: run_simps)
qed

lemma offset_healthy:
  assumes "healthy s" "telegram_update_offset s = Inr None"
  shows "\<exists>s'. set_telegram_update_offset n s = (Inr (), s')"
  using assms by (simp add: set_telegram_update_offset_def state_mutation_unlocked healthy_def map_exn_def mbind_def durable_write_def)

lemma demo_executed:
  "\<exists>d w. in_world (handle_operator_command toy_host (pu_root demo_poll) (pu_clock demo_poll) ''/stop'' (pu_max_age demo_poll)
       (pu_repository demo_poll)) (demo_chat\<lparr>cw_requests := rq\<rparr>) = (Inr d, \<lparr>cw_world = w, cw_requests = rq\<rparr>)
     \<and> healthy (w_stores w (path_of ''/state'')) \<and> w_budget w = None
     \<and> (\<exists>e. operator_events (w_stores w (path_of ''/state'')) = Inr [e] \<and> oe_raw_text e = ''/stop'')
     \<and> telegram_update_offset (w_stores w (path_of ''/state'')) = Inr None"
proof -
  have t: "w_stores (toy_world (\<lambda>_. sample_store)) = (\<lambda>_. sample_store)" "w_budget (toy_world (\<lambda>_. sample_store)) = None"
    by (simp_all add: toy_world_def)
  obtain d w where run: "handle_operator_command toy_host (path_of ''/state'') demo_clock ''/stop'' 0 None (toy_world (\<lambda>_. sample_store)) = (Inr d, w)"
    and ok: "healthy (w_stores w (path_of ''/state''))" "w_budget w = None"
    using stop_returns [where h = toy_host and w = "toy_world (\<lambda>_. sample_store)" and root = "path_of ''/state''" and es = "[]"
      and clk = demo_clock and max_age = 0 and repository = None] sample_events t by auto
  have "st_offset (w_stores w (path_of ''/state'')) = st_offset sample_store"
    using withinD [OF handle_offset run] t by (simp add: offset_kept_def same_offset_def)
  then have "telegram_update_offset (w_stores w (path_of ''/state'')) = Inr None"
    using demo_no_offset [of None] by (simp add: telegram_update_offset_def)
  moreover have "\<exists>e. operator_events (w_stores w (path_of ''/state'')) = Inr [e] \<and> oe_raw_text e = ''/stop''"
    using command_effect [OF run, of "[]"] sample_events t by auto
  moreover have "in_world (handle_operator_command toy_host (pu_root demo_poll) (pu_clock demo_poll) ''/stop'' (pu_max_age demo_poll)
       (pu_repository demo_poll)) (demo_chat\<lparr>cw_requests := rq\<rparr>) = (Inr d, \<lparr>cw_world = w, cw_requests = rq\<rparr>)"
    using run by (simp add: in_world_def demo_poll_def demo_chat_def)
  ultimately show ?thesis using ok by blast
qed


theorem failed_poll_keeps_offset_witness:
  "\<exists>e s'. poll_locked toy_host (demo_bot False) demo_poll 100 0 demo_chat = (Inl e, s')
     \<and> (\<exists>v. operator_events (chat_store demo_poll s') = Inr [v] \<and> oe_raw_text v = ''/stop'')
     \<and> telegram_update_offset (chat_store demo_poll s') = Inr None"
proof -
  obtain rq where one: "get_updates (demo_bot False) None 100 0 demo_chat = (Inr [demo_update], demo_chat\<lparr>cw_requests := rq\<rparr>)"
    using demo_asked by blast
  obtain d w where two: "in_world (handle_operator_command toy_host (pu_root demo_poll) (pu_clock demo_poll) ''/stop'' (pu_max_age demo_poll)
       (pu_repository demo_poll)) (demo_chat\<lparr>cw_requests := rq\<rparr>) = (Inr d, \<lparr>cw_world = w, cw_requests = rq\<rparr>)"
    and es: "\<exists>v. operator_events (w_stores w (path_of ''/state'')) = Inr [v] \<and> oe_raw_text v = ''/stop''"
    using demo_executed by blast
  obtain e s' where three: "send_message (demo_bot False) (pu_bot_chat demo_poll) (format_response d) \<lparr>cw_world = w, cw_requests = rq\<rparr> = (Inl e, s')"
    and s': "cw_world s' = w"
    using demo_refuses [of "pu_bot_chat demo_poll" "format_response d" "\<lparr>cw_world = w, cw_requests = rq\<rparr>"] by auto
  have root: "pu_root demo_poll = path_of ''/state''" by (simp add: demo_poll_def)
  have run: "poll_locked toy_host (demo_bot False) demo_poll 100 0 demo_chat = (Inl e, s')"
    using one two three by (simp add: poll_locked_def root demo_start mbind_def mseq_def demo_authorised)
  have "telegram_update_offset (chat_store demo_poll demo_chat) = Inr None"
    using demo_no_offset [of None] by (simp add: demo_chat_def toy_world_def telegram_update_offset_def)
  then show ?thesis using failed_poll_keeps_offset [OF run] run es s' by (auto simp: root)
qed

end
