(* ===== verification/Workspace.thy ===== *)
theory Workspace imports Operator_Commands begin

text \<open>
  The registry of projects on this machine (\<open>src/llm_harness/workspace.py\<close>): the stored form of the
  registered projects with their schedules, the operations of \<open>WorkspaceRegistry\<close> under its lease, and
  the summary of a project's queue.

  What the file system, the hash and the calendar answer is a parameter; instants are microseconds.
\<close>

section \<open>The machine\<close>

datatype iso_time = Local_Time | Instant int | Beyond_Range

record place_host =
  ph_resolve :: "path \<Rightarrow> path"
  ph_is_dir :: "path \<Rightarrow> bool"
  ph_exists :: "path \<Rightarrow> bool"
  ph_sha256 :: "string \<Rightarrow> string"
  ph_parse :: "string \<Rightarrow> iso_time option"
  ph_format :: "int \<Rightarrow> string option"

definition with_offset :: "string \<Rightarrow> string" where
  "with_offset s = concat (map (\<lambda>c. if c = CHR ''Z'' then ''+00:00'' else [c]) s)"

definition parse_utc :: "place_host \<Rightarrow> string \<Rightarrow> int res" where
  "parse_utc h s = (case ph_parse h (with_offset s) of
     None \<Rightarrow> Inl (ValueError (''Invalid UTC timestamp: '' @ s))
   | Some Local_Time \<Rightarrow> Inl (ValueError (''UTC timestamp must contain a timezone: '' @ s))
   | Some Beyond_Range \<Rightarrow> Inl OverflowError
   | Some (Instant t) \<Rightarrow> Inr t)"

text \<open>\<open>(now + timedelta(minutes=m)).isoformat()\<close>: years after 9999 do not exist.\<close>

definition time_text :: "place_host \<Rightarrow> int \<Rightarrow> string res" where
  "time_text h t = (case ph_format h t of None \<Rightarrow> Inl OverflowError | Some s \<Rightarrow> Inr s)"

definition minutes :: "int \<Rightarrow> int" where
  "minutes m = m * 60000000"

section \<open>Projects\<close>

record project_schedule =
  ps_enabled :: bool
  ps_interval_minutes :: int
  ps_next_run_at_utc :: "string option"
  ps_final_audit :: bool
  ps_notify_windows :: bool
  ps_notify_telegram :: bool

definition default_schedule :: project_schedule where
  "default_schedule = \<lparr>ps_enabled = False, ps_interval_minutes = 60, ps_next_run_at_utc = None, ps_final_audit = False,
     ps_notify_windows = True, ps_notify_telegram = False\<rparr>"

definition time_ok :: "place_host \<Rightarrow> string option \<Rightarrow> unit res" where
  "time_ok h t = (case t of None \<Rightarrow> Inr () | Some s \<Rightarrow> rbind (parse_utc h s) (\<lambda>_. Inr ()))"

definition make_schedule :: "place_host \<Rightarrow> project_schedule \<Rightarrow> project_schedule res" where
  "make_schedule h s =
     (if ps_interval_minutes s < 1 then Inl (ValueError ''Project schedule interval must be at least one minute.'')
      else rbind (time_ok h (ps_next_run_at_utc s)) (\<lambda>_. Inr s))"

record workspace_project =
  wp_project_id :: string
  wp_name :: string
  wp_root :: string
  wp_registered_at_utc :: string
  wp_schedule :: project_schedule
  wp_last_run_at_utc :: "string option"
  wp_last_run_status :: "string option"
  wp_last_run_error :: "string option"

definition make_project :: "place_host \<Rightarrow> workspace_project \<Rightarrow> workspace_project res" where
  "make_project h p =
     (if strip (wp_project_id p) = [] \<or> strip (wp_name p) = [] \<or> strip (wp_root p) = []
      then Inl (ValueError ''Workspace project id, name, and root must be non-empty.'')
      else rbind (parse_utc h (wp_registered_at_utc p)) (\<lambda>_.
           rbind (time_ok h (wp_last_run_at_utc p)) (\<lambda>_. Inr p)))"

record workspace_snapshot =
  ws_projects :: "workspace_project list"
  ws_version :: int

definition workspace_version :: int where
  "workspace_version = 1"

section \<open>Stored form\<close>

definition schedule_payload :: "project_schedule \<Rightarrow> json" where
  "schedule_payload s = JObj [(''enabled'', JBool (ps_enabled s)), (''interval_minutes'', JInt (ps_interval_minutes s)),
     (''next_run_at_utc'', j_opt_str (ps_next_run_at_utc s)), (''final_audit'', JBool (ps_final_audit s)),
     (''notify_windows'', JBool (ps_notify_windows s)), (''notify_telegram'', JBool (ps_notify_telegram s))]"

definition project_payload :: "workspace_project \<Rightarrow> json" where
  "project_payload p = JObj [(''project_id'', JStr (wp_project_id p)), (''name'', JStr (wp_name p)), (''root'', JStr (wp_root p)),
     (''registered_at_utc'', JStr (wp_registered_at_utc p)), (''schedule'', schedule_payload (wp_schedule p)),
     (''last_run_at_utc'', j_opt_str (wp_last_run_at_utc p)), (''last_run_status'', j_opt_str (wp_last_run_status p)),
     (''last_run_error'', j_opt_str (wp_last_run_error p))]"

definition workspace_payload :: "workspace_snapshot \<Rightarrow> json" where
  "workspace_payload s = JObj [(''version'', JInt (ws_version s)), (''projects'', JList (map project_payload (ws_projects s)))]"

definition stored_text :: "json \<Rightarrow> string option" where
  "stored_text j = (if j = JNull then None else let s = strip (py_str j) in if s = [] then None else Some s)"

definition schedule_from_payload :: "place_host \<Rightarrow> jobj \<Rightarrow> project_schedule res" where
  "schedule_from_payload h d =
     rbind (py_int (jget_or d ''interval_minutes'' (JInt 60))) (\<lambda>interval.
     make_schedule h \<lparr>ps_enabled = truthy (jget_or d ''enabled'' (JBool False)), ps_interval_minutes = interval,
       ps_next_run_at_utc = stored_text (jget d ''next_run_at_utc''),
       ps_final_audit = truthy (jget_or d ''final_audit'' (JBool False)),
       ps_notify_windows = truthy (jget_or d ''notify_windows'' (JBool True)),
       ps_notify_telegram = truthy (jget_or d ''notify_telegram'' (JBool False))\<rparr>)"

definition project_from_payload :: "place_host \<Rightarrow> json \<Rightarrow> workspace_project res" where
  "project_from_payload h j = (case j of
     JObj d \<Rightarrow> (case jor (jget d ''schedule'') (JObj []) of
         JObj sd \<Rightarrow>
           rbind (jitem d ''project_id'') (\<lambda>pid.
           rbind (jitem d ''name'') (\<lambda>name.
           rbind (jitem d ''root'') (\<lambda>root.
           rbind (jitem d ''registered_at_utc'') (\<lambda>at.
           rbind (schedule_from_payload h sd) (\<lambda>schedule.
           make_project h \<lparr>wp_project_id = py_str pid, wp_name = py_str name, wp_root = py_str root,
             wp_registered_at_utc = py_str at, wp_schedule = schedule,
             wp_last_run_at_utc = stored_text (jget d ''last_run_at_utc''),
             wp_last_run_status = stored_text (jget d ''last_run_status''),
             wp_last_run_error = stored_text (jget d ''last_run_error'')\<rparr>)))))
       | _ \<Rightarrow> Inl (ValueError ''Workspace project schedule must be an object.''))
   | _ \<Rightarrow> Inl (ValueError ''Workspace project entries must be objects.''))"

section \<open>The registry\<close>

record registry =
  rg_path :: path
  rg_file :: "json durable"
  rg_lock :: "string option"
  rg_budget :: "nat option"
  rg_fault :: string
  rg_clock :: "nat \<Rightarrow> int"
  rg_ticks :: nat

type_synonym 'a registry_op = "(registry, 'a) op"

definition registry_now :: "int registry_op" where
  "registry_now = (\<lambda>s. (Inr (rg_clock s (rg_ticks s)), s\<lparr>rg_ticks := Suc (rg_ticks s)\<rparr>))"

definition registry_hold :: "'a registry_op \<Rightarrow> 'a registry_op" where
  "registry_hold m = (\<lambda>s. case rg_lock s of Some t \<Rightarrow> (Inl (LockContendedError t), s) | None \<Rightarrow> m s)"

definition snapshot_from_payload :: "place_host \<Rightarrow> jobj \<Rightarrow> workspace_snapshot res" where
  "snapshot_from_payload h d =
     rbind (py_int (jget_or d ''version'' (JInt workspace_version))) (\<lambda>version.
     if version \<noteq> workspace_version then Inl (ValueError (''Unsupported workspace registry version: '' @ str_int version))
     else rbind (jitem d ''projects'') (\<lambda>items.
          rbind (py_iter items) (\<lambda>js.
          rbind (mapE (project_from_payload h) js) (\<lambda>ps.
          Inr \<lparr>ws_projects = ps, ws_version = version\<rparr>))))"

definition load_registry :: "place_host \<Rightarrow> registry \<Rightarrow> workspace_snapshot res" where
  "load_registry h s =
     rbind (read_json (rg_file s) (JObj [(''version'', JInt workspace_version), (''projects'', JList [])])) (\<lambda>payload.
     case payload of
       JObj d \<Rightarrow> (case jget_or d ''projects'' (JList []) of
           JList _ \<Rightarrow> snapshot_from_payload h d
         | _ \<Rightarrow> Inl (ValueError ''Workspace registry must contain a projects list.''))
     | _ \<Rightarrow> Inl (ValueError ''Workspace registry must contain a projects list.''))"

definition registry_write :: "workspace_project list \<Rightarrow> unit registry_op" where
  "registry_write ps = (\<lambda>s.
     let file = Content (workspace_payload \<lparr>ws_projects = ps, ws_version = workspace_version\<rparr>) in
     case rg_budget s of
       None \<Rightarrow> (Inr (), s\<lparr>rg_file := file\<rparr>)
     | Some 0 \<Rightarrow> (Inl (DurableIOError (''Could not durably write '' @ path_str (rg_path s) @ '': '' @ rg_fault s)), s)
     | Some (Suc n) \<Rightarrow> (Inr (), s\<lparr>rg_budget := Some n, rg_file := file\<rparr>))"

definition registry_replace :: "workspace_snapshot \<Rightarrow> workspace_project \<Rightarrow> unit registry_op" where
  "registry_replace snapshot p =
     registry_write (map (\<lambda>q. if wp_project_id q = wp_project_id p then p else q) (ws_projects snapshot))"

definition path_key :: "place_host \<Rightarrow> path \<Rightarrow> string" where
  "path_key h p = path_str (ph_resolve h p)"

definition validated_git_root :: "place_host \<Rightarrow> path \<Rightarrow> path res" where
  "validated_git_root h root =
     (let resolved = ph_resolve h root in
      if \<not> ph_is_dir h resolved then Inl (ValueError (''Project directory does not exist: '' @ path_str resolved))
      else if \<not> ph_exists h (path_join resolved (path_of ''.git'')) then Inl (ValueError (''Project is not a Git repository: '' @ path_str resolved))
      else Inr resolved)"

definition find_project :: "workspace_snapshot \<Rightarrow> string \<Rightarrow> workspace_project res" where
  "find_project snapshot pid = (case List.find (\<lambda>p. wp_project_id p = strip pid) (ws_projects snapshot) of
     None \<Rightarrow> Inl (ValueError (''Unknown workspace project: '' @ pid)) | Some p \<Rightarrow> Inr p)"

definition project_key :: "place_host \<Rightarrow> path \<Rightarrow> string" where
  "project_key h resolved = take 16 (ph_sha256 h (path_key h resolved))"

definition same_place :: "place_host \<Rightarrow> path \<Rightarrow> workspace_project \<Rightarrow> bool" where
  "same_place h resolved p \<longleftrightarrow> path_key h (path_of (wp_root p)) = path_key h resolved"

text \<open>The first project of that place takes the new name, a new place is appended.\<close>

fun put_project :: "place_host \<Rightarrow> path \<Rightarrow> workspace_project \<Rightarrow> workspace_project list \<Rightarrow> workspace_project \<times> workspace_project list" where
  "put_project h resolved candidate [] = (candidate, [candidate])"
| "put_project h resolved candidate (p # ps) =
     (if same_place h resolved p then (p\<lparr>wp_name := wp_name candidate\<rparr>, p\<lparr>wp_name := wp_name candidate\<rparr> # ps)
      else let (c, qs) = put_project h resolved candidate ps in (c, p # qs))"

definition register_project :: "place_host \<Rightarrow> path \<Rightarrow> string option \<Rightarrow> workspace_project registry_op" where
  "register_project h root name =
     mbind (lift_res (validated_git_root h root)) (\<lambda>resolved.
     mbind registry_now (\<lambda>now.
     mbind (lift_res (time_text h now)) (\<lambda>at.
     mbind (lift_res (make_project h \<lparr>wp_project_id = project_key h resolved, wp_name = strip (or_text name (path_name resolved)),
         wp_root = path_str resolved, wp_registered_at_utc = at, wp_schedule = default_schedule,
         wp_last_run_at_utc = None, wp_last_run_status = None, wp_last_run_error = None\<rparr>)) (\<lambda>candidate.
     registry_hold (mbind (gets (load_registry h)) (\<lambda>snapshot.
       let (c, ps) = put_project h resolved candidate (ws_projects snapshot) in
       mbind (lift_res (make_project h c)) (\<lambda>c'.
       mseq (registry_write ps) (ret c'))))))))"

definition remove_project :: "place_host \<Rightarrow> string \<Rightarrow> workspace_project registry_op" where
  "remove_project h pid = registry_hold
     (mbind (gets (load_registry h)) (\<lambda>snapshot.
      mbind (lift_res (find_project snapshot pid)) (\<lambda>p.
      mseq (registry_write (filter (\<lambda>q. wp_project_id q \<noteq> wp_project_id p) (ws_projects snapshot))) (ret p))))"

record schedule_request =
  sr_enabled :: bool
  sr_interval_minutes :: int
  sr_final_audit :: bool
  sr_notify_windows :: bool
  sr_notify_telegram :: bool
  sr_start_immediately :: bool

text \<open>The text of the next run of an enabled schedule.\<close>

definition next_run :: "place_host \<Rightarrow> bool \<Rightarrow> int \<Rightarrow> string option res" where
  "next_run h enabled t = (if enabled then rbind (time_text h t) (\<lambda>s. Inr (Some s)) else Inr None)"

definition configure_schedule :: "place_host \<Rightarrow> string \<Rightarrow> schedule_request \<Rightarrow> workspace_project registry_op" where
  "configure_schedule h pid rq = registry_hold
     (mbind (gets (load_registry h)) (\<lambda>snapshot.
      mbind (lift_res (find_project snapshot pid)) (\<lambda>p.
      mbind (if sr_enabled rq then registry_now else ret 0) (\<lambda>now.
      mbind (lift_res (next_run h (sr_enabled rq) (now + minutes (if sr_start_immediately rq then 0 else sr_interval_minutes rq)))) (\<lambda>at.
      mbind (lift_res (make_schedule h \<lparr>ps_enabled = sr_enabled rq, ps_interval_minutes = sr_interval_minutes rq,
         ps_next_run_at_utc = at, ps_final_audit = sr_final_audit rq, ps_notify_windows = sr_notify_windows rq,
         ps_notify_telegram = sr_notify_telegram rq\<rparr>)) (\<lambda>schedule.
      mbind (lift_res (make_project h (p\<lparr>wp_schedule := schedule\<rparr>))) (\<lambda>p'.
      mseq (registry_replace snapshot p') (ret p'))))))))"

text \<open>A comprehension with a condition that may raise.\<close>

fun filterE :: "('a \<Rightarrow> bool res) \<Rightarrow> 'a list \<Rightarrow> 'a list res" where
  "filterE f [] = Inr []"
| "filterE f (x # xs) = rbind (f x) (\<lambda>b. rbind (filterE f xs) (\<lambda>ys. Inr (if b then x # ys else ys)))"

definition is_due :: "place_host \<Rightarrow> int \<Rightarrow> workspace_project \<Rightarrow> bool res" where
  "is_due h now p = (case ps_next_run_at_utc (wp_schedule p) of
     None \<Rightarrow> Inr False
   | Some t \<Rightarrow> if \<not> ps_enabled (wp_schedule p) then Inr False else rbind (parse_utc h t) (\<lambda>at. Inr (at \<le> now)))"

definition due_projects :: "place_host \<Rightarrow> int \<Rightarrow> registry \<Rightarrow> workspace_project list res" where
  "due_projects h now s = rbind (load_registry h s) (\<lambda>snapshot. filterE (is_due h now) (ws_projects snapshot))"

definition some_text :: "string \<Rightarrow> string option" where
  "some_text s = (if s = [] then None else Some s)"

definition run_status :: "string \<Rightarrow> string" where
  "run_status status = (let t = strip status in if t = [] then ''unknown'' else t)"

definition record_run :: "place_host \<Rightarrow> string \<Rightarrow> string \<Rightarrow> string option \<Rightarrow> workspace_project registry_op" where
  "record_run h pid status error =
     mbind registry_now (\<lambda>now. registry_hold
     (mbind (gets (load_registry h)) (\<lambda>snapshot.
      mbind (lift_res (find_project snapshot pid)) (\<lambda>p.
      let schedule = wp_schedule p in
      mbind (lift_res (next_run h (ps_enabled schedule) (now + minutes (ps_interval_minutes schedule)))) (\<lambda>due.
      mbind (lift_res (make_schedule h (schedule\<lparr>ps_next_run_at_utc := due\<rparr>))) (\<lambda>schedule'.
      mbind (lift_res (time_text h now)) (\<lambda>at.
      mbind (lift_res (make_project h (p\<lparr>wp_schedule := schedule', wp_last_run_at_utc := Some at,
          wp_last_run_status := Some (run_status status),
          wp_last_run_error := some_text (strip (or_text error []))\<rparr>))) (\<lambda>p'.
      mseq (registry_replace snapshot p') (ret p')))))))))"

section \<open>Summaries\<close>

record project_summary =
  pq_project_id :: string
  pq_name :: string
  pq_root :: string
  pq_exists :: bool
  pq_queued :: nat
  pq_ready :: nat
  pq_waiting :: nat
  pq_running :: nat
  pq_review_pending :: nat
  pq_rework_required :: nat
  pq_escalated :: nat
  pq_rolled_back :: nat
  pq_failed :: nat
  pq_done :: nat
  pq_next_task_id :: "string option"
  pq_next_task_title :: "string option"
  pq_schedule :: project_schedule
  pq_last_run_status :: "string option"
  pq_error :: "string option"

text \<open>The schedule's five fields of the summary are kept together.\<close>

definition empty_summary :: "workspace_project \<Rightarrow> bool \<Rightarrow> string option \<Rightarrow> project_summary" where
  "empty_summary p available error = \<lparr>pq_project_id = wp_project_id p, pq_name = wp_name p, pq_root = wp_root p, pq_exists = available,
     pq_queued = 0, pq_ready = 0, pq_waiting = 0, pq_running = 0, pq_review_pending = 0, pq_rework_required = 0, pq_escalated = 0,
     pq_rolled_back = 0, pq_failed = 0, pq_done = 0, pq_next_task_id = None, pq_next_task_title = None,
     pq_schedule = wp_schedule p, pq_last_run_status = wp_last_run_status p, pq_error = error\<rparr>"

definition queue_summary :: "workspace_project \<Rightarrow> store \<Rightarrow> project_summary res" where
  "queue_summary p s =
     rbind (list_tasks s) (\<lambda>tasks.
     rbind (store_schedule s) (\<lambda>q.
     let latest = latest_tasks tasks in
     Inr ((empty_summary p True None)\<lparr>pq_queued := count_status Queued latest, pq_ready := length (qs_ready q),
       pq_waiting := length (qs_waiting q), pq_running := count_status Running latest,
       pq_review_pending := count_status Review_Pending latest, pq_rework_required := count_status Rework_Required latest,
       pq_escalated := count_status Escalated latest, pq_rolled_back := count_status Rolled_Back latest,
       pq_failed := count_status Failed latest, pq_done := count_status Done latest,
       pq_next_task_id := map_option task_id (qs_selected q),
       pq_next_task_title := map_option (\<lambda>t. wi_title (qt_work_item t)) (qs_selected q)\<rparr>)))"

fun is_runtime_error :: "exn \<Rightarrow> bool" where
  "is_runtime_error (StateStoreError _) = True"
| "is_runtime_error (LockContendedError _) = True"
| "is_runtime_error (CoordinationError _) = True"
| "is_runtime_error (OperationLedgerError _) = True"
| "is_runtime_error (ReconciliationBlockedError _) = True"
| "is_runtime_error (GitError _) = True"
| "is_runtime_error (ReviewProtocolError _) = True"
| "is_runtime_error (RollbackError _) = True"
| "is_runtime_error (TelegramError _) = True"
| "is_runtime_error (AttemptError _) = True"
| "is_runtime_error (ModelProviderError _) = True"
| "is_runtime_error (SupervisorChatError _) = True"
| "is_runtime_error (A2AError _) = True"
| "is_runtime_error (A2APushError _) = True"
| "is_runtime_error (HeadlessServerError _) = True"
| "is_runtime_error (CriticAdapterError _) = True"
| "is_runtime_error (WorkerAdapterError _) = True"
| "is_runtime_error (UpdateError _) = True"
| "is_runtime_error (SignedCatalogError _) = True"
| "is_runtime_error _ = False"

text \<open>\<open>except (OSError, RuntimeError, ValueError)\<close>\<close>

definition is_ordinary_error :: "exn \<Rightarrow> bool" where
  "is_ordinary_error e \<longleftrightarrow> is_os_error e \<or> is_runtime_error e \<or> is_value_error e"

definition summarize_project :: "place_host \<Rightarrow> (path \<Rightarrow> store) \<Rightarrow> workspace_project \<Rightarrow> project_summary res" where
  "summarize_project h stores p =
     (let root = path_of (wp_root p) in
      if \<not> ph_is_dir h root \<or> \<not> ph_exists h (path_join root (path_of ''.git''))
      then Inr (empty_summary p False (Some ''Registered Git project is unavailable.''))
      else case queue_summary p (stores root) of
        Inl e \<Rightarrow> if is_ordinary_error e then Inr (empty_summary p True (Some (exn_message e))) else Inl e
      | Inr r \<Rightarrow> Inr r)"

definition project_summaries :: "place_host \<Rightarrow> (path \<Rightarrow> store) \<Rightarrow> registry \<Rightarrow> project_summary list res" where
  "project_summaries h stores s = rbind (load_registry h s) (\<lambda>snapshot. mapE (summarize_project h stores) (ws_projects snapshot))"

end
