(* ===== verification/Background.thy ===== *)
theory Background imports Workspace Telegram begin

text \<open>
  Running the queues of the projects that are due (\<open>src/llm_harness/background_scheduler.py\<close>): one
  process per project, what its output says, the notifications about it and the record in the registry.

  The process and the desktop are parameters that may change the machine, the registry included: other
  programs work on it meanwhile.
\<close>

section \<open>The machine\<close>

record 'r scheduler_world =
  sd_registry :: registry
  sd_chat :: "'r chat_world"

type_synonym ('r, 'a) scheduler_op = "('r scheduler_world, 'a) op"

datatype run_reply = Completed int string string | Launch_Failed string

record desktop_record =
  dn_delivered :: bool
  dn_error :: "string option"

record 'r scheduler_host =
  sh_places :: place_host
  sh_executable :: string
  sh_run :: "string list \<Rightarrow> path \<Rightarrow> 'r scheduler_world \<Rightarrow> run_reply \<times> 'r scheduler_world"
  sh_desktop :: "string \<Rightarrow> string \<Rightarrow> 'r scheduler_world \<Rightarrow> desktop_record \<times> 'r scheduler_world"
  sh_config :: "path \<Rightarrow> telegram_config res"
  sh_environment :: "string \<Rightarrow> string option"
  sh_bot :: bot_service

definition in_registry :: "'a registry_op \<Rightarrow> ('r, 'a) scheduler_op" where
  "in_registry m = (\<lambda>s. let (x, t) = m (sd_registry s) in (x, s\<lparr>sd_registry := t\<rparr>))"

definition in_chat :: "('r, 'a) chat_op \<Rightarrow> ('r, 'a) scheduler_op" where
  "in_chat m = (\<lambda>s. let (x, t) = m (sd_chat s) in (x, s\<lparr>sd_chat := t\<rparr>))"

definition acting :: "('s \<Rightarrow> 'a \<times> 's) \<Rightarrow> ('s, 'a) op" where
  "acting f = (\<lambda>s. let (x, t) = f s in (Inr x, t))"

section \<open>One project\<close>

record scheduled_result =
  sc_project_id :: string
  sc_name :: string
  sc_root :: string
  sc_command :: "string list"
  sc_return_code :: int
  sc_status :: string
  sc_completed :: int
  sc_stdout :: string
  sc_stderr :: string
  sc_notification_errors :: "string list"

definition scheduled_ok :: "scheduled_result \<Rightarrow> bool" where
  "scheduled_ok r \<longleftrightarrow> sc_return_code r = 0"

definition scheduled_result_payload :: "scheduled_result \<Rightarrow> json" where
  "scheduled_result_payload r = JObj [(''project_id'', JStr (sc_project_id r)), (''name'', JStr (sc_name r)), (''root'', JStr (sc_root r)),
     (''command'', j_strs (sc_command r)), (''return_code'', JInt (sc_return_code r)), (''status'', JStr (sc_status r)),
     (''completed'', JInt (sc_completed r)), (''stdout'', JStr (sc_stdout r)), (''stderr'', JStr (sc_stderr r)),
     (''notification_errors'', j_strs (sc_notification_errors r)), (''ok'', JBool (scheduled_ok r))]"

definition plain_status :: "int \<Rightarrow> string" where
  "plain_status return_code = (if return_code = 0 then ''completed'' else ''failed'')"

definition parse_run_output :: "string \<Rightarrow> int \<Rightarrow> string \<times> int" where
  "parse_run_output stdout return_code =
     (let unread = (plain_status return_code, 0) in
      case loads stdout of
        Some (JObj d) \<Rightarrow> (case jget d ''data'' of
            JObj data \<Rightarrow> (case py_int (jget_or data ''completed'' (JInt 0)) of
                Inl _ \<Rightarrow> unread
              | Inr n \<Rightarrow> (py_str (jor (jget data ''status'') (JStr (plain_status return_code))), n))
          | _ \<Rightarrow> unread)
      | _ \<Rightarrow> unread)"

definition queue_command :: "string \<Rightarrow> workspace_project \<Rightarrow> string list" where
  "queue_command executable p =
     [executable, ''-m'', ''llm_harness'', ''queue-run-loop'', ''--project-root'', path_str (path_of (wp_root p)), ''--json'']
     @ (if ps_final_audit (wp_schedule p) then [''--final-audit''] else [])"

definition run_result :: "workspace_project \<Rightarrow> string list \<Rightarrow> run_reply \<Rightarrow> scheduled_result" where
  "run_result p command reply = (case reply of
     Completed return_code stdout stderr \<Rightarrow>
       let (status, count) = parse_run_output stdout return_code in
       \<lparr>sc_project_id = wp_project_id p, sc_name = wp_name p, sc_root = wp_root p, sc_command = command,
         sc_return_code = return_code, sc_status = status, sc_completed = count, sc_stdout = stdout, sc_stderr = stderr,
         sc_notification_errors = []\<rparr>
   | Launch_Failed m \<Rightarrow>
       \<lparr>sc_project_id = wp_project_id p, sc_name = wp_name p, sc_root = wp_root p, sc_command = command,
         sc_return_code = 1, sc_status = ''launch_failed'', sc_completed = 0, sc_stdout = [], sc_stderr = m,
         sc_notification_errors = []\<rparr>)"

text \<open>The three kinds of notice are one method for a bot; a stub only collects texts.\<close>

definition notify_chat :: "bot_service \<Rightarrow> notifier \<Rightarrow> string \<Rightarrow> ('r, unit) chat_op" where
  "notify_chat svc n msg = (case n of Stub_Notifier \<Rightarrow> ret () | Bot_Notifier _ chat \<Rightarrow> send_message svc chat msg)"

definition notice_title :: "workspace_project \<Rightarrow> string" where
  "notice_title p = ''HoH '' @ [CHR 0xB7] @ '' '' @ wp_name p"

definition notice_text :: "scheduled_result \<Rightarrow> string" where
  "notice_text r = ''status='' @ sc_status r @ '' '' @ [CHR 0xB7] @ '' completed='' @ str_int (sc_completed r)"

definition notify_desktop :: "'r scheduler_host \<Rightarrow> workspace_project \<Rightarrow> scheduled_result \<Rightarrow> ('r, string list) scheduler_op" where
  "notify_desktop h p r = (if \<not> ps_notify_windows (wp_schedule p) then ret []
     else mbind (acting (sh_desktop h (notice_title p) (notice_text r))) (\<lambda>d.
          ret (if dn_delivered d then [] else [''desktop: '' @ or_text (dn_error d) ''delivery failed''])))"

definition notify_telegram :: "'r scheduler_host \<Rightarrow> workspace_project \<Rightarrow> scheduled_result \<Rightarrow> ('r, string list) scheduler_op" where
  "notify_telegram h p r = (if \<not> ps_notify_telegram (wp_schedule p) then ret []
     else mbind (attempt is_ordinary_error
            (mbind (lift_res (sh_config h (path_of (wp_root p)))) (\<lambda>c.
             mseq (require (tc_enabled c) (ValueError ''Telegram summary is enabled for the schedule but disabled in project config.''))
            (mbind (lift_res (build_notifier c (sh_environment h))) (\<lambda>n.
             in_chat (notify_chat (sh_bot h) n (notice_title p @ [CHR 0x0A] @ notice_text r))))))) (\<lambda>result.
          ret (case result of Inl e \<Rightarrow> [''telegram: '' @ exn_message e] | Inr _ \<Rightarrow> [])))"

definition send_notifications :: "'r scheduler_host \<Rightarrow> workspace_project \<Rightarrow> scheduled_result \<Rightarrow> ('r, string list) scheduler_op" where
  "send_notifications h p r =
     mbind (notify_desktop h p r) (\<lambda>first. mbind (notify_telegram h p r) (\<lambda>more. ret (first @ more)))"

definition run_registered_project :: "'r scheduler_host \<Rightarrow> workspace_project \<Rightarrow> ('r, scheduled_result) scheduler_op" where
  "run_registered_project h p =
     (let command = queue_command (sh_executable h) p in
      mbind (acting (sh_run h command (path_of (wp_root p)))) (\<lambda>reply.
      let r = run_result p command reply in
      mbind (send_notifications h p r) (\<lambda>errors. ret (r\<lparr>sc_notification_errors := errors\<rparr>))))"

definition run_error :: "scheduled_result \<Rightarrow> string option" where
  "run_error r = (if scheduled_ok r \<and> sc_notification_errors r = [] then None
     else Some (let text = join '' | '' (filter (\<lambda>x. x \<noteq> []) (strip (sc_stderr r) # sc_notification_errors r))
                in if text = [] then ''queue-run-loop exit '' @ str_int (sc_return_code r) else text))"

section \<open>All that are due\<close>

fun run_projects :: "'r scheduler_host \<Rightarrow> workspace_project list \<Rightarrow> ('r, scheduled_result list) scheduler_op" where
  "run_projects h [] = ret []"
| "run_projects h (p # ps) =
     mbind (run_registered_project h p) (\<lambda>r.
     mseq (in_registry (record_run (sh_places h) (wp_project_id p) (sc_status r) (run_error r)))
    (mbind (run_projects h ps) (\<lambda>rs. ret (r # rs))))"

definition run_due_projects :: "'r scheduler_host \<Rightarrow> ('r, scheduled_result list) scheduler_op" where
  "run_due_projects h =
     mbind (in_registry registry_now) (\<lambda>now.
     mbind (in_registry (gets (due_projects (sh_places h) now))) (run_projects h))"

section \<open>The service that calls it\<close>

text \<open>\<open>src/llm_harness/scheduler_service.py\<close>: the script of the platform that registers the periodic call.\<close>

record service_host =
  so_system :: string
  so_which :: "string \<Rightarrow> string option"
  so_is_file :: "path \<Rightarrow> bool"
  so_root :: path

record service_result =
  sx_action :: string
  sx_command :: "string list"
  sx_return_code :: int
  sx_stdout :: string
  sx_stderr :: string

definition service_ok :: "service_result \<Rightarrow> bool" where
  "service_ok r \<longleftrightarrow> sx_return_code r = 0"

definition service_shell :: "service_host \<Rightarrow> (string option \<times> path) res" where
  "service_shell h =
     (if so_system h = ''Windows'' then
        Inr (case or_option (so_which h ''powershell.exe'') None of Some e \<Rightarrow> Some e | None \<Rightarrow> or_option (so_which h ''powershell'') None,
             path_join (so_root h) (path_of ''scripts/register-workspace-scheduler-task.ps1''))
      else if so_system h \<in> {''Linux'', ''Darwin''} then
        Inr (or_option (so_which h ''bash'') None, path_join (so_root h) (path_of ''scripts/register-workspace-scheduler.sh''))
      else Inl (ValueError (''Scheduler service integration is unsupported on '' @ so_system h @ ''.'')))"

definition service_command :: "service_host \<Rightarrow> string \<Rightarrow> path \<Rightarrow> string \<Rightarrow> int \<Rightarrow> bool \<Rightarrow> string list" where
  "service_command h executable script action every run_now =
     (if so_system h = ''Windows'' then
        [executable, ''-NoProfile'', ''-ExecutionPolicy'', ''Bypass'', ''-File'', path_str script, ''-DistributionRoot'', path_str (so_root h)]
        @ (if action = ''install'' then [''-EveryMinutes'', str_int every] @ (if run_now then [''-RunNow''] else [])
           else if action = ''uninstall'' then [''-Unregister''] else [''-Status''])
      else
        [executable, path_str script, ''--'' @ action, ''--distribution'', path_str (so_root h)]
        @ (if action = ''install'' then [''--every'', str_int every] @ (if run_now then [''--run-now''] else []) else []))"

definition manage_scheduler_service ::
  "service_host \<Rightarrow> (string list \<Rightarrow> 's \<Rightarrow> (int \<times> string \<times> string) \<times> 's) \<Rightarrow> string \<Rightarrow> int \<Rightarrow> bool \<Rightarrow> ('s, service_result) op" where
  "manage_scheduler_service h runner action every run_now =
     (let normalized = casefold (strip action) in
      mseq (require (normalized \<in> {''install'', ''uninstall'', ''status''}) (ValueError (''Unsupported scheduler service action: '' @ action)))
     (mseq (require (1 \<le> every) (ValueError ''Scheduler service interval must be at least one minute.''))
     (mbind (lift_res (service_shell h)) (\<lambda>(shell, script).
      case shell of
        None \<Rightarrow> raise (ValueError (''Scheduler service shell is unavailable on '' @ so_system h @ ''.''))
      | Some executable \<Rightarrow>
          mseq (require (so_is_file h script) (ValueError (''Scheduler registration script is missing: '' @ path_str script)))
         (let command = service_command h executable script normalized every run_now in
          mbind (acting (runner command)) (\<lambda>(return_code, stdout, stderr).
          ret \<lparr>sx_action = normalized, sx_command = command, sx_return_code = return_code, sx_stdout = stdout, sx_stderr = stderr\<rparr>))))))"

end
