(* ===== verification/Workspace_Facts.thy ===== *)
theory Workspace_Facts imports Background Field_Read begin

text \<open>
  What every operation of the registry keeps: the file can be read, its projects are well formed, every
  place occurs once and the identifier of a project is the digest of its place.
\<close>

section \<open>Assumptions about the machine\<close>

text \<open>What \<open>isoformat\<close> writes is read back by \<open>fromisoformat\<close> as the same instant.\<close>

definition calendar_ok :: "place_host \<Rightarrow> bool" where
  "calendar_ok h \<longleftrightarrow> (\<forall>t s. ph_format h t = Some s \<longrightarrow> parse_utc h s = Inr t \<and> clean s)"

text \<open>A resolved path resolves to itself; \<open>R\<close> are the places that occur.\<close>

definition places_ok :: "place_host \<Rightarrow> string set \<Rightarrow> bool" where
  "places_ok h R \<longleftrightarrow> (\<forall>p. path_wf (ph_resolve h p) \<and> ph_resolve h (ph_resolve h p) = ph_resolve h p \<and> path_str (ph_resolve h p) \<in> R)"

text \<open>The digests of the places that occur are different; they are hexadecimal, hence without blanks around them.\<close>

definition digests_ok :: "place_host \<Rightarrow> string set \<Rightarrow> bool" where
  "digests_ok h R \<longleftrightarrow> inj_on (\<lambda>r. take 16 (ph_sha256 h r)) R \<and> (\<forall>r \<in> R. clean (take 16 (ph_sha256 h r)))"

section \<open>The stored form\<close>

definition text_ok :: "string option \<Rightarrow> bool" where
  "text_ok t \<longleftrightarrow> (case t of None \<Rightarrow> True | Some s \<Rightarrow> clean s)"

definition project_ok :: "place_host \<Rightarrow> workspace_project \<Rightarrow> bool" where
  "project_ok h p \<longleftrightarrow> make_project h p = Inr p \<and> make_schedule h (wp_schedule p) = Inr (wp_schedule p)
     \<and> text_ok (ps_next_run_at_utc (wp_schedule p)) \<and> text_ok (wp_last_run_at_utc p) \<and> text_ok (wp_last_run_status p)
     \<and> text_ok (wp_last_run_error p)"

lemma stored_text_ok: "text_ok (stored_text j)"
  by (simp add: text_ok_def stored_text_def Let_def strip_clean)

lemma stored_text_read: "text_ok t \<Longrightarrow> stored_text (j_opt_str t) = t"
  by (cases t) (auto simp: text_ok_def stored_text_def j_opt_str_def py_str_def clean_def)

lemma make_schedule_id: "make_schedule h s = Inr t \<Longrightarrow> t = s"
  by (auto simp: make_schedule_def rbind_Inr_iff split: if_splits)

lemma make_project_id: "make_project h p = Inr q \<Longrightarrow> q = p"
  by (auto simp: make_project_def rbind_Inr_iff split: if_splits)

lemma schedule_read:
  "make_schedule h s = Inr s \<Longrightarrow> text_ok (ps_next_run_at_utc s) \<Longrightarrow>
     schedule_from_payload h [(''enabled'', JBool (ps_enabled s)), (''interval_minutes'', JInt (ps_interval_minutes s)),
       (''next_run_at_utc'', j_opt_str (ps_next_run_at_utc s)), (''final_audit'', JBool (ps_final_audit s)),
       (''notify_windows'', JBool (ps_notify_windows s)), (''notify_telegram'', JBool (ps_notify_telegram s))] = Inr s"
  by (cases s) (simp add: schedule_from_payload_def jget_def py_int_def stored_text_read)

lemma project_read: "project_ok h p \<Longrightarrow> project_from_payload h (project_payload p) = Inr p"
  by (cases p) (simp add: project_ok_def project_payload_def project_from_payload_def jget_def jitem_def jor_def
      schedule_payload_def schedule_read stored_text_read py_str_def)

lemma schedule_from_payload_ok:
  "schedule_from_payload h d = Inr s \<Longrightarrow> make_schedule h s = Inr s \<and> text_ok (ps_next_run_at_utc s)"
proof -
  assume "schedule_from_payload h d = Inr s"
  then obtain raw where "make_schedule h raw = Inr s" "text_ok (ps_next_run_at_utc raw)"
    unfolding schedule_from_payload_def rbind_Inr_iff by (auto simp: stored_text_ok)
  then show ?thesis using make_schedule_id by blast
qed

lemma project_from_payload_ok: "project_from_payload h j = Inr p \<Longrightarrow> project_ok h p"
proof -
  assume r: "project_from_payload h j = Inr p"
  then obtain raw sd where made: "make_project h raw = Inr p" "schedule_from_payload h sd = Inr (wp_schedule raw)"
    "text_ok (wp_last_run_at_utc raw)" "text_ok (wp_last_run_status raw)" "text_ok (wp_last_run_error raw)"
    unfolding project_from_payload_def by (auto simp: rbind_Inr_iff stored_text_ok split: json.splits)
  then have "raw = p" using make_project_id by blast
  then show ?thesis using made schedule_from_payload_ok unfolding project_ok_def by blast
qed

section \<open>The file\<close>

definition projects_ok :: "place_host \<Rightarrow> string set \<Rightarrow> workspace_project list \<Rightarrow> bool" where
  "projects_ok h R ps \<longleftrightarrow> list_all (project_ok h) ps \<and> distinct (map wp_root ps)
     \<and> list_all (\<lambda>p. wp_project_id p = take 16 (ph_sha256 h (wp_root p)) \<and> wp_root p \<in> R) ps"

definition registry_ok :: "place_host \<Rightarrow> string set \<Rightarrow> registry \<Rightarrow> bool" where
  "registry_ok h R s \<longleftrightarrow> (\<exists>ps. load_registry h s = Inr \<lparr>ws_projects = ps, ws_version = workspace_version\<rparr> \<and> projects_ok h R ps)"

lemma load_written:
  assumes "list_all (project_ok h) ps" "rg_file s = Content (workspace_payload \<lparr>ws_projects = ps, ws_version = workspace_version\<rparr>)"
  shows "load_registry h s = Inr \<lparr>ws_projects = ps, ws_version = workspace_version\<rparr>"
proof -
  have "mapE (project_from_payload h) (map project_payload ps) = Inr (map id ps)"
    using assms(1) by (intro mapE_map_Inr) (auto simp: list_all_iff project_read)
  then show ?thesis using assms(2)
    by (simp add: load_registry_def snapshot_from_payload_def read_json_def workspace_payload_def jitem_def py_int_def py_iter_def)
qed

lemma load_typed: "load_registry h s = Inr snapshot \<Longrightarrow> list_all (project_ok h) (ws_projects snapshot) \<and> ws_version snapshot = workspace_version"
proof -
  assume "load_registry h s = Inr snapshot"
  then obtain d where "snapshot_from_payload h d = Inr snapshot"
    unfolding load_registry_def rbind_Inr_iff by (elim exE conjE) (auto split: json.split_asm)
  then obtain js where "mapE (project_from_payload h) js = Inr (ws_projects snapshot)" "ws_version snapshot = workspace_version"
    unfolding snapshot_from_payload_def by (auto simp: rbind_Inr_iff split: if_splits)
  then show ?thesis using project_from_payload_ok by (fastforce simp: mapE_Inr_iff list_all2_conv_all_nth list_all_length)
qed

lemma registry_load_cong: "rg_file s = rg_file t \<Longrightarrow> load_registry h s = load_registry h t"
  by (simp add: load_registry_def)

text \<open>A write is whole or does nothing.\<close>

lemma registry_write_cases:
  "registry_write ps s = (r, s') \<Longrightarrow>
     (r = Inr () \<and> rg_file s' = Content (workspace_payload \<lparr>ws_projects = ps, ws_version = workspace_version\<rparr>)
        \<and> rg_clock s' = rg_clock s \<and> rg_ticks s' = rg_ticks s) \<or> ((\<exists>e. r = Inl e) \<and> s' = s)"
  by (auto simp: registry_write_def Let_def split: option.splits nat.splits)

section \<open>Steps\<close>

text \<open>What a call may do to the list of projects: add a new place, change one project without moving it, remove one.\<close>

inductive registry_step :: "place_host \<Rightarrow> string set \<Rightarrow> workspace_project list \<Rightarrow> workspace_project list \<Rightarrow> bool" for h R where
  added: "project_ok h p \<Longrightarrow> wp_root p \<in> R \<Longrightarrow> wp_project_id p = take 16 (ph_sha256 h (wp_root p)) \<Longrightarrow> wp_root p \<notin> wp_root ` set ps
    \<Longrightarrow> registry_step h R ps (ps @ [p])"
| changed: "ps = xs @ p # ys \<Longrightarrow> project_ok h q \<Longrightarrow> wp_project_id q = wp_project_id p \<Longrightarrow> wp_root q = wp_root p
    \<Longrightarrow> wp_registered_at_utc q = wp_registered_at_utc p \<Longrightarrow> registry_step h R ps (xs @ q # ys)"
| removed: "ps = xs @ p # ys \<Longrightarrow> registry_step h R ps (xs @ ys)"

inductive_cases registry_step_cases: "registry_step h R ps qs"

lemma step_ok: "registry_step h R ps qs \<Longrightarrow> projects_ok h R ps \<Longrightarrow> projects_ok h R qs"
  by (induction rule: registry_step.induct) (auto simp: projects_ok_def)

lemma ids_distinct: "projects_ok h R ps \<Longrightarrow> digests_ok h R \<Longrightarrow> distinct (map wp_project_id ps)"
proof (induction ps)
  case (Cons p ps)
  have "wp_project_id q \<noteq> wp_project_id p" if q: "q \<in> set ps" for q
  proof
    assume "wp_project_id q = wp_project_id p"
    then have "wp_root q = wp_root p"
      using Cons.prems q by (auto simp: projects_ok_def digests_ok_def list_all_iff dest: inj_onD)
    then show False using Cons.prems(1) q by (auto simp: projects_ok_def) (metis image_eqI)
  qed
  then show ?case using Cons by (fastforce simp: projects_ok_def)
qed simp

lemma replace_one:
  "distinct (map wp_project_id (xs @ p # ys)) \<Longrightarrow> wp_project_id q = wp_project_id p \<Longrightarrow>
     map (\<lambda>x. if wp_project_id x = wp_project_id q then q else x) (xs @ p # ys) = xs @ q # ys"
  by (auto simp: image_iff intro!: map_idI)

lemma filter_one:
  "distinct (map wp_project_id (xs @ p # ys)) \<Longrightarrow> filter (\<lambda>x. wp_project_id x \<noteq> wp_project_id p) (xs @ p # ys) = xs @ ys"
  by (auto simp: image_iff intro!: arg_cong2 [where f = "(@)"] filter_True)

lemma put_project_cases:
  "put_project h k cand ps = (c, qs) \<Longrightarrow>
     (\<exists>xs p ys. ps = xs @ p # ys \<and> c = p\<lparr>wp_name := wp_name cand\<rparr> \<and> qs = xs @ c # ys)
     \<or> ((\<forall>p \<in> set ps. \<not> same_place h k p) \<and> c = cand \<and> qs = ps @ [cand])"
proof (induction ps arbitrary: qs)
  case (Cons p ps)
  show ?case
  proof (cases "same_place h k p")
    case False
    then obtain rest where rest: "put_project h k cand ps = (c, rest)" "qs = p # rest"
      using Cons.prems by (auto split: prod.splits)
    from Cons.IH [OF rest(1)] show ?thesis
    proof (elim disjE exE conjE)
      fix xs q ys assume "ps = xs @ q # ys" "c = q\<lparr>wp_name := wp_name cand\<rparr>" "rest = xs @ c # ys"
      then show ?thesis using rest(2) by (intro disjI1 exI [of _ "p # xs"]) auto
    qed (use False rest(2) in auto)
  qed (use Cons.prems in force)
qed simp

lemma find_project_split:
  "find_project snapshot pid = Inr p \<Longrightarrow> \<exists>xs ys. ws_projects snapshot = xs @ p # ys \<and> wp_project_id p = strip pid"
  unfolding find_project_def by (auto split: option.splits dest!: find_SomeD dest: split_list)

section \<open>Calls\<close>

definition file_same :: "registry \<Rightarrow> registry \<Rightarrow> bool" where
  "file_same s t \<longleftrightarrow> rg_file t = rg_file s"

interpretation file_same: effect file_same
  by unfold_locales (auto simp: file_same_def)

text \<open>From the projects \<open>ps\<close> the call makes one step or none.\<close>

definition stepping :: "place_host \<Rightarrow> string set \<Rightarrow> workspace_project list \<Rightarrow> 'a registry_op \<Rightarrow> bool" where
  "stepping h R ps m \<longleftrightarrow> (\<forall>s. load_registry h s = Inr \<lparr>ws_projects = ps, ws_version = workspace_version\<rparr> \<longrightarrow>
     rg_file (snd (m s)) = rg_file s
     \<or> (\<exists>qs. registry_step h R ps qs \<and> rg_file (snd (m s)) = Content (workspace_payload \<lparr>ws_projects = qs, ws_version = workspace_version\<rparr>)))"

lemma stepping_bind:
  assumes m: "within file_same m" and k: "\<And>x. stepping h R ps (k x)"
  shows "stepping h R ps (mbind m k)"
  unfolding stepping_def
proof (intro allI impI)
  fix s assume l: "load_registry h s = Inr \<lparr>ws_projects = ps, ws_version = workspace_version\<rparr>"
  obtain r s1 where r: "m s = (r, s1)" by fastforce
  then have f: "rg_file s1 = rg_file s" using withinD [OF m] by (simp add: file_same_def)
  then have "load_registry h s1 = Inr \<lparr>ws_projects = ps, ws_version = workspace_version\<rparr>" using l registry_load_cong by metis
  then show "rg_file (snd (mbind m k s)) = rg_file s
     \<or> (\<exists>qs. registry_step h R ps qs \<and> rg_file (snd (mbind m k s)) = Content (workspace_payload \<lparr>ws_projects = qs, ws_version = workspace_version\<rparr>))"
    using k r f unfolding stepping_def mbind_def by (cases r) fastforce+
qed

lemma stepping_lift: "(\<And>x. r = Inr x \<Longrightarrow> stepping h R ps (k x)) \<Longrightarrow> stepping h R ps (mbind (lift_res r) k)"
  by (cases r) (simp_all add: stepping_def mbind_def)

lemma stepping_load:
  "stepping h R ps (k \<lparr>ws_projects = ps, ws_version = workspace_version\<rparr>) \<Longrightarrow> stepping h R ps (mbind (gets (load_registry h)) k)"
  by (simp add: stepping_def mbind_def)

lemma stepping_hold: "stepping h R ps m \<Longrightarrow> stepping h R ps (registry_hold m)"
  by (auto simp: stepping_def registry_hold_def split: option.splits)

lemma stepping_write: "registry_step h R ps qs \<Longrightarrow> stepping h R ps (mseq (registry_write qs) (ret x))"
  unfolding stepping_def mseq_def mbind_def
  by (auto split: prod.splits sum.splits dest!: registry_write_cases)

lemma now_same: "within file_same registry_now"
  by (simp add: within_def file_same_def registry_now_def)

lemma added_ok:
  assumes ps: "projects_ok h R ps" and places: "places_ok h R" and root: "resolved = ph_resolve h root"
    and cand: "make_project h cand = Inr cand" "wp_project_id cand = project_key h resolved" "wp_root cand = path_str resolved"
      "wp_schedule cand = default_schedule" "wp_last_run_at_utc cand = None" "wp_last_run_status cand = None" "wp_last_run_error cand = None"
    and put: "put_project h resolved cand ps = (c, qs)" and made: "make_project h c = Inr c'"
  shows "registry_step h R ps qs"
  using put_project_cases [OF put]
proof (elim disjE exE conjE)
  fix xs p ys assume p: "ps = xs @ p # ys" "c = p\<lparr>wp_name := wp_name cand\<rparr>" "qs = xs @ c # ys"
  have "project_ok h p" using ps p(1) by (simp add: projects_ok_def)
  then have "project_ok h c" using made make_project_id [OF made] p(2) by (simp add: project_ok_def)
  then show ?thesis using p by (auto intro!: registry_step.changed)
next
  assume new: "\<forall>p \<in> set ps. \<not> same_place h resolved p" and c: "c = cand" "qs = ps @ [cand]"
  have res: "path_of (path_str resolved) = resolved" "ph_resolve h resolved = resolved"
    using places root by (simp_all add: places_ok_def path_of_path_str)
  have "wp_root cand \<notin> wp_root ` set ps"
    using new cand(3) res by (force simp: same_place_def path_key_def)
  moreover have "project_ok h cand"
    using cand by (simp add: project_ok_def text_ok_def make_schedule_def default_schedule_def time_ok_def)
  moreover have "wp_project_id cand = take 16 (ph_sha256 h (wp_root cand))"
    using cand(2,3) res by (simp add: project_key_def path_key_def)
  moreover have "wp_root cand \<in> R" using cand(3) places root by (simp add: places_ok_def)
  ultimately show ?thesis using c by (auto intro: registry_step.added)
qed

lemma register_stepping:
  assumes "projects_ok h R ps" "places_ok h R"
  shows "stepping h R ps (register_project h root name)"
proof -
  have "stepping h R ps (let (c, qs) = put_project h resolved cand ps in mbind (lift_res (make_project h c)) (\<lambda>c'. mseq (registry_write qs) (ret c')))"
    if "resolved = ph_resolve h root" "make_project h \<lparr>wp_project_id = project_key h resolved, wp_name = strip (or_text name (path_name resolved)),
         wp_root = path_str resolved, wp_registered_at_utc = at, wp_schedule = default_schedule,
         wp_last_run_at_utc = None, wp_last_run_status = None, wp_last_run_error = None\<rparr> = Inr cand" for resolved cand at
    using make_project_id [OF that(2)] that added_ok [OF assms that(1), of cand]
    by (auto simp: split_beta Let_def intro!: stepping_lift stepping_write) (metis prod.collapse)
  moreover have "resolved = ph_resolve h root" if "validated_git_root h root = Inr resolved" for resolved
    using that by (simp add: validated_git_root_def Let_def split: if_splits)
  ultimately show ?thesis unfolding register_project_def
    by (intro stepping_lift stepping_bind now_same stepping_hold stepping_load) auto
qed

lemma remove_stepping:
  assumes "projects_ok h R ps" "digests_ok h R"
  shows "stepping h R ps (remove_project h pid)"
proof -
  have "stepping h R ps (mseq (registry_write (filter (\<lambda>q. wp_project_id q \<noteq> wp_project_id p) ps)) (ret p))"
    if found: "find_project \<lparr>ws_projects = ps, ws_version = workspace_version\<rparr> pid = Inr p" for p
  proof -
    obtain xs ys where split: "ps = xs @ p # ys" using find_project_split [OF found] by auto
    have "filter (\<lambda>q. wp_project_id q \<noteq> wp_project_id p) ps = xs @ ys"
      using ids_distinct [OF assms] unfolding split by (rule filter_one)
    then show ?thesis using registry_step.removed [OF split] by (simp add: stepping_write)
  qed
  then show ?thesis unfolding remove_project_def by (intro stepping_hold stepping_load stepping_lift) simp
qed

lemma replace_stepping:
  assumes "projects_ok h R ps" "digests_ok h R" "find_project \<lparr>ws_projects = ps, ws_version = workspace_version\<rparr> pid = Inr p"
    and q: "project_ok h q" "wp_project_id q = wp_project_id p" "wp_root q = wp_root p" "wp_registered_at_utc q = wp_registered_at_utc p"
  shows "stepping h R ps (mseq (registry_replace \<lparr>ws_projects = ps, ws_version = workspace_version\<rparr> q) (ret x))"
proof -
  obtain xs ys where split: "ps = xs @ p # ys" using find_project_split [OF assms(3)] by auto
  have "map (\<lambda>x. if wp_project_id x = wp_project_id q then q else x) ps = xs @ q # ys"
    using replace_one [OF _ q(2)] ids_distinct [OF assms(1,2)] unfolding split by blast
  then show ?thesis
    using registry_step.changed [OF split q(1-4)] by (simp add: registry_replace_def stepping_write)
qed

lemma found_ok:
  "projects_ok h R ps \<Longrightarrow> find_project \<lparr>ws_projects = ps, ws_version = workspace_version\<rparr> pid = Inr p \<Longrightarrow> project_ok h p"
  by (auto simp: projects_ok_def dest!: find_project_split)

lemma time_text_clean: "calendar_ok h \<Longrightarrow> time_text h t = Inr s \<Longrightarrow> clean s \<and> parse_utc h s = Inr t"
  by (auto simp: calendar_ok_def time_text_def split: option.splits)

lemma next_run_clean: "calendar_ok h \<Longrightarrow> next_run h b t = Inr s \<Longrightarrow> text_ok s"
  by (auto simp: next_run_def rbind_Inr_iff text_ok_def dest: time_text_clean split: if_splits)

lemma run_status_clean: "clean (run_status status)"
proof -
  have "clean ''unknown''" by code_simp
  then show ?thesis by (simp add: run_status_def Let_def strip_clean)
qed

lemma configure_stepping:
  assumes "projects_ok h R ps" "digests_ok h R" "calendar_ok h"
  shows "stepping h R ps (configure_schedule h pid rq)"
  unfolding configure_schedule_def
proof (intro stepping_hold stepping_load stepping_lift stepping_bind)
  show "within file_same (if sr_enabled rq then registry_now else ret 0)"
    using now_same file_same.within_ret by (cases "sr_enabled rq") (simp_all only: if_True if_False)
next
  fix p now at schedule p'
  assume p: "find_project \<lparr>ws_projects = ps, ws_version = workspace_version\<rparr> pid = Inr p"
    and at: "next_run h (sr_enabled rq) (now + minutes (if sr_start_immediately rq then 0 else sr_interval_minutes rq)) = Inr at"
    and sc: "make_schedule h \<lparr>ps_enabled = sr_enabled rq, ps_interval_minutes = sr_interval_minutes rq,
         ps_next_run_at_utc = at, ps_final_audit = sr_final_audit rq, ps_notify_windows = sr_notify_windows rq,
         ps_notify_telegram = sr_notify_telegram rq\<rparr> = Inr schedule"
    and made: "make_project h (p\<lparr>wp_schedule := schedule\<rparr>) = Inr p'"
  have "ps_next_run_at_utc schedule = at" "make_schedule h schedule = Inr schedule" using sc make_schedule_id [OF sc] by simp_all
  then have "project_ok h p'"
    using found_ok [OF assms(1) p] next_run_clean [OF assms(3) at] made make_project_id [OF made] by (simp add: project_ok_def)
  then show "stepping h R ps (mseq (registry_replace \<lparr>ws_projects = ps, ws_version = workspace_version\<rparr> p') (ret p'))"
    by (rule replace_stepping [OF assms(1,2) p]) (simp_all add: make_project_id [OF made])
qed

text \<open>The project after a run.\<close>

definition ran :: "workspace_project \<Rightarrow> string option \<Rightarrow> string \<Rightarrow> string \<Rightarrow> string option \<Rightarrow> workspace_project" where
  "ran p due at status error = p\<lparr>wp_schedule := (wp_schedule p)\<lparr>ps_next_run_at_utc := due\<rparr>, wp_last_run_at_utc := Some at,
     wp_last_run_status := Some (run_status status), wp_last_run_error := some_text (strip (or_text error []))\<rparr>"

lemma ran_ok:
  assumes "calendar_ok h" "project_ok h p" "next_run h b t = Inr due" "make_schedule h ((wp_schedule p)\<lparr>ps_next_run_at_utc := due\<rparr>) = Inr sch"
    "time_text h now = Inr at" "make_project h (ran p due at status error) = Inr p'"
  shows "project_ok h (ran p due at status error)"
  using assms make_project_id [OF assms(6)] make_schedule_id [OF assms(4)] next_run_clean [OF assms(1,3)] time_text_clean [OF assms(1,5)]
    run_status_clean
  by (auto simp: project_ok_def ran_def text_ok_def some_text_def strip_clean)

lemma record_run_stepping:
  assumes "projects_ok h R ps" "digests_ok h R" "calendar_ok h"
  shows "stepping h R ps (record_run h pid status error)"
  unfolding record_run_def Let_def
proof (intro stepping_hold stepping_load stepping_lift stepping_bind now_same)
  fix now p due schedule' at p'
  assume p: "find_project \<lparr>ws_projects = ps, ws_version = workspace_version\<rparr> pid = Inr p"
    and due: "next_run h (ps_enabled (wp_schedule p)) (now + minutes (ps_interval_minutes (wp_schedule p))) = Inr due"
    and sc: "make_schedule h ((wp_schedule p)\<lparr>ps_next_run_at_utc := due\<rparr>) = Inr schedule'" and at: "time_text h now = Inr at"
    and made: "make_project h (p\<lparr>wp_schedule := schedule', wp_last_run_at_utc := Some at, wp_last_run_status := Some (run_status status),
          wp_last_run_error := some_text (strip (or_text error []))\<rparr>) = Inr p'"
  have eq: "p' = ran p due at status error" using make_project_id [OF made] make_schedule_id [OF sc] by (simp add: ran_def)
  have "make_project h (ran p due at status error) = Inr p'" using made make_schedule_id [OF sc] by (simp add: ran_def)
  then have "project_ok h p'" unfolding eq by (rule ran_ok [OF assms(3) found_ok [OF assms(1) p] due sc at])
  then show "stepping h R ps (mseq (registry_replace \<lparr>ws_projects = ps, ws_version = workspace_version\<rparr> p') (ret p'))"
    by (rule replace_stepping [OF assms(1,2) p]) (simp_all add: eq ran_def)
qed

section \<open>A run\<close>

lemma hold_Inr_iff: "registry_hold m s = (Inr x, s') \<longleftrightarrow> rg_lock s = None \<and> m s = (Inr x, s')"
  by (auto simp: registry_hold_def split: option.splits)

lemma bind_gets_Inr_iff: "mbind (gets f) k s = (Inr y, s') \<longleftrightarrow> (\<exists>x. f s = Inr x \<and> k x s = (Inr y, s'))"
  by (cases "f s") (simp_all add: mbind_def)

lemma bind_lift_Inr_iff: "mbind (lift_res r) k s = (Inr y, s') \<longleftrightarrow> (\<exists>x. r = Inr x \<and> k x s = (Inr y, s'))"
  by (cases r) (simp_all add: mbind_def)

lemma record_run_result:
  assumes ps: "projects_ok h R ps" "digests_ok h R" "calendar_ok h"
    and load: "load_registry h s = Inr \<lparr>ws_projects = ps, ws_version = workspace_version\<rparr>"
    and run: "record_run h pid status error s = (Inr p', s')"
  shows "\<exists>xs p ys due at. ps = xs @ p # ys \<and> wp_project_id p = strip pid \<and> p' = ran p due at status error
    \<and> next_run h (ps_enabled (wp_schedule p)) (rg_clock s (rg_ticks s) + minutes (ps_interval_minutes (wp_schedule p))) = Inr due
    \<and> load_registry h s' = Inr \<lparr>ws_projects = xs @ p' # ys, ws_version = workspace_version\<rparr> \<and> projects_ok h R (xs @ p' # ys)
    \<and> rg_clock s' = rg_clock s \<and> rg_ticks s' = Suc (rg_ticks s)"
proof -
  let ?s = "s\<lparr>rg_ticks := Suc (rg_ticks s)\<rparr>" and ?snap = "\<lparr>ws_projects = ps, ws_version = workspace_version\<rparr>"
  have load': "load_registry h ?s = Inr ?snap" using load registry_load_cong [of ?s s] by simp
  have run: "registry_hold (mbind (gets (load_registry h)) (\<lambda>snapshot.
      mbind (lift_res (find_project snapshot pid)) (\<lambda>p.
      mbind (lift_res (next_run h (ps_enabled (wp_schedule p)) (rg_clock s (rg_ticks s) + minutes (ps_interval_minutes (wp_schedule p))))) (\<lambda>due.
      mbind (lift_res (make_schedule h ((wp_schedule p)\<lparr>ps_next_run_at_utc := due\<rparr>))) (\<lambda>schedule'.
      mbind (lift_res (time_text h (rg_clock s (rg_ticks s)))) (\<lambda>at.
      mbind (lift_res (make_project h (p\<lparr>wp_schedule := schedule', wp_last_run_at_utc := Some at,
          wp_last_run_status := Some (run_status status), wp_last_run_error := some_text (strip (or_text error []))\<rparr>))) (\<lambda>p'.
      mseq (registry_replace snapshot p') (ret p')))))))) ?s = (Inr p', s')"
    using run by (simp add: record_run_def registry_now_def mbind_def Let_def)
  then obtain p due schedule' at q where p: "find_project ?snap pid = Inr p"
    and due: "next_run h (ps_enabled (wp_schedule p)) (rg_clock s (rg_ticks s) + minutes (ps_interval_minutes (wp_schedule p))) = Inr due"
    and sc: "make_schedule h ((wp_schedule p)\<lparr>ps_next_run_at_utc := due\<rparr>) = Inr schedule'"
    and at: "time_text h (rg_clock s (rg_ticks s)) = Inr at"
    and made: "make_project h (p\<lparr>wp_schedule := schedule', wp_last_run_at_utc := Some at, wp_last_run_status := Some (run_status status),
          wp_last_run_error := some_text (strip (or_text error []))\<rparr>) = Inr q"
    and last: "mseq (registry_replace ?snap q) (ret q) ?s = (Inr p', s')"
    unfolding hold_Inr_iff bind_gets_Inr_iff bind_lift_Inr_iff load' by blast
  have q: "q = ran p due at status error" using make_project_id [OF made] make_schedule_id [OF sc] by (simp add: ran_def)
  have p': "p' = q" using last by (auto simp: mseq_Inr_iff)
  obtain xs ys where split: "ps = xs @ p # ys" "wp_project_id p = strip pid" using find_project_split [OF p] by auto
  have "map (\<lambda>x. if wp_project_id x = wp_project_id q then q else x) ps = xs @ q # ys"
    using replace_one [of xs p ys q] ids_distinct [OF ps(1,2)] unfolding split(1) by (simp add: q ran_def)
  then have "registry_write (xs @ q # ys) ?s = (Inr (), s')" using last by (auto simp: mseq_Inr_iff registry_replace_def)
  then have w: "rg_file s' = Content (workspace_payload \<lparr>ws_projects = xs @ q # ys, ws_version = workspace_version\<rparr>)"
    "rg_clock s' = rg_clock s" "rg_ticks s' = Suc (rg_ticks s)" by (auto dest!: registry_write_cases)
  have made': "make_project h (ran p due at status error) = Inr q" using made make_schedule_id [OF sc] by (simp add: ran_def)
  have "project_ok h q" unfolding q by (rule ran_ok [OF ps(3) found_ok [OF ps(1) p] due sc at made'])
  then have "projects_ok h R (xs @ q # ys)"
    using ps(1) unfolding split(1) by (simp add: projects_ok_def q ran_def)
  then have "load_registry h s' = Inr \<lparr>ws_projects = xs @ q # ys, ws_version = workspace_version\<rparr>"
    using load_written w(1) by (simp add: projects_ok_def)
  then show ?thesis using split due w q p' \<open>projects_ok h R (xs @ q # ys)\<close> by blast
qed

lemma ran_due:
  assumes "calendar_ok h" "next_run h (ps_enabled (wp_schedule p)) t0 = Inr due"
  shows "is_due h t (ran p due at status error) = Inr (ps_enabled (wp_schedule p) \<and> t0 \<le> t)"
proof (cases "ps_enabled (wp_schedule p)")
  case True
  then obtain s where "time_text h t0 = Inr s" "due = Some s" using assms(2) by (auto simp: next_run_def rbind_Inr_iff)
  then show ?thesis using True time_text_clean [OF assms(1)] by (simp add: is_due_def ran_def)
qed (use assms(2) in \<open>auto simp: next_run_def is_due_def ran_def\<close>)

end
