(* ===== verification/Workspace_Props.thy ===== *)
theory Workspace_Props imports Workspace_Facts Sample_Host begin

text \<open>
  Properties of the registry and of the background runs: calls refine steps on the list of projects,
  a run moves the next one behind its interval, every due project runs once, and what a project that
  disappears during a run does to the others.
\<close>

section \<open>Sequences of calls\<close>

datatype registry_call =
    Register path "string option"
  | Remove string
  | Configure string schedule_request
  | Record_Run string string "string option"

fun run_registry_call :: "place_host \<Rightarrow> registry_call \<Rightarrow> workspace_project registry_op" where
  "run_registry_call h (Register root name) = register_project h root name"
| "run_registry_call h (Remove pid) = remove_project h pid"
| "run_registry_call h (Configure pid rq) = configure_schedule h pid rq"
| "run_registry_call h (Record_Run pid status error) = record_run h pid status error"

text \<open>The files of the machine, the lease and the disk may be different at every call.\<close>

record registry_event =
  re_host :: place_host
  re_lock :: "string option"
  re_budget :: "nat option"
  re_call :: registry_call

fun run_registry :: "registry_event list \<Rightarrow> registry \<Rightarrow> registry" where
  "run_registry [] s = s"
| "run_registry (e # es) s =
     run_registry es (snd (run_registry_call (re_host e) (re_call e) (s\<lparr>rg_lock := re_lock e, rg_budget := re_budget e\<rparr>)))"

definition same_machine :: "place_host \<Rightarrow> place_host \<Rightarrow> bool" where
  "same_machine h g \<longleftrightarrow> ph_parse g = ph_parse h \<and> ph_format g = ph_format h \<and> ph_sha256 g = ph_sha256 h"

lemma call_stepping:
  assumes "projects_ok h R ps" "digests_ok h R" "calendar_ok h" "places_ok h R"
  shows "stepping h R ps (run_registry_call h call)"
  using assms by (cases call) (auto intro: register_stepping remove_stepping configure_stepping record_run_stepping)

lemma same_ok:
  assumes "same_machine h g"
  shows "project_from_payload g = project_from_payload h" "projects_ok g = projects_ok h" "load_registry g = load_registry h"
    "digests_ok g = digests_ok h" "calendar_ok g = calendar_ok h" "registry_step g = registry_step h"
proof -
  have p: "parse_utc g = parse_utc h" using assms by (simp add: fun_eq_iff parse_utc_def same_machine_def)
  have "time_ok g = time_ok h" by (intro ext) (unfold time_ok_def p, rule refl)
  then have m: "make_schedule g = make_schedule h" "make_project g = make_project h"
    by (intro ext; simp add: make_schedule_def make_project_def p)+
  then have o: "project_ok g = project_ok h" by (intro ext) (simp add: project_ok_def)
  have f: "schedule_from_payload g = schedule_from_payload h" by (intro ext) (simp add: schedule_from_payload_def m)
  show r: "project_from_payload g = project_from_payload h" by (intro ext) (unfold project_from_payload_def m f, rule refl)
  have q: "snapshot_from_payload g = snapshot_from_payload h" by (intro ext) (unfold snapshot_from_payload_def r, rule refl)
  show "load_registry g = load_registry h" by (intro ext) (unfold load_registry_def q, rule refl)
  show "projects_ok g = projects_ok h" by (intro ext) (use assms in \<open>simp add: projects_ok_def same_machine_def o\<close>)
  show "digests_ok g = digests_ok h" by (intro ext) (use assms in \<open>simp add: digests_ok_def same_machine_def\<close>)
  show "calendar_ok g = calendar_ok h" using p assms by (simp add: calendar_ok_def same_machine_def)
  have "registry_step g R ps qs \<longleftrightarrow> registry_step h R ps qs" for R ps qs
    by (subst (1 2) registry_step.simps) (use assms in \<open>simp add: o same_machine_def\<close>)
  then show "registry_step g = registry_step h" by (intro ext)
qed


section \<open>A run moves the next one\<close>

text \<open>When a run is recorded, exactly the project with that identifier changes, and an enabled project is due again from the
  moment its interval (at least a minute) has passed, and not before.\<close>

theorem record_run_reschedules:
  assumes ok: "registry_ok h R s" "calendar_ok h" "digests_ok h R" and run: "record_run h pid status error s = (Inr q, s')"
  shows "\<exists>xs p ys. load_registry h s = Inr \<lparr>ws_projects = xs @ p # ys, ws_version = workspace_version\<rparr> \<and> wp_project_id p = strip pid
    \<and> load_registry h s' = Inr \<lparr>ws_projects = xs @ q # ys, ws_version = workspace_version\<rparr>
    \<and> wp_last_run_status q = Some (run_status status) \<and> 1 \<le> ps_interval_minutes (wp_schedule p)
    \<and> (\<forall>t. is_due h t q = Inr (ps_enabled (wp_schedule p) \<and> rg_clock s (rg_ticks s) + minutes (ps_interval_minutes (wp_schedule p)) \<le> t))"
proof -
  obtain ps where ps: "load_registry h s = Inr \<lparr>ws_projects = ps, ws_version = workspace_version\<rparr>" "projects_ok h R ps"
    using ok(1) unfolding registry_ok_def by blast
  obtain xs p ys due at where r: "ps = xs @ p # ys" "wp_project_id p = strip pid" "q = ran p due at status error"
    "next_run h (ps_enabled (wp_schedule p)) (rg_clock s (rg_ticks s) + minutes (ps_interval_minutes (wp_schedule p))) = Inr due"
    "load_registry h s' = Inr \<lparr>ws_projects = xs @ q # ys, ws_version = workspace_version\<rparr>"
    using record_run_result [OF ps(2) ok(3,2) ps(1) run] by blast
  have "make_schedule h (wp_schedule p) = Inr (wp_schedule p)" using ps(2) r(1) by (simp add: projects_ok_def project_ok_def)
  then have "1 \<le> ps_interval_minutes (wp_schedule p)" by (simp add: make_schedule_def split: if_splits)
  then show ?thesis using ps r ran_due [OF ok(2) r(4), of _ at status error] by (intro exI [of _ xs] exI [of _ p] exI [of _ ys]) (simp add: ran_def)
qed

section \<open>Background runs\<close>

definition same_registry :: "'r scheduler_world \<Rightarrow> 'r scheduler_world \<Rightarrow> bool" where
  "same_registry s t \<longleftrightarrow> sd_registry t = sd_registry s"

interpretation same_registry: effect same_registry
  by unfold_locales (auto simp: same_registry_def)

text \<open>Nothing else works on the registry meanwhile.\<close>

definition quiet :: "'r scheduler_host \<Rightarrow> bool" where
  "quiet H \<longleftrightarrow> (\<forall>c p w. sd_registry (snd (sh_run H c p w)) = sd_registry w) \<and> (\<forall>t m w. sd_registry (snd (sh_desktop H t m w)) = sd_registry w)"

lemma quiet_run: "quiet H \<Longrightarrow> within same_registry (run_registered_project H p)"
proof -
  assume q: "quiet H"
  have act: "within same_registry (acting (sh_run H c r))" "within same_registry (acting (sh_desktop H t m))" for c r t m
    using q by (auto simp: within_def same_registry_def acting_def quiet_def split_beta)
  have chat: "within same_registry (in_chat m)" for m :: "('a, 'b) chat_op"
    by (simp add: within_def same_registry_def in_chat_def split_beta Let_def)
  have desk: "within same_registry (notify_desktop H p r)" for r
    unfolding notify_desktop_def by (intro same_registry.within_intros act)
  have tele: "within same_registry (notify_telegram H p r)" for r
    unfolding notify_telegram_def by (intro same_registry.within_intros within_attempt chat)
  show ?thesis unfolding run_registered_project_def send_notifications_def Let_def
    by (intro same_registry.within_intros act desk tele)
qed

lemma run_result_project: "run_registered_project H p w = (Inr r, w') \<Longrightarrow> sc_project_id r = wp_project_id p"
proof -
  have "sc_project_id (run_result p c x) = wp_project_id p" for c x
    by (cases x) (simp_all add: run_result_def split_beta)
  then show "run_registered_project H p w = (Inr r, w') \<Longrightarrow> sc_project_id r = wp_project_id p"
    unfolding run_registered_project_def Let_def by (auto simp: mbind_Inr_iff)
qed

text \<open>What a finished run has left behind for the project \<open>p\<close>.\<close>

definition settled :: "place_host \<Rightarrow> (nat \<Rightarrow> int) \<Rightarrow> nat \<Rightarrow> workspace_project \<Rightarrow> workspace_project list \<Rightarrow> bool" where
  "settled h clock k p qs \<longleftrightarrow> (\<exists>q j. q \<in> set qs \<and> k \<le> j \<and> wp_project_id q = wp_project_id p \<and> wp_last_run_status q \<noteq> None
     \<and> (\<forall>t. is_due h t q = Inr (ps_enabled (wp_schedule p) \<and> clock j + minutes (ps_interval_minutes (wp_schedule p)) \<le> t)))"

lemma run_projects_result:
  assumes q: "quiet H" and ok: "calendar_ok (sh_places H)" "digests_ok (sh_places H) R"
  shows "run_projects H todo w = (Inr rs, w') \<Longrightarrow> projects_ok (sh_places H) R ps \<Longrightarrow> set todo \<subseteq> set ps \<Longrightarrow> distinct todo
    \<Longrightarrow> load_registry (sh_places H) (sd_registry w) = Inr \<lparr>ws_projects = ps, ws_version = workspace_version\<rparr>
    \<Longrightarrow> \<exists>qs. load_registry (sh_places H) (sd_registry w') = Inr \<lparr>ws_projects = qs, ws_version = workspace_version\<rparr>
      \<and> map sc_project_id rs = map wp_project_id todo \<and> set ps - set todo \<subseteq> set qs
      \<and> (\<forall>p \<in> set todo. settled (sh_places H) (rg_clock (sd_registry w)) (rg_ticks (sd_registry w)) p qs)"
proof (induction todo arbitrary: w rs ps)
  case (Cons p todo)
  let ?h = "sh_places H"
  obtain r w1 q w2 rest where one: "run_registered_project H p w = (Inr r, w1)"
    and two: "in_registry (record_run ?h (wp_project_id p) (sc_status r) (run_error r)) w1 = (Inr q, w2)"
    and three: "run_projects H todo w2 = (Inr rest, w')" and rs: "rs = r # rest"
    using Cons.prems(1) by (auto simp: mbind_Inr_iff mseq_Inr_iff)
  have w1: "sd_registry w1 = sd_registry w" using withinD [OF quiet_run [OF q] one] by (simp add: same_registry_def)
  obtain s2 where s2: "record_run ?h (wp_project_id p) (sc_status r) (run_error r) (sd_registry w) = (Inr q, s2)" "sd_registry w2 = s2"
    using two w1 by (auto simp: in_registry_def split: prod.splits)
  obtain xs p0 ys due at where rr: "ps = xs @ p0 # ys" "wp_project_id p0 = strip (wp_project_id p)"
    "q = ran p0 due at (sc_status r) (run_error r)"
    "next_run ?h (ps_enabled (wp_schedule p0)) (rg_clock (sd_registry w) (rg_ticks (sd_registry w)) + minutes (ps_interval_minutes (wp_schedule p0))) = Inr due"
    "load_registry ?h s2 = Inr \<lparr>ws_projects = xs @ q # ys, ws_version = workspace_version\<rparr>" "projects_ok ?h R (xs @ q # ys)"
    "rg_clock s2 = rg_clock (sd_registry w)" "rg_ticks s2 = Suc (rg_ticks (sd_registry w))"
    using record_run_result [OF Cons.prems(2) ok(2,1) Cons.prems(5) s2(1)] by blast
  have ids: "distinct (map wp_project_id ps)" using Cons.prems(2) ok(2) by (rule ids_distinct)
  have "p \<in> set ps" using Cons.prems(3) by simp
  moreover have "strip (wp_project_id p) = wp_project_id p"
    using Cons.prems(2) ok(2) \<open>p \<in> set ps\<close> by (auto simp: projects_ok_def digests_ok_def list_all_iff clean_def)
  ultimately have p0: "p0 = p" using ids rr(1,2) by (auto simp: image_iff)
  have todo: "set todo \<subseteq> set (xs @ q # ys)" "distinct todo" using Cons.prems(3,4) rr(1) p0 by auto
  obtain qs where qs: "load_registry ?h (sd_registry w') = Inr \<lparr>ws_projects = qs, ws_version = workspace_version\<rparr>"
    "map sc_project_id rest = map wp_project_id todo" "set (xs @ q # ys) - set todo \<subseteq> set qs"
    "\<And>p. p \<in> set todo \<Longrightarrow> settled ?h (rg_clock s2) (rg_ticks s2) p qs"
    using Cons.IH [OF three rr(6) todo] rr(5) s2(2) by blast
  have "q \<notin> set todo"
  proof
    assume "q \<in> set todo"
    then have "q \<in> set ps" "q \<noteq> p" using Cons.prems(3,4) by auto
    moreover have "wp_project_id q = wp_project_id p" using rr(3) p0 by (simp add: ran_def)
    ultimately show False using ids \<open>p \<in> set ps\<close> by (auto simp: distinct_map inj_on_def)
  qed
  then have "q \<in> set qs" using qs(3) by auto
  then have "settled ?h (rg_clock (sd_registry w)) (rg_ticks (sd_registry w)) p qs"
    using ran_due [OF ok(1) rr(4), of _ at "sc_status r" "run_error r"] rr(3) p0
    by (auto simp: settled_def ran_def intro!: exI [of _ q] exI [of _ "rg_ticks (sd_registry w)"])
  moreover have "settled ?h (rg_clock (sd_registry w)) (rg_ticks (sd_registry w)) x qs" if "x \<in> set todo" for x
    using qs(4) [OF that] rr(7,8) unfolding settled_def by (metis Suc_leD)
  moreover have "set ps - set (p # todo) \<subseteq> set qs" using qs(3) rr(1) p0 by auto
  ultimately show ?case using qs(1,2) rs run_result_project [OF one] by auto
qed auto

lemma filterE_subset: "filterE f xs = Inr ys \<Longrightarrow> set ys \<subseteq> set xs \<and> (distinct xs \<longrightarrow> distinct ys)"
  by (induction xs arbitrary: ys) (auto simp: rbind_Inr_iff split: if_splits)

text \<open>C35: When nothing else works on the registry, a pass over the due projects that returns has run each of them once, in the
  order of the registry; each has the record of its run and is due again only when its interval has passed since then, and
  the other projects are as they were.\<close>

theorem due_projects_run_once:
  assumes H: "quiet H" "calendar_ok (sh_places H)" "digests_ok (sh_places H) R" "registry_ok (sh_places H) R (sd_registry w)"
    and run: "run_due_projects H w = (Inr rs, w')"
  shows "\<exists>due ps qs. due_projects (sh_places H) (rg_clock (sd_registry w) (rg_ticks (sd_registry w))) (sd_registry w) = Inr due
    \<and> load_registry (sh_places H) (sd_registry w) = Inr \<lparr>ws_projects = ps, ws_version = workspace_version\<rparr>
    \<and> load_registry (sh_places H) (sd_registry w') = Inr \<lparr>ws_projects = qs, ws_version = workspace_version\<rparr>
    \<and> map sc_project_id rs = map wp_project_id due \<and> distinct (map wp_project_id due) \<and> set ps - set due \<subseteq> set qs
    \<and> (\<forall>p \<in> set due. settled (sh_places H) (rg_clock (sd_registry w)) (Suc (rg_ticks (sd_registry w))) p qs)"
proof -
  let ?h = "sh_places H" and ?s = "sd_registry w"
  let ?t = "?s\<lparr>rg_ticks := Suc (rg_ticks ?s)\<rparr>"
  obtain ps where ps: "load_registry ?h ?s = Inr \<lparr>ws_projects = ps, ws_version = workspace_version\<rparr>" "projects_ok ?h R ps"
    using H(4) unfolding registry_ok_def by blast
  have load: "load_registry ?h ?t = Inr \<lparr>ws_projects = ps, ws_version = workspace_version\<rparr>" using ps(1) registry_load_cong [of ?t ?s] by simp
  obtain due where due: "due_projects ?h (rg_clock ?s (rg_ticks ?s)) ?t = Inr due"
    and rest: "run_projects H due (w\<lparr>sd_registry := ?t\<rparr>) = (Inr rs, w')"
    using run unfolding run_due_projects_def
    by (cases "due_projects ?h (rg_clock ?s (rg_ticks ?s)) ?t") (auto simp: mbind_def in_registry_def registry_now_def)
  have f: "filterE (is_due ?h (rg_clock ?s (rg_ticks ?s))) ps = Inr due" using due load by (simp add: due_projects_def)
  have ids: "distinct (map wp_project_id ps)" using ps(2) H(3) by (rule ids_distinct)
  have sub: "set due \<subseteq> set ps" "distinct due" using filterE_subset [OF f] ids by (auto simp: distinct_map)
  have "distinct (map wp_project_id due)" using ids sub by (auto simp: distinct_map intro: inj_on_subset)
  moreover have "due_projects ?h (rg_clock ?s (rg_ticks ?s)) ?s = Inr due" using f ps(1) by (simp add: due_projects_def)
  ultimately show ?thesis
    using run_projects_result [OF H(1-3) rest ps(2) sub] load ps(1) by auto
qed

text \<open>When the process of a project removes it from the registry, the pass ends with an error after that run: none of the
  projects behind it is run, and no other project is touched.\<close>

theorem removed_project_aborts:
  assumes one: "run_registered_project H p w = (Inr r, w1)" and free: "rg_lock (sd_registry w1) = None"
    and load: "load_registry (sh_places H) (sd_registry w1) = Inr snapshot" and gone: "\<forall>q \<in> set (ws_projects snapshot). wp_project_id q \<noteq> strip (wp_project_id p)"
  shows "\<exists>w2. run_projects H (p # ps) w = (Inl (ValueError (''Unknown workspace project: '' @ wp_project_id p)), w2)
    \<and> sd_chat w2 = sd_chat w1 \<and> rg_file (sd_registry w2) = rg_file (sd_registry w1)"
proof -
  let ?s = "(sd_registry w1)\<lparr>rg_ticks := Suc (rg_ticks (sd_registry w1))\<rparr>"
  have "load_registry (sh_places H) ?s = Inr snapshot" using load registry_load_cong [of ?s "sd_registry w1"] by simp
  moreover have "find_project snapshot (wp_project_id p) = Inl (ValueError (''Unknown workspace project: '' @ wp_project_id p))"
    using gone by (simp add: find_project_def find_None_iff split: option.splits)
  ultimately have "record_run (sh_places H) (wp_project_id p) (sc_status r) (run_error r) (sd_registry w1)
      = (Inl (ValueError (''Unknown workspace project: '' @ wp_project_id p)), ?s)"
    using free by (simp add: record_run_def mbind_def registry_now_def registry_hold_def)
  then show ?thesis using one by (simp add: mbind_def mseq_def in_registry_def)
qed

section \<open>A machine to try it with\<close>

text \<open>One place, two instants an hour apart.\<close>

definition demo_places :: place_host where
  "demo_places = \<lparr>ph_resolve = (\<lambda>_. path_of ''/repo''), ph_is_dir = (\<lambda>_. True), ph_exists = (\<lambda>_. True),
     ph_sha256 = (\<lambda>_. ''0123456789abcdef''),
     ph_parse = (\<lambda>s. if s = ''a'' then Some (Instant 0) else if s = ''b'' then Some (Instant (minutes 60)) else None),
     ph_format = (\<lambda>t. if t = 0 then Some ''a'' else if t = minutes 60 then Some ''b'' else None)\<rparr>"

definition demo_project :: workspace_project where
  "demo_project = \<lparr>wp_project_id = ''0123456789abcdef'', wp_name = ''repo'', wp_root = ''/repo'', wp_registered_at_utc = ''a'',
     wp_schedule = \<lparr>ps_enabled = True, ps_interval_minutes = 60, ps_next_run_at_utc = Some ''a'', ps_final_audit = False,
       ps_notify_windows = False, ps_notify_telegram = False\<rparr>,
     wp_last_run_at_utc = None, wp_last_run_status = None, wp_last_run_error = None\<rparr>"

definition demo_registry :: "workspace_project list \<Rightarrow> registry" where
  "demo_registry ps = \<lparr>rg_path = path_of ''/registry.json'',
     rg_file = Content (workspace_payload \<lparr>ws_projects = ps, ws_version = workspace_version\<rparr>),
     rg_lock = None, rg_budget = None, rg_fault = ''full'', rg_clock = (\<lambda>_. 0), rg_ticks = 0\<rparr>"

lemma demo_machine:
  "calendar_ok demo_places" "digests_ok demo_places {''/repo''}" "places_ok demo_places {''/repo''}"
proof -
  have c: "clean ''a''" "clean ''b''" "clean ''0123456789abcdef''" "with_offset ''a'' = ''a''" "with_offset ''b'' = ''b''" by code_simp+
  show "calendar_ok demo_places" using c by (simp add: calendar_ok_def demo_places_def parse_utc_def)
  show "digests_ok demo_places {''/repo''}" using c by (simp add: digests_ok_def demo_places_def)
  have "path_wf (path_of ''/repo'')" "path_str (path_of ''/repo'') = ''/repo''" by code_simp+
  then show "places_ok demo_places {''/repo''}" by (simp add: places_ok_def demo_places_def)
qed

lemma demo_project_ok: "projects_ok demo_places {''/repo''} [demo_project]"
proof -
  have c: "clean ''a''" "with_offset ''a'' = ''a''" "strip ''0123456789abcdef'' \<noteq> []" "strip ''repo'' \<noteq> []" "strip ''/repo'' \<noteq> []" by code_simp+
  then show ?thesis
    by (simp add: projects_ok_def project_ok_def make_project_def make_schedule_def demo_project_def time_ok_def parse_utc_def text_ok_def
        demo_places_def)
qed

lemma demo_loaded:
  "load_registry demo_places (demo_registry [demo_project]) = Inr \<lparr>ws_projects = [demo_project], ws_version = workspace_version\<rparr>"
  "registry_ok demo_places {''/repo''} (demo_registry [demo_project])"
proof -
  show l: "load_registry demo_places (demo_registry [demo_project]) = Inr \<lparr>ws_projects = [demo_project], ws_version = workspace_version\<rparr>"
    using demo_project_ok by (intro load_written) (simp_all add: projects_ok_def demo_registry_def)
  then show "registry_ok demo_places {''/repo''} (demo_registry [demo_project])"
    using demo_project_ok unfolding registry_ok_def by blast
qed


lemma demo_record:
  assumes "rg_file s = rg_file (demo_registry [demo_project])" "rg_lock s = None" "rg_budget s = None" "rg_clock s = (\<lambda>_. 0)"
  shows "\<exists>q s'. record_run demo_places ''0123456789abcdef'' status error s = (Inr q, s')"
proof -
  let ?s = "s\<lparr>rg_ticks := Suc (rg_ticks s)\<rparr>"
  have load: "load_registry demo_places ?s = Inr \<lparr>ws_projects = [demo_project], ws_version = workspace_version\<rparr>"
    using demo_loaded(1) registry_load_cong [of ?s "demo_registry [demo_project]"] assms(1) by simp
  have c: "strip ''0123456789abcdef'' = ''0123456789abcdef''" "with_offset ''a'' = ''a''" "with_offset ''b'' = ''b''" "strip ''repo'' \<noteq> []" "strip ''/repo'' \<noteq> []"
    by code_simp+
  show ?thesis using load c assms(2-4)
    by (simp add: record_run_def mbind_def mseq_def registry_now_def registry_hold_def find_project_def demo_project_def next_run_def time_text_def
        make_schedule_def make_project_def time_ok_def parse_utc_def registry_replace_def registry_write_def demo_places_def Let_def)
qed

theorem record_run_reschedules_witness:
  "\<exists>q s'. record_run demo_places ''0123456789abcdef'' ''ready'' None (demo_registry [demo_project]) = (Inr q, s')
     \<and> is_due demo_places (minutes 59) q = Inr False \<and> is_due demo_places (minutes 60) q = Inr True"
proof -
  obtain q s' where run: "record_run demo_places ''0123456789abcdef'' ''ready'' None (demo_registry [demo_project]) = (Inr q, s')"
    using demo_record [of "demo_registry [demo_project]" "''ready''" None] by (auto simp: demo_registry_def)
  have "rg_clock (demo_registry [demo_project]) 0 = 0" "rg_ticks (demo_registry [demo_project]) = 0" by (simp_all add: demo_registry_def)
  then show ?thesis using record_run_reschedules [OF demo_loaded(2) demo_machine(1,2) run] run demo_loaded(1)
    by (auto simp: Cons_eq_append_conv demo_project_def minutes_def)
qed

text \<open>The processes succeed without output; one kind empties the registry.\<close>

definition demo_scheduler :: "bool \<Rightarrow> toy_repo scheduler_host" where
  "demo_scheduler empties = \<lparr>sh_places = demo_places, sh_executable = ''python'',
     sh_run = (\<lambda>_ _ w. (Completed 0 [] [], if empties then w\<lparr>sd_registry := demo_registry []\<rparr> else w)),
     sh_desktop = (\<lambda>_ _ w. (\<lparr>dn_delivered = True, dn_error = None\<rparr>, w)), sh_config = (\<lambda>_. Inl (ValueError [])),
     sh_environment = (\<lambda>_. None), sh_bot = (\<lambda>_ _ _. Http_Failure 500)\<rparr>"

definition demo_scheduler_world :: "toy_repo scheduler_world" where
  "demo_scheduler_world = \<lparr>sd_registry = demo_registry [demo_project],
     sd_chat = \<lparr>cw_world = toy_world (\<lambda>_. sample_store), cw_requests = []\<rparr>\<rparr>"

lemma demo_run:
  "\<exists>r. run_registered_project (demo_scheduler empties) demo_project w
     = (Inr r, if empties then w\<lparr>sd_registry := demo_registry []\<rparr> else w) \<and> sc_status r = ''completed'' \<and> run_error r = None"
proof -
  have "loads [] = None" by code_simp
  moreover have "\<not> ps_notify_windows (wp_schedule demo_project)" "\<not> ps_notify_telegram (wp_schedule demo_project)" by (simp_all add: demo_project_def)
  ultimately show ?thesis
    by (simp add: run_registered_project_def Let_def mbind_def acting_def demo_scheduler_def run_result_def parse_run_output_def plain_status_def
        send_notifications_def notify_desktop_def notify_telegram_def run_error_def scheduled_ok_def)
qed

theorem due_projects_run_once_witness:
  "\<exists>rs w'. run_due_projects (demo_scheduler False) demo_scheduler_world = (Inr rs, w')
     \<and> map sc_project_id rs = [''0123456789abcdef'']"
proof -
  let ?s = "(demo_registry [demo_project])\<lparr>rg_ticks := Suc 0\<rparr>" and ?h = "demo_scheduler False"
  let ?w = "demo_scheduler_world\<lparr>sd_registry := ?s\<rparr>"
  have places: "sh_places ?h = demo_places" by (simp add: demo_scheduler_def)
  have load: "load_registry demo_places ?s = Inr \<lparr>ws_projects = [demo_project], ws_version = workspace_version\<rparr>"
    using demo_loaded(1) registry_load_cong [of ?s "demo_registry [demo_project]"] by simp
  have "with_offset ''a'' = ''a''" by code_simp
  then have "is_due demo_places 0 demo_project = Inr True" by (simp add: is_due_def demo_project_def parse_utc_def demo_places_def)
  then have due: "due_projects demo_places 0 ?s = Inr [demo_project]" using load by (simp add: due_projects_def)
  obtain r where one: "run_registered_project ?h demo_project ?w = (Inr r, ?w)" using demo_run [of False ?w] by auto
  obtain q s' where two: "record_run demo_places ''0123456789abcdef'' (sc_status r) (run_error r) ?s = (Inr q, s')"
    using demo_record [of ?s "sc_status r" "run_error r"] by (auto simp: demo_registry_def)
  have pid: "wp_project_id demo_project = ''0123456789abcdef''" by (simp add: demo_project_def)
  have now: "in_registry registry_now demo_scheduler_world = (Inr 0, ?w)"
    by (simp add: in_registry_def registry_now_def demo_scheduler_world_def demo_registry_def)
  have w: "sd_registry ?w = ?s" by simp
  have asked: "in_registry (gets (due_projects demo_places 0)) ?w = (Inr [demo_project], ?w)"
    using due by (simp add: in_registry_def)
  have recorded: "in_registry (record_run demo_places ''0123456789abcdef'' (sc_status r) (run_error r)) ?w = (Inr q, ?w\<lparr>sd_registry := s'\<rparr>)"
    using two by (simp add: in_registry_def)
  have "run_due_projects ?h demo_scheduler_world = run_projects ?h [demo_project] ?w"
    by (simp add: run_due_projects_def mbind_def [of "in_registry registry_now"] now places mbind_def [of "in_registry (gets f)" for f] asked
        del: run_projects.simps)
  also have "\<dots> = (Inr [r], ?w\<lparr>sd_registry := s'\<rparr>)"
    by (simp add: mbind_def mseq_def one places pid recorded del: One_nat_def)
  finally have run: "run_due_projects ?h demo_scheduler_world = (Inr [r], ?w\<lparr>sd_registry := s'\<rparr>)" .
  have quiet: "quiet ?h" by (simp add: quiet_def demo_scheduler_def)
  have start: "sd_registry demo_scheduler_world = demo_registry [demo_project]" by (simp add: demo_scheduler_world_def)
  have "calendar_ok (sh_places ?h)" "digests_ok (sh_places ?h) {''/repo''}" "registry_ok (sh_places ?h) {''/repo''} (sd_registry demo_scheduler_world)"
    using demo_machine demo_loaded(2) by (simp_all add: places start)
  from due_projects_run_once [OF quiet this run] obtain due0 where "map sc_project_id [r] = map wp_project_id due0"
      "due_projects demo_places (rg_clock (demo_registry [demo_project]) (rg_ticks (demo_registry [demo_project]))) (demo_registry [demo_project]) = Inr due0"
    unfolding start places by blast
  then have "map sc_project_id [r] = [''0123456789abcdef'']"
    using \<open>is_due demo_places 0 demo_project = Inr True\<close> demo_loaded(1) pid by (auto simp: due_projects_def demo_registry_def)
  with run show ?thesis by (intro exI conjI)
qed

theorem removed_project_aborts_witness:
  "\<exists>w2. run_projects (demo_scheduler True) [demo_project, demo_project] demo_scheduler_world
     = (Inl (ValueError ''Unknown workspace project: 0123456789abcdef''), w2)"
proof -
  obtain r where run: "run_registered_project (demo_scheduler True) demo_project demo_scheduler_world
     = (Inr r, demo_scheduler_world\<lparr>sd_registry := demo_registry []\<rparr>)" using demo_run [of True] by fastforce
  have "load_registry demo_places (demo_registry []) = Inr \<lparr>ws_projects = [], ws_version = workspace_version\<rparr>"
    by (intro load_written) (simp_all add: demo_registry_def)
  then show ?thesis using removed_project_aborts [OF run, of "\<lparr>ws_projects = [], ws_version = workspace_version\<rparr>" "[demo_project]"]
    by (auto simp: demo_scheduler_def demo_registry_def demo_project_def)
qed

end
