(* ===== verification/Release.thy ===== *)
theory Release imports Wire_Formats State_Store Json_Read "HOL-Library.Word" begin

unbundle bit_operations_syntax

text \<open>
  Signed catalogs and the updater (\<open>src/llm_harness/signed_catalog.py\<close>, \<open>updater.py\<close>): trusted publishers,
  the RSA signature of a catalog, the newest release for a platform, the check and the installation of
  a package, and the pointer to the current release.

  Bytes are numbers below 256. sha256, the decoding of base64, the bytes of a text and the transport are
  parameters.
\<close>

section \<open>Signatures\<close>

record signing =
  sg_sha256 :: "string \<Rightarrow> nat list"
  sg_base64 :: "string \<Rightarrow> nat list option"

definition base64url_decode :: "signing \<Rightarrow> string \<Rightarrow> nat list res" where
  "base64url_decode g s = (case sg_base64 g s of
     None \<Rightarrow> Inl (SignedCatalogError ''Publisher key or signature is not valid base64url.'') | Some bs \<Rightarrow> Inr bs)"

text \<open>\<open>int.from_bytes(bs, "big")\<close> and \<open>n.to_bytes(size, "big")\<close>\<close>

definition from_bytes :: "nat list \<Rightarrow> nat" where
  "from_bytes bs = foldl (\<lambda>n b. 256 * n + b) 0 bs"

fun to_bytes :: "nat \<Rightarrow> nat \<Rightarrow> nat list" where
  "to_bytes 0 n = []"
| "to_bytes (Suc k) n = to_bytes k (n div 256) @ [n mod 256]"

definition digest_prefix :: "nat list" where
  "digest_prefix = [0x30, 0x31, 0x30, 0x0d, 0x06, 0x09, 0x60, 0x86, 0x48, 0x01, 0x65, 0x03, 0x04, 0x02, 0x01, 0x05, 0x00, 0x04, 0x20]"

fun bit_length :: "nat \<Rightarrow> nat" where
  "bit_length n = (if n = 0 then 0 else Suc (bit_length (n div 2)))"

declare bit_length.simps [simp del]

definition byte_size :: "nat \<Rightarrow> nat" where
  "byte_size n = (bit_length n + 7) div 8"

definition padded_digest :: "signing \<Rightarrow> string \<Rightarrow> nat \<Rightarrow> nat list option" where
  "padded_digest g message width =
     (let info = digest_prefix @ sg_sha256 g message in
      if width < length info + 11 then None
      else Some ([0, 1] @ replicate (width - length info - 3) 255 @ [0] @ info))"

definition verify_rs256 :: "signing \<Rightarrow> string \<Rightarrow> nat list \<Rightarrow> string \<Rightarrow> string \<Rightarrow> bool res" where
  "verify_rs256 g message signature n_text e_text =
     rbind (base64url_decode g n_text) (\<lambda>n_bytes.
     rbind (base64url_decode g e_text) (\<lambda>e_bytes.
     let modulus = from_bytes n_bytes; exponent = from_bytes e_bytes; width = byte_size modulus in
     if length signature \<noteq> width \<or> exponent < 3 then Inr False
     else if modulus = 0 then Inl (ValueError ''pow() 3rd argument cannot be 0'')
     else Inr (padded_digest g message width = Some (to_bytes width (from_bytes signature ^ exponent mod modulus)))))"

section \<open>Publishers and catalogs\<close>

definition trust_store_schema :: string where
  "trust_store_schema = ''hoh.trusted-publishers''"

definition json_string :: "json \<Rightarrow> string option" where
  "json_string j = (case j of JStr s \<Rightarrow> Some s | _ \<Rightarrow> None)"

definition validate_publisher :: "signing \<Rightarrow> json \<Rightarrow> unit res" where
  "validate_publisher g j = (case j of
     JObj d \<Rightarrow> (case json_string (jget d ''key_id'') of
         None \<Rightarrow> Inl (SignedCatalogError ''Publisher key_id must be non-empty.'')
       | Some key \<Rightarrow>
           if strip key = [] then Inl (SignedCatalogError ''Publisher key_id must be non-empty.'')
           else (case jget d ''rsa'' of
               JObj rsa \<Rightarrow> (case (json_string (jget rsa ''n''), json_string (jget rsa ''e'')) of
                   (Some n, Some e) \<Rightarrow>
                     rbind (base64url_decode g n) (\<lambda>modulus.
                     rbind (base64url_decode g e) (\<lambda>exponent.
                     check (256 \<le> length modulus \<and> exponent \<noteq> []) (SignedCatalogError ''Publisher RSA key must be at least 2048 bits.'')))
                 | _ \<Rightarrow> Inl (SignedCatalogError ''Publisher identity must contain RSA modulus and exponent.''))
             | _ \<Rightarrow> Inl (SignedCatalogError ''Publisher identity must contain RSA modulus and exponent.'')))
   | _ \<Rightarrow> Inl (SignedCatalogError ''Publisher identity must be an object.''))"

definition load_trust_store :: "signing \<Rightarrow> path \<Rightarrow> json durable \<Rightarrow> json list res" where
  "load_trust_store g target file =
     rbind (read_json file (JObj [(''schema'', JStr trust_store_schema), (''version'', JStr ''1.0''), (''publishers'', JList [])])) (\<lambda>payload.
     case payload of
       JObj d \<Rightarrow>
         if jget d ''schema'' \<noteq> JStr trust_store_schema then Inl (SignedCatalogError (''Unsupported publisher trust store: '' @ path_str target))
         else (case jget d ''publishers'' of
             JList ps \<Rightarrow> rbind (mapE (validate_publisher g) ps) (\<lambda>_. Inr ps)
           | _ \<Rightarrow> Inl (SignedCatalogError (''Publisher trust store has no publishers array: '' @ path_str target)))
     | _ \<Rightarrow> Inl (SignedCatalogError (''Unsupported publisher trust store: '' @ path_str target)))"

definition publisher_key :: "json \<Rightarrow> json" where
  "publisher_key j = (case j of JObj d \<Rightarrow> jget d ''key_id'' | _ \<Rightarrow> JNull)"

text \<open>The publisher is read from its file (\<open>publisher\<close>); the new trust store is the value that is written.\<close>

definition import_publisher :: "signing \<Rightarrow> path \<Rightarrow> json \<Rightarrow> json durable \<Rightarrow> (string \<times> json) res" where
  "import_publisher g target publisher file =
     rbind (validate_publisher g publisher) (\<lambda>_.
     rbind (load_trust_store g target file) (\<lambda>ps.
     Inr (py_str (publisher_key publisher),
       JObj [(''schema'', JStr trust_store_schema), (''version'', JStr ''1.0''),
         (''publishers'', JList (filter (\<lambda>p. publisher_key p \<noteq> publisher_key publisher) ps @ [publisher]))])))"

definition verify_signed_catalog :: "signing \<Rightarrow> json \<Rightarrow> json list \<Rightarrow> string option \<Rightarrow> jobj res" where
  "verify_signed_catalog g envelope publishers expected = (case envelope of
     JObj d \<Rightarrow>
       if jget d ''schema'' \<noteq> JStr ''hoh.signed-catalog'' \<or> jget d ''version'' \<noteq> JStr ''1.0''
       then Inl (SignedCatalogError ''Unsupported signed catalog envelope.'')
       else if jget d ''algorithm'' \<noteq> JStr ''RS256'' then Inl (SignedCatalogError ''Only RS256 signed catalogs are supported.'')
       else (case (jget d ''key_id'', jget d ''payload'', jget d ''signature'') of
           (JStr key, JObj payload, JStr signature_text) \<Rightarrow>
             (case List.find (\<lambda>p. publisher_key p = JStr key) publishers of
                None \<Rightarrow> Inl (SignedCatalogError (''Catalog publisher is not trusted: '' @ key))
              | Some publisher \<Rightarrow>
                  rbind (validate_publisher g publisher) (\<lambda>_.
                  rbind (base64url_decode g signature_text) (\<lambda>signature.
                  let rsa = (case publisher of JObj pd \<Rightarrow> (case jget pd ''rsa'' of JObj rd \<Rightarrow> rd | _ \<Rightarrow> []) | _ \<Rightarrow> []) in
                  rbind (verify_rs256 g (canonical_json_text (JObj payload)) signature (py_str (jget rsa ''n'')) (py_str (jget rsa ''e''))) (\<lambda>valid.
                  if \<not> valid then Inl (SignedCatalogError ''Catalog signature is invalid.'')
                  else (case expected of
                      None \<Rightarrow> Inr payload
                    | Some kind \<Rightarrow>
                        if jget payload ''kind'' \<noteq> JStr kind
                        then Inl (SignedCatalogError (''Expected '' @ kind @ '' catalog, received '' @ py_repr (jget payload ''kind'') @ ''.''))
                        else Inr payload)))))
         | _ \<Rightarrow> Inl (SignedCatalogError ''Signed catalog envelope is incomplete.''))
   | _ \<Rightarrow> Inl AttributeError)"

text \<open>\<open>source\<close> is the text that was read, or the failure to read it.\<close>

definition fetch_signed_catalog :: "signing \<Rightarrow> path \<Rightarrow> json durable \<Rightarrow> string res \<Rightarrow> string option \<Rightarrow> jobj res" where
  "fetch_signed_catalog g target file source expected =
     rbind source (\<lambda>text. case loads text of
       None \<Rightarrow> Inl (SignedCatalogError ''Signed catalog is not valid UTF-8 JSON.'')
     | Some envelope \<Rightarrow> rbind (load_trust_store g target file) (\<lambda>ps. verify_signed_catalog g envelope ps expected))"

section \<open>Versions\<close>

record release_artifact =
  ra_version :: string
  ra_platform :: string
  ra_url :: string
  ra_sha256 :: string
  ra_bytes :: int
  ra_notes_url :: string

type_synonym version_key = "nat \<times> nat \<times> nat \<times> string list"

definition bad_version :: "string \<Rightarrow> exn" where
  "bad_version value = UpdateError (''Release version is not semantic major.minor.patch: '' @ value)"

text \<open>\<open>str.isdigit\<close> accepts the superscript digits, which \<open>int\<close> refuses.\<close>

definition version_number :: "string \<Rightarrow> nat res" where
  "version_number part = (case parse_int part of None \<Rightarrow> Inl (ValueError ''int'') | Some i \<Rightarrow> Inr (nat i))"

definition version_tuple :: "string \<Rightarrow> version_key res" where
  "version_tuple value =
     (case split_once CHR ''-'' (strip value) of (main, suffix_text) \<Rightarrow>
        (case split_char CHR ''.'' main of
           [a, b, c] \<Rightarrow>
             if list_ex (\<lambda>p. p = [] \<or> \<not> list_all is_digit p) [a, b, c] then Inl (bad_version value)
             else rbind (version_number a) (\<lambda>x. rbind (version_number b) (\<lambda>y. rbind (version_number c) (\<lambda>z.
                  Inr (x, y, z, (case suffix_text of None \<Rightarrow> [''~''] | Some s \<Rightarrow> split_char CHR ''.'' s)))))
         | _ \<Rightarrow> Inl (bad_version value)))"

text \<open>The order of tuples, with strings by their characters.\<close>

fun text_less :: "string \<Rightarrow> string \<Rightarrow> bool" where
  "text_less s [] = False"
| "text_less [] (d # t) = True"
| "text_less (c # s) (d # t) = (code c < code d \<or> (c = d \<and> text_less s t))"

fun texts_less :: "string list \<Rightarrow> string list \<Rightarrow> bool" where
  "texts_less xs [] = False"
| "texts_less [] (y # ys) = True"
| "texts_less (x # xs) (y # ys) = (text_less x y \<or> (x = y \<and> texts_less xs ys))"

fun version_less :: "version_key \<Rightarrow> version_key \<Rightarrow> bool" where
  "version_less (a, b, c, s) (a', b', c', s') =
     (a < a' \<or> (a = a' \<and> (b < b' \<or> (b = b' \<and> (c < c' \<or> (c = c' \<and> texts_less s s'))))))"

section \<open>The newest release\<close>

definition artifact_from_payload :: "jobj \<Rightarrow> release_artifact res" where
  "artifact_from_payload d =
     rbind (case
         rbind (jitem d ''version'') (\<lambda>v. rbind (jitem d ''platform'') (\<lambda>p. rbind (jitem d ''url'') (\<lambda>u.
         rbind (jitem d ''sha256'') (\<lambda>s. rbind (rbind (jitem d ''bytes'') py_int) (\<lambda>n.
         Inr \<lparr>ra_version = py_str v, ra_platform = py_str p, ra_url = py_str u, ra_sha256 = casefold (py_str s), ra_bytes = n,
           ra_notes_url = py_str (jor (jget d ''notes_url'') (JStr []))\<rparr>)))))
       of Inl _ \<Rightarrow> Inl (UpdateError ''Release catalog contains an invalid artifact.'') | Inr a \<Rightarrow> Inr a) (\<lambda>a.
     if length (ra_sha256 a) \<noteq> 64 \<or> \<not> list_all (\<lambda>c. c \<in> set ''0123456789abcdef'') (ra_sha256 a)
     then Inl (UpdateError ''Release artifact SHA-256 is invalid.'')
     else rbind (version_tuple (ra_version a)) (\<lambda>_. Inr a))"

text \<open>\<open>max(..., default=None)\<close>: the first of the greatest.\<close>

fun newest :: "(release_artifact \<times> version_key) option \<Rightarrow> (release_artifact \<times> version_key) list \<Rightarrow> (release_artifact \<times> version_key) option" where
  "newest best [] = best"
| "newest None (x # xs) = newest (Some x) xs"
| "newest (Some b) (x # xs) = newest (Some (if version_less (snd b) (snd x) then x else b)) xs"

definition platform_artifacts :: "string \<Rightarrow> json list \<Rightarrow> jobj list" where
  "platform_artifacts target items =
     concat (map (\<lambda>j. case j of JObj d \<Rightarrow> if jget d ''platform'' = JStr target then [d] else [] | _ \<Rightarrow> []) items)"

definition check_for_update ::
  "signing \<Rightarrow> path \<Rightarrow> json durable \<Rightarrow> string res \<Rightarrow> string \<Rightarrow> string \<Rightarrow> (release_artifact option \<times> jobj) res" where
  "check_for_update g target file source current_version platform =
     rbind (case fetch_signed_catalog g target file source (Some ''releases'') of
         Inl (SignedCatalogError m) \<Rightarrow> Inl (UpdateError m) | r \<Rightarrow> r) (\<lambda>catalog.
     case jget catalog ''artifacts'' of
       JList items \<Rightarrow>
         rbind (mapE artifact_from_payload (platform_artifacts platform items)) (\<lambda>candidates.
         rbind (mapE (\<lambda>a. rbind (version_tuple (ra_version a)) (\<lambda>k. rbind (version_tuple current_version) (\<lambda>c. Inr (a, k, c)))) candidates) (\<lambda>keyed.
         let newer = map (\<lambda>(a, k, c). (a, k)) (filter (\<lambda>(a, k, c). version_less c k) keyed)
         in Inr (map_option fst (newest None newer), catalog)))
     | _ \<Rightarrow> Inl (UpdateError ''Release catalog has no artifacts array.''))"

section \<open>Packages\<close>

record zip_member =
  zm_filename :: string
  zm_mode :: nat
  zm_is_dir :: bool
  zm_head :: string

record package =
  pk_size :: int
  pk_sha256 :: string
  pk_members :: "zip_member list option"

definition verify_local_package :: "package res \<Rightarrow> release_artifact \<Rightarrow> package res" where
  "verify_local_package file a = (case file of
     Inl e \<Rightarrow> Inl (UpdateError (''Cannot read release package: '' @ exn_message e))
   | Inr pk \<Rightarrow>
       if pk_size pk \<noteq> ra_bytes a then Inl (UpdateError ''Local release size does not match the signed catalog.'')
       else if pk_sha256 pk \<noteq> ra_sha256 a then Inl (UpdateError ''Local release SHA-256 does not match the signed catalog.'')
       else Inr pk)"

text \<open>One file of an installed release with the mode it was given.\<close>

record extracted =
  ex_name :: string
  ex_mode :: "nat option"

definition needs_execute_bit :: "zip_member \<Rightarrow> bool" where
  "needs_execute_bit m \<longleftrightarrow> path_suffix (path_of (zm_filename m)) = ''.sh'' \<or> zm_head m = ''#!''"

definition restored_mode :: "zip_member \<Rightarrow> nat option" where
  "restored_mode m = (let mode = zm_mode m AND 0x1FF in
     if zm_is_dir m then None
     else if mode AND 0x49 \<noteq> 0 then Some (mode OR 0x1A4)
     else if needs_execute_bit m then Some 0x1ED else None)"

definition check_member :: "(path \<Rightarrow> path) \<Rightarrow> path \<Rightarrow> zip_member \<Rightarrow> unit res" where
  "check_member resolve base m =
     (if relative_to (resolve (path_join base (path_of (zm_filename m)))) base = None
      then Inl (UpdateError (''Release archive contains an unsafe path: '' @ zm_filename m))
      else if zm_mode m AND 0xF000 = 0xA000
      then Inl (UpdateError (''Release archive contains an unsupported symbolic link: '' @ zm_filename m))
      else Inr ())"

definition safe_extract :: "(path \<Rightarrow> path) \<Rightarrow> path \<Rightarrow> zip_member list \<Rightarrow> extracted list res" where
  "safe_extract resolve base members =
     rbind (mapE (check_member resolve base) members) (\<lambda>_.
     Inr (map (\<lambda>m. \<lparr>ex_name = zm_filename m, ex_mode = restored_mode m\<rparr>) members))"

section \<open>Installed releases\<close>

record release_dir =
  rd_receipt :: "json durable"
  rd_files :: "extracted list"

record install_tree =
  it_root :: path
  it_current :: "json durable"
  it_versions :: "path \<Rightarrow> release_dir option"
  it_launchers :: "string \<Rightarrow> (string \<times> nat option) option"
  it_budget :: "nat option"
  it_fault :: string

type_synonym 'a install_op = "(install_tree, 'a) op"

text \<open>A change of the disk that may fail.\<close>

definition install_write :: "(install_tree \<Rightarrow> install_tree) \<Rightarrow> unit install_op" where
  "install_write f = (\<lambda>t. case it_budget t of
     None \<Rightarrow> (Inr (), f t)
   | Some 0 \<Rightarrow> (Inl (OSError (it_fault t)), t)
   | Some (Suc n) \<Rightarrow> (Inr (), f (t\<lparr>it_budget := Some n\<rparr>)))"

definition version_dir :: "install_tree \<Rightarrow> string \<Rightarrow> path" where
  "version_dir t version = path_join (path_join (it_root t) (path_of ''versions'')) (path_of version)"

definition current_release :: "install_tree \<Rightarrow> string option res" where
  "current_release t =
     rbind (read_json (it_current t) (JObj [])) (\<lambda>payload. case payload of
       JObj d \<Rightarrow>
         if jget d ''schema'' \<notin> {JNull, JStr ''hoh.current-release''} then Inl (UpdateError ''Installed release pointer is corrupted.'')
         else let current = jget d ''current'' in Inr (if truthy current then Some (py_str current) else None)
     | _ \<Rightarrow> Inl (UpdateError ''Installed release pointer is corrupted.''))"

definition pointer :: "string \<Rightarrow> string \<Rightarrow> json" where
  "pointer current previous = JObj [(''schema'', JStr ''hoh.current-release''), (''version'', JStr ''1.0''),
     (''current'', JStr current), (''previous'', JStr previous)]"

text \<open>\<open>_write_posix_launchers\<close>: a launcher is written and then made executable.\<close>

definition launcher_text :: "string \<Rightarrow> string" where
  \<open>launcher_text script =
     ''#!/usr/bin/env sh'' @ [CHR 0x0A] @ ''set -eu'' @ [CHR 0x0A]
     @ ''root=$(CDPATH= cd -- "$(dirname -- "$0")" && pwd -P)'' @ [CHR 0x0A]
     @ ''version=$(python3 -c '' @ [CHR 0x27] @ ''import json,sys; print(json.load(open(sys.argv[1], encoding="utf-8"))["current"])'' @ [CHR 0x27]
     @ '' "$root/current.json")'' @ [CHR 0x0A]
     @ ''exec "$root/versions/$version/scripts/'' @ script @ ''" "$@"'' @ [CHR 0x0A]\<close>

definition write_launcher :: "string \<Rightarrow> string \<Rightarrow> nat option \<Rightarrow> install_tree \<Rightarrow> install_tree" where
  "write_launcher name script mode t = t\<lparr>it_launchers := (it_launchers t)(name \<mapsto> (launcher_text script, mode))\<rparr>"

definition write_launchers :: "unit install_op" where
  "write_launchers =
     mseq (install_write (write_launcher ''hoh'' ''hoh.sh'' None))
    (mseq (install_write (write_launcher ''hoh'' ''hoh.sh'' (Some 0x1ED)))
    (mseq (install_write (write_launcher ''hoh-gui'' ''hoh-gui.sh'' None))
          (install_write (write_launcher ''hoh-gui'' ''hoh-gui.sh'' (Some 0x1ED)))))"

definition activate_release :: "string \<Rightarrow> unit install_op" where
  "activate_release version =
     mbind (gets current_release) (\<lambda>previous.
     mseq (install_write (\<lambda>t. t\<lparr>it_current := Content (pointer version (or_text previous []))\<rparr>)) write_launchers)"

definition receipt :: "release_artifact \<Rightarrow> json" where
  "receipt a = JObj [(''schema'', JStr ''hoh.installed-release''), (''version'', JStr (ra_version a)), (''bytes'', JInt (ra_bytes a)),
     (''sha256'', JStr (ra_sha256 a))]"

definition receipt_matches :: "release_artifact \<Rightarrow> json \<Rightarrow> bool" where
  "receipt_matches a j = (case j of JObj d \<Rightarrow> jget d ''sha256'' = JStr (ra_sha256 a) \<and> jget d ''bytes'' = JInt (ra_bytes a) | _ \<Rightarrow> False)"

text \<open>A fresh staging directory is filled, given its receipt and moved to its place; it is removed when a step fails. Its name
  is made of the version, so a version with a slash has no directory to be created in.\<close>

definition install_new :: "(path \<Rightarrow> path) \<Rightarrow> path \<Rightarrow> package \<Rightarrow> release_artifact \<Rightarrow> path \<Rightarrow> path install_op" where
  "install_new resolve staging pk a target =
     mseq (require (CHR ''/'' \<notin> set (ra_version a)) (OSError ''No such file or directory''))
    (case pk_members pk of
       None \<Rightarrow> raise BadZipFile
     | Some members \<Rightarrow>
         mbind (lift_res (safe_extract resolve staging members)) (\<lambda>files.
         mseq (install_write id)
        (mseq (require (files \<noteq> []) (UpdateError ''Release package is empty.''))
        (mseq (install_write id)
        (mseq (install_write (\<lambda>t. t\<lparr>it_versions := (it_versions t)(target := Some \<lparr>rd_receipt = Content (receipt a), rd_files = files\<rparr>)\<rparr>))
        (mseq (activate_release (ra_version a)) (ret target)))))))"

definition install_release :: "(path \<Rightarrow> path) \<Rightarrow> path \<Rightarrow> package res \<Rightarrow> release_artifact \<Rightarrow> path install_op" where
  "install_release resolve staging file a =
     mbind (lift_res (verify_local_package file a)) (\<lambda>pk.
     mbind (gets (\<lambda>t. Inr (version_dir t (ra_version a)))) (\<lambda>target.
     mbind (gets (\<lambda>t. Inr (it_versions t target))) (\<lambda>installed.
     case installed of
       Some dir \<Rightarrow>
         mbind (lift_res (read_json (rd_receipt dir) (JObj []))) (\<lambda>stored.
         mseq (require (receipt_matches a stored) (UpdateError (''Installed release '' @ ra_version a @ '' has no matching integrity receipt.'')))
        (mseq (activate_release (ra_version a)) (ret target)))
     | None \<Rightarrow> install_new resolve staging pk a target)))"

definition rollback_release :: "string install_op" where
  "rollback_release =
     mbind (gets (\<lambda>t. read_json (it_current t) (JObj []))) (\<lambda>payload.
     case payload of
       JObj d \<Rightarrow>
         let current = py_str (jor (jget d ''current'') (JStr [])); previous = py_str (jor (jget d ''previous'') (JStr [])) in
         mbind (gets (\<lambda>t. Inr (it_versions t (version_dir t previous)))) (\<lambda>dir.
         mseq (require (previous \<noteq> [] \<and> dir \<noteq> None) (UpdateError ''No installed previous release is available for rollback.''))
        (mseq (install_write (\<lambda>t. t\<lparr>it_current := Content (pointer previous current)\<rparr>)) (ret previous)))
     | _ \<Rightarrow> raise (UpdateError ''Installed release pointer is corrupted.''))"

section \<open>Downloads\<close>

definition max_package_bytes :: int where
  "max_package_bytes = 2147483648"

text \<open>The chunks that were read, and the failure that ended the reading, if any.\<close>

fun read_chunks :: "int \<Rightarrow> int \<Rightarrow> string list \<Rightarrow> string \<Rightarrow> string res" where
  "read_chunks limit seen [] got = Inr got"
| "read_chunks limit seen (c # cs) got =
     (let n = seen + int (length c) in
      if limit < n \<or> max_package_bytes < n then Inl (UpdateError ''Release download exceeds its signed size.'')
      else read_chunks limit n cs (got @ c))"

text \<open>\<open>secure\<close> says whether the address uses HTTPS, or HTTP to this machine; the result is what is moved to its place.\<close>

definition download_release :: "(string \<Rightarrow> string) \<Rightarrow> (string \<Rightarrow> bool) \<Rightarrow> string list \<times> string option \<Rightarrow> release_artifact \<Rightarrow> string res" where
  "download_release sha256_hex secure reply a =
     (if ra_bytes a \<le> 0 \<or> max_package_bytes < ra_bytes a then Inl (UpdateError ''Release package size is outside the allowed range.'')
      else if \<not> secure (ra_url a) then Inl (UpdateError ''Release downloads require HTTPS; HTTP is allowed only for loopback testing.'')
      else rbind (read_chunks (ra_bytes a) 0 (fst reply) []) (\<lambda>got.
        case snd reply of
          Some m \<Rightarrow> Inl (UpdateError (''Release download failed: '' @ m))
        | None \<Rightarrow>
            if int (length got) \<noteq> ra_bytes a \<or> sha256_hex got \<noteq> ra_sha256 a
            then Inl (UpdateError ''Release package does not match its signed size and SHA-256.'')
            else Inr got))"

end
