(* ===== verification/Release_Props.thy ===== *)
theory Release_Props imports Release Durable_Props Sample_Supervisor begin

text \<open>
  Properties of catalogs and versions: a signature binds the payload, and the newest release is found.
\<close>

section \<open>Signatures\<close>

lemma verified_parts:
  assumes "verify_signed_catalog g (JObj d) publishers expected = Inr payload"
  shows "\<exists>key st p n e s. jget d ''key_id'' = JStr key \<and> jget d ''payload'' = JObj payload \<and> jget d ''signature'' = JStr st
    \<and> List.find (\<lambda>p. publisher_key p = JStr key) publishers = Some p \<and> validate_publisher g p = Inr ()
    \<and> base64url_decode g st = Inr s
    \<and> verify_rs256 g (canonical_json_text (JObj payload)) s n e = Inr True
    \<and> (\<exists>pd rd. p = JObj pd \<and> jget pd ''rsa'' = JObj rd \<and> jget rd ''n'' = JStr n \<and> jget rd ''e'' = JStr e)
    \<and> (case expected of None \<Rightarrow> True | Some kind \<Rightarrow> jget payload ''kind'' = JStr kind)"
proof -
  obtain key q st where parts: "jget d ''key_id'' = JStr key" "jget d ''payload'' = JObj q" "jget d ''signature'' = JStr st"
    using assms by (auto simp: verify_signed_catalog_def split: if_splits json.splits)
  obtain p where p: "List.find (\<lambda>p. publisher_key p = JStr key) publishers = Some p"
    using assms parts by (auto simp: verify_signed_catalog_def split: if_splits option.splits)
  have v: "validate_publisher g p = Inr ()"
    using assms parts p by (auto simp: verify_signed_catalog_def rbind_Inr_iff split: if_splits)
  obtain pd rd n e where rsa: "p = JObj pd" "jget pd ''rsa'' = JObj rd" "jget rd ''n'' = JStr n" "jget rd ''e'' = JStr e"
    using v unfolding validate_publisher_def json_string_def by (auto split: json.split_asm option.split_asm if_split_asm)
  obtain s where s: "base64url_decode g st = Inr s"
    using assms parts p by (auto simp: verify_signed_catalog_def rbind_Inr_iff split: if_splits)
  have "verify_rs256 g (canonical_json_text (JObj q)) s n e = Inr True \<and> payload = q
      \<and> (case expected of None \<Rightarrow> True | Some kind \<Rightarrow> jget q ''kind'' = JStr kind)"
    using assms parts p s rsa
    by (auto simp: verify_signed_catalog_def rbind_Inr_iff py_str_def split: if_splits option.splits)
  then show ?thesis using parts p v s rsa by blast
qed

lemma padded_same:
  assumes "padded_digest g m w = Some bs" "padded_digest g m' w = Some bs" "length (sg_sha256 g m) = length (sg_sha256 g m')"
  shows "sg_sha256 g m = sg_sha256 g m'"
  using assms by (auto simp: padded_digest_def Let_def split: if_splits)

lemma rs256_digest:
  "verify_rs256 g m s n e = Inr True \<Longrightarrow> verify_rs256 g m' s n e = Inr True \<Longrightarrow> length (sg_sha256 g m) = length (sg_sha256 g m')
     \<Longrightarrow> sg_sha256 g m = sg_sha256 g m'"
  unfolding verify_rs256_def rbind_Inr_iff Let_def
  by (elim exE conjE) (auto split: if_splits intro: padded_same)


text \<open>A key of 2046 bits for which one signature is known: the cube of \<open>2 ^ 682\<close> is the padded digest modulo \<open>N\<close>.\<close>

lemma from_bytes_append: "from_bytes (as @ bs) = from_bytes as * 256 ^ length bs + from_bytes bs"
proof -
  have step: "foldl (\<lambda>n b. 256 * n + b) k bs = k * 256 ^ length bs + foldl (\<lambda>n b. 256 * n + b) 0 bs" for k :: nat and bs
  proof (induction bs arbitrary: k)
    case (Cons b bs)
    show ?case using Cons.IH [of "256 * k + b"] Cons.IH [of b] by (simp add: algebra_simps)
  qed simp
  show ?thesis unfolding from_bytes_def foldl_append by (rule step)
qed

lemma from_bytes_less: "\<forall>b \<in> set bs. b < 256 \<Longrightarrow> from_bytes bs < 256 ^ length bs"
proof (induction bs rule: rev_induct)
  case (snoc b bs)
  then have "from_bytes bs + 1 \<le> 256 ^ length bs" "b < 256" by (auto simp: Suc_le_eq)
  then have "(from_bytes bs + 1) * 256 \<le> 256 ^ length bs * 256" by (intro mult_le_mono1)
  then show ?case using \<open>b < 256\<close> by (simp add: from_bytes_append) (simp add: from_bytes_def)
qed (simp add: from_bytes_def)

lemma to_bytes_from: "\<forall>b \<in> set bs. b < 256 \<Longrightarrow> to_bytes (length bs) (from_bytes bs) = bs"
proof (induction bs rule: rev_induct)
  case (snoc b bs)
  have "from_bytes (bs @ [b]) = from_bytes bs * 256 + b" by (simp add: from_bytes_append) (simp add: from_bytes_def)
  then show ?case using snoc by simp
qed simp

lemma from_bytes_to: "n < 256 ^ k \<Longrightarrow> from_bytes (to_bytes k n) = n"
proof (induction k arbitrary: n)
  case (Suc k)
  then have "from_bytes (to_bytes k (n div 256)) = n div 256" by (intro Suc.IH) (simp add: less_mult_imp_div_less mult.commute)
  then show ?case by (simp add: from_bytes_append) (simp add: from_bytes_def)
qed (simp add: from_bytes_def)

lemma to_bytes_length [simp]: "length (to_bytes k n) = k"
  by (induction k arbitrary: n) auto

lemma bit_length_bounds: "2 ^ k \<le> n \<Longrightarrow> n < 2 ^ Suc k \<Longrightarrow> bit_length n = Suc k"
proof (induction k arbitrary: n)
  case 0
  then have "n = Suc 0" by simp
  moreover have "bit_length 0 = 0" by (subst bit_length.simps) simp
  moreover have "bit_length (Suc 0) = Suc (bit_length 0)" by (subst bit_length.simps) simp
  ultimately show ?case by simp
next
  case (Suc k)
  then have "bit_length (n div 2) = Suc k" by (intro Suc.IH) (auto simp: less_mult_imp_div_less)
  moreover have "n \<noteq> 0" using Suc.prems by (auto intro: gr0I)
  ultimately show ?case by (simp add: bit_length.simps [of n])
qed

definition demo_digest :: "nat list" where
  "demo_digest = [0, 1] @ replicate 202 255 @ [0] @ digest_prefix @ replicate 32 0"

definition demo_modulus :: nat where
  "demo_modulus = 2 ^ 2046 - from_bytes demo_digest"

definition demo_signing :: signing where
  "demo_signing = \<lparr>sg_sha256 = (\<lambda>_. replicate 32 0),
     sg_base64 = (\<lambda>t. if t = ''n'' then Some (to_bytes 256 demo_modulus) else if t = ''e'' then Some [3]
        else if t = ''s'' then Some (to_bytes 256 (2 ^ 682)) else None)\<rparr>"

lemma demo_digest_length: "length demo_digest = 256" "\<forall>b \<in> set demo_digest. b < 256"
  by (simp_all add: demo_digest_def digest_prefix_def)

lemma demo_digest_small: "from_bytes demo_digest < 2 ^ 2033"
proof -
  have "length (replicate 202 255 @ [0] @ digest_prefix @ replicate 32 0 :: nat list) = 254"
    "\<forall>b \<in> set (replicate 202 255 @ [0] @ digest_prefix @ replicate 32 0 :: nat list). b < 256" by (simp_all add: digest_prefix_def)
  then have "from_bytes (replicate 202 255 @ [0] @ digest_prefix @ replicate 32 0) < 256 ^ 254" using from_bytes_less by metis
  moreover have "from_bytes demo_digest = 1 * 256 ^ 254 + from_bytes (replicate 202 255 @ [0] @ digest_prefix @ replicate 32 0)"
    unfolding demo_digest_def
    by (subst from_bytes_append) (simp only: \<open>length _ = 254\<close>, simp add: from_bytes_def)
  moreover have "2 * 256 ^ 254 = (2 :: nat) ^ 2033" by (simp add: power_mult [of 2 8 254, symmetric, simplified])
  ultimately show ?thesis by linarith
qed

lemma demo_verified: "verify_rs256 demo_signing m (to_bytes 256 (2 ^ 682)) ''n'' ''e'' = Inr True"
proof -
  have small: "from_bytes demo_digest < 2 ^ 2033" by (rule demo_digest_small)
  have pow: "(2::nat) ^ 2033 < 2 ^ 2045" "(2::nat) ^ 2046 = 2 ^ 2045 + 2 ^ 2045" by (intro power_strict_increasing) simp_all
  have arith: "0 < a \<Longrightarrow> a < p \<Longrightarrow> p < q \<Longrightarrow> b = q + q \<Longrightarrow> b - a < b \<and> q \<le> b - a \<and> a < b - a \<and> a + (b - a) = b" for a b p q :: nat
    by arith
  have "from_bytes demo_digest \<noteq> 0"
  proof
    assume "from_bytes demo_digest = 0"
    then have "to_bytes 256 0 = demo_digest" using to_bytes_from [OF demo_digest_length(2)] demo_digest_length(1) by simp
    moreover have "set (to_bytes k 0) \<subseteq> {0}" for k by (induction k) auto
    ultimately have "set demo_digest \<subseteq> {0}" by metis
    then show False by (simp add: demo_digest_def)
  qed
  then have n: "demo_modulus < 2 ^ 2046" "2 ^ 2045 \<le> demo_modulus" "from_bytes demo_digest < demo_modulus"
    "from_bytes demo_digest + demo_modulus = 2 ^ 2046"
    using arith [OF _ small pow] unfolding demo_modulus_def by (simp_all only: neq0_conv)
  then have size: "byte_size demo_modulus = 256" using bit_length_bounds [OF n(2)] by (simp add: byte_size_def)
  have p: "(256::nat) ^ 256 = 2 ^ 2048" by (simp add: power_mult [of 2 8 256, symmetric, simplified])
  have "(2::nat) ^ 2046 < 2 ^ 2048" "(2::nat) ^ 682 < 2 ^ 2048" by (intro power_strict_increasing; simp)+
  then have "demo_modulus < 256 ^ 256" "(2::nat) ^ 682 < 256 ^ 256" using n(1) unfolding p by (blast intro: less_trans)+
  then have b: "from_bytes (to_bytes 256 demo_modulus) = demo_modulus" "from_bytes (to_bytes 256 (2 ^ 682)) = 2 ^ 682" by (simp_all add: from_bytes_to)
  have "(2 ^ 682) ^ 3 = (2::nat) ^ 2046" by (simp add: power_mult [symmetric])
  also have "\<dots> = from_bytes demo_digest + demo_modulus" by (rule n(4) [symmetric])
  finally have "(2 ^ 682) ^ 3 mod demo_modulus = from_bytes demo_digest" using mod_add_self2 mod_less [OF n(3)] by metis
  then have cube: "to_bytes 256 ((2 ^ 682) ^ 3 mod demo_modulus) = demo_digest"
    using to_bytes_from [OF demo_digest_length(2)] demo_digest_length(1) by simp
  have "padded_digest demo_signing m 256 = Some demo_digest"
    by (simp add: padded_digest_def demo_signing_def demo_digest_def digest_prefix_def)
  moreover have "from_bytes [3] = 3" by (simp add: from_bytes_def)
  ultimately show ?thesis using b size cube n(3)
    by (simp add: verify_rs256_def base64url_decode_def demo_signing_def)
qed

definition demo_publisher :: json where
  "demo_publisher = JObj [(''key_id'', JStr ''k''), (''rsa'', JObj [(''n'', JStr ''n''), (''e'', JStr ''e'')])]"

definition demo_envelope :: "string \<Rightarrow> jobj \<Rightarrow> jobj" where
  "demo_envelope note payload = [(''schema'', JStr ''hoh.signed-catalog''), (''version'', JStr ''1.0''), (''algorithm'', JStr ''RS256''),
     (''key_id'', JStr ''k''), (''payload'', JObj payload), (''signature'', JStr ''s''), (''note'', JStr note)]"

lemma demo_valid: "validate_publisher demo_signing demo_publisher = Inr ()" "base64url_decode demo_signing ''s'' = Inr (to_bytes 256 (2 ^ 682))"
proof -
  have k: "strip ''k'' \<noteq> []" by code_simp
  show b: "base64url_decode demo_signing ''s'' = Inr (to_bytes 256 (2 ^ 682))"
    unfolding base64url_decode_def demo_signing_def by simp
  have "base64url_decode demo_signing ''n'' = Inr (to_bytes 256 demo_modulus)" "base64url_decode demo_signing ''e'' = Inr [3]"
    unfolding base64url_decode_def demo_signing_def by simp_all
  then show "validate_publisher demo_signing demo_publisher = Inr ()"
    using k by (simp add: validate_publisher_def demo_publisher_def json_string_def jget_def check_def)
qed

lemma demo_accepted:
  assumes "case expected of None \<Rightarrow> True | Some kind \<Rightarrow> jget payload ''kind'' = JStr kind"
  shows "verify_signed_catalog demo_signing (JObj (demo_envelope note payload)) [demo_publisher] expected = Inr payload"
  unfolding verify_signed_catalog_def demo_envelope_def
  using assms
  by (simp add: jget_def publisher_key_def demo_publisher_def demo_valid(1) [unfolded demo_publisher_def] demo_valid(2) demo_verified py_str_def
        del: power_numeral split: option.splits)


section \<open>The newest release\<close>

lemma text_less_order:
  "\<not> text_less s s" "text_less s t \<Longrightarrow> text_less t u \<Longrightarrow> text_less s u" "\<not> text_less s t \<Longrightarrow> \<not> text_less t s \<Longrightarrow> s = t"
proof -
  show "\<not> text_less s s" by (induction s) auto
  show "text_less s t \<Longrightarrow> text_less t u \<Longrightarrow> text_less s u"
  proof (induction s t arbitrary: u rule: text_less.induct)
    case (2 d t)
    then show ?case by (cases u) auto
  next
    case (3 c s d t)
    then show ?case by (cases u) auto
  qed simp
  show "\<not> text_less s t \<Longrightarrow> \<not> text_less t s \<Longrightarrow> s = t"
  proof (induction s t rule: text_less.induct)
    case (1 s)
    then show ?case by (cases s) auto
  next
    case (3 c s d t)
    then have "c = d" by (auto simp: code_def)
    then show ?case using 3 by auto
  qed simp
qed

lemma texts_less_order:
  "\<not> texts_less xs xs" "texts_less xs ys \<Longrightarrow> texts_less ys zs \<Longrightarrow> texts_less xs zs" "\<not> texts_less xs ys \<Longrightarrow> \<not> texts_less ys xs \<Longrightarrow> xs = ys"
proof -
  show "\<not> texts_less xs xs" by (induction xs) (auto simp: text_less_order)
  show "texts_less xs ys \<Longrightarrow> texts_less ys zs \<Longrightarrow> texts_less xs zs"
  proof (induction xs ys arbitrary: zs rule: texts_less.induct)
    case (2 y ys)
    then show ?case by (cases zs) auto
  next
    case (3 x xs y ys)
    then show ?case by (cases zs) (auto intro: text_less_order(2))
  qed simp
  show "\<not> texts_less xs ys \<Longrightarrow> \<not> texts_less ys xs \<Longrightarrow> xs = ys"
  proof (induction xs ys rule: texts_less.induct)
    case (1 xs)
    then show ?case by (cases xs) auto
  next
    case (3 x xs y ys)
    then show ?case using text_less_order(3) by auto
  qed simp
qed

lemma version_less_order:
  "\<not> version_less k k" "version_less k l \<Longrightarrow> version_less l m \<Longrightarrow> version_less k m" "\<not> version_less k l \<Longrightarrow> \<not> version_less l k \<Longrightarrow> k = l"
proof -
  show "\<not> version_less k k" by (cases k) (auto simp: texts_less_order)
  show "version_less k l \<Longrightarrow> version_less l m \<Longrightarrow> version_less k m"
    by (cases k; cases l; cases m) (auto intro: texts_less_order(2))
  show "\<not> version_less k l \<Longrightarrow> \<not> version_less l k \<Longrightarrow> k = l"
    by (cases k; cases l) (auto dest: texts_less_order(3))
qed

lemma newest_some:
  "\<exists>m. newest (Some b) xs = Some m \<and> m \<in> set (b # xs) \<and> \<not> version_less (snd m) (snd b) \<and> (\<forall>x \<in> set xs. \<not> version_less (snd m) (snd x))"
proof (induction xs arbitrary: b)
  case Nil
  then show ?case by (simp add: version_less_order)
next
  case (Cons x xs)
  let ?b = "if version_less (snd b) (snd x) then x else b"
  obtain m where m: "newest (Some ?b) xs = Some m" "m \<in> set (?b # xs)" "\<not> version_less (snd m) (snd ?b)"
    "\<forall>x \<in> set xs. \<not> version_less (snd m) (snd x)" using Cons.IH by blast
  have "\<not> version_less (snd m) (snd b) \<and> \<not> version_less (snd m) (snd x)"
  proof (cases "version_less (snd b) (snd x)")
    case True
    then show ?thesis using m(3) version_less_order(2) [of "snd m" "snd b" "snd x"] by auto
  next
    case False
    then have n: "\<not> version_less (snd m) (snd b)" using m(3) by simp
    moreover have "\<not> version_less (snd m) (snd x)"
    proof
      assume l: "version_less (snd m) (snd x)"
      show False
      proof (cases "version_less (snd b) (snd m)")
        case True
        then show False using version_less_order(2) [OF True l] False by simp
      next
        case False
        then show False using version_less_order(3) [OF n False] l \<open>\<not> version_less (snd b) (snd x)\<close> by simp
      qed
    qed
    ultimately show ?thesis by simp
  qed
  then show ?case using m by (auto split: if_splits)
qed

lemma newest_none:
  "newest None xs = None \<longleftrightarrow> xs = []"
  "newest None xs = Some m \<Longrightarrow> m \<in> set xs \<and> (\<forall>x \<in> set xs. \<not> version_less (snd m) (snd x))"
proof -
  have some: "xs = x # ys \<Longrightarrow> \<exists>m. newest None xs = Some m \<and> m \<in> set xs \<and> (\<forall>x \<in> set xs. \<not> version_less (snd m) (snd x))" for x ys
    using newest_some [of x ys] by auto
  show "newest None xs = None \<longleftrightarrow> xs = []" using some by (cases xs) auto
  show "newest None xs = Some m \<Longrightarrow> m \<in> set xs \<and> (\<forall>x \<in> set xs. \<not> version_less (snd m) (snd x))"
    using some by (cases xs) auto
qed

text \<open>C37: The update check answers with a valid release of the catalog for the platform that is newer than the current version,
  and none is newer than it; it answers with nothing only when no release of the platform is newer than the current one.\<close>

theorem update_is_newest:
  assumes "check_for_update g target file source installed platform = Inr (r, catalog)"
  shows "\<exists>items candidates. jget catalog ''artifacts'' = JList items
    \<and> mapE artifact_from_payload (platform_artifacts platform items) = Inr candidates
    \<and> (case r of
         None \<Rightarrow> \<forall>b \<in> set candidates. \<forall>c kb. version_tuple installed = Inr c \<longrightarrow> version_tuple (ra_version b) = Inr kb \<longrightarrow> \<not> version_less c kb
       | Some a \<Rightarrow> a \<in> set candidates \<and> (\<exists>c k. version_tuple installed = Inr c \<and> version_tuple (ra_version a) = Inr k \<and> version_less c k
           \<and> (\<forall>b \<in> set candidates. \<forall>kb. version_tuple (ra_version b) = Inr kb \<longrightarrow> \<not> version_less k kb)))"
proof -
  let ?key = "\<lambda>a. rbind (version_tuple (ra_version a)) (\<lambda>k. rbind (version_tuple installed) (\<lambda>c. Inr (a, k, c)))"
  obtain cat where cat: "rbind (Inr cat) (\<lambda>catalog. case jget catalog ''artifacts'' of
       JList items \<Rightarrow>
         rbind (mapE artifact_from_payload (platform_artifacts platform items)) (\<lambda>candidates.
         rbind (mapE ?key candidates) (\<lambda>keyed.
         let newer = map (\<lambda>(a, k, c). (a, k)) (filter (\<lambda>(a, k, c). version_less c k) keyed)
         in Inr (map_option fst (newest None newer), catalog)))
     | _ \<Rightarrow> Inl (UpdateError ''Release catalog has no artifacts array.'')) = Inr (r, catalog)"
    using assms unfolding check_for_update_def rbind_Inr_iff by (elim exE conjE) auto
  then obtain items candidates keyed where items: "jget catalog ''artifacts'' = JList items"
    "mapE artifact_from_payload (platform_artifacts platform items) = Inr candidates" "mapE ?key candidates = Inr keyed"
    "r = map_option fst (newest None (map (\<lambda>(a, k, c). (a, k)) (filter (\<lambda>(a, k, c). version_less c k) keyed)))"
    by (auto simp: rbind_Inr_iff Let_def split: json.split_asm)
  have "list_all2 (\<lambda>a y. ?key a = Inr y) candidates keyed" using items(3) by (simp only: mapE_Inr_iff)
  then have keyed: "list_all2 (\<lambda>a y. fst y = a \<and> version_tuple (ra_version a) = Inr (fst (snd y)) \<and> version_tuple installed = Inr (snd (snd y))) candidates keyed"
    by (rule list_all2_mono) (auto simp: rbind_Inr_iff)
  have into: "\<exists>y \<in> set keyed. fst y = b \<and> version_tuple (ra_version b) = Inr (fst (snd y)) \<and> version_tuple installed = Inr (snd (snd y))"
    if "b \<in> set candidates" for b
  proof -
    obtain i where "i < length candidates" "b = candidates ! i" using \<open>b \<in> set candidates\<close> by (auto simp: in_set_conv_nth)
    then show ?thesis using keyed by (intro bexI [of _ "keyed ! i"]) (auto simp: list_all2_conv_all_nth)
  qed
  have back_in: "fst y \<in> set candidates \<and> version_tuple (ra_version (fst y)) = Inr (fst (snd y)) \<and> version_tuple installed = Inr (snd (snd y))"
    if "y \<in> set keyed" for y using that keyed by (auto simp: list_all2_conv_all_nth in_set_conv_nth)
  show ?thesis
  proof (cases r)
    case None
    then have "filter (\<lambda>(a, k, c). version_less c k) keyed = []" using items(4) newest_none(1) by (metis map_is_Nil_conv option.map_disc_iff)
    then have "\<not> version_less c kb" if "b \<in> set candidates" "version_tuple installed = Inr c" "version_tuple (ra_version b) = Inr kb" for b c kb
      using into [OF that(1)] that by (auto simp: filter_empty_conv)
    then show ?thesis using items None by auto
  next
    case (Some a)
    let ?newer = "map (\<lambda>(a, k, c). (a, k)) (filter (\<lambda>(a, k, c). version_less c k) keyed)"
    obtain k where m: "newest None ?newer = Some (a, k)" using items(4) Some by (cases "newest None ?newer") auto
    obtain c where y: "(a, k, c) \<in> set keyed" "version_less c k" using newest_none(2) [OF m] by auto
    have top: "\<not> version_less k kb" if b: "b \<in> set candidates" "version_tuple (ra_version b) = Inr kb" for b kb
    proof
      assume l: "version_less k kb"
      obtain y' where y': "y' \<in> set keyed" "fst y' = b" "fst (snd y') = kb" "snd (snd y') = c"
        using into [OF b(1)] b(2) back_in [OF y(1)] by auto
      have "version_less c kb" using y(2) l version_less_order(2) by blast
      moreover have "y' = (b, kb, c)" using y'(2-4) by (simp add: prod_eq_iff)
      then have "(b, kb, c) \<in> set keyed" using y'(1) by (simp only:)
      ultimately have "(b, kb, c) \<in> set (filter (\<lambda>(a, k, c). version_less c k) keyed)" by simp
      then have "(\<lambda>(a, k, c). (a, k)) (b, kb, c) \<in> set ?newer" unfolding set_map by (rule imageI)
      then have "(b, kb) \<in> set ?newer" by (simp only: prod.case)
      from bspec [OF conjunct2 [OF newest_none(2) [OF m]] this] show False using l by (simp only: snd_conv not_True_eq_False)
    qed
    have "a \<in> set candidates \<and> (\<exists>c k. version_tuple installed = Inr c \<and> version_tuple (ra_version a) = Inr k \<and> version_less c k
           \<and> (\<forall>b \<in> set candidates. \<forall>kb. version_tuple (ra_version b) = Inr kb \<longrightarrow> \<not> version_less k kb))"
      using top back_in [OF y(1)] y(2) by (intro conjI exI [of _ c] exI [of _ k]) simp_all
    then show ?thesis using items(1,2) unfolding Some by (intro exI [of _ items] exI [of _ candidates]) simp
  qed
qed

definition demo_artifact :: "string \<Rightarrow> jobj" where
  "demo_artifact version = [(''version'', JStr version), (''platform'', JStr ''linux-x86_64''), (''url'', JStr ''https://h/p.zip''),
     (''sha256'', JStr (replicate 64 CHR ''0'')), (''bytes'', JInt 1)]"

definition demo_releases :: jobj where
  "demo_releases = [(''kind'', JStr ''releases''), (''artifacts'', JList [JObj (demo_artifact ''1.2.0''), JObj (demo_artifact ''1.10.0-rc.1'')])]"

definition demo_trust :: "json durable" where
  "demo_trust = Content (JObj [(''schema'', JStr trust_store_schema), (''version'', JStr ''1.0''), (''publishers'', JList [demo_publisher])])"

lemma demo_fetched:
  "fetch_signed_catalog demo_signing target demo_trust (Inr (dumps '','' '':'' (JObj (demo_envelope [] demo_releases)))) (Some ''releases'')
     = Inr demo_releases"
proof -
  have "json_wf (JObj (demo_envelope [] demo_releases))" by (simp add: demo_envelope_def demo_releases_def demo_artifact_def)
  then have "loads (dumps '','' '':'' (JObj (demo_envelope [] demo_releases))) = Some (JObj (demo_envelope [] demo_releases))" by (rule loads_compact)
  moreover have "load_trust_store demo_signing target demo_trust = Inr [demo_publisher]"
    using demo_valid(1) by (simp add: load_trust_store_def demo_trust_def read_json_def jget_def)
  moreover have "verify_signed_catalog demo_signing (JObj (demo_envelope [] demo_releases)) [demo_publisher] (Some ''releases'') = Inr demo_releases"
    by (rule demo_accepted) (simp add: demo_releases_def jget_def)
  ultimately show ?thesis by (simp add: fetch_signed_catalog_def del: dumps.simps)
qed

lemma demo_read:
  "version_tuple v = Inr k \<Longrightarrow> artifact_from_payload (demo_artifact v) = Inr \<lparr>ra_version = v, ra_platform = ''linux-x86_64'',
     ra_url = ''https://h/p.zip'', ra_sha256 = replicate 64 CHR ''0'', ra_bytes = 1, ra_notes_url = []\<rparr>"
proof -
  have "casefold (replicate 64 CHR ''0'') = replicate 64 CHR ''0''" by code_simp
  then show "version_tuple v = Inr k \<Longrightarrow> ?thesis"
    by (simp add: artifact_from_payload_def demo_artifact_def jitem_def py_str_def py_int_def jget_def jor_def list_all_iff)
qed

theorem update_is_newest_witness:
  "\<exists>a. check_for_update demo_signing (Path ''/'' [''trust'']) demo_trust (Inr (dumps '','' '':'' (JObj (demo_envelope [] demo_releases)))) ''1.2.0'' ''linux-x86_64''
       = Inr (Some a, demo_releases) \<and> ra_version a = ''1.10.0-rc.1''"
proof -
  have v: "version_tuple ''1.2.0'' = Inr (1, 2, 0, [''~''])" "version_tuple ''1.10.0-rc.1'' = Inr (1, 10, 0, [''rc'', ''1''])" by code_simp+
  have p: "platform_artifacts ''linux-x86_64'' [JObj (demo_artifact ''1.2.0''), JObj (demo_artifact ''1.10.0-rc.1'')]
      = [demo_artifact ''1.2.0'', demo_artifact ''1.10.0-rc.1'']" by (simp add: platform_artifacts_def demo_artifact_def jget_def)
  have items: "jget demo_releases ''artifacts'' = JList [JObj (demo_artifact ''1.2.0''), JObj (demo_artifact ''1.10.0-rc.1'')]"
    by (simp add: demo_releases_def jget_def)
  obtain a where run: "check_for_update demo_signing (Path ''/'' [''trust'']) demo_trust (Inr (dumps '','' '':'' (JObj (demo_envelope [] demo_releases)))) ''1.2.0'' ''linux-x86_64''
       = Inr (Some a, demo_releases)"
    using demo_read [OF v(1)] demo_read [OF v(2)] v
    by (simp add: check_for_update_def demo_fetched items p del: dumps.simps)
  have "\<not> version_less (1, 2, 0, [''~'']) (1, 2, 0, [''~''])" by (rule version_less_order(1))
  then show ?thesis
    using update_is_newest [OF run] run demo_read [OF v(1)] demo_read [OF v(2)] v by (auto simp: items p)
qed

section \<open>Limits of the versions\<close>

text \<open>The parts behind the hyphen are compared as texts, so the tenth candidate comes before the ninth, and a superscript digit,
  which is a digit for \<open>str.isdigit\<close>, escapes as a \<open>ValueError\<close>.\<close>

lemma candidate_ten_before_nine:
  "(case (version_tuple ''1.0.0-rc.10'', version_tuple ''1.0.0-rc.9'') of (Inr k, Inr l) \<Rightarrow> version_less k l | _ \<Rightarrow> False)"
  by code_simp

lemma superscript_version_raises: "version_tuple (CHR 0xB2 # ''.0.0'') = Inl (ValueError ''int'')"
  by code_simp

end
