(* ===== verification/Install_Props.thy ===== *)
theory Install_Props imports Release begin

text \<open>
  Properties of installations: whatever fails, installed releases stay, the pointer names a release that is
  there, nothing is activated without the signed size and digest, and a rollback returns to the release
  before.
\<close>

section \<open>Steps\<close>

lemma write_then:
  "P t \<Longrightarrow> (\<And>b. P (snd (k (f (t\<lparr>it_budget := b\<rparr>))))) \<Longrightarrow> P (snd (mseq (install_write f) k t))"
proof -
  assume p: "P t" "\<And>b. P (snd (k (f (t\<lparr>it_budget := b\<rparr>))))"
  have "it_budget t = None \<Longrightarrow> f t = f (t\<lparr>it_budget := None\<rparr>)" by (cases t) simp
  then show ?thesis using p by (auto simp: mseq_def mbind_def install_write_def split: option.split nat.split)
qed

lemma write_last: "P t \<Longrightarrow> (\<And>b. P (f (t\<lparr>it_budget := b\<rparr>))) \<Longrightarrow> P (snd (install_write f t))"
  using write_then [of P t "ret ()" f] by (auto simp: mseq_def mbind_def split: prod.splits sum.splits)

lemma require_then: "P t \<Longrightarrow> (b \<Longrightarrow> P (snd (k t))) \<Longrightarrow> P (snd (mseq (require b e) k t))"
  by (cases b) (simp_all add: mseq_def mbind_def)

lemma lift_then: "P t \<Longrightarrow> (\<And>x. r = Inr x \<Longrightarrow> P (snd (k x t))) \<Longrightarrow> P (snd (mbind (lift_res r) k t))"
  by (cases r) (simp_all add: mbind_def)

lemma gets_then: "P t \<Longrightarrow> (\<And>x. f t = Inr x \<Longrightarrow> P (snd (k x t))) \<Longrightarrow> P (snd (mbind (gets f) k t))"
  by (cases "f t") (simp_all add: mbind_def)

lemma seq_last: "P (snd (m t)) \<Longrightarrow> P (snd (mseq m (ret x) t))"
  by (auto simp: mseq_def mbind_def split: prod.splits sum.splits)

section \<open>What an installation keeps\<close>

definition releases_kept :: "release_artifact \<Rightarrow> install_tree \<Rightarrow> install_tree \<Rightarrow> bool" where
  "releases_kept a t0 t \<longleftrightarrow> it_root t = it_root t0 \<and> (\<forall>q d. it_versions t0 q = Some d \<longrightarrow> it_versions t q = Some d)
     \<and> (\<forall>q. it_versions t q \<noteq> it_versions t0 q \<longrightarrow> q = version_dir t0 (ra_version a)
          \<and> (\<exists>d. it_versions t q = Some d \<and> rd_receipt d = Content (receipt a)))"

definition pointer_kept :: "release_artifact \<Rightarrow> install_tree \<Rightarrow> install_tree \<Rightarrow> bool" where
  "pointer_kept a t0 t \<longleftrightarrow> it_current t = it_current t0
     \<or> ((\<exists>old. it_current t = Content (pointer (ra_version a) old)) \<and> it_versions t (version_dir t0 (ra_version a)) \<noteq> None)"

definition pointer_moved :: "string \<Rightarrow> install_tree \<Rightarrow> install_tree \<Rightarrow> bool" where
  "pointer_moved v t s \<longleftrightarrow> it_root s = it_root t \<and> it_versions s = it_versions t
     \<and> (it_current s = it_current t \<or> (\<exists>old. it_current s = Content (pointer v old)))"

lemma activate_moves: "pointer_moved v t (snd (activate_release v t))"
  unfolding activate_release_def write_launchers_def
  by (intro gets_then [where P = "pointer_moved v t"] write_then [where P = "pointer_moved v t"] write_last [where P = "pointer_moved v t"])
    (auto simp: pointer_moved_def write_launcher_def)

text \<open>The tree with its launchers in place.\<close>

definition launched :: "install_tree \<Rightarrow> install_tree" where
  "launched t = write_launcher ''hoh-gui'' ''hoh-gui.sh'' (Some 0x1ED) (write_launcher ''hoh'' ''hoh.sh'' (Some 0x1ED) t)"

lemma launched_fields [simp]: "it_current (launched t) = it_current t" "it_versions (launched t) = it_versions t"
    "it_root (launched t) = it_root t" "it_budget (launched t) = it_budget t"
  by (simp_all add: launched_def write_launcher_def)

lemma write_launchers_healthy: "it_budget t = None \<Longrightarrow> write_launchers t = (Inr (), launched t)"
  by (simp add: write_launchers_def launched_def write_launcher_def mseq_def mbind_def install_write_def)

lemma activate_healthy:
  assumes "it_budget t = None" "current_release t = Inr old"
  shows "activate_release v t = (Inr (), launched (t\<lparr>it_current := Content (pointer v (or_text old []))\<rparr>))"
  using assms write_launchers_healthy [of "t\<lparr>it_current := Content (pointer v (or_text old []))\<rparr>"]
  by (simp add: activate_release_def mbind_def mseq_def install_write_def)

lemma activate_keeps:
  assumes "releases_kept a t0 t" "pointer_kept a t0 t" "it_versions t (version_dir t0 (ra_version a)) \<noteq> None"
  shows "releases_kept a t0 (snd (activate_release (ra_version a) t)) \<and> pointer_kept a t0 (snd (activate_release (ra_version a) t))"
  using assms activate_moves [of "ra_version a" t] by (auto simp: releases_kept_def pointer_kept_def pointer_moved_def)

lemma install_new_keeps:
  assumes fresh: "it_versions t (version_dir t (ra_version a)) = None"
  shows "releases_kept a t (snd (install_new resolve staging pk a (version_dir t (ra_version a)) t))
    \<and> pointer_kept a t (snd (install_new resolve staging pk a (version_dir t (ra_version a)) t))"
proof -
  let ?P = "\<lambda>s. releases_kept a t s \<and> pointer_kept a t s"
  have start: "?P s" if "it_root s = it_root t" "it_versions s = it_versions t" "it_current s = it_current t" for s
    using that by (simp add: releases_kept_def pointer_kept_def)
  have moved: "?P (snd (mseq (activate_release (ra_version a)) (ret x) s))"
    if "it_root s = it_root t" "it_current s = it_current t"
      "it_versions s = (it_versions t)(version_dir t (ra_version a) := Some \<lparr>rd_receipt = Content (receipt a), rd_files = files\<rparr>)" for s files and x :: path
    by (rule seq_last [where P = ?P], rule activate_keeps) (use that fresh in \<open>auto simp: releases_kept_def pointer_kept_def\<close>)
  have filled: "?P (snd (mbind (lift_res (safe_extract resolve staging members)) (\<lambda>files.
         mseq (install_write id)
        (mseq (require (files \<noteq> []) (UpdateError ''Release package is empty.''))
        (mseq (install_write id)
        (mseq (install_write (\<lambda>t'. t'\<lparr>it_versions := (it_versions t')(version_dir t (ra_version a) := Some \<lparr>rd_receipt = Content (receipt a), rd_files = files\<rparr>)\<rparr>))
        (mseq (activate_release (ra_version a)) (ret (version_dir t (ra_version a)))))))) t))" for members
    by (intro lift_then [where P = ?P] require_then [where P = ?P] write_then [where P = ?P] start moved) simp_all
  show ?thesis unfolding install_new_def
  proof (rule require_then [where P = ?P, OF start])
    show "?P (snd ((case pk_members pk of None \<Rightarrow> raise BadZipFile
     | Some members \<Rightarrow>
         mbind (lift_res (safe_extract resolve staging members)) (\<lambda>files.
         mseq (install_write id)
        (mseq (require (files \<noteq> []) (UpdateError ''Release package is empty.''))
        (mseq (install_write id)
        (mseq (install_write (\<lambda>t'. t'\<lparr>it_versions := (it_versions t')(version_dir t (ra_version a) := Some \<lparr>rd_receipt = Content (receipt a), rd_files = files\<rparr>)\<rparr>))
        (mseq (activate_release (ra_version a)) (ret (version_dir t (ra_version a))))))))) t))"
    proof (cases "pk_members pk")
      case None
      then show ?thesis using start [of t] by simp
    next
      case (Some members)
      then show ?thesis using filled [of members] by (simp only: option.case)
    qed
  qed simp_all
qed

lemma install_keeps:
  "releases_kept a t (snd (install_release resolve staging pf a t)) \<and> pointer_kept a t (snd (install_release resolve staging pf a t))"
proof -
  let ?P = "\<lambda>s. releases_kept a t s \<and> pointer_kept a t s"
  have start: "?P t" by (simp add: releases_kept_def pointer_kept_def)
  show ?thesis unfolding install_release_def
  proof (rule lift_then [where P = ?P, OF start], rule gets_then [where P = ?P, OF start], rule gets_then [where P = ?P, OF start])
    fix pk target installed
    assume "Inr (version_dir t (ra_version a)) = Inr target" "Inr (it_versions t target) = Inr installed"
    then have eq: "target = version_dir t (ra_version a)" "installed = it_versions t (version_dir t (ra_version a))" by auto
    show "?P (snd ((case installed of
       Some dir \<Rightarrow>
         mbind (lift_res (read_json (rd_receipt dir) (JObj []))) (\<lambda>stored.
         mseq (require (receipt_matches a stored) (UpdateError (''Installed release '' @ ra_version a @ '' has no matching integrity receipt.'')))
        (mseq (activate_release (ra_version a)) (ret target)))
     | None \<Rightarrow> install_new resolve staging pk a target) t))"
    proof (cases installed)
      case None
      then show ?thesis using install_new_keeps [of t a resolve staging pk] eq by simp
    next
      case (Some dir)
      have "?P (snd (mseq (activate_release (ra_version a)) (ret target) t))"
        by (rule seq_last [where P = ?P], rule activate_keeps) (use start Some eq in simp_all)
      then show ?thesis unfolding Some option.case
        by (intro lift_then [where P = ?P] require_then [where P = ?P] start)
    qed
  qed
qed

lemma write_Inr: "install_write f t = (Inr u, t') \<Longrightarrow> \<exists>b. t' = f (t\<lparr>it_budget := b\<rparr>)"
proof -
  have "it_budget t = None \<Longrightarrow> f t = f (t\<lparr>it_budget := None\<rparr>)" by (cases t) simp
  then show "install_write f t = (Inr u, t') \<Longrightarrow> \<exists>b. t' = f (t\<lparr>it_budget := b\<rparr>)"
    by (cases "it_budget t") (auto simp: install_write_def split: nat.splits)
qed

lemma launchers_current: "write_launchers t = (r, t') \<Longrightarrow> it_current t' = it_current t"
proof -
  have "it_current (snd (write_launchers t)) = it_current t" unfolding write_launchers_def
    by (intro write_then [where P = "\<lambda>s. it_current s = it_current t"] write_last [where P = "\<lambda>s. it_current s = it_current t"])
      (simp_all add: write_launcher_def)
  then show "write_launchers t = (r, t') \<Longrightarrow> it_current t' = it_current t" by simp
qed

lemma activated:
  assumes "activate_release v t = (Inr u, t')"
  shows "\<exists>old. current_release t = Inr old \<and> it_current t' = Content (pointer v (or_text old []))"
proof -
  obtain old where old: "current_release t = Inr old" using assms by (cases "current_release t") (simp_all add: activate_release_def mbind_def)
  then obtain x s where "install_write (\<lambda>t. t\<lparr>it_current := Content (pointer v (or_text old []))\<rparr>) t = (Inr x, s)" "write_launchers s = (Inr u, t')"
    using assms by (auto simp: activate_release_def op_inv_rules)
  then show ?thesis using old by (auto dest!: write_Inr launchers_current)
qed

lemma current_pointer: "v \<noteq> [] \<Longrightarrow> it_current t = Content (pointer v old) \<Longrightarrow> current_release t = Inr (Some v)"
  by (simp add: current_release_def read_json_def pointer_def jget_def py_str_def Let_def)

text \<open>The two ways an installation reaches its end, over the parts that do not matter for it.\<close>

lemma known_release_activated:
  assumes "mbind (lift_res r) (\<lambda>x. mseq (require (b x) e) (mseq (activate_release v) (ret p))) t = (Inr q, t')"
  shows "q = p \<and> (\<exists>s. activate_release v s = (Inr (), t') \<and> it_current s = it_current t)"
  using assms by (cases r) (auto simp: op_inv_rules split: if_splits)

lemma new_release_activated:
  assumes "mseq (require b e) (case m of None \<Rightarrow> raise e' | Some ms \<Rightarrow>
       mbind (lift_res (f ms)) (\<lambda>files. mseq (install_write id) (mseq (require (c files) e'') (mseq (install_write id)
        (mseq (install_write (g files)) (mseq (activate_release v) (ret p))))))) t = (Inr q, t')"
    and "\<And>files s. it_current (g files s) = it_current s"
  shows "q = p \<and> (\<exists>s. activate_release v s = (Inr (), t') \<and> it_current s = it_current t)"
  using assms by (auto simp: op_inv_rules split: option.splits sum.splits if_splits dest!: write_Inr)

lemma activated_later:
  assumes "activate_release v s = (Inr (), t')" "it_current s = it_current t"
  shows "\<exists>old. current_release t = Inr old \<and> it_current t' = Content (pointer v (or_text old []))"
  using activated [OF assms(1)] assms(2) by (simp add: current_release_def)

lemma install_tail:
  assumes "install_release resolve staging pf a t = (Inr p, t')"
  shows "p = version_dir t (ra_version a) \<and> (\<exists>s. activate_release (ra_version a) s = (Inr (), t') \<and> it_current s = it_current t)"
proof -
  obtain pk where pk: "verify_local_package pf a = Inr pk"
    using assms unfolding install_release_def by (cases "verify_local_package pf a") (simp_all add: mbind_def)
  show ?thesis
  proof (cases "it_versions t (version_dir t (ra_version a))")
    case (Some dir)
    have "mbind (lift_res (read_json (rd_receipt dir) (JObj []))) (\<lambda>stored.
        mseq (require (receipt_matches a stored) (UpdateError (''Installed release '' @ ra_version a @ '' has no matching integrity receipt.'')))
       (mseq (activate_release (ra_version a)) (ret (version_dir t (ra_version a))))) t = (Inr p, t')"
      using assms pk Some by (simp add: install_release_def mbind_def)
    then show ?thesis by (rule known_release_activated)
  next
    case None
    then have "install_new resolve staging pk a (version_dir t (ra_version a)) t = (Inr p, t')"
      using assms pk by (simp add: install_release_def mbind_def)
    then show ?thesis unfolding install_new_def by (rule new_release_activated) simp
  qed
qed

lemma install_verified:
  assumes "install_release resolve staging pf a t = (Inr p, t')"
  shows "\<exists>pk. pf = Inr pk \<and> pk_size pk = ra_bytes a \<and> pk_sha256 pk = ra_sha256 a"
proof -
  obtain pk where "verify_local_package pf a = Inr pk"
    using assms unfolding install_release_def by (cases "verify_local_package pf a") (simp_all add: mbind_def)
  then show ?thesis by (auto simp: verify_local_package_def split: sum.splits if_splits)
qed

lemma install_returns:
  assumes "install_release resolve staging pf a t = (Inr p, t')"
  shows "(\<exists>pk. pf = Inr pk \<and> pk_size pk = ra_bytes a \<and> pk_sha256 pk = ra_sha256 a) \<and> p = version_dir t (ra_version a)
    \<and> (\<exists>old. current_release t = Inr old \<and> it_current t' = Content (pointer (ra_version a) (or_text old [])))"
  using install_tail [OF assms] install_verified [OF assms] activated_later by metis

text \<open>C36: Whatever goes wrong during an installation, every installed release stays as it is, nothing but the directory of this
  version appears and only with its receipt, and the pointer is the old one or names this version whose directory exists; an
  installation that returns has verified the signed size and digest of the package and made this version the current one.\<close>

theorem install_never_breaks:
  assumes run: "install_release resolve staging pf a t = (r, t')" and named: "ra_version a \<noteq> []"
  shows "releases_kept a t t' \<and> pointer_kept a t t'
    \<and> (\<forall>p. r = Inr p \<longrightarrow> p = version_dir t (ra_version a) \<and> current_release t' = Inr (Some (ra_version a))
        \<and> (\<exists>pk. pf = Inr pk \<and> pk_size pk = ra_bytes a \<and> pk_sha256 pk = ra_sha256 a))"
proof -
  have "releases_kept a t t' \<and> pointer_kept a t t'" using install_keeps [of a t resolve staging pf] run by simp
  then show ?thesis using install_returns [of resolve staging pf a t] run current_pointer [OF named] by auto
qed

section \<open>Rollbacks\<close>

lemma rollback_runs:
  assumes "it_current t = Content (pointer v old)" "old \<noteq> []" "it_versions t (version_dir t old) \<noteq> None" "it_budget t = None"
  shows "rollback_release t = (Inr old, t\<lparr>it_current := Content (pointer old v)\<rparr>)"
  using assms by (simp add: rollback_release_def mbind_def mseq_def install_write_def read_json_def pointer_def jget_def jor_def py_str_def Let_def)

text \<open>C39: A rollback after an update returns to the release before, and a second one to the update.\<close>

theorem update_rolls_back:
  assumes run: "install_release resolve staging pf a t = (Inr p, t')" and before: "current_release t = Inr (Some c)" "c \<noteq> []" "ra_version a \<noteq> []"
    and there: "it_versions t (version_dir t c) \<noteq> None" and disk: "it_budget t' = None"
  shows "\<exists>t2 t3. rollback_release t' = (Inr c, t2) \<and> current_release t2 = Inr (Some c)
    \<and> rollback_release t2 = (Inr (ra_version a), t3) \<and> current_release t3 = Inr (Some (ra_version a))"
proof -
  have cur: "it_current t' = Content (pointer (ra_version a) c)" using install_returns [OF run] before by (auto simp: or_text_def)
  have kept: "releases_kept a t t'" "pointer_kept a t t'" using install_keeps [of a t resolve staging pf] run by simp_all
  have dirs: "it_versions t' (version_dir t' c) \<noteq> None" "it_versions t' (version_dir t' (ra_version a)) \<noteq> None"
  proof -
    have same: "version_dir t' = version_dir t" using kept(1) by (auto simp: releases_kept_def version_dir_def)
    show "it_versions t' (version_dir t' c) \<noteq> None" using kept(1) there unfolding same by (auto simp: releases_kept_def)
    show "it_versions t' (version_dir t' (ra_version a)) \<noteq> None" unfolding same
    proof (cases "it_current t' = it_current t")
      case True
      then have "c = ra_version a" using current_pointer [OF before(3), of t c] cur before(1) by simp
      then show "it_versions t' (version_dir t (ra_version a)) \<noteq> None" using kept(1) there by (auto simp: releases_kept_def)
    next
      case False
      then show "it_versions t' (version_dir t (ra_version a)) \<noteq> None" using kept(2) by (auto simp: pointer_kept_def)
    qed
  qed
  then show ?thesis using rollback_runs [OF cur before(2) dirs(1) disk]
      rollback_runs [of "t'\<lparr>it_current := Content (pointer c (ra_version a))\<rparr>" c "ra_version a"] before disk
    by (auto simp: version_dir_def current_pointer)
qed

text \<open>Installing the current release again makes it its own predecessor: the release before is forgotten, and a rollback
  succeeds without going back.\<close>

lemma reinstall_loses_previous:
  assumes "it_current t = Content (pointer v old)" "v \<noteq> []" "it_versions t (version_dir t v) \<noteq> None" "it_budget t = None"
  shows "\<exists>t'. activate_release v t = (Inr (), t') \<and> it_current t' = Content (pointer v v) \<and> fst (rollback_release t') = Inr v"
proof -
  have run: "activate_release v t = (Inr (), launched (t\<lparr>it_current := Content (pointer v v)\<rparr>))"
    using activate_healthy [OF assms(4) current_pointer [OF assms(2,1)], of v] by (simp add: or_text_def)
  have "fst (rollback_release (launched (t\<lparr>it_current := Content (pointer v v)\<rparr>))) = Inr v"
    using rollback_runs [of "launched (t\<lparr>it_current := Content (pointer v v)\<rparr>)" v v] assms by (simp add: version_dir_def)
  then show ?thesis using run by simp
qed

section \<open>Instances\<close>

definition demo_update :: release_artifact where
  "demo_update = \<lparr>ra_version = ''1.1.0'', ra_platform = ''linux'', ra_url = ''https://example.org/hoh.zip'', ra_sha256 = ''ab'',
     ra_bytes = 10, ra_notes_url = []\<rparr>"

definition demo_package :: package where
  "demo_package = \<lparr>pk_size = 10, pk_sha256 = ''ab'',
     pk_members = Some [\<lparr>zm_filename = ''hoh.sh'', zm_mode = 0x81A4, zm_is_dir = False, zm_head = ''#!''\<rparr>]\<rparr>"

definition demo_dir :: "string \<Rightarrow> path" where
  "demo_dir v = Path ''/'' [''opt'', ''versions'', v]"

definition demo_installed :: install_tree where
  "demo_installed = \<lparr>it_root = Path ''/'' [''opt''], it_current = Content (pointer ''1.0.0'' []),
     it_versions = [demo_dir ''1.0.0'' \<mapsto> \<lparr>rd_receipt = Content JNull, rd_files = []\<rparr>],
     it_launchers = Map.empty, it_budget = None, it_fault = ''disk full''\<rparr>"

definition demo_updated :: install_tree where
  "demo_updated = launched (demo_installed\<lparr>it_current := Content (pointer ''1.1.0'' ''1.0.0''),
     it_versions := (it_versions demo_installed)(demo_dir ''1.1.0'' \<mapsto>
       \<lparr>rd_receipt = Content (receipt demo_update), rd_files = [\<lparr>ex_name = ''hoh.sh'', ex_mode = Some 0x1ED\<rparr>]\<rparr>)\<rparr>)"

lemma demo_paths: "path_of ''versions'' = Path [] [''versions'']" "path_of ''1.0.0'' = Path [] [''1.0.0'']"
    "path_of ''1.1.0'' = Path [] [''1.1.0'']" "path_of ''hoh.sh'' = Path [] [''hoh.sh'']" "path_suffix (Path [] [''hoh.sh'']) = ''.sh''"
  by code_simp+

lemma demo_version_dirs: "version_dir demo_installed ''1.0.0'' = demo_dir ''1.0.0''" "version_dir demo_installed ''1.1.0'' = demo_dir ''1.1.0''"
  by (simp_all only: version_dir_def demo_paths) (simp_all add: demo_installed_def path_join_def is_absolute_def demo_dir_def)

lemma demo_extracted: "safe_extract id (demo_dir ''s'') [\<lparr>zm_filename = ''hoh.sh'', zm_mode = 0x81A4, zm_is_dir = False, zm_head = ''#!''\<rparr>]
    = Inr [\<lparr>ex_name = ''hoh.sh'', ex_mode = Some 0x1ED\<rparr>]"
  by (simp add: safe_extract_def check_member_def restored_mode_def needs_execute_bit_def demo_paths Let_def path_join_def is_absolute_def
      relative_to_def demo_dir_def)

lemma demo_install: "install_release id (demo_dir ''s'') (Inr demo_package) demo_update demo_installed = (Inr (demo_dir ''1.1.0''), demo_updated)"
proof -
  have pk: "verify_local_package (Inr demo_package) demo_update = Inr demo_package"
    by (simp add: verify_local_package_def demo_package_def demo_update_def)
  have v: "ra_version demo_update = ''1.1.0''" by (simp add: demo_update_def)
  have new: "it_versions demo_installed (demo_dir ''1.1.0'') = None" by (simp add: demo_installed_def demo_dir_def)
  have cur: "\<And>s. it_current s = it_current demo_installed \<Longrightarrow> current_release s = Inr (Some ''1.0.0'')"
    using current_pointer [of "''1.0.0''"] by (simp add: demo_installed_def)
  have m: "pk_members demo_package = Some [\<lparr>zm_filename = ''hoh.sh'', zm_mode = 0x81A4, zm_is_dir = False, zm_head = ''#!''\<rparr>]"
    by (simp add: demo_package_def)
  have b: "it_budget demo_installed = None" by (simp add: demo_installed_def)
  show ?thesis
    by (simp add: install_release_def install_new_def install_write_def mbind_def mseq_def
        pk v demo_version_dirs new m demo_extracted cur b or_text_def activate_healthy) (simp add: demo_updated_def demo_installed_def)
qed

theorem install_never_breaks_witness:
  "releases_kept demo_update demo_installed demo_updated \<and> pointer_kept demo_update demo_installed demo_updated
    \<and> current_release demo_updated = Inr (Some ''1.1.0'')"
  using install_never_breaks [OF demo_install] by (simp add: demo_update_def)

theorem update_rolls_back_witness:
  "\<exists>t2 t3. rollback_release demo_updated = (Inr ''1.0.0'', t2) \<and> current_release t2 = Inr (Some ''1.0.0'')
    \<and> rollback_release t2 = (Inr ''1.1.0'', t3) \<and> current_release t3 = Inr (Some ''1.1.0'')"
proof -
  have "current_release demo_installed = Inr (Some ''1.0.0'')" by (rule current_pointer) (simp_all add: demo_installed_def)
  moreover have "it_versions demo_installed (version_dir demo_installed ''1.0.0'') \<noteq> None"
    unfolding demo_version_dirs by (simp add: demo_installed_def)
  moreover have "ra_version demo_update = ''1.1.0''" "it_budget demo_updated = None"
    by (simp_all add: demo_update_def demo_updated_def demo_installed_def)
  ultimately show ?thesis using update_rolls_back [OF demo_install, of "''1.0.0''"] by simp
qed

end
