(* ===== verification/Marker_Text.thy ===== *)
theory Marker_Text imports Py_Str begin

text \<open>
  The regular expressions of the project audit (\<open>src/llm_harness/audit.py\<close>), which \<open>re\<close> matches without
  regard to case: the markers of unfinished work, and the wording around a marker that makes it a policy
  against such markers.  A position is given by the character before it and the text behind it.
\<close>

section \<open>Words and boundaries\<close>

text \<open>\<open>\\w\<close> and \<open>\\b\<close>\<close>

definition word_char :: "char \<Rightarrow> bool" where
  "word_char c \<longleftrightarrow> is_alnum c \<or> c = CHR ''_''"

definition boundary :: "char option \<Rightarrow> string \<Rightarrow> bool" where
  "boundary before s \<longleftrightarrow>
     (case before of None \<Rightarrow> False | Some c \<Rightarrow> word_char c) \<noteq> (case s of [] \<Rightarrow> False | c # _ \<Rightarrow> word_char c)"

fun literal_at :: "string \<Rightarrow> string \<Rightarrow> bool" where
  "literal_at [] s = True"
| "literal_at (c # w) [] = False"
| "literal_at (c # w) (d # s) = (if lower_char c = lower_char d then literal_at w s else False)"

text \<open>The character before the text behind the first \<open>n\<close> characters of \<open>s\<close>\<close>

definition before_drop :: "char option \<Rightarrow> nat \<Rightarrow> string \<Rightarrow> char option" where
  "before_drop before n s = (if n = 0 then before else Some (s ! (n - 1)))"

text \<open>\<open>w1\s+w2\s+...\<close>: how many characters of the text match.\<close>

fun words_length :: "string list \<Rightarrow> string \<Rightarrow> nat option" where
  "words_length [] s = Some 0"
| "words_length [w] s = (if literal_at w s then Some (length w) else None)"
| "words_length (w # v # ws) s =
     (if literal_at w s then
        (let rest = drop (length w) s; gap = length (takeWhile is_space rest) in
         if gap = 0 then None
         else map_option (\<lambda>n. length w + gap + n) (words_length (v # ws) (drop gap rest)))
      else None)"

text \<open>One of the phrases between two boundaries: the lengths of its matches.\<close>

definition phrase_lengths :: "string list list \<Rightarrow> char option \<Rightarrow> string \<Rightarrow> nat list" where
  "phrase_lengths phrases before s =
     (if \<not> boundary before s then []
      else concat (map (\<lambda>ws. case words_length ws s of
          None \<Rightarrow> []
        | Some n \<Rightarrow> if boundary (before_drop before n s) (drop n s) then [n] else []) phrases))"

section \<open>Markers\<close>

definition marker_words :: "string list" where
  "marker_words = [''TODO'', ''FIXME'', ''HACK'', ''XXX'', ''PLACEHOLDER'']"

text \<open>The length of the match of \<open>BLOCKING_MARKER_PATTERN\<close> at a position.\<close>

definition marker_at :: "char option \<Rightarrow> string \<Rightarrow> nat option" where
  "marker_at before s =
     (case phrase_lengths (map (\<lambda>w. [w]) marker_words) before s of
        n # _ \<Rightarrow> Some n
      | [] \<Rightarrow> if literal_at ''not implemented'' s then Some 15
              else if literal_at ''NotImplementedError'' s then Some 19 else None)"

text \<open>\<open>finditer\<close>: the text before and the text behind every match, from the left without overlaps.\<close>

function marker_matches :: "string \<Rightarrow> string \<Rightarrow> (string \<times> string) list" where
  "marker_matches seen [] = []"
| "marker_matches seen (c # s) =
     (case marker_at (if seen = [] then None else Some (last seen)) (c # s) of
        None \<Rightarrow> marker_matches (seen @ [c]) s
      | Some n \<Rightarrow> (seen, drop (n - 1) s) # marker_matches (seen @ c # take (n - 1) s) (drop (n - 1) s))"
  by pat_completeness auto
termination
  by (relation "measure (length \<circ> snd)") (simp_all add: less_Suc_eq_le)

definition has_marker :: "string \<Rightarrow> bool" where
  "has_marker line \<longleftrightarrow> marker_matches [] line \<noteq> []"

section \<open>Policies against markers\<close>

definition sentence_end :: "char \<Rightarrow> bool" where
  "sentence_end c \<longleftrightarrow> c \<in> set ''.!?;''"

text \<open>\<open>(?:(?!\b(?:but|however|except)\b)[^.!?;])\<close> up to the end of the text\<close>

fun same_clause :: "char option \<Rightarrow> string \<Rightarrow> bool" where
  "same_clause before [] = True"
| "same_clause before (c # s) =
     (\<not> sentence_end c \<and> phrase_lengths [[''but''], [''however''], [''except'']] before (c # s) = [] \<and> same_clause (Some c) s)"

definition policy_before_phrases :: "string list list" where
  "policy_before_phrases = [[''no''], [''without''], [''must'', ''not''], [''do'', ''not''],
     [''forbids''], [''forbidden''], [''forbid''], [''prohibits''], [''prohibited''], [''prohibit'']]"

text \<open>\<open>LIFECYCLE_POLICY_BEFORE_PATTERN.search(text)\<close>\<close>

definition policy_before :: "string \<Rightarrow> bool" where
  "policy_before text \<longleftrightarrow> list_ex (\<lambda>i.
     let s = drop i text; before = before_drop None i text in
     list_ex (\<lambda>n. length (drop n s) \<le> 160 \<and> same_clause (before_drop before n s) (drop n s))
       (phrase_lengths policy_before_phrases before s)) [0..<Suc (length text)]"

definition policy_after_phrases :: "string list list" where
  "policy_after_phrases = [[''not'', ''in''], [''is'', ''absent''], [''are'', ''absent''], [''must'', ''be'', ''absent'']]"

text \<open>\<open>LIFECYCLE_POLICY_AFTER_PATTERN.search(text)\<close>\<close>

definition policy_after :: "string \<Rightarrow> bool" where
  "policy_after text \<longleftrightarrow> list_ex (\<lambda>i.
     i \<le> 80 \<and> \<not> list_ex sentence_end (take i text)
     \<and> phrase_lengths policy_after_phrases (before_drop None i text) (drop i text) \<noteq> []) [0..<Suc (length text)]"

section \<open>What the search finds\<close>

lemma marker_shift: "before_drop (if seen = [] then None else Some (last seen)) (Suc i) (c # s)
    = before_drop (if seen @ [c] = [] then None else Some (last (seen @ [c]))) i s"
  by (cases i) (simp_all add: before_drop_def)

lemma marker_matches_some:
  "marker_matches seen s \<noteq> [] \<longleftrightarrow>
     (\<exists>i < length s. marker_at (before_drop (if seen = [] then None else Some (last seen)) i s) (drop i s) \<noteq> None)"
proof (induction seen s rule: marker_matches.induct)
  case (2 seen c s)
  show ?case
  proof (cases "marker_at (if seen = [] then None else Some (last seen)) (c # s)")
    case None
    have zero: "marker_at (before_drop (if seen = [] then None else Some (last seen)) 0 (c # s)) (drop 0 (c # s)) = None"
      using None by (simp add: before_drop_def)
    have "marker_matches seen (c # s) \<noteq> [] \<longleftrightarrow> marker_matches (seen @ [c]) s \<noteq> []" using None by simp
    also have "\<dots> \<longleftrightarrow> (\<exists>i < length s. marker_at (before_drop (if seen = [] then None else Some (last seen)) (Suc i) (c # s)) (drop (Suc i) (c # s)) \<noteq> None)"
      using 2(1) [OF None] marker_shift [of seen _ c s] by simp
    also have "\<dots> \<longleftrightarrow> (\<exists>i < length (c # s). marker_at (before_drop (if seen = [] then None else Some (last seen)) i (c # s)) (drop i (c # s)) \<noteq> None)"
      using zero by (metis Suc_less_eq length_Cons not0_implies_Suc)
    finally show ?thesis .
  next
    case (Some n)
    have "\<exists>i < length (c # s). marker_at (before_drop (if seen = [] then None else Some (last seen)) i (c # s)) (drop i (c # s)) \<noteq> None"
      by (rule exI [of _ 0]) (use Some in \<open>simp add: before_drop_def\<close>)
    moreover have "marker_matches seen (c # s) \<noteq> []" using Some by simp
    ultimately show ?thesis by blast
  qed
qed simp

text \<open>The search misses nothing: a line has a marker exactly when one matches at some position.\<close>

lemma has_marker_iff: "has_marker line \<longleftrightarrow> (\<exists>i < length line. marker_at (before_drop None i line) (drop i line) \<noteq> None)"
  using marker_matches_some [of "[]" line] by (simp add: has_marker_def)

end
