(* ===== verification/Project_Audit.thy ===== *)
theory Project_Audit imports Marker_Text Task_Files Git_Ops Command_Policy Wire_Formats begin

text \<open>
  The project audit (\<open>src/llm_harness/audit.py\<close>), the gate before a project is handed over: git, documents
  and their diagrams, the task files, generated files, markers of unfinished work, analyzers and the
  check commands, each leaving findings and metrics.

  The project's files are listed in the order the file system enumerates them; git and the commands are
  those of a machine, the language analyzers and sha256 are parameters.
\<close>

section \<open>Reports\<close>

record audit_finding =
  af_code :: string
  af_message :: string
  af_path :: "string option"

record analyzer_evidence =
  ae_analyzer :: string
  ae_language :: string
  ae_status :: string
  ae_files_analyzed :: int
  ae_findings :: "audit_finding list"
  ae_detail :: string

type_synonym metrics = "(string \<times> json) list"

record project_audit_report =
  pa_project_root :: path
  pa_findings :: "audit_finding list"
  pa_command_results :: "command_result list"
  pa_analyzer_evidence :: "analyzer_evidence list"
  pa_metrics :: metrics

definition audit_ok :: "project_audit_report \<Rightarrow> bool" where
  "audit_ok r \<longleftrightarrow> pa_findings r = [] \<and> list_all command_ok (pa_command_results r)"

definition finding :: "string \<Rightarrow> string \<Rightarrow> audit_finding" where
  "finding kind message = \<lparr>af_code = kind, af_message = message, af_path = None\<rparr>"

definition finding_at :: "string \<Rightarrow> string \<Rightarrow> string \<Rightarrow> audit_finding" where
  "finding_at kind message path = \<lparr>af_code = kind, af_message = message, af_path = Some path\<rparr>"

definition found_if :: "bool \<Rightarrow> audit_finding \<Rightarrow> audit_finding list" where
  "found_if b f = (if b then [f] else [])"

definition how_many :: "nat \<Rightarrow> json" where
  "how_many n = JInt (int n)"

definition output_tail_lines :: nat where
  "output_tail_lines = 20"

definition output_tail :: "command_result \<Rightarrow> string list" where
  "output_tail r =
     (let tail = \<lambda>stream. map rstrip (filter (\<lambda>l. strip l \<noteq> []) (splitlines stream)); last_lines = \<lambda>ls. drop (length ls - output_tail_lines) ls
      in if tail (cr_stderr r) \<noteq> [] then last_lines (tail (cr_stderr r)) else last_lines (tail (cr_stdout r)))"

definition code_span :: "string \<Rightarrow> string" where
  "code_span s = CHR 0x60 # s @ [CHR 0x60]"

text \<open>\<open>ProjectAuditReport.to_markdown\<close>; \<open>dash\<close> is the long dash before a detail.\<close>

definition audit_markdown :: "string \<Rightarrow> project_audit_report \<Rightarrow> string" where
  "audit_markdown dash r =
     join [CHR 0x0A]
      ([''# Project audit report'', [], ''- Project root: '' @ code_span (path_str (pa_project_root r)),
        ''- Ready: '' @ code_span (if audit_ok r then ''true'' else ''false''),
        ''- Findings: '' @ code_span (str_nat (length (pa_findings r))),
        ''- Verification commands: '' @ code_span (str_nat (length (pa_command_results r))),
        ''- Language analyzers: '' @ code_span (str_nat (length (pa_analyzer_evidence r))), [], ''## Metrics'', []]
       @ (if pa_metrics r = [] then [''- none'']
          else map (\<lambda>(k, v). ''- '' @ k @ '': '' @ code_span (py_str v)) (sort_key fst (pa_metrics r)))
       @ [[], ''## Verification commands'', []]
       @ (if pa_command_results r = [] then [''- none'']
          else concat (map (\<lambda>c. (''- '' @ code_span (cr_command c) @ '' -> '' @ code_span (str_int (cr_return_code c)))
            # (if command_ok c \<or> output_tail c = [] then []
               else [[], ''  '' @ replicate 3 CHR 0x60] @ map (\<lambda>l. ''  '' @ l) (output_tail c) @ [''  '' @ replicate 3 CHR 0x60, []]))
            (pa_command_results r)))
       @ [[], ''## Language analyzers'', []]
       @ (if pa_analyzer_evidence r = [] then [''- none'']
          else map (\<lambda>e. ''- '' @ code_span (ae_analyzer e) @ '' -> '' @ code_span (ae_status e)
            @ '' (files: '' @ code_span (str_int (ae_files_analyzed e)) @ '', findings: '' @ code_span (str_nat (length (ae_findings e))) @ '')''
            @ (if ae_detail e = [] then [] else '' '' @ dash @ '' '' @ ae_detail e)) (pa_analyzer_evidence r))
       @ [[], ''## Findings'', []]
       @ (if pa_findings r = [] then [''- none'']
          else map (\<lambda>f. ''- '' @ code_span (af_code f)
            @ (case af_path f of Some p \<Rightarrow> if p = [] then [] else '' '' @ code_span p | None \<Rightarrow> []) @ '': '' @ af_message f) (pa_findings r)))
     @ [CHR 0x0A]"

definition finding_payload :: "audit_finding \<Rightarrow> json" where
  "finding_payload f = JObj [(''code'', JStr (af_code f)), (''message'', JStr (af_message f)), (''path'', j_opt_str (af_path f))]"

definition project_audit_payload :: "project_audit_report \<Rightarrow> json" where
  "project_audit_payload r = JObj
     [(''project_root'', JStr (path_str (pa_project_root r))), (''ready'', JBool (audit_ok r)), (''metrics'', JObj (pa_metrics r)),
      (''findings'', JList (map finding_payload (pa_findings r))),
      (''language_analyzers'', JList (map (\<lambda>e. JObj
         [(''analyzer'', JStr (ae_analyzer e)), (''language'', JStr (ae_language e)), (''status'', JStr (ae_status e)),
          (''files_analyzed'', JInt (ae_files_analyzed e)), (''findings_count'', how_many (length (ae_findings e))),
          (''findings'', JList (map finding_payload (ae_findings e))), (''detail'', JStr (ae_detail e))]) (pa_analyzer_evidence r))),
      (''command_results'', JList (map command_result_payload (pa_command_results r)))]"

section \<open>The project's files\<close>

datatype entry = Folder | Readable string | Locked string

type_synonym tree = "(path \<times> entry) list"

definition entry_at :: "tree \<Rightarrow> path \<Rightarrow> entry option" where
  "entry_at t p = map_of t p"

definition exists_at :: "tree \<Rightarrow> path \<Rightarrow> bool" where
  "exists_at t p \<longleftrightarrow> entry_at t p \<noteq> None"

definition is_dir_at :: "tree \<Rightarrow> path \<Rightarrow> bool" where
  "is_dir_at t p \<longleftrightarrow> entry_at t p = Some Folder"

definition is_file_at :: "tree \<Rightarrow> path \<Rightarrow> bool" where
  "is_file_at t p \<longleftrightarrow> exists_at t p \<and> \<not> is_dir_at t p"

definition file_text :: "tree \<Rightarrow> path \<Rightarrow> string durable" where
  "file_text t p = (case entry_at t p of
     None \<Rightarrow> Missing
   | Some Folder \<Rightarrow> Unreadable (''[Errno 21] Is a directory: '' @ repr_str (path_str p))
   | Some (Readable s) \<Rightarrow> Content s
   | Some (Locked m) \<Rightarrow> Unreadable m)"

definition tree_disk :: "tree \<Rightarrow> text_disk" where
  "tree_disk t = \<lparr>td_files = file_text t, td_faults = []\<rparr>"

definition read_bytes :: "tree \<Rightarrow> path \<Rightarrow> string res" where
  "read_bytes t p = (case file_text t p of
     Missing \<Rightarrow> Inl (OSError (''[Errno 2] No such file or directory: '' @ repr_str (path_str p)))
   | Unreadable m \<Rightarrow> Inl (OSError m)
   | Content s \<Rightarrow> Inr s)"

definition read_text :: "tree \<Rightarrow> path \<Rightarrow> string res" where
  "read_text t p = rbind (read_bytes t p) (\<lambda>s. Inr (universal_newlines s))"

text \<open>\<open>directory.rglob("*")\<close> and \<open>directory.iterdir()\<close>\<close>

definition below :: "tree \<Rightarrow> path \<Rightarrow> path list" where
  "below t d = filter (\<lambda>p. case relative_to p d of Some q \<Rightarrow> p_parts q \<noteq> [] | None \<Rightarrow> False) (map fst t)"

definition children :: "tree \<Rightarrow> path \<Rightarrow> path list" where
  "children t d = filter (\<lambda>p. case relative_to p d of Some q \<Rightarrow> length (p_parts q) = 1 | None \<Rightarrow> False) (map fst t)"

definition child :: "path \<Rightarrow> string list \<Rightarrow> path" where
  "child p names = Path (p_root p) (p_parts p @ names)"

definition relative_text :: "path \<Rightarrow> path \<Rightarrow> string" where
  "relative_text root p = (case relative_to p root of Some q \<Rightarrow> path_str q | None \<Rightarrow> path_str p)"

section \<open>Documents\<close>

definition diagram_sources :: "(string \<times> string \<times> string \<times> string) list" where
  "diagram_sources =
     [(''c4_component'', ''architecture-c4-component.puml'', ''hoh-c4-component.png'', ''C4_COMPONENT_DIAGRAM''),
      (''sequence'', ''architecture-sequence.puml'', ''hoh-sequence.png'', ''SEQUENCE_DIAGRAM'')]"

definition diagram_digests :: string where
  "diagram_digests = ''diagrams.sha256''"

fun drop_returns :: "string \<Rightarrow> string" where
  "drop_returns (a # b # s) = (if a = CHR 0x0D \<and> b = CHR 0x0A then b # drop_returns s else a # drop_returns (b # s))"
| "drop_returns s = s"

definition diagram_source_digest :: "(string \<Rightarrow> string) \<Rightarrow> tree \<Rightarrow> path \<Rightarrow> string res" where
  "diagram_source_digest sha t source = rbind (read_bytes t source) (\<lambda>s. Inr (sha (drop_returns s)))"

definition contains_text :: "string \<Rightarrow> string \<Rightarrow> bool" where
  "contains_text s w \<longleftrightarrow> list_ex (\<lambda>i. startswith (drop i s) w) [0..<Suc (length s)]"

text \<open>The last line of a name counts, as in a \<open>dict\<close>.\<close>

definition recorded_digests :: "string \<Rightarrow> (string \<times> string) list" where
  "recorded_digests s = rev (concat (map (\<lambda>l. case split_ws l of [d, n] \<Rightarrow> [(n, d)] | _ \<Rightarrow> []) (splitlines s)))"

definition diagram_finding ::
  "(string \<Rightarrow> string) \<Rightarrow> tree \<Rightarrow> path \<Rightarrow> path \<Rightarrow> string \<Rightarrow> (string \<times> string) list \<Rightarrow> string \<times> string \<times> string \<times> string
     \<Rightarrow> (bool \<times> audit_finding list) res" where
  "diagram_finding sha t root docs architecture_text recorded = (\<lambda>(metric, source_name, image_name, kind).
     if \<not> (exists_at t (child docs [source_name]) \<and> exists_at t (child docs [image_name]) \<and> contains_text architecture_text image_name)
     then Inr (False, [finding_at (kind @ ''_MISSING'')
       (''Architecture documentation must ship '' @ source_name @ '', its rendered '' @ image_name @ '', and reference the image.'')
       (relative_text root (child docs [''architecture.md'']))])
     else rbind (diagram_source_digest sha t (child docs [source_name])) (\<lambda>digest.
       Inr (True, found_if (map_of recorded source_name \<noteq> Some digest) (finding_at (kind @ ''_RENDER_STALE'')
         (source_name @ '' changed since it was last rendered. Run scripts/render-diagrams.sh and commit the result.'')
         (relative_text root (child docs [source_name]))))))"

definition diagram_findings :: "(string \<Rightarrow> string) \<Rightarrow> tree \<Rightarrow> path \<Rightarrow> path \<Rightarrow> string \<Rightarrow> (audit_finding list \<times> metrics) res" where
  "diagram_findings sha t root docs architecture_text =
     rbind (if exists_at t (child docs [diagram_digests])
            then rbind (read_text t (child docs [diagram_digests])) (\<lambda>s. Inr (recorded_digests s)) else Inr []) (\<lambda>recorded.
     rbind (mapE (diagram_finding sha t root docs architecture_text recorded) diagram_sources) (\<lambda>results.
     let findings = concat (map snd results) in
     Inr (findings, map2 (\<lambda>(metric, _) (present, _). (metric @ ''_diagram_exists'', JBool present)) diagram_sources results
       @ [(''diagram_renders_current'', JBool (findings = []))])))"

definition non_markdown_docs :: "tree \<Rightarrow> path \<Rightarrow> path list" where
  "non_markdown_docs t docs =
     (if \<not> is_dir_at t docs then []
      else filter (\<lambda>p. is_file_at t p \<and> lower (path_suffix p) \<noteq> ''.md'' \<and> lower (path_suffix p) \<notin> {''.puml'', ''.png''}
        \<and> path_name p \<noteq> diagram_digests) (below t docs))"

definition document_findings :: "(string \<Rightarrow> string) \<Rightarrow> tree \<Rightarrow> path \<Rightarrow> (audit_finding list \<times> metrics) res" where
  "document_findings sha t root =
     (let readme = child root [''README.md'']; docs = child root [''docs'']; architecture = child docs [''architecture.md''] in
      rbind (if exists_at t architecture
          then rbind (read_text t architecture) (\<lambda>s. diagram_findings sha t root docs s)
          else Inr ([finding_at ''ARCHITECTURE_DOC_MISSING'' ''docs/architecture.md is required.'' ''docs/architecture.md''],
            [(''c4_component_diagram_exists'', JBool False), (''sequence_diagram_exists'', JBool False), (''diagram_renders_current'', JBool False)]))
        (\<lambda>(diagrams, diagram_metrics).
      Inr (found_if (\<not> exists_at t readme) (finding_at ''README_MISSING'' ''README.md is required.'' ''README.md'')
          @ found_if (\<not> is_dir_at t docs) (finding_at ''DOCS_DIR_MISSING'' ''docs/ directory is required.'' ''docs'')
          @ diagrams
          @ map (\<lambda>p. finding_at ''NON_MARKDOWN_DOCUMENTATION'' ''Documentation files must be Markdown.'' (relative_text root p)) (non_markdown_docs t docs),
        [(''readme_exists'', JBool (exists_at t readme)), (''docs_dir_exists'', JBool (exists_at t docs)),
         (''architecture_doc_exists'', JBool (exists_at t architecture))]
          @ diagram_metrics @ [(''non_markdown_docs_count'', how_many (length (non_markdown_docs t docs)))])))"

section \<open>Task files\<close>

definition lifecycle_task_files :: "tree \<Rightarrow> path \<Rightarrow> path list" where
  "lifecycle_task_files t tasks =
     (if \<not> is_dir_at t tasks then []
      else sort_key path_name (filter (\<lambda>p. is_file_at t p \<and> lower (path_suffix p) \<in> {''.json'', ''.md'', ''.markdown''}) (children t tasks)))"

text \<open>The identifiers seen so far with their files, the invalid files, the findings.\<close>

fun task_findings ::
  "tree \<Rightarrow> path \<Rightarrow> path list \<Rightarrow> (string \<times> path) list \<Rightarrow> nat \<Rightarrow> (audit_finding list \<times> (string \<times> path) list \<times> nat) res" where
  "task_findings t root [] seen invalid = Inr ([], seen, invalid)"
| "task_findings t root (p # ps) seen invalid =
     (case load_work_item p (tree_disk t) of
        Inl (TaskLoadError m) \<Rightarrow>
          rbind (task_findings t root ps seen (Suc invalid)) (\<lambda>(fs, rest).
          Inr (finding_at ''LIFECYCLE_TASK_INVALID'' (''Lifecycle task file is invalid: '' @ m) (relative_text root p) # fs, rest))
      | Inl e \<Rightarrow> Inl e
      | Inr w \<Rightarrow>
          (case map_of seen (wi_id w) of
             Some existing \<Rightarrow>
               rbind (task_findings t root ps seen invalid) (\<lambda>(fs, rest).
               Inr (finding_at ''LIFECYCLE_TASK_DUPLICATE_ID'' (''Lifecycle task id '' @ [CHR 0x27] @ wi_id w @ [CHR 0x27]
                 @ '' is duplicated by '' @ relative_text root existing @ ''.'') (relative_text root p) # fs, rest))
           | None \<Rightarrow> task_findings t root ps (seen @ [(wi_id w, p)]) invalid))"

definition lifecycle_findings :: "tree \<Rightarrow> path \<Rightarrow> (audit_finding list \<times> metrics) res" where
  "lifecycle_findings t root =
     (let docs = child root [''docs'', ''hoh'']; tasks = child root [''tasks'', ''hoh''];
          present = exists_at t docs \<or> exists_at t tasks;
          brief = child docs [''project-brief.md'']; roadmap = child docs [''roadmap.md''];
          files = lifecycle_task_files t tasks;
          metrics = [(''lifecycle_artifacts_present'', JBool present), (''lifecycle_project_brief_exists'', JBool (exists_at t brief)),
            (''lifecycle_roadmap_exists'', JBool (exists_at t roadmap)), (''lifecycle_task_files_count'', how_many (length files))]
      in if \<not> present then Inr ([], metrics @ [(''lifecycle_task_ids_count'', how_many 0), (''lifecycle_invalid_task_files_count'', how_many 0)])
         else rbind (task_findings t root files [] 0) (\<lambda>(tasks_found, seen, invalid).
           Inr (found_if (\<not> exists_at t brief) (finding_at ''LIFECYCLE_PROJECT_BRIEF_MISSING''
                  ''Lifecycle artifacts require docs/hoh/project-brief.md.'' ''docs/hoh/project-brief.md'')
                @ found_if (\<not> exists_at t roadmap) (finding_at ''LIFECYCLE_ROADMAP_MISSING''
                  ''Lifecycle artifacts require docs/hoh/roadmap.md.'' ''docs/hoh/roadmap.md'')
                @ found_if (files = []) (finding_at ''LIFECYCLE_TASKS_MISSING''
                  ''Lifecycle artifacts require at least one task file under tasks/hoh/.'' ''tasks/hoh'')
                @ tasks_found,
              metrics @ [(''lifecycle_task_ids_count'', how_many (length seen)), (''lifecycle_invalid_task_files_count'', how_many invalid)])))"

section \<open>Files of the project\<close>

definition generated_or_cache_parts :: "string list" where
  "generated_or_cache_parts = [''__pycache__'', ''.pytest_cache'', ''.mypy_cache'', ''.ruff_cache'', ''build'', ''dist'']"

definition tracked_generated_files :: "path \<Rightarrow> path list \<Rightarrow> path list" where
  "tracked_generated_files root files =
     filter (\<lambda>p. case relative_to p root of None \<Rightarrow> False | Some q \<Rightarrow> list_ex (\<lambda>x. x \<in> set generated_or_cache_parts) (p_parts q)) files"

definition text_file_suffixes :: "string list" where
  "text_file_suffixes = [''.cfg'', ''.ini'', ''.json'', ''.md'', ''.ps1'', ''.py'', ''.toml'', ''.txt'', ''.yaml'', ''.yml'']"

definition ignore_line_marker :: string where
  "ignore_line_marker = ''hoh-audit: ignore-line''"

definition negated_policy_line :: "(path \<Rightarrow> path) \<Rightarrow> path \<Rightarrow> path \<Rightarrow> string \<Rightarrow> bool" where
  "negated_policy_line resolve root p line =
     (case relative_to (resolve p) (resolve root) of
        None \<Rightarrow> False
      | Some q \<Rightarrow>
          let relative = casefold (path_str q) in
          (relative \<in> {''project-spec.json'', ''docs/hoh/project-brief.md'', ''docs/hoh/roadmap.md''} \<or> startswith relative ''tasks/hoh/'')
          \<and> marker_matches [] line \<noteq> []
          \<and> list_all (\<lambda>(front, rest). policy_before front \<or> policy_after rest) (marker_matches [] line))"

definition marker_findings_of :: "(path \<Rightarrow> path) \<Rightarrow> tree \<Rightarrow> path \<Rightarrow> path \<Rightarrow> audit_finding list res" where
  "marker_findings_of resolve t root p =
     (if lower (path_suffix p) \<notin> set text_file_suffixes \<or> \<not> is_file_at t p then Inr []
      else rbind (read_text t p) (\<lambda>text.
        Inr (concat (map (\<lambda>(i, line).
          found_if (\<not> contains_text line ignore_line_marker \<and> has_marker line \<and> \<not> negated_policy_line resolve root p line)
            (finding_at ''BLOCKING_MARKER_FOUND'' ''Final audit found blocking marker.'' (relative_text root p @ '':'' @ str_nat i)))
          (enumerate 1 (splitlines text))))))"

definition blocking_marker_findings :: "(path \<Rightarrow> path) \<Rightarrow> tree \<Rightarrow> path \<Rightarrow> path list \<Rightarrow> audit_finding list res" where
  "blocking_marker_findings resolve t root files = rbind (mapE (marker_findings_of resolve t root) files) (\<lambda>fss. Inr (concat fss))"

section \<open>The audit\<close>

text \<open>What the audit relies on: \<open>au_analyze\<close> is \<open>run_language_analyzers\<close> with the configuration of the project.\<close>

record 'r auditor =
  au_machine :: "'r machine"
  au_tree :: "'r \<Rightarrow> tree"
  au_resolve :: "path \<Rightarrow> path"
  au_sha256 :: "string \<Rightarrow> string"
  au_running :: "string \<Rightarrow> bool"
  au_analyze :: "path \<Rightarrow> path list \<Rightarrow> 'r \<Rightarrow> analyzer_evidence list res"
  au_fail_on_unavailable :: bool

definition is_git_repository :: "('r, 'x) machine_scheme \<Rightarrow> path \<Rightarrow> ('r, bool) op" where
  "is_git_repository mc root =
     mbind (run_git mc [''git'', ''rev-parse'', ''--is-inside-work-tree''] root None) (\<lambda>c.
     ret (co_code c = 0 \<and> strip (co_out c) = ''true''))"

definition git_lines :: "('r, 'x) machine_scheme \<Rightarrow> path \<Rightarrow> string list \<Rightarrow> ('r, string list) op" where
  "git_lines mc root args =
     mbind (run_git mc (''git'' # args) root None) (\<lambda>c.
     ret (if co_code c \<noteq> 0 then [] else filter (\<lambda>l. strip l \<noteq> []) (splitlines (co_out c))))"

definition tracked_files :: "('r, 'x) machine_scheme \<Rightarrow> path \<Rightarrow> ('r, path list) op" where
  "tracked_files mc root = mbind (git_lines mc root [''ls-files'']) (\<lambda>ls. ret (map (\<lambda>l. path_join root (path_of l)) ls))"

definition walk_project_files :: "tree \<Rightarrow> path \<Rightarrow> path list" where
  "walk_project_files t root =
     filter (\<lambda>p. is_file_at t p \<and> (case relative_to p root of Some q \<Rightarrow> ''.git'' \<notin> set (p_parts q) | None \<Rightarrow> False)) (below t root)"

definition run_check_command :: "('r, 'x) machine_scheme \<Rightarrow> (string \<Rightarrow> bool) \<Rightarrow> path \<Rightarrow> string \<Rightarrow> string \<Rightarrow> ('r, command_result) op" where
  "run_check_command mc running root timeout cmd =
     (case resolve_command running operator_policy cmd of
        Inl e \<Rightarrow> ret \<lparr>cr_command = cmd, cr_return_code = 126, cr_stdout = [], cr_stderr = exn_message e\<rparr>
      | Inr argv \<Rightarrow> (\<lambda>r. let (outcome, r') = mc_exec mc argv root timeout r in
          (Inr (case outcome of
             Completed c \<Rightarrow> \<lparr>cr_command = cmd, cr_return_code = co_code c, cr_stdout = co_out c, cr_stderr = co_err c\<rparr>
           | Not_Started m \<Rightarrow> \<lparr>cr_command = cmd, cr_return_code = 127, cr_stdout = [],
               cr_stderr = ''Verification command could not be started: '' @ m\<rparr>
           | Timed_Out out \<Rightarrow> \<lparr>cr_command = cmd, cr_return_code = 124, cr_stdout = out,
               cr_stderr = ''Verification command timed out after '' @ timeout @ '' seconds.''\<rparr>), r')))"

definition run_check_commands :: "('r, 'x) machine_scheme \<Rightarrow> (string \<Rightarrow> bool) \<Rightarrow> path \<Rightarrow> string \<Rightarrow> string list \<Rightarrow> ('r, command_result list) op" where
  "run_check_commands mc running root timeout cmds = mmap (run_check_command mc running root timeout) cmds"

definition analyzer_findings :: "bool \<Rightarrow> analyzer_evidence \<Rightarrow> audit_finding list" where
  "analyzer_findings fail_on_unavailable e =
     ae_findings e @ found_if (ae_status e = ''unavailable'' \<and> fail_on_unavailable)
       (finding ''LANGUAGE_ANALYZER_UNAVAILABLE'' (''Required analyzer '' @ [CHR 0x27] @ ae_analyzer e @ [CHR 0x27] @ '' is unavailable: '' @ ae_detail e))"

definition command_findings :: "command_result list \<Rightarrow> audit_finding list" where
  "command_findings results =
     found_if (results = []) (finding ''VERIFICATION_COMMANDS_MISSING'' ''Final audit requires at least one explicit verification command through --check.'')
     @ concat (map (\<lambda>c. found_if (\<not> command_ok c) (finding ''VERIFICATION_COMMAND_FAILED''
         (''Verification command exited with '' @ str_int (cr_return_code c) @ '': '' @ cr_command c))) results)"

definition run_project_audit :: "'r auditor \<Rightarrow> path \<Rightarrow> string list \<Rightarrow> string \<Rightarrow> ('r, project_audit_report) op" where
  "run_project_audit A project_root check_commands timeout =
     (let root = au_resolve A project_root; mc = au_machine A in
      mbind (gets (\<lambda>r. Inr (au_tree A r))) (\<lambda>t0.
      if \<not> is_dir_at t0 root then
        ret \<lparr>pa_project_root = root,
          pa_findings = [finding ''PROJECT_ROOT_MISSING'' ''Project root does not exist or is not a directory.''],
          pa_command_results = [], pa_analyzer_evidence = [], pa_metrics = []\<rparr>
      else
        mbind (is_git_repository mc root) (\<lambda>is_repo.
        mbind (if is_repo then git_lines mc root [''status'', ''--porcelain''] else ret []) (\<lambda>dirty.
        mbind (gets (\<lambda>r. Inr (au_tree A r))) (\<lambda>t.
        mbind (lift_res (document_findings (au_sha256 A) t root)) (\<lambda>(documents, document_metrics).
        mbind (lift_res (lifecycle_findings t root)) (\<lambda>(lifecycle, lifecycle_metrics).
        mbind (if is_repo then tracked_files mc root else ret (walk_project_files t root)) (\<lambda>files.
        mbind (gets (\<lambda>r. blocking_marker_findings (au_resolve A) (au_tree A r) root files)) (\<lambda>markers.
        mbind (gets (au_analyze A root files)) (\<lambda>evidence.
        mbind (run_check_commands mc (au_running A) root timeout check_commands) (\<lambda>results.
        let generated = tracked_generated_files root files in
        ret \<lparr>pa_project_root = root,
          pa_findings =
            found_if (\<not> is_repo) (finding ''GIT_REPOSITORY_MISSING'' ''Project root is not a git repository.'')
            @ found_if (dirty \<noteq> []) (finding ''GIT_WORKTREE_DIRTY'' ''Final audit requires a clean git worktree before readiness handoff.'')
            @ documents @ lifecycle
            @ map (\<lambda>p. finding_at ''TRACKED_GENERATED_ARTIFACT''
                ''Generated/cache/build artifacts must not be part of final project state unless explicitly justified.'' (relative_text root p)) generated
            @ markers @ concat (map (analyzer_findings (au_fail_on_unavailable A)) evidence) @ command_findings results,
          pa_command_results = results, pa_analyzer_evidence = evidence,
          pa_metrics =
            [(''is_git_repository'', JBool is_repo), (''git_dirty_entries'', how_many (length dirty))]
            @ document_metrics @ lifecycle_metrics
            @ [(''audited_files_count'', how_many (length files)), (''tracked_generated_files_count'', how_many (length generated)),
               (''blocking_markers_count'', how_many (length markers)), (''language_analyzers_count'', how_many (length evidence)),
               (''language_analyzers_findings_count'', how_many (sum_list (map (\<lambda>e. length (ae_findings e)) evidence))),
               (''language_analyzers_unavailable_count'', how_many (length (filter (\<lambda>e. ae_status e = ''unavailable'') evidence))),
               (''language_analyzers_unsupported_count'', how_many (length (filter (\<lambda>e. ae_status e = ''unsupported'') evidence))),
               (''verification_commands_count'', how_many (length results))]\<rparr>)))))))))))"

end
