(* ===== verification/Audit_Props.thy ===== *)
theory Audit_Props imports Project_Audit begin

text \<open>
  The properties of the project audit: \<open>project_ready\<close> says what a project that may be handed over is, in terms
  of its files, its repository and its commands; the report is ready exactly for those.
\<close>

section \<open>What a ready project is\<close>

definition recorded_in :: "tree \<Rightarrow> path \<Rightarrow> string \<Rightarrow> string option" where
  "recorded_in t docs source =
     (case read_text t (child docs [diagram_digests]) of Inr s \<Rightarrow> map_of (recorded_digests s) source | Inl _ \<Rightarrow> None)"

definition diagram_current :: "(string \<Rightarrow> string) \<Rightarrow> tree \<Rightarrow> path \<Rightarrow> string \<Rightarrow> string \<Rightarrow> string \<Rightarrow> bool" where
  "diagram_current sha t docs architecture_text source picture \<longleftrightarrow>
     exists_at t (child docs [source]) \<and> exists_at t (child docs [picture]) \<and> contains_text architecture_text picture
     \<and> (\<exists>bytes. read_bytes t (child docs [source]) = Inr bytes \<and> recorded_in t docs source = Some (sha (drop_returns bytes)))"

definition documents_ready :: "(string \<Rightarrow> string) \<Rightarrow> tree \<Rightarrow> path \<Rightarrow> bool" where
  "documents_ready sha t root \<longleftrightarrow>
     exists_at t (child root [''README.md'']) \<and> is_dir_at t (child root [''docs''])
     \<and> (\<exists>body. read_text t (child (child root [''docs'']) [''architecture.md'']) = Inr body
          \<and> (\<forall>(metric, source, picture, kind) \<in> set diagram_sources. diagram_current sha t (child root [''docs'']) body source picture))
     \<and> (\<forall>p \<in> set (below t (child root [''docs''])). is_file_at t p \<longrightarrow>
          lower (path_suffix p) \<in> {''.md'', ''.puml'', ''.png''} \<or> path_name p = diagram_digests)"

definition tasks_ready :: "tree \<Rightarrow> path \<Rightarrow> bool" where
  "tasks_ready t root \<longleftrightarrow>
     (exists_at t (child root [''docs'', ''hoh'']) \<or> exists_at t (child root [''tasks'', ''hoh'']) \<longrightarrow>
        exists_at t (child (child root [''docs'', ''hoh'']) [''project-brief.md'']) \<and> exists_at t (child (child root [''docs'', ''hoh'']) [''roadmap.md''])
        \<and> lifecycle_task_files t (child root [''tasks'', ''hoh'']) \<noteq> []
        \<and> (\<exists>items. list_all2 (\<lambda>p w. load_work_item p (tree_disk t) = Inr w) (lifecycle_task_files t (child root [''tasks'', ''hoh''])) items
             \<and> distinct (map wi_id items)))"

definition line_ready :: "(path \<Rightarrow> path) \<Rightarrow> path \<Rightarrow> path \<Rightarrow> string \<Rightarrow> bool" where
  "line_ready resolve root p line \<longleftrightarrow>
     contains_text line ignore_line_marker \<or> negated_policy_line resolve root p line
     \<or> (\<forall>i < length line. marker_at (before_drop None i line) (drop i line) = None)"

definition file_ready :: "(path \<Rightarrow> path) \<Rightarrow> tree \<Rightarrow> path \<Rightarrow> path \<Rightarrow> bool" where
  "file_ready resolve t root p \<longleftrightarrow>
     (\<forall>q. relative_to p root = Some q \<longrightarrow> set (p_parts q) \<inter> set generated_or_cache_parts = {})
     \<and> (lower (path_suffix p) \<in> set text_file_suffixes \<and> is_file_at t p \<longrightarrow>
          (\<exists>body. read_text t p = Inr body \<and> (\<forall>line \<in> set (splitlines body). line_ready resolve root p line)))"

text \<open>The answers of git the audit asks for.\<close>

definition git_answer :: "'r auditor \<Rightarrow> path \<Rightarrow> 'r \<Rightarrow> string list \<Rightarrow> completed" where
  "git_answer A root r args = fst (mc_git (au_machine A) (''git'' # args) root None r)"

definition answer_lines :: "completed \<Rightarrow> string list" where
  "answer_lines c = (if co_code c \<noteq> 0 then [] else filter (\<lambda>l. strip l \<noteq> []) (splitlines (co_out c)))"

definition repository_ready :: "'r auditor \<Rightarrow> path \<Rightarrow> 'r \<Rightarrow> bool" where
  "repository_ready A root r \<longleftrightarrow>
     co_code (git_answer A root r [''rev-parse'', ''--is-inside-work-tree'']) = 0
     \<and> strip (co_out (git_answer A root r [''rev-parse'', ''--is-inside-work-tree''])) = ''true''
     \<and> answer_lines (git_answer A root r [''status'', ''--porcelain'']) = []"

definition listed_files :: "'r auditor \<Rightarrow> path \<Rightarrow> 'r \<Rightarrow> path list" where
  "listed_files A root r = map (\<lambda>l. path_join root (path_of l)) (answer_lines (git_answer A root r [''ls-files'']))"

definition analyzers_ready :: "bool \<Rightarrow> analyzer_evidence list \<Rightarrow> bool" where
  "analyzers_ready required evidence \<longleftrightarrow> (\<forall>e \<in> set evidence. ae_findings e = [] \<and> (required \<longrightarrow> ae_status e \<noteq> ''unavailable''))"

definition project_ready :: "'r auditor \<Rightarrow> path \<Rightarrow> 'r \<Rightarrow> bool" where
  "project_ready A root r \<longleftrightarrow>
     is_dir_at (au_tree A r) root \<and> repository_ready A root r \<and> documents_ready (au_sha256 A) (au_tree A r) root
     \<and> tasks_ready (au_tree A r) root
     \<and> (\<forall>p \<in> set (listed_files A root r). file_ready (au_resolve A) (au_tree A r) root p)
     \<and> (\<exists>evidence. au_analyze A root (listed_files A root r) r = Inr evidence \<and> analyzers_ready (au_fail_on_unavailable A) evidence)"

section \<open>Documents\<close>

lemma found_if_empty [simp]: "found_if b f = [] \<longleftrightarrow> \<not> b"
  by (simp add: found_if_def)

lemma read_text_exists: "read_text t p = Inr s \<Longrightarrow> exists_at t p"
  by (auto simp: read_text_def rbind_Inr_iff read_bytes_def file_text_def exists_at_def split: durable.splits option.splits)

lemma read_bytes_exists: "read_bytes t p = Inr s \<Longrightarrow> exists_at t p"
  by (auto simp: read_bytes_def file_text_def exists_at_def split: durable.splits option.splits)

lemma diagram_finding_empty:
  assumes "diagram_finding sha t root docs body recorded (metric, source, picture, kind) = Inr (present, fs)"
    and "\<And>s. map_of recorded s = recorded_in t docs s"
  shows "fs = [] \<longleftrightarrow> diagram_current sha t docs body source picture"
  using assms by (auto simp: diagram_finding_def diagram_current_def diagram_source_digest_def rbind_Inr_iff split: if_splits)

lemma diagram_findings_empty:
  assumes "diagram_findings sha t root docs body = Inr (fs, m)"
  shows "fs = [] \<longleftrightarrow> (\<forall>(metric, source, picture, kind) \<in> set diagram_sources. diagram_current sha t docs body source picture)"
proof -
  obtain recorded results where r: "(if exists_at t (child docs [diagram_digests])
            then rbind (read_text t (child docs [diagram_digests])) (\<lambda>s. Inr (recorded_digests s)) else Inr []) = Inr recorded"
      "mapE (diagram_finding sha t root docs body recorded) diagram_sources = Inr results" "fs = concat (map snd results)"
    using assms by (auto simp: diagram_findings_def rbind_Inr_iff Let_def)
  have rec: "\<And>s. map_of recorded s = recorded_in t docs s"
    using r(1) read_text_exists [of t "child docs [diagram_digests]"]
    by (auto simp: recorded_in_def rbind_Inr_iff split: if_splits sum.splits)
  have one: "snd res = [] \<longleftrightarrow> (case d of (metric, source, picture, kind) \<Rightarrow> diagram_current sha t docs body source picture)"
    if "diagram_finding sha t root docs body recorded d = Inr res" for d res
    using diagram_finding_empty [of sha t root docs body recorded _ _ _ _ "fst res" "snd res"] that rec by (cases d) auto
  have "list_all2 (\<lambda>d res. diagram_finding sha t root docs body recorded d = Inr res) diagram_sources results"
    using r(2) by (simp add: mapE_Inr_iff)
  then have "list_all2 (\<lambda>d res. snd res = [] \<longleftrightarrow> (case d of (metric, source, picture, kind) \<Rightarrow> diagram_current sha t docs body source picture)) diagram_sources results"
    by (rule list_all2_mono) (rule one)
  then have "(\<forall>res \<in> set results. snd res = []) \<longleftrightarrow> (\<forall>d \<in> set diagram_sources. case d of (metric, source, picture, kind) \<Rightarrow> diagram_current sha t docs body source picture)"
    by (induction rule: list_all2_induct) auto
  then show ?thesis unfolding r(3) by simp
qed

lemma document_findings_empty:
  assumes "document_findings sha t root = Inr (fs, m)"
  shows "fs = [] \<longleftrightarrow> documents_ready sha t root"
proof -
  let ?docs = "child root [''docs'']" and ?arch = "child (child root [''docs'']) [''architecture.md'']"
  have md: "non_markdown_docs t ?docs = [] \<longleftrightarrow> (is_dir_at t ?docs \<longrightarrow> (\<forall>p \<in> set (below t ?docs). is_file_at t p \<longrightarrow>
          lower (path_suffix p) \<in> {''.md'', ''.puml'', ''.png''} \<or> path_name p = diagram_digests))"
    by (auto simp: non_markdown_docs_def filter_empty_conv)
  show ?thesis
  proof (cases "exists_at t ?arch")
    case True
    then obtain body ds dm where d: "read_text t ?arch = Inr body" "diagram_findings sha t root ?docs body = Inr (ds, dm)"
      and fs: "fs = [] \<longleftrightarrow> exists_at t (child root [''README.md'']) \<and> is_dir_at t ?docs \<and> ds = [] \<and> non_markdown_docs t ?docs = []"
      using assms by (auto simp: document_findings_def rbind_Inr_iff Let_def)
    show ?thesis unfolding fs documents_ready_def md diagram_findings_empty [OF d(2)] d(1) by blast
  next
    case False
    then have "fs \<noteq> []" using assms by (auto simp: document_findings_def Let_def)
    moreover have "\<not> documents_ready sha t root" using False read_text_exists [of t ?arch] by (auto simp: documents_ready_def)
    ultimately show ?thesis by simp
  qed
qed

section \<open>Task files\<close>

lemma ex_cons_iff: "(\<exists>xs. (\<exists>ws. xs = w # ws \<and> P ws) \<and> Q xs) \<longleftrightarrow> (\<exists>ws. P ws \<and> Q (w # ws))"
  by blast

lemma task_findings_empty:
  "task_findings t root ps seen invalid = Inr (fs, seen', invalid') \<Longrightarrow>
     fs = [] \<longleftrightarrow> (\<exists>items. list_all2 (\<lambda>p w. load_work_item p (tree_disk t) = Inr w) ps items
       \<and> distinct (map wi_id items) \<and> set (map wi_id items) \<inter> fst ` set seen = {})"
proof (induction ps arbitrary: fs seen invalid)
  case (Cons p ps)
  show ?case
  proof (cases "load_work_item p (tree_disk t)")
    case (Inl e)
    then have "fs \<noteq> []" using Cons.prems by (cases e) (auto simp: rbind_Inr_iff)
    then show ?thesis using Inl by (auto simp: list_all2_Cons1)
  next
    case (Inr w)
    show ?thesis
    proof (cases "map_of seen (wi_id w)")
      case None
      then have new: "wi_id w \<notin> fst ` set seen" by (simp add: map_of_eq_None_iff)
      have "task_findings t root ps (seen @ [(wi_id w, p)]) invalid = Inr (fs, seen', invalid')" using Cons.prems Inr None by simp
      note ih = Cons.IH [OF this]
      have step: "list_all2 (\<lambda>p w. load_work_item p (tree_disk t) = Inr w) (p # ps) items \<longleftrightarrow>
          (\<exists>ws. items = w # ws \<and> list_all2 (\<lambda>p w. load_work_item p (tree_disk t) = Inr w) ps ws)" for items
        using Inr by (auto simp: list_all2_Cons1)
      have fresh: "distinct (map wi_id (w # ws)) \<and> set (map wi_id (w # ws)) \<inter> fst ` set seen = {}
          \<longleftrightarrow> distinct (map wi_id ws) \<and> set (map wi_id ws) \<inter> fst ` set (seen @ [(wi_id w, p)]) = {}" for ws
        using new by auto
      have "(\<exists>items. list_all2 (\<lambda>p w. load_work_item p (tree_disk t) = Inr w) (p # ps) items
          \<and> distinct (map wi_id items) \<and> set (map wi_id items) \<inter> fst ` set seen = {})
        \<longleftrightarrow> (\<exists>ws. list_all2 (\<lambda>p w. load_work_item p (tree_disk t) = Inr w) ps ws
          \<and> (distinct (map wi_id (w # ws)) \<and> set (map wi_id (w # ws)) \<inter> fst ` set seen = {}))"
        unfolding step by (rule ex_cons_iff)
      then show ?thesis unfolding ih by (simp only: fresh)
    next
      case (Some q)
      then have known: "wi_id w \<in> fst ` set seen" by (metis domI dom_map_of_conv_image_fst)
      have "set (map wi_id items) \<inter> fst ` set seen \<noteq> {}"
        if "list_all2 (\<lambda>p w. load_work_item p (tree_disk t) = Inr w) (p # ps) items" for items
        using that known Inr by (cases items) auto
      moreover have "fs \<noteq> []" using Cons.prems Inr Some by (auto simp: rbind_Inr_iff)
      ultimately show ?thesis by blast
    qed
  qed
qed simp

lemma lifecycle_findings_empty:
  assumes "lifecycle_findings t root = Inr (fs, m)"
  shows "fs = [] \<longleftrightarrow> tasks_ready t root"
proof (cases "exists_at t (child root [''docs'', ''hoh'']) \<or> exists_at t (child root [''tasks'', ''hoh''])")
  case True
  then obtain found seen invalid where
      r: "task_findings t root (lifecycle_task_files t (child root [''tasks'', ''hoh''])) [] 0 = Inr (found, seen, invalid)"
    and fs: "fs = [] \<longleftrightarrow> exists_at t (child (child root [''docs'', ''hoh'']) [''project-brief.md''])
      \<and> exists_at t (child (child root [''docs'', ''hoh'']) [''roadmap.md'']) \<and> lifecycle_task_files t (child root [''tasks'', ''hoh'']) \<noteq> [] \<and> found = []"
    using assms by (auto simp: lifecycle_findings_def Let_def rbind_Inr_iff)
  show ?thesis unfolding fs task_findings_empty [OF r] tasks_ready_def using True by simp
next
  case False
  then show ?thesis using assms by (auto simp: lifecycle_findings_def Let_def tasks_ready_def)
qed

section \<open>Files\<close>

lemma line_finding_iff:
  "\<not> contains_text line ignore_line_marker \<and> has_marker line \<and> \<not> negated_policy_line resolve root p line
     \<longleftrightarrow> \<not> line_ready resolve root p line"
  by (auto simp: line_ready_def has_marker_iff)

lemma enumerate_all: "(\<forall>x \<in> set (enumerate n xs). P (snd x)) \<longleftrightarrow> (\<forall>x \<in> set xs. P x)"
  by (induction xs arbitrary: n) auto

lemma marker_findings_empty:
  assumes "marker_findings_of resolve t root p = Inr fs"
  shows "fs = [] \<longleftrightarrow> (lower (path_suffix p) \<in> set text_file_suffixes \<and> is_file_at t p \<longrightarrow>
          (\<exists>body. read_text t p = Inr body \<and> (\<forall>line \<in> set (splitlines body). line_ready resolve root p line)))"
proof (cases "lower (path_suffix p) \<in> set text_file_suffixes \<and> is_file_at t p")
  case True
  then obtain body where b: "read_text t p = Inr body" using assms by (auto simp: marker_findings_of_def rbind_Inr_iff)
  have "fs = [] \<longleftrightarrow> (\<forall>x \<in> set (enumerate 1 (splitlines body)). line_ready resolve root p (snd x))"
    using assms True b by (fastforce simp: marker_findings_of_def line_finding_iff case_prod_unfold)
  also have "\<dots> \<longleftrightarrow> (\<forall>line \<in> set (splitlines body). line_ready resolve root p line)" by (rule enumerate_all)
  finally show ?thesis using True b by simp
next
  case False
  then have "fs = []" using assms by (auto simp: marker_findings_of_def)
  then show ?thesis using False by blast
qed

lemma generated_empty:
  "tracked_generated_files root files = [] \<longleftrightarrow>
     (\<forall>p \<in> set files. \<forall>q. relative_to p root = Some q \<longrightarrow> set (p_parts q) \<inter> set generated_or_cache_parts = {})"
  by (auto simp: tracked_generated_files_def filter_empty_conv list_ex_iff split: option.splits)

lemma files_empty:
  assumes "blocking_marker_findings resolve t root files = Inr fs"
  shows "tracked_generated_files root files = [] \<and> fs = [] \<longleftrightarrow> (\<forall>p \<in> set files. file_ready resolve t root p)"
proof -
  obtain fss where m: "list_all2 (\<lambda>p fs. marker_findings_of resolve t root p = Inr fs) files fss" and fs: "fs = concat fss"
    using assms by (auto simp: blocking_marker_findings_def rbind_Inr_iff mapE_Inr_iff)
  have "fs = [] \<longleftrightarrow> (\<forall>p \<in> set files. lower (path_suffix p) \<in> set text_file_suffixes \<and> is_file_at t p \<longrightarrow>
          (\<exists>body. read_text t p = Inr body \<and> (\<forall>line \<in> set (splitlines body). line_ready resolve root p line)))"
    unfolding fs using m by (induction rule: list_all2_induct) (simp_all add: marker_findings_empty)
  then show ?thesis unfolding generated_empty file_ready_def by blast
qed

section \<open>Commands\<close>

lemma check_commands_run:
  "run_check_commands mc running root timeout cmds r = (Inr results, r') \<Longrightarrow>
     map cr_command results = cmds
     \<and> (\<forall>c \<in> set results. command_ok c \<longrightarrow> (\<exists>argv. resolve_command running operator_policy (cr_command c) = Inr argv))"
  unfolding run_check_commands_def
proof (induction cmds arbitrary: results r)
  case (Cons c cs)
  then obtain y ys s where y: "run_check_command mc running root timeout c r = (Inr y, s)"
      "mmap (run_check_command mc running root timeout) cs s = (Inr ys, r')" "results = y # ys"
    by (auto simp: op_inv_rules)
  have "cr_command y = c \<and> (command_ok y \<longrightarrow> (\<exists>argv. resolve_command running operator_policy c = Inr argv))"
    using y(1) by (auto simp: run_check_command_def command_ok_def Let_def split: sum.splits prod.splits exec_outcome.splits)
  then show ?case using Cons.IH [OF y(2)] y(3) by auto
qed simp

lemma command_findings_empty: "command_findings results = [] \<longleftrightarrow> results \<noteq> [] \<and> list_all command_ok results"
  by (auto simp: command_findings_def list_all_iff)

lemma analyzer_findings_empty: "concat (map (analyzer_findings b) evidence) = [] \<longleftrightarrow> analyzers_ready b evidence"
  by (auto simp: analyzer_findings_def analyzers_ready_def)

section \<open>The gate\<close>

text \<open>Git's queries change nothing.\<close>

definition queries_quiet :: "'r auditor \<Rightarrow> 'r \<Rightarrow> bool" where
  "queries_quiet A r \<longleftrightarrow> (\<forall>args root inp. snd (mc_git (au_machine A) (''git'' # args) root inp r) = r)"

lemma quiet_git:
  assumes "queries_quiet A r"
  shows "run_git (au_machine A) (''git'' # args) root None r = (Inr (git_answer A root r args), r)"
proof -
  have "snd (mc_git (au_machine A) (''git'' # args) root None r) = r" using assms by (simp add: queries_quiet_def)
  then show ?thesis by (simp add: run_git_def git_answer_def case_prod_unfold prod_eq_iff)
qed

lemma quiet_lines: "queries_quiet A r \<Longrightarrow> git_lines (au_machine A) root args r = (Inr (answer_lines (git_answer A root r args)), r)"
  by (simp add: git_lines_def answer_lines_def mbind_def quiet_git)

lemma quiet_repository: "queries_quiet A r \<Longrightarrow> is_git_repository (au_machine A) root r =
    (Inr (co_code (git_answer A root r [''rev-parse'', ''--is-inside-work-tree'']) = 0
      \<and> strip (co_out (git_answer A root r [''rev-parse'', ''--is-inside-work-tree''])) = ''true''), r)"
  by (simp add: is_git_repository_def mbind_def quiet_git)

lemma audit_parts:
  assumes run: "run_project_audit A project cmds timeout r = (Inr rep, r')" and quiet: "queries_quiet A r"
    and dir: "is_dir_at (au_tree A r) (au_resolve A project)"
  shows "\<exists>ds dm ls lm files ms evidence results. document_findings (au_sha256 A) (au_tree A r) (au_resolve A project) = Inr (ds, dm)
    \<and> lifecycle_findings (au_tree A r) (au_resolve A project) = Inr (ls, lm)
    \<and> (repository_ready A (au_resolve A project) r \<longrightarrow> files = listed_files A (au_resolve A project) r)
    \<and> blocking_marker_findings (au_resolve A) (au_tree A r) (au_resolve A project) files = Inr ms
    \<and> au_analyze A (au_resolve A project) files r = Inr evidence
    \<and> run_check_commands (au_machine A) (au_running A) (au_resolve A project) timeout cmds r = (Inr results, r')
    \<and> pa_command_results rep = results
    \<and> (pa_findings rep = [] \<longleftrightarrow> repository_ready A (au_resolve A project) r \<and> ds = [] \<and> ls = []
         \<and> tracked_generated_files (au_resolve A project) files = [] \<and> ms = []
         \<and> concat (map (analyzer_findings (au_fail_on_unavailable A)) evidence) = [] \<and> command_findings results = [])"
proof -
  let ?root = "au_resolve A project" and ?mc = "au_machine A" and ?t = "au_tree A r"
  define repo where "repo = (co_code (git_answer A ?root r [''rev-parse'', ''--is-inside-work-tree'']) = 0
      \<and> strip (co_out (git_answer A ?root r [''rev-parse'', ''--is-inside-work-tree''])) = ''true'')"
  define dirty where "dirty = (if repo then answer_lines (git_answer A ?root r [''status'', ''--porcelain'']) else [])"
  define files where "files = (if repo then listed_files A ?root r else walk_project_files ?t ?root)"
  have git: "is_git_repository ?mc ?root r = (Inr repo, r)"
      "(if repo then git_lines ?mc ?root [''status'', ''--porcelain''] else ret []) r = (Inr dirty, r)"
      "(if repo then tracked_files ?mc ?root else ret (walk_project_files ?t ?root)) r = (Inr files, r)"
    using quiet by (simp_all add: quiet_repository quiet_lines repo_def dirty_def files_def tracked_files_def listed_files_def mbind_def)
  have ready: "repository_ready A ?root r \<longleftrightarrow> repo \<and> dirty = []" by (auto simp: repository_ready_def repo_def dirty_def)
  note unfold = run_project_audit_def Let_def mbind_def dir git
  obtain ds dm where d: "document_findings (au_sha256 A) ?t ?root = Inr (ds, dm)"
    using run by (cases "document_findings (au_sha256 A) ?t ?root") (auto simp: unfold)
  obtain ls lm where l: "lifecycle_findings ?t ?root = Inr (ls, lm)"
    using run by (cases "lifecycle_findings ?t ?root") (auto simp: unfold d)
  obtain ms where m: "blocking_marker_findings (au_resolve A) ?t ?root files = Inr ms"
    using run by (cases "blocking_marker_findings (au_resolve A) ?t ?root files") (auto simp: unfold d l)
  obtain evidence where e: "au_analyze A ?root files r = Inr evidence"
    using run by (cases "au_analyze A ?root files r") (auto simp: unfold d l m)
  obtain results where c: "run_check_commands ?mc (au_running A) ?root timeout cmds r = (Inr results, r')"
    using run by (cases "run_check_commands ?mc (au_running A) ?root timeout cmds r"; cases "fst (run_check_commands ?mc (au_running A) ?root timeout cmds r)")
      (auto simp: unfold d l m e)
  have rep: "pa_command_results rep = results" "pa_findings rep =
            found_if (\<not> repo) (finding ''GIT_REPOSITORY_MISSING'' ''Project root is not a git repository.'')
            @ found_if (dirty \<noteq> []) (finding ''GIT_WORKTREE_DIRTY'' ''Final audit requires a clean git worktree before readiness handoff.'')
            @ ds @ ls
            @ map (\<lambda>p. finding_at ''TRACKED_GENERATED_ARTIFACT''
                ''Generated/cache/build artifacts must not be part of final project state unless explicitly justified.'' (relative_text ?root p))
                (tracked_generated_files ?root files)
            @ ms @ concat (map (analyzer_findings (au_fail_on_unavailable A)) evidence) @ command_findings results"
    using run by (auto simp: unfold d l m e c)
  have "repository_ready A ?root r \<longrightarrow> files = listed_files A ?root r" using ready by (simp add: files_def)
  moreover have "pa_findings rep = [] \<longleftrightarrow> repository_ready A ?root r \<and> ds = [] \<and> ls = [] \<and> tracked_generated_files ?root files = []
      \<and> ms = [] \<and> concat (map (analyzer_findings (au_fail_on_unavailable A)) evidence) = [] \<and> command_findings results = []"
    unfolding rep(2) ready by (simp only: append_is_Nil_conv found_if_empty map_is_Nil_conv not_not de_Morgan_conj) blast
  ultimately show ?thesis using d l m e c rep(1) by blast
qed


section \<open>An instance\<close>

text \<open>A project without plans, with both diagrams, a program and one check command; the digest is the text itself.\<close>

definition demo_place :: "string list \<Rightarrow> path" where
  "demo_place names = Path ''/'' (''p'' # names)"

definition demo_tree :: tree where
  "demo_tree =
     [(demo_place [], Folder), (demo_place [''README.md''], Readable ''Hi''), (demo_place [''docs''], Folder),
      (demo_place [''docs'', ''architecture.md''], Readable ''hoh-c4-component.png hoh-sequence.png''),
      (demo_place [''docs'', ''architecture-c4-component.puml''], Readable ''c4''), (demo_place [''docs'', ''hoh-c4-component.png''], Locked ''binary''),
      (demo_place [''docs'', ''architecture-sequence.puml''], Readable ''sq''), (demo_place [''docs'', ''hoh-sequence.png''], Locked ''binary''),
      (demo_place [''docs'', ''diagrams.sha256''],
        Readable (''c4 architecture-c4-component.puml'' @ [CHR 0x0A] @ ''sq architecture-sequence.puml'' @ [CHR 0x0A])),
      (demo_place [''main.py''], Readable ''todos'')]"

definition demo_git :: "string list \<Rightarrow> completed" where
  "demo_git args = \<lparr>co_code = 0, co_out =
     (if args = [''git'', ''rev-parse'', ''--is-inside-work-tree''] then ''true''
      else if args = [''git'', ''ls-files''] then ''README.md'' @ [CHR 0x0A] @ ''main.py'' @ [CHR 0x0A] else []), co_err = []\<rparr>"

definition demo_auditor :: "unit auditor" where
  "demo_auditor = \<lparr>au_machine = \<lparr>mc_git = (\<lambda>args _ _ r. (demo_git args, r)), mc_exec = (\<lambda>_ _ _ r. (Completed \<lparr>co_code = 0, co_out = [], co_err = []\<rparr>, r))\<rparr>,
     au_tree = (\<lambda>_. demo_tree), au_resolve = id, au_sha256 = id, au_running = (\<lambda>_. False), au_analyze = (\<lambda>_ _ _. Inr []),
     au_fail_on_unavailable = True\<rparr>"

lemma demo_audit:
  "case fst (run_project_audit demo_auditor (demo_place []) [''pytest''] ''1800.0'' ()) of Inl _ \<Rightarrow> False | Inr rep \<Rightarrow> audit_ok rep"
  by code_simp


end
