(* ===== verification/Spec2Isabelle.thy ===== *)
theory Spec2Isabelle imports Recovery_Props Verifier_Props Command_Props Ledger_Props Supervisor_Props Queue_Props Durable_Props Review_Props Rollback_Props Lease_Props Project_Props Telegram_Props Workspace_Props Release_Props Install_Props Audit_Props begin

text \<open>
  A verification library for the control plane of HoH (\<open>src/src/llm_harness\<close>), a harness in which a
  supervisor hands work items to untrusted workers, checks the patches they return, commits what it
  accepts and keeps the evidence of every decision in a durable state store.  File names below are
  those of \<open>src/src/llm_harness\<close> without their extension.

  \<^bold>\<open>How the program works.\<close>  A queue of tasks lives in the state store (\<open>state\<close>) of a project.  A turn of
  the queue (\<open>cli\<close>) takes the repository's lease (\<open>coordination\<close>), asks the operation ledger
  (\<open>operations\<close>) to settle what an interrupted process left behind, claims the task the scheduler
  selects, and lets the supervisor (\<open>supervisor\<close>) run a worker in a worktree of its own (\<open>attempts\<close>).
  The patch that comes back passes the gate (\<open>verifier\<close>), is applied (\<open>git_ops\<close>), tested by the task's
  commands (\<open>command_policy\<close>), judged by a semantic verifier and committed, or taken back.  The run, a
  review bundle (\<open>review_protocol\<close>) and the journal (\<open>journal\<close>) are recorded; a decision of a reviewer or
  of the operator (\<open>operator_decisions\<close>, \<open>telegram_polling\<close>) moves the task on, and a committed task can
  be rolled back (\<open>rollback\<close>).  Tasks come from task files (\<open>tasks\<close>) and project plans (\<open>lifecycle\<close>);
  a registry of projects (\<open>workspace\<close>) has the queues of all projects run in the background
  (\<open>background_scheduler\<close>), and new versions of the program arrive as signed catalogs
  (\<open>signed_catalog\<close>, \<open>updater\<close>).

  \<^bold>\<open>Foundations.\<close>  \<open>Prelude\<close>: exceptions as values (\<open>exn + 'a\<close>), operations with a state (\<open>('s, 'a) op\<close>, which
  keep the effects made before an exception), the locale \<open>effect\<close> of a reflexive and transitive relation
  between the states before and after an operation, from which every frame and invariant property of the
  development is derived.  \<open>Py_Str\<close>, \<open>Py_Path\<close>, \<open>Py_Json\<close>: what the code uses of \<open>str\<close>, \<open>pathlib\<close> and JSON
  values.  \<open>Json_Text\<close>, \<open>Json_Read\<close>, \<open>Json_Round\<close>: \<open>json.dumps\<close>, \<open>json.loads\<close> and that the second reads what the
  first wrote.  \<open>Durable_Text\<close>, \<open>Durable_Props\<close> (\<open>durable_io\<close>): the files as texts, the retried replacement,
  logs line by line.

  \<^bold>\<open>The state store.\<close>  \<open>Domain\<close>, \<open>Jobs\<close> (\<open>domain\<close>, \<open>jobs\<close>, \<open>trust\<close>, \<open>targets\<close>), \<open>State_Types\<close> with \<open>State_Codec\<close>
  (records and stored forms), \<open>Scheduler\<close> with \<open>Scheduler_Facts\<close> and \<open>Scheduler_Graph\<close> (selection, batches,
  the two graph searches), \<open>Journal\<close>, \<open>State_Store\<close> (every operation of \<open>HohStateStore\<close>).  \<open>State_Lifecycle\<close> is the
  abstract state machine of a queue entry, \<open>State_Refine\<close> the refinement, \<open>State_System\<close> the store under any
  sequence of commands, \<open>State_Evidence\<close> the logs (locales \<open>evidence\<close> and \<open>keyed_evidence\<close>, interpreted on the
  rollbacks, bundles and decisions), \<open>State_Crash\<close> the replay of an interrupted \<open>record_result\<close>, \<open>State_Ops\<close> the
  results on a healthy disk.  Properties: \<open>Scheduler_Props\<close>, \<open>State_Props\<close>, \<open>Recovery_Props\<close>.

  \<^bold>\<open>From the patch to the commit.\<close>  \<open>Verifier\<close>, \<open>Verifier_Facts\<close>, \<open>Patch_Text\<close> (\<open>verifier\<close>), \<open>Command_Policy\<close>
  (\<open>command_policy\<close>), \<open>Git_Ops\<close> (\<open>git_ops\<close>), \<open>World\<close> (repository, stores, ledger files, clock and identifiers
  together), \<open>Ledger_Record\<close> and \<open>Ledger\<close> with their lemmas in \<open>Ledger_Facts\<close>, \<open>Ledger_Steps\<close>, \<open>Ledger_System\<close>,
  \<open>Ledger_Runs\<close> (\<open>operations\<close>), \<open>Attempts\<close> (\<open>attempts\<close>, \<open>workers\<close>), \<open>Supervisor\<close>, \<open>Review_Protocol\<close> and
  \<open>Review_Ops\<close>, \<open>Wire_Formats\<close> (\<open>protocol\<close>), \<open>Queue_Run\<close> (\<open>cli\<close>, \<open>critic_runtime\<close>), \<open>Rollback\<close>.  \<open>Sample_Host\<close> and
  \<open>Sample_Supervisor\<close> are a concrete repository with its git commands, for the instances of the theorems.
  Properties: \<open>Verifier_Props\<close>, \<open>Command_Props\<close>, \<open>Ledger_Props\<close>, \<open>Supervisor_Props\<close>, \<open>Review_Props\<close>, \<open>Queue_Props\<close>,
  \<open>Rollback_Props\<close>.

  \<^bold>\<open>Around the queue.\<close>  \<open>Lease\<close>, \<open>Lease_Facts\<close>, \<open>Lease_Props\<close> (\<open>coordination\<close>): the only part with real
  interleaving, an inductive step relation of processes and threads with its invariants.  \<open>Field_Read\<close>,
  \<open>Task_Files\<close>, \<open>Project_Plan\<close>, \<open>Project_Facts\<close>, \<open>Project_Props\<close> (\<open>tasks\<close>, \<open>lifecycle\<close>, \<open>role_profiles\<close>).
  \<open>Operator_Commands\<close>, \<open>Operator_Facts\<close>, \<open>Operator_Props\<close> (\<open>operator_decisions\<close>, \<open>supervisor_protocol\<close>).
  \<open>Telegram\<close>, \<open>Telegram_Props\<close> (\<open>telegram\<close>, \<open>telegram_polling\<close>).  \<open>Workspace\<close>, \<open>Background\<close>, \<open>Workspace_Facts\<close>,
  \<open>Workspace_Props\<close> (\<open>workspace\<close>, \<open>background_scheduler\<close>, \<open>scheduler_service\<close>).  \<open>Release\<close>, \<open>Release_Props\<close>,
  \<open>Install_Props\<close> (\<open>signed_catalog\<close>, \<open>updater\<close>).  \<open>Marker_Text\<close>, \<open>Project_Audit\<close>, \<open>Audit_Props\<close> (\<open>audit\<close>): the gate before a
  project is handed over, with its regular expressions as functions on text and a specification of the project
  that is ready.

  \<^bold>\<open>How state corresponds to the code.\<close>  A dataclass is a record whose fields carry the source's names behind
  a prefix of the class; a \<open>dict\<close> is an association list in insertion order.  A file of a store, of the ledger
  or of the registry is a value of type \<open>durable\<close>: missing, unreadable, or the JSON value it holds; the text
  behind it is modelled once, in \<open>Durable_Text\<close>, \<open>Task_Files\<close> and \<open>Project_Plan\<close>.  Every durable write asks a
  budget (\<open>st_budget\<close>, \<open>w_budget\<close>, \<open>rg_budget\<close>, \<open>it_budget\<close>) that may run out at any write: that is how crashes and
  full disks enter, and theorems that do not mention the budget hold for every place of failure.  A lease that
  somebody else holds is the flag \<open>st_lock\<close>, \<open>w_lock\<close> or \<open>rg_lock\<close>.  Stores are found by their root path.

  \<^bold>\<open>Bounds.\<close>  Functions terminate by structural recursion or by measures stated with them.  The JSON reader
  has fuel twice the length of the text plus one, and \<open>Json_Round\<close> shows that what the writer produces is
  read with it.  The depth-first search of the scheduler removes a task from the unvisited ones with every call,
  the downstream closure adds one in every round.  The retried replacement is bounded by its deadline, a wait for
  the lease by its deadline and four steps of its own.  Integers are unbounded as in Python; the permission bits of
  packages are modelled with the bitwise operations of \<open>HOL-Library.Word\<close>.

  \<^bold>\<open>Parameters.\<close>  What is not in the repository is an argument: git and the commands of a task (functions on the
  repository's state), sha256, base64, the secret filter \<open>redact\<close>, \<open>Path.resolve\<close>, \<open>datetime.fromisoformat\<close> and its
  inverse, the bot service, the desktop, workers and critics.  Text is Latin-1; the few phrases of the source beyond
  it are parameters.  Paths are POSIX paths.  Times are numbers of a unit that is named where they occur.

  \<^bold>\<open>What is not modelled.\<close>  Floating-point values; usage metrics and their prices; the TOML configuration and the
  role catalogue; the adapters of external workers, models, critics and chat sessions; OAuth and key chains; the
  graphical interface, the HTTP front end and the argument parsing of \<open>cli\<close>; self-tests and installers.  They are
  I/O around third-party protocols and do not decide what is committed.  Workers of a batch run one after the
  other, and one world has one repository.

  \<^bold>\<open>What the theorems show.\<close>  The queue refines its lifecycle under every sequence of commands and faults; an
  interrupted result is completed once; selection and batches are optimal and conflict free; a patch touches only
  what its task allows; a commit, an imported decision and a rollback rest on complete evidence; a blocked
  repository is not worked on; what is written is read back; the lease excludes and its waits end; accepted plans
  reach the queue and never get stuck; operator commands are executed once and recorded; the registry keeps its
  projects apart; an update is signed, newest and reversible; the audit is ready exactly for a project that is.  Where the code does less than it means to, a theorem
  shows that, next to the property it limits (\<open>comment_hides_operators\<close>, \<open>form_feed_hides_section\<close>,
  \<open>replay_with_other_commit_fails\<close>, \<open>failed_poll_keeps_offset\<close>, \<open>removed_project_aborts\<close> and others).
\<close>

end
